(* ===== verification/Prelude.thy ===== *)
theory Prelude
  imports Complex_Main "HOL-Library.Log_Nat"
begin

text \<open>
  What the component theories share: the theorem collections of the development, the
  strings and JSON values of the program, the errors its functions throw, and the generic
  lemmas on lists and sums that the component proofs use.

  Strings are lists of ASCII characters. The operations below are those of the
  JavaScript library that the source calls, on ASCII text.
\<close>

named_theorems branch_defs "definitions unfolded to follow the branches of an operation"
named_theorems row_defs "definitions of the row predicates (the where clauses)"
named_theorems frame_simps "what an operation leaves unchanged"

subsection \<open>Strings\<close>

definition lowerChar :: "char \<Rightarrow> char" where
  "lowerChar c = (let n = of_char c :: int in if 65 \<le> n \<and> n \<le> 90 then char_of (n + 32) else c)"

definition upperChar :: "char \<Rightarrow> char" where
  "upperChar c = (let n = of_char c :: int in if 97 \<le> n \<and> n \<le> 122 then char_of (n - 32) else c)"

definition isSpace :: "char \<Rightarrow> bool" where
  "isSpace c = (let n = of_char c :: int in n = 32 \<or> (9 \<le> n \<and> n \<le> 13))"

definition toLowerCase :: "string \<Rightarrow> string" where
  "toLowerCase s = map lowerChar s"

definition toUpperCase :: "string \<Rightarrow> string" where
  "toUpperCase s = map upperChar s"

definition trim :: "string \<Rightarrow> string" where
  "trim s = rev (dropWhile isSpace (rev (dropWhile isSpace s)))"

text \<open>\<open>startsWith\<close> and the decimal notation of an integer (template literals).\<close>

fun startsWith :: "string \<Rightarrow> string \<Rightarrow> bool" where
  "startsWith s [] = True"
| "startsWith [] (_ # _) = False"
| "startsWith (c # s) (p # ps) = (c = p \<and> startsWith s ps)"

function showPos :: "int \<Rightarrow> string" where
  "showPos n = (if n < 10 then [char_of (48 + n)] else showPos (n div 10) @ [char_of (48 + n mod 10)])"
  by pat_completeness auto
termination
  by (relation "measure nat") auto

declare showPos.simps [simp del]

definition showInt :: "int \<Rightarrow> string" where
  "showInt i = (if i < 0 then ''-'' @ showPos (- i) else showPos i)"

text \<open>
  Digits: the value of a digit in a base, of a digit string, and the decimal notation with a
  fixed number of digits (\<open>padStart(k, '0')\<close> of a number below \<open>10 ^ k\<close>); \<open>padStart2\<close> is
  \<open>padStart(2, '0')\<close> of any text.
\<close>

definition digitValue :: "int \<Rightarrow> char \<Rightarrow> int option" where
  "digitValue base c =
     (let n = of_char (lowerChar c) :: int;
          d = (if 48 \<le> n \<and> n \<le> 57 then n - 48 else if 97 \<le> n \<and> n \<le> 122 then n - 87 else 99)
      in if d < base then Some d else None)"

definition isDigit :: "char \<Rightarrow> bool" where
  "isDigit c = (digitValue 10 c \<noteq> None)"

definition digitsValue :: "int \<Rightarrow> string \<Rightarrow> int" where
  "digitsValue base s =
     foldl (\<lambda>a c. a * base + (case digitValue base c of None \<Rightarrow> 0 | Some d \<Rightarrow> d)) 0 s"

definition padStart2 :: "string \<Rightarrow> string" where
  "padStart2 s = (case s of [] \<Rightarrow> ''00'' | [c] \<Rightarrow> ''0'' @ [c] | _ \<Rightarrow> s)"

fun padDigits :: "nat \<Rightarrow> int \<Rightarrow> string" where
  "padDigits 0 n = []"
| "padDigits (Suc k) n = padDigits k (n div 10) @ [char_of (48 + n mod 10)]"

lemma lowerChar_idem [simp]: "lowerChar (lowerChar c) = lowerChar c"
  by (auto simp: lowerChar_def Let_def)

lemma toLowerCase_idem [simp]: "toLowerCase (toLowerCase s) = toLowerCase s"
  by (simp add: toLowerCase_def comp_def)

lemma startsWith_iff: "startsWith s p \<longleftrightarrow> (\<exists>r. s = p @ r)"
  by (induction s p rule: startsWith.induct) auto

subsection \<open>Machines driven by a sequence of operations\<close>

text \<open>
  The interface of a component that keeps a state and offers operations: an invariant that
  every permitted operation keeps. What follows for all sequences of operations is proved
  here; each stateful component interprets it with its own operations.
\<close>

locale opMachine =
  fixes step :: "'op \<Rightarrow> 's \<Rightarrow> 's" and permitted :: "'op \<Rightarrow> bool" and holds :: "'s \<Rightarrow> bool"
  assumes step_holds: "holds s \<Longrightarrow> permitted op \<Longrightarrow> holds (step op s)"
begin

lemma run_holds: "holds s \<Longrightarrow> list_all permitted ops \<Longrightarrow> holds (fold step ops s)"
  by (induction ops arbitrary: s) (auto intro: step_holds)

end

end
