(* ===== verification/JsNumber.thy ===== *)
theory JsNumber
  imports Prelude
begin

text \<open>
  JavaScript numbers: IEEE 754 binary64 values, with every arithmetic result rounded to
  the nearest double, ties to even. A finite value is kept as the rational number it
  denotes, so comparisons are exact and only arithmetic rounds. The two zeros are one
  value here: no modelled code tells them apart (it compares, takes absolute values, and
  divides only by numbers it has checked to be positive).
\<close>

subsection \<open>Rounding\<close>

definition roundEven :: "rat \<Rightarrow> int" where
  "roundEven x =
     (let n = \<lfloor>x\<rfloor>; d = x - of_int n in
      if d < 1/2 then n else if 1/2 < d then n + 1 else if even n then n else n + 1)"

definition pow2 :: "int \<Rightarrow> rat" where
  "pow2 e = (if 0 \<le> e then 2 ^ nat e else 1 / 2 ^ nat (- e))"

text \<open>The binary exponent of a positive rational: the largest \<open>e\<close> with \<open>pow2 e \<le> x\<close>.\<close>

definition ilog2 :: "rat \<Rightarrow> int" where
  "ilog2 x =
     (let (p, q) = quotient_of x; e = bitlen p - bitlen q in
      if pow2 e \<le> x then e else e - 1)"

text \<open>The spacing of the doubles around \<open>x\<close>; subnormals all share the smallest spacing.\<close>

definition quantum :: "rat \<Rightarrow> rat" where
  "quantum x = pow2 (max (ilog2 x - 52) (- 1074))"

definition roundPos :: "rat \<Rightarrow> rat" where
  "roundPos x = of_int (roundEven (x / quantum x)) * quantum x"

datatype jsnum = NaN | PosInf | NegInf | Fin rat

definition overflowBound :: rat where
  "overflowBound = 2 ^ 1024"

definition rnd :: "rat \<Rightarrow> jsnum" where
  "rnd x =
     (if x = 0 then Fin 0
      else if 0 < x then (if roundPos x < overflowBound then Fin (roundPos x) else PosInf)
      else if roundPos (- x) < overflowBound then Fin (- roundPos (- x)) else NegInf)"

lemma roundEven_of_int [simp]: "roundEven (of_int n) = n"
  by (simp add: roundEven_def)

lemma roundEven_bounds: "\<lfloor>x\<rfloor> \<le> roundEven x" "roundEven x \<le> \<lfloor>x\<rfloor> + 1"
  by (auto simp: roundEven_def Let_def)

lemma roundEven_mono: "x \<le> y \<Longrightarrow> roundEven x \<le> roundEven y"
proof (cases "\<lfloor>x\<rfloor> = \<lfloor>y\<rfloor>")
  case True
  assume "x \<le> y"
  with True show ?thesis by (auto simp: roundEven_def Let_def)
next
  case False
  assume "x \<le> y"
  then have "\<lfloor>x\<rfloor> \<le> \<lfloor>y\<rfloor>" by (rule floor_mono)
  with False have "\<lfloor>x\<rfloor> + 1 \<le> \<lfloor>y\<rfloor>" by simp
  with roundEven_bounds(2)[of x] roundEven_bounds(1)[of y] show ?thesis by linarith
qed

lemma roundEven_nonneg: "0 \<le> x \<Longrightarrow> 0 \<le> roundEven x"
  using roundEven_mono[of 0 x] roundEven_of_int[of 0] by simp

lemma pow2_pos [simp]: "0 < pow2 e" "pow2 e \<noteq> 0" "0 \<le> pow2 e"
  by (auto simp: pow2_def)

lemma pow2_Suc: "pow2 (e + 1) = 2 * pow2 e"
proof (cases "0 \<le> e")
  case True
  then show ?thesis by (simp add: pow2_def nat_add_distrib)
next
  case False
  show ?thesis
  proof (cases "e = - 1")
    case True
    then show ?thesis by (simp add: pow2_def)
  next
    case F2: False
    with False have "nat (- e) = Suc (nat (- (e + 1)))" by simp
    with False F2 show ?thesis by (simp add: pow2_def)
  qed
qed

lemma pow2_add_nat: "pow2 (e + int n) = 2 ^ n * pow2 e"
proof (induction n)
  case (Suc n)
  have "pow2 (e + int (Suc n)) = pow2 ((e + int n) + 1)" by (simp add: algebra_simps)
  then show ?case by (simp add: pow2_Suc Suc)
qed simp

lemma pow2_mono: "a \<le> b \<Longrightarrow> pow2 a \<le> pow2 b"
  using pow2_add_nat[of a "nat (b - a)"] by simp

lemma pow2_split: "a \<le> b \<Longrightarrow> pow2 b = of_int (2 ^ nat (b - a)) * pow2 a"
  using pow2_add_nat[of a "nat (b - a)"] by simp

lemma pow2_minus: "pow2 (a - b) = pow2 a / pow2 b"
proof (cases "b \<le> a")
  case True
  have "pow2 (a - b) = of_int (2 ^ nat (a - b))" using True by (simp add: pow2_def)
  then show ?thesis using pow2_split[OF True] by simp
next
  case False
  then have "pow2 b = of_int (2 ^ nat (b - a)) * pow2 a" by (intro pow2_split) simp
  then show ?thesis using False by (simp add: pow2_def)
qed

lemma bitlen_pow2_bounds:
  assumes "0 < p"
  shows "pow2 (bitlen p - 1) \<le> of_int p" "of_int p < pow2 (bitlen p)"
proof -
  from bitlen_bounds[OF assms] have b: "2 ^ nat (bitlen p - 1) \<le> p" "p < 2 ^ nat (bitlen p)"
    by auto
  have pos: "1 \<le> bitlen p"
    using assms bitlen_eq_zero_iff[of p] bitlen_nonneg[of p] by linarith
  have "(of_int (2 ^ nat (bitlen p - 1)) :: rat) \<le> of_int p"
    using b(1) by (rule of_int_le_iff[THEN iffD2])
  with pos show "pow2 (bitlen p - 1) \<le> of_int p" by (simp add: pow2_def)
  have "(of_int p :: rat) < of_int (2 ^ nat (bitlen p))"
    using b(2) by (rule of_int_less_iff[THEN iffD2])
  with pos show "of_int p < pow2 (bitlen p)" by (simp add: pow2_def)
qed

lemma ilog2_bounds:
  assumes "0 < x"
  shows "pow2 (ilog2 x) \<le> x" "x < pow2 (ilog2 x + 1)"
proof -
  obtain p q where pq: "quotient_of x = (p, q)" by (cases "quotient_of x")
  then have q: "0 < q" and x: "x = of_int p / of_int q"
    using quotient_of_denom_pos quotient_of_div by blast+
  with assms have p: "0 < p" by (simp add: zero_less_divide_iff)
  let ?e = "bitlen p - bitlen q"
  note bp = bitlen_pow2_bounds[OF p] and bq = bitlen_pow2_bounds[OF q]
  have q': "0 < (of_int q :: rat)" using q by simp
  have lo: "pow2 (?e - 1) \<le> x"
  proof -
    have "pow2 (?e - 1) = pow2 (bitlen p - 1) / pow2 (bitlen q)"
      using pow2_minus[of "bitlen p - 1" "bitlen q"] by (simp add: algebra_simps)
    also have "\<dots> \<le> of_int p / of_int q"
      using bp(1) bq(2) q' p by (intro frac_le) auto
    finally show ?thesis by (simp add: x)
  qed
  have hi: "x < pow2 (?e + 1)"
  proof -
    have "of_int p / of_int q < pow2 (bitlen p) / of_int q"
      using bp(2) q' by (rule divide_strict_right_mono)
    also have "\<dots> \<le> pow2 (bitlen p) / pow2 (bitlen q - 1)"
      using bq(1) q'
      by (intro divide_left_mono) auto
    also have "\<dots> = pow2 (?e + 1)"
      using pow2_minus[of "bitlen p" "bitlen q - 1"] by (simp add: algebra_simps)
    finally show ?thesis by (simp add: x)
  qed
  from lo show "pow2 (ilog2 x) \<le> x" by (simp add: ilog2_def pq Let_def)
  from hi show "x < pow2 (ilog2 x + 1)" by (simp add: ilog2_def pq Let_def)
qed

lemma ilog2_mono:
  assumes "0 < x" "x \<le> y"
  shows "ilog2 x \<le> ilog2 y"
proof (rule ccontr)
  assume "\<not> ilog2 x \<le> ilog2 y"
  then have "pow2 (ilog2 y + 1) \<le> pow2 (ilog2 x)" by (intro pow2_mono) simp
  with ilog2_bounds[of x] ilog2_bounds[of y] assms show False by linarith
qed

lemma quantum_pos [simp]: "0 < quantum x" "quantum x \<noteq> 0" "0 \<le> quantum x"
  by (simp_all add: quantum_def)

lemma roundPos_exact:
  assumes "x / quantum x = of_int n"
  shows "roundPos x = x"
proof -
  from assms have "x = of_int n * quantum x" by (simp add: field_simps)
  then show ?thesis using assms by (simp add: roundPos_def)
qed

lemma roundPos_nonneg: "0 \<le> x \<Longrightarrow> 0 \<le> roundPos x"
  by (simp add: roundPos_def roundEven_nonneg)

text \<open>
  Rounding is monotone: inside one binade it is the monotone \<open>roundEven\<close> scaled; across
  binades the power of two between them is a fixed point of both scales.
\<close>

lemma roundPos_mono:
  assumes "0 < x" "x \<le> y"
  shows "roundPos x \<le> roundPos y"
proof (cases "quantum x = quantum y")
  case True
  have "x / quantum x \<le> y / quantum x"
    using assms(2) by (intro divide_right_mono) auto
  then have "roundEven (x / quantum x) \<le> roundEven (y / quantum x)" by (rule roundEven_mono)
  then have "(of_int (roundEven (x / quantum x)) :: rat) \<le> of_int (roundEven (y / quantum x))"
    by (rule of_int_le_iff[THEN iffD2])
  with True show ?thesis
    by (simp add: roundPos_def mult_right_mono)
next
  case False
  define g where "g = max (ilog2 x - 52) (- 1074)"
  define e where "e = ilog2 y"
  have le: "ilog2 x \<le> e" using ilog2_mono[OF assms] by (simp add: e_def)
  have gx: "quantum x = pow2 g" by (simp add: quantum_def g_def)
  have ne: "g \<noteq> max (e - 52) (- 1074)" using False by (auto simp: quantum_def g_def e_def)
  have gy: "quantum y = pow2 (e - 52)" and ge: "g \<le> e" and lt: "ilog2 x + 1 \<le> e"
    using ne le by (auto simp: quantum_def e_def g_def max_def split: if_splits)
  have "x \<le> pow2 e" using ilog2_bounds(2)[OF assms(1)] pow2_mono[OF lt] by linarith
  then have "x / quantum x \<le> of_int (2 ^ nat (e - g))"
    using pow2_split[OF ge] by (simp add: gx field_simps)
  then have "roundEven (x / quantum x) \<le> 2 ^ nat (e - g)"
    using roundEven_mono roundEven_of_int by metis
  then have "(of_int (roundEven (x / quantum x)) :: rat) \<le> of_int (2 ^ nat (e - g))"
    by (rule of_int_le_iff[THEN iffD2])
  then have "roundPos x \<le> of_int (2 ^ nat (e - g)) * pow2 g"
    unfolding roundPos_def gx by (intro mult_right_mono) auto
  then have 1: "roundPos x \<le> pow2 e" by (simp add: pow2_split[OF ge])
  have e52: "pow2 e = of_int (2 ^ 52) * pow2 (e - 52)" using pow2_split[of "e - 52" e] by simp
  have "pow2 e \<le> y" using ilog2_bounds(1)[of y] assms by (simp add: e_def)
  then have "of_int (2 ^ 52) \<le> y / quantum y"
    using e52 by (simp add: gy field_simps)
  then have "2 ^ 52 \<le> roundEven (y / quantum y)"
    using roundEven_mono roundEven_of_int by metis
  then have "(of_int (2 ^ 52) :: rat) \<le> of_int (roundEven (y / quantum y))"
    by (rule of_int_le_iff[THEN iffD2])
  then have "of_int (2 ^ 52) * pow2 (e - 52) \<le> roundPos y"
    unfolding roundPos_def gy by (intro mult_right_mono) auto
  with 1 e52 show ?thesis by simp
qed

text \<open>A rounded number is a double: rounding it again changes nothing.\<close>

lemma roundPos_idem:
  assumes "0 < x"
  shows "roundPos (roundPos x) = roundPos x"
proof (cases "roundPos x = 0")
  case True
  then show ?thesis by (simp add: roundPos_def[of 0] roundEven_def)
next
  case False
  define g where "g = max (ilog2 x - 52) (- 1074)"
  define k where "k = roundEven (x / quantum x)"
  define r where "r = roundPos x"
  define h where "h = max (ilog2 r - 52) (- 1074)"
  have r: "r = of_int k * pow2 g" by (simp add: r_def roundPos_def k_def quantum_def g_def)
  have rpos: "0 < r" using False roundPos_nonneg[of x] assms by (simp add: r_def)
  have "ilog2 x + 1 \<le> g + 53" unfolding g_def by linarith
  then have "x < pow2 (g + 53)"
    using ilog2_bounds(2)[OF assms] pow2_mono[of "ilog2 x + 1" "g + 53"] by linarith
  then have "x / quantum x \<le> of_int (2 ^ 53)"
    using pow2_add_nat[of g 53] by (simp add: quantum_def g_def[symmetric] field_simps)
  then have k53: "k \<le> 2 ^ 53"
    unfolding k_def using roundEven_mono roundEven_of_int by metis
  have below: "ilog2 r \<le> m" if "r < pow2 (m + 1)" for m
  proof (rule ccontr)
    assume "\<not> ilog2 r \<le> m"
    then have "pow2 (m + 1) \<le> pow2 (ilog2 r)" by (intro pow2_mono) simp
    with ilog2_bounds(1)[OF rpos] that show False by linarith
  qed
  have "\<exists>n. r / pow2 h = of_int n"
  proof (cases "k = 2 ^ 53")
    case True
    then have eq: "r = pow2 (g + 53)" using pow2_add_nat[of g 53] by (simp add: r)
    then have "ilog2 r \<le> g + 53" using pow2_Suc[of "g + 53"] by (intro below) simp
    then have "h \<le> g + 53" by (simp add: h_def g_def)
    from pow2_split[OF this] show ?thesis by (auto simp: eq)
  next
    case neq: False
    then have "(of_int k :: rat) < of_int (2 ^ 53)" using k53 by (intro of_int_less_iff[THEN iffD2]) simp
    then have "of_int k * pow2 g < of_int (2 ^ 53) * pow2 g" by (rule mult_strict_right_mono) simp
    also have "\<dots> = pow2 (g + 52 + 1)" using pow2_add_nat[of g 53] by (simp add: add.assoc)
    finally have "r < pow2 (g + 52 + 1)" by (simp only: r)
    then have "ilog2 r \<le> g + 52" by (rule below)
    then have "h \<le> g" by (simp add: h_def g_def)
    from pow2_split[OF this] have "r / pow2 h = of_int (k * 2 ^ nat (g - h))" by (simp add: r)
    then show ?thesis by blast
  qed
  then have "roundPos r = r" using roundPos_exact by (auto simp: quantum_def h_def)
  then show ?thesis by (simp add: r_def)
qed

lemma roundPos_of_int:
  assumes "0 < n" "n \<le> 2 ^ 53"
  shows "roundPos (of_int n) = of_int n"
proof -
  let ?e = "ilog2 (of_int n)"
  have b: "pow2 ?e \<le> of_int n" "of_int n < pow2 (?e + 1)"
    using ilog2_bounds[of "of_int n"] assms(1) by auto
  show ?thesis
  proof (cases "?e \<le> 52")
    case True
    define g where "g = max (?e - 52) (- 1074)"
    have g: "g \<le> 0" using True by (simp add: g_def)
    have "(of_int n :: rat) / quantum (of_int n) = of_int (n * 2 ^ nat (- g))"
      using g by (simp add: quantum_def g_def[symmetric] pow2_def)
    then show ?thesis by (rule roundPos_exact)
  next
    case False
    have "?e \<le> 53"
    proof (rule ccontr)
      assume "\<not> ?e \<le> 53"
      then have "pow2 54 \<le> pow2 ?e" by (intro pow2_mono) simp
      moreover have "(of_int n :: rat) \<le> of_int (2 ^ 53)" using assms(2) by (rule of_int_le_iff[THEN iffD2])
      ultimately show False using b(1) by (simp add: pow2_def)
    qed
    with False have e: "?e = 53" by simp
    have "(of_int (2 ^ 53) :: rat) \<le> of_int n" using b(1) by (simp add: e pow2_def)
    then have n: "n = 2 ^ 53" using assms(2) by (simp only: of_int_le_iff)
    have "(of_int n :: rat) / quantum (of_int n) = of_int (2 ^ 52)"
      by (simp add: quantum_def e) (simp add: n pow2_def)
    then show ?thesis by (rule roundPos_exact)
  qed
qed

subsection \<open>Comparison\<close>

text \<open>Every comparison with \<open>NaN\<close> is false.\<close>

fun jsLt :: "jsnum \<Rightarrow> jsnum \<Rightarrow> bool" where
  "jsLt (Fin a) (Fin b) = (a < b)"
| "jsLt (Fin _) PosInf = True"
| "jsLt NegInf (Fin _) = True"
| "jsLt NegInf PosInf = True"
| "jsLt _ _ = False"

definition jsEq :: "jsnum \<Rightarrow> jsnum \<Rightarrow> bool" where
  "jsEq x y = (x = y \<and> x \<noteq> NaN)"

definition jsLe :: "jsnum \<Rightarrow> jsnum \<Rightarrow> bool" where
  "jsLe x y = (jsLt x y \<or> jsEq x y)"

abbreviation jsGt :: "jsnum \<Rightarrow> jsnum \<Rightarrow> bool" where "jsGt x y \<equiv> jsLt y x"
abbreviation jsGe :: "jsnum \<Rightarrow> jsnum \<Rightarrow> bool" where "jsGe x y \<equiv> jsLe y x"

fun isFinite :: "jsnum \<Rightarrow> bool" where
  "isFinite (Fin _) = True"
| "isFinite _ = False"

text \<open>The truth value of a number: \<open>0\<close> and \<open>NaN\<close> are falsy.\<close>

definition truthy :: "jsnum \<Rightarrow> bool" where
  "truthy x = (x \<noteq> NaN \<and> x \<noteq> Fin 0)"

definition orElse :: "jsnum \<Rightarrow> jsnum \<Rightarrow> jsnum" where
  "orElse x y = (if truthy x then x else y)"

subsection \<open>Arithmetic\<close>

definition jsInt :: "int \<Rightarrow> jsnum" where
  "jsInt n = rnd (of_int n)"

definition signInf :: "rat \<Rightarrow> jsnum" where
  "signInf x = (if x = 0 then NaN else if 0 < x then PosInf else NegInf)"

fun jsNeg :: "jsnum \<Rightarrow> jsnum" where
  "jsNeg NaN = NaN"
| "jsNeg PosInf = NegInf"
| "jsNeg NegInf = PosInf"
| "jsNeg (Fin a) = Fin (- a)"

fun jsAdd :: "jsnum \<Rightarrow> jsnum \<Rightarrow> jsnum" where
  "jsAdd (Fin a) (Fin b) = rnd (a + b)"
| "jsAdd NaN _ = NaN"
| "jsAdd _ NaN = NaN"
| "jsAdd PosInf NegInf = NaN"
| "jsAdd NegInf PosInf = NaN"
| "jsAdd PosInf _ = PosInf"
| "jsAdd _ PosInf = PosInf"
| "jsAdd NegInf _ = NegInf"
| "jsAdd _ NegInf = NegInf"

definition jsSub :: "jsnum \<Rightarrow> jsnum \<Rightarrow> jsnum" where
  "jsSub x y = jsAdd x (jsNeg y)"

fun jsMul :: "jsnum \<Rightarrow> jsnum \<Rightarrow> jsnum" where
  "jsMul (Fin a) (Fin b) = rnd (a * b)"
| "jsMul NaN _ = NaN"
| "jsMul _ NaN = NaN"
| "jsMul PosInf (Fin b) = signInf b"
| "jsMul NegInf (Fin b) = signInf (- b)"
| "jsMul (Fin a) PosInf = signInf a"
| "jsMul (Fin a) NegInf = signInf (- a)"
| "jsMul PosInf PosInf = PosInf"
| "jsMul NegInf NegInf = PosInf"
| "jsMul PosInf NegInf = NegInf"
| "jsMul NegInf PosInf = NegInf"

fun jsDiv :: "jsnum \<Rightarrow> jsnum \<Rightarrow> jsnum" where
  "jsDiv (Fin a) (Fin b) = (if b = 0 then signInf a else rnd (a / b))"
| "jsDiv NaN _ = NaN"
| "jsDiv _ NaN = NaN"
| "jsDiv (Fin _) _ = Fin 0"
| "jsDiv PosInf (Fin b) = (if 0 \<le> b then PosInf else NegInf)"
| "jsDiv NegInf (Fin b) = (if 0 \<le> b then NegInf else PosInf)"
| "jsDiv _ _ = NaN"

fun jsAbs :: "jsnum \<Rightarrow> jsnum" where
  "jsAbs NaN = NaN"
| "jsAbs (Fin a) = Fin \<bar>a\<bar>"
| "jsAbs _ = PosInf"

fun jsFloor :: "jsnum \<Rightarrow> jsnum" where
  "jsFloor (Fin a) = Fin (of_int \<lfloor>a\<rfloor>)"
| "jsFloor x = x"

text \<open>\<open>Math.round\<close>: the nearest integer, halves upwards.\<close>

fun jsRound :: "jsnum \<Rightarrow> jsnum" where
  "jsRound (Fin a) = Fin (of_int \<lfloor>a + 1/2\<rfloor>)"
| "jsRound x = x"

definition jsMin :: "jsnum \<Rightarrow> jsnum \<Rightarrow> jsnum" where
  "jsMin x y = (if x = NaN \<or> y = NaN then NaN else if jsLt y x then y else x)"

definition jsMax :: "jsnum \<Rightarrow> jsnum \<Rightarrow> jsnum" where
  "jsMax x y = (if x = NaN \<or> y = NaN then NaN else if jsLt x y then y else x)"

text \<open>\<open>xs.reduce((total, x) => total + x, 0)\<close>\<close>

definition jsSum :: "jsnum list \<Rightarrow> jsnum" where
  "jsSum xs = foldl jsAdd (Fin 0) xs"

subsection \<open>Facts the components use\<close>

lemma jsLe_refl [simp]: "x \<noteq> NaN \<Longrightarrow> jsLe x x"
  by (simp add: jsLe_def jsEq_def)

lemma jsLe_Fin [simp]: "jsLe (Fin a) (Fin b) = (a \<le> b)"
  by (auto simp: jsLe_def jsEq_def)

lemma jsLe_PosInf [simp]: "jsLe x PosInf \<longleftrightarrow> x \<noteq> NaN"
  by (cases x) (auto simp: jsLe_def jsEq_def)

lemma PosInf_jsLe [simp]: "jsLe PosInf x \<longleftrightarrow> x = PosInf"
  by (cases x) (auto simp: jsLe_def jsEq_def)

lemma jsLe_NegInf [simp]: "jsLe x NegInf \<longleftrightarrow> x = NegInf"
  by (cases x) (auto simp: jsLe_def jsEq_def)

lemma NegInf_jsLe [simp]: "jsLe NegInf x \<longleftrightarrow> x \<noteq> NaN"
  by (cases x) (auto simp: jsLe_def jsEq_def)

lemma NaN_jsLe [simp]: "\<not> jsLe NaN x" "\<not> jsLe x NaN"
  by (cases x; simp add: jsLe_def jsEq_def)+

lemma jsLe_trans [trans]: "jsLe x y \<Longrightarrow> jsLe y z \<Longrightarrow> jsLe x z"
  by (cases x; cases y; cases z) auto

lemma not_jsLt: "x \<noteq> NaN \<Longrightarrow> y \<noteq> NaN \<Longrightarrow> \<not> jsLt x y \<longleftrightarrow> jsLe y x"
  by (cases x; cases y) auto

lemma jsLt_not_NaN: "jsLt x y \<Longrightarrow> x \<noteq> NaN \<and> y \<noteq> NaN"
  by (cases x; cases y) auto

lemma jsLt_imp_jsLe: "jsLt x y \<Longrightarrow> jsLe x y"
  by (simp add: jsLe_def)

lemma jsLe_not_NaN: "jsLe x y \<Longrightarrow> x \<noteq> NaN \<and> y \<noteq> NaN"
  by auto

lemma rnd_not_NaN [simp]: "rnd x \<noteq> NaN"
  by (simp add: rnd_def)

lemma rnd_0 [simp]: "rnd 0 = Fin 0"
  by (simp add: rnd_def)

lemma rnd_nonneg: "0 \<le> x \<Longrightarrow> jsLe (Fin 0) (rnd x)"
  by (auto simp: rnd_def roundPos_nonneg)

lemma rnd_nonpos: "x \<le> 0 \<Longrightarrow> jsLe (rnd x) (Fin 0)"
  by (auto simp: rnd_def roundPos_nonneg)

lemma rnd_mono: "x \<le> y \<Longrightarrow> jsLe (rnd x) (rnd y)"
proof -
  assume le: "x \<le> y"
  consider "0 \<le> y" "x \<le> 0" | "0 < x" | "y < 0" using le by linarith
  then show ?thesis
  proof cases
    case 1
    then show ?thesis using rnd_nonneg[of y] rnd_nonpos[of x] jsLe_trans by blast
  next
    case 2
    then show ?thesis using roundPos_mono[of x y] le by (auto simp: rnd_def)
  next
    case 3
    then show ?thesis using roundPos_mono[of "- y" "- x"] le by (auto simp: rnd_def)
  qed
qed

lemma rnd_of_int:
  assumes "\<bar>n\<bar> \<le> 2 ^ 53"
  shows "rnd (of_int n) = Fin (of_int n)"
proof -
  have b: "(of_int m :: rat) < overflowBound" if "m \<le> 2 ^ 53" for m
  proof -
    have "(of_int m :: rat) \<le> of_int (2 ^ 53)" using that by (rule of_int_le_iff[THEN iffD2])
    then show ?thesis by (simp add: overflowBound_def)
  qed
  show ?thesis
  proof (cases "0 < n")
    case True
    then show ?thesis using assms b[of n] by (simp add: rnd_def roundPos_of_int)
  next
    case False
    have "roundPos (of_int (- n)) = of_int (- n)" if "n < 0"
      using that assms by (intro roundPos_of_int) auto
    then show ?thesis using assms b[of "- n"] False by (auto simp: rnd_def)
  qed
qed

lemma rnd_idem:
  assumes "rnd x = Fin y"
  shows "rnd y = Fin y"
proof -
  consider "x = 0" | "0 < x" | "x < 0" by linarith
  then show ?thesis
  proof cases
    case 1
    then show ?thesis using assms by (simp add: rnd_def)
  next
    case 2
    then have "y = roundPos x" "roundPos x < overflowBound"
      using assms by (auto simp: rnd_def split: if_splits)
    then show ?thesis using 2 roundPos_idem[of x] roundPos_nonneg[of x] by (auto simp: rnd_def)
  next
    case 3
    then have "y = - roundPos (- x)" "roundPos (- x) < overflowBound"
      using assms by (auto simp: rnd_def split: if_splits)
    then show ?thesis using 3 roundPos_idem[of "- x"] roundPos_nonneg[of "- x"] by (auto simp: rnd_def)
  qed
qed

lemma jsInt_exact: "\<bar>n\<bar> \<le> 2 ^ 53 \<Longrightarrow> jsInt n = Fin (of_int n)"
  by (simp add: jsInt_def rnd_of_int)

lemma jsAdd_nonneg:
  "jsLe (Fin 0) x \<Longrightarrow> jsLe (Fin 0) y \<Longrightarrow> jsLe (Fin 0) (jsAdd x y)"
  by (cases x; cases y) (auto simp: rnd_nonneg)

lemma jsMul_nonneg_Fin:
  "0 \<le> a \<Longrightarrow> 0 \<le> b \<Longrightarrow> jsLe (Fin 0) (jsMul (Fin a) (Fin b))"
  by (simp add: rnd_nonneg)

lemma jsAdd_mono_left:
  "jsLe x y \<Longrightarrow> jsLe (Fin 0) x \<Longrightarrow> jsLe (Fin 0) z \<Longrightarrow> jsLe (jsAdd x z) (jsAdd y z)"
  by (cases x; cases y; cases z) (auto intro: rnd_mono)

lemma jsAbs_nonneg: "x \<noteq> NaN \<Longrightarrow> jsLe (Fin 0) (jsAbs x)"
  by (cases x) auto

lemma foldl_jsAdd_nonneg:
  "jsLe (Fin 0) a \<Longrightarrow> (\<forall>x\<in>set xs. jsLe (Fin 0) x) \<Longrightarrow> jsLe (Fin 0) (foldl jsAdd a xs)"
  by (induction xs arbitrary: a) (auto intro: jsAdd_nonneg)

lemma jsSum_nonneg: "(\<forall>x\<in>set xs. jsLe (Fin 0) x) \<Longrightarrow> jsLe (Fin 0) (jsSum xs)"
  by (simp add: jsSum_def foldl_jsAdd_nonneg)

text \<open>
  The values that arithmetic returns, and how a sum of nonnegative terms grows: adding a
  term never lowers it, so leaving terms out never raises it.
\<close>

definition isDouble :: "jsnum \<Rightarrow> bool" where
  "isDouble x = (case x of Fin a \<Rightarrow> rnd a = Fin a | _ \<Rightarrow> True)"

lemma isDouble_rnd [simp]: "isDouble (rnd x)"
  by (cases "rnd x") (auto simp: isDouble_def dest: rnd_idem)

lemma isDouble_jsAdd [simp]: "isDouble (jsAdd x y)"
  by (cases x; cases y) (auto simp: isDouble_def[of PosInf] isDouble_def[of NegInf] isDouble_def[of NaN])

lemma isDouble_0 [simp]: "isDouble (Fin 0)"
  by (simp add: isDouble_def)

lemma jsAdd_grows: "isDouble x \<Longrightarrow> jsLe (Fin 0) x \<Longrightarrow> jsLe (Fin 0) y \<Longrightarrow> jsLe x (jsAdd x y)"
  using rnd_mono by (cases x; cases y) (auto simp: isDouble_def, metis jsLe_Fin le_add_same_cancel1)

lemma foldl_jsAdd_filter_le:
  "isDouble b \<Longrightarrow> jsLe (Fin 0) a \<Longrightarrow> jsLe a b \<Longrightarrow> (\<forall>x\<in>set xs. jsLe (Fin 0) (f x)) \<Longrightarrow>
   jsLe (foldl jsAdd a (map f (filter P xs))) (foldl jsAdd b (map f xs))"
proof (induction xs arbitrary: a b)
  case (Cons x xs)
  have fx: "jsLe (Fin 0) (f x)" using Cons.prems(4) by simp
  have b0: "jsLe (Fin 0) b" using Cons.prems(2,3) jsLe_trans by blast
  have "jsLe a (jsAdd b (f x))"
    using jsLe_trans[OF Cons.prems(3) jsAdd_grows[OF Cons.prems(1) b0 fx]] .
  moreover have "jsLe (jsAdd a (f x)) (jsAdd b (f x))"
    using Cons.prems(2,3) fx by (intro jsAdd_mono_left)
  moreover have "jsLe (Fin 0) (jsAdd a (f x))" using Cons.prems(2) fx by (rule jsAdd_nonneg)
  ultimately show ?case using Cons.IH Cons.prems by simp
qed simp

lemma jsSum_filter_le:
  "(\<forall>x\<in>set xs. jsLe (Fin 0) (f x)) \<Longrightarrow> jsLe (jsSum (map f (filter P xs))) (jsSum (map f xs))"
  unfolding jsSum_def by (rule foldl_jsAdd_filter_le) auto

lemma jsAdd_commute: "jsAdd x y = jsAdd y x"
  by (cases x; cases y) (simp_all add: add.commute)

lemma jsAdd_mono:
  "jsLe x y \<Longrightarrow> jsLe u v \<Longrightarrow> jsLe (Fin 0) x \<Longrightarrow> jsLe (Fin 0) u \<Longrightarrow> jsLe (jsAdd x u) (jsAdd y v)"
  by (metis jsAdd_commute jsAdd_mono_left jsLe_trans)

lemma nonneg_not_NaN: "jsLe (Fin 0) x \<Longrightarrow> x \<noteq> NaN"
  by auto

text \<open>The error of a rounding: half a unit in the last place, relative to the number at most one part in \<open>2 ^ 53\<close>.\<close>

lemma roundEven_dist: "\<bar>of_int (roundEven x) - x\<bar> \<le> 1 / 2"
proof -
  have "of_int \<lfloor>x\<rfloor> \<le> x" "x < of_int \<lfloor>x\<rfloor> + 1" using floor_correct[of x] by simp_all
  then show ?thesis by (auto simp: roundEven_def Let_def abs_le_iff)
qed

lemma roundPos_dist: "\<bar>roundPos x - x\<bar> \<le> quantum x / 2"
proof -
  have "roundPos x - x = (of_int (roundEven (x / quantum x)) - x / quantum x) * quantum x"
    by (simp add: roundPos_def algebra_simps)
  then have "\<bar>roundPos x - x\<bar> = \<bar>of_int (roundEven (x / quantum x)) - x / quantum x\<bar> * quantum x"
    by (simp add: abs_mult)
  also have "\<dots> \<le> 1 / 2 * quantum x"
    by (rule mult_right_mono[OF roundEven_dist]) simp
  finally show ?thesis by simp
qed

lemma roundPos_relative:
  assumes "pow2 (- 1022) \<le> x"
  shows "\<bar>roundPos x - x\<bar> \<le> x / 2 ^ 53"
proof -
  have x: "0 < x" using assms pow2_pos(1)[of "- 1022"] by linarith
  have "- 1022 \<le> ilog2 x"
  proof (rule ccontr)
    assume "\<not> - 1022 \<le> ilog2 x"
    then have "pow2 (ilog2 x + 1) \<le> pow2 (- 1022)" by (intro pow2_mono) simp
    then show False using assms ilog2_bounds(2)[OF x] by linarith
  qed
  then have "quantum x = pow2 (ilog2 x - 52)" by (simp add: quantum_def)
  also have "\<dots> = pow2 (ilog2 x) / pow2 52" by (rule pow2_minus)
  finally have "quantum x / 2 \<le> x / 2 ^ 53" using ilog2_bounds(1)[OF x] by (simp add: pow2_def)
  then show ?thesis using roundPos_dist[of x] by linarith
qed

lemma rnd_at_least_one:
  assumes "0 < x" "rnd x = Fin y" "1 \<le> y"
  shows "y \<le> x * (1 + 1 / 2 ^ 53)"
proof -
  have y: "y = roundPos x" using assms by (auto simp: rnd_def split: if_splits)
  have "roundPos (1 / 2) = 1 / 2" by code_simp
  then have "1 / 2 < x" using roundPos_mono[of x "1 / 2"] assms y by (cases "x \<le> 1 / 2") auto
  moreover have "pow2 (- 1022) \<le> pow2 (- 1)" by (rule pow2_mono) simp
  ultimately have "pow2 (- 1022) \<le> x" by (simp add: pow2_def)
  then have "y - x \<le> x / 2 ^ 53" using roundPos_relative[of x] unfolding y by linarith
  then show ?thesis by (simp add: algebra_simps)
qed

end
