(* ===== verification/JsonValue.thy ===== *)
theory JsonValue
  imports JsNumber
begin

text \<open>
  JSON values (\<open>Prisma.JsonValue\<close>), the errors that the services throw, and the
  composition of fallible steps. A \<open>Date\<close> placed in a JSON object is kept as its time
  value: it is serialised with \<open>toISOString\<close>, which is injective on instants.
\<close>

datatype json =
    JNull
  | JBool bool
  | JNum jsnum
  | JStr string
  | JDate int
  | JArr "json list"
  | JObj "(string \<times> json) list"

text \<open>A property read; \<open>None\<close> is \<open>undefined\<close>. The last of two equal keys wins.\<close>

definition jsonGet :: "json \<Rightarrow> string \<Rightarrow> json option" where
  "jsonGet j k = (case j of JObj kvs \<Rightarrow> map_of (rev kvs) k | _ \<Rightarrow> None)"

text \<open>\<open>v ?? null\<close>, for the optional values of each type.\<close>

definition jInt :: "int \<Rightarrow> json" where
  "jInt n = JNum (jsInt n)"

definition jOpt :: "('a \<Rightarrow> json) \<Rightarrow> 'a option \<Rightarrow> json" where
  "jOpt f x = (case x of None \<Rightarrow> JNull | Some a \<Rightarrow> f a)"

text \<open>
  \<open>HttpError\<close> of \<open>src/errors/http-error.ts\<close>, and any other thrown \<open>Error\<close> by its
  \<open>name\<close> and \<open>message\<close>.
\<close>

datatype appError =
    HttpError int string json
  | PlainError string string

type_synonym 'a result = "appError + 'a"

definition bindR :: "'a result \<Rightarrow> ('a \<Rightarrow> 'b result) \<Rightarrow> 'b result" where
  "bindR m f = (case m of Inl e \<Rightarrow> Inl e | Inr a \<Rightarrow> f a)"

lemma bindR_simps [simp]: "bindR (Inl e) f = Inl e" "bindR (Inr a) f = f a"
  by (simp_all add: bindR_def)

lemma bindR_Inr_iff: "bindR m f = Inr b \<longleftrightarrow> (\<exists>a. m = Inr a \<and> f a = Inr b)"
  by (cases m) auto

lemma bindR_Inl_iff: "bindR m f = Inl e \<longleftrightarrow> m = Inl e \<or> (\<exists>a. m = Inr a \<and> f a = Inl e)"
  by (cases m) auto

text \<open>A list of fallible steps, in order; the first failure is the result.\<close>

fun mapR :: "('a \<Rightarrow> 'b result) \<Rightarrow> 'a list \<Rightarrow> 'b list result" where
  "mapR f [] = Inr []"
| "mapR f (x # xs) = bindR (f x) (\<lambda>y. bindR (mapR f xs) (\<lambda>ys. Inr (y # ys)))"

lemma mapR_Inr: "(\<And>x. x \<in> set xs \<Longrightarrow> f x = Inr (g x)) \<Longrightarrow> mapR f xs = Inr (map g xs)"
  by (induction xs) auto

end
