(* ===== verification/LifecycleStatus.thy ===== *)
theory LifecycleStatus
  imports JsonValue
begin

text \<open>
  The status vocabularies of the entry lifecycle and the broker orders:
  \<open>entry-lifecycle-status.service.ts\<close>, \<open>broker-order-lifecycle-status.service.ts\<close> and
  the status list of \<open>submitted-order-sync-selection.service.ts\<close>, on the strings the
  database holds. The claim machine is the table \<open>transitions\<close>; its phases show that
  no permitted sequence of transitions leads back.
\<close>

subsection \<open>Broker orders\<close>

definition TERMINAL_BROKER_ORDER_STATUSES :: "string list" where
  "TERMINAL_BROKER_ORDER_STATUSES =
     [''filled'', ''canceled'', ''expired'', ''rejected'', ''replaced'', ''done_for_day'', ''calculated'']"

definition normalizeBrokerOrderStatus :: "string \<Rightarrow> string" where
  "normalizeBrokerOrderStatus status =
     (let normalized = toLowerCase (trim status)
      in if normalized = ''cancelled'' then ''canceled'' else normalized)"

definition isTerminalBrokerOrderStatus :: "string \<Rightarrow> bool" where
  "isTerminalBrokerOrderStatus status =
     (normalizeBrokerOrderStatus status \<in> set TERMINAL_BROKER_ORDER_STATUSES)"

definition isNonterminalBrokerOrderStatus :: "string \<Rightarrow> bool" where
  "isNonterminalBrokerOrderStatus status = (\<not> isTerminalBrokerOrderStatus status)"

text \<open>The where clause \<open>{ notIn: [...] }\<close>, as the predicate it puts on the stored status.\<close>

definition NONTERMINAL_BROKER_ORDER_PRISMA_FILTER :: "string \<Rightarrow> bool" where
  "NONTERMINAL_BROKER_ORDER_PRISMA_FILTER status =
     (status \<notin> set (TERMINAL_BROKER_ORDER_STATUSES @ [''cancelled'']))"

subsection \<open>Entry intents and claims\<close>

definition UNRESOLVED_ORDER_INTENT_STATUSES :: "string list" where
  "UNRESOLVED_ORDER_INTENT_STATUSES = [''received'', ''pending'', ''submitting'', ''submitted'']"

definition BROKER_ACTIVE_ENTRY_STATUSES :: "string list" where
  "BROKER_ACTIVE_ENTRY_STATUSES =
     [''received'', ''pending'', ''submitting'', ''submitted'', ''new'', ''accepted'', ''pending_new'',
      ''accepted_for_bidding'', ''held'', ''pending_cancel'', ''pending_replace'', ''partially_filled'',
      ''stopped'', ''suspended'']"

definition TERMINAL_ENTRY_ORDER_STATUSES :: "string list" where
  "TERMINAL_ENTRY_ORDER_STATUSES =
     [''filled'', ''canceled'', ''cancelled'', ''expired'', ''rejected'', ''replaced'', ''done_for_day'',
      ''calculated'']"

definition SUBMITTED_ORDER_SYNC_INTENT_STATUSES :: "string list" where
  "SUBMITTED_ORDER_SYNC_INTENT_STATUSES =
     filter (\<lambda>status. status \<notin> set [''received'', ''pending'', ''submitting'']) BROKER_ACTIVE_ENTRY_STATUSES
     @ filter (\<lambda>status. status \<in> set [''done_for_day'', ''calculated'', ''replaced'']) TERMINAL_ENTRY_ORDER_STATUSES"

definition CLAIM_STATUSES :: "string list" where
  "CLAIM_STATUSES =
     [''ENTRY_PENDING'', ''ENTRY_SUBMITTING'', ''BROKER_ORDER_ACTIVE'', ''PARTIALLY_FILLED'',
      ''FILLED_AWAITING_POSITION'', ''POSITION_OPEN'', ''POSITION_CLOSING'', ''ADMISSION_BLOCKED'',
      ''UNRESOLVED'', ''RELEASED'']"

text \<open>The record \<open>transitions\<close>: the statuses a claim may move to from each status.\<close>

definition transitions :: "(string \<times> string list) list" where
  "transitions =
     [(''ENTRY_PENDING'', [''ENTRY_SUBMITTING'', ''ADMISSION_BLOCKED'', ''UNRESOLVED'', ''RELEASED'']),
      (''ENTRY_SUBMITTING'', [''BROKER_ORDER_ACTIVE'', ''UNRESOLVED'', ''RELEASED'']),
      (''BROKER_ORDER_ACTIVE'',
         [''PARTIALLY_FILLED'', ''FILLED_AWAITING_POSITION'', ''POSITION_OPEN'', ''UNRESOLVED'', ''RELEASED'']),
      (''PARTIALLY_FILLED'', [''FILLED_AWAITING_POSITION'', ''POSITION_OPEN'', ''UNRESOLVED'', ''RELEASED'']),
      (''FILLED_AWAITING_POSITION'', [''POSITION_OPEN'', ''UNRESOLVED'', ''RELEASED'']),
      (''POSITION_OPEN'', [''POSITION_CLOSING'', ''UNRESOLVED'', ''RELEASED'']),
      (''POSITION_CLOSING'', [''POSITION_OPEN'', ''UNRESOLVED'', ''RELEASED'']),
      (''ADMISSION_BLOCKED'', [''UNRESOLVED'', ''RELEASED'']),
      (''UNRESOLVED'', []),
      (''RELEASED'', [])]"

definition isEntryExposureClaimStatus :: "string \<Rightarrow> bool" where
  "isEntryExposureClaimStatus value = (value \<in> set CLAIM_STATUSES)"

definition canTransitionEntryExposureClaim :: "string \<Rightarrow> string \<Rightarrow> bool" where
  "canTransitionEntryExposureClaim source target \<longleftrightarrow>
     source = target \<or>
     (isEntryExposureClaimStatus source \<and> isEntryExposureClaimStatus target \<and>
      (case map_of transitions source of None \<Rightarrow> False | Some ts \<Rightarrow> target \<in> set ts))"

definition isBuyIntent :: "string \<Rightarrow> bool" where
  "isBuyIntent side = (toLowerCase (trim side) = ''buy'')"

definition isSellIntent :: "string \<Rightarrow> bool" where
  "isSellIntent side = (toLowerCase (trim side) = ''sell'')"

lemmas status_lists =
  TERMINAL_BROKER_ORDER_STATUSES_def UNRESOLVED_ORDER_INTENT_STATUSES_def
  BROKER_ACTIVE_ENTRY_STATUSES_def TERMINAL_ENTRY_ORDER_STATUSES_def CLAIM_STATUSES_def

lemma isEntryExposureClaimStatus_iff:
  "isEntryExposureClaimStatus s \<longleftrightarrow> s \<in> fst ` set transitions"
  by (simp add: isEntryExposureClaimStatus_def CLAIM_STATUSES_def transitions_def)

subsection \<open>Lifecycles that only move forward\<close>

text \<open>
  The interface of a status machine: steps never lower the rank of a status and terminal
  statuses have no step to another status. What holds of whole runs is proved here once.
\<close>

locale rankedLifecycle =
  fixes step :: "'s \<Rightarrow> 's \<Rightarrow> bool" and rank :: "'s \<Rightarrow> nat" and terminal :: "'s \<Rightarrow> bool"
  assumes step_rank: "step a b \<Longrightarrow> rank a \<le> rank b"
    and terminal_stuck: "terminal a \<Longrightarrow> step a b \<Longrightarrow> b = a"
begin

lemma run_rank: "step\<^sup>*\<^sup>* a b \<Longrightarrow> rank a \<le> rank b"
  by (induction rule: rtranclp_induct) (auto dest: step_rank)

lemma run_terminal: "step\<^sup>*\<^sup>* a b \<Longrightarrow> terminal a \<Longrightarrow> b = a"
  by (induction rule: rtranclp_induct) (auto dest: terminal_stuck)

lemma no_return: "step\<^sup>*\<^sup>* a b \<Longrightarrow> step\<^sup>*\<^sup>* b a \<Longrightarrow> rank a = rank b"
  by (rule antisym) (auto dest: run_rank)

end

text \<open>
  The phases of a claim: before the broker boundary, at the broker, filled without a
  position, holding a position, and closed to further transitions.
\<close>

definition claimPhase :: "string \<Rightarrow> nat" where
  "claimPhase s =
     (if s \<in> set [''ENTRY_PENDING'', ''ENTRY_SUBMITTING'', ''ADMISSION_BLOCKED''] then 0
      else if s \<in> set [''BROKER_ORDER_ACTIVE'', ''PARTIALLY_FILLED''] then 1
      else if s = ''FILLED_AWAITING_POSITION'' then 2
      else if s \<in> set [''POSITION_OPEN'', ''POSITION_CLOSING''] then 3
      else 4)"

definition claimTerminal :: "string \<Rightarrow> bool" where
  "claimTerminal s = (s = ''UNRESOLVED'' \<or> s = ''RELEASED'')"

lemma transitions_table:
  "\<forall>(s, ts) \<in> set transitions.
     (\<forall>t \<in> set ts. claimPhase s \<le> claimPhase t) \<and> (claimTerminal s \<longrightarrow> ts = [])"
  by code_simp

lemma transitions_phase:
  "(s, ts) \<in> set transitions \<Longrightarrow> t \<in> set ts \<Longrightarrow> claimPhase s \<le> claimPhase t"
  using transitions_table by blast

lemma transitions_terminal:
  "(s, ts) \<in> set transitions \<Longrightarrow> claimTerminal s \<Longrightarrow> ts = []"
  using transitions_table by blast

interpretation claimLife: rankedLifecycle canTransitionEntryExposureClaim claimPhase claimTerminal
proof
  fix a b :: string
  assume st: "canTransitionEntryExposureClaim a b"
  then consider "a = b" | ts where "(a, ts) \<in> set transitions" "b \<in> set ts"
    by (auto simp: canTransitionEntryExposureClaim_def dest: map_of_SomeD split: option.splits)
  then show "claimPhase a \<le> claimPhase b" by cases (auto dest: transitions_phase)
next
  fix a b :: string
  assume "claimTerminal a" and "canTransitionEntryExposureClaim a b"
  then show "b = a"
    by (auto simp: canTransitionEntryExposureClaim_def
        dest!: map_of_SomeD transitions_terminal split: option.splits)
qed

text \<open>A claim that has reached the broker never returns to a phase before it, on any
  sequence of permitted transitions; and a claim that is UNRESOLVED or RELEASED keeps
  that status.\<close>
lemma claim_runs_move_forward:
  "(canTransitionEntryExposureClaim\<^sup>*\<^sup>* s t \<longrightarrow> claimPhase s \<le> claimPhase t) \<and>
   (canTransitionEntryExposureClaim\<^sup>*\<^sup>* s t \<longrightarrow> claimTerminal s \<longrightarrow> t = s)"
  using claimLife.run_rank claimLife.run_terminal by blast

lemma claim_runs_move_forward_witness:
  "claimPhase ''ENTRY_PENDING'' \<le> claimPhase ''PARTIALLY_FILLED'' \<and>
   canTransitionEntryExposureClaim\<^sup>*\<^sup>* ''ENTRY_PENDING'' ''PARTIALLY_FILLED''"
proof -
  have "canTransitionEntryExposureClaim ''ENTRY_PENDING'' ''ENTRY_SUBMITTING''"
    "canTransitionEntryExposureClaim ''ENTRY_SUBMITTING'' ''BROKER_ORDER_ACTIVE''"
    "canTransitionEntryExposureClaim ''BROKER_ORDER_ACTIVE'' ''PARTIALLY_FILLED''"
    by code_simp+
  then have "canTransitionEntryExposureClaim\<^sup>*\<^sup>* ''ENTRY_PENDING'' ''PARTIALLY_FILLED''"
    by (meson converse_rtranclp_into_rtranclp r_into_rtranclp)
  then show ?thesis using claim_runs_move_forward by blast
qed

text \<open>
  The predicate of the database filter and the predicate of the services agree on the
  spellings the services store; the filter knows both spellings of \<open>canceled\<close>.
\<close>

lemma prisma_filter_agrees:
  "toLowerCase (trim status) = status \<Longrightarrow>
   NONTERMINAL_BROKER_ORDER_PRISMA_FILTER status = isNonterminalBrokerOrderStatus status"
  by (auto simp: NONTERMINAL_BROKER_ORDER_PRISMA_FILTER_def isNonterminalBrokerOrderStatus_def
      isTerminalBrokerOrderStatus_def normalizeBrokerOrderStatus_def TERMINAL_BROKER_ORDER_STATUSES_def)

end
