(* ===== verification/CivilTime.thy ===== *)
theory CivilTime
  imports Prelude
begin

text \<open>
  The part of the JavaScript date library that the source uses: instants are integers
  (milliseconds since 1970-01-01T00:00Z), calendar dates are computed in the proleptic
  Gregorian calendar, and a time zone is the function from an instant to its offset in
  milliseconds, as \<open>Intl.DateTimeFormat\<close> has it from its time zone database. The United
  States Eastern rule in force since 2007 is the concrete zone of the interpretations.
\<close>

definition msPerDay :: int where "msPerDay = 86400000"
definition msPerHour :: int where "msPerHour = 3600000"
definition msPerMinute :: int where "msPerMinute = 60000"

lemmas ms_defs = msPerDay_def msPerHour_def msPerMinute_def

subsection \<open>The calendar\<close>

definition isLeap :: "int \<Rightarrow> bool" where
  "isLeap y = (y mod 4 = 0 \<and> (y mod 100 \<noteq> 0 \<or> y mod 400 = 0))"

text \<open>Days from 0001-01-01 to the first of January of year \<open>y\<close>; 1970-01-01 is day 719162.\<close>

definition daysBeforeYear :: "int \<Rightarrow> int" where
  "daysBeforeYear y = 365 * (y - 1) + (y - 1) div 4 - (y - 1) div 100 + (y - 1) div 400"

definition yearOfDay :: "int \<Rightarrow> int" where
  "yearOfDay n =
     (let N = n + 719162; k = (400 * N) div 146097 in
      if daysBeforeYear (k + 2) \<le> N then k + 2
      else if daysBeforeYear (k + 1) \<le> N then k + 1
      else k)"

definition monthStart :: "bool \<Rightarrow> int \<Rightarrow> int" where
  "monthStart leap m =
     (let l = (if leap then 1 else 0) in
      if m \<le> 1 then 0 else if m = 2 then 31 else if m = 3 then 59 + l else if m = 4 then 90 + l
      else if m = 5 then 120 + l else if m = 6 then 151 + l else if m = 7 then 181 + l
      else if m = 8 then 212 + l else if m = 9 then 243 + l else if m = 10 then 273 + l
      else if m = 11 then 304 + l else 334 + l)"

definition monthOfYearDay :: "bool \<Rightarrow> int \<Rightarrow> int" where
  "monthOfYearDay leap doy =
     (if doy < monthStart leap 2 then 1 else if doy < monthStart leap 3 then 2
      else if doy < monthStart leap 4 then 3 else if doy < monthStart leap 5 then 4
      else if doy < monthStart leap 6 then 5 else if doy < monthStart leap 7 then 6
      else if doy < monthStart leap 8 then 7 else if doy < monthStart leap 9 then 8
      else if doy < monthStart leap 10 then 9 else if doy < monthStart leap 11 then 10
      else if doy < monthStart leap 12 then 11 else 12)"

text \<open>The day number of a date, with the day of the month allowed to run over its end.\<close>

definition daysFromCivil :: "int \<Rightarrow> int \<Rightarrow> int \<Rightarrow> int" where
  "daysFromCivil y m d = daysBeforeYear y + monthStart (isLeap y) m + (d - 1) - 719162"

record civilDate =
  cYear :: int
  cMonth :: int
  cDay :: int

definition civilFromDays :: "int \<Rightarrow> civilDate" where
  "civilFromDays n =
     (let y = yearOfDay n; doy = n + 719162 - daysBeforeYear y; m = monthOfYearDay (isLeap y) doy
      in \<lparr>cYear = y, cMonth = m, cDay = doy - monthStart (isLeap y) m + 1\<rparr>)"

text \<open>\<open>Date.UTC\<close> with a one-based month.\<close>

definition dateUTC :: "int \<Rightarrow> int \<Rightarrow> int \<Rightarrow> int \<Rightarrow> int \<Rightarrow> int \<Rightarrow> int" where
  "dateUTC y m d hh mi ss =
     daysFromCivil y m d * msPerDay + hh * msPerHour + mi * msPerMinute + ss * 1000"

lemma daysFromCivil_civilFromDays:
  "daysFromCivil (cYear (civilFromDays n)) (cMonth (civilFromDays n)) (cDay (civilFromDays n)) = n"
  by (simp add: daysFromCivil_def civilFromDays_def Let_def)

lemma daysFromCivil_add: "daysFromCivil y m (d + k) = daysFromCivil y m d + k"
  by (simp add: daysFromCivil_def)

lemma div_pred_step:
  fixes y c :: int
  assumes "0 < c"
  shows "y div c = (y - 1) div c + (if y mod c = 0 then 1 else 0)"
proof (cases "y mod c = 0")
  case True
  have "(y - 1) div c = y div c - 1"
    using assms True mult_div_mod_eq[of c y]
    by (intro int_div_pos_eq[of _ _ _ "c - 1"]) (auto simp: algebra_simps)
  then show ?thesis using True by simp
next
  case False
  have "0 < y mod c" "y mod c < c"
    using False pos_mod_sign[OF assms, of y] pos_mod_bound[OF assms, of y] by linarith+
  then have "(y - 1) div c = y div c"
    using mult_div_mod_eq[of c y]
    by (intro int_div_pos_eq[of _ _ _ "y mod c - 1"]) (auto simp: algebra_simps)
  then show ?thesis using False by simp
qed

lemma leap_tab:
  "(R \<Longrightarrow> Q) \<Longrightarrow> (Q \<Longrightarrow> P) \<Longrightarrow>
   (if P then 1 else 0) - (if Q then 1 else 0) + (if R then 1 else 0) =
   (if P \<and> (\<not> Q \<or> R) then 1 else (0::int))"
  by (cases P; cases Q; cases R) simp_all

lemma mod_0_trans: "c dvd d \<Longrightarrow> (y::int) mod d = 0 \<Longrightarrow> y mod c = 0"
  by (metis dvd_trans mod_eq_0_iff_dvd)

lemma century_dvd: "(100::int) dvd 400" "(4::int) dvd 100"
  by (rule dvdI[of _ _ 4] dvdI[of _ _ 25]; simp)+

lemma daysBeforeYear_Suc:
  "daysBeforeYear (y + 1) = daysBeforeYear y + (if isLeap y then 366 else 365)"
proof -
  define A where "A c = (y - 1) div c" for c
  define i :: "int \<Rightarrow> int" where "i c = (if y mod c = 0 then 1 else 0)" for c
  have st: "y div c = A c + i c" if "0 < c" for c
    unfolding A_def i_def by (rule div_pred_step[OF that])
  have "daysBeforeYear (y + 1) = 365 * y + (A 4 + i 4) - (A 100 + i 100) + (A 400 + i 400)"
    unfolding daysBeforeYear_def add_diff_cancel_right' by (subst st, simp)+ (rule refl)
  moreover have "daysBeforeYear y = 365 * (y - 1) + A 4 - A 100 + A 400"
    unfolding daysBeforeYear_def A_def by (rule refl)
  moreover have "i 4 - i 100 + i 400 = (if isLeap y then 1 else 0)"
    unfolding i_def isLeap_def by (rule leap_tab) (erule mod_0_trans[OF century_dvd(1)], erule mod_0_trans[OF century_dvd(2)])
  ultimately show ?thesis by (cases "isLeap y") auto
qed

lemma yearOfDay_bounds:
  "daysBeforeYear (yearOfDay n) \<le> n + 719162" "n + 719162 < daysBeforeYear (yearOfDay n + 1)"
proof -
  define N where "N = n + 719162"
  define k where "k = (400 * N) div 146097"
  have dv: "c * (j div c) \<le> j \<and> j < c * (j div c) + c" if "0 < c" for j c :: int
    using that mult_div_mod_eq[of c j] pos_mod_bound[of c j] pos_mod_sign[of c j] by linarith
  have k: "146097 * k \<le> 400 * N" "400 * N < 146097 * k + 146097"
    using dv[of 146097 "400 * N"] by (simp_all add: k_def)
  have dby: "400 * daysBeforeYear (j + 1) \<le> 146097 * j + 400 \<and>
     146097 * j - 800 \<le> 400 * daysBeforeYear (j + 1)" for j
    using dv[of 4 j] dv[of 100 j] dv[of 400 j] by (simp add: daysBeforeYear_def)
  have 1: "daysBeforeYear k \<le> N" using dby[of "k - 1"] k by simp
  have 2: "N < daysBeforeYear (k + 3)" using dby[of "k + 2"] k by (simp add: algebra_simps)
  show "daysBeforeYear (yearOfDay n) \<le> n + 719162"
    using 1 by (auto simp: yearOfDay_def Let_def k_def N_def)
  show "n + 719162 < daysBeforeYear (yearOfDay n + 1)"
    using 2 by (auto simp: yearOfDay_def Let_def k_def N_def algebra_simps)
qed

lemma monthStart_1: "monthStart leap 1 = 0"
  by (simp add: monthStart_def)

text \<open>The month found is the one the day of the year falls in.\<close>

lemma monthStart_monthOfYearDay:
  "0 \<le> doy \<Longrightarrow> monthStart leap (monthOfYearDay leap doy) \<le> doy"
  using monthStart_1[of leap] unfolding monthOfYearDay_def by (auto simp: not_less)

lemma civilFromDays_day_pos: "1 \<le> cDay (civilFromDays n)"
  using yearOfDay_bounds(1)[of n]
    monthStart_monthOfYearDay[of "n + 719162 - daysBeforeYear (yearOfDay n)" "isLeap (yearOfDay n)"]
  by (simp add: civilFromDays_def Let_def)

subsection \<open>Zones\<close>

text \<open>\<open>formatToParts\<close> with a time zone, at the precision of seconds.\<close>

record zonedParts =
  zDate :: civilDate
  zHour :: int
  zMinute :: int
  zSecond :: int

definition formatToParts :: "(int \<Rightarrow> int) \<Rightarrow> int \<Rightarrow> zonedParts" where
  "formatToParts zone t =
     (let local = t + zone t; ms = local mod msPerDay in
      \<lparr>zDate = civilFromDays (local div msPerDay), zHour = ms div msPerHour,
       zMinute = ms mod msPerHour div msPerMinute, zSecond = ms mod msPerMinute div 1000\<rparr>)"

text \<open>Sunday is 0, as for \<open>getUTCDay\<close>; 1970-01-01 was a Thursday.\<close>

definition dayOfWeek :: "int \<Rightarrow> int" where
  "dayOfWeek n = (n + 4) mod 7"

definition nthSunday :: "int \<Rightarrow> int \<Rightarrow> int \<Rightarrow> int" where
  "nthSunday y m k =
     (let first = daysFromCivil y m 1 in first + (7 - dayOfWeek first) mod 7 + 7 * (k - 1))"

text \<open>
  Eastern time: four hours behind UTC from 02:00 EST (07:00 UTC) on the second Sunday of
  March to 02:00 EDT (06:00 UTC) on the first Sunday of November, five hours otherwise.
\<close>

definition usEastern :: "int \<Rightarrow> int" where
  "usEastern t =
     (let y = yearOfDay (t div msPerDay) in
      if nthSunday y 3 2 * msPerDay + 7 * msPerHour \<le> t \<and> t < nthSunday y 11 1 * msPerDay + 6 * msPerHour
      then - 4 * msPerHour else - 5 * msPerHour)"

text \<open>
  What the daily window needs of the zone: offsets of whole seconds between four and five
  hours behind UTC, and no change of offset in the first six hours of a UTC day, which
  hold the local midnight.
\<close>

locale dayZone =
  fixes zone :: "int \<Rightarrow> int"
  assumes zone_range: "- 5 * msPerHour \<le> zone t" "zone t \<le> - 4 * msPerHour"
    and zone_seconds: "zone t mod 1000 = 0"
    and zone_midnight: "t div msPerDay = u div msPerDay \<Longrightarrow> t mod msPerDay < 6 * msPerHour \<Longrightarrow>
      u mod msPerDay < 6 * msPerHour \<Longrightarrow> zone t = zone u"
begin

definition midnight :: "int \<Rightarrow> int" where
  "midnight d = d * msPerDay - zone (d * msPerDay)"

definition localDay :: "int \<Rightarrow> int" where
  "localDay t = (t + zone t) div msPerDay"

lemma zone_early:
  "d * msPerDay \<le> t \<Longrightarrow> t < d * msPerDay + 6 * msPerHour \<Longrightarrow> zone t = zone (d * msPerDay)"
proof -
  assume lo: "d * msPerDay \<le> t" and hi: "t < d * msPerDay + 6 * msPerHour"
  define r where "r = t - d * msPerDay"
  have r: "t = d * msPerDay + r" "0 \<le> r" "r < 6 * msPerHour" using lo hi by (auto simp: r_def)
  then have "t div msPerDay = d" "t mod msPerDay = r"
    by (auto simp: ms_defs)
  then show ?thesis using r(3) by (intro zone_midnight) (auto simp: ms_defs)
qed

lemma midnight_range:
  "d * msPerDay + 4 * msPerHour \<le> midnight d" "midnight d \<le> d * msPerDay + 5 * msPerHour"
  using zone_range[of "d * msPerDay"] by (auto simp: midnight_def)

lemma midnight_le_iff: "midnight d \<le> t \<longleftrightarrow> d * msPerDay \<le> t + zone t"
proof (cases "d * msPerDay \<le> t \<and> t < d * msPerDay + 5 * msPerHour")
  case True
  then have "zone t = zone (d * msPerDay)" by (intro zone_early) (auto simp: ms_defs)
  then show ?thesis by (auto simp: midnight_def)
next
  case False
  then show ?thesis using midnight_range[of d] zone_range[of t] by (auto simp: ms_defs)
qed

lemma localDay_iff: "localDay t = d \<longleftrightarrow> midnight d \<le> t \<and> t < midnight (d + 1)"
proof -
  have "localDay t = d \<longleftrightarrow> d * msPerDay \<le> t + zone t \<and> t + zone t < (d + 1) * msPerDay"
    by (auto simp: localDay_def ms_defs)
  then show ?thesis using midnight_le_iff[of d t] midnight_le_iff[of "d + 1" t] by auto
qed

lemma midnight_mono: "d < e \<Longrightarrow> midnight d < midnight e"
  using midnight_range[of d] midnight_range[of e] by (auto simp: ms_defs)

end

lemma timeOfDay_fields:
  fixes ms :: int
  shows "ms div msPerHour * msPerHour + ms mod msPerHour div msPerMinute * msPerMinute
     + ms mod msPerMinute div 1000 * 1000 = ms - ms mod 1000"
proof -
  have "ms mod msPerHour mod msPerMinute = ms mod msPerMinute" "ms mod msPerMinute mod 1000 = ms mod 1000"
    by (auto simp: ms_defs mod_mod_cancel)
  then show ?thesis
    using div_mult_mod_eq[of ms msPerHour] div_mult_mod_eq[of "ms mod msPerHour" msPerMinute]
      div_mult_mod_eq[of "ms mod msPerMinute" 1000] by linarith
qed

interpretation usZone: dayZone usEastern
proof
  fix t u :: int
  show "- 5 * msPerHour \<le> usEastern t" "usEastern t \<le> - 4 * msPerHour" "usEastern t mod 1000 = 0"
    by (auto simp: usEastern_def ms_defs Let_def)
  assume day: "t div msPerDay = u div msPerDay"
    and early: "t mod msPerDay < 6 * msPerHour" "u mod msPerDay < 6 * msPerHour"
  have side: "a * msPerDay + k * msPerHour \<le> v \<longleftrightarrow> a < v div msPerDay"
    if "6 \<le> k" "k \<le> 7" "v mod msPerDay < 6 * msPerHour" for a k v :: int
  proof -
    have v: "v = v div msPerDay * msPerDay + v mod msPerDay" "0 \<le> v mod msPerDay"
      by (simp_all add: ms_defs)
    define q r where "q = v div msPerDay" and "r = v mod msPerDay"
    have "v = q * msPerDay + r" "0 \<le> r" "r < 6 * msPerHour" using v that(3) by (simp_all add: q_def r_def)
    then show ?thesis using that(1,2) by (fold q_def) (auto simp: ms_defs)
  qed
  show "usEastern t = usEastern u"
    using side[of 7 t] side[of 7 u] side[of 6 t] side[of 6 u] early day
    by (simp add: usEastern_def Let_def not_le [symmetric])
qed

end
