(* ===== verification/Store.thy ===== *)
theory Store
  imports JsonValue
begin

text \<open>
  The database as the services see it: one record per Prisma model with the columns the
  modelled code reads or writes, and the tables as lists of rows in the order the database
  returns them. A relation that a query includes is either embedded in the row (a
  subscription with its strategy, exit profile and security; an account subscription with
  its allocation) or followed through its identifier. Nullable columns are options;
  \<open>Float\<close> and \<open>Int\<close> columns reach JavaScript as numbers; timestamps are instants.
\<close>

record securityRow =
  secId :: int
  secSymbol :: string
  secEnabled :: bool

record strategyRow =
  strKey :: string
  strEnabled :: bool

record exitProfileRow =
  epKey :: string
  epEnabled :: bool

record subscriptionRow =
  subId :: int
  subKey :: string
  subSymbol :: string
  subEnabled :: bool
  subStrategy :: strategyRow
  subExitProfile :: exitProfileRow
  subSecurity :: securityRow

record allocationRow =
  alId :: int
  alKey :: string
  alName :: string
  alEnabled :: bool
  alTradingAccountId :: int
  alMaxAllocatedNotional :: "jsnum option"
  alMaxOpenPositions :: "jsnum option"
  alMaxPositionNotional :: "jsnum option"

datatype sizingType = FIXED_QTY | MAX_NOTIONAL

record accountSubscriptionRow =
  tasId :: int
  tasTradingAccountId :: int
  tasSubscriptionId :: int
  tasAllocationId :: "int option"
  tasAllocation :: "allocationRow option"
  tasEnabled :: bool
  tasEntriesEnabled :: bool
  tasExitsEnabled :: bool
  tasSizingType :: sizingType
  tasFixedQty :: "jsnum option"
  tasMaxPositionNotional :: "jsnum option"
  tasReservedNotional :: "jsnum option"
  tasMinPositionNotional :: "jsnum option"
  tasMaxQty :: "jsnum option"
  tasSymbol :: string

record riskSettingsRow =
  rsTradingAccountId :: int
  rsEnabled :: bool
  rsMaxDailyEntryOrders :: "jsnum option"
  rsMaxDailyEntryNotional :: "jsnum option"
  rsMaxOpenPositions :: "jsnum option"
  rsMaxTotalOpenNotional :: "jsnum option"
  rsMaxSymbolOpenNotional :: "jsnum option"
  rsMaxSubscriptionOpenNotional :: "jsnum option"

record tradingAccountRow =
  taId :: int
  taMaxDeployableNotional :: "jsnum option"
  taEnvironment :: string
  taStatus :: string
  taTradingEnabled :: bool
  taKillSwitchEnabled :: bool
  taCredentialStatus :: "string option"

record trackedPositionRow =
  tpId :: int
  tpSymbol :: string
  tpSecurityId :: int
  tpSubscriptionId :: "int option"
  tpTradingAccountId :: "int option"
  tpTradingAccountSubscriptionId :: "int option"
  tpMarketValue :: jsnum
  tpCostBasis :: jsnum
  tpStatus :: string
  tpTrailingStopOrderId :: "string option"
  tpTrailingStopStatus :: "string option"

record positionExitStateRow =
  pxTrackedPositionId :: int
  pxStatus :: string

record orderIntentRow =
  oiId :: int
  oiSymbol :: string
  oiSubscriptionId :: "int option"
  oiSide :: string
  oiStatus :: string
  oiBlockReason :: "string option"
  oiTrackedPositionId :: "int option"
  oiTradingAccountId :: "int option"
  oiTradingAccountSubscriptionId :: "int option"
  oiNotional :: "jsnum option"
  oiQty :: "jsnum option"
  oiLimitPrice :: "jsnum option"
  oiRawRequestJson :: json
  oiClientOrderId :: "string option"
  oiOrderType :: string
  oiTimeInForce :: string
  oiLiveEntryAcceptanceRunId :: "int option"
  oiCreatedAt :: int
  oiUpdatedAt :: int
  oiLastSubmittedOrderSyncAt :: "int option"

record brokerOrderRow =
  boId :: int
  boOrderIntentId :: int
  boTradingAccountId :: "int option"
  boSecurityId :: int
  boBrokerOrderId :: string
  boClientOrderId :: string
  boSymbol :: string
  boSide :: string
  boStatus :: string
  boTrackedPositionId :: "int option"
  boCreatedAt :: int

record store =
  settingTable :: "(string \<times> string) list"
  securityTable :: "securityRow list"
  subscriptionTable :: "subscriptionRow list"
  accountSubscriptionTable :: "accountSubscriptionRow list"
  riskSettingsTable :: "riskSettingsRow list"
  tradingAccountTable :: "tradingAccountRow list"
  trackedPositionTable :: "trackedPositionRow list"
  orderIntentTable :: "orderIntentRow list"
  brokerOrderTable :: "brokerOrderRow list"
  positionExitStateTable :: "positionExitStateRow list"

text \<open>
  \<open>findFirst\<close> and \<open>findUnique\<close> return the first row that satisfies the where clause;
  \<open>findMany\<close> all of them; \<open>Array.from(new Set(xs))\<close> keeps first occurrences.
\<close>

definition uniqueInOrder :: "'a list \<Rightarrow> 'a list" where
  "uniqueInOrder xs = rev (remdups (rev xs))"

lemma set_uniqueInOrder [simp]: "set (uniqueInOrder xs) = set xs"
  by (simp add: uniqueInOrder_def)

lemma distinct_uniqueInOrder [simp]: "distinct (uniqueInOrder xs)"
  by (simp add: uniqueInOrder_def)

text \<open>The fields of \<open>ResolvedPlaceOrderInput\<close> that the entry services read.\<close>

record placeOrderInput =
  poSymbol :: string
  poSide :: string
  poQty :: "jsnum option"
  poNotional :: "jsnum option"
  poLimitPrice :: "jsnum option"
  poSignalType :: "string option"
  poSubscriptionKey :: "string option"
  poSubscriptionId :: "int option"
  poTradingAccountSubscriptionId :: "int option"

text \<open>A store without rows and an intent of account 7, for concrete evaluations.\<close>

definition emptyStore :: store where
  "emptyStore =
     \<lparr>settingTable = [], securityTable = [], subscriptionTable = [], accountSubscriptionTable = [],
      riskSettingsTable = [], tradingAccountTable = [], trackedPositionTable = [],
      orderIntentTable = [], brokerOrderTable = [], positionExitStateTable = []\<rparr>"

definition sampleIntent :: orderIntentRow where
  "sampleIntent =
     \<lparr>oiId = 1, oiSymbol = ''SPY'', oiSubscriptionId = None, oiSide = ''buy'', oiStatus = ''pending'',
      oiBlockReason = None, oiTrackedPositionId = None, oiTradingAccountId = Some 7,
      oiTradingAccountSubscriptionId = None, oiNotional = None, oiQty = None, oiLimitPrice = None,
      oiRawRequestJson = JNull, oiClientOrderId = None, oiOrderType = ''market'', oiTimeInForce = ''day'',
      oiLiveEntryAcceptanceRunId = None, oiCreatedAt = 0, oiUpdatedAt = 0, oiLastSubmittedOrderSyncAt = None\<rparr>"

end
