(* ===== verification/RuntimeConfig.thy ===== *)
theory RuntimeConfig
  imports Store
begin

text \<open>
  \<open>src/services/config.service.ts\<close>: the runtime trading settings, read from the
  \<open>Setting\<close> table as strings and parsed with defaults. \<open>Number(text)\<close> is spelled out
  below: decimal literals with an optional exponent, \<open>Infinity\<close>, and the hexadecimal,
  octal and binary literals, rounded once to the nearest double.
\<close>

subsection \<open>Number of a string\<close>

definition exponentValue :: "string \<Rightarrow> int option" where
  "exponentValue s =
     (case s of [] \<Rightarrow> Some 0
      | c # r \<Rightarrow>
        if lowerChar c \<noteq> CHR ''e'' then None
        else
          let (neg, ds) = (case r of [] \<Rightarrow> (False, [])
                           | x # xs \<Rightarrow> if x = CHR ''-'' then (True, xs) else if x = CHR ''+'' then (False, xs)
                                       else (False, r))
          in if ds = [] \<or> \<not> list_all isDigit ds then None
             else Some (if neg then - digitsValue 10 ds else digitsValue 10 ds))"

definition tenPow :: "int \<Rightarrow> rat" where
  "tenPow e = (if 0 \<le> e then 10 ^ nat e else 1 / 10 ^ nat (- e))"

definition unsignedDecimal :: "string \<Rightarrow> jsnum" where
  "unsignedDecimal s =
     (if s = ''Infinity'' then PosInf
      else
        let whole = takeWhile isDigit s; rest = dropWhile isDigit s;
            (frac, tail) = (case rest of [] \<Rightarrow> ([], [])
              | c # r \<Rightarrow> if c = CHR ''.'' then (takeWhile isDigit r, dropWhile isDigit r) else ([], rest))
        in if whole = [] \<and> frac = [] then NaN
           else case exponentValue tail of None \<Rightarrow> NaN
             | Some e \<Rightarrow> rnd (of_int (digitsValue 10 (whole @ frac)) * tenPow (e - int (length frac))))"

definition radixLiteral :: "int \<Rightarrow> string \<Rightarrow> jsnum" where
  "radixLiteral base ds =
     (if ds = [] \<or> \<not> list_all (\<lambda>c. digitValue base c \<noteq> None) ds then NaN
      else rnd (of_int (digitsValue base ds)))"

definition stringToNumber :: "string \<Rightarrow> jsnum" where
  "stringToNumber s =
     (let t = trim s; p = toLowerCase (take 2 t) in
      if t = [] then Fin 0
      else if p = ''0x'' then radixLiteral 16 (drop 2 t)
      else if p = ''0o'' then radixLiteral 8 (drop 2 t)
      else if p = ''0b'' then radixLiteral 2 (drop 2 t)
      else if hd t = CHR ''-'' then jsNeg (unsignedDecimal (tl t))
      else if hd t = CHR ''+'' then unsignedDecimal (tl t)
      else unsignedDecimal t)"

subsection \<open>The configuration\<close>

record runtimeTradingConfig =
  tradingEnabled :: bool
  paperMode :: bool
  killSwitchEnabled :: bool
  maxDailyEntryOrders :: "jsnum option"
  maxDailyEntryNotional :: "jsnum option"
  maxOpenPositions :: "jsnum option"
  maxTotalOpenNotional :: "jsnum option"
  maxSymbolOpenNotional :: "jsnum option"
  maxSubscriptionOpenNotional :: "jsnum option"
  entrySessionGuardEnabled :: bool
  entryStartMinutesAfterOpen :: jsnum
  entryCutoffMinutesBeforeClose :: "jsnum option"
  failClosedOnMarketClockError :: bool
  reconciliationWorkerEnabled :: bool
  reconciliationWorkerIntervalMinutes :: jsnum

definition parseBoolean :: "string option \<Rightarrow> bool \<Rightarrow> bool" where
  "parseBoolean value fallback =
     (case value of None \<Rightarrow> fallback | Some v \<Rightarrow> toLowerCase v = ''true'')"

definition parseNullableNumber :: "string option \<Rightarrow> jsnum option \<Rightarrow> jsnum option" where
  "parseNullableNumber value fallback =
     (case value of None \<Rightarrow> fallback
      | Some v \<Rightarrow>
        (let normalized = toLowerCase (trim v) in
         if normalized = '''' \<or> normalized = ''null'' then None
         else
           (let parsed = stringToNumber v in
            if isFinite parsed then Some parsed else fallback)))"

definition nullish :: "'a option \<Rightarrow> 'a \<Rightarrow> 'a" where
  "nullish x d = (case x of None \<Rightarrow> d | Some a \<Rightarrow> a)"

definition getRuntimeTradingConfig :: "store \<Rightarrow> runtimeTradingConfig" where
  "getRuntimeTradingConfig db =
     (let get = map_of (rev (settingTable db)) in
      \<lparr>tradingEnabled = parseBoolean (get ''tradingEnabled'') False,
       paperMode = parseBoolean (get ''paperMode'') True,
       killSwitchEnabled = parseBoolean (get ''killSwitchEnabled'') False,
       maxDailyEntryOrders = parseNullableNumber (get ''maxDailyEntryOrders'') (Some (Fin 5)),
       maxDailyEntryNotional = parseNullableNumber (get ''maxDailyEntryNotional'') (Some (Fin 10000)),
       maxOpenPositions = parseNullableNumber (get ''maxOpenPositions'') (Some (Fin 5)),
       maxTotalOpenNotional = parseNullableNumber (get ''maxTotalOpenNotional'') (Some (Fin 25000)),
       maxSymbolOpenNotional = parseNullableNumber (get ''maxSymbolOpenNotional'') (Some (Fin 5000)),
       maxSubscriptionOpenNotional =
         parseNullableNumber (get ''maxSubscriptionOpenNotional'') (Some (Fin 5000)),
       entrySessionGuardEnabled = parseBoolean (get ''entrySessionGuardEnabled'') False,
       entryStartMinutesAfterOpen =
         nullish (parseNullableNumber (get ''entryStartMinutesAfterOpen'') (Some (Fin 15))) (Fin 15),
       entryCutoffMinutesBeforeClose =
         parseNullableNumber (get ''entryCutoffMinutesBeforeClose'') (Some (Fin 30)),
       failClosedOnMarketClockError = parseBoolean (get ''failClosedOnMarketClockError'') True,
       reconciliationWorkerEnabled = parseBoolean (get ''reconciliationWorkerEnabled'') False,
       reconciliationWorkerIntervalMinutes =
         nullish (parseNullableNumber (get ''reconciliationWorkerIntervalMinutes'') (Some (Fin 15))) (Fin 15)\<rparr>)"

text \<open>A limit is \<open>null\<close> or a finite number, whatever the table holds.\<close>

definition cleanLimit :: "jsnum option \<Rightarrow> bool" where
  "cleanLimit x = (case x of None \<Rightarrow> True | Some n \<Rightarrow> isFinite n)"

lemma parseNullableNumber_clean [intro]: "cleanLimit fallback \<Longrightarrow> cleanLimit (parseNullableNumber v fallback)"
  by (auto simp: parseNullableNumber_def cleanLimit_def Let_def split: option.splits if_splits)

lemma cleanLimit_Fin [simp]: "cleanLimit (Some (Fin q))"
  by (simp add: cleanLimit_def)

lemma nullish_finite: "cleanLimit x \<Longrightarrow> isFinite d \<Longrightarrow> isFinite (nullish x d)"
  by (auto simp: cleanLimit_def nullish_def split: option.splits)

text \<open>The configuration read from any contents of the settings table holds only absent or
  finite limits and finite buffer minutes: text that is not a number, \<open>Infinity\<close> and \<open>NaN\<close>
  fall back to the default.\<close>
lemma runtime_config_limits_clean:
  "cleanLimit (maxDailyEntryOrders (getRuntimeTradingConfig db)) \<and>
   cleanLimit (maxDailyEntryNotional (getRuntimeTradingConfig db)) \<and>
   cleanLimit (maxOpenPositions (getRuntimeTradingConfig db)) \<and>
   cleanLimit (maxTotalOpenNotional (getRuntimeTradingConfig db)) \<and>
   cleanLimit (maxSymbolOpenNotional (getRuntimeTradingConfig db)) \<and>
   cleanLimit (maxSubscriptionOpenNotional (getRuntimeTradingConfig db)) \<and>
   cleanLimit (entryCutoffMinutesBeforeClose (getRuntimeTradingConfig db)) \<and>
   isFinite (entryStartMinutesAfterOpen (getRuntimeTradingConfig db)) \<and>
   isFinite (reconciliationWorkerIntervalMinutes (getRuntimeTradingConfig db))"
  unfolding getRuntimeTradingConfig_def Let_def
  by (simp add: parseNullableNumber_clean nullish_finite)

end
