(* ===== verification/EntryLimits.thy ===== *)
theory EntryLimits
  imports RuntimeConfig CivilTime LifecycleStatus
begin

text \<open>
  \<open>src/services/trading-account-entry-risk-limits.service.ts\<close>: the effective entry limits
  of an account, the New York trading day, and the two classifications of entry intents
  that the risk usage counts. The offset of the time zone is a parameter: \<open>Intl\<close> takes it
  from its database.
\<close>

subsection \<open>Effective limits\<close>

datatype accountEntryLimitField =
  MaxDailyEntryOrders | MaxDailyEntryNotional | MaxOpenPositions | MaxSymbolOpenNotional

definition ACCOUNT_ENTRY_LIMIT_FIELDS :: "accountEntryLimitField list" where
  "ACCOUNT_ENTRY_LIMIT_FIELDS =
     [MaxDailyEntryOrders, MaxDailyEntryNotional, MaxOpenPositions, MaxSymbolOpenNotional]"

datatype effectiveLimitSource = ACCOUNT | LEGACY_GLOBAL_FALLBACK

record effectiveLimit =
  elValue :: "jsnum option"
  elSource :: effectiveLimitSource

record effectiveAccountEntryLimits =
  ealTradingAccountId :: int
  ealAccountRiskSettingsEnabled :: bool
  ealUsingLegacyGlobalFallback :: bool
  ealLimits :: "accountEntryLimitField \<Rightarrow> effectiveLimit"
  ealTotalExposureLimit :: "jsnum option"
  ealAccountMaxTotalOpenNotional :: "jsnum option"
  ealGlobalMaxTotalOpenNotional :: "jsnum option"
  ealAccountMaxSubscriptionOpenNotional :: "jsnum option"
  ealGlobalMaxSubscriptionOpenNotional :: "jsnum option"

fun settingsField :: "riskSettingsRow \<Rightarrow> accountEntryLimitField \<Rightarrow> jsnum option" where
  "settingsField s MaxDailyEntryOrders = rsMaxDailyEntryOrders s"
| "settingsField s MaxDailyEntryNotional = rsMaxDailyEntryNotional s"
| "settingsField s MaxOpenPositions = rsMaxOpenPositions s"
| "settingsField s MaxSymbolOpenNotional = rsMaxSymbolOpenNotional s"

fun configField :: "runtimeTradingConfig \<Rightarrow> accountEntryLimitField \<Rightarrow> jsnum option" where
  "configField c MaxDailyEntryOrders = maxDailyEntryOrders c"
| "configField c MaxDailyEntryNotional = maxDailyEntryNotional c"
| "configField c MaxOpenPositions = maxOpenPositions c"
| "configField c MaxSymbolOpenNotional = maxSymbolOpenNotional c"

definition resolveField ::
  "accountEntryLimitField \<Rightarrow> riskSettingsRow option \<Rightarrow> runtimeTradingConfig \<Rightarrow> effectiveLimit" where
  "resolveField field accountRiskSettings globalConfig =
     (let accountValue = (case accountRiskSettings of None \<Rightarrow> None
                          | Some s \<Rightarrow> if rsEnabled s then settingsField s field else None);
          fallback = \<lparr>elValue = configField globalConfig field, elSource = LEGACY_GLOBAL_FALLBACK\<rparr>
      in case accountValue of None \<Rightarrow> fallback
         | Some v \<Rightarrow> if isFinite v then \<lparr>elValue = Some v, elSource = ACCOUNT\<rparr> else fallback)"

definition resolveEffectiveAccountEntryLimits ::
  "int \<Rightarrow> jsnum option \<Rightarrow> riskSettingsRow option \<Rightarrow> runtimeTradingConfig \<Rightarrow> effectiveAccountEntryLimits" where
  "resolveEffectiveAccountEntryLimits accountId maxDeployable accountRiskSettings globalConfig =
     (let limits = (\<lambda>field. resolveField field accountRiskSettings globalConfig) in
      \<lparr>ealTradingAccountId = accountId,
       ealAccountRiskSettingsEnabled =
         (case accountRiskSettings of None \<Rightarrow> False | Some s \<Rightarrow> rsEnabled s),
       ealUsingLegacyGlobalFallback =
         list_ex (\<lambda>field. elSource (limits field) = LEGACY_GLOBAL_FALLBACK) ACCOUNT_ENTRY_LIMIT_FIELDS,
       ealLimits = limits,
       ealTotalExposureLimit = maxDeployable,
       ealAccountMaxTotalOpenNotional = Option.bind accountRiskSettings rsMaxTotalOpenNotional,
       ealGlobalMaxTotalOpenNotional = maxTotalOpenNotional globalConfig,
       ealAccountMaxSubscriptionOpenNotional =
         Option.bind accountRiskSettings rsMaxSubscriptionOpenNotional,
       ealGlobalMaxSubscriptionOpenNotional = maxSubscriptionOpenNotional globalConfig\<rparr>)"

lemma resolveField_clean:
  "cleanLimit (configField c f) \<Longrightarrow> cleanLimit (elValue (resolveField f s c))"
  by (auto simp: resolveField_def cleanLimit_def Let_def split: option.splits)

subsection \<open>The New York trading day\<close>

text \<open>
  \<open>getZonedParts\<close> is \<open>formatToParts\<close> of the calendar theory. \<open>Date.UTC\<close> of a day one past
  the end of its month rolls over, which \<open>daysFromCivil\<close> and \<open>civilFromDays\<close> follow.
\<close>

definition getTimeZoneOffsetMs :: "(int \<Rightarrow> int) \<Rightarrow> int \<Rightarrow> int" where
  "getTimeZoneOffsetMs zone t =
     (let parts = formatToParts zone t; d = zDate parts in
      dateUTC (cYear d) (cMonth d) (cDay d) (zHour parts) (zMinute parts) (zSecond parts) - t)"

definition zonedMidnightToUtc :: "(int \<Rightarrow> int) \<Rightarrow> civilDate \<Rightarrow> int" where
  "zonedMidnightToUtc zone d =
     (let utcGuess = dateUTC (cYear d) (cMonth d) (cDay d) 0 0 0;
          firstPass = utcGuess - getTimeZoneOffsetMs zone utcGuess
      in utcGuess - getTimeZoneOffsetMs zone firstPass)"

record dailyEntryWindow =
  dwDate :: string
  dwStart :: int
  dwNextStart :: int

definition getNewYorkDailyEntryWindow :: "(int \<Rightarrow> int) \<Rightarrow> int \<Rightarrow> dailyEntryWindow" where
  "getNewYorkDailyEntryWindow zone now =
     (let d = zDate (formatToParts zone now);
          nextLocalDate = dateUTC (cYear d) (cMonth d) (cDay d + 1) 0 0 0
      in \<lparr>dwDate = showInt (cYear d) @ ''-'' @ padStart2 (showInt (cMonth d)) @ ''-'' @
                   padStart2 (showInt (cDay d)),
          dwStart = zonedMidnightToUtc zone d,
          dwNextStart = zonedMidnightToUtc zone (civilFromDays (nextLocalDate div msPerDay))\<rparr>)"

subsection \<open>Classification of entry intents\<close>

definition DAILY_ENTRY_ACTIVITY_STATUSES :: "string list" where
  "DAILY_ENTRY_ACTIVITY_STATUSES = [''pending'', ''submitting'', ''submitted'', ''filled'']"

definition PENDING_ENTRY_EXPOSURE_STATUSES :: "string list" where
  "PENDING_ENTRY_EXPOSURE_STATUSES =
     [''pending'', ''submitting'', ''submitted'', ''new'', ''accepted'', ''accepted_for_bidding'',
      ''pending_new'', ''partially_filled'', ''filled'']"

text \<open>A string is truthy when it is present and not empty.\<close>

definition truthyStr :: "string option \<Rightarrow> bool" where
  "truthyStr s = (case s of None \<Rightarrow> False | Some t \<Rightarrow> t \<noteq> [])"

definition representsDailyEntryActivity :: "orderIntentRow \<Rightarrow> int \<Rightarrow> bool" where
  "representsDailyEntryActivity intent brokerOrderCount =
     (if toLowerCase (oiSide intent) \<noteq> ''buy'' \<or> truthyStr (oiBlockReason intent) then False
      else toLowerCase (oiStatus intent) \<in> set DAILY_ENTRY_ACTIVITY_STATUSES \<or> 0 < brokerOrderCount)"

definition representsPendingEntryExposure :: "orderIntentRow \<Rightarrow> bool" where
  "representsPendingEntryExposure intent =
     (toLowerCase (oiSide intent) = ''buy'' \<and> oiTrackedPositionId intent = None \<and>
      \<not> truthyStr (oiBlockReason intent) \<and>
      toLowerCase (oiStatus intent) \<in> set PENDING_ENTRY_EXPOSURE_STATUSES)"

subsection \<open>The window is the local day\<close>

lemma offset_seconds:
  assumes "(t + zone t) mod 1000 = 0"
  shows "getTimeZoneOffsetMs zone t = zone t"
proof -
  define l where "l = t + zone t"
  have m: "l mod 1000 = 0" using assms by (simp add: l_def)
  have "l mod msPerDay mod 1000 = l mod 1000" by (simp add: ms_defs mod_mod_cancel)
  then have "l mod msPerDay div msPerHour * msPerHour
      + l mod msPerDay mod msPerHour div msPerMinute * msPerMinute
      + l mod msPerDay mod msPerMinute div 1000 * 1000 = l mod msPerDay"
    using timeOfDay_fields[of "l mod msPerDay"] m by simp
  moreover have "l div msPerDay * msPerDay + l mod msPerDay = l" by simp
  ultimately have "l div msPerDay * msPerDay + l mod msPerDay div msPerHour * msPerHour
      + l mod msPerDay mod msPerHour div msPerMinute * msPerMinute
      + l mod msPerDay mod msPerMinute div 1000 * 1000 = l" by linarith
  then show ?thesis
    unfolding getTimeZoneOffsetMs_def formatToParts_def Let_def dateUTC_def
    by (simp only: daysFromCivil_civilFromDays zonedParts.simps flip: l_def)
      (simp add: l_def)
qed

lemma dateUTC_civilFromDays:
  "dateUTC (cYear (civilFromDays n)) (cMonth (civilFromDays n)) (cDay (civilFromDays n)) 0 0 0 = n * msPerDay"
  by (simp add: dateUTC_def daysFromCivil_civilFromDays)

lemma nextLocalDate_div:
  "dateUTC (cYear (civilFromDays n)) (cMonth (civilFromDays n)) (cDay (civilFromDays n) + 1) 0 0 0 div msPerDay
   = n + 1"
  by (simp add: dateUTC_def daysFromCivil_add daysFromCivil_civilFromDays ms_defs)

context dayZone
begin

lemma zonedMidnight_midnight: "zonedMidnightToUtc zone (civilFromDays d) = midnight d"
proof -
  let ?g = "d * msPerDay"
  have sec: "(d * msPerDay) mod 1000 = 0" by (simp add: ms_defs)
  have "(?g + zone ?g) mod 1000 = 0" using zone_seconds[of ?g] sec by (metis add_0 mod_add_eq mod_0)
  then have o1: "getTimeZoneOffsetMs zone ?g = zone ?g" by (rule offset_seconds)
  have z: "zone (midnight d) = zone ?g"
    using midnight_range[of d] by (intro zone_early) (auto simp: ms_defs)
  have "(midnight d + zone (midnight d)) mod 1000 = 0" unfolding z by (simp only: midnight_def diff_add_cancel sec)
  then have "getTimeZoneOffsetMs zone (midnight d) = zone ?g" using offset_seconds z by simp
  then show ?thesis
    by (simp add: zonedMidnightToUtc_def dateUTC_civilFromDays o1 Let_def midnight_def)
qed

lemma window_bounds:
  "dwStart (getNewYorkDailyEntryWindow zone t) = midnight (localDay t)"
  "dwNextStart (getNewYorkDailyEntryWindow zone t) = midnight (localDay t + 1)"
  by (simp_all add: getNewYorkDailyEntryWindow_def formatToParts_def Let_def
      zonedMidnight_midnight nextLocalDate_div localDay_def)

lemma window_of_localDay:
  "localDay t = localDay u \<Longrightarrow> getNewYorkDailyEntryWindow zone t = getNewYorkDailyEntryWindow zone u"
  by (simp add: getNewYorkDailyEntryWindow_def formatToParts_def localDay_def Let_def)

lemma window_iff:
  "dwStart (getNewYorkDailyEntryWindow zone t) \<le> u \<and> u < dwNextStart (getNewYorkDailyEntryWindow zone t) \<longleftrightarrow>
   getNewYorkDailyEntryWindow zone u = getNewYorkDailyEntryWindow zone t"
proof -
  have "midnight (localDay u) = midnight (localDay t) \<Longrightarrow> localDay u = localDay t"
    using midnight_mono[of "localDay u" "localDay t"] midnight_mono[of "localDay t" "localDay u"]
    by linarith
  then show ?thesis
    unfolding window_bounds using localDay_iff[of u "localDay t"] window_of_localDay
    by (metis window_bounds(1))
qed

end

text \<open>C32: the daily entry windows partition time. An instant lies in the window computed at
  another instant exactly when the window computed at it is the same one, so every instant
  is counted in one trading day and none is lost at the 23 and 25 hour days. The zone is
  any with whole-second offsets between -05:00 and -04:00 that changes its offset outside
  the first six hours of a UTC day, as New York does.\<close>
theorem daily_windows_partition_time:
  assumes "dayZone zone"
  shows "dwStart (getNewYorkDailyEntryWindow zone t) \<le> u \<and> u < dwNextStart (getNewYorkDailyEntryWindow zone t)
    \<longleftrightarrow> getNewYorkDailyEntryWindow zone u = getNewYorkDailyEntryWindow zone t"
  using assms by (rule dayZone.window_iff)

theorem daily_windows_partition_time_witness:
  "(dwStart (getNewYorkDailyEntryWindow usEastern 1772956800000) \<le> 1773000000000 \<and>
    1773000000000 < dwNextStart (getNewYorkDailyEntryWindow usEastern 1772956800000)) =
   (getNewYorkDailyEntryWindow usEastern 1773000000000 = getNewYorkDailyEntryWindow usEastern 1772956800000) \<and>
   dwNextStart (getNewYorkDailyEntryWindow usEastern 1773000000000)
     - dwStart (getNewYorkDailyEntryWindow usEastern 1773000000000) = 23 * msPerHour"
  using daily_windows_partition_time[OF usZone.dayZone_axioms, of 1772956800000 1773000000000]
  by (intro conjI) (assumption, code_simp)

text \<open>The effective limit of every field is the account's own value when its risk
  settings are enabled and hold a finite number, and the global one otherwise; the summary
  flag reports a fallback exactly when some field fell back.\<close>
lemma effective_limits_account_first:
  "ealLimits (resolveEffectiveAccountEntryLimits acc dep settings cfg) field =
     (case settings of
        Some s \<Rightarrow> if rsEnabled s \<and> (\<exists>q. settingsField s field = Some (Fin q))
                  then \<lparr>elValue = settingsField s field, elSource = ACCOUNT\<rparr>
                  else \<lparr>elValue = configField cfg field, elSource = LEGACY_GLOBAL_FALLBACK\<rparr>
      | None \<Rightarrow> \<lparr>elValue = configField cfg field, elSource = LEGACY_GLOBAL_FALLBACK\<rparr>) \<and>
   ealUsingLegacyGlobalFallback (resolveEffectiveAccountEntryLimits acc dep settings cfg) =
     (\<exists>f. elSource (ealLimits (resolveEffectiveAccountEntryLimits acc dep settings cfg) f) = LEGACY_GLOBAL_FALLBACK)"
proof -
  have fin: "isFinite v \<longleftrightarrow> (\<exists>q. v = Fin q)" for v by (cases v) auto
  have all: "f \<in> set ACCOUNT_ENTRY_LIMIT_FIELDS" for f
    by (cases f) (simp_all add: ACCOUNT_ENTRY_LIMIT_FIELDS_def)
  show ?thesis
    using all
    by (auto simp: resolveEffectiveAccountEntryLimits_def resolveField_def Let_def fin list_ex_iff
        split: option.splits)
qed

end
