(* ===== verification/EntryUsage.thy ===== *)
theory EntryUsage
  imports EntryLimits
begin

text \<open>
  \<open>src/services/trading-account-entry-risk-usage.service.ts\<close>: what an account already
  holds and has already ordered, read from the position and intent tables. The lemmas show
  that the reported exposures are nonnegative numbers and that an exposure restricted to a
  symbol never exceeds the exposure of the account, with every addition rounded.
\<close>

definition ACTIVE_POSITION_STATUSES :: "string list" where
  "ACTIVE_POSITION_STATUSES = [''open'', ''closing'']"

definition PENDING_ENTRY_QUERY_STATUSES :: "string list" where
  "PENDING_ENTRY_QUERY_STATUSES =
     [''pending'', ''submitting'', ''submitted'', ''new'', ''accepted'', ''accepted_for_bidding'',
      ''pending_new'', ''partially_filled'', ''filled'']"

definition isPositiveFiniteNumber :: "jsnum option \<Rightarrow> bool" where
  "isPositiveFiniteNumber value =
     (case value of None \<Rightarrow> False | Some x \<Rightarrow> isFinite x \<and> jsLt (Fin 0) x)"

definition getSizingEstimatedNotional :: "json \<Rightarrow> jsnum option" where
  "getSizingEstimatedNotional value =
     (case jsonGet value ''accountSubscriptionSizing'' of
        None \<Rightarrow> None
      | Some sizing \<Rightarrow>
        (case jsonGet sizing ''estimatedNotional'' of
           Some (JNum x) \<Rightarrow> if isPositiveFiniteNumber (Some x) then Some x else None
         | _ \<Rightarrow> None))"

definition getEntryIntentEstimatedNotional :: "orderIntentRow \<Rightarrow> jsnum option" where
  "getEntryIntentEstimatedNotional order =
     (if isPositiveFiniteNumber (oiNotional order) then oiNotional order
      else if isPositiveFiniteNumber (oiQty order) \<and> isPositiveFiniteNumber (oiLimitPrice order)
      then Some (jsMul (the (oiQty order)) (the (oiLimitPrice order)))
      else getSizingEstimatedNotional (oiRawRequestJson order))"

definition getTrackedPositionExposure :: "trackedPositionRow \<Rightarrow> jsnum" where
  "getTrackedPositionExposure position =
     jsAbs (orElse (orElse (tpMarketValue position) (tpCostBasis position)) (Fin 0))"

subsection \<open>The usage of an account\<close>

record entryRiskUsage =
  uDailyWindow :: dailyEntryWindow
  uActivePositions :: "trackedPositionRow list"
  uDailyEntryOrders :: "orderIntentRow list"
  uPendingEntryOrders :: "orderIntentRow list"
  uDailyEntryOrderCount :: jsnum
  uDailyEntryNotional :: jsnum
  uActivePositionCount :: jsnum
  uPendingEntryPositionCount :: jsnum
  uCurrentAccountPositionSlots :: jsnum
  uOpenPositionNotional :: jsnum
  uPendingEntryNotional :: jsnum
  uCurrentAccountExposure :: jsnum
  uSymbolOpenNotional :: jsnum
  uSymbolPendingEntryNotional :: jsnum
  uCurrentSymbolExposure :: jsnum
  uActiveSymbols :: "string list"
  uPendingSymbols :: "string list"
  uPendingEntryNotionalBySubscriptionId :: "int \<Rightarrow> jsnum option"

text \<open>The three where clauses of the query. A falsy \<open>excludeOrderIntentId\<close> excludes nothing.\<close>

definition notExcluded :: "int option \<Rightarrow> orderIntentRow \<Rightarrow> bool" where
  "notExcluded exclude intent =
     (case exclude of None \<Rightarrow> True | Some n \<Rightarrow> n = 0 \<or> oiId intent \<noteq> n)"

definition activePositionWhere :: "int \<Rightarrow> trackedPositionRow \<Rightarrow> bool" where
  "activePositionWhere account p =
     (tpTradingAccountId p = Some account \<and> tpStatus p \<in> set ACTIVE_POSITION_STATUSES)"

definition dailyCandidateWhere :: "int \<Rightarrow> dailyEntryWindow \<Rightarrow> int option \<Rightarrow> orderIntentRow \<Rightarrow> bool" where
  "dailyCandidateWhere account w exclude i =
     (oiTradingAccountId i = Some account \<and> oiSide i = ''buy'' \<and>
      dwStart w \<le> oiCreatedAt i \<and> oiCreatedAt i < dwNextStart w \<and> notExcluded exclude i)"

definition pendingCandidateWhere :: "int \<Rightarrow> int option \<Rightarrow> orderIntentRow \<Rightarrow> bool" where
  "pendingCandidateWhere account exclude i =
     (oiTradingAccountId i = Some account \<and> oiSide i = ''buy'' \<and> oiTrackedPositionId i = None \<and>
      oiBlockReason i = None \<and> oiStatus i \<in> set PENDING_ENTRY_QUERY_STATUSES \<and> notExcluded exclude i)"

definition brokerOrderCount :: "store \<Rightarrow> orderIntentRow \<Rightarrow> int" where
  "brokerOrderCount db i = int (length (filter (\<lambda>b. boOrderIntentId b = oiId i) (brokerOrderTable db)))"

definition estimatedOrZero :: "orderIntentRow \<Rightarrow> jsnum" where
  "estimatedOrZero i = nullish (getEntryIntentEstimatedNotional i) (Fin 0)"

text \<open>The loop that fills the \<open>Map\<close> of pending notional by subscription.\<close>

definition addPendingBySubscription ::
  "(int \<Rightarrow> jsnum option) \<Rightarrow> orderIntentRow \<Rightarrow> (int \<Rightarrow> jsnum option)" where
  "addPendingBySubscription m i =
     (case oiSubscriptionId i of None \<Rightarrow> m
      | Some s \<Rightarrow> m(s \<mapsto> jsAdd (nullish (m s) (Fin 0)) (estimatedOrZero i)))"

definition getTradingAccountEntryRiskUsage ::
  "(int \<Rightarrow> int) \<Rightarrow> store \<Rightarrow> int \<Rightarrow> string \<Rightarrow> int \<Rightarrow> int option \<Rightarrow> entryRiskUsage" where
  "getTradingAccountEntryRiskUsage zone db account symbol now exclude =
     (let dailyWindow = getNewYorkDailyEntryWindow zone now;
          activePositions = filter (activePositionWhere account) (trackedPositionTable db);
          dailyCandidates = filter (dailyCandidateWhere account dailyWindow exclude) (orderIntentTable db);
          pendingCandidates = filter (pendingCandidateWhere account exclude) (orderIntentTable db);
          dailyEntryOrders =
            filter (\<lambda>i. representsDailyEntryActivity i (brokerOrderCount db i)) dailyCandidates;
          pendingEntryOrders = filter representsPendingEntryExposure pendingCandidates;
          openPositionNotional = jsSum (map getTrackedPositionExposure activePositions);
          pendingEntryNotional = jsSum (map estimatedOrZero pendingEntryOrders);
          symbolOpenNotional =
            jsSum (map getTrackedPositionExposure (filter (\<lambda>p. tpSymbol p = symbol) activePositions));
          symbolPendingEntryNotional =
            jsSum (map estimatedOrZero (filter (\<lambda>i. oiSymbol i = symbol) pendingEntryOrders))
      in \<lparr>uDailyWindow = dailyWindow,
          uActivePositions = activePositions,
          uDailyEntryOrders = dailyEntryOrders,
          uPendingEntryOrders = pendingEntryOrders,
          uDailyEntryOrderCount = jsInt (int (length dailyEntryOrders)),
          uDailyEntryNotional = jsSum (map estimatedOrZero dailyEntryOrders),
          uActivePositionCount = jsInt (int (length activePositions)),
          uPendingEntryPositionCount = jsInt (int (length pendingEntryOrders)),
          uCurrentAccountPositionSlots =
            jsAdd (jsInt (int (length activePositions))) (jsInt (int (length pendingEntryOrders))),
          uOpenPositionNotional = openPositionNotional,
          uPendingEntryNotional = pendingEntryNotional,
          uCurrentAccountExposure = jsAdd openPositionNotional pendingEntryNotional,
          uSymbolOpenNotional = symbolOpenNotional,
          uSymbolPendingEntryNotional = symbolPendingEntryNotional,
          uCurrentSymbolExposure = jsAdd symbolOpenNotional symbolPendingEntryNotional,
          uActiveSymbols = uniqueInOrder (map tpSymbol activePositions),
          uPendingSymbols = uniqueInOrder (map oiSymbol pendingEntryOrders),
          uPendingEntryNotionalBySubscriptionId =
            foldl addPendingBySubscription (\<lambda>_. None) pendingEntryOrders\<rparr>)"

subsection \<open>Signs\<close>

lemma positiveFinite_nonneg: "isPositiveFiniteNumber (Some x) \<Longrightarrow> jsLe (Fin 0) x"
  by (cases x) (auto simp: isPositiveFiniteNumber_def)

lemma sizingEstimate_nonneg: "getSizingEstimatedNotional j = Some x \<Longrightarrow> jsLe (Fin 0) x"
  by (auto simp: getSizingEstimatedNotional_def positiveFinite_nonneg
      split: option.splits json.splits if_splits)

lemma jsMul_positive_nonneg:
  "isPositiveFiniteNumber (Some x) \<Longrightarrow> isPositiveFiniteNumber (Some y) \<Longrightarrow> jsLe (Fin 0) (jsMul x y)"
  by (cases x; cases y) (auto simp: isPositiveFiniteNumber_def intro: rnd_nonneg)

lemma entryEstimate_nonneg: "getEntryIntentEstimatedNotional i = Some x \<Longrightarrow> jsLe (Fin 0) x"
  by (cases "oiNotional i"; cases "oiQty i"; cases "oiLimitPrice i")
    (auto simp: getEntryIntentEstimatedNotional_def isPositiveFiniteNumber_def[of None]
      dest: positiveFinite_nonneg sizingEstimate_nonneg intro: jsMul_positive_nonneg split: if_splits)

lemma estimatedOrZero_nonneg [simp]: "jsLe (Fin 0) (estimatedOrZero i)"
  by (auto simp: estimatedOrZero_def nullish_def dest: entryEstimate_nonneg split: option.splits)

text \<open>\<open>NaN\<close> is falsy, so it falls through to the cost basis and then to zero.\<close>

lemma exposure_nonneg [simp]: "jsLe (Fin 0) (getTrackedPositionExposure p)"
  unfolding getTrackedPositionExposure_def
  by (rule jsAbs_nonneg) (auto simp: orElse_def truthy_def)

lemma jsInt_nonneg [simp]: "0 \<le> n \<Longrightarrow> jsLe (Fin 0) (jsInt n)"
  by (simp add: jsInt_def rnd_nonneg)

lemma jsSum_map_nonneg [simp]: "(\<And>x. jsLe (Fin 0) (f x)) \<Longrightarrow> jsLe (Fin 0) (jsSum (map f xs))"
  by (rule jsSum_nonneg) auto

text \<open>
  The filter of the query and the filter in memory select the same pending intents: rows
  that satisfy the query satisfy \<open>representsPendingEntryExposure\<close> as well.
\<close>

lemma pendingCandidate_represents: "pendingCandidateWhere a ex i \<Longrightarrow> representsPendingEntryExposure i"
proof -
  have lower: "\<forall>s\<in>set PENDING_ENTRY_QUERY_STATUSES. toLowerCase s \<in> set PENDING_ENTRY_EXPOSURE_STATUSES"
    "toLowerCase ''buy'' = ''buy''" by code_simp+
  assume "pendingCandidateWhere a ex i"
  then show ?thesis
    using lower by (auto simp: pendingCandidateWhere_def representsPendingEntryExposure_def truthyStr_def)
qed

lemma usage_pending_orders:
  "uPendingEntryOrders (getTradingAccountEntryRiskUsage z db a s t ex) =
   filter (pendingCandidateWhere a ex) (orderIntentTable db)"
proof -
  have "filter representsPendingEntryExposure (filter (pendingCandidateWhere a ex) xs)
      = filter (pendingCandidateWhere a ex) xs" for xs
    by (rule filter_True) (auto dest: pendingCandidate_represents)
  then show ?thesis by (simp add: getTradingAccountEntryRiskUsage_def Let_def)
qed

lemma usage_daily_orders:
  "uDailyEntryOrders (getTradingAccountEntryRiskUsage z db a s t ex) =
   filter (\<lambda>i. representsDailyEntryActivity i (brokerOrderCount db i))
     (filter (dailyCandidateWhere a (getNewYorkDailyEntryWindow z t) ex) (orderIntentTable db))"
  by (simp add: getTradingAccountEntryRiskUsage_def Let_def)

definition usageNonneg :: "entryRiskUsage \<Rightarrow> bool" where
  "usageNonneg u =
     list_all (jsLe (Fin 0))
       [uDailyEntryOrderCount u, uDailyEntryNotional u, uActivePositionCount u,
        uPendingEntryPositionCount u, uCurrentAccountPositionSlots u, uOpenPositionNotional u,
        uPendingEntryNotional u, uCurrentAccountExposure u, uSymbolOpenNotional u,
        uSymbolPendingEntryNotional u, uCurrentSymbolExposure u]"

lemma usage_nonneg: "usageNonneg (getTradingAccountEntryRiskUsage z db a s t ex)"
  by (simp add: usageNonneg_def getTradingAccountEntryRiskUsage_def Let_def jsAdd_nonneg)

lemma usage_symbol_le:
  "jsLe (uCurrentSymbolExposure (getTradingAccountEntryRiskUsage z db a s t ex))
        (uCurrentAccountExposure (getTradingAccountEntryRiskUsage z db a s t ex))"
  unfolding getTradingAccountEntryRiskUsage_def Let_def entryRiskUsage.simps
  by (intro jsAdd_mono jsSum_filter_le) (simp_all del: filter_filter)

text \<open>C37: whatever the tables hold (\<open>NaN\<close> market values, negative or absent notionals,
  malformed sizing JSON), the reported counts and exposures are numbers that are not
  negative, so no comparison of the risk gate with them is vacuous; and the exposure of a
  symbol is at most the exposure of the account, additions rounded as doubles.\<close>
theorem usage_well_formed:
  "usageNonneg (getTradingAccountEntryRiskUsage zone db account symbol now exclude) \<and>
   jsLe (uCurrentSymbolExposure (getTradingAccountEntryRiskUsage zone db account symbol now exclude))
        (uCurrentAccountExposure (getTradingAccountEntryRiskUsage zone db account symbol now exclude))"
  using usage_nonneg usage_symbol_le by blast

text \<open>The entry intents of one trading day are counted in that day only: two usages of an
  account taken at instants of different days share no daily intent, and two taken on the
  same day of the same tables count the same ones.\<close>
lemma daily_usage_by_day:
  assumes "dayZone zone"
  shows "if getNewYorkDailyEntryWindow zone t = getNewYorkDailyEntryWindow zone u
    then uDailyEntryOrders (getTradingAccountEntryRiskUsage zone db a s t ex) =
         uDailyEntryOrders (getTradingAccountEntryRiskUsage zone db a s' u ex)
    else set (uDailyEntryOrders (getTradingAccountEntryRiskUsage zone db a s t ex)) \<inter>
         set (uDailyEntryOrders (getTradingAccountEntryRiskUsage zone db a s' u ex')) = {}"
proof -
  have orders: "i \<in> set (uDailyEntryOrders (getTradingAccountEntryRiskUsage zone db a s v e)) \<Longrightarrow>
      getNewYorkDailyEntryWindow zone (oiCreatedAt i) = getNewYorkDailyEntryWindow zone v" for i s v e
    using dayZone.window_iff[OF assms, of v "oiCreatedAt i"]
    by (simp add: getTradingAccountEntryRiskUsage_def Let_def dailyCandidateWhere_def)
  show ?thesis
  proof (cases "getNewYorkDailyEntryWindow zone t = getNewYorkDailyEntryWindow zone u")
    case True
    then show ?thesis by (simp add: getTradingAccountEntryRiskUsage_def Let_def)
  next
    case False
    then show ?thesis using orders[of _ s t ex] orders[of _ s' u ex'] by (simp add: disjoint_iff) metis
  qed
qed

lemma daily_usage_by_day_witness:
  "let db = emptyStore\<lparr>orderIntentTable :=
         [sampleIntent\<lparr>oiStatus := ''filled'', oiNotional := Some (Fin 256), oiCreatedAt := 1773000000000\<rparr>]\<rparr>
   in length (uDailyEntryOrders (getTradingAccountEntryRiskUsage usEastern db 7 ''SPY'' 1773001000000 None)) = 1 \<and>
      set (uDailyEntryOrders (getTradingAccountEntryRiskUsage usEastern db 7 ''SPY'' 1773001000000 None)) \<inter>
      set (uDailyEntryOrders (getTradingAccountEntryRiskUsage usEastern db 7 ''SPY'' 1773100000000 None)) = {}"
proof -
  have ne: "getNewYorkDailyEntryWindow usEastern 1773001000000 \<noteq> getNewYorkDailyEntryWindow usEastern 1773100000000"
    by code_simp
  have one: "length (uDailyEntryOrders (getTradingAccountEntryRiskUsage usEastern
      (emptyStore\<lparr>orderIntentTable := [sampleIntent\<lparr>oiStatus := ''filled'', oiNotional := Some (Fin 256),
         oiCreatedAt := 1773000000000\<rparr>]\<rparr>) 7 ''SPY'' 1773001000000 None)) = 1"
    unfolding usage_daily_orders by code_simp
  show ?thesis
    unfolding Let_def
    using one daily_usage_by_day[OF usZone.dayZone_axioms, of 1773001000000 1773100000000] ne
    by (intro conjI) (assumption, presburger)
qed

end
