(* ===== verification/EntrySession.thy ===== *)
theory EntrySession
  imports RuntimeConfig
begin

text \<open>
  \<open>src/services/entry-session-guard.service.ts\<close>: whether a new entry may be placed now,
  from the session of the regular market and the configured opening and closing buffers.
  The market session snapshot comes from the broker; its reader is a parameter, which may
  throw. Its timestamps are the ISO strings that the adapter built with \<open>toISOString\<close>
  from valid dates, kept as instants.
\<close>

datatype entrySessionBlockRule =
  market_closed | entry_open_buffer_active | entry_close_buffer_active
  | market_clock_unavailable | entry_window_unavailable

datatype entrySessionStatus =
  SDisabled | SAllowed | SMarketClosed | SOpenBuffer | SCloseBuffer | SUnavailable | SDegraded | SInvalidWindow

fun ruleText :: "entrySessionBlockRule \<Rightarrow> string" where
  "ruleText market_closed = ''market_closed''"
| "ruleText entry_open_buffer_active = ''entry_open_buffer_active''"
| "ruleText entry_close_buffer_active = ''entry_close_buffer_active''"
| "ruleText market_clock_unavailable = ''market_clock_unavailable''"
| "ruleText entry_window_unavailable = ''entry_window_unavailable''"

fun statusText :: "entrySessionStatus \<Rightarrow> string" where
  "statusText SDisabled = ''disabled''"
| "statusText SAllowed = ''allowed''"
| "statusText SMarketClosed = ''market_closed''"
| "statusText SOpenBuffer = ''open_buffer''"
| "statusText SCloseBuffer = ''close_buffer''"
| "statusText SUnavailable = ''unavailable''"
| "statusText SDegraded = ''degraded''"
| "statusText SInvalidWindow = ''invalid_window''"

text \<open>\<open>NormalizedMarketSessionSnapshot\<close>, the fields the guard reads.\<close>

record marketSession =
  msEvaluatedTimestamp :: int
  msMarketOpen :: bool
  msTradingDate :: string
  msSessionOpenAt :: "int option"
  msSessionCloseAt :: "int option"
  msNextOpenAt :: "int option"
  msNextCloseAt :: "int option"
  msFetchedAt :: int
  msClockCache :: string
  msCalendarCache :: string

type_synonym sessionReader = "int \<Rightarrow> int \<Rightarrow> marketSession result"

text \<open>
  \<open>EntrySessionBaseDetails\<close>. \<open>sdSession\<close> stands for the three optional fields \<open>source\<close>,
  \<open>tradingDate\<close> and \<open>cache\<close>, which the code sets together.
\<close>

record entrySessionDetails =
  sdEnabled :: bool
  sdRule :: "entrySessionBlockRule option"
  sdStatus :: entrySessionStatus
  sdCurrentTimestamp :: int
  sdEvaluatedAt :: int
  sdSessionOpenAt :: "int option"
  sdSessionCloseAt :: "int option"
  sdEntryAllowedAt :: "int option"
  sdEntryCutoffAt :: "int option"
  sdOpeningBufferMinutes :: jsnum
  sdClosingBufferMinutes :: "jsnum option"
  sdMarketOpen :: "bool option"
  sdNextOpenAt :: "int option"
  sdNextCloseAt :: "int option"
  sdFailClosed :: bool
  sdSession :: "marketSession option"
  sdError :: "(string \<times> string) option"

datatype entrySessionDecision =
    SessionAllowed bool entrySessionDetails
  | SessionBlocked int string entrySessionDetails

text \<open>
  \<open>new Date(x).toISOString()\<close>: the time value is the number truncated to an integer when it
  is within the range of dates; an invalid date throws a \<open>RangeError\<close>.
\<close>

definition maxTimeValue :: rat where "maxTimeValue = 8640000000000000"

definition truncRat :: "rat \<Rightarrow> int" where
  "truncRat q = (if 0 \<le> q then \<lfloor>q\<rfloor> else - \<lfloor>- q\<rfloor>)"

definition dateToISO :: "jsnum \<Rightarrow> int result" where
  "dateToISO x = (case x of
       Fin q \<Rightarrow> if \<bar>q\<bar> \<le> maxTimeValue then Inr (truncRat q)
                else Inl (PlainError ''RangeError'' ''Invalid time value'')
     | _ \<Rightarrow> Inl (PlainError ''RangeError'' ''Invalid time value''))"

definition addMinutes :: "int \<Rightarrow> jsnum \<Rightarrow> int result" where
  "addMinutes t minutes = dateToISO (jsAdd (jsInt t) (jsMul minutes (Fin 60000)))"

definition subtractMinutes :: "int \<Rightarrow> jsnum \<Rightarrow> int result" where
  "subtractMinutes t minutes = dateToISO (jsSub (jsInt t) (jsMul minutes (Fin 60000)))"

definition normalizeError :: "appError \<Rightarrow> string \<times> string" where
  "normalizeError e = (case e of HttpError _ m _ \<Rightarrow> (''HttpError'', m) | PlainError n m \<Rightarrow> (n, m))"

definition block_session ::
  "entrySessionBlockRule \<Rightarrow> int \<Rightarrow> string \<Rightarrow> entrySessionDetails \<Rightarrow> entrySessionDecision" where
  "block_session rule statusCode reason details =
     SessionBlocked statusCode reason (details\<lparr>sdRule := Some rule\<rparr>)"

definition isEntrySessionBlocked :: "entrySessionDecision \<Rightarrow> bool" where
  "isEntrySessionBlocked d = (case d of SessionAllowed _ _ \<Rightarrow> False | SessionBlocked _ _ _ \<Rightarrow> True)"

definition sessionDetails :: "entrySessionDecision \<Rightarrow> entrySessionDetails" where
  "sessionDetails d = (case d of SessionAllowed _ x \<Rightarrow> x | SessionBlocked _ _ x \<Rightarrow> x)"

definition entrySessionDetailsAsJson :: "entrySessionDecision \<Rightarrow> json" where
  "entrySessionDetailsAsJson decision =
     (let d = sessionDetails decision in
      JObj ([(''enabled'', JBool (sdEnabled d))]
        @ (case sdRule d of None \<Rightarrow> [] | Some r \<Rightarrow> [(''rule'', JStr (ruleText r))])
        @ [(''status'', JStr (statusText (sdStatus d))),
           (''currentTimestamp'', JDate (sdCurrentTimestamp d)), (''evaluatedAt'', JDate (sdEvaluatedAt d)),
           (''sessionOpenAt'', jOpt JDate (sdSessionOpenAt d)),
           (''sessionCloseAt'', jOpt JDate (sdSessionCloseAt d)),
           (''entryAllowedAt'', jOpt JDate (sdEntryAllowedAt d)),
           (''entryCutoffAt'', jOpt JDate (sdEntryCutoffAt d)),
           (''openingBufferMinutes'', JNum (sdOpeningBufferMinutes d)),
           (''closingBufferMinutes'', jOpt JNum (sdClosingBufferMinutes d)),
           (''marketOpen'', jOpt JBool (sdMarketOpen d)),
           (''nextOpenAt'', jOpt JDate (sdNextOpenAt d)), (''nextCloseAt'', jOpt JDate (sdNextCloseAt d)),
           (''failClosed'', JBool (sdFailClosed d))]
        @ (case sdSession d of None \<Rightarrow> []
           | Some s \<Rightarrow> [(''source'', JStr ''alpaca''), (''tradingDate'', JStr (msTradingDate s)),
               (''cache'', JObj [(''clock'', JStr (msClockCache s)), (''calendar'', JStr (msCalendarCache s))])])
        @ (case sdError d of None \<Rightarrow> []
           | Some (n, m) \<Rightarrow> [(''error'', JObj [(''name'', JStr n), (''message'', JStr m)])])))"

subsection \<open>The guard\<close>

definition sessionlessDetails :: "runtimeTradingConfig \<Rightarrow> int \<Rightarrow> bool \<Rightarrow> entrySessionStatus \<Rightarrow>
    (string \<times> string) option \<Rightarrow> entrySessionDetails" where
  "sessionlessDetails config now enabled status err =
     \<lparr>sdEnabled = enabled, sdRule = None, sdStatus = status, sdCurrentTimestamp = now, sdEvaluatedAt = now,
      sdSessionOpenAt = None, sdSessionCloseAt = None, sdEntryAllowedAt = None, sdEntryCutoffAt = None,
      sdOpeningBufferMinutes = entryStartMinutesAfterOpen config,
      sdClosingBufferMinutes = entryCutoffMinutesBeforeClose config, sdMarketOpen = None,
      sdNextOpenAt = None, sdNextCloseAt = None, sdFailClosed = failClosedOnMarketClockError config,
      sdSession = None, sdError = err\<rparr>"

definition sessionBaseDetails :: "runtimeTradingConfig \<Rightarrow> marketSession \<Rightarrow> entrySessionDetails" where
  "sessionBaseDetails config session =
     \<lparr>sdEnabled = True, sdRule = None, sdStatus = SAllowed,
      sdCurrentTimestamp = msEvaluatedTimestamp session, sdEvaluatedAt = msEvaluatedTimestamp session,
      sdSessionOpenAt = msSessionOpenAt session, sdSessionCloseAt = msSessionCloseAt session,
      sdEntryAllowedAt = None, sdEntryCutoffAt = None,
      sdOpeningBufferMinutes = entryStartMinutesAfterOpen config,
      sdClosingBufferMinutes = entryCutoffMinutesBeforeClose config,
      sdMarketOpen = Some (msMarketOpen session), sdNextOpenAt = msNextOpenAt session,
      sdNextCloseAt = msNextCloseAt session, sdFailClosed = failClosedOnMarketClockError config,
      sdSession = Some session, sdError = None\<rparr>"

text \<open>The comparisons against the entry window, once both ends of it are known.\<close>

definition decideEntryWindow ::
  "entrySessionDetails \<Rightarrow> int \<Rightarrow> int \<Rightarrow> int option \<Rightarrow> entrySessionDecision" where
  "decideEntryWindow details evaluatedAt entryAllowedAt entryCutoffAt =
     (if (case entryCutoffAt of None \<Rightarrow> False | Some cutoff \<Rightarrow> cutoff \<le> entryAllowedAt) then
        block_session entry_window_unavailable 409
          ''Configured entry buffers leave no valid regular-session entry window.''
          (details\<lparr>sdStatus := SInvalidWindow\<rparr>)
      else if evaluatedAt < entryAllowedAt then
        block_session entry_open_buffer_active 409
          ''Opening entry buffer is still active. New entries are blocked.''
          (details\<lparr>sdStatus := SOpenBuffer\<rparr>)
      else if (case entryCutoffAt of None \<Rightarrow> False | Some cutoff \<Rightarrow> cutoff \<le> evaluatedAt) then
        block_session entry_close_buffer_active 409
          ''Pre-close entry cutoff is active. New entries are blocked.''
          (details\<lparr>sdStatus := SCloseBuffer\<rparr>)
      else SessionAllowed False details)"

definition evaluateOpenSession :: "runtimeTradingConfig \<Rightarrow> marketSession \<Rightarrow> entrySessionDecision result" where
  "evaluateOpenSession config session =
     (let baseDetails = sessionBaseDetails config session in
      if \<not> msMarketOpen session then
        Inr (block_session market_closed 409 ''Regular market is closed. New entries are blocked.''
          (baseDetails\<lparr>sdStatus := SMarketClosed\<rparr>))
      else case (msSessionOpenAt session, msSessionCloseAt session) of
        (Some openAt, Some closeAt) \<Rightarrow>
          bindR (addMinutes openAt (entryStartMinutesAfterOpen config)) (\<lambda>entryAllowedAt.
          bindR (case entryCutoffMinutesBeforeClose config of
                   None \<Rightarrow> Inr None
                 | Some m \<Rightarrow> bindR (subtractMinutes closeAt m) (\<lambda>c. Inr (Some c))) (\<lambda>entryCutoffAt.
          Inr (decideEntryWindow
                 (baseDetails\<lparr>sdEntryAllowedAt := Some entryAllowedAt, sdEntryCutoffAt := entryCutoffAt\<rparr>)
                 (msEvaluatedTimestamp session) entryAllowedAt entryCutoffAt)))
      | _ \<Rightarrow> Inr (block_session entry_window_unavailable 409
               ''Regular-session entry window is unavailable. New entries are blocked.''
               (baseDetails\<lparr>sdStatus := SUnavailable\<rparr>)))"

definition evaluateEntrySessionGuard ::
  "sessionReader \<Rightarrow> runtimeTradingConfig \<Rightarrow> int \<Rightarrow> int option \<Rightarrow> entrySessionDecision result" where
  "evaluateEntrySessionGuard getSnapshot config now account =
     (if \<not> entrySessionGuardEnabled config then
        Inr (SessionAllowed False (sessionlessDetails config now False SDisabled None))
      else
        case (case account of
                None \<Rightarrow> Inl (PlainError ''Error''
                   ''tradingAccountId is required for account-routed market session lookup.'')
              | Some a \<Rightarrow> getSnapshot a now) of
          Inl e \<Rightarrow>
            (let failClosed = failClosedOnMarketClockError config;
                 details = sessionlessDetails config now True
                   (if failClosed then SUnavailable else SDegraded) (Some (normalizeError e))
             in if failClosed then
                  Inr (block_session market_clock_unavailable 503
                    ''Alpaca market session could not be verified. Entry blocked fail-closed.'' details)
                else Inr (SessionAllowed True details))
        | Inr session \<Rightarrow> evaluateOpenSession config session)"

subsection \<open>The entry window\<close>

text \<open>
  The specification: inside the regular session, at least the opening buffer after its
  open, and before the cutoff. On the minutes of a real configuration the ends of the
  window are exact.
\<close>

definition insideEntryWindow :: "runtimeTradingConfig \<Rightarrow> marketSession \<Rightarrow> bool" where
  "insideEntryWindow config session =
     (msMarketOpen session \<and>
      (case (msSessionOpenAt session, msSessionCloseAt session) of
         (Some openAt, Some closeAt) \<Rightarrow>
           (\<exists>start. addMinutes openAt (entryStartMinutesAfterOpen config) = Inr start \<and>
              start \<le> msEvaluatedTimestamp session) \<and>
           (case entryCutoffMinutesBeforeClose config of None \<Rightarrow> True
            | Some m \<Rightarrow> \<exists>cutoff. subtractMinutes closeAt m = Inr cutoff \<and> msEvaluatedTimestamp session < cutoff)
       | _ \<Rightarrow> False))"

lemma truncRat_of_int [simp]: "truncRat (of_int n) = n"
  by (simp add: truncRat_def)

lemma minutes_product: "\<bar>m\<bar> \<le> 2 ^ 30 \<Longrightarrow> jsMul (Fin (of_int m)) (Fin 60000) = Fin (of_int (m * 60000))"
  using rnd_of_int[of "m * 60000"] by simp

lemma dateToISO_int: "\<bar>n\<bar> \<le> 8640000000000000 \<Longrightarrow> dateToISO (Fin (of_int n)) = Inr n"
proof -
  assume "\<bar>n\<bar> \<le> 8640000000000000"
  then have "(of_int \<bar>n\<bar> :: rat) \<le> of_int 8640000000000000" by (rule of_int_le_iff[THEN iffD2])
  then show ?thesis by (simp add: dateToISO_def maxTimeValue_def)
qed

lemma addMinutes_exact:
  assumes "\<bar>t\<bar> \<le> 8000000000000000" "\<bar>m\<bar> \<le> 2 ^ 30"
  shows "addMinutes t (Fin (of_int m)) = Inr (t + m * 60000)"
proof -
  have "\<bar>m * 60000\<bar> \<le> 64424509440000" using assms(2) by (simp add: abs_mult)
  then have b: "\<bar>t + m * 60000\<bar> \<le> 8640000000000000" using assms(1) by linarith
  then have "rnd (of_int (t + m * 60000)) = Fin (of_int (t + m * 60000))" by (intro rnd_of_int) simp
  then show ?thesis
    using assms dateToISO_int[OF b] minutes_product[OF assms(2)]
    by (simp add: addMinutes_def jsInt_exact)
qed

lemma subtractMinutes_exact:
  assumes "\<bar>t\<bar> \<le> 8000000000000000" "\<bar>m\<bar> \<le> 2 ^ 30"
  shows "subtractMinutes t (Fin (of_int m)) = Inr (t - m * 60000)"
proof -
  have "\<bar>m * 60000\<bar> \<le> 64424509440000" using assms(2) by (simp add: abs_mult)
  then have b: "\<bar>t - m * 60000\<bar> \<le> 8640000000000000" using assms(1) by linarith
  then have "rnd (of_int (t - m * 60000)) = Fin (of_int (t - m * 60000))" by (intro rnd_of_int) simp
  then show ?thesis
    using assms dateToISO_int[OF b] minutes_product[OF assms(2)]
    by (simp add: subtractMinutes_def jsSub_def jsInt_exact)
qed

lemma decideEntryWindow_allowed:
  "decideEntryWindow d t s c = SessionAllowed g x \<longleftrightarrow>
   g = False \<and> x = d \<and> s \<le> t \<and> (case c of None \<Rightarrow> True | Some cutoff \<Rightarrow> t < cutoff)"
  by (auto simp: decideEntryWindow_def block_session_def split: option.splits if_splits)

lemma evaluateOpenSession_allowed:
  assumes "evaluateOpenSession config session = Inr (SessionAllowed g d)"
  shows "insideEntryWindow config session \<and> \<not> g"
  using assms
  by (auto simp: evaluateOpenSession_def insideEntryWindow_def Let_def block_session_def bindR_Inr_iff
      decideEntryWindow_allowed split: option.splits if_splits)

lemma evaluateOpenSession_inside:
  assumes "insideEntryWindow config session"
  shows "\<exists>d. evaluateOpenSession config session = Inr (SessionAllowed False d)"
  using assms
  by (auto simp: evaluateOpenSession_def insideEntryWindow_def Let_def decideEntryWindow_allowed
      split: option.splits)

text \<open>C31: with the guard enabled, an entry is allowed exactly when the market session is known
  and the evaluated time lies inside the entry window, or the session could not be read and
  the configuration says to fail open; only the latter is marked degraded.\<close>
theorem session_guard_decides_window:
  assumes "entrySessionGuardEnabled config"
  shows "(\<exists>d. evaluateEntrySessionGuard reader config now (Some a) = Inr (SessionAllowed g d)) \<longleftrightarrow>
    (case reader a now of
       Inr session \<Rightarrow> insideEntryWindow config session \<and> \<not> g
     | Inl e \<Rightarrow> \<not> failClosedOnMarketClockError config \<and> g)"
proof (cases "reader a now")
  case (Inl e)
  then show ?thesis using assms by (auto simp: evaluateEntrySessionGuard_def Let_def block_session_def)
next
  case (Inr session)
  then show ?thesis
    using assms evaluateOpenSession_allowed evaluateOpenSession_inside
    by (auto simp: evaluateEntrySessionGuard_def)
qed

text \<open>A session of 2026-03-09, 09:30 to 16:00 in New York, evaluated at 11:26:40.\<close>

definition sampleSession :: marketSession where
  "sampleSession =
     \<lparr>msEvaluatedTimestamp = 1773070000000, msMarketOpen = True, msTradingDate = ''2026-03-09'',
      msSessionOpenAt = Some 1773063000000, msSessionCloseAt = Some 1773086400000, msNextOpenAt = None,
      msNextCloseAt = None, msFetchedAt = 1773070000000, msClockCache = ''fresh'', msCalendarCache = ''fresh''\<rparr>"

definition guardedConfig :: runtimeTradingConfig where
  "guardedConfig = (getRuntimeTradingConfig emptyStore)
     \<lparr>entrySessionGuardEnabled := True, tradingEnabled := True,
      entryStartMinutesAfterOpen := Fin 16, entryCutoffMinutesBeforeClose := Some (Fin 32)\<rparr>"

lemma guardedConfig_minutes:
  "entrySessionGuardEnabled guardedConfig" "entryStartMinutesAfterOpen guardedConfig = Fin (of_int 16)"
  "entryCutoffMinutesBeforeClose guardedConfig = Some (Fin (of_int 32))"
  by (simp_all add: guardedConfig_def)

lemma sampleSession_inside: "insideEntryWindow guardedConfig sampleSession"
proof -
  have "addMinutes 1773063000000 (Fin (of_int 16)) = Inr (1773063000000 + 16 * 60000)"
    "subtractMinutes 1773086400000 (Fin (of_int 32)) = Inr (1773086400000 - 32 * 60000)"
    by (rule addMinutes_exact subtractMinutes_exact; simp)+
  then show ?thesis by (simp add: insideEntryWindow_def guardedConfig_minutes sampleSession_def)
qed

theorem session_guard_decides_window_witness:
  "\<exists>d. evaluateEntrySessionGuard (\<lambda>_ _. Inr sampleSession) guardedConfig 1773070000000 (Some 7)
     = Inr (SessionAllowed False d)"
  using session_guard_decides_window[OF guardedConfig_minutes(1), where g = False and a = 7
      and reader = "\<lambda>_ _. Inr sampleSession" and now = 1773070000000]
  by (simp add: sampleSession_inside)

text \<open>With whole minutes in the configuration and session times within the range of dates,
  the guard is the comparison of milliseconds that the documentation of the buffers
  describes: entries are allowed from the open plus the opening buffer (inclusive) to the
  close minus the cutoff (exclusive), with no rounding.\<close>
lemma session_guard_exact_window:
  assumes "entrySessionGuardEnabled config" and "reader a now = Inr session"
    and "msSessionOpenAt session = Some openAt" "msSessionCloseAt session = Some closeAt"
    and "\<bar>openAt\<bar> \<le> 8000000000000000" "\<bar>closeAt\<bar> \<le> 8000000000000000"
    and "entryStartMinutesAfterOpen config = Fin (of_int n)" "\<bar>n\<bar> \<le> 2 ^ 30"
    and "entryCutoffMinutesBeforeClose config = Some (Fin (of_int m))" "\<bar>m\<bar> \<le> 2 ^ 30"
  shows "\<exists>decision. evaluateEntrySessionGuard reader config now (Some a) = Inr decision \<and>
    (\<not> isEntrySessionBlocked decision \<longleftrightarrow>
       msMarketOpen session \<and> openAt + n * 60000 \<le> msEvaluatedTimestamp session \<and>
       msEvaluatedTimestamp session < closeAt - m * 60000)"
  using assms addMinutes_exact[OF assms(5,8)] subtractMinutes_exact[OF assms(6,10)]
  by (auto simp: evaluateEntrySessionGuard_def evaluateOpenSession_def Let_def decideEntryWindow_def
      block_session_def isEntrySessionBlocked_def)

lemma session_guard_exact_window_witness:
  "\<exists>decision. evaluateEntrySessionGuard (\<lambda>_ _. Inr sampleSession) guardedConfig 1773070000000 (Some 7)
     = Inr decision \<and> \<not> isEntrySessionBlocked decision"
  using session_guard_exact_window[of guardedConfig "\<lambda>_ _. Inr sampleSession" 7 1773070000000 sampleSession
      1773063000000 1773086400000 16 32]
  by (simp only: guardedConfig_minutes sampleSession_def marketSession.simps) simp

text \<open>The guard throws exactly when the market is open, both session times are known and
  one of the configured buffers moves its end of the window out of the range of dates; a
  failing session reader never makes it throw, and a disabled guard never does.\<close>
lemma session_guard_throws:
  "(\<exists>e. evaluateEntrySessionGuard reader config now account = Inl e) \<longleftrightarrow>
    (entrySessionGuardEnabled config \<and>
     (\<exists>a session openAt closeAt. account = Some a \<and> reader a now = Inr session \<and>
        msMarketOpen session \<and> msSessionOpenAt session = Some openAt \<and>
        msSessionCloseAt session = Some closeAt \<and>
        ((\<exists>e. addMinutes openAt (entryStartMinutesAfterOpen config) = Inl e) \<or>
         (\<exists>m e. entryCutoffMinutesBeforeClose config = Some m \<and> subtractMinutes closeAt m = Inl e))))"
proof -
  have split_add: "(\<exists>e. bindR x f = Inl e) \<longleftrightarrow> (\<exists>e. x = Inl e) \<or> (\<exists>a. x = Inr a \<and> (\<exists>e. f a = Inl e))"
    for x :: "int result" and f :: "int \<Rightarrow> entrySessionDecision result"
    by (cases x) auto
  have cutoff: "(\<exists>e. bindR (case c of None \<Rightarrow> Inr None | Some m \<Rightarrow> bindR (g m) (\<lambda>c. Inr (Some c))) (\<lambda>x. Inr (h x)) = Inl e)
      \<longleftrightarrow> (\<exists>m e. c = Some m \<and> g m = Inl e)"
    for c and g :: "jsnum \<Rightarrow> int result" and h :: "int option \<Rightarrow> entrySessionDecision"
    by (cases c; cases "g (the c)") auto
  have open_throws: "(\<exists>e. evaluateOpenSession config session = Inl e) \<longleftrightarrow>
      (\<exists>openAt closeAt. msMarketOpen session \<and> msSessionOpenAt session = Some openAt \<and>
        msSessionCloseAt session = Some closeAt \<and>
        ((\<exists>e. addMinutes openAt (entryStartMinutesAfterOpen config) = Inl e) \<or>
         (\<exists>m e. entryCutoffMinutesBeforeClose config = Some m \<and> subtractMinutes closeAt m = Inl e)))"
    for session
    by (cases "msSessionOpenAt session"; cases "msSessionCloseAt session";
        cases "addMinutes (the (msSessionOpenAt session)) (entryStartMinutesAfterOpen config)")
      (simp_all add: evaluateOpenSession_def Let_def split_add cutoff)
  have bind: "evaluateEntrySessionGuard reader config now account = Inl e \<longleftrightarrow>
      (\<exists>a session. account = Some a \<and> reader a now = Inr session \<and> entrySessionGuardEnabled config \<and>
        evaluateOpenSession config session = Inl e)" for e
    by (auto simp: evaluateEntrySessionGuard_def Let_def split: option.splits sum.splits if_splits)
  show ?thesis unfolding bind using open_throws by metis
qed

end
