(* ===== verification/RiskGate.thy ===== *)
theory RiskGate
  imports EntryUsage EntrySession
begin

text \<open>
  \<open>src/services/risk-gate.service.ts\<close>: the gate that every order passes before it is
  queued. The checks are kept in the order of the source as a list of blocks, each with its
  condition; the first one that applies is the answer. Each block carries the status code,
  the reason and the details that the code reports. The broker account, the market session
  and the two readings of the clock are parameters.
\<close>

datatype riskGateResult =
    RiskAllowed json
  | RiskBlocked int string json

record riskOptions =
  roRequestedNotionalOverride :: "jsnum option"
  roTradingAccountId :: "int option"
  roEnforceEntrySessionGuard :: "bool option"
  roExcludeOrderIntentId :: "int option"

record normalizedAccount =
  naBroker :: string
  naMode :: string
  naTradingBlocked :: bool

record riskEnv =
  envZone :: "int \<Rightarrow> int"
  envSession :: sessionReader
  envAccount :: "int \<Rightarrow> normalizedAccount result"
  envSessionNow :: int
  envUsageNow :: int

definition ENTRY_ORDER_STATUSES :: "string list" where
  "ENTRY_ORDER_STATUSES =
     [''pending'', ''submitting'', ''submitted'', ''new'', ''accepted'', ''accepted_for_bidding'',
      ''pending_new'', ''partially_filled'', ''filled'']"

definition firstBlock :: "(bool \<times> riskGateResult) list \<Rightarrow> riskGateResult option" where
  "firstBlock checks = map_option snd (List.find fst checks)"

definition block :: "int \<Rightarrow> string \<Rightarrow> (string \<times> json) list \<Rightarrow> riskGateResult" where
  "block statusCode reason details = RiskBlocked statusCode reason (JObj details)"

definition isLimitEnabled :: "jsnum option \<Rightarrow> bool" where
  "isLimitEnabled value = (case value of None \<Rightarrow> False | Some x \<Rightarrow> isFinite x)"

text \<open>\<open>isLimitEnabled(limit) && x > limit\<close>, and \<open>>=\<close>.\<close>

definition exceeds :: "jsnum \<Rightarrow> jsnum option \<Rightarrow> bool" where
  "exceeds x limit = (isLimitEnabled limit \<and> jsGt x (the limit))"

definition reaches :: "jsnum \<Rightarrow> jsnum option \<Rightarrow> bool" where
  "reaches x limit = (isLimitEnabled limit \<and> jsGe x (the limit))"

subsection \<open>Inputs\<close>

definition isEntryOrder :: "placeOrderInput \<Rightarrow> bool" where
  "isEntryOrder input = (poSide input = ''buy'' \<and> nullish (poSignalType input) ''entry'' = ''entry'')"

definition getRequestedNotional :: "placeOrderInput \<Rightarrow> riskOptions \<Rightarrow> jsnum option" where
  "getRequestedNotional input options =
     (if isPositiveFiniteNumber (roRequestedNotionalOverride options) then roRequestedNotionalOverride options
      else case poNotional input of
        Some n \<Rightarrow> Some n
      | None \<Rightarrow>
        (case (poQty input, poLimitPrice input) of
           (Some q, Some p) \<Rightarrow> Some (jsMul q p)
         | _ \<Rightarrow> None))"

text \<open>\<open>getAccountSubscriptionSizingEstimatedNotional\<close> repeats \<open>getSizingEstimatedNotional\<close>.\<close>

definition getOrderIntentEstimatedNotional :: "orderIntentRow \<Rightarrow> jsnum option" where
  "getOrderIntentEstimatedNotional order =
     (case oiNotional order of
        Some n \<Rightarrow> Some n
      | None \<Rightarrow>
        (case (oiQty order, oiLimitPrice order) of
           (Some q, Some p) \<Rightarrow> Some (jsMul q p)
         | _ \<Rightarrow> getSizingEstimatedNotional (oiRawRequestJson order)))"

definition getPositionExposure :: "trackedPositionRow \<Rightarrow> jsnum" where
  "getPositionExposure position =
     (let exposure = orElse (orElse (tpMarketValue position) (tpCostBasis position)) (Fin 0)
      in jsAbs exposure)"

definition hasAccountSubscription :: "store \<Rightarrow> (accountSubscriptionRow \<Rightarrow> bool) \<Rightarrow> bool" where
  "hasAccountSubscription db p = list_ex p (accountSubscriptionTable db)"

definition findSubscriptionForInput :: "store \<Rightarrow> placeOrderInput \<Rightarrow> int \<Rightarrow> subscriptionRow option" where
  "findSubscriptionForInput db input account =
     (case poSubscriptionId input of
        Some sid \<Rightarrow>
          (case poTradingAccountSubscriptionId input of
             None \<Rightarrow> None
           | Some tas \<Rightarrow>
               List.find (\<lambda>s. subId s = sid \<and>
                   hasAccountSubscription db (\<lambda>a. tasSubscriptionId a = subId s \<and> tasId a = tas \<and>
                     tasTradingAccountId a = account))
                 (subscriptionTable db))
      | None \<Rightarrow>
          (case poSubscriptionKey input of
             None \<Rightarrow> None
           | Some key \<Rightarrow> List.find (\<lambda>s. subKey s = key) (subscriptionTable db)))"

definition getAccountRiskSettings :: "store \<Rightarrow> int \<Rightarrow> riskSettingsRow option" where
  "getAccountRiskSettings db account = List.find (\<lambda>r. rsTradingAccountId r = account) (riskSettingsTable db)"

definition getAllocationRiskAccountSubscription ::
  "store \<Rightarrow> placeOrderInput \<Rightarrow> int \<Rightarrow> accountSubscriptionRow option" where
  "getAllocationRiskAccountSubscription db input account =
     (case (poSubscriptionId input, poTradingAccountSubscriptionId input) of
        (Some sid, Some tas) \<Rightarrow>
          List.find (\<lambda>a. tasTradingAccountId a = account \<and> tasSubscriptionId a = sid \<and> tasId a = tas)
            (accountSubscriptionTable db)
      | _ \<Rightarrow> None)"

subsection \<open>The capital hierarchy\<close>

definition isCompleteAllocation :: "allocationRow \<Rightarrow> bool" where
  "isCompleteAllocation a =
     (isLimitEnabled (alMaxAllocatedNotional a) \<and> isLimitEnabled (alMaxOpenPositions a) \<and>
      isLimitEnabled (alMaxPositionNotional a))"

definition evaluateConfiguredHierarchyRisk ::
  "int \<Rightarrow> jsnum option \<Rightarrow> accountSubscriptionRow option \<Rightarrow> jsnum option \<Rightarrow> riskGateResult option" where
  "evaluateConfiguredHierarchyRisk account maxDeployable accountSubscription requested =
     (if \<not> isLimitEnabled maxDeployable then
        Some (block 409 ''Trading account max deployable notional is not configured. New entries are blocked.''
          [(''rule'', JStr ''account_max_deployable_notional_required''), (''tradingAccountId'', jInt account),
           (''maxDeployableNotional'', jOpt JNum maxDeployable)])
      else case accountSubscription of
        None \<Rightarrow> None
      | Some sub \<Rightarrow>
        if \<not> tasEnabled sub \<or> \<not> tasEntriesEnabled sub then None
        else case tasAllocation sub of
          None \<Rightarrow>
            Some (block 409 ''Entry-enabled account subscription is not assigned to an allocation. New entries are blocked.''
              [(''rule'', JStr ''account_subscription_allocation_required''), (''tradingAccountId'', jInt account),
               (''tradingAccountSubscriptionId'', jInt (tasId sub)), (''allocationId'', jOpt jInt (tasAllocationId sub))])
        | Some al \<Rightarrow>
          if \<not> alEnabled al then None
          else firstBlock
            [(\<not> isCompleteAllocation al,
              block 409 ''Assigned allocation has incomplete risk limits. New entries are blocked.''
                [(''rule'', JStr ''allocation_limits_incomplete''), (''tradingAccountId'', jInt account),
                 (''tradingAccountSubscriptionId'', jInt (tasId sub)), (''allocationId'', jInt (alId al)),
                 (''maxAllocatedNotional'', jOpt JNum (alMaxAllocatedNotional al)),
                 (''maxOpenPositions'', jOpt JNum (alMaxOpenPositions al)),
                 (''maxPositionNotional'', jOpt JNum (alMaxPositionNotional al))]),
             (\<not> isLimitEnabled (tasReservedNotional sub),
              block 409 ''Entry-enabled account subscription has no reserved notional. New entries are blocked.''
                [(''rule'', JStr ''account_subscription_reservation_required''), (''tradingAccountId'', jInt account),
                 (''tradingAccountSubscriptionId'', jInt (tasId sub)), (''allocationId'', jInt (alId al)),
                 (''reservedNotional'', jOpt JNum (tasReservedNotional sub))]),
             (requested \<noteq> None \<and> exceeds (the requested) (tasReservedNotional sub),
              block 409 ''Proposed entry notional exceeds the account subscription reservation.''
                [(''rule'', JStr ''account_subscription_reserved_notional_exceeded''), (''tradingAccountId'', jInt account),
                 (''tradingAccountSubscriptionId'', jInt (tasId sub)), (''allocationId'', jInt (alId al)),
                 (''requestedNotional'', jOpt JNum requested),
                 (''reservedNotional'', jOpt JNum (tasReservedNotional sub))])])"

record allocationRiskUsage =
  arActivePositionCount :: jsnum
  arActiveSymbols :: "string list"
  arOpenNotional :: jsnum
  arPendingEntryOrderCount :: jsnum
  arPendingEntryNotional :: jsnum
  arCurrentAllocatedNotional :: jsnum
  arProjectedAllocatedNotional :: "jsnum option"

text \<open>The relation filter \<open>{ is: { allocationId } }\<close> on the account subscription of a row.\<close>

definition inAllocation :: "store \<Rightarrow> int \<Rightarrow> int option \<Rightarrow> bool" where
  "inAllocation db allocation tas =
     (case tas of None \<Rightarrow> False
      | Some t \<Rightarrow> hasAccountSubscription db (\<lambda>a. tasId a = t \<and> tasAllocationId a = Some allocation))"

definition getAllocationRiskUsage ::
  "store \<Rightarrow> int \<Rightarrow> int \<Rightarrow> jsnum option \<Rightarrow> int option \<Rightarrow> allocationRiskUsage" where
  "getAllocationRiskUsage db account allocation requested exclude =
     (let activePositions =
            filter (\<lambda>p. activePositionWhere account p \<and> inAllocation db allocation (tpTradingAccountSubscriptionId p))
              (trackedPositionTable db);
          pendingEntryOrders =
            filter (\<lambda>i. oiTradingAccountId i = Some account \<and> oiSide i = ''buy'' \<and>
                oiTrackedPositionId i = None \<and> oiStatus i \<in> set ENTRY_ORDER_STATUSES \<and>
                notExcluded exclude i \<and> inAllocation db allocation (oiTradingAccountSubscriptionId i))
              (orderIntentTable db);
          openNotional = jsSum (map getPositionExposure activePositions);
          pendingEntryNotional =
            jsSum (map (\<lambda>i. nullish (getOrderIntentEstimatedNotional i) (Fin 0)) pendingEntryOrders);
          currentAllocatedNotional = jsAdd openNotional pendingEntryNotional
      in \<lparr>arActivePositionCount = jsInt (int (length activePositions)),
          arActiveSymbols = uniqueInOrder (map tpSymbol activePositions),
          arOpenNotional = openNotional,
          arPendingEntryOrderCount = jsInt (int (length pendingEntryOrders)),
          arPendingEntryNotional = pendingEntryNotional,
          arCurrentAllocatedNotional = currentAllocatedNotional,
          arProjectedAllocatedNotional = map_option (jsAdd currentAllocatedNotional) requested\<rparr>)"

record allocationRiskDetails =
  adTradingAccountSubscriptionId :: int
  adAllocation :: allocationRow
  adRequestedNotional :: "jsnum option"
  adUsage :: allocationRiskUsage

definition getAllocationRiskDetails ::
  "store \<Rightarrow> accountSubscriptionRow option \<Rightarrow> int \<Rightarrow> jsnum option \<Rightarrow> int option \<Rightarrow> allocationRiskDetails option" where
  "getAllocationRiskDetails db accountSubscription account requested exclude =
     (case accountSubscription of
        None \<Rightarrow> None
      | Some sub \<Rightarrow>
        (case tasAllocation sub of
           None \<Rightarrow> None
         | Some al \<Rightarrow>
           Some \<lparr>adTradingAccountSubscriptionId = tasId sub, adAllocation = al,
                 adRequestedNotional = requested,
                 adUsage = getAllocationRiskUsage db account (alId al) requested exclude\<rparr>))"

definition jStrs :: "string list \<Rightarrow> json" where
  "jStrs xs = JArr (map JStr xs)"

definition allocationRiskJson :: "allocationRiskDetails \<Rightarrow> json" where
  "allocationRiskJson r =
     (let al = adAllocation r; u = adUsage r in
      JObj [(''tradingAccountSubscriptionId'', jInt (adTradingAccountSubscriptionId r)),
        (''allocationId'', jInt (alId al)), (''allocationKey'', JStr (alKey al)),
        (''allocationName'', JStr (alName al)), (''enabled'', JBool (alEnabled al)),
        (''limits'', JObj [(''maxAllocatedNotional'', jOpt JNum (alMaxAllocatedNotional al)),
           (''maxOpenPositions'', jOpt JNum (alMaxOpenPositions al)),
           (''maxPositionNotional'', jOpt JNum (alMaxPositionNotional al))]),
        (''requestedNotional'', jOpt JNum (adRequestedNotional r)),
        (''usage'', JObj [(''activePositionCount'', JNum (arActivePositionCount u)),
           (''activeSymbols'', jStrs (arActiveSymbols u)), (''openNotional'', JNum (arOpenNotional u)),
           (''pendingEntryOrderCount'', JNum (arPendingEntryOrderCount u)),
           (''pendingEntryNotional'', JNum (arPendingEntryNotional u)),
           (''currentAllocatedNotional'', JNum (arCurrentAllocatedNotional u)),
           (''projectedAllocatedNotional'', jOpt JNum (arProjectedAllocatedNotional u))])])"

definition allocationBlockDetails ::
  "allocationRiskDetails \<Rightarrow> (string \<times> json) list \<Rightarrow> (string \<times> json) list" where
  "allocationBlockDetails r details =
     [(''allocationId'', jInt (alId (adAllocation r))), (''allocationKey'', JStr (alKey (adAllocation r))),
      (''allocationName'', JStr (alName (adAllocation r))),
      (''tradingAccountSubscriptionId'', jInt (adTradingAccountSubscriptionId r))] @ details"

definition evaluateAllocationRisk :: "allocationRiskDetails option \<Rightarrow> riskGateResult option" where
  "evaluateAllocationRisk allocationRisk =
     (case allocationRisk of
        None \<Rightarrow> None
      | Some r \<Rightarrow>
        (let al = adAllocation r; u = adUsage r; requested = adRequestedNotional r in
         firstBlock
           [(\<not> alEnabled al,
             block 403 ''Allocation bucket is disabled for new entries.''
               ([(''rule'', JStr ''allocation_disabled'')] @
                allocationBlockDetails r [(''enabled'', JBool (alEnabled al))])),
            (requested \<noteq> None \<and> exceeds (the requested) (alMaxPositionNotional al),
             block 409 ''Allocation per-position notional limit would be exceeded.''
               ([(''rule'', JStr ''allocation_max_position_notional_exceeded'')] @
                allocationBlockDetails r [(''limit'', jOpt JNum (alMaxPositionNotional al)),
                  (''requestedNotional'', jOpt JNum requested)])),
            (reaches (arActivePositionCount u) (alMaxOpenPositions al),
             block 409 ''Allocation maximum open position limit reached.''
               ([(''rule'', JStr ''allocation_max_open_positions_exceeded'')] @
                allocationBlockDetails r [(''limit'', jOpt JNum (alMaxOpenPositions al)),
                  (''current'', JNum (arActivePositionCount u)),
                  (''projected'', JNum (jsAdd (arActivePositionCount u) (Fin 1))),
                  (''activeSymbols'', jStrs (arActiveSymbols u))])),
            (requested \<noteq> None \<and> arProjectedAllocatedNotional u \<noteq> None \<and>
             exceeds (the (arProjectedAllocatedNotional u)) (alMaxAllocatedNotional al),
             block 409 ''Allocation allocated notional limit would be exceeded.''
               ([(''rule'', JStr ''allocation_max_allocated_notional_exceeded'')] @
                allocationBlockDetails r [(''limit'', jOpt JNum (alMaxAllocatedNotional al)),
                  (''current'', JNum (arCurrentAllocatedNotional u)),
                  (''projected'', jOpt JNum (arProjectedAllocatedNotional u)),
                  (''requestedNotional'', jOpt JNum requested),
                  (''openNotional'', JNum (arOpenNotional u)),
                  (''pendingEntryNotional'', JNum (arPendingEntryNotional u))]))]))"

subsection \<open>Diagnostics\<close>

definition sourceText :: "effectiveLimitSource \<Rightarrow> string" where
  "sourceText s = (case s of ACCOUNT \<Rightarrow> ''ACCOUNT'' | LEGACY_GLOBAL_FALLBACK \<Rightarrow> ''LEGACY_GLOBAL_FALLBACK'')"

definition limitJson :: "effectiveLimit \<Rightarrow> json" where
  "limitJson l = JObj [(''value'', jOpt JNum (elValue l)), (''source'', JStr (sourceText (elSource l)))]"

definition effectiveLimitsJson :: "effectiveAccountEntryLimits \<Rightarrow> json" where
  "effectiveLimitsJson e =
     JObj [(''tradingAccountId'', jInt (ealTradingAccountId e)),
       (''accountRiskSettingsEnabled'', JBool (ealAccountRiskSettingsEnabled e)),
       (''usingLegacyGlobalFallback'', JBool (ealUsingLegacyGlobalFallback e)),
       (''limits'', JObj [(''maxDailyEntryOrders'', limitJson (ealLimits e MaxDailyEntryOrders)),
          (''maxDailyEntryNotional'', limitJson (ealLimits e MaxDailyEntryNotional)),
          (''maxOpenPositions'', limitJson (ealLimits e MaxOpenPositions)),
          (''maxSymbolOpenNotional'', limitJson (ealLimits e MaxSymbolOpenNotional))]),
       (''authoritativeTotalExposure'', JObj [(''field'', JStr ''maxDeployableNotional''),
          (''value'', jOpt JNum (ealTotalExposureLimit e)), (''source'', JStr ''TRADING_ACCOUNT'')]),
       (''superseded'', JObj [
          (''accountMaxTotalOpenNotional'', jOpt JNum (ealAccountMaxTotalOpenNotional e)),
          (''globalMaxTotalOpenNotional'', jOpt JNum (ealGlobalMaxTotalOpenNotional e)),
          (''accountMaxSubscriptionOpenNotional'', jOpt JNum (ealAccountMaxSubscriptionOpenNotional e)),
          (''globalMaxSubscriptionOpenNotional'', jOpt JNum (ealGlobalMaxSubscriptionOpenNotional e))])]"

definition dailyWindowJson :: "dailyEntryWindow \<Rightarrow> json" where
  "dailyWindowJson w =
     JObj [(''timeZone'', JStr ''America/New_York''), (''date'', JStr (dwDate w)),
       (''start'', JDate (dwStart w)), (''nextStart'', JDate (dwNextStart w))]"

definition accountRiskDiagnostics :: "effectiveAccountEntryLimits \<Rightarrow> entryRiskUsage \<Rightarrow> (string \<times> json) list" where
  "accountRiskDiagnostics effective u =
     [(''effectiveEntryLimits'', effectiveLimitsJson effective),
      (''usage'', JObj [(''dailyWindow'', dailyWindowJson (uDailyWindow u)),
         (''dailyEntryOrderCount'', JNum (uDailyEntryOrderCount u)),
         (''dailyEntryNotional'', JNum (uDailyEntryNotional u)),
         (''activePositionCount'', JNum (uActivePositionCount u)),
         (''pendingEntryPositionCount'', JNum (uPendingEntryPositionCount u)),
         (''currentAccountPositionSlots'', JNum (uCurrentAccountPositionSlots u)),
         (''openPositionNotional'', JNum (uOpenPositionNotional u)),
         (''pendingEntryNotional'', JNum (uPendingEntryNotional u)),
         (''currentAccountExposure'', JNum (uCurrentAccountExposure u)),
         (''symbolOpenNotional'', JNum (uSymbolOpenNotional u)),
         (''symbolPendingEntryNotional'', JNum (uSymbolPendingEntryNotional u)),
         (''currentSymbolExposure'', JNum (uCurrentSymbolExposure u))])]"

end
