(* ===== verification/OrderRisk.thy ===== *)
theory OrderRisk
  imports RiskGate
begin

text \<open>
  The two entry points of \<open>src/services/risk-gate.service.ts\<close>: \<open>evaluateOrderRisk\<close>, the gate
  of an order, and \<open>getRiskStatus\<close>, the status that the dashboard shows; and the event that
  a blocked order logs. The data they read is the one of \<open>RiskGate\<close>.
\<close>

subsection \<open>Registration\<close>

definition usesSubscription :: "placeOrderInput \<Rightarrow> bool" where
  "usesSubscription input = (poSubscriptionKey input \<noteq> None \<or> poSubscriptionId input \<noteq> None)"

definition subscriptionLabel :: "placeOrderInput \<Rightarrow> string" where
  "subscriptionLabel input =
     (case poSubscriptionKey input of Some k \<Rightarrow> k
      | None \<Rightarrow> (case poSubscriptionId input of Some n \<Rightarrow> showInt n | None \<Rightarrow> ''undefined''))"

definition securityForInput :: "store \<Rightarrow> placeOrderInput \<Rightarrow> subscriptionRow option \<Rightarrow> securityRow option" where
  "securityForInput db input subscription =
     (case subscription of Some s \<Rightarrow> Some (subSecurity s)
      | None \<Rightarrow> List.find (\<lambda>s. secSymbol s = poSymbol input) (securityTable db))"

definition registrationChecks ::
  "runtimeTradingConfig \<Rightarrow> placeOrderInput \<Rightarrow> subscriptionRow option \<Rightarrow> securityRow option \<Rightarrow>
   (bool \<times> riskGateResult) list" where
  "registrationChecks config input subscription security =
     [(\<not> tradingEnabled config,
       block 403 ''Trading is disabled.''
         [(''rule'', JStr ''tradingEnabled''), (''tradingEnabled'', JBool (tradingEnabled config))]),
      (security = None,
       block 403 (''Ticker '' @ poSymbol input @ '' is not in the securities database.'')
         [(''rule'', JStr ''security_registered''), (''symbol'', JStr (poSymbol input))]),
      (\<not> secEnabled (the security),
       block 409 (''Security '' @ poSymbol input @ '' is disabled for trading.'')
         [(''rule'', JStr ''security_enabled''), (''symbol'', JStr (poSymbol input))]),
      (usesSubscription input \<and> subscription = None,
       block 404 (''Subscription '' @ subscriptionLabel input @ '' was not found.'')
         [(''rule'', JStr ''subscription_exists''),
          (''subscriptionKey'', jOpt JStr (poSubscriptionKey input)),
          (''subscriptionId'', jOpt jInt (poSubscriptionId input))]),
      (usesSubscription input \<and> \<not> subEnabled (the subscription),
       block 403 (''Subscription '' @ subKey (the subscription) @ '' is disabled.'')
         [(''rule'', JStr ''subscription_enabled''), (''subscriptionKey'', JStr (subKey (the subscription)))]),
      (usesSubscription input \<and> \<not> strEnabled (subStrategy (the subscription)),
       block 403 (''Strategy '' @ strKey (subStrategy (the subscription)) @ '' is disabled.'')
         [(''rule'', JStr ''strategy_enabled''), (''strategyKey'', JStr (strKey (subStrategy (the subscription))))]),
      (usesSubscription input \<and> \<not> epEnabled (subExitProfile (the subscription)),
       block 403 (''Exit profile '' @ epKey (subExitProfile (the subscription)) @ '' is disabled.'')
         [(''rule'', JStr ''exit_profile_enabled''),
          (''exitProfileKey'', JStr (epKey (subExitProfile (the subscription))))]),
      (isEntryOrder input \<and> killSwitchEnabled config,
       block 403 ''Kill switch is active. New entries are blocked.''
         [(''rule'', JStr ''killSwitchEnabled''), (''killSwitchEnabled'', JBool (killSwitchEnabled config)),
          (''symbol'', JStr (poSymbol input)), (''subscriptionKey'', jOpt JStr (poSubscriptionKey input))])]"

definition brokerBlockedCheck :: "normalizedAccount \<Rightarrow> riskGateResult" where
  "brokerBlockedCheck account =
     block 403 ''Broker account is trading blocked.''
       [(''rule'', JStr ''broker_trading_blocked''), (''broker'', JStr (naBroker account)),
        (''mode'', JStr (naMode account)), (''tradingBlocked'', JBool (naTradingBlocked account))]"

subsection \<open>Account limits\<close>

definition accountChecks ::
  "placeOrderInput \<Rightarrow> int \<Rightarrow> effectiveAccountEntryLimits \<Rightarrow> entryRiskUsage \<Rightarrow> jsnum option \<Rightarrow>
   accountSubscriptionRow option \<Rightarrow> (bool \<times> riskGateResult) list" where
  "accountChecks input account effective u requested accountSubscription =
     (let diag = accountRiskDiagnostics effective u;
          existing = List.find (\<lambda>p. tpSymbol p = poSymbol input) (uActivePositions u);
          orders = ealLimits effective MaxDailyEntryOrders;
          positions = ealLimits effective MaxOpenPositions;
          notional = ealLimits effective MaxDailyEntryNotional;
          symbolLimit = ealLimits effective MaxSymbolOpenNotional;
          deployable = ealTotalExposureLimit effective;
          r = the requested;
          projectedAccount = jsAdd (uCurrentAccountExposure u) r;
          projectedSymbol = jsAdd (uCurrentSymbolExposure u) r;
          layer = [(''layer'', JStr ''account''), (''tradingAccountId'', jInt account)]
      in [(existing \<noteq> None,
           block 409 (''Entry signal blocked because '' @ poSymbol input @
               '' already has an open or closing tracked position.'')
             (diag @ [(''rule'', JStr ''one_active_position_per_symbol''), (''symbol'', JStr (poSymbol input)),
               (''trackedPositionId'', jInt (tpId (the existing))),
               (''trackedPositionStatus'', JStr (tpStatus (the existing)))])),
          (exceeds (jsAdd (uDailyEntryOrderCount u) (Fin 1)) (elValue orders),
           block 409 ''Account daily entry order limit would be exceeded.''
             (diag @ [(''rule'', JStr ''account_max_daily_entry_orders_exceeded'')] @ layer @
              [(''field'', JStr ''maxDailyEntryOrders''), (''source'', JStr (sourceText (elSource orders))),
               (''current'', JNum (uDailyEntryOrderCount u)), (''requested'', jInt 1),
               (''projected'', JNum (jsAdd (uDailyEntryOrderCount u) (Fin 1))),
               (''limit'', jOpt JNum (elValue orders)), (''dailyWindow'', dailyWindowJson (uDailyWindow u))])),
          (exceeds (jsAdd (uCurrentAccountPositionSlots u) (Fin 1)) (elValue positions),
           block 409 ''Account maximum position capacity would be exceeded.''
             (diag @ [(''rule'', JStr ''account_max_open_positions_exceeded'')] @ layer @
              [(''field'', JStr ''maxOpenPositions''), (''source'', JStr (sourceText (elSource positions))),
               (''activePositionCount'', JNum (uActivePositionCount u)),
               (''pendingEntryPositionCount'', JNum (uPendingEntryPositionCount u)),
               (''current'', JNum (uCurrentAccountPositionSlots u)), (''requested'', jInt 1),
               (''projected'', JNum (jsAdd (uCurrentAccountPositionSlots u) (Fin 1))),
               (''limit'', jOpt JNum (elValue positions)), (''activeSymbols'', jStrs (uActiveSymbols u)),
               (''pendingSymbols'', jStrs (uPendingSymbols u))])),
          (\<not> isLimitEnabled deployable,
           block 409 ''Trading account max deployable notional is not configured. New entries are blocked.''
             (diag @ [(''rule'', JStr ''account_max_deployable_notional_required'')] @ layer @
              [(''field'', JStr ''maxDeployableNotional''), (''maxDeployableNotional'', jOpt JNum deployable)])),
          (requested = None,
           block 409 ''Proposed entry notional is required for account risk evaluation.''
             (diag @ [(''rule'', JStr ''account_entry_notional_required'')] @ layer @
              [(''field'', JStr ''requestedNotional''), (''requestedNotional'', jOpt JNum requested)])),
          (exceeds (jsAdd (uDailyEntryNotional u) r) (elValue notional),
           block 409 ''Account daily entry notional limit would be exceeded.''
             (diag @ [(''rule'', JStr ''account_max_daily_entry_notional_exceeded'')] @ layer @
              [(''field'', JStr ''maxDailyEntryNotional''), (''source'', JStr (sourceText (elSource notional))),
               (''current'', JNum (uDailyEntryNotional u)), (''requested'', JNum r),
               (''projected'', JNum (jsAdd (uDailyEntryNotional u) r)),
               (''limit'', jOpt JNum (elValue notional)), (''dailyWindow'', dailyWindowJson (uDailyWindow u))])),
          (jsGt projectedAccount (the deployable),
           block 409 ''Trading account deployable exposure would be exceeded.''
             (diag @ [(''rule'', JStr ''account_max_deployable_notional_exceeded'')] @ layer @
              [(''field'', JStr ''maxDeployableNotional''), (''source'', JStr ''TRADING_ACCOUNT''),
               (''openPositionNotional'', JNum (uOpenPositionNotional u)),
               (''pendingEntryNotional'', JNum (uPendingEntryNotional u)),
               (''currentAccountExposure'', JNum (uCurrentAccountExposure u)),
               (''requestedNotional'', JNum r), (''projectedAccountExposure'', JNum projectedAccount),
               (''maxDeployableNotional'', jOpt JNum deployable)])),
          (exceeds projectedSymbol (elValue symbolLimit),
           block 409 (''Account symbol exposure limit would be exceeded for '' @ poSymbol input @ ''.'')
             (diag @ [(''rule'', JStr ''account_max_symbol_open_notional_exceeded'')] @ layer @
              [(''field'', JStr ''maxSymbolOpenNotional''), (''source'', JStr (sourceText (elSource symbolLimit))),
               (''symbol'', JStr (poSymbol input)), (''openSymbolNotional'', JNum (uSymbolOpenNotional u)),
               (''pendingSymbolNotional'', JNum (uSymbolPendingEntryNotional u)),
               (''currentSymbolExposure'', JNum (uCurrentSymbolExposure u)),
               (''requestedNotional'', JNum r), (''projectedSymbolExposure'', JNum projectedSymbol),
               (''maxSymbolOpenNotional'', jOpt JNum (elValue symbolLimit))])),
          (accountSubscription = None,
           block 409 ''Trading account subscription identity is required for entry risk evaluation.''
             [(''rule'', JStr ''account_subscription_identity_required''), (''tradingAccountId'', jInt account),
              (''tradingAccountSubscriptionId'', jOpt jInt (poTradingAccountSubscriptionId input)),
              (''subscriptionId'', jOpt jInt (poSubscriptionId input))])])"

subsection \<open>The gate\<close>

definition allowedEntryDetails ::
  "placeOrderInput \<Rightarrow> int \<Rightarrow> effectiveAccountEntryLimits \<Rightarrow> entryRiskUsage \<Rightarrow> jsnum \<Rightarrow>
   entrySessionDecision option \<Rightarrow> allocationRiskDetails option \<Rightarrow> json" where
  "allowedEntryDetails input account effective u r entrySession allocationRisk =
     JObj [(''orderType'', JStr ''entry''), (''tradingAccountId'', jInt account),
       (''symbol'', JStr (poSymbol input)), (''side'', JStr (poSide input)),
       (''subscriptionKey'', jOpt JStr (poSubscriptionKey input)), (''requestedNotional'', JNum r),
       (''entrySession'',
         (case entrySession of
            Some s \<Rightarrow> entrySessionDetailsAsJson s
          | None \<Rightarrow> JObj [(''checked'', JBool False),
              (''reason'', JStr ''Entry session guard was not enforced for this evaluation.'')])),
       (''usage'', JObj [
          (''dailyEntryOrderCount'', JNum (uDailyEntryOrderCount u)),
          (''dailyEntryNotional'', JNum (uDailyEntryNotional u)),
          (''activePositionCount'', JNum (uActivePositionCount u)),
          (''pendingEntryPositionCount'', JNum (uPendingEntryPositionCount u)),
          (''currentAccountPositionSlots'', JNum (uCurrentAccountPositionSlots u)),
          (''openPositionNotional'', JNum (uOpenPositionNotional u)),
          (''pendingEntryNotional'', JNum (uPendingEntryNotional u)),
          (''currentAccountExposure'', JNum (uCurrentAccountExposure u)),
          (''projectedAccountExposure'', JNum (jsAdd (uCurrentAccountExposure u) r)),
          (''symbolOpenNotional'', JNum (uSymbolOpenNotional u)),
          (''symbolPendingEntryNotional'', JNum (uSymbolPendingEntryNotional u)),
          (''projectedSymbolExposure'', JNum (jsAdd (uCurrentSymbolExposure u) r)),
          (''activeSymbols'', jStrs (uActiveSymbols u))]),
       (''effectiveEntryLimits'', effectiveLimitsJson effective),
       (''allocationRisk'', jOpt allocationRiskJson allocationRisk)]"

text \<open>The part of the gate after the session check, for an entry order.\<close>

definition usageFor :: "riskEnv \<Rightarrow> store \<Rightarrow> placeOrderInput \<Rightarrow> riskOptions \<Rightarrow> int \<Rightarrow> entryRiskUsage" where
  "usageFor env db input options account =
     getTradingAccountEntryRiskUsage (envZone env) db account (poSymbol input) (envUsageNow env)
       (roExcludeOrderIntentId options)"

definition limitsFor :: "store \<Rightarrow> int \<Rightarrow> effectiveAccountEntryLimits" where
  "limitsFor db account =
     resolveEffectiveAccountEntryLimits account
       (Option.bind (List.find (\<lambda>t. taId t = account) (tradingAccountTable db)) taMaxDeployableNotional)
       (getAccountRiskSettings db account) (getRuntimeTradingConfig db)"

definition evaluateEntryLimits ::
  "riskEnv \<Rightarrow> store \<Rightarrow> placeOrderInput \<Rightarrow> riskOptions \<Rightarrow> int \<Rightarrow> entrySessionDecision option \<Rightarrow> riskGateResult" where
  "evaluateEntryLimits env db input options account entrySession =
     (let requested = getRequestedNotional input options;
          u = usageFor env db input options account;
          effective = limitsFor db account;
          accountSubscription = getAllocationRiskAccountSubscription db input account
      in case firstBlock (accountChecks input account effective u requested accountSubscription) of
           Some b \<Rightarrow> b
         | None \<Rightarrow>
           (case evaluateConfiguredHierarchyRisk account (ealTotalExposureLimit effective)
                   accountSubscription requested of
              Some b \<Rightarrow> b
            | None \<Rightarrow>
              (let allocationRisk = getAllocationRiskDetails db accountSubscription account requested
                      (roExcludeOrderIntentId options)
               in case evaluateAllocationRisk allocationRisk of
                    Some b \<Rightarrow> b
                  | None \<Rightarrow> RiskAllowed (allowedEntryDetails input account effective u (the requested)
                               entrySession allocationRisk))))"

definition evaluateOrderRisk ::
  "riskEnv \<Rightarrow> store \<Rightarrow> placeOrderInput \<Rightarrow> riskOptions \<Rightarrow> riskGateResult result" where
  "evaluateOrderRisk env db input options =
     (case roTradingAccountId options of
        None \<Rightarrow> Inl (HttpError 400 ''tradingAccountId is required for order risk evaluation.'' JNull)
      | Some account \<Rightarrow>
        (let config = getRuntimeTradingConfig db;
             subscription = findSubscriptionForInput db input account;
             security = securityForInput db input subscription
         in case firstBlock (registrationChecks config input subscription security) of
              Some b \<Rightarrow> Inr b
            | None \<Rightarrow>
              bindR (envAccount env account) (\<lambda>broker.
                if naTradingBlocked broker then Inr (brokerBlockedCheck broker)
                else if \<not> isEntryOrder input then
                  Inr (RiskAllowed (JObj [(''orderType'', JStr ''non_entry''), (''symbol'', JStr (poSymbol input)),
                    (''side'', JStr (poSide input)),
                    (''reason'', JStr ''Entry-only risk limits were skipped.'')]))
                else if roEnforceEntrySessionGuard options = Some False then
                  Inr (evaluateEntryLimits env db input options account None)
                else
                  bindR (evaluateEntrySessionGuard (envSession env) config (envSessionNow env) (Some account))
                    (\<lambda>entrySession. case entrySession of
                       SessionBlocked statusCode reason _ \<Rightarrow>
                         Inr (RiskBlocked statusCode reason (entrySessionDetailsAsJson entrySession))
                     | SessionAllowed _ _ \<Rightarrow>
                         Inr (evaluateEntryLimits env db input options account (Some entrySession))))))"

definition logRiskGateBlockedOrder ::
  "int \<Rightarrow> int option \<Rightarrow> placeOrderInput \<Rightarrow> int \<times> string \<times> json \<Rightarrow> json" where
  "logRiskGateBlockedOrder orderIntentId account input result =
     (let (statusCode, reason, details) = result in
      JObj [(''type'', JStr ''risk_gate.blocked''), (''entityType'', JStr ''orderIntent''),
        (''entityId'', JStr (showInt orderIntentId)), (''tradingAccountId'', jOpt jInt account),
        (''severity'', JStr (if 500 \<le> statusCode then ''ERROR'' else ''WARNING'')),
        (''payloadJson'', JObj [(''orderIntentId'', jInt orderIntentId), (''symbol'', JStr (poSymbol input)),
           (''side'', JStr (poSide input)), (''subscriptionKey'', jOpt JStr (poSubscriptionKey input)),
           (''reason'', JStr reason), (''statusCode'', jInt statusCode), (''details'', details)])])"

subsection \<open>The status\<close>

definition sessionBlockReason :: "entrySessionBlockRule \<Rightarrow> string" where
  "sessionBlockReason rule =
     (case rule of
        entry_open_buffer_active \<Rightarrow> ''Opening entry buffer is active.''
      | entry_close_buffer_active \<Rightarrow> ''Pre-close entry cutoff is active.''
      | market_clock_unavailable \<Rightarrow> ''Alpaca market session is unavailable.''
      | entry_window_unavailable \<Rightarrow> ''Entry window is unavailable.''
      | market_closed \<Rightarrow> ''Regular market is closed.'')"

record riskStatus =
  rstCanEnter :: bool
  rstReasons :: "string list"
  rstBroker :: normalizedAccount
  rstExpectedMode :: string
  rstConfig :: runtimeTradingConfig
  rstEntrySession :: entrySessionDecision
  rstDailyEntryOrderCount :: jsnum
  rstDailyEntryNotional :: jsnum
  rstActivePositionCount :: jsnum
  rstTotalOpenNotional :: jsnum
  rstActiveSymbols :: "string list"

definition statusReasons ::
  "runtimeTradingConfig \<Rightarrow> normalizedAccount \<Rightarrow> entrySessionDecision \<Rightarrow> entryRiskUsage \<Rightarrow> string list" where
  "statusReasons config account entrySession u =
     map snd (filter fst
       [(\<not> tradingEnabled config, ''Trading is disabled.''),
        (killSwitchEnabled config, ''Kill switch is active. New entries are blocked.''),
        (naTradingBlocked account, ''Broker account is trading blocked.''),
        (isEntrySessionBlocked entrySession,
         sessionBlockReason (the (sdRule (sessionDetails entrySession)))),
        (reaches (uDailyEntryOrderCount u) (maxDailyEntryOrders config), ''Daily entry order limit reached.''),
        (reaches (uActivePositionCount u) (maxOpenPositions config), ''Maximum open position limit reached.''),
        (reaches (uDailyEntryNotional u) (maxDailyEntryNotional config), ''Daily entry notional limit reached.''),
        (reaches (uCurrentAccountExposure u) (maxTotalOpenNotional config), ''Total open notional limit reached.'')])"

text \<open>The default account is resolved by the trading account service, which may throw.\<close>

definition getRiskStatus :: "riskEnv \<Rightarrow> int result \<Rightarrow> store \<Rightarrow> riskStatus result" where
  "getRiskStatus env defaultAccount db =
     bindR defaultAccount (\<lambda>account.
     let config = getRuntimeTradingConfig db in
     bindR (envAccount env account) (\<lambda>broker.
     let u = getTradingAccountEntryRiskUsage (envZone env) db account [] (envUsageNow env) None in
     bindR (evaluateEntrySessionGuard (envSession env) config (envSessionNow env) (Some account)) (\<lambda>entrySession.
     let reasons = statusReasons config broker entrySession u in
     Inr \<lparr>rstCanEnter = (reasons = []), rstReasons = reasons, rstBroker = broker,
          rstExpectedMode = naMode broker, rstConfig = config, rstEntrySession = entrySession,
          rstDailyEntryOrderCount = uDailyEntryOrderCount u, rstDailyEntryNotional = uDailyEntryNotional u,
          rstActivePositionCount = uActivePositionCount u, rstTotalOpenNotional = uCurrentAccountExposure u,
          rstActiveSymbols = uActiveSymbols u\<rparr>)))"

end
