(* ===== verification/OrderRiskSafety.thy ===== *)
theory OrderRiskSafety
  imports OrderRisk
begin

text \<open>
  What the risk gate promises: a specification of an admissible entry as a conjunction of
  its limits, the proof that the early returns of the gate decide exactly that
  specification, and what follows for the exposures of the account.
\<close>

lemma firstBlock_simps [simp]:
  "firstBlock [] = None"
  "firstBlock ((c, b) # xs) = (if c then Some b else firstBlock xs)"
  by (simp_all add: firstBlock_def)

lemma firstBlock_None [simp]: "firstBlock ((c, b) # xs) = None \<longleftrightarrow> \<not> c \<and> firstBlock xs = None"
  by simp

declare firstBlock_simps(2) [simp del]

lemma firstBlock_SomeD: "firstBlock xs = Some b \<Longrightarrow> b \<in> snd ` set xs"
  by (induction xs) (auto simp: firstBlock_simps(2) split: if_splits)

subsection \<open>Limits\<close>

lemma exceeds_mono: "exceeds x l \<Longrightarrow> jsLe x y \<Longrightarrow> exceeds y l"
  by (cases x; cases y; cases "the l") (auto simp: exceeds_def)

lemma exceeds_NaN [simp]: "\<not> exceeds NaN l"
  by (simp add: exceeds_def)

text \<open>A finite limit is respected in the order of the numbers once the value is a number.\<close>

definition withinLimit :: "jsnum \<Rightarrow> jsnum option \<Rightarrow> bool" where
  "withinLimit x l = (case l of Some (Fin m) \<Rightarrow> jsLe x (Fin m) | _ \<Rightarrow> True)"

lemma isLimitEnabled_iff: "isLimitEnabled l \<longleftrightarrow> (\<exists>m. l = Some (Fin m))"
proof (cases l)
  case (Some x)
  then show ?thesis by (cases x) (auto simp: isLimitEnabled_def)
qed (simp add: isLimitEnabled_def)

lemma not_exceeds_withinLimit: "x \<noteq> NaN \<Longrightarrow> \<not> exceeds x l \<Longrightarrow> withinLimit x l"
  by (auto simp: exceeds_def withinLimit_def isLimitEnabled_iff not_jsLt split: option.splits jsnum.splits)

lemma jsAdd_gt_mono: "jsLe r' r \<Longrightarrow> r' \<noteq> PosInf \<Longrightarrow> jsAdd c r' = NaN \<or> jsAdd c r = NaN \<or> jsLe (jsAdd c r') (jsAdd c r)"
  by (cases c; cases r; cases r') (auto intro: rnd_mono)

subsection \<open>The specification\<close>

definition accountAdmissible ::
  "placeOrderInput \<Rightarrow> effectiveAccountEntryLimits \<Rightarrow> entryRiskUsage \<Rightarrow> jsnum \<Rightarrow> bool" where
  "accountAdmissible input e u r \<longleftrightarrow>
     (\<forall>p\<in>set (uActivePositions u). tpSymbol p \<noteq> poSymbol input) \<and>
     \<not> exceeds (jsAdd (uDailyEntryOrderCount u) (Fin 1)) (elValue (ealLimits e MaxDailyEntryOrders)) \<and>
     \<not> exceeds (jsAdd (uCurrentAccountPositionSlots u) (Fin 1)) (elValue (ealLimits e MaxOpenPositions)) \<and>
     isLimitEnabled (ealTotalExposureLimit e) \<and>
     \<not> exceeds (jsAdd (uDailyEntryNotional u) r) (elValue (ealLimits e MaxDailyEntryNotional)) \<and>
     \<not> exceeds (jsAdd (uCurrentAccountExposure u) r) (ealTotalExposureLimit e) \<and>
     \<not> exceeds (jsAdd (uCurrentSymbolExposure u) r) (elValue (ealLimits e MaxSymbolOpenNotional))"

definition assignmentAdmissible :: "accountSubscriptionRow \<Rightarrow> jsnum \<Rightarrow> bool" where
  "assignmentAdmissible sub r \<longleftrightarrow>
     (tasEnabled sub \<and> tasEntriesEnabled sub \<longrightarrow>
        (\<exists>al. tasAllocation sub = Some al \<and> isCompleteAllocation al) \<and>
        isLimitEnabled (tasReservedNotional sub) \<and> \<not> exceeds r (tasReservedNotional sub))"

definition allocationAdmissible ::
  "store \<Rightarrow> int \<Rightarrow> accountSubscriptionRow \<Rightarrow> jsnum \<Rightarrow> int option \<Rightarrow> bool" where
  "allocationAdmissible db account sub r exclude \<longleftrightarrow>
     (case tasAllocation sub of None \<Rightarrow> True
      | Some al \<Rightarrow>
        let u = getAllocationRiskUsage db account (alId al) (Some r) exclude in
        alEnabled al \<and> \<not> exceeds r (alMaxPositionNotional al) \<and>
        \<not> reaches (arActivePositionCount u) (alMaxOpenPositions al) \<and>
        \<not> exceeds (jsAdd (arCurrentAllocatedNotional u) r) (alMaxAllocatedNotional al))"

lemma find_None_iff: "List.find P xs = None \<longleftrightarrow> (\<forall>x\<in>set xs. \<not> P x)"
  by (induction xs) auto

lemma accountChecks_pass:
  "firstBlock (accountChecks input a e u requested sub) = None \<longleftrightarrow>
   (\<exists>r. requested = Some r \<and> accountAdmissible input e u r) \<and> sub \<noteq> None"
  by (cases requested)
    (auto simp: accountChecks_def Let_def accountAdmissible_def find_None_iff exceeds_def[of _ "ealTotalExposureLimit e"])

lemma hierarchy_pass:
  "evaluateConfiguredHierarchyRisk a dep (Some sub) (Some r) = None \<and> allocationAdmissible db a sub r ex \<longleftrightarrow>
   isLimitEnabled dep \<and> assignmentAdmissible sub r \<and> allocationAdmissible db a sub r ex"
  by (cases "tasAllocation sub")
    (auto simp: evaluateConfiguredHierarchyRisk_def assignmentAdmissible_def allocationAdmissible_def Let_def)

lemma allocation_pass:
  "evaluateAllocationRisk (getAllocationRiskDetails db (Some sub) a (Some r) ex) = None \<longleftrightarrow>
   allocationAdmissible db a sub r ex"
proof -
  have proj: "arProjectedAllocatedNotional (getAllocationRiskUsage db a al (Some r) ex) =
     Some (jsAdd (arCurrentAllocatedNotional (getAllocationRiskUsage db a al (Some r) ex)) r)" for al
    by (simp add: getAllocationRiskUsage_def Let_def)
  show ?thesis
    by (cases "tasAllocation sub")
      (auto simp: evaluateAllocationRisk_def getAllocationRiskDetails_def allocationAdmissible_def Let_def proj)
qed

definition entryAdmissible ::
  "riskEnv \<Rightarrow> store \<Rightarrow> placeOrderInput \<Rightarrow> riskOptions \<Rightarrow> int \<Rightarrow> jsnum \<Rightarrow> bool" where
  "entryAdmissible env db input options a r \<longleftrightarrow>
     accountAdmissible input (limitsFor db a) (usageFor env db input options a) r \<and>
     (\<exists>sub. getAllocationRiskAccountSubscription db input a = Some sub \<and>
        assignmentAdmissible sub r \<and> allocationAdmissible db a sub r (roExcludeOrderIntentId options))"

lemma block_not_allowed [simp]: "block c m d \<noteq> RiskAllowed j"
  by (simp add: block_def)

definition onlyBlocks :: "(bool \<times> riskGateResult) list \<Rightarrow> bool" where
  "onlyBlocks xs = list_all (\<lambda>(_, b). case b of RiskAllowed _ \<Rightarrow> False | RiskBlocked _ _ _ \<Rightarrow> True) xs"

lemma onlyBlocks_simps [simp]:
  "onlyBlocks []" "onlyBlocks ((c, block s m d) # xs) = onlyBlocks xs"
  by (simp_all add: onlyBlocks_def block_def)

lemma firstBlock_onlyBlocks: "onlyBlocks xs \<Longrightarrow> firstBlock xs \<noteq> Some (RiskAllowed d)"
  by (induction xs) (auto simp: onlyBlocks_def firstBlock_simps(2) split: riskGateResult.splits if_splits)

lemma checks_only_block:
  "onlyBlocks (accountChecks input a e u requested sub)"
  "onlyBlocks (registrationChecks c input s sec)"
  by (simp_all add: accountChecks_def registrationChecks_def Let_def)

lemma hierarchy_only_blocks: "evaluateConfiguredHierarchyRisk a dep sub r \<noteq> Some (RiskAllowed d)"
  by (auto simp: evaluateConfiguredHierarchyRisk_def firstBlock_simps(2) split: option.splits if_splits)

lemma allocation_only_blocks: "evaluateAllocationRisk ar \<noteq> Some (RiskAllowed d)"
  by (auto simp: evaluateAllocationRisk_def Let_def firstBlock_simps(2) split: option.splits if_splits)

lemma evaluateEntryLimits_allowed:
  "(\<exists>d. evaluateEntryLimits env db input options a s = RiskAllowed d) \<longleftrightarrow>
   (\<exists>r. getRequestedNotional input options = Some r \<and> entryAdmissible env db input options a r)"
proof -
  let ?req = "getRequestedNotional input options" and ?sub = "getAllocationRiskAccountSubscription db input a"
  let ?chk = "firstBlock (accountChecks input a (limitsFor db a) (usageFor env db input options a) ?req ?sub)"
  let ?hier = "evaluateConfiguredHierarchyRisk a (ealTotalExposureLimit (limitsFor db a)) ?sub ?req"
  let ?alloc = "evaluateAllocationRisk (getAllocationRiskDetails db ?sub a ?req (roExcludeOrderIntentId options))"
  have "(\<exists>d. evaluateEntryLimits env db input options a s = RiskAllowed d) \<longleftrightarrow>
      ?chk = None \<and> ?hier = None \<and> ?alloc = None"
    using firstBlock_onlyBlocks[OF checks_only_block(1)] hierarchy_only_blocks allocation_only_blocks
    by (auto simp: evaluateEntryLimits_def Let_def split: option.splits)
  also have "\<dots> \<longleftrightarrow> (\<exists>r. ?req = Some r \<and> entryAdmissible env db input options a r)"
    using hierarchy_pass[of a "ealTotalExposureLimit (limitsFor db a)"]
    by (cases ?req; cases ?sub)
      (auto simp: accountChecks_pass entryAdmissible_def allocation_pass accountAdmissible_def)
  finally show ?thesis .
qed

subsection \<open>The gate\<close>

definition registered :: "store \<Rightarrow> placeOrderInput \<Rightarrow> int \<Rightarrow> bool" where
  "registered db input a \<longleftrightarrow>
     (\<exists>sec. securityForInput db input (findSubscriptionForInput db input a) = Some sec \<and> secEnabled sec) \<and>
     (usesSubscription input \<longrightarrow>
        (\<exists>s. findSubscriptionForInput db input a = Some s \<and> subEnabled s \<and>
           strEnabled (subStrategy s) \<and> epEnabled (subExitProfile s)))"

lemma registration_pass:
  "firstBlock (registrationChecks (getRuntimeTradingConfig db) input (findSubscriptionForInput db input a)
      (securityForInput db input (findSubscriptionForInput db input a))) = None \<longleftrightarrow>
   tradingEnabled (getRuntimeTradingConfig db) \<and> registered db input a \<and>
   \<not> (isEntryOrder input \<and> killSwitchEnabled (getRuntimeTradingConfig db))"
  by (cases "findSubscriptionForInput db input a";
      cases "securityForInput db input (findSubscriptionForInput db input a)")
    (auto simp: registrationChecks_def registered_def)

definition sessionPermits :: "riskEnv \<Rightarrow> store \<Rightarrow> riskOptions \<Rightarrow> int \<Rightarrow> bool" where
  "sessionPermits env db options a \<longleftrightarrow>
     roEnforceEntrySessionGuard options = Some False \<or>
     (\<exists>g d. evaluateEntrySessionGuard (envSession env) (getRuntimeTradingConfig db) (envSessionNow env) (Some a)
        = Inr (SessionAllowed g d))"

definition brokerPermits :: "riskEnv \<Rightarrow> int \<Rightarrow> bool" where
  "brokerPermits env a \<longleftrightarrow> (\<exists>b. envAccount env a = Inr b \<and> \<not> naTradingBlocked b)"

lemma brokerBlocked_not_allowed: "brokerBlockedCheck b \<noteq> RiskAllowed d"
  by (simp add: brokerBlockedCheck_def)

lemma gate_allowed_iff:
  "(\<exists>d. evaluateOrderRisk env db input options = Inr (RiskAllowed d)) \<longleftrightarrow>
   (\<exists>a. roTradingAccountId options = Some a \<and>
      tradingEnabled (getRuntimeTradingConfig db) \<and> registered db input a \<and> brokerPermits env a \<and>
      (if isEntryOrder input
       then \<not> killSwitchEnabled (getRuntimeTradingConfig db) \<and> sessionPermits env db options a \<and>
         (\<exists>r. getRequestedNotional input options = Some r \<and> entryAdmissible env db input options a r)
       else True))"
proof (cases "roTradingAccountId options")
  case None
  then show ?thesis by (simp add: evaluateOrderRisk_def)
next
  case (Some a)
  let ?chk = "registrationChecks (getRuntimeTradingConfig db) input (findSubscriptionForInput db input a)
      (securityForInput db input (findSubscriptionForInput db input a))"
  show ?thesis
  proof (cases "firstBlock ?chk")
    case blk: (Some b)
    then have "\<not> (tradingEnabled (getRuntimeTradingConfig db) \<and> registered db input a \<and>
        \<not> (isEntryOrder input \<and> killSwitchEnabled (getRuntimeTradingConfig db)))"
      using registration_pass[of db input a] by simp
    then show ?thesis
      using Some blk firstBlock_onlyBlocks[OF checks_only_block(2)]
      by (auto simp: evaluateOrderRisk_def Let_def)
  next
    case None
    then have reg: "tradingEnabled (getRuntimeTradingConfig db) \<and> registered db input a \<and>
        \<not> (isEntryOrder input \<and> killSwitchEnabled (getRuntimeTradingConfig db))"
      using registration_pass[of db input a] by simp
    have limits: "(\<exists>d. evaluateEntryLimits env db input options a s = RiskAllowed d) \<longleftrightarrow>
        (\<exists>r. getRequestedNotional input options = Some r \<and> entryAdmissible env db input options a r)" for s
      by (rule evaluateEntryLimits_allowed)
    show ?thesis
      using Some None reg
      by (cases "envAccount env a"; cases "evaluateEntrySessionGuard (envSession env)
            (getRuntimeTradingConfig db) (envSessionNow env) (Some a)")
        (auto simp: evaluateOrderRisk_def Let_def brokerPermits_def sessionPermits_def limits brokerBlocked_not_allowed
          split: entrySessionDecision.splits)
  qed
qed

text \<open>C1: the gate decides exactly its specification. An entry order is allowed if and only if
  trading is enabled with the kill switch off, its security, subscription, strategy and
  exit profile are registered and enabled, the broker account is not blocked, the entry
  session permits it, and every account, assignment and allocation limit admits it; any
  other order is allowed without the entry limits.\<close>
theorem gate_decides_specification:
  "(\<exists>d. evaluateOrderRisk env db input options = Inr (RiskAllowed d)) \<longleftrightarrow>
   (\<exists>a. roTradingAccountId options = Some a \<and>
      tradingEnabled (getRuntimeTradingConfig db) \<and> registered db input a \<and> brokerPermits env a \<and>
      (if isEntryOrder input
       then \<not> killSwitchEnabled (getRuntimeTradingConfig db) \<and> sessionPermits env db options a \<and>
         (\<exists>r. getRequestedNotional input options = Some r \<and> entryAdmissible env db input options a r)
       else True))"
  by (rule gate_allowed_iff)

text \<open>C4: an allowed entry keeps the account inside its limits. The exposure of the account
  with the new entry is at most a configured finite \<open>maxDeployableNotional\<close>; the symbol
  exposure, the daily notional, the daily orders and the position slots, each with the new
  entry counted and the addition rounded, are at most their effective limits; and no open
  or closing position of the account holds the symbol.\<close>
theorem allowed_entry_within_limits:
  assumes "evaluateOrderRisk env db input options = Inr (RiskAllowed d)" and "isEntryOrder input"
    and "roTradingAccountId options = Some a" and "getRequestedNotional input options = Some r"
    and "jsLe (Fin 0) r"
  shows "let u = usageFor env db input options a; e = limitsFor db a in
    (\<exists>m. ealTotalExposureLimit e = Some (Fin m) \<and> jsLe (jsAdd (uCurrentAccountExposure u) r) (Fin m)) \<and>
    withinLimit (jsAdd (uCurrentSymbolExposure u) r) (elValue (ealLimits e MaxSymbolOpenNotional)) \<and>
    withinLimit (jsAdd (uDailyEntryNotional u) r) (elValue (ealLimits e MaxDailyEntryNotional)) \<and>
    withinLimit (jsAdd (uDailyEntryOrderCount u) (Fin 1)) (elValue (ealLimits e MaxDailyEntryOrders)) \<and>
    withinLimit (jsAdd (uCurrentAccountPositionSlots u) (Fin 1)) (elValue (ealLimits e MaxOpenPositions)) \<and>
    (\<forall>p\<in>set (trackedPositionTable db). activePositionWhere a p \<longrightarrow> tpSymbol p \<noteq> poSymbol input)"
proof -
  let ?u = "usageFor env db input options a" and ?e = "limitsFor db a"
  have adm: "accountAdmissible input ?e ?u r"
    using gate_allowed_iff[of env db input options] assms by (auto simp: entryAdmissible_def)
  have "usageNonneg ?u" unfolding usageFor_def by (rule usage_nonneg)
  then have num: "jsAdd (uCurrentAccountExposure ?u) r \<noteq> NaN" "jsAdd (uCurrentSymbolExposure ?u) r \<noteq> NaN"
    "jsAdd (uDailyEntryNotional ?u) r \<noteq> NaN" "jsAdd (uDailyEntryOrderCount ?u) (Fin 1) \<noteq> NaN"
    "jsAdd (uCurrentAccountPositionSlots ?u) (Fin 1) \<noteq> NaN"
    using assms(5) by (auto simp: usageNonneg_def intro!: nonneg_not_NaN jsAdd_nonneg)
  obtain m where m: "ealTotalExposureLimit ?e = Some (Fin m)"
    using adm by (auto simp: accountAdmissible_def isLimitEnabled_iff)
  then have "jsLe (jsAdd (uCurrentAccountExposure ?u) r) (Fin m)"
    using adm num(1) by (auto simp: accountAdmissible_def exceeds_def isLimitEnabled_iff not_jsLt)
  moreover have "uActivePositions ?u = filter (activePositionWhere a) (trackedPositionTable db)"
    by (simp add: usageFor_def getTradingAccountEntryRiskUsage_def Let_def)
  ultimately show ?thesis
    using adm num m by (auto simp: accountAdmissible_def Let_def intro: not_exceeds_withinLimit)
qed

text \<open>Orders that are not entries never depend on the entry limits: changing the positions,
  the intents, the risk settings or the deployable limits of any account in the database,
  the market session or the clock leaves the answer for a sell or an exit unchanged, so
  no entry limit can block the closing of a position.\<close>
lemma exits_ignore_entry_limits:
  assumes "\<not> isEntryOrder input"
  shows "evaluateOrderRisk
      (env\<lparr>envSession := session, envSessionNow := t, envUsageNow := u\<rparr>)
      (db\<lparr>trackedPositionTable := ps, orderIntentTable := ois, riskSettingsTable := rs,
          tradingAccountTable := ts, brokerOrderTable := bs\<rparr>) input options
    = evaluateOrderRisk env db input options"
proof -
  let ?db = "db\<lparr>trackedPositionTable := ps, orderIntentTable := ois, riskSettingsTable := rs,
    tradingAccountTable := ts, brokerOrderTable := bs\<rparr>"
  have "getRuntimeTradingConfig ?db = getRuntimeTradingConfig db"
    "findSubscriptionForInput ?db input a = findSubscriptionForInput db input a"
    "securityForInput ?db input s = securityForInput db input s" for a s
    by (simp_all add: getRuntimeTradingConfig_def findSubscriptionForInput_def securityForInput_def
        hasAccountSubscription_def cong: option.case_cong)
  then show ?thesis
    using assms
    by (cases "roTradingAccountId options") (simp_all add: evaluateOrderRisk_def Let_def cong: option.case_cong)
qed

text \<open>
  A database in which account 7 may enter: SPY, a subscription with its account
  subscription in an allocation, limits that admit an order of 256 dollars.
\<close>

definition sampleAllocation :: allocationRow where
  "sampleAllocation =
     \<lparr>alId = 5, alKey = ''core'', alName = ''Core'', alEnabled = True, alTradingAccountId = 7,
      alMaxAllocatedNotional = Some (Fin 4096), alMaxOpenPositions = Some (Fin 4),
      alMaxPositionNotional = Some (Fin 1024)\<rparr>"

definition sampleAssignment :: accountSubscriptionRow where
  "sampleAssignment =
     \<lparr>tasId = 11, tasTradingAccountId = 7, tasSubscriptionId = 3, tasAllocationId = Some 5,
      tasAllocation = Some sampleAllocation, tasEnabled = True, tasEntriesEnabled = True, tasExitsEnabled = True,
      tasSizingType = MAX_NOTIONAL, tasFixedQty = None, tasMaxPositionNotional = Some (Fin 512),
      tasReservedNotional = Some (Fin 512), tasMinPositionNotional = None, tasMaxQty = None,
      tasSymbol = ''SPY''\<rparr>"

definition sampleStore :: store where
  "sampleStore = emptyStore
     \<lparr>settingTable := [(''tradingEnabled'', ''true'')],
      securityTable := [\<lparr>secId = 1, secSymbol = ''SPY'', secEnabled = True\<rparr>],
      subscriptionTable := [\<lparr>subId = 3, subKey = ''spy-dip'', subSymbol = ''SPY'', subEnabled = True,
         subStrategy = \<lparr>strKey = ''dip'', strEnabled = True\<rparr>,
         subExitProfile = \<lparr>epKey = ''swing'', epEnabled = True\<rparr>,
         subSecurity = \<lparr>secId = 1, secSymbol = ''SPY'', secEnabled = True\<rparr>\<rparr>],
      accountSubscriptionTable := [sampleAssignment],
      tradingAccountTable := [\<lparr>taId = 7, taMaxDeployableNotional = Some (Fin 8192), taEnvironment = ''PAPER'', taStatus = ''ACTIVE'',
        taTradingEnabled = True, taKillSwitchEnabled = False, taCredentialStatus = Some ''ACTIVE''\<rparr>]\<rparr>"

definition sampleInput :: placeOrderInput where
  "sampleInput =
     \<lparr>poSymbol = ''SPY'', poSide = ''buy'', poQty = None, poNotional = None, poLimitPrice = None,
      poSignalType = Some ''entry'', poSubscriptionKey = Some ''spy-dip'', poSubscriptionId = Some 3,
      poTradingAccountSubscriptionId = Some 11\<rparr>"

definition sampleOptions :: riskOptions where
  "sampleOptions =
     \<lparr>roRequestedNotionalOverride = Some (Fin 256), roTradingAccountId = Some 7,
      roEnforceEntrySessionGuard = None, roExcludeOrderIntentId = None\<rparr>"

definition sampleEnv :: riskEnv where
  "sampleEnv =
     \<lparr>envZone = usEastern, envSession = (\<lambda>_ _. Inr sampleSession),
      envAccount = (\<lambda>_. Inr \<lparr>naBroker = ''alpaca'', naMode = ''paper'', naTradingBlocked = False\<rparr>),
      envSessionNow = 1773070000000, envUsageNow = 1773070000000\<rparr>"

lemma sample_usage:
  "uActivePositions (usageFor sampleEnv sampleStore sampleInput sampleOptions 7) = []"
  "uDailyEntryOrderCount (usageFor sampleEnv sampleStore sampleInput sampleOptions 7) = jsInt 0"
  "uDailyEntryNotional (usageFor sampleEnv sampleStore sampleInput sampleOptions 7) = jsSum []"
  "uCurrentAccountPositionSlots (usageFor sampleEnv sampleStore sampleInput sampleOptions 7) = jsAdd (jsInt 0) (jsInt 0)"
  "uCurrentAccountExposure (usageFor sampleEnv sampleStore sampleInput sampleOptions 7) = jsAdd (jsSum []) (jsSum [])"
  "uCurrentSymbolExposure (usageFor sampleEnv sampleStore sampleInput sampleOptions 7) = jsAdd (jsSum []) (jsSum [])"
  by (simp_all add: usageFor_def getTradingAccountEntryRiskUsage_def Let_def sampleStore_def emptyStore_def)

lemma sample_identity:
  "getAllocationRiskAccountSubscription sampleStore sampleInput 7 = Some sampleAssignment"
  by code_simp

lemma sample_assignment: "assignmentAdmissible sampleAssignment (Fin 256)"
  by (simp add: assignmentAdmissible_def sampleAssignment_def sampleAllocation_def isCompleteAllocation_def
      isLimitEnabled_def exceeds_def)

lemma sample_allocation: "allocationAdmissible sampleStore 7 sampleAssignment (Fin 256) None"
proof -
  have "tasAllocation sampleAssignment = Some sampleAllocation" by (simp add: sampleAssignment_def)
  moreover have "arActivePositionCount (getAllocationRiskUsage sampleStore 7 al r None) = jsInt 0"
    "arCurrentAllocatedNotional (getAllocationRiskUsage sampleStore 7 al r None) = jsAdd (jsSum []) (jsSum [])" for al r
    by (simp_all add: getAllocationRiskUsage_def Let_def sampleStore_def emptyStore_def)
  ultimately show ?thesis
    by (simp add: allocationAdmissible_def Let_def sampleAllocation_def exceeds_def reaches_def isLimitEnabled_def
        jsSum_def jsInt_def rnd_of_int[of 256, simplified])
qed

lemma sample_limits:
  "elValue (ealLimits (limitsFor sampleStore 7) MaxDailyEntryOrders) = Some (Fin 5)"
  "elValue (ealLimits (limitsFor sampleStore 7) MaxDailyEntryNotional) = Some (Fin 10000)"
  "elValue (ealLimits (limitsFor sampleStore 7) MaxOpenPositions) = Some (Fin 5)"
  "elValue (ealLimits (limitsFor sampleStore 7) MaxSymbolOpenNotional) = Some (Fin 5000)"
  "ealTotalExposureLimit (limitsFor sampleStore 7) = Some (Fin 8192)"
  by (simp_all add: limitsFor_def resolveEffectiveAccountEntryLimits_def resolveField_def Let_def
      getAccountRiskSettings_def sampleStore_def emptyStore_def getRuntimeTradingConfig_def parseNullableNumber_def)

lemma sample_account:
  "accountAdmissible sampleInput (limitsFor sampleStore 7)
     (usageFor sampleEnv sampleStore sampleInput sampleOptions 7) (Fin 256)"
  unfolding accountAdmissible_def sample_usage sample_limits
  by (simp add: exceeds_def isLimitEnabled_def jsSum_def jsInt_def rnd_of_int[of 1, simplified]
      rnd_of_int[of 256, simplified])

lemmas sample_admissible = sample_identity sample_assignment sample_allocation sample_account

lemma sample_registered: "registered sampleStore sampleInput 7"
proof -
  have "findSubscriptionForInput sampleStore sampleInput 7 = Some (hd (subscriptionTable sampleStore))"
    by code_simp
  then show ?thesis
    by (auto simp: registered_def securityForInput_def) (simp_all add: sampleStore_def)
qed

lemma sample_config:
  "tradingEnabled (getRuntimeTradingConfig sampleStore)" "\<not> killSwitchEnabled (getRuntimeTradingConfig sampleStore)"
  "\<not> entrySessionGuardEnabled (getRuntimeTradingConfig sampleStore)"
  by code_simp+

lemma sample_entry:
  "isEntryOrder sampleInput" "getRequestedNotional sampleInput sampleOptions = Some (Fin 256)"
  "roTradingAccountId sampleOptions = Some 7" "brokerPermits sampleEnv 7"
  "sessionPermits sampleEnv sampleStore sampleOptions 7"
  by (simp_all add: isEntryOrder_def sampleInput_def nullish_def getRequestedNotional_def sampleOptions_def
      isPositiveFiniteNumber_def brokerPermits_def sampleEnv_def sessionPermits_def evaluateEntrySessionGuard_def
      sample_config exI[of Not False])

lemma sample_allowed:
  "\<exists>d. evaluateOrderRisk sampleEnv sampleStore sampleInput sampleOptions = Inr (RiskAllowed d)"
proof -
  have "entryAdmissible sampleEnv sampleStore sampleInput sampleOptions 7 (Fin 256)"
    using sample_admissible by (simp add: entryAdmissible_def) (simp add: sampleOptions_def)
  then show ?thesis
    using sample_entry sample_config(1,2) sample_registered unfolding gate_allowed_iff by auto
qed

theorem allowed_entry_within_limits_witness:
  "\<exists>m. ealTotalExposureLimit (limitsFor sampleStore 7) = Some (Fin m) \<and>
     jsLe (jsAdd (uCurrentAccountExposure (usageFor sampleEnv sampleStore sampleInput sampleOptions 7)) (Fin 256)) (Fin m)"
proof -
  obtain d where "evaluateOrderRisk sampleEnv sampleStore sampleInput sampleOptions = Inr (RiskAllowed d)"
    using sample_allowed by blast
  from allowed_entry_within_limits[OF this sample_entry(1,3,2)] show ?thesis by (simp add: Let_def)
qed

lemma exits_ignore_entry_limits_witness:
  "evaluateOrderRisk
      (sampleEnv\<lparr>envSession := (\<lambda>_ _. Inl (PlainError ''Error'' ''down'')), envSessionNow := 0, envUsageNow := 0\<rparr>)
      (sampleStore\<lparr>trackedPositionTable := [], orderIntentTable := [sampleIntent], riskSettingsTable := [],
          tradingAccountTable := [], brokerOrderTable := []\<rparr>) (sampleInput\<lparr>poSide := ''sell''\<rparr>) sampleOptions
    = evaluateOrderRisk sampleEnv sampleStore (sampleInput\<lparr>poSide := ''sell''\<rparr>) sampleOptions"
  by (rule exits_ignore_entry_limits) (simp add: isEntryOrder_def)

subsection \<open>Monotonicity in the requested notional\<close>

lemma exceeds_add_mono: "r' \<le> r \<Longrightarrow> exceeds (jsAdd c (Fin r')) l \<Longrightarrow> exceeds (jsAdd c (Fin r)) l"
  by (cases c) (auto elim!: exceeds_mono intro!: rnd_mono)

lemma allocation_usage_request:
  "arActivePositionCount (getAllocationRiskUsage db a al (Some r) ex) =
   arActivePositionCount (getAllocationRiskUsage db a al (Some r') ex)"
  "arCurrentAllocatedNotional (getAllocationRiskUsage db a al (Some r) ex) =
   arCurrentAllocatedNotional (getAllocationRiskUsage db a al (Some r') ex)"
  by (simp_all add: getAllocationRiskUsage_def Let_def)

lemma entryAdmissible_mono:
  assumes "entryAdmissible env db input options a (Fin r)" and "r' \<le> r"
    and "roExcludeOrderIntentId options' = roExcludeOrderIntentId options"
  shows "entryAdmissible env db input options' a (Fin r')"
proof -
  have "usageFor env db input options' a = usageFor env db input options a"
    by (simp add: usageFor_def assms(3))
  moreover have "allocationAdmissible db a sub (Fin r) ex \<Longrightarrow> allocationAdmissible db a sub (Fin r') ex" for sub ex
    using exceeds_add_mono[OF assms(2)] exceeds_mono[of "Fin r'" _ "Fin r"] assms(2)
    by (cases "tasAllocation sub")
      (auto simp: allocationAdmissible_def Let_def allocation_usage_request[where r = "Fin r'" and r' = "Fin r"])
  moreover have "assignmentAdmissible sub (Fin r) \<Longrightarrow> assignmentAdmissible sub (Fin r')" for sub
    using assms(2) exceeds_mono[of "Fin r'" _ "Fin r"] by (auto simp: assignmentAdmissible_def)
  moreover have "accountAdmissible input e u (Fin r) \<Longrightarrow> accountAdmissible input e u (Fin r')" for e u
    using exceeds_add_mono[OF assms(2)] by (auto simp: accountAdmissible_def)
  ultimately show ?thesis using assms(1) assms(3) by (auto simp: entryAdmissible_def)
qed

text \<open>C34: the gate is monotone in the size of the entry. If an order is allowed with one
  requested notional, then the same order with a smaller positive notional is allowed on
  the same database, in spite of the rounding of every sum.\<close>
theorem smaller_entry_stays_allowed:
  assumes "evaluateOrderRisk env db input (options\<lparr>roRequestedNotionalOverride := Some (Fin r)\<rparr>) = Inr (RiskAllowed d)"
    and "0 < r'" "r' \<le> r"
  shows "\<exists>d'. evaluateOrderRisk env db input (options\<lparr>roRequestedNotionalOverride := Some (Fin r')\<rparr>) =
    Inr (RiskAllowed d')"
proof -
  have req: "0 < x \<Longrightarrow>
      getRequestedNotional input (options\<lparr>roRequestedNotionalOverride := Some (Fin x)\<rparr>) = Some (Fin x)" for x
    by (simp add: getRequestedNotional_def isPositiveFiniteNumber_def)
  have session: "sessionPermits env db (options\<lparr>roRequestedNotionalOverride := v\<rparr>) a = sessionPermits env db options a"
    for v a by (simp add: sessionPermits_def)
  have "entryAdmissible env db input (options\<lparr>roRequestedNotionalOverride := Some (Fin r)\<rparr>) a (Fin r) \<Longrightarrow>
      entryAdmissible env db input (options\<lparr>roRequestedNotionalOverride := Some (Fin r')\<rparr>) a (Fin r')" for a
    using assms(3) by (rule entryAdmissible_mono[rotated]) simp_all
  then show ?thesis
    using assms req[of r] req[of r']
    unfolding gate_allowed_iff[of env db input "options\<lparr>roRequestedNotionalOverride := Some (Fin r')\<rparr>"]
    using gate_allowed_iff[of env db input "options\<lparr>roRequestedNotionalOverride := Some (Fin r)\<rparr>"]
    by (auto simp: session)
qed

theorem smaller_entry_stays_allowed_witness:
  "\<exists>d. evaluateOrderRisk sampleEnv sampleStore sampleInput (sampleOptions\<lparr>roRequestedNotionalOverride := Some (Fin 100)\<rparr>)
     = Inr (RiskAllowed d)"
proof -
  have "sampleOptions\<lparr>roRequestedNotionalOverride := Some (Fin 256)\<rparr> = sampleOptions"
    by (simp add: sampleOptions_def)
  then obtain d where "evaluateOrderRisk sampleEnv sampleStore sampleInput
      (sampleOptions\<lparr>roRequestedNotionalOverride := Some (Fin 256)\<rparr>) = Inr (RiskAllowed d)"
    using sample_allowed by auto
  from smaller_entry_stays_allowed[OF this, of 100] show ?thesis by simp
qed

subsection \<open>Pending entries of an allocation\<close>

text \<open>C35: the allocation limits bound the money of an allocation together with its pending
  entries, but not its positions: for every allowed entry of an enabled assignment the
  allocated notional with the request does not exceed the limit and the active positions
  are fewer than \<open>maxOpenPositions\<close>; the count of positions is the same whatever entry
  intents are pending, so pending entries never use a slot.\<close>
theorem allocation_counts_active_positions_only:
  assumes "evaluateOrderRisk env db input options = Inr (RiskAllowed d)" and "isEntryOrder input"
    and "roTradingAccountId options = Some a" and "getRequestedNotional input options = Some r"
    and "getAllocationRiskAccountSubscription db input a = Some sub" and "tasEnabled sub" "tasEntriesEnabled sub"
  shows "\<exists>al. tasAllocation sub = Some al \<and> alEnabled al \<and>
    (let u = getAllocationRiskUsage db a (alId al) (Some r) (roExcludeOrderIntentId options) in
     \<not> exceeds r (tasReservedNotional sub) \<and> \<not> exceeds r (alMaxPositionNotional al) \<and>
     \<not> exceeds (jsAdd (arCurrentAllocatedNotional u) r) (alMaxAllocatedNotional al) \<and>
     (\<exists>m. alMaxOpenPositions al = Some (Fin m) \<and>
        (\<forall>ois. jsLt (arActivePositionCount (getAllocationRiskUsage (db\<lparr>orderIntentTable := ois\<rparr>) a (alId al) (Some r)
              (roExcludeOrderIntentId options))) (Fin m))))"
proof -
  have adm: "assignmentAdmissible sub r" "allocationAdmissible db a sub r (roExcludeOrderIntentId options)"
    using gate_allowed_iff[of env db input options] assms by (auto simp: entryAdmissible_def)
  have frame: "arActivePositionCount (getAllocationRiskUsage (db\<lparr>orderIntentTable := ois\<rparr>) a x q ex) =
      arActivePositionCount (getAllocationRiskUsage db a x q ex)" for ois x q ex
    by (simp add: getAllocationRiskUsage_def Let_def inAllocation_def hasAccountSubscription_def
        cong: option.case_cong)
  have num: "arActivePositionCount (getAllocationRiskUsage db a x q ex) \<noteq> NaN" for x q ex
    by (simp add: getAllocationRiskUsage_def Let_def jsInt_def)
  have slot: "\<not> reaches x (Some (Fin m)) \<Longrightarrow> x \<noteq> NaN \<Longrightarrow> jsLt x (Fin m)" for x m
    by (cases x) (auto simp: reaches_def isLimitEnabled_def)
  show ?thesis
    using adm assms(6,7)
    by (auto simp: assignmentAdmissible_def allocationAdmissible_def Let_def frame isCompleteAllocation_def
        isLimitEnabled_iff num intro!: slot)
qed

theorem allocation_counts_active_positions_only_witness:
  "\<exists>al m. tasAllocation sampleAssignment = Some al \<and> alMaxOpenPositions al = Some (Fin m) \<and>
     jsLt (arActivePositionCount (getAllocationRiskUsage
       (sampleStore\<lparr>orderIntentTable := replicate 9 (sampleIntent\<lparr>oiTradingAccountSubscriptionId := Some 11\<rparr>)\<rparr>)
       7 (alId al) (Some (Fin 256)) None)) (Fin m)"
proof -
  obtain d where d: "evaluateOrderRisk sampleEnv sampleStore sampleInput sampleOptions = Inr (RiskAllowed d)"
    using sample_allowed by blast
  have "tasEnabled sampleAssignment" "tasEntriesEnabled sampleAssignment" "roExcludeOrderIntentId sampleOptions = None"
    by (simp_all add: sampleAssignment_def sampleOptions_def)
  with allocation_counts_active_positions_only[OF d sample_entry(1,3,2) sample_identity]
  show ?thesis by (auto simp: Let_def)
qed

end
