(* ===== verification/AdaptivePolling.thy ===== *)
theory AdaptivePolling
  imports EntrySession LifecycleStatus
begin

text \<open>
  \<open>src/services/adaptive-polling.service.ts\<close>, with the selection of intents to synchronise of
  \<open>submitted-order-sync-selection.service.ts\<close>: the coordinator that decides when a worker of
  an account polls the broker. Its state is the four maps of the class, keyed by account and
  worker. The clock, the market session and the local activity are parameters; an
  operation runs to its end once its providers have answered, and the readings of the clock
  that \<open>forceSync\<close> takes during a decision are later than the one of the decision.
\<close>

datatype workerKey = SubmittedOrderSync | TrackedPositionSync

datatype marketState = MOpen | MClosed | MUnknown

datatype pollingMode =
  MarketOpenActive | MarketOpenIdle | MarketClosedActive | MarketClosedIdle | MarketUnknown

datatype decisionReason =
  StartupDue | IntervalElapsed | ForcedAfterBrokerWrite | MarketTransitionDue | TradingDateChangedDue
  | AdaptivePollNotDue | NoLocalSubmittedOrders | MarketStateUnknown | RateLimitBackoff

datatype forceReason =
  Startup | BrokerOrderCreated | BrokerPositionCloseRequested | BrokerOrderCancelRequested
  | BrokerOrderCancelAllRequested | ProtectiveOrderCreated | MarketTransition | TradingDateChanged
  | MarketSessionRecovered

record localActivity =
  laSubmittedOrderCount :: int
  laSubmittingOrderCount :: int
  laNonterminalBrokerOrderCount :: int
  laOpenPositionCount :: int
  laClosingPositionCount :: int
  laActiveExitCount :: int
  laActiveProtectiveOrderCount :: int
  laEvaluatedAt :: int

record pollingDecision =
  pdWorkerKey :: workerKey
  pdDue :: bool
  pdForced :: bool
  pdForceReason :: "forceReason option"
  pdMode :: pollingMode
  pdMarketState :: marketState
  pdLocalActivity :: localActivity
  pdEffectiveIntervalMs :: "int option"
  pdEvaluatedAt :: int
  pdLastAttemptAt :: "int option"
  pdLastSuccessAt :: "int option"
  pdNextDueAt :: "int option"
  pdReason :: decisionReason
  pdMarketSessionDegraded :: bool
  pdMarketSessionError :: "string option"
  pdMarketSessionSnapshot :: "marketSession option"

record workerState =
  wsLastAttemptAt :: "int option"
  wsLastSuccessAt :: "int option"
  wsNextDueAt :: "int option"
  wsForced :: bool
  wsForceReason :: "forceReason option"
  wsLastDecision :: "pollingDecision option"

record marketEvaluation =
  meState :: marketState
  meSnapshot :: "marketSession option"
  meDegraded :: bool
  meError :: "string option"
  meEvaluatedAt :: int

record accountMarket =
  amLastSuccessfulMarketState :: "marketState option"
  amLastSuccessfulTradingDate :: "string option"
  amHadMarketSessionFailure :: bool
  amConsecutiveMarketSessionFailures :: int
  amLastMarketSessionError :: "string option"
  amLastMarketSessionErrorAt :: "int option"
  amRecoveredAt :: "int option"
  amLatestMarketSessionSnapshot :: "marketSession option"
  amLatestEvaluation :: "marketEvaluation option"

text \<open>\<open>ADAPTIVE_POLLING_INTERVALS_MS\<close> and the lifetimes of the caches.\<close>

definition submittedMarketOpenActive :: int where "submittedMarketOpenActive = 10000"
definition submittedMarketClosedActive :: int where "submittedMarketClosedActive = 60000"
definition trackedMarketOpenActive :: int where "trackedMarketOpenActive = 15000"
definition trackedMarketOpenIdle :: int where "trackedMarketOpenIdle = 60000"
definition trackedMarketClosedActive :: int where "trackedMarketClosedActive = 120000"
definition trackedMarketClosedIdle :: int where "trackedMarketClosedIdle = 300000"
definition trackedMarketUnknownActive :: int where "trackedMarketUnknownActive = 15000"
definition trackedMarketUnknownIdle :: int where "trackedMarketUnknownIdle = 60000"
definition retryMinimum :: int where "retryMinimum = 5000"
definition retryMaximum :: int where "retryMaximum = 15000"
definition LOCAL_ACTIVITY_CACHE_TTL_MS :: int where "LOCAL_ACTIVITY_CACHE_TTL_MS = 1500"
definition MARKET_EVALUATION_CACHE_TTL_MS :: int where "MARKET_EVALUATION_CACHE_TTL_MS = 1500"
definition MARKET_SESSION_FAILURE_RETRY_MS :: int where "MARKET_SESSION_FAILURE_RETRY_MS = 45000"
definition SANITIZED_ERROR_MAX_LENGTH :: nat where "SANITIZED_ERROR_MAX_LENGTH = 500"
definition TRADING_WORKER_INTERVAL_MS :: int where "TRADING_WORKER_INTERVAL_MS = 2000"

lemmas polling_constants =
  submittedMarketOpenActive_def submittedMarketClosedActive_def trackedMarketOpenActive_def
  trackedMarketOpenIdle_def trackedMarketClosedActive_def trackedMarketClosedIdle_def
  trackedMarketUnknownActive_def trackedMarketUnknownIdle_def retryMinimum_def retryMaximum_def

definition createWorkerState :: workerState where
  "createWorkerState =
     \<lparr>wsLastAttemptAt = None, wsLastSuccessAt = None, wsNextDueAt = None, wsForced = True,
      wsForceReason = Some Startup, wsLastDecision = None\<rparr>"

definition createAccountMarketState :: accountMarket where
  "createAccountMarketState =
     \<lparr>amLastSuccessfulMarketState = None, amLastSuccessfulTradingDate = None,
      amHadMarketSessionFailure = False, amConsecutiveMarketSessionFailures = 0,
      amLastMarketSessionError = None, amLastMarketSessionErrorAt = None, amRecoveredAt = None,
      amLatestMarketSessionSnapshot = None, amLatestEvaluation = None\<rparr>"

subsection \<open>Error messages\<close>

text \<open>
  The first replacement collapses runs of white space, the second hides the value after
  one of the secret keys. A key matches without regard to case; its value is the run of
  characters up to the next white space, which must not be empty.
\<close>

fun collapseSpaces :: "string \<Rightarrow> string" where
  "collapseSpaces [] = []"
| "collapseSpaces (c # s) =
     (if isSpace c then
        (case collapseSpaces s of
           [] \<Rightarrow> '' ''
         | d # r \<Rightarrow> if isSpace d then d # r else CHR '' '' # d # r)
      else c # collapseSpaces s)"

definition secretKeys :: "string list" where
  "secretKeys = [''password'', ''token'', ''secret'', ''api_key'', ''api-key'', ''apikey'']"

definition secretMatch :: "string \<Rightarrow> nat option" where
  "secretMatch s =
     (case List.find (\<lambda>k. startsWith (toLowerCase s) (k @ ''='')) secretKeys of
        None \<Rightarrow> None
      | Some k \<Rightarrow>
        (case drop (length k + 1) s of
           [] \<Rightarrow> None
         | c # _ \<Rightarrow> if isSpace c then None else Some (length k)))"

function redactSecrets :: "string \<Rightarrow> string" where
  "redactSecrets s =
     (case s of
        [] \<Rightarrow> []
      | c # r \<Rightarrow>
        (case secretMatch s of
           None \<Rightarrow> c # redactSecrets r
         | Some n \<Rightarrow> take n s @ ''=[redacted]'' @ redactSecrets (dropWhile (\<lambda>d. \<not> isSpace d) (drop (n + 1) s))))"
  by pat_completeness auto
termination
proof (relation "measure length", goal_cases)
  case 1
  show ?case by simp
next
  case (2 s c r)
  then show ?case by simp
next
  case (3 s c r n)
  have "length (dropWhile P xs) \<le> length xs" for P :: "char \<Rightarrow> bool" and xs
    by (induction xs) auto
  from this[of "\<lambda>d. \<not> isSpace d" "drop (n + 1) s"] 3 show ?case by simp
qed

declare redactSecrets.simps [simp del]

definition errorMessage :: "appError \<Rightarrow> string" where
  "errorMessage e = (case e of HttpError _ m _ \<Rightarrow> m | PlainError _ m \<Rightarrow> m)"

definition sanitizeError :: "appError \<Rightarrow> string" where
  "sanitizeError e = take SANITIZED_ERROR_MAX_LENGTH (redactSecrets (collapseSpaces (errorMessage e)))"

subsection \<open>Activity, modes and intervals\<close>

definition modeFor :: "marketState \<Rightarrow> bool \<Rightarrow> pollingMode" where
  "modeFor market active =
     (if market = MUnknown then MarketUnknown
      else if market = MOpen then (if active then MarketOpenActive else MarketOpenIdle)
      else (if active then MarketClosedActive else MarketClosedIdle))"

definition hasTrackedPositionActivity :: "localActivity \<Rightarrow> bool" where
  "hasTrackedPositionActivity a =
     (0 < laSubmittedOrderCount a \<or> 0 < laSubmittingOrderCount a \<or> 0 < laNonterminalBrokerOrderCount a \<or>
      0 < laOpenPositionCount a \<or> 0 < laClosingPositionCount a \<or> 0 < laActiveExitCount a \<or>
      0 < laActiveProtectiveOrderCount a)"

definition hasSubmittedOrderActivity :: "localActivity \<Rightarrow> bool" where
  "hasSubmittedOrderActivity a = (0 < laSubmittedOrderCount a)"

definition intervalFor :: "workerKey \<Rightarrow> marketState \<Rightarrow> bool \<Rightarrow> int option" where
  "intervalFor worker market active =
     (if worker = SubmittedOrderSync then
        (if \<not> active then None
         else if market = MClosed then Some submittedMarketClosedActive
         else Some submittedMarketOpenActive)
      else if market = MUnknown then
        Some (if active then trackedMarketUnknownActive else trackedMarketUnknownIdle)
      else if market = MOpen then
        Some (if active then trackedMarketOpenActive else trackedMarketOpenIdle)
      else Some (if active then trackedMarketClosedActive else trackedMarketClosedIdle))"

definition defaultLocalActivity :: "int \<Rightarrow> localActivity" where
  "defaultLocalActivity now =
     \<lparr>laSubmittedOrderCount = 0, laSubmittingOrderCount = 0, laNonterminalBrokerOrderCount = 0,
      laOpenPositionCount = 0, laClosingPositionCount = 0, laActiveExitCount = 0,
      laActiveProtectiveOrderCount = 0, laEvaluatedAt = now\<rparr>"

text \<open>
  The where clause of the intents to synchronise, with its relations followed in the store:
  an intent is left out when its position is closed, one of its broker orders is filled and
  none has another status than \<open>filled\<close> and \<open>replaced\<close>.
\<close>

definition brokerOrdersOf :: "store \<Rightarrow> orderIntentRow \<Rightarrow> brokerOrderRow list" where
  "brokerOrdersOf db i = filter (\<lambda>b. boOrderIntentId b = oiId i) (brokerOrderTable db)"

definition submittedOrderSyncIntentWhere :: "store \<Rightarrow> int \<Rightarrow> orderIntentRow \<Rightarrow> bool" where
  "submittedOrderSyncIntentWhere db account i =
     (oiStatus i \<in> set SUBMITTED_ORDER_SYNC_INTENT_STATUSES \<and> oiTradingAccountId i = Some account \<and>
      \<not> ((case oiTrackedPositionId i of None \<Rightarrow> False
           | Some p \<Rightarrow> list_ex (\<lambda>t. tpId t = p \<and> tpStatus t = ''closed'') (trackedPositionTable db)) \<and>
         list_ex (\<lambda>b. boStatus b = ''filled'') (brokerOrdersOf db i) \<and>
         \<not> list_ex (\<lambda>b. boStatus b \<notin> set [''filled'', ''replaced'']) (brokerOrdersOf db i)))"

definition activeExitWhere :: "store \<Rightarrow> int \<Rightarrow> positionExitStateRow \<Rightarrow> bool" where
  "activeExitWhere db account x =
     (list_ex (\<lambda>t. tpId t = pxTrackedPositionId x \<and> tpTradingAccountId t = Some account) (trackedPositionTable db) \<and>
      pxStatus x \<in> set [''watching'', ''target_unlocked'', ''trailing_stop_submitted'', ''trailing_stop_filled''])"

text \<open>\<open>notIn\<close> does not select rows whose column is \<open>null\<close>.\<close>

definition protectiveOrderWhere :: "int \<Rightarrow> trackedPositionRow \<Rightarrow> bool" where
  "protectiveOrderWhere account t =
     (tpTradingAccountId t = Some account \<and>
      ((tpTrailingStopOrderId t \<noteq> None \<and>
        (case tpTrailingStopStatus t of None \<Rightarrow> False | Some s \<Rightarrow> NONTERMINAL_BROKER_ORDER_PRISMA_FILTER s)) \<or>
       tpTrailingStopStatus t = Some ''pending_submit''))"

definition count :: "('a \<Rightarrow> bool) \<Rightarrow> 'a list \<Rightarrow> int" where
  "count P xs = int (length (filter P xs))"

definition readLocalActivity :: "store \<Rightarrow> int \<Rightarrow> int \<Rightarrow> localActivity" where
  "readLocalActivity db account now =
     \<lparr>laSubmittedOrderCount = count (submittedOrderSyncIntentWhere db account) (orderIntentTable db),
      laSubmittingOrderCount =
        count (\<lambda>i. oiStatus i = ''submitting'' \<and> oiTradingAccountId i = Some account) (orderIntentTable db),
      laNonterminalBrokerOrderCount =
        count (\<lambda>b. boTradingAccountId b = Some account \<and> NONTERMINAL_BROKER_ORDER_PRISMA_FILTER (boStatus b))
          (brokerOrderTable db),
      laOpenPositionCount =
        count (\<lambda>t. tpStatus t = ''open'' \<and> tpTradingAccountId t = Some account) (trackedPositionTable db),
      laClosingPositionCount =
        count (\<lambda>t. tpStatus t = ''closing'' \<and> tpTradingAccountId t = Some account) (trackedPositionTable db),
      laActiveExitCount = count (activeExitWhere db account) (positionExitStateTable db),
      laActiveProtectiveOrderCount = count (protectiveOrderWhere account) (trackedPositionTable db),
      laEvaluatedAt = now\<rparr>"

subsection \<open>The coordinator\<close>

record coordinator =
  cStates :: "int \<times> workerKey \<Rightarrow> workerState option"
  cMarketStates :: "int \<Rightarrow> accountMarket option"
  cLocalActivityCache :: "int \<Rightarrow> (int \<times> localActivity) option"
  cMarketEvaluationCache :: "int \<Rightarrow> (int \<times> marketEvaluation) option"

record pollingProviders =
  ppMarketSession :: "int \<Rightarrow> int \<Rightarrow> marketSession result"
  ppLocalActivity :: "int \<Rightarrow> int \<Rightarrow> localActivity result"

definition reset :: coordinator where
  "reset = \<lparr>cStates = (\<lambda>_. None), cMarketStates = (\<lambda>_. None), cLocalActivityCache = (\<lambda>_. None),
            cMarketEvaluationCache = (\<lambda>_. None)\<rparr>"

text \<open>
  \<open>stateFor\<close> and \<open>marketStateFor\<close> create the state of a key at its first use; here the
  missing state reads as the created one, and an update stores it.
\<close>

definition stateFor :: "coordinator \<Rightarrow> int \<Rightarrow> workerKey \<Rightarrow> workerState" where
  "stateFor c account worker =
     (case cStates c (account, worker) of Some s \<Rightarrow> s | None \<Rightarrow> createWorkerState)"

definition marketStateFor :: "coordinator \<Rightarrow> int \<Rightarrow> accountMarket" where
  "marketStateFor c account =
     (case cMarketStates c account of Some m \<Rightarrow> m | None \<Rightarrow> createAccountMarketState)"

definition setState :: "coordinator \<Rightarrow> int \<Rightarrow> workerKey \<Rightarrow> workerState \<Rightarrow> coordinator" where
  "setState c account worker s = c\<lparr>cStates := (cStates c)((account, worker) \<mapsto> s)\<rparr>"

definition setMarketState :: "coordinator \<Rightarrow> int \<Rightarrow> accountMarket \<Rightarrow> coordinator" where
  "setMarketState c account m = c\<lparr>cMarketStates := (cMarketStates c)(account \<mapsto> m)\<rparr>"

definition forceWorker :: "forceReason \<Rightarrow> int \<Rightarrow> workerState \<Rightarrow> workerState" where
  "forceWorker reason now state =
     state\<lparr>wsForced := True,
           wsForceReason :=
             (if wsForceReason state = None \<or> wsForceReason state = Some Startup then Some reason
              else wsForceReason state),
           wsNextDueAt := Some now\<rparr>"

definition forceSync :: "coordinator \<Rightarrow> workerKey list \<Rightarrow> forceReason \<Rightarrow> int \<Rightarrow> int \<Rightarrow> coordinator" where
  "forceSync c workers reason account now =
     fold (\<lambda>w d. setState d account w (forceWorker reason now (stateFor d account w))) workers c"

definition forceAfterBrokerOrderCreated :: "coordinator \<Rightarrow> int \<Rightarrow> forceReason \<Rightarrow> int \<Rightarrow> coordinator" where
  "forceAfterBrokerOrderCreated c account reason now =
     forceSync c [SubmittedOrderSync, TrackedPositionSync] reason account now"

definition forceAfterBrokerPositionWrite :: "coordinator \<Rightarrow> int \<Rightarrow> forceReason \<Rightarrow> int \<Rightarrow> coordinator" where
  "forceAfterBrokerPositionWrite c account reason now =
     forceSync c [SubmittedOrderSync, TrackedPositionSync] reason account now"

definition forceAfterBrokerOrderCancellation :: "coordinator \<Rightarrow> int \<Rightarrow> forceReason \<Rightarrow> int \<Rightarrow> coordinator" where
  "forceAfterBrokerOrderCancellation c account reason now =
     forceSync c [SubmittedOrderSync] reason account now"

definition getLocalActivity ::
  "pollingProviders \<Rightarrow> coordinator \<Rightarrow> int \<Rightarrow> int \<Rightarrow> localActivity \<times> coordinator" where
  "getLocalActivity pp c account now =
     (let fresh = (let a = (case ppLocalActivity pp account now of Inr a \<Rightarrow> a | Inl _ \<Rightarrow> defaultLocalActivity now)
                   in (a, c\<lparr>cLocalActivityCache := (cLocalActivityCache c)(account \<mapsto> (now, a))\<rparr>))
      in case cLocalActivityCache c account of
           Some (capturedAt, a) \<Rightarrow> if now - capturedAt \<le> LOCAL_ACTIVITY_CACHE_TTL_MS then (a, c) else fresh
         | None \<Rightarrow> fresh)"

text \<open>The reason for which a successful evaluation forces both workers.\<close>

definition marketForceReason :: "accountMarket \<Rightarrow> marketState \<Rightarrow> string \<Rightarrow> forceReason option" where
  "marketForceReason m market tradingDate =
     (if amHadMarketSessionFailure m then Some MarketSessionRecovered
      else if amLastSuccessfulMarketState m \<noteq> None \<and> amLastSuccessfulMarketState m \<noteq> Some market
      then Some MarketTransition
      else if amLastSuccessfulTradingDate m \<noteq> None \<and> amLastSuccessfulTradingDate m \<noteq> Some tradingDate
      then Some TradingDateChanged
      else None)"

definition marketSuccess ::
  "coordinator \<Rightarrow> int \<Rightarrow> int \<Rightarrow> int \<Rightarrow> marketSession \<Rightarrow> marketEvaluation \<times> coordinator" where
  "marketSuccess c account now later snapshot =
     (let m = marketStateFor c account;
          market = (if msMarketOpen snapshot then MOpen else MClosed);
          evaluation = \<lparr>meState = market, meSnapshot = Some snapshot, meDegraded = False, meError = None,
                        meEvaluatedAt = now\<rparr>;
          m' = m\<lparr>amLatestMarketSessionSnapshot := Some snapshot, amLastSuccessfulMarketState := Some market,
                 amLastSuccessfulTradingDate := Some (msTradingDate snapshot),
                 amHadMarketSessionFailure := False, amConsecutiveMarketSessionFailures := 0,
                 amLastMarketSessionError := None, amLastMarketSessionErrorAt := None,
                 amRecoveredAt := (if amHadMarketSessionFailure m then Some now else amRecoveredAt m),
                 amLatestEvaluation := Some evaluation\<rparr>;
          c' = (case marketForceReason m market (msTradingDate snapshot) of
                  Some reason \<Rightarrow> forceSync c [SubmittedOrderSync, TrackedPositionSync] reason account later
                | None \<Rightarrow> c)
      in (evaluation,
          (setMarketState c' account m')
            \<lparr>cMarketEvaluationCache := (cMarketEvaluationCache c)
               (account \<mapsto> (now + MARKET_EVALUATION_CACHE_TTL_MS, evaluation))\<rparr>))"

definition marketFailure ::
  "coordinator \<Rightarrow> int \<Rightarrow> int \<Rightarrow> appError \<Rightarrow> marketEvaluation \<times> coordinator" where
  "marketFailure c account now err =
     (let m = marketStateFor c account;
          sanitized = sanitizeError err;
          evaluation = \<lparr>meState = MUnknown, meSnapshot = None, meDegraded = True, meError = Some sanitized,
                        meEvaluatedAt = now\<rparr>;
          m' = m\<lparr>amHadMarketSessionFailure := True,
                 amConsecutiveMarketSessionFailures := amConsecutiveMarketSessionFailures m + 1,
                 amLastMarketSessionError := Some sanitized, amLastMarketSessionErrorAt := Some now,
                 amLatestEvaluation := Some evaluation\<rparr>
      in (evaluation,
          (setMarketState c account m')
            \<lparr>cMarketEvaluationCache := (cMarketEvaluationCache c)
               (account \<mapsto> (now + MARKET_SESSION_FAILURE_RETRY_MS, evaluation))\<rparr>))"

definition evaluateMarket ::
  "pollingProviders \<Rightarrow> coordinator \<Rightarrow> int \<Rightarrow> int \<Rightarrow> int \<Rightarrow> marketEvaluation \<times> coordinator" where
  "evaluateMarket pp c account now later =
     (let fresh = (case ppMarketSession pp account now of
                     Inr snapshot \<Rightarrow> marketSuccess c account now later snapshot
                   | Inl e \<Rightarrow> marketFailure c account now e)
      in case cMarketEvaluationCache c account of
           Some (expiresAt, evaluation) \<Rightarrow> if now < expiresAt then (evaluation, c) else fresh
         | None \<Rightarrow> fresh)"

definition forcedReason :: "forceReason option \<Rightarrow> decisionReason" where
  "forcedReason r =
     (if r = Some MarketTransition then MarketTransitionDue
      else if r = Some TradingDateChanged then TradingDateChangedDue
      else if r = Some Startup then StartupDue
      else ForcedAfterBrokerWrite)"

definition dueAndReason ::
  "workerKey \<Rightarrow> bool \<Rightarrow> marketState \<Rightarrow> workerState \<Rightarrow> int \<Rightarrow> bool \<times> decisionReason" where
  "dueAndReason worker active market state now =
     (let reached = (case wsNextDueAt state of None \<Rightarrow> False | Some t \<Rightarrow> t \<le> now) in
      if worker = SubmittedOrderSync \<and> \<not> active then (False, NoLocalSubmittedOrders)
      else if wsForced state \<and> (wsNextDueAt state = None \<or> reached) then
        (True, forcedReason (wsForceReason state))
      else if market = MUnknown \<and> wsLastAttemptAt state = None then (True, MarketStateUnknown)
      else if wsNextDueAt state = None then (True, StartupDue)
      else if reached then (True, IntervalElapsed)
      else (False, AdaptivePollNotDue))"

definition getDecision ::
  "pollingProviders \<Rightarrow> coordinator \<Rightarrow> int \<Rightarrow> workerKey \<Rightarrow> int \<Rightarrow> int \<Rightarrow> pollingDecision \<times> coordinator" where
  "getDecision pp c account worker now later =
     (let (activity, c1) = getLocalActivity pp c account now;
          (market, c2) = evaluateMarket pp c1 account now later;
          active = (if worker = SubmittedOrderSync then hasSubmittedOrderActivity activity
                    else hasTrackedPositionActivity activity);
          state = stateFor c2 account worker;
          (due, reason) = dueAndReason worker active (meState market) state now;
          decision =
            \<lparr>pdWorkerKey = worker, pdDue = due, pdForced = wsForced state, pdForceReason = wsForceReason state,
             pdMode = modeFor (meState market) active, pdMarketState = meState market,
             pdLocalActivity = activity,
             pdEffectiveIntervalMs = intervalFor worker (meState market) active, pdEvaluatedAt = now,
             pdLastAttemptAt = wsLastAttemptAt state, pdLastSuccessAt = wsLastSuccessAt state,
             pdNextDueAt = wsNextDueAt state, pdReason = reason,
             pdMarketSessionDegraded = meDegraded market, pdMarketSessionError = meError market,
             pdMarketSessionSnapshot = meSnapshot market\<rparr>
      in (decision, setState c2 account worker (state\<lparr>wsLastDecision := Some decision\<rparr>)))"

definition recordAttempt :: "coordinator \<Rightarrow> workerKey \<Rightarrow> int \<Rightarrow> int \<Rightarrow> coordinator" where
  "recordAttempt c worker account attemptedAt =
     setState c account worker ((stateFor c account worker)\<lparr>wsLastAttemptAt := Some attemptedAt\<rparr>)"

definition successInterval :: "workerKey \<Rightarrow> workerState \<Rightarrow> int option \<Rightarrow> int" where
  "successInterval worker state nextIntervalMs =
     (case nextIntervalMs of Some i \<Rightarrow> i
      | None \<Rightarrow>
        (case Option.bind (wsLastDecision state) pdEffectiveIntervalMs of Some i \<Rightarrow> i
         | None \<Rightarrow> if worker = SubmittedOrderSync then submittedMarketOpenActive else trackedMarketOpenIdle))"

definition recordSuccess :: "coordinator \<Rightarrow> workerKey \<Rightarrow> int \<Rightarrow> int \<Rightarrow> int option \<Rightarrow> coordinator" where
  "recordSuccess c worker account completedAt nextIntervalMs =
     (let state = stateFor c account worker in
      setState c account worker
        (state\<lparr>wsLastSuccessAt := Some completedAt, wsForced := False, wsForceReason := None,
               wsNextDueAt := Some (completedAt + successInterval worker state nextIntervalMs)\<rparr>))"

definition recordFailure :: "coordinator \<Rightarrow> workerKey \<Rightarrow> int \<Rightarrow> int \<Rightarrow> coordinator" where
  "recordFailure c worker account failedAt =
     (let state = stateFor c account worker;
          lastAttempt = nullish (wsLastAttemptAt state) failedAt;
          elapsed = max 0 (failedAt - lastAttempt);
          retryDelay = min retryMaximum (max retryMinimum elapsed)
      in setState c account worker (state\<lparr>wsNextDueAt := Some (failedAt + retryDelay)\<rparr>))"

definition recordRateLimitDeferred :: "coordinator \<Rightarrow> workerKey \<Rightarrow> int \<Rightarrow> int option \<Rightarrow> int \<Rightarrow> coordinator" where
  "recordRateLimitDeferred c worker account backoffUntil deferredAt =
     (let state = stateFor c account worker;
          next = (case backoffUntil of Some b \<Rightarrow> if deferredAt < b then b else deferredAt + retryMinimum
                  | None \<Rightarrow> deferredAt + retryMinimum)
      in setState c account worker
           (state\<lparr>wsNextDueAt := Some next,
                  wsLastDecision := map_option (\<lambda>d. d\<lparr>pdDue := False, pdReason := RateLimitBackoff,
                    pdNextDueAt := Some next\<rparr>) (wsLastDecision state)\<rparr>))"

subsection \<open>The snapshot\<close>

record workerSnapshot =
  wnEffectiveIntervalMs :: "int option"
  wnDue :: bool
  wnForced :: bool
  wnForceReason :: "forceReason option"
  wnDecisionReason :: decisionReason
  wnLastAttemptAt :: "int option"
  wnLastSuccessAt :: "int option"
  wnNextDueAt :: "int option"
  wnLocalActivity :: bool
  wnMode :: pollingMode

record pollingSnapshot =
  psDegraded :: bool
  psEvaluatedAt :: int
  psMarketState :: marketState
  psMode :: pollingMode
  psSession :: "marketSession option"
  psConsecutiveFailures :: int
  psLastError :: "string option"
  psLastErrorAt :: "int option"
  psRecoveredAt :: "int option"
  psLocalActivity :: localActivity
  psSubmittedOrderSync :: workerSnapshot
  psTrackedPositionSync :: workerSnapshot

definition toWorkerSnapshot ::
  "coordinator \<Rightarrow> workerKey \<Rightarrow> localActivity \<Rightarrow> int \<Rightarrow> marketState \<Rightarrow> workerSnapshot" where
  "toWorkerSnapshot c worker activity account market =
     (let state = stateFor c account worker; decision = wsLastDecision state;
          active = (if worker = SubmittedOrderSync then hasSubmittedOrderActivity activity
                    else hasTrackedPositionActivity activity)
      in \<lparr>wnEffectiveIntervalMs =
            (case Option.bind decision pdEffectiveIntervalMs of
               Some i \<Rightarrow> Some i | None \<Rightarrow> intervalFor worker market active),
          wnDue = (case decision of Some d \<Rightarrow> pdDue d | None \<Rightarrow> wsForced state),
          wnForced = wsForced state, wnForceReason = wsForceReason state,
          wnDecisionReason = (case decision of Some d \<Rightarrow> pdReason d | None \<Rightarrow> StartupDue),
          wnLastAttemptAt = wsLastAttemptAt state, wnLastSuccessAt = wsLastSuccessAt state,
          wnNextDueAt = wsNextDueAt state, wnLocalActivity = active,
          wnMode = (case decision of Some d \<Rightarrow> pdMode d | None \<Rightarrow> modeFor market active)\<rparr>)"

definition getSnapshot :: "pollingProviders \<Rightarrow> coordinator \<Rightarrow> int \<Rightarrow> int \<Rightarrow> pollingSnapshot \<times> coordinator" where
  "getSnapshot pp c account now =
     (let (activity, c1) = getLocalActivity pp c account now;
          m = marketStateFor c1 account;
          market = (case amLatestEvaluation m of Some e \<Rightarrow> e
                    | None \<Rightarrow> \<lparr>meState = MUnknown, meSnapshot = amLatestMarketSessionSnapshot m,
                        meDegraded = amHadMarketSessionFailure m, meError = amLastMarketSessionError m,
                        meEvaluatedAt = now\<rparr>)
      in (\<lparr>psDegraded = meDegraded market, psEvaluatedAt = now, psMarketState = meState market,
           psMode = modeFor (meState market) (hasTrackedPositionActivity activity),
           psSession = meSnapshot market, psConsecutiveFailures = amConsecutiveMarketSessionFailures m,
           psLastError = amLastMarketSessionError m, psLastErrorAt = amLastMarketSessionErrorAt m,
           psRecoveredAt = amRecoveredAt m, psLocalActivity = activity,
           psSubmittedOrderSync = toWorkerSnapshot c1 SubmittedOrderSync activity account (meState market),
           psTrackedPositionSync = toWorkerSnapshot c1 TrackedPositionSync activity account (meState market)\<rparr>, c1))"

text \<open>The operations of the coordinator as values, and their effect on its state.\<close>

datatype pollOp =
    OpForce "workerKey list" forceReason int int
  | OpDecide pollingProviders int workerKey int int
  | OpSnapshot pollingProviders int int
  | OpAttempt workerKey int int
  | OpSuccess workerKey int int "int option"
  | OpFailure workerKey int int
  | OpRateLimited workerKey int "int option" int

fun applyOp :: "pollOp \<Rightarrow> coordinator \<Rightarrow> coordinator" where
  "applyOp (OpForce ws reason account now) c = forceSync c ws reason account now"
| "applyOp (OpDecide pp account worker now later) c = snd (getDecision pp c account worker now later)"
| "applyOp (OpSnapshot pp account now) c = snd (getSnapshot pp c account now)"
| "applyOp (OpAttempt worker account t) c = recordAttempt c worker account t"
| "applyOp (OpSuccess worker account t next) c = recordSuccess c worker account t next"
| "applyOp (OpFailure worker account t) c = recordFailure c worker account t"
| "applyOp (OpRateLimited worker account b t) c = recordRateLimitDeferred c worker account b t"

end
