(* ===== verification/PollingSafety.thy ===== *)
theory PollingSafety
  imports AdaptivePolling
begin

text \<open>
  What the polling coordinator guarantees over all sequences of its operations: accounts do
  not influence each other, the bookkeeping of forces and market failures stays coherent, a
  force is kept until a success, an interval is respected, and failures of the market
  session are retried no more often than their back-off says.
\<close>

subsection \<open>Reading the state after an operation\<close>

lemma stateFor_setState [simp]:
  "stateFor (setState c a w s) b v = (if b = a \<and> v = w then s else stateFor c b v)"
  by (auto simp: stateFor_def setState_def)

lemma marketStateFor_setState [simp]: "marketStateFor (setState c a w s) b = marketStateFor c b"
  by (simp add: marketStateFor_def setState_def)

lemma stateFor_frames [simp]:
  "stateFor (setMarketState c a m) b v = stateFor c b v"
  "stateFor (c\<lparr>cMarketEvaluationCache := x\<rparr>) b v = stateFor c b v"
  "stateFor (c\<lparr>cLocalActivityCache := y\<rparr>) b v = stateFor c b v"
  by (simp_all add: stateFor_def setMarketState_def)

lemma marketStateFor_frames [simp]:
  "marketStateFor (c\<lparr>cMarketEvaluationCache := x\<rparr>) b = marketStateFor c b"
  "marketStateFor (c\<lparr>cLocalActivityCache := y\<rparr>) b = marketStateFor c b"
  "marketStateFor (setMarketState c a m) b = (if b = a then m else marketStateFor c b)"
  by (simp_all add: marketStateFor_def setMarketState_def)

lemma cache_frames [simp]:
  "cMarketEvaluationCache (setState c a w s) = cMarketEvaluationCache c"
  "cLocalActivityCache (setState c a w s) = cLocalActivityCache c"
  "cMarketEvaluationCache (setMarketState c a m) = cMarketEvaluationCache c"
  "cLocalActivityCache (setMarketState c a m) = cLocalActivityCache c"
  by (simp_all add: setState_def setMarketState_def)

lemma forceWorker_idem [simp]: "forceWorker r t (forceWorker r t s) = forceWorker r t s"
  by (auto simp: forceWorker_def)

lemma forceWorker_fields [simp]:
  "wsLastAttemptAt (forceWorker r t s) = wsLastAttemptAt s" "wsForced (forceWorker r t s)"
  "wsNextDueAt (forceWorker r t s) = Some t" "wsLastSuccessAt (forceWorker r t s) = wsLastSuccessAt s"
  "wsLastDecision (forceWorker r t s) = wsLastDecision s"
  by (simp_all add: forceWorker_def)

lemma forceWorker_updated:
  "(forceWorker r t s)\<lparr>wsLastSuccessAt := x, wsForced := f, wsForceReason := q, wsNextDueAt := d\<rparr> =
   s\<lparr>wsLastSuccessAt := x, wsForced := f, wsForceReason := q, wsNextDueAt := d\<rparr>"
  by (simp add: forceWorker_def)

lemma successInterval_force: "successInterval w (forceWorker r t s) next = successInterval w s next"
  unfolding successInterval_def forceWorker_fields by (rule refl)

lemma stateFor_forceSync [simp]:
  "stateFor (forceSync c ws r a t) b v =
     (if b = a \<and> v \<in> set ws then forceWorker r t (stateFor c b v) else stateFor c b v)"
  unfolding forceSync_def by (induction ws arbitrary: c) auto

lemma forceSync_frames [simp]:
  "marketStateFor (forceSync c ws r a t) b = marketStateFor c b"
  "cMarketEvaluationCache (forceSync c ws r a t) = cMarketEvaluationCache c"
  "cLocalActivityCache (forceSync c ws r a t) = cLocalActivityCache c"
  unfolding forceSync_def by (induction ws arbitrary: c) auto

lemma both_workers [simp]: "v \<in> {SubmittedOrderSync, TrackedPositionSync}"
  by (cases v) auto

lemma both_workers_eq [simp]: "v = SubmittedOrderSync \<or> v = TrackedPositionSync"
  by (cases v) auto

lemma getLocalActivity_frames [simp]:
  "stateFor (snd (getLocalActivity pp c a now)) b v = stateFor c b v"
  "marketStateFor (snd (getLocalActivity pp c a now)) b = marketStateFor c b"
  "cMarketEvaluationCache (snd (getLocalActivity pp c a now)) = cMarketEvaluationCache c"
  "b \<noteq> a \<Longrightarrow> cLocalActivityCache (snd (getLocalActivity pp c a now)) b = cLocalActivityCache c b"
  by (auto simp: getLocalActivity_def Let_def split: option.splits prod.splits if_splits)

lemma getSnapshot_state: "snd (getSnapshot pp c a now) = snd (getLocalActivity pp c a now)"
  by (simp add: getSnapshot_def case_prod_beta Let_def)

text \<open>The worker after a market evaluation: forced if the evaluation found a reason.\<close>

lemma evaluateMarket_worker:
  "stateFor (snd (evaluateMarket pp c a now later)) b v = stateFor c b v \<or>
   (b = a \<and> (\<exists>r. stateFor (snd (evaluateMarket pp c a now later)) b v = forceWorker r later (stateFor c b v) \<and>
      r \<in> {MarketSessionRecovered, MarketTransition, TradingDateChanged}))"
  by (auto simp: evaluateMarket_def marketSuccess_def marketFailure_def Let_def marketForceReason_def
      split: option.splits sum.splits prod.splits if_splits)

lemma evaluateMarket_other [simp]:
  "b \<noteq> a \<Longrightarrow> stateFor (snd (evaluateMarket pp c a now later)) b v = stateFor c b v"
  "b \<noteq> a \<Longrightarrow> marketStateFor (snd (evaluateMarket pp c a now later)) b = marketStateFor c b"
  "b \<noteq> a \<Longrightarrow> cMarketEvaluationCache (snd (evaluateMarket pp c a now later)) b = cMarketEvaluationCache c b"
  "cLocalActivityCache (snd (evaluateMarket pp c a now later)) = cLocalActivityCache c"
  by (auto simp: evaluateMarket_def marketSuccess_def marketFailure_def Let_def
      split: option.splits sum.splits prod.splits if_splits)

definition preDecision :: "pollingProviders \<Rightarrow> coordinator \<Rightarrow> int \<Rightarrow> int \<Rightarrow> int \<Rightarrow> coordinator" where
  "preDecision pp c a now later = snd (evaluateMarket pp (snd (getLocalActivity pp c a now)) a now later)"

lemma getDecision_state:
  "snd (getDecision pp c a w now later) =
   setState (preDecision pp c a now later) a w
     ((stateFor (preDecision pp c a now later) a w)\<lparr>wsLastDecision := Some (fst (getDecision pp c a w now later))\<rparr>)"
  by (simp add: getDecision_def preDecision_def case_prod_beta Let_def)

lemma preDecision_worker:
  "stateFor (preDecision pp c a now later) b v = stateFor c b v \<or>
   (b = a \<and> (\<exists>r. stateFor (preDecision pp c a now later) b v = forceWorker r later (stateFor c b v) \<and>
      r \<in> {MarketSessionRecovered, MarketTransition, TradingDateChanged}))"
  unfolding preDecision_def
  using evaluateMarket_worker[of pp "snd (getLocalActivity pp c a now)" a now later b v] by simp

subsection \<open>Isolation of accounts\<close>

fun opAccount :: "pollOp \<Rightarrow> int" where
  "opAccount (OpForce ws reason account now) = account"
| "opAccount (OpDecide pp account worker now later) = account"
| "opAccount (OpSnapshot pp account now) = account"
| "opAccount (OpAttempt worker account t) = account"
| "opAccount (OpSuccess worker account t next) = account"
| "opAccount (OpFailure worker account t) = account"
| "opAccount (OpRateLimited worker account b t) = account"

text \<open>All that the coordinator keeps for an account.\<close>

definition accountView ::
  "coordinator \<Rightarrow> int \<Rightarrow> (workerKey \<Rightarrow> workerState) \<times> accountMarket \<times> (int \<times> localActivity) option \<times> (int \<times> marketEvaluation) option" where
  "accountView c a = (\<lambda>w. stateFor c a w, marketStateFor c a, cLocalActivityCache c a, cMarketEvaluationCache c a)"

lemma applyOp_view: "opAccount op \<noteq> a \<Longrightarrow> accountView (applyOp op c) a = accountView c a"
  by (cases op)
    (auto simp: accountView_def getDecision_state getSnapshot_state preDecision_def recordAttempt_def
      recordSuccess_def recordFailure_def recordRateLimitDeferred_def Let_def)

interpretation isolated: opMachine applyOp "\<lambda>op. opAccount op \<noteq> a" "\<lambda>c. accountView c a = v" for a v
  by unfold_locales (simp add: applyOp_view)

text \<open>Accounts are isolated. Any sequence of operations on other accounts (forces,
  decisions with failing market sessions, attempts, failures) leaves everything the
  coordinator keeps for an account unchanged: its workers, its market state and both of
  its caches.\<close>
lemma polling_accounts_isolated:
  assumes "\<forall>op\<in>set ops. opAccount op \<noteq> a"
  shows "accountView (fold applyOp ops c) a = accountView c a"
  using assms by (intro isolated.run_holds) (auto simp: list_all_iff)

lemma polling_accounts_isolated_witness:
  "accountView (fold applyOp [OpForce [SubmittedOrderSync] BrokerOrderCreated 8 0, OpFailure TrackedPositionSync 9 5] reset) 7
   = accountView reset 7"
  by (rule polling_accounts_isolated) simp

subsection \<open>Coherence\<close>

definition workerCoherent :: "workerState \<Rightarrow> bool" where
  "workerCoherent s \<longleftrightarrow>
     (wsForced s \<longleftrightarrow> wsForceReason s \<noteq> None) \<and> (wsLastSuccessAt s \<noteq> None \<longrightarrow> wsNextDueAt s \<noteq> None)"

definition marketCoherent :: "accountMarket \<Rightarrow> bool" where
  "marketCoherent m \<longleftrightarrow>
     0 \<le> amConsecutiveMarketSessionFailures m \<and>
     (amHadMarketSessionFailure m \<longleftrightarrow> 0 < amConsecutiveMarketSessionFailures m) \<and>
     (amHadMarketSessionFailure m \<longleftrightarrow> amLastMarketSessionError m \<noteq> None) \<and>
     (amLastMarketSessionError m \<noteq> None \<longleftrightarrow> amLastMarketSessionErrorAt m \<noteq> None) \<and>
     (case amLatestEvaluation m of
        None \<Rightarrow> \<not> amHadMarketSessionFailure m
      | Some e \<Rightarrow> meDegraded e = amHadMarketSessionFailure m \<and> (meDegraded e \<longleftrightarrow> meState e = MUnknown) \<and>
          meError e = amLastMarketSessionError m)"

definition coherent :: "coordinator \<Rightarrow> bool" where
  "coherent c \<longleftrightarrow>
     (\<forall>a w. workerCoherent (stateFor c a w)) \<and> (\<forall>a. marketCoherent (marketStateFor c a)) \<and>
     (\<forall>a x e. cMarketEvaluationCache c a = Some (x, e) \<longrightarrow> amLatestEvaluation (marketStateFor c a) = Some e)"

lemma coherent_reset: "coherent reset"
  by (simp add: coherent_def reset_def stateFor_def marketStateFor_def workerCoherent_def marketCoherent_def
      createWorkerState_def createAccountMarketState_def)

lemma workerCoherent_force: "workerCoherent s \<Longrightarrow> workerCoherent (forceWorker r t s)"
  by (auto simp: workerCoherent_def forceWorker_def)

lemma coherent_setState:
  "coherent c \<Longrightarrow> workerCoherent s \<Longrightarrow> coherent (setState c a w s)"
  by (simp add: coherent_def)

lemma coherent_forceSync: "coherent c \<Longrightarrow> coherent (forceSync c ws r a t)"
  by (simp add: coherent_def workerCoherent_force)

lemma coherent_local: "coherent c \<Longrightarrow> coherent (snd (getLocalActivity pp c a now))"
  by (simp add: coherent_def)

lemma coherent_evaluated:
  "coherent c \<Longrightarrow> marketCoherent m \<Longrightarrow> amLatestEvaluation m = Some e \<Longrightarrow> cache = cMarketEvaluationCache c \<Longrightarrow>
   coherent ((setMarketState c a m)\<lparr>cMarketEvaluationCache := cache(a \<mapsto> (x, e))\<rparr>)"
  unfolding coherent_def by (simp split: if_splits)

lemma coherent_success: "coherent c \<Longrightarrow> coherent (snd (marketSuccess c a now later s))"
proof -
  assume c: "coherent c"
  define c' where "c' = (case marketForceReason (marketStateFor c a) (if msMarketOpen s then MOpen else MClosed)
      (msTradingDate s) of
        Some reason \<Rightarrow> forceSync c [SubmittedOrderSync, TrackedPositionSync] reason a later | None \<Rightarrow> c)"
  have "coherent c'" "cMarketEvaluationCache c = cMarketEvaluationCache c'"
    using c by (auto simp: c'_def coherent_forceSync split: option.splits)
  then show ?thesis
    unfolding marketSuccess_def Let_def snd_conv c'_def [symmetric]
    by (intro coherent_evaluated) (simp_all add: marketCoherent_def)
qed

lemma coherent_failure: "coherent c \<Longrightarrow> coherent (snd (marketFailure c a now e))"
proof -
  assume c: "coherent c"
  then have "marketCoherent (marketStateFor c a)" by (simp add: coherent_def)
  then show ?thesis
    unfolding marketFailure_def Let_def snd_conv
    by (intro coherent_evaluated c) (simp_all add: marketCoherent_def)
qed

lemma coherent_market: "coherent c \<Longrightarrow> coherent (snd (evaluateMarket pp c a now later))"
  by (auto simp: evaluateMarket_def Let_def coherent_success coherent_failure
      split: option.splits sum.splits prod.splits)

lemma workerCoherent_updates:
  "workerCoherent s \<Longrightarrow> workerCoherent (s\<lparr>wsLastDecision := d\<rparr>)"
  "workerCoherent s \<Longrightarrow> workerCoherent (s\<lparr>wsLastAttemptAt := x\<rparr>)"
  "workerCoherent s \<Longrightarrow> workerCoherent (s\<lparr>wsNextDueAt := Some t\<rparr>)"
  "workerCoherent s \<Longrightarrow> workerCoherent (s\<lparr>wsNextDueAt := Some t, wsLastDecision := d\<rparr>)"
  "workerCoherent (s\<lparr>wsLastSuccessAt := y, wsForced := False, wsForceReason := None, wsNextDueAt := Some t\<rparr>)"
  by (auto simp: workerCoherent_def)

lemma coherent_worker: "coherent c \<Longrightarrow> workerCoherent (stateFor c a w)"
  by (simp add: coherent_def)

lemma coherent_applyOp: "coherent c \<Longrightarrow> coherent (applyOp op c)"
  by (cases op)
    (auto simp: getDecision_state getSnapshot_state preDecision_def recordAttempt_def recordSuccess_def
      recordFailure_def recordRateLimitDeferred_def Let_def
      intro!: coherent_setState coherent_forceSync coherent_market coherent_local workerCoherent_updates
        coherent_worker)

interpretation coherence: opMachine applyOp "\<lambda>_. True" coherent
  by unfold_locales (simp add: coherent_applyOp)

text \<open>C38: in every state that the operations of the coordinator reach from its creation, a
  worker is forced exactly when a force reason is recorded, a worker that has succeeded has
  a next due time, the failure count, flag, error and degraded evaluation of each account's
  market session agree, and a cached evaluation is the latest one.\<close>
theorem polling_state_coherent:
  "coherent (fold applyOp ops reset)"
  by (rule coherence.run_holds[OF coherent_reset]) (simp add: list_all_iff)

subsection \<open>Decisions\<close>

lemma decision_fields:
  "pdNextDueAt (fst (getDecision pp c a w now later)) = wsNextDueAt (stateFor (preDecision pp c a now later) a w)"
  "pdForced (fst (getDecision pp c a w now later)) = wsForced (stateFor (preDecision pp c a now later) a w)"
  "pdLastAttemptAt (fst (getDecision pp c a w now later)) = wsLastAttemptAt (stateFor (preDecision pp c a now later) a w)"
  "pdForceReason (fst (getDecision pp c a w now later)) = wsForceReason (stateFor (preDecision pp c a now later) a w)"
  by (simp_all add: getDecision_def preDecision_def case_prod_beta Let_def)

definition workerActive :: "workerKey \<Rightarrow> localActivity \<Rightarrow> bool" where
  "workerActive w a = (if w = SubmittedOrderSync then hasSubmittedOrderActivity a else hasTrackedPositionActivity a)"

lemma decision_due_iff:
  "pdDue (fst (getDecision pp c a w now later)) \<longleftrightarrow>
   (w = SubmittedOrderSync \<longrightarrow> workerActive w (pdLocalActivity (fst (getDecision pp c a w now later)))) \<and>
   (case pdNextDueAt (fst (getDecision pp c a w now later)) of
      None \<Rightarrow> True
    | Some t \<Rightarrow> t \<le> now \<or>
        pdMarketState (fst (getDecision pp c a w now later)) = MUnknown \<and>
        pdLastAttemptAt (fst (getDecision pp c a w now later)) = None)"
  by (simp add: getDecision_def case_prod_beta Let_def dueAndReason_def workerActive_def split: option.splits)

text \<open>When a poll is due. A worker is due exactly when it has something to do (the
  submitted order worker needs submitted orders, the position worker always polls) and its
  next due time is absent or reached, or the market is unknown and it never attempted. The
  forced flag only selects the reason: it makes nothing due by itself.\<close>
lemma poll_due_exactly_when:
  "pdDue (fst (getDecision pp c a w now later)) \<longleftrightarrow>
   (w = SubmittedOrderSync \<longrightarrow> workerActive w (pdLocalActivity (fst (getDecision pp c a w now later)))) \<and>
   (case pdNextDueAt (fst (getDecision pp c a w now later)) of
      None \<Rightarrow> True
    | Some t \<Rightarrow> t \<le> now \<or>
        pdMarketState (fst (getDecision pp c a w now later)) = MUnknown \<and>
        pdLastAttemptAt (fst (getDecision pp c a w now later)) = None)"
  by (rule decision_due_iff)

lemma poll_due_exactly_when_witness:
  "\<not> pdDue (fst (getDecision \<lparr>ppMarketSession = (\<lambda>_ _. Inr sampleSession), ppLocalActivity = (\<lambda>_ t. Inr (defaultLocalActivity t))\<rparr>
     reset 7 SubmittedOrderSync 100 100))"
  unfolding poll_due_exactly_when by code_simp

text \<open>Which operations may change the schedule of a worker, other than by forcing it.\<close>

fun schedules :: "int \<Rightarrow> workerKey \<Rightarrow> pollOp \<Rightarrow> bool" where
  "schedules a w (OpSuccess v b t next) = (b = a \<and> v = w)"
| "schedules a w (OpFailure v b t) = (b = a \<and> v = w)"
| "schedules a w (OpRateLimited v b x t) = (b = a \<and> v = w)"
| "schedules a w _ = False"

definition waiting :: "int \<Rightarrow> workerKey \<Rightarrow> int \<Rightarrow> coordinator \<Rightarrow> bool" where
  "waiting a w T c \<longleftrightarrow>
     wsLastAttemptAt (stateFor c a w) \<noteq> None \<and>
     (\<not> wsForced (stateFor c a w) \<longrightarrow> wsNextDueAt (stateFor c a w) = Some T)"

lemma waiting_preDecision: "waiting a w T c \<Longrightarrow> waiting a w T (preDecision pp c b now later)"
  using preDecision_worker[of pp c b now later a w] by (auto simp: waiting_def)

lemma waiting_applyOp: "waiting a w T c \<Longrightarrow> \<not> schedules a w op \<Longrightarrow> waiting a w T (applyOp op c)"
proof (cases op)
  case (OpDecide pp b v now later)
  assume "waiting a w T c"
  then have "waiting a w T (preDecision pp c b now later)" by (rule waiting_preDecision)
  then show ?thesis by (cases "a = b \<and> w = v") (auto simp: OpDecide getDecision_state waiting_def)
qed (auto simp: waiting_def getSnapshot_state recordAttempt_def recordSuccess_def recordFailure_def
    recordRateLimitDeferred_def Let_def forceWorker_def)

interpretation waitingRun: opMachine applyOp "\<lambda>op. \<not> schedules a w op" "waiting a w T" for a w T
  by unfold_locales (rule waiting_applyOp)

text \<open>No polling before the interval. After an attempt and its success at time \<open>t\<close>, whatever
  other operations follow (decisions, other workers, forces), a later decision for the
  worker that is not forced is due only from \<open>t\<close> plus the interval on; the interval is the one
  given, else the one of the last decision, else the default of the worker.\<close>
lemma no_poll_before_interval:
  assumes "wsLastAttemptAt (stateFor c a w) \<noteq> None"
    and "\<forall>op\<in>set ops. \<not> schedules a w op"
    and "c' = fold applyOp ops (recordSuccess c w a t next)"
    and "pdDue (fst (getDecision pp c' a w now later))"
    and "\<not> pdForced (fst (getDecision pp c' a w now later))"
  shows "t + successInterval w (stateFor c a w) next \<le> now"
proof -
  let ?T = "t + successInterval w (stateFor c a w) next"
  have "waiting a w ?T (recordSuccess c w a t next)"
    using assms(1) by (simp add: waiting_def recordSuccess_def Let_def)
  then have "waiting a w ?T c'"
    unfolding assms(3) using assms(2) by (intro waitingRun.run_holds) (auto simp: list_all_iff)
  then have "waiting a w ?T (preDecision pp c' a now later)" by (rule waiting_preDecision)
  then show ?thesis
    using assms(4,5) unfolding decision_due_iff decision_fields by (auto simp: waiting_def)
qed

lemma no_poll_before_interval_witness:
  "\<not> pdDue (fst (getDecision \<lparr>ppMarketSession = (\<lambda>_ _. Inr sampleSession), ppLocalActivity = (\<lambda>_ t. Inr (defaultLocalActivity t))\<rparr>
     (fold applyOp [OpAttempt TrackedPositionSync 8 60] (recordSuccess (recordAttempt reset TrackedPositionSync 7 10)
        TrackedPositionSync 7 50 (Some 15000))) 7 TrackedPositionSync 14000 14000))"
proof -
  let ?pp = "\<lparr>ppMarketSession = (\<lambda>_ _. Inr sampleSession), ppLocalActivity = (\<lambda>_ t. Inr (defaultLocalActivity t))\<rparr>"
  let ?c = "fold applyOp [OpAttempt TrackedPositionSync 8 60] (recordSuccess (recordAttempt reset TrackedPositionSync 7 10)
        TrackedPositionSync 7 50 (Some 15000))"
  have "\<not> pdForced (fst (getDecision ?pp ?c 7 TrackedPositionSync 14000 14000))"
    unfolding decision_fields by code_simp
  then show ?thesis
    using no_poll_before_interval[of "recordAttempt reset TrackedPositionSync 7 10" 7 TrackedPositionSync
        "[OpAttempt TrackedPositionSync 8 60]" ?c 50 "Some 15000" ?pp 14000 14000]
    by (auto simp: recordAttempt_def successInterval_def)
qed

subsection \<open>Forces\<close>

definition forcedFor :: "int \<Rightarrow> workerKey \<Rightarrow> forceReason \<Rightarrow> coordinator \<Rightarrow> bool" where
  "forcedFor a w r c \<longleftrightarrow> wsForced (stateFor c a w) \<and> wsForceReason (stateFor c a w) = Some r"

fun succeeds :: "int \<Rightarrow> workerKey \<Rightarrow> pollOp \<Rightarrow> bool" where
  "succeeds a w (OpSuccess v b t next) = (b = a \<and> v = w)"
| "succeeds a w _ = False"

lemma forcedFor_force: "r \<noteq> Startup \<Longrightarrow> wsForced s \<Longrightarrow> wsForceReason s = Some r \<Longrightarrow>
    wsForced (forceWorker q t s) \<and> wsForceReason (forceWorker q t s) = Some r"
  by (simp add: forceWorker_def)

lemma forcedFor_preDecision:
  assumes "r \<noteq> Startup" "forcedFor a w r c"
  shows "forcedFor a w r (preDecision pp c b now later)"
proof -
  obtain q where "stateFor (preDecision pp c b now later) a w = stateFor c a w \<or>
      stateFor (preDecision pp c b now later) a w = forceWorker q later (stateFor c a w)"
    using preDecision_worker[of pp c b now later a w] by blast
  then show ?thesis using assms forcedFor_force[OF assms(1)] unfolding forcedFor_def by metis
qed

lemma forcedFor_applyOp:
  "r \<noteq> Startup \<Longrightarrow> forcedFor a w r c \<Longrightarrow> \<not> succeeds a w op \<Longrightarrow> forcedFor a w r (applyOp op c)"
proof (cases op)
  case (OpDecide pp b v now later)
  assume "r \<noteq> Startup" "forcedFor a w r c"
  then have "forcedFor a w r (preDecision pp c b now later)" by (rule forcedFor_preDecision)
  then show ?thesis by (cases "a = b \<and> w = v") (auto simp: OpDecide getDecision_state forcedFor_def)
qed (auto simp: forcedFor_def getSnapshot_state recordAttempt_def recordSuccess_def recordFailure_def
    recordRateLimitDeferred_def Let_def forceWorker_def)

interpretation forcedRun: opMachine applyOp "\<lambda>op. \<not> succeeds a w op" "\<lambda>c. r = Startup \<or> forcedFor a w r c" for a w r
  by unfold_locales (auto intro: forcedFor_applyOp)

text \<open>A force is kept until a success. Once a worker is forced for a reason other than the
  startup, no sequence of decisions, failures, rate limits, attempts and further forces
  without a success of that worker loses the force or overwrites its reason, and a due
  decision reports the force.\<close>
lemma force_kept_until_success:
  assumes "r \<noteq> Startup" and "forcedFor a w r c" and "\<forall>op\<in>set ops. \<not> succeeds a w op"
  shows "pdForced (fst (getDecision pp (fold applyOp ops c) a w now later)) \<and>
    pdForceReason (fst (getDecision pp (fold applyOp ops c) a w now later)) = Some r"
proof -
  have "r = Startup \<or> forcedFor a w r (fold applyOp ops c)"
    using assms by (intro forcedRun.run_holds) (auto simp: list_all_iff)
  then have "forcedFor a w r (preDecision pp (fold applyOp ops c) a now later)"
    using assms(1) forcedFor_preDecision by blast
  then show ?thesis by (simp add: decision_fields forcedFor_def)
qed

lemma force_kept_until_success_witness:
  "pdForceReason (fst (getDecision \<lparr>ppMarketSession = (\<lambda>_ _. Inl (PlainError ''Error'' ''down'')),
        ppLocalActivity = (\<lambda>_ t. Inr (defaultLocalActivity t))\<rparr>
     (fold applyOp [OpFailure TrackedPositionSync 7 20, OpForce [TrackedPositionSync] ProtectiveOrderCreated 7 30]
        (forceSync reset [TrackedPositionSync] BrokerOrderCreated 7 10)) 7 TrackedPositionSync 40 41))
   = Some BrokerOrderCreated"
  by (rule conjunct2[OF force_kept_until_success]) (simp_all add: forcedFor_def forceWorker_def reset_def
      stateFor_def createWorkerState_def forceSync_def setState_def)

text \<open>C39: a force that arrives while a poll of the same worker is running is lost: when the poll
  then succeeds, the worker is left in the same state as without the force, unforced and
  next due only after a whole interval.\<close>
theorem force_during_poll_is_lost:
  "stateFor (recordSuccess (forceSync c ws reason a t) w a t' next) a w =
   stateFor (recordSuccess c w a t' next) a w"
  by (cases "w \<in> set ws") (simp_all add: recordSuccess_def Let_def successInterval_force forceWorker_updated)

text \<open>C40: a market transition never makes the decision that notices it due. When the fresh market
  session differs from the last one and the clock has moved since the decision started,
  the force that the transition sets lies after the time of the decision, so the position
  worker is not due in it, not even if its interval had elapsed.\<close>
theorem transition_decision_not_due:
  assumes "cMarketEvaluationCache c a = None \<or> (\<exists>x e. cMarketEvaluationCache c a = Some (x, e) \<and> x \<le> now)"
    and "ppMarketSession pp a now = Inr s"
    and "marketForceReason (marketStateFor c a) (if msMarketOpen s then MOpen else MClosed) (msTradingDate s) = Some r"
    and "now < later"
  shows "\<not> pdDue (fst (getDecision pp c a w now later))"
proof -
  let ?c1 = "snd (getLocalActivity pp c a now)"
  have ev: "evaluateMarket pp ?c1 a now later = marketSuccess ?c1 a now later s"
    using assms(1,2) by (auto simp: evaluateMarket_def Let_def)
  have "wsNextDueAt (stateFor (preDecision pp c a now later) a w) = Some later"
    unfolding preDecision_def ev
    by (cases w) (simp_all add: marketSuccess_def Let_def assms(3) forceWorker_def)
  moreover have "pdMarketState (fst (getDecision pp c a w now later)) \<noteq> MUnknown"
    by (simp add: getDecision_def case_prod_beta Let_def ev) (simp add: marketSuccess_def Let_def)
  ultimately show ?thesis
    using assms(4) unfolding decision_due_iff decision_fields by simp
qed

theorem transition_decision_not_due_witness:
  "let pp = \<lparr>ppMarketSession = (\<lambda>_ _. Inr sampleSession), ppLocalActivity = (\<lambda>_ t. Inr (defaultLocalActivity t))\<rparr>;
       c = setMarketState reset 7 (createAccountMarketState\<lparr>amLastSuccessfulMarketState := Some MClosed\<rparr>)
   in \<not> pdDue (fst (getDecision pp c 7 TrackedPositionSync 1000 1001))"
  unfolding Let_def
  by (rule transition_decision_not_due[where r = MarketTransition and s = sampleSession])
    (simp_all add: reset_def setMarketState_def marketStateFor_def marketForceReason_def sampleSession_def
      createAccountMarketState_def)

subsection \<open>Retries\<close>

text \<open>Retries are bounded. A failed poll is retried between 5 and 15 seconds after the
  failure, and later for a poll that ran longer; a poll deferred by the broker's rate limit
  is due strictly later than the deferral and not before the end of the back-off, and its
  last decision no longer says due.\<close>
lemma retry_delays_bounded:
  "(\<exists>t. wsNextDueAt (stateFor (recordFailure c w a failedAt) a w) = Some t \<and>
      failedAt + 5000 \<le> t \<and> t \<le> failedAt + 15000) \<and>
   (\<exists>t. wsNextDueAt (stateFor (recordRateLimitDeferred c w a backoffUntil deferredAt) a w) = Some t \<and>
      deferredAt < t \<and> nullish backoffUntil t \<le> t \<and>
      (\<forall>d. wsLastDecision (stateFor (recordRateLimitDeferred c w a backoffUntil deferredAt) a w) = Some d \<longrightarrow>
         \<not> pdDue d \<and> pdNextDueAt d = Some t))"
  by (auto simp: recordFailure_def recordRateLimitDeferred_def Let_def nullish_def retryMinimum_def
      retryMaximum_def split: option.splits)

lemma retry_delays_bounded_witness:
  "\<exists>t. wsNextDueAt (stateFor (recordRateLimitDeferred reset SubmittedOrderSync 7 (Some 90000) 1000) 7 SubmittedOrderSync) = Some t \<and>
     90000 \<le> t"
  using retry_delays_bounded[of reset SubmittedOrderSync 7 0 "Some 90000" 1000] by (auto simp: nullish_def)

text \<open>A failing market session is asked again only after 45 seconds: for that long every
  decision of the account uses the failed evaluation, and its market state does not change,
  whatever the provider would answer.\<close>
lemma market_failure_backs_off:
  assumes "cMarketEvaluationCache c a = None \<or> (\<exists>x e. cMarketEvaluationCache c a = Some (x, e) \<and> x \<le> now)"
    and "ppMarketSession pp a now = Inl err" and "t < now + 45000"
  shows "evaluateMarket pp' (snd (evaluateMarket pp c a now later)) a t later' =
    (fst (evaluateMarket pp c a now later), snd (evaluateMarket pp c a now later)) \<and>
    meState (fst (evaluateMarket pp c a now later)) = MUnknown"
proof -
  have ev: "evaluateMarket pp c a now later = marketFailure c a now err"
    using assms(1,2) by (auto simp: evaluateMarket_def Let_def)
  show ?thesis
    unfolding ev using assms(3)
    by (simp add: evaluateMarket_def marketFailure_def Let_def MARKET_SESSION_FAILURE_RETRY_MS_def)
qed

lemma market_failure_backs_off_witness:
  "meState (fst (evaluateMarket \<lparr>ppMarketSession = (\<lambda>_ _. Inr sampleSession), ppLocalActivity = (\<lambda>_ t. Inr (defaultLocalActivity t))\<rparr>
     (snd (evaluateMarket \<lparr>ppMarketSession = (\<lambda>_ _. Inl (PlainError ''Error'' ''down'')), ppLocalActivity = (\<lambda>_ t. Inr (defaultLocalActivity t))\<rparr>
        reset 7 1000 1000)) 7 40000 40000)) = MUnknown"
  using market_failure_backs_off[where c = reset and a = 7 and now = 1000 and t = 40000
      and pp = "\<lparr>ppMarketSession = (\<lambda>_ _. Inl (PlainError ''Error'' ''down'')), ppLocalActivity = (\<lambda>_ t. Inr (defaultLocalActivity t))\<rparr>"]
  by (simp add: reset_def)

end
