(* ===== verification/DateText.thy ===== *)
theory DateText
  imports CivilTime JsonValue
begin

text \<open>
  Dates as ISO text, as the JavaScript library prints and parses them: \<open>toISOString\<close> cut to
  its date, \<open>Date.parse\<close> of a date with a time in UTC, and the comparison of strings by code
  units. Printing and parsing are inverse on the calendar dates of the years 0 to 9999.
\<close>

subsection \<open>Digits\<close>

lemma length_padDigits [simp]: "length (padDigits k n) = k"
  by (induction k arbitrary: n) auto

lemma tenDigits: "0 \<le> d \<Longrightarrow> d < 10 \<Longrightarrow> d \<in> {0, 1, 2, 3, 4, 5, 6, 7, 8, 9}" for d :: int
  by simp presburger

lemma digit_char:
  assumes "0 \<le> d" "d < 10"
  shows "digitValue 10 (char_of (48 + d)) = Some d"
proof -
  have "\<forall>e\<in>{0, 1, 2, 3, 4, 5, 6, 7, 8, 9}. digitValue 10 (char_of (48 + e)) = Some (e :: int)"
    by code_simp
  then show ?thesis using tenDigits[OF assms] by blast
qed

lemma digitValue_Some:
  assumes "digitValue 10 c = Some d"
  shows "0 \<le> d \<and> d < 10 \<and> c = char_of (48 + d) \<and> (of_char c :: int) = 48 + d"
proof -
  have "\<forall>c\<in>set (enum_class.enum :: char list). case digitValue 10 c of None \<Rightarrow> True
      | Some d \<Rightarrow> 0 \<le> d \<and> d < 10 \<and> c = char_of (48 + d)"
    by code_simp
  then have d: "0 \<le> d" "d < 10" "c = char_of (48 + d)" using assms by (auto simp: enum_UNIV split: option.splits)
  then show ?thesis by (simp add: of_char_of)
qed

lemma digitsValue_Nil [simp]: "digitsValue b [] = 0"
  by (simp add: digitsValue_def)

lemma digitsValue_snoc:
  "digitsValue b (s @ [c]) = digitsValue b s * b + (case digitValue b c of None \<Rightarrow> 0 | Some d \<Rightarrow> d)"
  by (simp add: digitsValue_def)

lemma padDigits_digits: "0 \<le> n \<Longrightarrow> list_all isDigit (padDigits k n)"
  by (induction k arbitrary: n) (auto simp: isDigit_def digit_char)

lemma digitsValue_padDigits: "0 \<le> n \<Longrightarrow> n < 10 ^ k \<Longrightarrow> digitsValue 10 (padDigits k n) = n"
proof (induction k arbitrary: n)
  case (Suc k)
  have "0 \<le> n div 10" "n div 10 < 10 ^ k" using Suc.prems by simp_all
  then show ?case using Suc.IH Suc.prems by (simp add: digitsValue_snoc digit_char)
qed simp

lemma padDigits_digitsValue: "list_all isDigit s \<Longrightarrow> padDigits (length s) (digitsValue 10 s) = s"
proof (induction s rule: rev_induct)
  case (snoc c s)
  then obtain d where d: "digitValue 10 c = Some d" by (auto simp: isDigit_def)
  have "0 \<le> d" "d < 10" "char_of (48 + d) = c" using digitValue_Some[OF d] by auto
  then show ?case using snoc d by (simp add: digitsValue_snoc)
qed simp

lemma digitsValue_bounds: "0 \<le> digitsValue 10 s \<and> digitsValue 10 s < 10 ^ length s"
proof (induction s rule: rev_induct)
  case (snoc c s)
  have "0 \<le> (case digitValue 10 c of None \<Rightarrow> 0 | Some d \<Rightarrow> d) \<and> (case digitValue 10 c of None \<Rightarrow> 0 | Some d \<Rightarrow> d) < 10"
    by (auto dest: digitValue_Some split: option.splits)
  then show ?case using snoc by (simp add: digitsValue_snoc)
qed simp

subsection \<open>Calendar dates\<close>

definition monthLength :: "bool \<Rightarrow> int \<Rightarrow> int" where
  "monthLength leap m = (if m = 12 then (if leap then 366 else 365) else monthStart leap (m + 1)) - monthStart leap m"

text \<open>A date that exists, in a year of four digits.\<close>

definition civilOk :: "civilDate \<Rightarrow> bool" where
  "civilOk c = (0 \<le> cYear c \<and> cYear c \<le> 9999 \<and> 1 \<le> cMonth c \<and> cMonth c \<le> 12 \<and>
     1 \<le> cDay c \<and> cDay c \<le> monthLength (isLeap (cYear c)) (cMonth c))"

definition civilDay :: "civilDate \<Rightarrow> int" where
  "civilDay c = daysFromCivil (cYear c) (cMonth c) (cDay c)"

lemma daysBeforeYear_le: "y \<le> z \<Longrightarrow> daysBeforeYear y \<le> daysBeforeYear z"
proof (induction z rule: int_ge_induct)
  case (step z)
  then show ?case using daysBeforeYear_Suc[of z] by (simp split: if_splits)
qed simp

lemma yearOfDay_unique:
  assumes "daysBeforeYear y \<le> n + 719162" and "n + 719162 < daysBeforeYear (y + 1)"
  shows "yearOfDay n = y"
proof -
  have "\<not> yearOfDay n + 1 \<le> y" "\<not> y + 1 \<le> yearOfDay n"
    using assms yearOfDay_bounds[of n] daysBeforeYear_le[of "yearOfDay n + 1" y] daysBeforeYear_le[of "y + 1" "yearOfDay n"]
    by linarith+
  then show ?thesis by linarith
qed

lemma months: "1 \<le> m \<Longrightarrow> m \<le> 12 \<Longrightarrow> m \<in> {1, 2, 3, 4, 5, 6, 7, 8, 9, 10, 11, 12}" for m :: int
  by simp presburger

lemma monthOfYearDay_unique:
  assumes "1 \<le> m" "m \<le> 12" "monthStart l m \<le> doy" "doy < monthStart l m + monthLength l m"
  shows "monthOfYearDay l doy = m"
  using months[OF assms(1,2)] assms(3,4)
  by (cases l) (auto simp: monthStart_def monthLength_def monthOfYearDay_def)

lemma monthStart_bounds:
  "1 \<le> m \<Longrightarrow> m \<le> 12 \<Longrightarrow> 0 \<le> monthStart l m \<and> monthStart l m + monthLength l m \<le> (if l then 366 else 365)"
  using months[of m] by (cases l) (auto simp: monthStart_def monthLength_def)

lemma civilFromDays_civilDay:
  assumes "civilOk c"
  shows "civilFromDays (civilDay c) = c"
proof -
  let ?l = "isLeap (cYear c)"
  have m: "1 \<le> cMonth c" "cMonth c \<le> 12" and d: "1 \<le> cDay c" "cDay c \<le> monthLength ?l (cMonth c)"
    using assms by (simp_all add: civilOk_def)
  have n: "civilDay c + 719162 = daysBeforeYear (cYear c) + monthStart ?l (cMonth c) + (cDay c - 1)"
    by (simp add: civilDay_def daysFromCivil_def)
  have y: "yearOfDay (civilDay c) = cYear c"
    using n d monthStart_bounds[OF m, of ?l] daysBeforeYear_Suc[of "cYear c"]
    by (intro yearOfDay_unique) auto
  have doy: "civilDay c + 719162 - daysBeforeYear (cYear c) = monthStart ?l (cMonth c) + (cDay c - 1)"
    using n by linarith
  have "monthOfYearDay ?l (monthStart ?l (cMonth c) + (cDay c - 1)) = cMonth c"
    using d m by (intro monthOfYearDay_unique) auto
  then show ?thesis by (simp only: civilFromDays_def Let_def y doy) simp
qed

text \<open>The days of the years 0 to 9999 and their dates.\<close>

lemma civilOk_civilFromDays:
  assumes "daysBeforeYear 0 \<le> n + 719162" and "n + 719162 < daysBeforeYear 10000"
  shows "civilOk (civilFromDays n)" "civilDay (civilFromDays n) = n"
proof -
  show "civilDay (civilFromDays n) = n" by (simp add: civilDay_def daysFromCivil_civilFromDays)
  let ?y = "yearOfDay n"
  have y: "0 \<le> ?y" "?y \<le> 9999"
    using assms yearOfDay_bounds[of n] daysBeforeYear_le[of "?y + 1" 0] daysBeforeYear_le[of 10000 ?y] by linarith+
  define doy where "doy = n + 719162 - daysBeforeYear ?y"
  have doy: "0 \<le> doy" "doy < (if isLeap ?y then 366 else 365)"
    using yearOfDay_bounds[of n] daysBeforeYear_Suc[of ?y] by (auto simp: doy_def)
  have "1 \<le> monthOfYearDay l doy \<and> monthOfYearDay l doy \<le> 12 \<and> monthStart l (monthOfYearDay l doy) \<le> doy \<and>
      doy < monthStart l (monthOfYearDay l doy) + monthLength l (monthOfYearDay l doy)"
    if "doy < (if l then 366 else 365)" for l
    using doy(1) that by (cases l) (auto simp: monthOfYearDay_def monthStart_def monthLength_def)
  note month = this[OF doy(2)]
  have "civilFromDays n = \<lparr>cYear = ?y, cMonth = monthOfYearDay (isLeap ?y) doy,
      cDay = doy - monthStart (isLeap ?y) (monthOfYearDay (isLeap ?y) doy) + 1\<rparr>"
    by (simp add: civilFromDays_def Let_def doy_def)
  then show "civilOk (civilFromDays n)"
    using month y by (simp add: civilOk_def)
qed

lemma civilDay_range:
  assumes "civilOk c"
  shows "daysBeforeYear 0 \<le> civilDay c + 719162" "civilDay c + 719162 < daysBeforeYear 10000"
proof -
  have "yearOfDay (civilDay c) = cYear c"
    using civilFromDays_civilDay[OF assms] by (metis civilDate.select_convs(1) civilFromDays_def)
  then have "daysBeforeYear (cYear c) \<le> civilDay c + 719162" "civilDay c + 719162 < daysBeforeYear (cYear c + 1)"
    using yearOfDay_bounds[of "civilDay c"] by simp_all
  moreover have "daysBeforeYear 0 \<le> daysBeforeYear (cYear c)" "daysBeforeYear (cYear c + 1) \<le> daysBeforeYear 10000"
    using assms by (auto simp: civilOk_def intro: daysBeforeYear_le)
  ultimately show "daysBeforeYear 0 \<le> civilDay c + 719162" "civilDay c + 719162 < daysBeforeYear 10000"
    by linarith+
qed

subsection \<open>Printing and parsing\<close>

text \<open>The date of \<open>toISOString\<close>; years beyond four digits have a sign and six digits.\<close>

definition isoDate :: "civilDate \<Rightarrow> string" where
  "isoDate c =
     (if 0 \<le> cYear c \<and> cYear c \<le> 9999 then padDigits 4 (cYear c)
      else (if cYear c < 0 then ''-'' else ''+'') @ padDigits 6 \<bar>cYear c\<bar>) @
     ''-'' @ padDigits 2 (cMonth c) @ ''-'' @ padDigits 2 (cDay c)"

text \<open>The regular expression \<open>^\d{4}-\d{2}-\d{2}$\<close> and its three numbers.\<close>

definition dateParts :: "string \<Rightarrow> (int \<times> int \<times> int) option" where
  "dateParts s =
     (if length s = 10 \<and> s ! 4 = CHR ''-'' \<and> s ! 7 = CHR ''-'' \<and>
         list_all isDigit (take 4 s @ take 2 (drop 5 s) @ drop 8 s)
      then Some (digitsValue 10 (take 4 s), digitsValue 10 (take 2 (drop 5 s)), digitsValue 10 (drop 8 s))
      else None)"

text \<open>
  \<open>Date.parse(`${date}T00:00:00Z`)\<close>: a month from 1 to 12 and a day from 1 to 31; a day past
  the end of its month runs into the next one, as V8 has it. Text in other formats is an
  invalid date.
\<close>

definition parseDay :: "string \<Rightarrow> int option" where
  "parseDay s =
     (case dateParts s of None \<Rightarrow> None
      | Some (y, m, d) \<Rightarrow> if 1 \<le> m \<and> m \<le> 12 \<and> 1 \<le> d \<and> d \<le> 31 then Some (daysFromCivil y m d) else None)"

lemma isoDate_split:
  assumes "civilOk c"
  shows "isoDate c = padDigits 4 (cYear c) @ CHR ''-'' # padDigits 2 (cMonth c) @ CHR ''-'' # padDigits 2 (cDay c)"
  using assms by (simp add: isoDate_def civilOk_def)

lemma monthLength_le: "1 \<le> m \<Longrightarrow> m \<le> 12 \<Longrightarrow> monthLength l m \<le> 31"
  using months[of m] by (cases l) (auto simp: monthStart_def monthLength_def)

lemma dateParts_isoDate:
  assumes "civilOk c"
  shows "dateParts (isoDate c) = Some (cYear c, cMonth c, cDay c)"
proof -
  have v: "0 \<le> cYear c" "cYear c < 10 ^ 4" "0 \<le> cMonth c" "cMonth c < 10 ^ 2" "0 \<le> cDay c" "cDay c < 10 ^ 2"
    using assms monthLength_le[of "cMonth c" "isLeap (cYear c)"] by (auto simp: civilOk_def)
  show ?thesis
    unfolding isoDate_split[OF assms] dateParts_def
    using v digitsValue_padDigits[of "cYear c" 4] digitsValue_padDigits[of "cMonth c" 2] digitsValue_padDigits[of "cDay c" 2]
    by (simp add: nth_append padDigits_digits del: padDigits.simps)
qed

lemma isoDate_dateParts:
  assumes "dateParts s = Some (y, m, d)" and "civilOk \<lparr>cYear = y, cMonth = m, cDay = d\<rparr>"
  shows "isoDate \<lparr>cYear = y, cMonth = m, cDay = d\<rparr> = s"
proof -
  have s: "length s = 10" "s ! 4 = CHR ''-''" "s ! 7 = CHR ''-''"
    and dig: "list_all isDigit (take 4 s)" "list_all isDigit (take 2 (drop 5 s))" "list_all isDigit (drop 8 s)"
    and v: "y = digitsValue 10 (take 4 s)" "m = digitsValue 10 (take 2 (drop 5 s))" "d = digitsValue 10 (drop 8 s)"
    using assms(1) by (auto simp: dateParts_def split: if_splits)
  have "padDigits 4 y = take 4 s" "padDigits 2 m = take 2 (drop 5 s)" "padDigits 2 d = drop 8 s"
    using padDigits_digitsValue[OF dig(1)] padDigits_digitsValue[OF dig(2)] padDigits_digitsValue[OF dig(3)] s(1)
    by (simp_all add: v)
  moreover have "s = take 4 s @ s ! 4 # take 2 (drop 5 s) @ s ! 7 # drop 8 s"
    using s(1) by (intro nth_equalityI) (auto simp: nth_append nth_Cons' less_Suc_eq numeral_eq_Suc)
  ultimately show ?thesis unfolding isoDate_split[OF assms(2)] using s by simp
qed

subsection \<open>The order of date strings\<close>

text \<open>\<open><\<close> on strings: lexicographic by code units.\<close>

fun strLess :: "string \<Rightarrow> string \<Rightarrow> bool" where
  "strLess s [] = False"
| "strLess [] (d # t) = True"
| "strLess (c # s) (d # t) = ((of_char c :: int) < of_char d \<or> c = d \<and> strLess s t)"

lemma strLess_append:
  "length s = length t \<Longrightarrow> strLess (s @ u) (t @ v) \<longleftrightarrow> strLess s t \<or> s = t \<and> strLess u v"
proof (induction s t rule: list_induct2)
  case Nil
  then show ?case by (cases v) auto
qed auto

lemma digitsValue_Cons:
  "digitsValue b (c # s) = (case digitValue b c of None \<Rightarrow> 0 | Some d \<Rightarrow> d) * b ^ length s + digitsValue b s"
proof (induction s rule: rev_induct)
  case (snoc x s)
  then show ?case
    using digitsValue_snoc[of b "c # s" x] digitsValue_snoc[of b s x] by (simp add: algebra_simps)
qed (simp add: digitsValue_def)

lemma strLess_digits:
  assumes "length s = length t" and "list_all isDigit s" and "list_all isDigit t"
  shows "strLess s t \<longleftrightarrow> digitsValue 10 s < digitsValue 10 t"
  using assms
proof (induction s t rule: list_induct2)
  case (Cons c s d t)
  then obtain i j where ij: "digitValue 10 c = Some i" "digitValue 10 d = Some j" by (auto simp: isDigit_def)
  have ci: "(of_char c :: int) = 48 + i" and dj: "(of_char d :: int) = 48 + j"
    using digitValue_Some[OF ij(1)] digitValue_Some[OF ij(2)] by auto
  have b: "0 \<le> digitsValue 10 s" "digitsValue 10 s < 10 ^ length t" "0 \<le> digitsValue 10 t" "digitsValue 10 t < 10 ^ length t"
    using digitsValue_bounds[of s] digitsValue_bounds[of t] Cons.hyps by auto
  have IH: "strLess s t \<longleftrightarrow> digitsValue 10 s < digitsValue 10 t" using Cons by simp
  have val: "digitsValue 10 (c # s) = i * 10 ^ length t + digitsValue 10 s"
    "digitsValue 10 (d # t) = j * 10 ^ length t + digitsValue 10 t"
    using Cons.hyps by (simp_all add: digitsValue_Cons ij)
  consider "i < j" | "i = j" | "j < i" by linarith
  then show ?case
  proof cases
    case 1
    then have "(i + 1) * 10 ^ length t \<le> j * 10 ^ length t" by (intro mult_right_mono) auto
    then show ?thesis using 1 ci dj b by (simp add: val algebra_simps)
  next
    case 2
    then have "c = d" using digitValue_Some[OF ij(1)] digitValue_Some[OF ij(2)] by simp
    then have "strLess (c # s) (d # t) \<longleftrightarrow> strLess s t" by simp
    then show ?thesis unfolding val IH using 2 by simp
  next
    case 3
    then have "(j + 1) * 10 ^ length t \<le> i * 10 ^ length t" by (intro mult_right_mono) auto
    moreover have "c \<noteq> d" using 3 ij by auto
    ultimately show ?thesis using 3 ci dj b by (simp add: val algebra_simps)
  qed
qed simp

lemma monthStart_mono: "k \<le> m \<Longrightarrow> 1 \<le> k \<Longrightarrow> m \<le> 12 \<Longrightarrow> monthStart l k \<le> monthStart l m"
proof (induction m rule: int_ge_induct)
  case (step i)
  have "monthStart l i \<le> monthStart l (i + 1)"
    using step.prems step.hyps months[of i] by (cases l) (auto simp: monthStart_def)
  then show ?case using step by simp
qed simp

lemma monthStart_step: "1 \<le> m \<Longrightarrow> m < m' \<Longrightarrow> m' \<le> 12 \<Longrightarrow> monthStart l m + monthLength l m \<le> monthStart l m'"
  using monthStart_mono[of "m + 1" m' l] by (simp add: monthLength_def)

definition civilLess :: "civilDate \<Rightarrow> civilDate \<Rightarrow> bool" where
  "civilLess c d \<longleftrightarrow> cYear c < cYear d \<or> cYear c = cYear d \<and>
     (cMonth c < cMonth d \<or> cMonth c = cMonth d \<and> cDay c < cDay d)"

lemma civilLess_day:
  assumes "civilOk c" "civilOk d" "civilLess c d"
  shows "civilDay c < civilDay d"
proof -
  let ?l = "isLeap (cYear c)"
  have c: "1 \<le> cMonth c" "cMonth c \<le> 12" "1 \<le> cDay c" "cDay c \<le> monthLength ?l (cMonth c)"
    and d: "1 \<le> cMonth d" "cMonth d \<le> 12" "1 \<le> cDay d"
    using assms by (simp_all add: civilOk_def)
  consider "cYear c + 1 \<le> cYear d" | "cYear c = cYear d" "cMonth c < cMonth d"
    | "cYear c = cYear d" "cMonth c = cMonth d" "cDay c < cDay d"
    using assms(3) by (auto simp: civilLess_def)
  then show ?thesis
  proof cases
    case 1
    then show ?thesis
      using daysBeforeYear_le[OF 1] daysBeforeYear_Suc[of "cYear c"] monthStart_bounds[OF c(1,2), of ?l]
        monthStart_bounds[OF d(1,2), of "isLeap (cYear d)"] c d
      by (auto simp: civilDay_def daysFromCivil_def split: if_splits)
  next
    case 2
    then show ?thesis using monthStart_step[OF c(1) 2(2) d(2), of ?l] c d
      by (simp add: civilDay_def daysFromCivil_def)
  next
    case 3
    then show ?thesis by (simp add: civilDay_def daysFromCivil_def)
  qed
qed

lemma civilLess_iff:
  assumes "civilOk c" "civilOk d"
  shows "civilLess c d \<longleftrightarrow> civilDay c < civilDay d"
proof
  assume less: "civilDay c < civilDay d"
  show "civilLess c d"
  proof (rule ccontr)
    assume "\<not> civilLess c d"
    then have "civilLess d c \<or> c = d"
      unfolding civilLess_def by (cases c; cases d) (auto simp: not_less le_less)
    then show False using civilLess_day[OF assms(2,1)] less by auto
  qed
qed (rule civilLess_day[OF assms])

lemma strLess_isoDate:
  assumes "civilOk c" "civilOk d"
  shows "strLess (isoDate c) (isoDate d) \<longleftrightarrow> civilDay c < civilDay d"
proof -
  have v: "0 \<le> cYear x" "cYear x < 10 ^ 4" "0 \<le> cMonth x" "cMonth x < 10 ^ 2" "0 \<le> cDay x" "cDay x < 10 ^ 2"
    if "civilOk x" for x
    using that monthLength_le[of "cMonth x" "isLeap (cYear x)"] by (auto simp: civilOk_def)
  have less: "strLess (padDigits k m) (padDigits k n) \<longleftrightarrow> m < n" and eq: "padDigits k m = padDigits k n \<longleftrightarrow> m = n"
    if r: "0 \<le> m" "m < 10 ^ k" "0 \<le> n" "n < 10 ^ k" for k m n
  proof -
    note val = digitsValue_padDigits[OF r(1,2)] digitsValue_padDigits[OF r(3,4)]
    show "strLess (padDigits k m) (padDigits k n) \<longleftrightarrow> m < n"
      by (subst strLess_digits) (simp_all only: length_padDigits padDigits_digits[OF r(1)] padDigits_digits[OF r(3)] val)
    show "padDigits k m = padDigits k n \<longleftrightarrow> m = n" using val by metis
  qed
  have dash: "strLess (CHR ''-'' # s) (CHR ''-'' # t) \<longleftrightarrow> strLess s t" for s t by simp
  note vc = v[OF assms(1)] and vd = v[OF assms(2)]
  have "strLess (isoDate c) (isoDate d) \<longleftrightarrow> civilLess c d"
    unfolding isoDate_split[OF assms(1)] isoDate_split[OF assms(2)] civilLess_def
    by (simp only: strLess_append length_padDigits dash list.inject append_eq_append_conv
        less[OF vc(1,2) vd(1,2)] less[OF vc(3,4) vd(3,4)] less[OF vc(5,6) vd(5,6)]
        eq[OF vc(1,2) vd(1,2)] eq[OF vc(3,4) vd(3,4)] eq[OF vc(5,6) vd(5,6)])
  then show ?thesis using civilLess_iff[OF assms] by simp
qed

end
