(* ===== verification/MarketCalendar.thy ===== *)
theory MarketCalendar
  imports DateText
begin

text \<open>
  \<open>src/services/market-calendar.ts\<close>: dates of the New York trading day as strings, their
  arithmetic, and the regular sessions of the calendar with its exceptions. The time zone is
  a parameter, as for \<open>Intl.DateTimeFormat\<close>; dates are those of the format \<open>YYYY-MM-DD\<close>.
\<close>

definition SESSION_OPEN_MINUTES :: int where "SESSION_OPEN_MINUTES = 570"
definition SESSION_CLOSE_MINUTES :: int where "SESSION_CLOSE_MINUTES = 960"

datatype barTimeframe = DAY_1 | MINUTE_15

fun COMPLETION_GRACE_MINUTES :: "barTimeframe \<Rightarrow> int" where
  "COMPLETION_GRACE_MINUTES DAY_1 = 30"
| "COMPLETION_GRACE_MINUTES MINUTE_15 = 5"

datatype exceptionType = CLOSED | EARLY_CLOSE

record calendarException =
  cxSessionDate :: string
  cxType :: exceptionType
  cxCloseTimeMinutesEt :: "int option"

subsection \<open>Dates\<close>

definition invalidTime :: appError where
  "invalidTime = PlainError ''RangeError'' ''Invalid time value''"

definition etDate :: "(int \<Rightarrow> int) \<Rightarrow> int \<Rightarrow> string" where
  "etDate zone t =
     (let d = zDate (formatToParts zone t) in
      showInt (cYear d) @ ''-'' @ padStart2 (showInt (cMonth d)) @ ''-'' @ padStart2 (showInt (cDay d)))"

definition etMinutesOfDay :: "(int \<Rightarrow> int) \<Rightarrow> int \<Rightarrow> int" where
  "etMinutesOfDay zone t = (let p = formatToParts zone t in zHour p * 60 + zMinute p)"

definition validDate :: "string \<Rightarrow> bool" where
  "validDate s = (case parseDay s of None \<Rightarrow> False | Some n \<Rightarrow> take 10 (isoDate (civilFromDays n)) = s)"

definition addDays :: "string \<Rightarrow> int \<Rightarrow> string result" where
  "addDays date days =
     (case parseDay date of None \<Rightarrow> Inl invalidTime
      | Some n \<Rightarrow> if \<bar>(n + days) * msPerDay\<bar> \<le> 8640000000000000
                  then Inr (take 10 (isoDate (civilFromDays (n + days)))) else Inl invalidTime)"

definition datesBetween :: "string \<Rightarrow> string \<Rightarrow> string list result" where
  "datesBetween from' to =
     (if \<not> validDate from' \<or> \<not> validDate to \<or> strLess to from' then
        Inl (PlainError ''Error'' ''Invalid calendar range.'')
      else
        (let days = the (parseDay to) - the (parseDay from') in
         if 6000 < days then Inl (PlainError ''Error'' ''Calendar range exceeds 6000 days.'')
         else mapR (addDays from') [0..days]))"

definition isWeekend :: "string \<Rightarrow> bool" where
  "isWeekend date = (case parseDay date of None \<Rightarrow> False | Some n \<Rightarrow> dayOfWeek n \<in> {0, 6})"

definition etInstant :: "(int \<Rightarrow> int) \<Rightarrow> string \<Rightarrow> int \<Rightarrow> int result" where
  "etInstant zone date minutes =
     (case parseDay date of None \<Rightarrow> Inl invalidTime
      | Some n \<Rightarrow>
        (let p = formatToParts zone (n * msPerDay + 12 * msPerHour);
             offsetMinutes = zHour p * 60 + zMinute p - 720
         in Inr (n * msPerDay + (minutes - offsetMinutes) * 60000)))"

subsection \<open>Sessions\<close>

record sessionWindow =
  swDate :: string
  swOpenAt :: int
  swCloseAt :: int
  swCloseMinutes :: int

definition marketSession_calendar ::
  "(int \<Rightarrow> int) \<Rightarrow> string \<Rightarrow> calendarException list \<Rightarrow> sessionWindow option result" where
  "marketSession_calendar zone date exceptions =
     (if \<not> validDate date then Inl (PlainError ''Error'' ''Invalid session date.'')
      else
        (let exception = List.find (\<lambda>row. cxSessionDate row = date) exceptions in
         if isWeekend date \<or> map_option cxType exception = Some CLOSED then Inr None
         else
           (let closeMinutes = (case exception of
                  Some row \<Rightarrow> if cxType row = EARLY_CLOSE then cxCloseTimeMinutesEt row else Some SESSION_CLOSE_MINUTES
                | None \<Rightarrow> Some SESSION_CLOSE_MINUTES)
            in case closeMinutes of
                 None \<Rightarrow> Inl (PlainError ''Error'' ''Invalid session close.'')
               | Some m \<Rightarrow>
                 if m \<le> SESSION_OPEN_MINUTES \<or> SESSION_CLOSE_MINUTES < m then
                   Inl (PlainError ''Error'' ''Invalid session close.'')
                 else
                   bindR (etInstant zone date SESSION_OPEN_MINUTES) (\<lambda>openAt.
                   bindR (etInstant zone date m) (\<lambda>closeAt.
                   Inr (Some \<lparr>swDate = date, swOpenAt = openAt, swCloseAt = closeAt, swCloseMinutes = m\<rparr>))))))"

definition isFullMarketSession ::
  "(int \<Rightarrow> int) \<Rightarrow> string \<Rightarrow> calendarException list \<Rightarrow> bool result" where
  "isFullMarketSession zone date exceptions =
     bindR (marketSession_calendar zone date exceptions) (\<lambda>session.
       Inr (case session of None \<Rightarrow> False
            | Some s \<Rightarrow> swCloseMinutes s = SESSION_CLOSE_MINUTES \<and>
                \<not> list_ex (\<lambda>row. cxSessionDate row = date \<and> cxType row = EARLY_CLOSE) exceptions))"

datatype barStatus = BarClosed | BarEligible | BarNotYetEligible

definition barEligibility ::
  "(int \<Rightarrow> int) \<Rightarrow> barTimeframe \<Rightarrow> int \<Rightarrow> int \<Rightarrow> calendarException list \<Rightarrow> (barStatus \<times> int option) result" where
  "barEligibility zone timeframe start now exceptions =
     bindR (marketSession_calendar zone (etDate zone start) exceptions) (\<lambda>session.
       case session of
         None \<Rightarrow> Inr (BarClosed, None)
       | Some s \<Rightarrow>
         (let end' = (if timeframe = DAY_1 then swCloseAt s else start + 15 * 60000) in
          if timeframe = MINUTE_15 \<and> (start < swOpenAt s \<or> swCloseAt s < end') then Inr (BarClosed, None)
          else
            (let eligibleAt = end' + COMPLETION_GRACE_MINUTES timeframe * 60000
             in Inr (if eligibleAt \<le> now then BarEligible else BarNotYetEligible, Some eligibleAt))))"

subsection \<open>Valid dates\<close>

lemma validDate_isoDate:
  assumes "civilOk c"
  shows "parseDay (isoDate c) = Some (civilDay c)" "validDate (isoDate c)"
proof -
  show p: "parseDay (isoDate c) = Some (civilDay c)"
    using assms monthLength_le[of "cMonth c" "isLeap (cYear c)"]
    by (auto simp: parseDay_def dateParts_isoDate civilDay_def civilOk_def)
  show "validDate (isoDate c)"
    using assms p by (simp add: validDate_def civilFromDays_civilDay) (simp add: isoDate_split)
qed

lemma validDate_iff: "validDate s \<longleftrightarrow> (\<exists>c. civilOk c \<and> s = isoDate c)"
proof
  assume "validDate s"
  then obtain n y m d where n: "parseDay s = Some n" "take 10 (isoDate (civilFromDays n)) = s"
    and p: "dateParts s = Some (y, m, d)" and r: "1 \<le> m" "m \<le> 12" "1 \<le> d" "d \<le> 31"
    and nd: "n = daysFromCivil y m d"
    by (auto simp: validDate_def parseDay_def split: option.splits if_splits)
  have y: "0 \<le> y" "y \<le> 9999"
    using p digitsValue_bounds[of "take 4 s"] by (auto simp: dateParts_def split: if_splits)
  have "monthStart l m + (d - 1) < (if l then 366 else 365)" for l
    using months[OF r(1,2)] r(4) by (cases l) (auto simp: monthStart_def)
  then have "n + 719162 < daysBeforeYear (y + 1)" "daysBeforeYear y \<le> n + 719162"
    using daysBeforeYear_Suc[of y] monthStart_bounds[OF r(1,2), of "isLeap y"] r(3)
    by (auto simp: nd daysFromCivil_def)
  then have "civilOk (civilFromDays n)"
    using y daysBeforeYear_le[of 0 y] daysBeforeYear_le[of "y + 1" 10000] by (intro civilOk_civilFromDays) auto
  then show "\<exists>c. civilOk c \<and> s = isoDate c"
    using n(2) by (auto simp: isoDate_split)
qed (auto intro: validDate_isoDate)

lemma strLess_valid:
  assumes "validDate s" "validDate t"
  shows "strLess s t \<longleftrightarrow> the (parseDay s) < the (parseDay t)"
proof -
  obtain c d where c: "civilOk c" "s = isoDate c" and d: "civilOk d" "t = isoDate d"
    using assms by (auto simp: validDate_iff)
  then show ?thesis
    using strLess_isoDate[OF c(1) d(1)] validDate_isoDate(1)[OF c(1)] validDate_isoDate(1)[OF d(1)] by simp
qed

text \<open>The date string of a day number, for the years of four digits.\<close>

definition dayString :: "int \<Rightarrow> string" where
  "dayString n = isoDate (civilFromDays n)"

definition fourDigitDay :: "int \<Rightarrow> bool" where
  "fourDigitDay n \<longleftrightarrow> daysBeforeYear 0 \<le> n + 719162 \<and> n + 719162 < daysBeforeYear 10000"

lemma dayString_valid:
  assumes "fourDigitDay n"
  shows "validDate (dayString n)" "parseDay (dayString n) = Some n" "take 10 (dayString n) = dayString n"
proof -
  have ok: "civilOk (civilFromDays n)" "civilDay (civilFromDays n) = n"
    using assms civilOk_civilFromDays by (auto simp: fourDigitDay_def)
  show "validDate (dayString n)" "parseDay (dayString n) = Some n"
    using validDate_isoDate[OF ok(1)] ok(2) by (simp_all add: dayString_def)
  show "take 10 (dayString n) = dayString n"
    using ok(1) by (simp add: dayString_def isoDate_split)
qed

lemma valid_dayString:
  assumes "validDate s"
  shows "fourDigitDay (the (parseDay s))" "dayString (the (parseDay s)) = s" "parseDay s = Some (the (parseDay s))"
proof -
  obtain c where c: "civilOk c" "s = isoDate c" using assms by (auto simp: validDate_iff)
  then have p: "parseDay s = Some (civilDay c)" using validDate_isoDate(1) by simp
  show "fourDigitDay (the (parseDay s))" "dayString (the (parseDay s)) = s" "parseDay s = Some (the (parseDay s))"
    using c p civilDay_range[OF c(1)] civilFromDays_civilDay[OF c(1)] by (simp_all add: fourDigitDay_def dayString_def)
qed

lemma fourDigitDay_between: "fourDigitDay a \<Longrightarrow> fourDigitDay b \<Longrightarrow> a \<le> n \<Longrightarrow> n \<le> b \<Longrightarrow> fourDigitDay n"
  by (simp add: fourDigitDay_def)

lemma fourDigitDay_bound: "fourDigitDay n \<Longrightarrow> \<bar>n * msPerDay\<bar> \<le> 8640000000000000"
  by (auto simp: fourDigitDay_def daysBeforeYear_def msPerDay_def)

lemma addDays_day:
  assumes "parseDay s = Some n" "fourDigitDay (n + k)"
  shows "addDays s k = Inr (dayString (n + k))"
  using assms fourDigitDay_bound dayString_valid(3)[OF assms(2)] by (simp add: addDays_def dayString_def)

lemma upto_plus: "map (\<lambda>k. m + k) [i..j] = [m + i..m + j]" for m :: int
proof (induction i j rule: upto.induct)
  case (1 i j)
  show ?case
  proof (cases "i \<le> j")
    case True
    then have "m + i \<le> m + j" by simp
    from upto_rec1[OF this] have "[m + i..m + j] = (m + i) # [m + (i + 1)..m + j]"
      by (simp only: add.assoc)
    then show ?thesis by (simp only: upto_rec1[OF True] list.map 1[OF True])
  qed simp
qed

lemma upto_shift: "map (\<lambda>k. m + k) [0..n - m] = [m..n]" for m n :: int
proof -
  have "m + 0 = m" "m + (n - m) = n" by simp_all
  then show ?thesis using upto_plus[of m 0 "n - m"] by (simp only:)
qed

lemma datesBetween_days:
  assumes "validDate a" "validDate b" "\<not> strLess b a" "the (parseDay b) - the (parseDay a) \<le> 6000"
  shows "datesBetween a b = Inr (map dayString [the (parseDay a)..the (parseDay b)])"
proof -
  let ?m = "the (parseDay a)" and ?n = "the (parseDay b)"
  have le: "?m \<le> ?n" using assms(3) strLess_valid[OF assms(2,1)] by simp
  have "mapR (addDays a) [0..?n - ?m] = Inr (map (\<lambda>k. dayString (?m + k)) [0..?n - ?m])"
    using fourDigitDay_between[OF valid_dayString(1)[OF assms(1)] valid_dayString(1)[OF assms(2)]]
    by (intro mapR_Inr addDays_day[OF valid_dayString(3)[OF assms(1)]]) auto
  moreover have "map (\<lambda>k. dayString (?m + k)) [0..?n - ?m] = map dayString (map (\<lambda>k. ?m + k) [0..?n - ?m])"
    by simp
  then have "map (\<lambda>k. dayString (?m + k)) [0..?n - ?m] = map dayString [?m..?n]"
    by (simp only: upto_shift)
  ultimately show ?thesis using assms by (simp add: datesBetween_def Let_def)
qed

text \<open>Date ranges are complete. \<open>datesBetween\<close> throws exactly for text that is no date, a range
  backwards or more than 6000 days apart; otherwise it lists every valid date from the first
  to the last one, each once and in the order of the strings, which is the order of time.
\<close>
lemma dates_between_complete:
  "if validDate a \<and> validDate b \<and> \<not> strLess b a \<and> the (parseDay b) - the (parseDay a) \<le> 6000
   then \<exists>ds. datesBetween a b = Inr ds \<and>
     set ds = {s. validDate s \<and> \<not> strLess s a \<and> \<not> strLess b s} \<and> sorted_wrt strLess ds
   else \<exists>e. datesBetween a b = Inl e"
proof (cases "validDate a \<and> validDate b \<and> \<not> strLess b a \<and> the (parseDay b) - the (parseDay a) \<le> 6000")
  case False
  then show ?thesis by (auto simp: datesBetween_def Let_def)
next
  case True
  then have v: "validDate a" "validDate b" by auto
  let ?m = "the (parseDay a)" and ?n = "the (parseDay b)"
  have ok: "fourDigitDay k" if "k \<in> {?m..?n}" for k
    using that valid_dayString(1)[OF v(1)] valid_dayString(1)[OF v(2)] by (auto intro: fourDigitDay_between)
  have less: "strLess (dayString j) (dayString k) \<longleftrightarrow> j < k" if "j \<in> {?m..?n}" "k \<in> {?m..?n}" for j k
    using strLess_valid[OF dayString_valid(1)[OF ok[OF that(1)]] dayString_valid(1)[OF ok[OF that(2)]]]
    by (simp add: dayString_valid(2)[OF ok[OF that(1)]] dayString_valid(2)[OF ok[OF that(2)]])
  have "dayString ` {?m..?n} = {s. validDate s \<and> \<not> strLess s a \<and> \<not> strLess b s}" (is "?L = ?R")
  proof
    show "?L \<subseteq> ?R"
      using dayString_valid ok strLess_valid v by (fastforce simp: not_less)
    show "?R \<subseteq> ?L"
    proof
      fix s assume s: "s \<in> ?R"
      then have "the (parseDay s) \<in> {?m..?n}"
        using strLess_valid[of s a] strLess_valid[of b s] v by auto
      then show "s \<in> ?L" using valid_dayString(2)[of s] s by (auto intro!: image_eqI[of s])
    qed
  qed
  moreover have "sorted_wrt strLess (map dayString [?m..?n])"
    unfolding sorted_wrt_map
    by (rule sorted_wrt_mono_rel[of _ "(<)"]) (auto simp: less strict_sorted_list_of_set sorted_wrt_upto)
  ultimately show ?thesis using True datesBetween_days[of a b] by simp
qed

text \<open>Days outside the years of four digits print as text that is no date.\<close>

lemma expanded_year_invalid:
  assumes "\<not> fourDigitDay n"
  shows "\<not> validDate (take 10 (dayString n))"
proof -
  have "\<not> (0 \<le> cYear (civilFromDays n) \<and> cYear (civilFromDays n) \<le> 9999)"
    using assms yearOfDay_bounds[of n] daysBeforeYear_le[of 0 "yearOfDay n"] daysBeforeYear_le[of "yearOfDay n + 1" 10000]
    by (auto simp: fourDigitDay_def civilFromDays_def Let_def)
  then have "\<exists>c r. dayString n = c # r \<and> c \<in> {CHR ''-'', CHR ''+''}"
    by (auto simp: dayString_def isoDate_def)
  then have "dateParts (take 10 (dayString n)) = None"
    by (auto simp: dateParts_def isDigit_def digitValue_def lowerChar_def)
  then show ?thesis by (simp add: validDate_def parseDay_def)
qed

lemma addDays_iff:
  assumes s: "validDate s" and t: "validDate t"
  shows "addDays s k = Inr t \<longleftrightarrow> the (parseDay t) - the (parseDay s) = k"
proof -
  let ?n = "the (parseDay s)"
  note ps = valid_dayString(3)[OF s] and pt = valid_dayString(2)[OF t]
  show ?thesis
  proof (cases "fourDigitDay (?n + k)")
    case True
    then have a: "addDays s k = Inr (dayString (?n + k))" using addDays_day[OF ps] by simp
    show ?thesis
      using a pt dayString_valid(2)[OF True] by (metis add_diff_cancel_left' diff_add_cancel option.sel sum.inject(2) add.commute)
  next
    case False
    then have "addDays s k \<noteq> Inr t"
      using expanded_year_invalid[OF False] t by (auto simp: addDays_def dayString_def split: option.splits if_splits)
    moreover have "the (parseDay t) - ?n \<noteq> k" using False valid_dayString(1)[OF t] by (auto simp: algebra_simps)
    ultimately show ?thesis by simp
  qed
qed

text \<open>The text of a date and its day are the same thing. The strings \<open>validDate\<close> accepts are exactly
  the printed days of the years 0000 to 9999, each of which reads back as the day it was printed
  from, so that printing what was read and reading what was printed both change nothing.
\<close>
lemma valid_dates_are_printed_days:
  "validDate s \<longleftrightarrow> (\<exists>n. fourDigitDay n \<and> s = dayString n \<and> parseDay s = Some n)"
proof
  assume "validDate s"
  from valid_dayString[OF this] show "\<exists>n. fourDigitDay n \<and> s = dayString n \<and> parseDay s = Some n"
    by (intro exI[of _ "the (parseDay s)"]) auto
qed (auto intro: dayString_valid(1))

text \<open>Adding days is undone by subtracting them. Between two dates, \<open>addDays\<close> with \<open>k\<close> leads from
  the first to the second exactly when the second lies \<open>k\<close> days after the first, over the ends of
  months, years and leap years, and then \<open>addDays\<close> with \<open>-k\<close> leads back.
\<close>
lemma add_days_round_trip:
  assumes "validDate s" "validDate t"
  shows "(addDays s k = Inr t \<longleftrightarrow> the (parseDay t) - the (parseDay s) = k) \<and>
     (addDays s k = Inr t \<longleftrightarrow> addDays t (- k) = Inr s)"
  using addDays_iff[OF assms, of k] addDays_iff[OF assms(2,1), of "- k"] by auto

lemma add_days_round_trip_witness: "addDays ''2024-03-01'' (- 2) = Inr ''2024-02-28''"
proof -
  have "validDate ''2024-02-28''" "validDate ''2024-03-01''" "addDays ''2024-02-28'' 2 = Inr ''2024-03-01''"
    by code_simp+
  then show ?thesis using add_days_round_trip[of "''2024-02-28''" "''2024-03-01''" 2] by blast
qed

subsection \<open>The wall clock in New York\<close>

lemma showPos_padDigits: "0 < k \<Longrightarrow> n < 10 ^ k \<Longrightarrow> k = 1 \<and> 0 \<le> n \<or> 10 ^ (k - 1) \<le> n \<Longrightarrow> showPos n = padDigits k n"
proof (induction k arbitrary: n)
  case (Suc k)
  show ?case
  proof (cases k)
    case 0
    then have "n mod 10 = n" "n < 10" using Suc.prems by auto
    then show ?thesis using 0 by (simp add: showPos.simps)
  next
    case (Suc j)
    then have n: "10 ^ Suc j \<le> n" "n < 10 ^ Suc (Suc j)" using Suc.prems by auto
    moreover have "10 \<le> n"
      using one_le_power[of "10 :: int" j] n(1) unfolding power_Suc by linarith
    ultimately have "10 \<le> n" "10 ^ j \<le> n div 10" "n div 10 < 10 ^ Suc j" by auto
    moreover have "j = 0 \<Longrightarrow> 0 \<le> n div 10" using n by auto
    ultimately show ?thesis using Suc.IH[of "n div 10"] Suc by (subst showPos.simps) auto
  qed
qed simp

lemma length_showPos: "0 \<le> n \<Longrightarrow> n < 10 ^ length (showPos n) \<and> (10 \<le> n \<longrightarrow> 10 ^ (length (showPos n) - 1) \<le> n)"
proof (induction n rule: showPos.induct)
  case (1 n)
  show ?case
  proof (cases "n < 10")
    case True
    then show ?thesis by (simp add: showPos.simps[of n])
  next
    case False
    let ?l = "length (showPos (n div 10))"
    have ih: "n div 10 < 10 ^ ?l" "10 \<le> n div 10 \<longrightarrow> 10 ^ (?l - 1) \<le> n div 10"
      using 1 False by auto
    have len: "length (showPos n) = Suc ?l" using False by (simp add: showPos.simps[of n])
    have "n < 10 * 10 ^ ?l" using ih(1) by simp
    moreover have "10 ^ ?l \<le> n"
    proof (cases "10 \<le> n div 10")
      case True
      then have "?l \<noteq> 0" using ih(1) by (intro notI) simp
      then have "(10 :: int) ^ ?l = 10 * 10 ^ (?l - 1)" by (simp add: power_eq_if)
      then show ?thesis using ih(2) True by simp
    next
      case small: False
      then have "?l = 1" by (simp add: showPos.simps[of "n div 10"])
      then show ?thesis using False by simp
    qed
    ultimately show ?thesis unfolding len by simp
  qed
qed

lemma padStart2_digits: "0 \<le> n \<Longrightarrow> n \<le> 99 \<Longrightarrow> padStart2 (showInt n) = padDigits 2 n"
proof (cases "n < 10")
  case True
  assume "0 \<le> n"
  then have "showInt n = [char_of (48 + n)]" using True by (simp add: showInt_def showPos.simps)
  moreover have "char_of (48 :: int) = CHR ''0''" by code_simp
  ultimately show ?thesis using True \<open>0 \<le> n\<close> by (simp add: padStart2_def numeral_2_eq_2)
next
  case False
  assume "n \<le> 99"
  then have "showInt n = padDigits 2 n"
    using False showPos_padDigits[of 2 n] by (simp add: showInt_def)
  then show ?thesis by (simp add: padStart2_def numeral_2_eq_2)
qed

end
