(* ===== verification/TradingSession.thy ===== *)
theory TradingSession
  imports MarketCalendar
begin

text \<open>
  The regular session of a day against the wall clock: what the calendar computes from the
  offset at noon UTC is what the clock in New York shows, because the offset changes only
  at night. The time zone is any zone with that property; US Eastern is an instance.
\<close>

lemma civil_fields:
  "1 \<le> cMonth (civilFromDays n)" "cMonth (civilFromDays n) \<le> 12"
  "1 \<le> cDay (civilFromDays n)" "cDay (civilFromDays n) \<le> 31"
proof -
  define l doy where "l = isLeap (yearOfDay n)" and "doy = n + 719162 - daysBeforeYear (yearOfDay n)"
  have "0 \<le> doy" "doy < (if l then 366 else 365)"
    using yearOfDay_bounds[of n] daysBeforeYear_Suc[of "yearOfDay n"] by (auto simp: l_def doy_def)
  then have "1 \<le> monthOfYearDay l doy" "monthOfYearDay l doy \<le> 12"
    "doy - monthStart l (monthOfYearDay l doy) + 1 \<le> 31"
    by (cases l; auto simp: monthOfYearDay_def monthStart_def)+
  then show "1 \<le> cMonth (civilFromDays n)" "cMonth (civilFromDays n) \<le> 12"
    "cDay (civilFromDays n) \<le> 31" "1 \<le> cDay (civilFromDays n)"
    using civilFromDays_day_pos[of n] by (simp_all add: civilFromDays_def Let_def l_def doy_def)
qed

text \<open>Where the formatted date is a date at all, it is the one of the local day.\<close>

lemma etDate_valid:
  assumes "validDate (etDate zone t)"
  shows "etDate zone t = dayString ((t + zone t) div msPerDay)" "fourDigitDay ((t + zone t) div msPerDay)"
proof -
  define n c where "n = (t + zone t) div msPerDay" and "c = civilFromDays n"
  have two: "padStart2 (showInt (cMonth c)) = padDigits 2 (cMonth c)" "padStart2 (showInt (cDay c)) = padDigits 2 (cDay c)"
    using civil_fields[of n] by (auto intro!: padStart2_digits simp: c_def)
  have e: "etDate zone t = showInt (cYear c) @ CHR ''-'' # padDigits 2 (cMonth c) @ CHR ''-'' # padDigits 2 (cDay c)"
    by (simp add: etDate_def formatToParts_def Let_def two n_def [symmetric] c_def [symmetric])
  obtain r where "dateParts (etDate zone t) = Some r"
    using assms by (auto simp: validDate_def parseDay_def split: option.splits)
  then have parts: "length (etDate zone t) = 10" "list_all isDigit (take 4 (etDate zone t))"
    by (auto simp: dateParts_def split: if_splits)
  have len: "length (showInt (cYear c)) = 4" using parts(1) unfolding e by simp
  have digits: "list_all isDigit (showInt (cYear c))" using parts(2) len unfolding e by simp
  have pos: "0 \<le> cYear c"
  proof (rule ccontr)
    assume "\<not> 0 \<le> cYear c"
    then show False using digits by (simp add: showInt_def isDigit_def digitValue_def lowerChar_def)
  qed
  have y: "1000 \<le> cYear c" "cYear c < 10000"
    using length_showPos[OF pos] len pos
    by (cases "cYear c < 10"; simp add: showInt_def showPos.simps[of "cYear c"]; fail)+
  show f: "fourDigitDay ((t + zone t) div msPerDay)"
    using y yearOfDay_bounds[of n] daysBeforeYear_le[of 0 "yearOfDay n"] daysBeforeYear_le[of "yearOfDay n + 1" 10000]
    by (auto simp: fourDigitDay_def n_def [symmetric] c_def civilFromDays_def Let_def)
  have "showInt (cYear c) = padDigits 4 (cYear c)"
    using y showPos_padDigits[of 4 "cYear c"] by (simp add: showInt_def)
  then show "etDate zone t = dayString ((t + zone t) div msPerDay)"
    using y by (simp add: e dayString_def isoDate_def n_def [symmetric] c_def [symmetric])
qed

lemma etDate_day:
  assumes "validDate (etDate zone t)"
  shows "parseDay (etDate zone t) = Some ((t + zone t) div msPerDay)"
  using etDate_valid[OF assms] dayString_valid(2) by simp

lemma etMinutesOfDay_eq: "etMinutesOfDay zone t = (t + zone t) mod msPerDay div msPerMinute"
proof -
  define ms where "ms = (t + zone t) mod msPerDay"
  have "ms = ms mod msPerHour + ms div msPerHour * 60 * msPerMinute"
    using div_mult_mod_eq[of ms msPerHour] by (simp add: ms_defs)
  then have "ms div msPerHour * 60 + ms mod msPerHour div msPerMinute = ms div msPerMinute"
    by (metis div_mult_self1 add.commute ms_defs(3) zero_neq_numeral)
  then show ?thesis by (simp add: etMinutesOfDay_def formatToParts_def Let_def ms_def)
qed

text \<open>
  What sessions need of the zone: offsets of whole minutes, and one offset from two hours
  after local midnight (at most 07:00 UTC) to the end of the local day.
\<close>

locale sessionZone = dayZone +
  assumes zone_minutes: "zone t mod msPerMinute = 0"
    and zone_session: "n * msPerDay + 7 * msPerHour \<le> t \<Longrightarrow> t < (n + 1) * msPerDay + 5 * msPerHour \<Longrightarrow>
      zone t = zone (n * msPerDay + 12 * msPerHour)"
begin

definition noonOffset :: "int \<Rightarrow> int" where
  "noonOffset n = zone (n * msPerDay + 12 * msPerHour)"

lemma etInstant_eq:
  assumes "parseDay s = Some n"
  shows "etInstant zone s m = Inr (n * msPerDay + m * msPerMinute - noonOffset n)"
proof -
  let ?t = "n * msPerDay + 12 * msPerHour"
  have r: "- 5 * msPerHour \<le> noonOffset n" "noonOffset n \<le> - 4 * msPerHour" "noonOffset n mod msPerMinute = 0"
    using zone_range[of ?t] zone_minutes[of ?t] by (simp_all add: noonOffset_def)
  have "(?t + noonOffset n) mod msPerDay = 12 * msPerHour + noonOffset n"
    using r(1,2) mod_mult_self3[of n msPerDay "12 * msPerHour + noonOffset n"] by (simp add: ms_defs add.assoc)
  then have "etMinutesOfDay zone ?t = (12 * msPerHour + noonOffset n) div msPerMinute"
    by (simp add: etMinutesOfDay_eq noonOffset_def)
  moreover have "(12 * msPerHour + noonOffset n) div msPerMinute = 720 + noonOffset n div msPerMinute"
    by (simp add: ms_defs)
  moreover have "noonOffset n = noonOffset n div msPerMinute * msPerMinute"
    using r(3) div_mult_mod_eq[of "noonOffset n" msPerMinute] by simp
  ultimately show ?thesis
    using assms by (simp add: etInstant_def etMinutesOfDay_def Let_def msPerMinute_def algebra_simps)
qed

text \<open>At and after the minute \<open>m\<close> of the day, for minutes from two in the morning on.\<close>

lemma session_clock:
  assumes n: "n = (t + zone t) div msPerDay" and m: "180 \<le> m" "m \<le> 1440"
  shows "n * msPerDay + m * msPerMinute - noonOffset n \<le> t \<longleftrightarrow> m \<le> (t + zone t) mod msPerDay div msPerMinute"
proof -
  define l where "l = t + zone t"
  define r where "r = l mod msPerDay"
  have l: "l = n * msPerDay + r" "0 \<le> r" "r < msPerDay" by (simp_all add: n l_def r_def ms_defs)
  have "r = r div msPerMinute * msPerMinute + r mod msPerMinute" "0 \<le> r mod msPerMinute" "r mod msPerMinute < msPerMinute"
    by (simp_all add: ms_defs)
  then have le: "m \<le> r div msPerMinute \<longleftrightarrow> m * msPerMinute \<le> r" unfolding msPerMinute_def by linarith
  have t: "t = n * msPerDay + r - zone t" using l(1) by (simp add: l_def)
  note zr = zone_range[of t] and nr = zone_range[of "n * msPerDay + 12 * msPerHour"]
  have "n * msPerDay + m * msPerMinute - noonOffset n \<le> t \<longleftrightarrow> m * msPerMinute \<le> r"
  proof (cases "n * msPerDay + 7 * msPerHour \<le> t")
    case True
    then have "zone t = noonOffset n"
      unfolding noonOffset_def using zr l t by (intro zone_session) (auto simp: ms_defs)
    then show ?thesis using t by linarith
  next
    case False
    then have "\<not> n * msPerDay + m * msPerMinute - noonOffset n \<le> t" "\<not> m * msPerMinute \<le> r"
      using m nr zr t by (auto simp: ms_defs noonOffset_def)
    then show ?thesis by simp
  qed
  then show ?thesis using le by (simp add: r_def l_def)
qed

text \<open>The session of a day, in the terms of the wall clock.\<close>

lemma marketSession_window:
  assumes "marketSession_calendar zone (etDate zone t) exceptions = Inr (Some w)"
  shows "swOpenAt w \<le> t \<longleftrightarrow> SESSION_OPEN_MINUTES \<le> etMinutesOfDay zone t"
    "swCloseAt w \<le> t \<longleftrightarrow> swCloseMinutes w \<le> etMinutesOfDay zone t"
    "SESSION_OPEN_MINUTES < swCloseMinutes w" "swCloseMinutes w \<le> SESSION_CLOSE_MINUTES"
    "swDate w = etDate zone t"
proof -
  define n where "n = (t + zone t) div msPerDay"
  have v: "validDate (etDate zone t)"
    using assms by (auto simp: marketSession_calendar_def split: if_splits)
  note inst = etInstant_eq[OF etDate_day[OF v], folded n_def]
  obtain m where m: "SESSION_OPEN_MINUTES < m" "m \<le> SESSION_CLOSE_MINUTES"
    and w: "w = \<lparr>swDate = etDate zone t, swOpenAt = n * msPerDay + SESSION_OPEN_MINUTES * msPerMinute - noonOffset n,
      swCloseAt = n * msPerDay + m * msPerMinute - noonOffset n, swCloseMinutes = m\<rparr>"
    using assms by (auto simp: marketSession_calendar_def Let_def inst not_le split: if_splits option.splits)
  show "swOpenAt w \<le> t \<longleftrightarrow> SESSION_OPEN_MINUTES \<le> etMinutesOfDay zone t"
    "swCloseAt w \<le> t \<longleftrightarrow> swCloseMinutes w \<le> etMinutesOfDay zone t"
    using m session_clock[OF n_def] by (simp_all add: w etMinutesOfDay_eq SESSION_OPEN_MINUTES_def SESSION_CLOSE_MINUTES_def)
  show "SESSION_OPEN_MINUTES < swCloseMinutes w" "swCloseMinutes w \<le> SESSION_CLOSE_MINUTES" "swDate w = etDate zone t"
    using m by (simp_all add: w)
qed

end

subsection \<open>US Eastern\<close>

lemma nthSunday_bounds:
  "daysFromCivil y m 1 + 7 * (k - 1) \<le> nthSunday y m k" "nthSunday y m k \<le> daysFromCivil y m 1 + 7 * (k - 1) + 6"
  unfolding nthSunday_def Let_def by (simp_all add: pos_mod_bound [of 7, simplified zle_diff1_eq [symmetric]])

text \<open>Whether the instant of a session day falls in summer time depends on the day alone.\<close>

lemma usEastern_session:
  assumes lo: "n * msPerDay + 7 * msPerHour \<le> t" and hi: "t < (n + 1) * msPerDay + 5 * msPerHour"
  shows "usEastern t = (let y = yearOfDay n in
    if nthSunday y 3 2 \<le> n \<and> n < nthSunday y 11 1 then - 4 * msPerHour else - 5 * msPerHour)"
proof -
  define y where "y = yearOfDay n"
  define y' where "y' = yearOfDay (t div msPerDay)"
  have day: "t div msPerDay = n \<or> t div msPerDay = n + 1"
    using lo hi by (auto simp: ms_defs)
  have cond: "a * msPerDay + 7 * msPerHour \<le> t \<longleftrightarrow> a \<le> n" "t < a * msPerDay + 6 * msPerHour \<longleftrightarrow> n < a" for a
    using lo hi by (auto simp: ms_defs)
  have us: "usEastern t = (if nthSunday y' 3 2 \<le> n \<and> n < nthSunday y' 11 1 then - 4 * msPerHour else - 5 * msPerHour)"
    by (simp add: usEastern_def Let_def cond flip: y'_def)
  show ?thesis
  proof (cases "y' = y")
    case True
    then show ?thesis using us by (simp add: y_def Let_def)
  next
    case False
    then have d: "t div msPerDay = n + 1" using day by (auto simp: y_def y'_def)
    have "\<not> n + 1 + 719162 < daysBeforeYear (y + 1)"
      using False yearOfDay_bounds[of n] yearOfDay_unique[of y "n + 1"] by (auto simp: y_def y'_def d)
    then have n: "n + 1 + 719162 = daysBeforeYear (y + 1)" using yearOfDay_bounds[of n] by (simp add: y_def)
    then have "y' = y + 1"
      using daysBeforeYear_Suc[of "y + 1"] unfolding y'_def d by (intro yearOfDay_unique) (auto split: if_splits)
    then have "n < nthSunday y' 3 2"
      using nthSunday_bounds(1)[of y' 3 2] n by (auto simp: daysFromCivil_def monthStart_def Let_def split: if_splits)
    moreover have "nthSunday y 11 1 \<le> n"
      using nthSunday_bounds(2)[of y 11 1] n daysBeforeYear_Suc[of y]
      by (auto simp: daysFromCivil_def monthStart_def Let_def split: if_splits)
    ultimately show ?thesis using us by (simp add: Let_def flip: y_def)
  qed
qed

interpretation usSession: sessionZone usEastern
proof
  fix t n :: int
  show "usEastern t mod msPerMinute = 0" by (simp add: usEastern_def Let_def ms_defs)
  assume "n * msPerDay + 7 * msPerHour \<le> t" "t < (n + 1) * msPerDay + 5 * msPerHour"
  then show "usEastern t = usEastern (n * msPerDay + 12 * msPerHour)"
    using usEastern_session[of n t] usEastern_session[of n "n * msPerDay + 12 * msPerHour"]
    by (simp add: ms_defs)
qed

end
