(* ===== verification/ReferencePrice.thy ===== *)
theory ReferencePrice
  imports TradingSession JsonValue
begin

text \<open>
  \<open>src/services/trading-reference-price.policy.ts\<close> and
  \<open>src/services/trading-reference-price.service.ts\<close>: which observed price may be traded on.
  The calendar and the market data provider are the injected dependencies of the service.
\<close>

definition TRADING_PRICE_MAX_AGE_MS :: int where "TRADING_PRICE_MAX_AGE_MS = 5 * 60000"
definition TRADING_PRICE_FUTURE_TOLERANCE_MS :: int where "TRADING_PRICE_FUTURE_TOLERANCE_MS = 30000"

datatype tradingPricePhase = PREMARKET | REGULAR | POSTMARKET | OVERNIGHT | PHASE_CLOSED

datatype tradingPriceRejection =
    PROVIDER_MISMATCH | SYMBOL_MISMATCH | PROVIDER_ERROR_REJECTED | MALFORMED_EVIDENCE | INVALID_PRICE
  | MISSING_OBSERVATION_TIMESTAMP | MISSING_FETCH_TIMESTAMP | UNACCEPTED_BASIS
  | OUTSIDE_TRADING_PRICE_SESSION | OBSERVATION_OUTSIDE_TRADING_SESSION
  | FUTURE_OBSERVATION | STALE_OBSERVATION_REJECTED

subsection \<open>The evidence\<close>

datatype capabilityProvider = MASSIVE | TIINGO_CONSOLIDATED

datatype capabilityUnavailableReason =
    PROVIDER_ERROR | MALFORMED_RESPONSE | NO_PRICE | PREVIOUS_CLOSE_ONLY | MISSING_TIMESTAMP
  | FUTURE_TIMESTAMP | STALE_OBSERVATION | NO_MINUTES | INCOMPLETE_MINUTES | INVALID_MINUTE

datatype priceBasis =
  LAST_TRADE | MINUTE_CLOSE | DAY_CLOSE | PREVIOUS_CLOSE | TIINGO_TNGO_LAST | TIINGO_LQ_REF_PRICE

datatype priceFreshness = FRESH | STALE | FRESHNESS_UNKNOWN | FUTURE

record referencePriceEvidence =
  peSymbol :: string
  peProvider :: capabilityProvider
  pePrice :: "jsnum option"
  peBasis :: "priceBasis option"
  peObservedAt :: "string option"
  peFetchedAt :: string
  peFreshness :: priceFreshness
  peAvailable :: bool
  peUnavailableReason :: "capabilityUnavailableReason option"
  peProviderError :: "string option"

record tradingReferencePrice =
  trSymbol :: string
  trProvider :: capabilityProvider
  trBasis :: "priceBasis option"
  trPrice :: "jsnum option"
  trObservedAt :: "string option"
  trFetchedAt :: string
  trAgeMs :: "int option"
  trClockSkewMs :: "int option"
  trSessionPhase :: tradingPricePhase
  trUsable :: bool
  trRejectionReason :: "tradingPriceRejection option"

subsection \<open>Timestamps\<close>

text \<open>
  The rest of a timestamp after its seconds: \<open>Z\<close>, or a fraction of one to three digits and \<open>Z\<close>,
  in milliseconds.
\<close>

definition fractionMs :: "string \<Rightarrow> int option" where
  "fractionMs rest =
     (if rest = ''Z'' then Some 0
      else
        (let ds = butlast (tl rest) in
         if 3 \<le> length rest \<and> length rest \<le> 5 \<and> hd rest = CHR ''.'' \<and> last rest = CHR ''Z'' \<and> list_all isDigit ds
         then Some (digitsValue 10 ds * 10 ^ (3 - length ds)) else None))"

text \<open>
  \<open>timestamp\<close>: the pattern of the source, then \<open>Date.parse\<close>, which takes hours to 23, or
  24:00:00.000 as the end of the day.
\<close>

definition timestamp :: "string option \<Rightarrow> int option" where
  "timestamp value =
     (case value of None \<Rightarrow> None
      | Some s \<Rightarrow>
        if 19 \<le> length s \<and> s ! 10 = CHR ''T'' \<and> s ! 13 = CHR '':'' \<and> s ! 16 = CHR '':'' \<and>
           list_all isDigit [s ! 11, s ! 12, s ! 14, s ! 15, s ! 17, s ! 18]
        then
          (case (parseDay (take 10 s), fractionMs (drop 19 s)) of
             (Some n, Some ms) \<Rightarrow>
               (let hh = digitsValue 10 [s ! 11, s ! 12]; mi = digitsValue 10 [s ! 14, s ! 15];
                    ss = digitsValue 10 [s ! 17, s ! 18]
                in if hh \<le> 23 \<and> mi \<le> 59 \<and> ss \<le> 59 \<or> hh = 24 \<and> mi = 0 \<and> ss = 0 \<and> ms = 0
                   then Some (n * msPerDay + hh * msPerHour + mi * msPerMinute + ss * 1000 + ms) else None)
           | _ \<Rightarrow> None)
        else None)"

subsection \<open>The policy\<close>

definition tradingPricePhaseOf :: "(int \<Rightarrow> int) \<Rightarrow> int \<Rightarrow> calendarException list \<Rightarrow> tradingPricePhase result" where
  "tradingPricePhaseOf zone now exceptions =
     bindR (marketSession_calendar zone (etDate zone now) exceptions) (\<lambda>session. Inr
       (case session of None \<Rightarrow> PHASE_CLOSED
        | Some s \<Rightarrow>
          if swOpenAt s \<le> now \<and> now < swCloseAt s then REGULAR
          else
            (let minute = etMinutesOfDay zone now in
             if 240 \<le> minute \<and> now < swOpenAt s then PREMARKET
             else if swCloseAt s \<le> now \<and> minute < 1200 then POSTMARKET
             else OVERNIGHT)))"

definition positivePrice :: "jsnum option \<Rightarrow> bool" where
  "positivePrice price = (case price of Some (Fin q) \<Rightarrow> 0 < q | _ \<Rightarrow> False)"

definition evaluateTradingReferencePrice ::
  "(int \<Rightarrow> int) \<Rightarrow> string \<Rightarrow> referencePriceEvidence \<Rightarrow> int \<Rightarrow> calendarException list \<Rightarrow>
     tradingReferencePrice result" where
  "evaluateTradingReferencePrice zone symbol evidence now exceptions =
     (let expected = toUpperCase (trim symbol) in
      bindR (tradingPricePhaseOf zone now exceptions) (\<lambda>phase.
      let observed = timestamp (peObservedAt evidence); fetched = timestamp (Some (peFetchedAt evidence)) in
      bindR (marketSession_calendar zone (etDate zone now) exceptions) (\<lambda>session.
      let ageMs = map_option (\<lambda>t. now - t) observed;
          clockSkewMs = (case ageMs of Some a \<Rightarrow> if a < 0 then Some (- a) else None | None \<Rightarrow> None);
          rejectionReason =
            (if phase \<noteq> REGULAR then Some OUTSIDE_TRADING_PRICE_SESSION
             else if peProvider evidence \<noteq> TIINGO_CONSOLIDATED then Some PROVIDER_MISMATCH
             else if peSymbol evidence \<noteq> expected then Some SYMBOL_MISMATCH
             else if peProviderError evidence \<noteq> None \<or> peUnavailableReason evidence = Some PROVIDER_ERROR
               then Some PROVIDER_ERROR_REJECTED
             else if peUnavailableReason evidence = Some MALFORMED_RESPONSE then Some MALFORMED_EVIDENCE
             else if \<not> positivePrice (pePrice evidence) then Some INVALID_PRICE
             else (case observed of None \<Rightarrow> Some MISSING_OBSERVATION_TIMESTAMP
               | Some seen \<Rightarrow>
                 if fetched = None then Some MISSING_FETCH_TIMESTAMP
                 else if peBasis evidence \<noteq> Some TIINGO_TNGO_LAST then Some UNACCEPTED_BASIS
                 else if (case session of None \<Rightarrow> False | Some s \<Rightarrow> seen < swOpenAt s \<or> swCloseAt s \<le> seen)
                   then Some OBSERVATION_OUTSIDE_TRADING_SESSION
                 else if now - seen < - TRADING_PRICE_FUTURE_TOLERANCE_MS then Some FUTURE_OBSERVATION
                 else if TRADING_PRICE_MAX_AGE_MS < now - seen then Some STALE_OBSERVATION_REJECTED
                 else None))
      in Inr \<lparr>trSymbol = peSymbol evidence, trProvider = peProvider evidence, trBasis = peBasis evidence,
           trPrice = pePrice evidence, trObservedAt = peObservedAt evidence, trFetchedAt = peFetchedAt evidence,
           trAgeMs = ageMs, trClockSkewMs = clockSkewMs, trSessionPhase = phase,
           trUsable = (rejectionReason = None), trRejectionReason = rejectionReason\<rparr>)))"

text \<open>Both dependencies are awaited together; when both fail, the calendar's error is taken as the first.\<close>

definition getTradingReferencePrice ::
  "(string \<Rightarrow> string \<Rightarrow> calendarException list result) \<Rightarrow>
   (string \<Rightarrow> capabilityProvider \<Rightarrow> int \<Rightarrow> referencePriceEvidence result) \<Rightarrow>
   (int \<Rightarrow> int) \<Rightarrow> string \<Rightarrow> int \<Rightarrow> tradingReferencePrice result" where
  "getTradingReferencePrice calendar verify zone symbol now =
     (let normalized = toUpperCase (trim symbol); date = etDate zone now in
      bindR (calendar date date) (\<lambda>exceptions.
      bindR (verify normalized TIINGO_CONSOLIDATED now) (\<lambda>evidence.
      evaluateTradingReferencePrice zone normalized evidence now exceptions)))"

subsection \<open>What the policy decides\<close>

text \<open>The trading phase is the one of the clock in New York. On a day without a session the market
  is closed; otherwise it is premarket from 4:00 to 9:30, regular from 9:30 to the close of the day (an early
  close on the days the calendar has one), postmarket from there to 20:00 and overnight before 4:00 and from
  20:00 on, on the days the clocks change as on every other day; and it fails only where the session does.
\<close>
lemma trading_phase_by_wall_clock:
  "tradingPricePhaseOf usEastern now exceptions =
     bindR (marketSession_calendar usEastern (etDate usEastern now) exceptions) (\<lambda>session. Inr
       (case session of None \<Rightarrow> PHASE_CLOSED
        | Some s \<Rightarrow>
          (let minute = etMinutesOfDay usEastern now in
           if minute < 4 * 60 then OVERNIGHT else if minute < 9 * 60 + 30 then PREMARKET
           else if minute < swCloseMinutes s then REGULAR else if minute < 20 * 60 then POSTMARKET
           else OVERNIGHT)))"
proof (cases "marketSession_calendar usEastern (etDate usEastern now) exceptions")
  case (Inr session)
  show ?thesis
  proof (cases session)
    case (Some s)
    then show ?thesis
      using Inr usSession.marketSession_window[of now exceptions s]
      by (auto simp: tradingPricePhaseOf_def Let_def SESSION_OPEN_MINUTES_def SESSION_CLOSE_MINUTES_def not_le [symmetric])
  qed (use Inr in \<open>simp add: tradingPricePhaseOf_def\<close>)
qed (simp add: tradingPricePhaseOf_def)

text \<open>What a usable price guarantees, for the services that trade on it.\<close>

lemma usable_price:
  assumes "evaluateTradingReferencePrice usEastern symbol evidence now exceptions = Inr r" and "trUsable r"
  shows "\<exists>s t. marketSession_calendar usEastern (etDate usEastern now) exceptions = Inr (Some s) \<and>
      SESSION_OPEN_MINUTES \<le> etMinutesOfDay usEastern now \<and> etMinutesOfDay usEastern now < swCloseMinutes s \<and>
      peProvider evidence = TIINGO_CONSOLIDATED \<and> peSymbol evidence = toUpperCase (trim symbol) \<and>
      trPrice r = pePrice evidence \<and> positivePrice (pePrice evidence) \<and>
      timestamp (peObservedAt evidence) = Some t \<and> swOpenAt s \<le> t \<and> t < swCloseAt s \<and>
      t \<le> now + TRADING_PRICE_FUTURE_TOLERANCE_MS \<and> now - t \<le> TRADING_PRICE_MAX_AGE_MS"
proof -
  obtain phase session where ph: "tradingPricePhaseOf usEastern now exceptions = Inr phase"
    and se: "marketSession_calendar usEastern (etDate usEastern now) exceptions = Inr session"
    using assms(1) by (auto simp: evaluateTradingReferencePrice_def Let_def bindR_Inr_iff)
  note rej = assms[unfolded evaluateTradingReferencePrice_def Let_def ph se bindR_simps]
  have reg: "phase = REGULAR" using rej by (auto split: if_splits)
  then obtain s where s: "session = Some s" "swOpenAt s \<le> now" "now < swCloseAt s"
    using ph se by (cases session) (auto simp: tradingPricePhaseOf_def Let_def split: if_splits)
  obtain t where t: "timestamp (peObservedAt evidence) = Some t"
    using rej reg by (cases "timestamp (peObservedAt evidence)") (auto split: if_splits)
  show ?thesis
    using rej reg s t usSession.marketSession_window[OF se[unfolded s(1)]]
    by (intro exI[of _ s] exI[of _ t]) (auto simp: se not_less not_le split: if_splits)
qed

text \<open>
  The conditions of a usable price, each with the reason for its rejection, in the order in
  which they are reported.
\<close>

definition priceChecks ::
  "sessionWindow option \<Rightarrow> string \<Rightarrow> referencePriceEvidence \<Rightarrow> int \<Rightarrow> (tradingPriceRejection \<times> bool) list" where
  "priceChecks session symbol evidence now =
     (let observed = timestamp (peObservedAt evidence); minute = etMinutesOfDay usEastern now in
      [(OUTSIDE_TRADING_PRICE_SESSION,
          case session of None \<Rightarrow> False | Some s \<Rightarrow> 9 * 60 + 30 \<le> minute \<and> minute < swCloseMinutes s),
       (PROVIDER_MISMATCH, peProvider evidence = TIINGO_CONSOLIDATED),
       (SYMBOL_MISMATCH, peSymbol evidence = toUpperCase (trim symbol)),
       (PROVIDER_ERROR_REJECTED, peProviderError evidence = None \<and> peUnavailableReason evidence \<noteq> Some PROVIDER_ERROR),
       (MALFORMED_EVIDENCE, peUnavailableReason evidence \<noteq> Some MALFORMED_RESPONSE),
       (INVALID_PRICE, positivePrice (pePrice evidence)),
       (MISSING_OBSERVATION_TIMESTAMP, observed \<noteq> None),
       (MISSING_FETCH_TIMESTAMP, timestamp (Some (peFetchedAt evidence)) \<noteq> None),
       (UNACCEPTED_BASIS, peBasis evidence = Some TIINGO_TNGO_LAST),
       (OBSERVATION_OUTSIDE_TRADING_SESSION,
          case session of None \<Rightarrow> True
          | Some s \<Rightarrow> swOpenAt s \<le> the observed \<and> the observed < swCloseAt s),
       (FUTURE_OBSERVATION, the observed \<le> now + 30000),
       (STALE_OBSERVATION_REJECTED, now - the observed \<le> 5 * 60000)])"

text \<open>A price is usable exactly when every condition of \<open>priceChecks\<close> holds (a regular session on the
  clock of New York, the consolidated provider and its basis, the symbol asked for, no reported error, a
  positive finite price, both timestamps, an observation of the same session, at most thirty seconds ahead
  and at most five minutes old), and the reason of a rejection is the first condition that fails.
\<close>
lemma reference_price_decision:
  "evaluateTradingReferencePrice usEastern symbol evidence now exceptions =
     bindR (marketSession_calendar usEastern (etDate usEastern now) exceptions) (\<lambda>session.
       let reason = map_option fst (List.find (\<lambda>c. \<not> snd c) (priceChecks session symbol evidence now));
           age = map_option (\<lambda>t. now - t) (timestamp (peObservedAt evidence))
       in bindR (tradingPricePhaseOf usEastern now exceptions) (\<lambda>phase.
       Inr \<lparr>trSymbol = peSymbol evidence, trProvider = peProvider evidence, trBasis = peBasis evidence,
         trPrice = pePrice evidence, trObservedAt = peObservedAt evidence, trFetchedAt = peFetchedAt evidence,
         trAgeMs = age, trClockSkewMs = (case age of Some a \<Rightarrow> if a < 0 then Some (- a) else None | None \<Rightarrow> None),
         trSessionPhase = phase, trUsable = (reason = None), trRejectionReason = reason\<rparr>))"
proof (cases "marketSession_calendar usEastern (etDate usEastern now) exceptions")
  case (Inr session)
  have phase: "tradingPricePhaseOf usEastern now exceptions = Inr p \<Longrightarrow>
      (p \<noteq> REGULAR) = (\<not> (case session of None \<Rightarrow> False
        | Some s \<Rightarrow> 9 * 60 + 30 \<le> etMinutesOfDay usEastern now \<and> etMinutesOfDay usEastern now < swCloseMinutes s))" for p
    using Inr usSession.marketSession_window[of now exceptions]
    by (cases session) (auto simp: tradingPricePhaseOf_def Let_def SESSION_OPEN_MINUTES_def not_le [symmetric] split: if_splits)
  obtain p where p: "tradingPricePhaseOf usEastern now exceptions = Inr p"
    using Inr by (auto simp: tradingPricePhaseOf_def)
  note defs = evaluateTradingReferencePrice_def priceChecks_def Let_def TRADING_PRICE_MAX_AGE_MS_def
    TRADING_PRICE_FUTURE_TOLERANCE_MS_def Inr p phase[OF p]
  show ?thesis
  proof (cases "timestamp (peObservedAt evidence)")
    case None
    then show ?thesis by (simp add: defs)
  next
    case (Some seen)
    moreover have "Ex Not" by blast
    ultimately show ?thesis by (cases session) (simp_all add: defs not_less not_le)
  qed
qed (simp add: evaluateTradingReferencePrice_def tradingPricePhaseOf_def Let_def)

end
