(* ===== verification/EntrySizing.thy ===== *)
theory EntrySizing
  imports ReferencePrice EntryUsage
begin

text \<open>
  \<open>src/services/account-subscription-runtime-sizing.service.ts\<close>: the quantity of an entry
  order, from the sizing rule of the account subscription and the price it may trade on.
  The reader of trading reference prices is a parameter (\<open>getTradingReferencePrice\<close> of
  \<open>ReferencePrice\<close> at the instant of the call); every error carries the code and the details
  of the source.
\<close>

fun providerText :: "capabilityProvider \<Rightarrow> string" where
  "providerText MASSIVE = ''MASSIVE''"
| "providerText TIINGO_CONSOLIDATED = ''TIINGO_CONSOLIDATED''"

fun basisText :: "priceBasis \<Rightarrow> string" where
  "basisText LAST_TRADE = ''LAST_TRADE''"
| "basisText MINUTE_CLOSE = ''MINUTE_CLOSE''"
| "basisText DAY_CLOSE = ''DAY_CLOSE''"
| "basisText PREVIOUS_CLOSE = ''PREVIOUS_CLOSE''"
| "basisText TIINGO_TNGO_LAST = ''TIINGO_TNGO_LAST''"
| "basisText TIINGO_LQ_REF_PRICE = ''TIINGO_LQ_REF_PRICE''"

fun phaseText :: "tradingPricePhase \<Rightarrow> string" where
  "phaseText PREMARKET = ''PREMARKET''"
| "phaseText REGULAR = ''REGULAR''"
| "phaseText POSTMARKET = ''POSTMARKET''"
| "phaseText OVERNIGHT = ''OVERNIGHT''"
| "phaseText PHASE_CLOSED = ''CLOSED''"

fun rejectionText :: "tradingPriceRejection \<Rightarrow> string" where
  "rejectionText PROVIDER_MISMATCH = ''PROVIDER_MISMATCH''"
| "rejectionText SYMBOL_MISMATCH = ''SYMBOL_MISMATCH''"
| "rejectionText PROVIDER_ERROR_REJECTED = ''PROVIDER_ERROR''"
| "rejectionText MALFORMED_EVIDENCE = ''MALFORMED_EVIDENCE''"
| "rejectionText INVALID_PRICE = ''INVALID_PRICE''"
| "rejectionText MISSING_OBSERVATION_TIMESTAMP = ''MISSING_OBSERVATION_TIMESTAMP''"
| "rejectionText MISSING_FETCH_TIMESTAMP = ''MISSING_FETCH_TIMESTAMP''"
| "rejectionText UNACCEPTED_BASIS = ''UNACCEPTED_BASIS''"
| "rejectionText OUTSIDE_TRADING_PRICE_SESSION = ''OUTSIDE_TRADING_PRICE_SESSION''"
| "rejectionText OBSERVATION_OUTSIDE_TRADING_SESSION = ''OBSERVATION_OUTSIDE_TRADING_SESSION''"
| "rejectionText FUTURE_OBSERVATION = ''FUTURE_OBSERVATION''"
| "rejectionText STALE_OBSERVATION_REJECTED = ''STALE_OBSERVATION''"

subsection \<open>The records\<close>

record sizingSnapshot =
  ssTradingAccountSubscriptionId :: int
  ssSizingType :: sizingType
  ssFixedQty :: "jsnum option"
  ssMaxPositionNotional :: "jsnum option"
  ssMinPositionNotional :: "jsnum option"
  ssMaxQty :: "jsnum option"
  ssLatestPrice :: "jsnum option"
  ssLatestPriceAt :: "string option"
  ssLatestPriceSource :: "string option"
  ssLatestPriceProvider :: "string option"
  ssLatestPriceBasis :: "string option"
  ssLatestPriceFetchedAt :: "string option"
  ssLatestPriceAgeMs :: "int option"
  ssLatestPriceSessionPhase :: "string option"
  ssLatestPriceRejectionReason :: "string option"
  ssCalculatedQty :: jsnum
  ssEstimatedNotional :: "jsnum option"

record runtimeSizing =
  rzTradingAccountSubscriptionId :: int
  rzQty :: jsnum
  rzEstimatedNotional :: "jsnum option"
  rzAccountSubscription :: accountSubscriptionRow
  rzSnapshot :: sizingSnapshot

record sizingArgs =
  szTradingAccountSubscriptionId :: "int option"
  szTradingAccountId :: int
  szSubscriptionId :: int
  szSymbol :: string

subsection \<open>The steps\<close>

definition runtimeSizingError :: "int \<Rightarrow> string \<Rightarrow> (string \<times> json) list \<Rightarrow> appError" where
  "runtimeSizingError statusCode code details =
     HttpError statusCode code (JObj ([(''code'', JStr code), (''rule'', JStr code)] @ details))"

definition buildSnapshot ::
  "accountSubscriptionRow \<Rightarrow> tradingReferencePrice option \<Rightarrow> jsnum \<Rightarrow> jsnum option \<Rightarrow> sizingSnapshot" where
  "buildSnapshot sub latest calculatedQty estimatedNotional =
     \<lparr>ssTradingAccountSubscriptionId = tasId sub, ssSizingType = tasSizingType sub, ssFixedQty = tasFixedQty sub,
       ssMaxPositionNotional = tasMaxPositionNotional sub, ssMinPositionNotional = tasMinPositionNotional sub,
       ssMaxQty = tasMaxQty sub, ssLatestPrice = Option.bind latest trPrice,
       ssLatestPriceAt = Option.bind latest trObservedAt,
       ssLatestPriceSource = map_option basisText (Option.bind latest trBasis),
       ssLatestPriceProvider = map_option (\<lambda>l. providerText (trProvider l)) latest,
       ssLatestPriceBasis = map_option basisText (Option.bind latest trBasis),
       ssLatestPriceFetchedAt = map_option trFetchedAt latest, ssLatestPriceAgeMs = Option.bind latest trAgeMs,
       ssLatestPriceSessionPhase = map_option (\<lambda>l. phaseText (trSessionPhase l)) latest,
       ssLatestPriceRejectionReason = map_option rejectionText (Option.bind latest trRejectionReason),
       ssCalculatedQty = calculatedQty, ssEstimatedNotional = estimatedNotional\<rparr>"

definition applyMaxQtyCap :: "jsnum \<Rightarrow> accountSubscriptionRow \<Rightarrow> jsnum" where
  "applyMaxQtyCap qty sub =
     (case tasMaxQty sub of
        Some m \<Rightarrow> if isPositiveFiniteNumber (Some m) then jsMin qty (jsFloor m) else qty
      | None \<Rightarrow> qty)"

definition priceIdentity :: "sizingArgs \<Rightarrow> accountSubscriptionRow \<Rightarrow> (string \<times> json) list" where
  "priceIdentity args sub =
     [(''tradingAccountId'', jInt (tasTradingAccountId sub)), (''subscriptionId'', jInt (tasSubscriptionId sub)),
      (''tradingAccountSubscriptionId'', jInt (tasId sub)), (''symbol'', JStr (szSymbol args))]"

text \<open>An error of the price reader that is an \<open>HttpError\<close> is passed on, any other is replaced.\<close>

definition getRequiredLatestPrice ::
  "(string \<Rightarrow> tradingReferencePrice result) \<Rightarrow> sizingArgs \<Rightarrow> accountSubscriptionRow \<Rightarrow> tradingReferencePrice result" where
  "getRequiredLatestPrice reader args sub =
     (case reader (szSymbol args) of
        Inl (HttpError code message details) \<Rightarrow> Inl (HttpError code message details)
      | Inl (PlainError name message) \<Rightarrow> Inl (runtimeSizingError 409 ''latest_price_unavailable'' (priceIdentity args sub))
      | Inr latest \<Rightarrow>
          if \<not> trUsable latest \<or> \<not> isPositiveFiniteNumber (trPrice latest) then
            Inl (runtimeSizingError 409 ''latest_price_unavailable''
              (priceIdentity args sub @
               [(''latestPrice'', jOpt JNum (trPrice latest)),
                (''latestPriceProvider'', JStr (providerText (trProvider latest))),
                (''latestPriceBasis'', jOpt (\<lambda>b. JStr (basisText b)) (trBasis latest)),
                (''latestPriceObservedAt'', jOpt JStr (trObservedAt latest)),
                (''latestPriceFetchedAt'', JStr (trFetchedAt latest)),
                (''latestPriceAgeMs'', jOpt jInt (trAgeMs latest)),
                (''latestPriceSessionPhase'', JStr (phaseText (trSessionPhase latest))),
                (''latestPriceRejectionReason'', jOpt (\<lambda>r. JStr (rejectionText r)) (trRejectionReason latest))]))
          else Inr latest)"

definition enforceMinPositionNotional ::
  "accountSubscriptionRow \<Rightarrow> tradingReferencePrice option \<Rightarrow> jsnum \<Rightarrow> jsnum option \<Rightarrow> unit result" where
  "enforceMinPositionNotional sub latest qty estimatedNotional =
     (let identity = [(''tradingAccountId'', jInt (tasTradingAccountId sub)),
            (''subscriptionId'', jInt (tasSubscriptionId sub)),
            (''tradingAccountSubscriptionId'', jInt (tasId sub)), (''symbol'', JStr (tasSymbol sub))]
      in case tasMinPositionNotional sub of
           None \<Rightarrow> Inr ()
         | Some minimum \<Rightarrow>
           if \<not> isPositiveFiniteNumber (Option.bind latest trPrice) then
             Inl (runtimeSizingError 409 ''latest_price_unavailable'' identity)
           else if (case estimatedNotional of None \<Rightarrow> True | Some n \<Rightarrow> jsLt n minimum) then
             Inl (runtimeSizingError 409 ''min_position_notional_not_met''
               (identity @ [(''qty'', JNum qty), (''latestPrice'', jOpt JNum (Option.bind latest trPrice)),
                  (''estimatedNotional'', jOpt JNum estimatedNotional), (''minPositionNotional'', JNum minimum)]))
           else Inr ())"

text \<open>The two sizing types, up to the cap.\<close>

definition sizingIdentity :: "sizingArgs \<Rightarrow> accountSubscriptionRow \<Rightarrow> (string \<times> json) list" where
  "sizingIdentity args sub =
     [(''tradingAccountId'', jInt (szTradingAccountId args)), (''subscriptionId'', jInt (szSubscriptionId args)),
      (''tradingAccountSubscriptionId'', jInt (tasId sub))]"

definition fixedQuantity :: "sizingArgs \<Rightarrow> accountSubscriptionRow \<Rightarrow> jsnum result" where
  "fixedQuantity args sub =
     (let invalid = runtimeSizingError 409 ''invalid_fixed_qty_sizing''
            (sizingIdentity args sub @ [(''fixedQty'', jOpt JNum (tasFixedQty sub))])
      in if \<not> isPositiveFiniteNumber (tasFixedQty sub) then Inl invalid
         else
           (let qty = jsFloor (the (tasFixedQty sub)) in
            if jsLt qty (Fin 1) then Inl invalid else Inr qty))"

definition notionalQuantity :: "sizingArgs \<Rightarrow> accountSubscriptionRow \<Rightarrow> jsnum option \<Rightarrow> jsnum result" where
  "notionalQuantity args sub latestPrice =
     (if \<not> isPositiveFiniteNumber (tasMaxPositionNotional sub) then
        Inl (runtimeSizingError 409 ''invalid_max_notional_sizing''
          (sizingIdentity args sub @ [(''maxPositionNotional'', jOpt JNum (tasMaxPositionNotional sub))]))
      else if \<not> isPositiveFiniteNumber latestPrice then
        Inl (runtimeSizingError 409 ''latest_price_unavailable''
          (sizingIdentity args sub @ [(''symbol'', JStr (szSymbol args))]))
      else
        (let qty = jsFloor (jsDiv (the (tasMaxPositionNotional sub)) (the latestPrice)) in
         if jsLt qty (Fin 1) then
           Inl (runtimeSizingError 409 ''max_notional_below_share_price''
             (sizingIdentity args sub @ [(''symbol'', JStr (szSymbol args)), (''latestPrice'', jOpt JNum latestPrice),
                (''maxPositionNotional'', jOpt JNum (tasMaxPositionNotional sub))]))
         else Inr qty))"

definition findRuntimeAccountSubscription :: "store \<Rightarrow> sizingArgs \<Rightarrow> int \<Rightarrow> accountSubscriptionRow option" where
  "findRuntimeAccountSubscription db args ident =
     List.find (\<lambda>s. tasId s = ident \<and> tasTradingAccountId s = szTradingAccountId args \<and>
       tasSubscriptionId s = szSubscriptionId args) (accountSubscriptionTable db)"

text \<open>After the subscription is found: the price, the quantity, its cap and its least value.\<close>

definition sizeSubscription ::
  "(string \<Rightarrow> tradingReferencePrice result) \<Rightarrow> sizingArgs \<Rightarrow> accountSubscriptionRow \<Rightarrow> runtimeSizing result" where
  "sizeSubscription reader args sub =
     bindR (getRequiredLatestPrice reader args sub) (\<lambda>latest.
     bindR (if tasSizingType sub = FIXED_QTY then fixedQuantity args sub
            else notionalQuantity args sub (trPrice latest)) (\<lambda>uncapped.
     let qty = applyMaxQtyCap uncapped sub in
     if jsLt qty (Fin 1) then
       Inl (runtimeSizingError 409 ''max_notional_below_share_price''
         (sizingIdentity args sub @ [(''symbol'', JStr (szSymbol args)), (''latestPrice'', jOpt JNum (trPrice latest)),
            (''maxQty'', jOpt JNum (tasMaxQty sub))]))
     else
       (let estimatedNotional = map_option (jsMul qty) (trPrice latest) in
        bindR (enforceMinPositionNotional sub (Some latest) qty estimatedNotional) (\<lambda>_.
        Inr \<lparr>rzTradingAccountSubscriptionId = tasId sub, rzQty = qty, rzEstimatedNotional = estimatedNotional,
             rzAccountSubscription = sub,
             rzSnapshot = buildSnapshot sub (Some latest) qty estimatedNotional\<rparr>))))"

definition resolveRuntimeAccountSubscriptionSizing ::
  "(string \<Rightarrow> tradingReferencePrice result) \<Rightarrow> store \<Rightarrow> sizingArgs \<Rightarrow> runtimeSizing result" where
  "resolveRuntimeAccountSubscriptionSizing reader db args =
     (let identity = [(''tradingAccountId'', jInt (szTradingAccountId args)),
            (''subscriptionId'', jInt (szSubscriptionId args))]
      in case szTradingAccountSubscriptionId args of
           None \<Rightarrow> Inl (runtimeSizingError 400 ''account_subscription_identity_required'' identity)
         | Some ident \<Rightarrow>
           (case findRuntimeAccountSubscription db args ident of
              None \<Rightarrow> Inl (runtimeSizingError 409 ''account_subscription_missing'' identity)
            | Some sub \<Rightarrow>
              if \<not> tasEnabled sub then
                Inl (runtimeSizingError 403 ''account_subscription_disabled'' (sizingIdentity args sub))
              else if \<not> tasEntriesEnabled sub then
                Inl (runtimeSizingError 403 ''account_subscription_entries_disabled'' (sizingIdentity args sub))
              else sizeSubscription reader args sub))"

subsection \<open>The quantity\<close>

lemma positiveFinite_Fin: "isPositiveFiniteNumber x \<longleftrightarrow> (\<exists>q. x = Some (Fin q) \<and> 0 < q)"
  by (auto simp: isPositiveFiniteNumber_def isFinite.simps split: option.splits elim: isFinite.elims)

lemma sized:
  assumes "resolveRuntimeAccountSubscriptionSizing reader db args = Inr r"
  obtains sub latest uncapped where
    "szTradingAccountSubscriptionId args = Some (tasId sub)" "sub \<in> set (accountSubscriptionTable db)"
    "tasTradingAccountId sub = szTradingAccountId args" "tasSubscriptionId sub = szSubscriptionId args"
    "tasEnabled sub" "tasEntriesEnabled sub"
    "reader (szSymbol args) = Inr latest" "trUsable latest" "isPositiveFiniteNumber (trPrice latest)"
    "(if tasSizingType sub = FIXED_QTY then fixedQuantity args sub
      else notionalQuantity args sub (trPrice latest)) = Inr uncapped"
    "rzQty r = applyMaxQtyCap uncapped sub" "\<not> jsLt (rzQty r) (Fin 1)"
    "enforceMinPositionNotional sub (Some latest) (rzQty r) (rzEstimatedNotional r) = Inr ()"
    "rzEstimatedNotional r = map_option (jsMul (rzQty r)) (trPrice latest)"
    "rzAccountSubscription r = sub"
    "rzSnapshot r = buildSnapshot sub (Some latest) (rzQty r) (rzEstimatedNotional r)"
proof -
  obtain sub where sub: "szTradingAccountSubscriptionId args \<noteq> None"
      "findRuntimeAccountSubscription db args (the (szTradingAccountSubscriptionId args)) = Some sub"
      "tasEnabled sub" "tasEntriesEnabled sub" "sizeSubscription reader args sub = Inr r"
    using assms by (auto simp: resolveRuntimeAccountSubscriptionSizing_def Let_def split: option.splits if_splits)
  have "sub \<in> set (accountSubscriptionTable db) \<and> szTradingAccountSubscriptionId args = Some (tasId sub) \<and>
      tasTradingAccountId sub = szTradingAccountId args \<and> tasSubscriptionId sub = szSubscriptionId args"
    using sub(1,2) by (auto simp: findRuntimeAccountSubscription_def find_Some_iff)
  moreover obtain latest where "reader (szSymbol args) = Inr latest" "trUsable latest"
      "isPositiveFiniteNumber (trPrice latest)" "getRequiredLatestPrice reader args sub = Inr latest"
    using sub(5) by (auto simp: sizeSubscription_def bindR_Inr_iff getRequiredLatestPrice_def
      split: sum.splits appError.splits if_splits)
  ultimately show ?thesis
    using sub that by (auto simp: sizeSubscription_def bindR_Inr_iff Let_def split: if_splits)
qed

lemma jsLt_one_int: "\<not> jsLt (Fin (of_int k)) (Fin 1) \<longleftrightarrow> 1 \<le> k"
  by (auto simp: not_less)

lemma notional_quotient:
  assumes m: "0 < m" and p: "0 < p" and range: "m < 2 ^ 53 * p"
    and q: "jsFloor (jsDiv (Fin m) (Fin p)) = Fin q" and one: "\<not> jsLt (Fin q) (Fin 1)"
  shows "\<exists>k. q = of_int k \<and> 1 \<le> k \<and> of_int k * p \<le> m * (1 + 1 / 2 ^ 53) \<and> m < (of_int k + 1) * p"
proof -
  define x where "x = m / p"
  have x: "0 < x" "x < 2 ^ 53" "x * p = m" using m p range by (simp_all add: x_def field_simps)
  obtain y where y: "rnd x = Fin y" "q = of_int \<lfloor>y\<rfloor>"
    using q p by (cases "rnd x") (auto simp: x_def)
  then have k: "1 \<le> \<lfloor>y\<rfloor>" using one by simp
  then have "y \<le> x * (1 + 1 / 2 ^ 53)" using x y by (intro rnd_at_least_one) auto
  then have "of_int \<lfloor>y\<rfloor> \<le> x * (1 + 1 / 2 ^ 53)" using of_int_floor_le[of y] by linarith
  then have "of_int \<lfloor>y\<rfloor> * p \<le> x * (1 + 1 / 2 ^ 53) * p" using p by (intro mult_right_mono) auto
  then have upper: "of_int \<lfloor>y\<rfloor> * p \<le> m * (1 + 1 / 2 ^ 53)" using x(3) by (simp add: ac_simps)
  have "x < of_int \<lfloor>y\<rfloor> + 1"
  proof (rule ccontr)
    assume "\<not> x < of_int \<lfloor>y\<rfloor> + 1"
    then have le: "of_int (\<lfloor>y\<rfloor> + 1) \<le> x" by simp
    then have "of_int (\<lfloor>y\<rfloor> + 1) < (2 ^ 53 :: rat)" using x(2) by linarith
    then have "of_int (\<lfloor>y\<rfloor> + 1) < (of_int (2 ^ 53) :: rat)" by simp
    then have "\<lfloor>y\<rfloor> + 1 < 2 ^ 53" by (simp only: of_int_less_iff)
    then have "rnd (of_int (\<lfloor>y\<rfloor> + 1)) = Fin (of_int (\<lfloor>y\<rfloor> + 1))" using k by (intro rnd_of_int) auto
    then have "of_int (\<lfloor>y\<rfloor> + 1) \<le> y" using rnd_mono[OF le] y(1) by simp
    then show False by linarith
  qed
  then have "x * p < (of_int \<lfloor>y\<rfloor> + 1) * p" using p by (intro mult_strict_right_mono) auto
  then show ?thesis using y(2) k upper x(3) by (intro exI[of _ "\<lfloor>y\<rfloor>"]) simp
qed

lemma applyMaxQtyCap_int:
  assumes "\<not> jsLt (applyMaxQtyCap (Fin (of_int j)) sub) (Fin 1)"
  shows "\<exists>k. applyMaxQtyCap (Fin (of_int j)) sub = Fin (of_int k) \<and> 1 \<le> k \<and> k \<le> j \<and>
    (\<forall>c. tasMaxQty sub = Some (Fin c) \<longrightarrow> 0 < c \<longrightarrow> of_int k \<le> c) \<and>
    (k = j \<or> (\<exists>c > 0. tasMaxQty sub = Some (Fin c) \<and> k = \<lfloor>c\<rfloor>))"
proof (cases "isPositiveFiniteNumber (tasMaxQty sub)")
  case True
  then obtain c where c: "tasMaxQty sub = Some (Fin c)" "0 < c" by (auto simp: positiveFinite_Fin)
  have "applyMaxQtyCap (Fin (of_int j)) sub = Fin (of_int (min j \<lfloor>c\<rfloor>))"
    using c True by (auto simp: applyMaxQtyCap_def jsMin_def min_def)
  then show ?thesis using assms c of_int_floor_le[of c]
    by (intro exI[of _ "min j \<lfloor>c\<rfloor>"]) (auto simp: min_def le_floor_iff not_le intro: floor_le_iff[THEN iffD2] less_imp_le)
next
  case False
  then have "applyMaxQtyCap (Fin (of_int j)) sub = Fin (of_int j)"
    by (auto simp: applyMaxQtyCap_def split: option.splits)
  then show ?thesis using assms False by (intro exI[of _ j]) (auto simp: positiveFinite_Fin)
qed

text \<open>C29: a notional sizing is the largest whole number of shares. Up to the rounding of one division (a relative
  error of one part in \<open>2 ^ 53\<close>), the sized quantity at the price it was sized with stays within the largest
  position notional; it respects the largest quantity; and one more share would be more than the notional
  unless it is the largest quantity itself. The bound on the notional keeps the quotient in the range in which
  every whole number is a double.
\<close>
theorem sized_notional_maximal:
  assumes "resolveRuntimeAccountSubscriptionSizing reader db args = Inr r"
    and "tasSizingType (rzAccountSubscription r) = MAX_NOTIONAL"
    and "tasMaxPositionNotional (rzAccountSubscription r) = Some (Fin m)"
    and "ssLatestPrice (rzSnapshot r) = Some (Fin p)" and "m < 2 ^ 53 * p"
  shows "\<exists>k \<ge> 1. rzQty r = Fin (of_int k) \<and> of_int k * p \<le> m * (1 + 1 / 2 ^ 53) \<and>
     (\<forall>c. tasMaxQty (rzAccountSubscription r) = Some (Fin c) \<longrightarrow> 0 < c \<longrightarrow> of_int k \<le> c) \<and>
     (m < (of_int k + 1) * p \<or> (\<exists>c > 0. tasMaxQty (rzAccountSubscription r) = Some (Fin c) \<and> k = \<lfloor>c\<rfloor>))"
  using assms(1)
proof (rule sized)
  fix sub latest uncapped
  assume sub: "rzAccountSubscription r = sub"
    and snap: "rzSnapshot r = buildSnapshot sub (Some latest) (rzQty r) (rzEstimatedNotional r)"
    and price: "isPositiveFiniteNumber (trPrice latest)"
    and qty: "(if tasSizingType sub = FIXED_QTY then fixedQuantity args sub
      else notionalQuantity args sub (trPrice latest)) = Inr uncapped"
    and cap: "rzQty r = applyMaxQtyCap uncapped sub" "\<not> jsLt (rzQty r) (Fin 1)"
  have pr: "trPrice latest = Some (Fin p)" using assms(4) snap by (simp add: buildSnapshot_def)
  have p: "0 < p" using price pr by (simp add: positiveFinite_Fin)
  have nq: "0 < m" "uncapped = jsFloor (jsDiv (Fin m) (Fin p))" "\<not> jsLt uncapped (Fin 1)"
    using qty assms(2,3) sub pr by (auto simp: notionalQuantity_def Let_def positiveFinite_Fin split: if_splits)
  have "rnd (m / p) \<noteq> PosInf"
  proof
    assume "rnd (m / p) = PosInf"
    moreover have "jsLe (rnd (m / p)) (rnd (of_int (2 ^ 53)))"
      using p assms(5) by (intro rnd_mono) (simp add: divide_le_eq)
    ultimately show False using rnd_of_int[of "2 ^ 53"] by simp
  qed
  then obtain q where q: "uncapped = Fin q" using nq p by (cases "rnd (m / p)") auto
  obtain j where j: "q = of_int j" "1 \<le> j" "of_int j * p \<le> m * (1 + 1 / 2 ^ 53)" "m < (of_int j + 1) * p"
    using notional_quotient[OF nq(1) p assms(5) nq(2)[unfolded q, symmetric] nq(3)[unfolded q]] by blast
  obtain k where k: "rzQty r = Fin (of_int k)" "1 \<le> k" "k \<le> j"
      "\<forall>c. tasMaxQty sub = Some (Fin c) \<longrightarrow> 0 < c \<longrightarrow> of_int k \<le> c"
      "k = j \<or> (\<exists>c > 0. tasMaxQty sub = Some (Fin c) \<and> k = \<lfloor>c\<rfloor>)"
    using applyMaxQtyCap_int[of j sub] cap by (auto simp: q j(1))
  have "of_int k * p \<le> of_int j * p" using k(3) p by (intro mult_right_mono) auto
  then have "of_int k * p \<le> m * (1 + 1 / 2 ^ 53)" using j(3) by linarith
  then show ?thesis using k j(4) sub by (intro exI[of _ k]) auto
qed

text \<open>A subscription of 1000 dollars at a price of 300: three shares.\<close>

definition samplePrice :: tradingReferencePrice where
  "samplePrice =
     \<lparr>trSymbol = ''SPY'', trProvider = TIINGO_CONSOLIDATED, trBasis = Some TIINGO_TNGO_LAST, trPrice = Some (Fin 300),
      trObservedAt = Some ''2025-03-10T14:00:00Z'', trFetchedAt = ''2025-03-10T14:00:01Z'', trAgeMs = Some 1000,
      trClockSkewMs = None, trSessionPhase = REGULAR, trUsable = True, trRejectionReason = None\<rparr>"

definition sampleSubscription :: accountSubscriptionRow where
  "sampleSubscription =
     \<lparr>tasId = 1, tasTradingAccountId = 7, tasSubscriptionId = 2, tasAllocationId = None, tasAllocation = None,
      tasEnabled = True, tasEntriesEnabled = True, tasExitsEnabled = True, tasSizingType = MAX_NOTIONAL, tasFixedQty = None,
      tasMaxPositionNotional = Some (Fin 1000), tasReservedNotional = None, tasMinPositionNotional = None,
      tasMaxQty = None, tasSymbol = ''SPY''\<rparr>"

definition sampleSizingArgs :: sizingArgs where
  "sampleSizingArgs =
     \<lparr>szTradingAccountSubscriptionId = Some 1, szTradingAccountId = 7, szSubscriptionId = 2, szSymbol = ''SPY''\<rparr>"

definition sampleSizing :: "(string \<Rightarrow> tradingReferencePrice result) \<Rightarrow> runtimeSizing result" where
  "sampleSizing reader = resolveRuntimeAccountSubscriptionSizing reader
     (emptyStore\<lparr>accountSubscriptionTable := [sampleSubscription]\<rparr>) sampleSizingArgs"

lemma sampleSizing_fields:
  assumes "reader ''SPY'' = Inr samplePrice"
  obtains r where "sampleSizing reader = Inr r" "rzQty r = Fin 3"
    "tasSizingType (rzAccountSubscription r) = MAX_NOTIONAL"
    "tasMaxPositionNotional (rzAccountSubscription r) = Some (Fin 1000)"
    "tasMaxQty (rzAccountSubscription r) = None" "ssLatestPrice (rzSnapshot r) = Some (Fin 300)"
proof -
  have "jsFloor (jsDiv (Fin 1000) (Fin 300)) = Fin 3" by code_simp
  then have "case sampleSizing reader of Inl e \<Rightarrow> False | Inr r \<Rightarrow>
     rzQty r = Fin 3 \<and> tasSizingType (rzAccountSubscription r) = MAX_NOTIONAL \<and>
     tasMaxPositionNotional (rzAccountSubscription r) = Some (Fin 1000) \<and>
     tasMaxQty (rzAccountSubscription r) = None \<and> ssLatestPrice (rzSnapshot r) = Some (Fin 300)"
    using assms
    by (simp add: sampleSizing_def resolveRuntimeAccountSubscriptionSizing_def findRuntimeAccountSubscription_def
      sampleSizingArgs_def sampleSubscription_def samplePrice_def emptyStore_def sizeSubscription_def
      getRequiredLatestPrice_def notionalQuantity_def positiveFinite_Fin applyMaxQtyCap_def
      enforceMinPositionNotional_def buildSnapshot_def Let_def del: jsDiv.simps)
  then show ?thesis using that by (auto split: sum.splits)
qed

lemma sized_notional_maximal_witness:
  "\<exists>r. sampleSizing (\<lambda>_. Inr samplePrice) = Inr r \<and> rzQty r = Fin 3 \<and> (1000 :: rat) < (of_int 3 + 1) * 300"
proof -
  obtain r where r: "sampleSizing (\<lambda>_. Inr samplePrice) = Inr r" "rzQty r = Fin 3"
      "tasSizingType (rzAccountSubscription r) = MAX_NOTIONAL"
      "tasMaxPositionNotional (rzAccountSubscription r) = Some (Fin 1000)"
      "tasMaxQty (rzAccountSubscription r) = None" "ssLatestPrice (rzSnapshot r) = Some (Fin 300)"
    by (rule sampleSizing_fields[of "\<lambda>_. Inr samplePrice"]) auto
  have "(1000 :: rat) < 2 ^ 53 * 300" by simp
  from sized_notional_maximal[OF r(1)[unfolded sampleSizing_def] r(3,4,6) this]
  have "(1000 :: rat) < (of_int 3 + 1) * 300" by (auto simp: r(2,5))
  then show ?thesis using r(1,2) by blast
qed

text \<open>
  The rounding is not always harmless: a largest position notional of 2994.81 dollars at a price of
  10.97 buys 273 shares, whose estimated notional, rounded, is more than the largest position notional.
\<close>

lemma estimated_notional_over_maximum:
  "jsFloor (jsDiv (Fin (6585656835959685 / 2199023255552)) (Fin (6175560989031793 / 562949953421312))) = Fin 273"
  "jsGt (jsMul (Fin 273) (Fin (6175560989031793 / 562949953421312))) (Fin (6585656835959685 / 2199023255552))"
proof -
  show "jsFloor (jsDiv (Fin (6585656835959685 / 2199023255552)) (Fin (6175560989031793 / 562949953421312))) = Fin 273" by code_simp
  show "jsGt (jsMul (Fin 273) (Fin (6175560989031793 / 562949953421312))) (Fin (6585656835959685 / 2199023255552))" by code_simp
qed

subsection \<open>The order of the refusals\<close>

definition errorCode :: "'a result \<Rightarrow> (int \<times> string) option" where
  "errorCode r = (case r of Inl (HttpError status code details) \<Rightarrow> Some (status, code)
     | Inl (PlainError name message) \<Rightarrow> Some (500, name) | Inr _ \<Rightarrow> None)"

definition requestedQuantity :: "accountSubscriptionRow \<Rightarrow> jsnum \<Rightarrow> jsnum" where
  "requestedQuantity sub price =
     jsFloor (if tasSizingType sub = FIXED_QTY then the (tasFixedQty sub)
              else jsDiv (the (tasMaxPositionNotional sub)) price)"

definition sizingChecks :: "accountSubscriptionRow \<Rightarrow> tradingReferencePrice \<Rightarrow> ((int \<times> string) \<times> bool) list" where
  "sizingChecks sub latest =
     (let price = the (trPrice latest); qty = applyMaxQtyCap (requestedQuantity sub price) sub in
      [((403, ''account_subscription_disabled''), tasEnabled sub),
       ((403, ''account_subscription_entries_disabled''), tasEntriesEnabled sub),
       ((409, ''latest_price_unavailable''), trUsable latest \<and> isPositiveFiniteNumber (trPrice latest)),
       ((409, ''invalid_fixed_qty_sizing''), tasSizingType sub = FIXED_QTY \<longrightarrow>
          isPositiveFiniteNumber (tasFixedQty sub) \<and> jsLe (Fin 1) (jsFloor (the (tasFixedQty sub)))),
       ((409, ''invalid_max_notional_sizing''), tasSizingType sub = MAX_NOTIONAL \<longrightarrow>
          isPositiveFiniteNumber (tasMaxPositionNotional sub)),
       ((409, ''max_notional_below_share_price''), jsLe (Fin 1) qty),
       ((409, ''min_position_notional_not_met''),
          case tasMinPositionNotional sub of None \<Rightarrow> True | Some n \<Rightarrow> \<not> jsLt (jsMul qty price) n)])"

lemma requestedQuantity_not_NaN:
  "isPositiveFiniteNumber (if tasSizingType sub = FIXED_QTY then tasFixedQty sub else tasMaxPositionNotional sub) \<Longrightarrow>
   0 < p \<Longrightarrow> requestedQuantity sub (Fin p) \<noteq> NaN"
proof -
  have "jsFloor (rnd x) \<noteq> NaN" for x using rnd_not_NaN[of x] by (cases "rnd x") auto
  moreover assume "isPositiveFiniteNumber (if tasSizingType sub = FIXED_QTY then tasFixedQty sub else tasMaxPositionNotional sub)" "0 < p"
  ultimately show ?thesis by (auto simp: requestedQuantity_def positiveFinite_Fin split: if_splits)
qed

lemma cap_below_one:
  assumes "q \<noteq> NaN"
  shows "jsLe (Fin 1) (applyMaxQtyCap q sub) \<longleftrightarrow> \<not> jsLt (applyMaxQtyCap q sub) (Fin 1)"
    "jsLt q (Fin 1) \<Longrightarrow> jsLt (applyMaxQtyCap q sub) (Fin 1)"
proof -
  have "applyMaxQtyCap q sub \<noteq> NaN"
    using assms by (auto simp: applyMaxQtyCap_def jsMin_def positiveFinite_Fin split: option.splits)
  then show "jsLe (Fin 1) (applyMaxQtyCap q sub) \<longleftrightarrow> \<not> jsLt (applyMaxQtyCap q sub) (Fin 1)"
    by (cases "applyMaxQtyCap q sub") auto
  have "c < 1" if "rat_of_int \<lfloor>c\<rfloor> < x" "x < 1" for c x
  proof -
    have "rat_of_int \<lfloor>c\<rfloor> < 1" using that by linarith
    then show ?thesis by simp
  qed
  then show "jsLt q (Fin 1) \<Longrightarrow> jsLt (applyMaxQtyCap q sub) (Fin 1)"
    by (cases q) (auto simp: applyMaxQtyCap_def jsMin_def positiveFinite_Fin split: option.splits)
qed

text \<open>The sizing answers with the first condition that fails. For a subscription that exists and a price that
  was read, the status and the code of the error are those of the first failing entry of \<open>sizingChecks\<close>, in
  the order of the source; when none fails, the quantity is the capped one of the sizing type and the
  estimated notional its product with the price.
\<close>
lemma sizing_decision:
  assumes "szTradingAccountSubscriptionId args = Some ident"
    and "findRuntimeAccountSubscription db args ident = Some sub"
    and "reader (szSymbol args) = Inr latest"
  shows "errorCode (resolveRuntimeAccountSubscriptionSizing reader db args) =
       map_option fst (List.find (\<lambda>c. \<not> snd c) (sizingChecks sub latest)) \<and>
     (\<forall>r. resolveRuntimeAccountSubscriptionSizing reader db args = Inr r \<longrightarrow>
       rzQty r = applyMaxQtyCap (requestedQuantity sub (the (trPrice latest))) sub \<and>
       rzEstimatedNotional r = Some (jsMul (rzQty r) (the (trPrice latest))))"
proof (cases "tasEnabled sub \<and> tasEntriesEnabled sub \<and> trUsable latest \<and> isPositiveFiniteNumber (trPrice latest)")
  case False
  then show ?thesis using assms
    by (auto simp: resolveRuntimeAccountSubscriptionSizing_def sizingChecks_def Let_def sizeSubscription_def
      getRequiredLatestPrice_def errorCode_def runtimeSizingError_def)
next
  case True
  then obtain p where p: "trPrice latest = Some (Fin p)" "0 < p" by (auto simp: positiveFinite_Fin)
  let ?q = "requestedQuantity sub (Fin p)"
  let ?ok = "isPositiveFiniteNumber (if tasSizingType sub = FIXED_QTY then tasFixedQty sub else tasMaxPositionNotional sub)"
  have res: "resolveRuntimeAccountSubscriptionSizing reader db args = sizeSubscription reader args sub"
    "getRequiredLatestPrice reader args sub = Inr latest"
    using True assms by (simp_all add: resolveRuntimeAccountSubscriptionSizing_def Let_def getRequiredLatestPrice_def)
  show ?thesis
  proof (cases ?ok)
    case False
    then show ?thesis using True p
      by (cases "tasSizingType sub") (auto simp: res sizeSubscription_def fixedQuantity_def notionalQuantity_def
        errorCode_def runtimeSizingError_def sizingChecks_def Let_def)
  next
    case ok: True
    note cap = cap_below_one[OF requestedQuantity_not_NaN[OF ok p(2)], of sub]
    show ?thesis
    proof (cases "tasSizingType sub")
      case FIXED_QTY
      then obtain f where f: "tasFixedQty sub = Some (Fin f)" "0 < f" using ok by (auto simp: positiveFinite_Fin)
      then have q: "?q = jsFloor (Fin f)" using FIXED_QTY by (simp add: requestedQuantity_def)
      have "fixedQuantity args sub = (if jsLt ?q (Fin 1) then
          Inl (runtimeSizingError 409 ''invalid_fixed_qty_sizing'' (sizingIdentity args sub @ [(''fixedQty'', JNum (Fin f))]))
          else Inr ?q)"
        using f by (simp add: fixedQuantity_def positiveFinite_Fin Let_def q jOpt_def)
      moreover have "jsLe (Fin 1) (jsFloor (Fin f)) \<longleftrightarrow> \<not> jsLt ?q (Fin 1)" by (auto simp: q not_less)
      ultimately show ?thesis using True p f(1) FIXED_QTY cap ok
        by (simp add: res sizeSubscription_def sizingChecks_def errorCode_def runtimeSizingError_def Let_def
          enforceMinPositionNotional_def del: jsFloor.simps split: option.splits)
    next
      case MAX_NOTIONAL
      then have "notionalQuantity args sub (trPrice latest) = (if jsLt ?q (Fin 1) then
          Inl (runtimeSizingError 409 ''max_notional_below_share_price''
            (sizingIdentity args sub @ [(''symbol'', JStr (szSymbol args)), (''latestPrice'', jOpt JNum (trPrice latest)),
              (''maxPositionNotional'', jOpt JNum (tasMaxPositionNotional sub))]))
          else Inr ?q)"
        using ok True p by (simp add: notionalQuantity_def requestedQuantity_def Let_def)
      then show ?thesis using True p MAX_NOTIONAL cap ok
        by (simp add: res sizeSubscription_def sizingChecks_def errorCode_def runtimeSizingError_def Let_def
          enforceMinPositionNotional_def split: option.splits)
    qed
  qed
qed

lemma sizing_decision_witness:
  "errorCode (sampleSizing (\<lambda>_. Inr (samplePrice\<lparr>trUsable := False\<rparr>))) = Some (409, ''latest_price_unavailable'')"
proof -
  have "szTradingAccountSubscriptionId sampleSizingArgs = Some 1"
    "findRuntimeAccountSubscription (emptyStore\<lparr>accountSubscriptionTable := [sampleSubscription]\<rparr>) sampleSizingArgs 1
       = Some sampleSubscription"
    by (simp_all add: sampleSizingArgs_def findRuntimeAccountSubscription_def sampleSubscription_def)
  from sizing_decision[OF this, of "\<lambda>_. Inr (samplePrice\<lparr>trUsable := False\<rparr>)"] show ?thesis
    by (simp add: sampleSizing_def sizingChecks_def sampleSubscription_def Let_def)
qed

text \<open>Entries are sized on a live price only. When sizing succeeds with the service's own price reader, the
  instant falls in the regular session of a calendar day on the clock of New York, and the price used is the
  one the consolidated provider observed for the symbol in that same session, at most thirty seconds ahead of
  the clock and at most five minutes old.
\<close>
lemma sized_on_fresh_price:
  assumes "resolveRuntimeAccountSubscriptionSizing
      (\<lambda>symbol. getTradingReferencePrice calendar verify usEastern symbol now) db args = Inr r"
  shows "\<exists>exceptions s evidence t.
     calendar (etDate usEastern now) (etDate usEastern now) = Inr exceptions \<and>
     marketSession_calendar usEastern (etDate usEastern now) exceptions = Inr (Some s) \<and>
     9 * 60 + 30 \<le> etMinutesOfDay usEastern now \<and> etMinutesOfDay usEastern now < swCloseMinutes s \<and>
     verify (toUpperCase (trim (szSymbol args))) TIINGO_CONSOLIDATED now = Inr evidence \<and>
     timestamp (peObservedAt evidence) = Some t \<and> swOpenAt s \<le> t \<and> t < swCloseAt s \<and>
     t \<le> now + 30000 \<and> now - t \<le> 5 * 60000 \<and>
     ssLatestPrice (rzSnapshot r) = pePrice evidence \<and> positivePrice (pePrice evidence)"
  using assms
proof (rule sized)
  fix sub latest uncapped
  assume snap: "rzSnapshot r = buildSnapshot sub (Some latest) (rzQty r) (rzEstimatedNotional r)"
    and get: "getTradingReferencePrice calendar verify usEastern (szSymbol args) now = Inr latest"
    and usable: "trUsable latest"
  have price: "ssLatestPrice (rzSnapshot r) = trPrice latest" by (simp add: snap buildSnapshot_def)
  obtain exceptions evidence where
      c: "calendar (etDate usEastern now) (etDate usEastern now) = Inr exceptions"
    and v: "verify (toUpperCase (trim (szSymbol args))) TIINGO_CONSOLIDATED now = Inr evidence"
    and e: "evaluateTradingReferencePrice usEastern (toUpperCase (trim (szSymbol args))) evidence now exceptions = Inr latest"
    using get by (auto simp: getTradingReferencePrice_def Let_def bindR_Inr_iff)
  from usable_price[OF e usable] obtain s t where
      "marketSession_calendar usEastern (etDate usEastern now) exceptions = Inr (Some s)"
      "570 \<le> etMinutesOfDay usEastern now" "etMinutesOfDay usEastern now < swCloseMinutes s"
      "trPrice latest = pePrice evidence" "positivePrice (pePrice evidence)"
      "timestamp (peObservedAt evidence) = Some t" "swOpenAt s \<le> t" "t < swCloseAt s"
      "t \<le> now + 30000" "now - t \<le> 300000"
    by (auto simp: TRADING_PRICE_FUTURE_TOLERANCE_MS_def TRADING_PRICE_MAX_AGE_MS_def SESSION_OPEN_MINUTES_def)
  then show ?thesis
    using c v price by (intro exI[of _ exceptions] exI[of _ s] exI[of _ evidence] exI[of _ t]) simp
qed

text \<open>Monday 10 March 2025, 10:00:01 in New York, the day after the clocks went forward.\<close>

definition sampleEvidence :: referencePriceEvidence where
  "sampleEvidence =
     \<lparr>peSymbol = ''SPY'', peProvider = TIINGO_CONSOLIDATED, pePrice = Some (Fin 300), peBasis = Some TIINGO_TNGO_LAST,
      peObservedAt = Some ''2025-03-10T14:00:00Z'', peFetchedAt = ''2025-03-10T14:00:01Z'', peFreshness = FRESH,
      peAvailable = True, peUnavailableReason = None, peProviderError = None\<rparr>"

definition sampleInstant :: int where "sampleInstant = 1741615201000"

lemma sampleInstant_clock:
  "etDate usEastern sampleInstant = ''2025-03-10''"
  "timestamp (Some ''2025-03-10T14:00:00Z'') = Some (sampleInstant - 1000)"
  "timestamp (Some ''2025-03-10T14:00:01Z'') = Some sampleInstant"
  "marketSession_calendar usEastern ''2025-03-10'' [] =
     Inr (Some \<lparr>swDate = ''2025-03-10'', swOpenAt = 1741613400000, swCloseAt = 1741636800000, swCloseMinutes = 960\<rparr>)"
  "toUpperCase (trim ''SPY'') = ''SPY''"
  by code_simp+

lemma sample_price:
  "getTradingReferencePrice (\<lambda>_ _. Inr []) (\<lambda>_ _ _. Inr sampleEvidence) usEastern ''SPY'' sampleInstant = Inr samplePrice"
  by (simp add: getTradingReferencePrice_def evaluateTradingReferencePrice_def tradingPricePhaseOf_def sampleInstant_clock
    sampleEvidence_def samplePrice_def positivePrice_def TRADING_PRICE_MAX_AGE_MS_def
    TRADING_PRICE_FUTURE_TOLERANCE_MS_def Let_def) (simp add: sampleInstant_def)

lemma sized_on_fresh_price_witness: "9 * 60 + 30 \<le> etMinutesOfDay usEastern sampleInstant"
proof -
  let ?reader = "\<lambda>symbol. getTradingReferencePrice (\<lambda>_ _. Inr []) (\<lambda>_ _ _. Inr sampleEvidence) usEastern symbol sampleInstant"
  obtain r where "sampleSizing ?reader = Inr r" by (rule sampleSizing_fields[of ?reader]) (auto simp: sample_price)
  from sized_on_fresh_price[OF this[unfolded sampleSizing_def]] show ?thesis by blast
qed

end
