(* ===== verification/JsText.thy ===== *)
theory JsText
  imports JsonValue
begin

text \<open>
  \<open>String(value)\<close>: the decimal text of a number (the shortest digits that read back as the
  number, in positional or exponent notation) and the text of JSON values; and the equality
  of JSON values that \<open>isDeepStrictEqual\<close> decides, which ignores the order of keys.
\<close>

subsection \<open>Numbers\<close>

definition ratTenPow :: "int \<Rightarrow> rat" where
  "ratTenPow e = (if 0 \<le> e then 10 ^ nat e else 1 / 10 ^ nat (- e))"

text \<open>
  The least \<open>n\<close> with \<open>x < 10 ^ n\<close>, for a positive \<open>x\<close>, found by a search from below that ends
  because doubles are at least \<open>10 ^ -324\<close> and below \<open>10 ^ 309\<close>.
\<close>

definition decimalPoint :: "rat \<Rightarrow> int" where
  "decimalPoint x = (case List.find (\<lambda>n. x < ratTenPow n) [-324..310] of None \<Rightarrow> 310 | Some n \<Rightarrow> n)"

text \<open>
  The position of the decimal point, the number of digits and the digits. Digits that round
  up to a power of ten are the single digit one, a place further left.
\<close>

definition shortestDigits :: "rat \<Rightarrow> int \<times> int \<times> int" where
  "shortestDigits x =
     (let n = decimalPoint x;
          digits = (\<lambda>k. roundEven (x / ratTenPow (n - k)))
      in case List.find (\<lambda>k. rnd (of_int (digits k) * ratTenPow (n - k)) = Fin x) [1..17] of
           None \<Rightarrow> (n, 17, digits 17)
         | Some k \<Rightarrow> if digits k = 10 ^ nat k then (n + 1, 1, 1) else (n, k, digits k))"

definition zeros :: "int \<Rightarrow> string" where
  "zeros n = replicate (nat n) (CHR ''0'')"

definition positiveText :: "rat \<Rightarrow> string" where
  "positiveText x =
     (let (n, k, s) = shortestDigits x; ds = showPos s in
      if k \<le> n \<and> n \<le> 21 then ds @ zeros (n - k)
      else if 0 < n \<and> n \<le> 21 then take (nat n) ds @ ''.'' @ drop (nat n) ds
      else if -6 < n \<and> n \<le> 0 then ''0.'' @ zeros (- n) @ ds
      else
        (let e = n - 1; expText = (if 0 \<le> e then ''e+'' @ showPos e else ''e-'' @ showPos (- e))
         in if k = 1 then ds @ expText else take 1 ds @ ''.'' @ drop 1 ds @ expText))"

definition numberText :: "jsnum \<Rightarrow> string" where
  "numberText x = (case x of
       NaN \<Rightarrow> ''NaN'' | PosInf \<Rightarrow> ''Infinity'' | NegInf \<Rightarrow> ''-Infinity''
     | Fin q \<Rightarrow> if q = 0 then ''0'' else if 0 < q then positiveText q else ''-'' @ positiveText (- q))"

subsection \<open>JSON values\<close>

definition joinComma :: "string list \<Rightarrow> string" where
  "joinComma xs = (case xs of [] \<Rightarrow> [] | x # r \<Rightarrow> x @ concat (map (\<lambda>s. '','' @ s) r))"

text \<open>An element of an array that is \<open>null\<close> is joined as the empty string. Stored JSON holds no dates.\<close>

fun jsonText :: "json \<Rightarrow> string" where
  "jsonText JNull = ''null''"
| "jsonText (JBool b) = (if b then ''true'' else ''false'')"
| "jsonText (JNum x) = numberText x"
| "jsonText (JStr s) = s"
| "jsonText (JDate t) = ''[object Date]''"
| "jsonText (JArr xs) = joinComma (map (\<lambda>x. if x = JNull then [] else jsonText x) xs)"
| "jsonText (JObj kvs) = ''[object Object]''"

lemma size_member_JObj: "(k, v) \<in> set kvs \<Longrightarrow> size v < Suc (size_list (size_prod (\<lambda>x. 0) size) kvs)"
  by (induction kvs) auto

lemma size_zip_JArr: "(x, y) \<in> set (zip xs ys) \<Longrightarrow> size x < Suc (size_list size xs)"
  by (induction xs ys rule: list_induct2') auto

function sameEvidence :: "json \<Rightarrow> json \<Rightarrow> bool" where
  "sameEvidence (JArr xs) (JArr ys) =
     (length xs = length ys \<and> (\<forall>p \<in> set (zip xs ys). sameEvidence (fst p) (snd p)))"
| "sameEvidence (JObj xs) (JObj ys) =
     (length xs = length ys \<and>
      (\<forall>p \<in> set xs. case map_of ys (fst p) of None \<Rightarrow> False | Some w \<Rightarrow> sameEvidence (snd p) w))"
| "sameEvidence JNull b = (b = JNull)"
| "sameEvidence (JBool x) b = (b = JBool x)"
| "sameEvidence (JNum x) b = (b = JNum x)"
| "sameEvidence (JStr x) b = (b = JStr x)"
| "sameEvidence (JDate x) b = (b = JDate x)"
| "sameEvidence (JArr xs) JNull = False"
| "sameEvidence (JArr xs) (JBool x) = False"
| "sameEvidence (JArr xs) (JNum x2) = False"
| "sameEvidence (JArr xs) (JStr x3) = False"
| "sameEvidence (JArr xs) (JDate x4) = False"
| "sameEvidence (JArr xs) (JObj x5) = False"
| "sameEvidence (JObj xs) JNull = False"
| "sameEvidence (JObj xs) (JBool x) = False"
| "sameEvidence (JObj xs) (JNum x2) = False"
| "sameEvidence (JObj xs) (JStr x3) = False"
| "sameEvidence (JObj xs) (JDate x4) = False"
| "sameEvidence (JObj xs) (JArr x5) = False"
  by pat_completeness auto
termination
  by (relation "measure (\<lambda>(a, b). size a)")
    (auto dest: size_zip_JArr size_member_JObj)

text \<open>An object without repeated keys, in depth, has the same evidence as itself.\<close>

fun uniqueKeys :: "json \<Rightarrow> bool" where
  "uniqueKeys (JArr xs) = (\<forall>x \<in> set xs. uniqueKeys x)"
| "uniqueKeys (JObj kvs) = (distinct (map fst kvs) \<and> (\<forall>p \<in> set kvs. uniqueKeys (snd p)))"
| "uniqueKeys _ = True"

lemma sameEvidence_refl: "uniqueKeys j \<Longrightarrow> sameEvidence j j"
proof (induction j rule: uniqueKeys.induct)
  case (1 xs)
  then show ?case by (auto simp: in_set_zip)
next
  case (2 kvs)
  then show ?case by auto
qed auto

end
