(* ===== verification/DeliveryEvidence.thy ===== *)
theory DeliveryEvidence
  imports LifecycleStatus JsText "HOL-Library.Multiset"
begin

text \<open>
  \<open>src/services/entry-delivery-evidence.service.ts\<close>: the durable evidence of what happened to
  the broker request of a claim, summarised from its append-only events, and the rule by
  which that evidence permits the release of a claim as never submitted.
\<close>

subsection \<open>Events\<close>

definition NOT_SENT_EVIDENCE_EVENT :: string where
  "NOT_SENT_EVIDENCE_EVENT = ''NOT_SENT_EVIDENCE_RECORDED''"
definition ADAPTER_INVOCATION_STARTED_EVENT :: string where
  "ADAPTER_INVOCATION_STARTED_EVENT = ''ADAPTER_INVOCATION_STARTED''"
definition WORKER_CLAIMED_EVENT :: string where
  "WORKER_CLAIMED_EVENT = ''WORKER_CLAIMED_FOR_SUBMISSION''"
definition ADAPTER_MARKER_PROTOCOL :: string where
  "ADAPTER_MARKER_PROTOCOL = ''ADAPTER_MARKER_V1''"
definition DISPATCH_OUTCOME_EVENT_TYPES :: "string list" where
  "DISPATCH_OUTCOME_EVENT_TYPES = [''DISPATCH_OUTCOME_RECORDED'', ''BROKER_DELIVERY_UNCERTAIN'']"
definition DELIVERY_EVIDENCE_EVENT_TYPES :: "string list" where
  "DELIVERY_EVIDENCE_EVENT_TYPES =
     DISPATCH_OUTCOME_EVENT_TYPES @ [NOT_SENT_EVIDENCE_EVENT, ADAPTER_INVOCATION_STARTED_EVENT, WORKER_CLAIMED_EVENT]"
definition RECOVERY_ATTEMPT_RESULT_EVENT_TYPES :: "string list" where
  "RECOVERY_ATTEMPT_RESULT_EVENT_TYPES =
     [''DISPATCH_RECOVERY_RELEASE_BLOCKED'', ''DISPATCH_RECOVERY_REVALIDATION_BLOCKED'', ''DISPATCH_RECOVERY_ERROR'',
      ''RECOVERY_ATTEMPT_FAILED'', ''UNSUBMITTED_RELEASE_REFUSED'',
      ''PRE_BOUNDARY_FAILURE_WITH_PRIOR_DISPATCH_RECORD'', ''DISPATCH_RECOVERY_ATTEMPT_RESULT'']"
definition LOCAL_NON_SEND_CLASSIFICATIONS :: "string list" where
  "LOCAL_NON_SEND_CLASSIFICATIONS =
     [''NOT_SENT_PRE_DISPATCH'', ''NOT_SENT_LOCAL_BLOCKED'', ''NOT_SENT_LOCAL_RETRYABLE'',
      ''NOT_SENT_DISPATCH_RECORD_ACK_LOST'']"

lemmas event_names =
  NOT_SENT_EVIDENCE_EVENT_def ADAPTER_INVOCATION_STARTED_EVENT_def WORKER_CLAIMED_EVENT_def
  DISPATCH_OUTCOME_EVENT_TYPES_def

record claimEventRow =
  ceId :: int
  ceClaimId :: int
  ceEventType :: string
  ceEvidenceJson :: json
  ceCreatedAt :: int

datatype outcomeKind = OUTCOME | NOT_SENT | UNPAIRED_ADAPTER_MARKER

datatype outcomeObservation = OBSERVED | INFERRED

record deliveryOutcome =
  doEventId :: int
  doKind :: outcomeKind
  doClassification :: string
  doStatusCode :: "jsnum option"
  doObservation :: outcomeObservation
  doAdapterInvocation :: string
  doSource :: "string option"
  doRecordedAt :: int

text \<open>\<open>String(x ?? fallback)\<close> and \<open>typeof x === 'string'\<close> on a field of the evidence.\<close>

definition stringOr :: "json option \<Rightarrow> string \<Rightarrow> string" where
  "stringOr x fallback = (case x of None \<Rightarrow> fallback | Some j \<Rightarrow> if j = JNull then fallback else jsonText j)"

definition asString :: "json option \<Rightarrow> string option" where
  "asString x = (case x of Some (JStr s) \<Rightarrow> Some s | _ \<Rightarrow> None)"

definition asNumber :: "json option \<Rightarrow> jsnum option" where
  "asNumber x = (case x of Some (JNum n) \<Rightarrow> Some n | _ \<Rightarrow> None)"

definition outcomeOf :: "claimEventRow \<Rightarrow> deliveryOutcome" where
  "outcomeOf event =
     (let get = jsonGet (ceEvidenceJson event) in
      if ceEventType event = NOT_SENT_EVIDENCE_EVENT then
        \<lparr>doEventId = ceId event, doKind = NOT_SENT,
         doClassification = stringOr (get ''classification'') ''NOT_SENT_PRE_DISPATCH'',
         doStatusCode = None, doObservation = OBSERVED,
         doAdapterInvocation =
           (if get ''adapterInvocation'' = Some (JStr ''LOCAL_GUARD_BEFORE_REQUEST'')
            then ''LOCAL_GUARD_BEFORE_REQUEST'' else ''NOT_INVOKED''),
         doSource = asString (get ''source''), doRecordedAt = ceCreatedAt event\<rparr>
      else
        (let legacyUncertain = (ceEventType event = ''BROKER_DELIVERY_UNCERTAIN'');
             classification = (if legacyUncertain then ''DELIVERY_UNCERTAIN''
               else stringOr (get ''classification'') ''DISPATCH_OUTCOME_UNKNOWN'');
             source = (case asString (get ''source'') of Some s \<Rightarrow> Some s
                       | None \<Rightarrow> if legacyUncertain then Some ''WORKER'' else None);
             observation = (if get ''observation'' = Some (JStr ''INFERRED'') then INFERRED
               else if get ''observation'' = Some (JStr ''OBSERVED'') then OBSERVED
               else if source = Some ''WORKER'' then OBSERVED else INFERRED);
             adapterInvocation = (case asString (get ''adapterInvocation'') of Some s \<Rightarrow> s
               | None \<Rightarrow> if classification = ''BROKER_REJECTED'' then ''HTTP_RESPONSE_RECEIVED''
                   else if classification = ''NOT_SENT_DISPATCH_RECORD_ACK_LOST'' then ''NOT_INVOKED''
                   else if startsWith classification ''NOT_SENT_LOCAL'' then ''LOCAL_GUARD_BEFORE_REQUEST''
                   else ''UNKNOWN'')
         in \<lparr>doEventId = ceId event, doKind = OUTCOME, doClassification = classification,
             doStatusCode = asNumber (get ''statusCode''), doObservation = observation,
             doAdapterInvocation = adapterInvocation, doSource = source, doRecordedAt = ceCreatedAt event\<rparr>))"

subsection \<open>The summary\<close>

record deliverySummary =
  dsOutcomes :: "deliveryOutcome list"
  dsNotSent :: "deliveryOutcome list"
  dsDispatchOutcomes :: "deliveryOutcome list"
  dsAmbiguous :: "deliveryOutcome list"
  dsAdapterMarkers :: int
  dsMarkerProtocol :: bool
  dsAdapterRequestObserved :: bool

definition isRecord :: "claimEventRow \<Rightarrow> bool" where
  "isRecord e = (ceEventType e \<in> set DISPATCH_OUTCOME_EVENT_TYPES \<or> ceEventType e = NOT_SENT_EVIDENCE_EVENT)"

definition isMarker :: "claimEventRow \<Rightarrow> bool" where
  "isMarker e = (ceEventType e = ADAPTER_INVOCATION_STARTED_EVENT)"

text \<open>The markers without a record before the next marker (the filter by index of the source).\<close>

fun unpairedMarkers :: "deliveryOutcome list \<Rightarrow> claimEventRow list \<Rightarrow> claimEventRow list" where
  "unpairedMarkers recorded [] = []"
| "unpairedMarkers recorded (m # ms) =
     (let closes = (\<lambda>r. ceId m < doEventId r \<and> (case ms of [] \<Rightarrow> True | n # _ \<Rightarrow> doEventId r < ceId n))
      in (if list_ex closes recorded then [] else [m]) @ unpairedMarkers recorded ms)"

definition unpairedOutcome :: "claimEventRow \<Rightarrow> deliveryOutcome" where
  "unpairedOutcome marker =
     \<lparr>doEventId = ceId marker, doKind = UNPAIRED_ADAPTER_MARKER, doClassification = ''DISPATCH_OUTCOME_UNKNOWN'',
      doStatusCode = None, doObservation = INFERRED, doAdapterInvocation = ''UNKNOWN'',
      doSource = Some ''ADAPTER_INVOCATION_MARKER'', doRecordedAt = ceCreatedAt marker\<rparr>"

definition isAmbiguous :: "deliveryOutcome \<Rightarrow> bool" where
  "isAmbiguous o' = (doClassification o' \<notin> set LOCAL_NON_SEND_CLASSIFICATIONS)"

definition summarizeDeliveryEvidence :: "claimEventRow list \<Rightarrow> deliverySummary" where
  "summarizeDeliveryEvidence events =
     (let sorted = sort_key ceId events;
          recorded = map outcomeOf (filter isRecord sorted);
          markers = filter isMarker sorted;
          unpaired = map unpairedOutcome (unpairedMarkers recorded markers);
          outcomes = sort_key doEventId (recorded @ unpaired)
      in \<lparr>dsOutcomes = outcomes,
          dsNotSent = filter (\<lambda>x. doKind x = NOT_SENT) outcomes,
          dsDispatchOutcomes = filter (\<lambda>x. doKind x \<noteq> NOT_SENT) outcomes,
          dsAmbiguous = filter isAmbiguous outcomes,
          dsAdapterMarkers = int (length markers),
          dsMarkerProtocol =
            list_ex (\<lambda>e. ceEventType e = WORKER_CLAIMED_EVENT \<and>
              jsonGet (ceEvidenceJson e) ''markerProtocol'' = Some (JStr ADAPTER_MARKER_PROTOCOL)) sorted,
          dsAdapterRequestObserved =
            list_ex (\<lambda>x. doObservation x = OBSERVED \<and>
              doAdapterInvocation x \<in> set [''HTTP_RESPONSE_RECEIVED'', ''UNKNOWN'']) outcomes\<rparr>)"

subsection \<open>Block reasons\<close>

definition deliveryClasses :: "string list" where
  "deliveryClasses = [''NOT_SENT_RETRYABLE'', ''NOT_SENT_BLOCKED'', ''BROKER_REJECTED'', ''DELIVERY_UNCERTAIN'']"

fun matchDeliveryReason :: "string \<Rightarrow> string option" where
  "matchDeliveryReason [] = None"
| "matchDeliveryReason (c # s) =
     (case List.find (\<lambda>k. startsWith (c # s) (''BROKER_WRITE_DELIVERY:'' @ k)) deliveryClasses of
        Some k \<Rightarrow> Some k
      | None \<Rightarrow> matchDeliveryReason s)"

definition blockReasonDeliveryClassification :: "string option \<Rightarrow> string option" where
  "blockReasonDeliveryClassification blockReason = Option.bind blockReason matchDeliveryReason"

definition unknownOutcomeReason :: "string \<Rightarrow> bool" where
  "unknownOutcomeReason s =
     (startsWith s ''DISPATCH_STARTED_OUTCOME_UNKNOWN'' \<or> startsWith s ''STALE_SUBMISSION_OUTCOME_UNKNOWN'')"

definition blockReasonCarriesDeliveryUncertainty :: "string option \<Rightarrow> bool" where
  "blockReasonCarriesDeliveryUncertainty blockReason =
     (let classification = blockReasonDeliveryClassification blockReason in
      classification = Some ''BROKER_REJECTED'' \<or> classification = Some ''DELIVERY_UNCERTAIN'' \<or>
      unknownOutcomeReason (case blockReason of None \<Rightarrow> [] | Some s \<Rightarrow> s))"

definition preserveBlockReason :: "string option \<Rightarrow> string \<Rightarrow> string" where
  "preserveBlockReason prior next =
     (if blockReasonCarriesDeliveryUncertainty prior then the prior else next)"

subsection \<open>The release rule\<close>

record releaseEvidence =
  reProven :: bool
  reBasis :: "string option"
  reBlocker :: "string option"

definition evaluateNeverSubmittedRelease :: "string \<Rightarrow> deliverySummary \<Rightarrow> string option \<Rightarrow> releaseEvidence" where
  "evaluateNeverSubmittedRelease claimStatus summary blockReason =
     (if dsAmbiguous summary \<noteq> [] then
        \<lparr>reProven = False, reBasis = None, reBlocker = Some ''DELIVERY_EVIDENCE_AMBIGUOUS''\<rparr>
      else if blockReasonCarriesDeliveryUncertainty blockReason then
        \<lparr>reProven = False, reBasis = None, reBlocker = Some ''BLOCK_REASON_DELIVERY_UNCERTAIN''\<rparr>
      else if claimStatus \<in> set [''ENTRY_PENDING'', ''ADMISSION_BLOCKED''] \<and> dsAdapterMarkers summary = 0 then
        \<lparr>reProven = True, reBasis = Some ''CLAIM_NEVER_REACHED_BROKER_BOUNDARY'', reBlocker = None\<rparr>
      else if dsNotSent summary \<noteq> [] then
        \<lparr>reProven = True, reBasis = Some ''RECORDED_NOT_SENT_EVIDENCE'', reBlocker = None\<rparr>
      else \<lparr>reProven = False, reBasis = None, reBlocker = Some ''NOT_SENT_EVIDENCE_NOT_RECORDED''\<rparr>)"

subsection \<open>Writers\<close>

text \<open>
  The evidence that the writers store. Values that \<open>JSON.stringify\<close> leaves out do not occur
  in it; the message is cut to 300 characters, and an empty message becomes \<open>null\<close>.
\<close>

definition adapterInvocationEvidence :: "int \<Rightarrow> string \<Rightarrow> json" where
  "adapterInvocationEvidence orderIntentId clientOrderId =
     JObj [(''protocol'', JStr ADAPTER_MARKER_PROTOCOL), (''orderIntentId'', jInt orderIntentId),
       (''clientOrderId'', JStr clientOrderId)]"

definition notSentEvidence ::
  "string \<Rightarrow> string \<Rightarrow> string \<Rightarrow> int \<Rightarrow> string \<Rightarrow> string option \<Rightarrow> json option \<Rightarrow> json" where
  "notSentEvidence classification producer source orderIntentId reason message proof' =
     JObj ([(''classification'', JStr classification), (''producer'', JStr producer), (''source'', JStr source),
        (''orderIntentId'', jInt orderIntentId),
        (''adapterInvocation'', JStr (if classification = ''NOT_SENT_PRE_DISPATCH'' then ''NOT_INVOKED''
                                   else ''LOCAL_GUARD_BEFORE_REQUEST'')),
        (''networkRequestIssued'', JBool False), (''reason'', JStr reason),
        (''message'', (case message of None \<Rightarrow> JNull | Some m \<Rightarrow> if m = [] then JNull else JStr (take 300 m))),
        (''executionAuthority'', JStr ''NONE'')]
       @ (case proof' of None \<Rightarrow> [] | Some p \<Rightarrow> [(''proof'', p)]))"

subsection \<open>Facts on sorted events\<close>

lemma filter_eq_replicate: "filter (\<lambda>x. x = k) zs = replicate (count (mset zs) k) k"
  by (induction zs) auto

lemma sort_key_mset_eq:
  assumes "mset xs = mset ys" and "inj_on f (set xs)"
  shows "sort_key f xs = sort_key f ys"
proof (rule properties_for_sort_key)
  show "mset (sort_key f ys) = mset xs" using assms(1) by simp
  have st: "set ys = set xs" using mset_eq_setD[OF assms(1)] by simp
  show "filter (\<lambda>x. f k = f x) (sort_key f ys) = filter (\<lambda>x. f k = f x) xs" if "k \<in> set (sort_key f ys)" for k
  proof -
    have k: "k \<in> set xs" using that st by simp
    have e: "filter (\<lambda>x. f k = f x) zs = filter (\<lambda>x. x = k) zs" if "set zs = set xs" for zs
      using that k assms(2) by (intro filter_cong) (auto simp: inj_on_def)
    show ?thesis
      using e[of "sort_key f ys"] e[of xs] st assms(1) by (simp add: filter_eq_replicate)
  qed
  show "sorted (map f (sort_key f ys))" by simp
qed

text \<open>The summary does not depend on the order of the events, and events of other types do
  not matter: the query that loads only the delivery event types, in any order, gives the
  same summary as all events of the claim.\<close>
lemma summary_of_evidence_set:
  assumes "mset events = mset events'" and "distinct (map ceId events)"
  shows "summarizeDeliveryEvidence events = summarizeDeliveryEvidence events' \<and>
    summarizeDeliveryEvidence (filter (\<lambda>e. ceEventType e \<in> set DELIVERY_EVIDENCE_EVENT_TYPES) events) =
    summarizeDeliveryEvidence events"
proof -
  have "sort_key ceId events = sort_key ceId events'"
    using assms by (intro sort_key_mset_eq) (auto simp: distinct_map)
  moreover have "filter P (sort_key ceId (filter (\<lambda>e. ceEventType e \<in> set DELIVERY_EVIDENCE_EVENT_TYPES) events))
      = filter P (sort_key ceId events)"
    if "\<And>e. P e \<Longrightarrow> ceEventType e \<in> set DELIVERY_EVIDENCE_EVENT_TYPES" for P
    using that by (simp add: filter_sort[symmetric]) (metis (mono_tags, lifting) filter_cong)
  moreover have "isRecord e \<Longrightarrow> ceEventType e \<in> set DELIVERY_EVIDENCE_EVENT_TYPES"
    "isMarker e \<Longrightarrow> ceEventType e \<in> set DELIVERY_EVIDENCE_EVENT_TYPES" for e
    by (auto simp: isRecord_def isMarker_def DELIVERY_EVIDENCE_EVENT_TYPES_def)
  moreover have "list_ex (\<lambda>e. ceEventType e = WORKER_CLAIMED_EVENT \<and> Q e)
        (sort_key ceId (filter (\<lambda>e. ceEventType e \<in> set DELIVERY_EVIDENCE_EVENT_TYPES) events))
      = list_ex (\<lambda>e. ceEventType e = WORKER_CLAIMED_EVENT \<and> Q e) (sort_key ceId events)" for Q
    by (auto simp: list_ex_iff DELIVERY_EVIDENCE_EVENT_TYPES_def)
  ultimately show ?thesis by (simp add: summarizeDeliveryEvidence_def Let_def)
qed

subsection \<open>Soundness of the release rule\<close>

definition closedMarker :: "claimEventRow list \<Rightarrow> deliveryOutcome list \<Rightarrow> claimEventRow \<Rightarrow> bool" where
  "closedMarker markers recorded m \<longleftrightarrow>
     (\<exists>r\<in>set recorded. ceId m < doEventId r \<and> (\<forall>n\<in>set markers. ceId m < ceId n \<longrightarrow> doEventId r < ceId n))"

lemma unpairedMarkers_iff:
  "sorted (map ceId ms) \<Longrightarrow> distinct (map ceId ms) \<Longrightarrow>
   set (unpairedMarkers recorded ms) = {m \<in> set ms. \<not> closedMarker ms recorded m}"
proof (induction recorded ms rule: unpairedMarkers.induct)
  case (2 recorded m ms)
  have first: "ceId m < ceId n" if "n \<in> set ms" for n
    using that 2(2,3) by (auto simp: order_le_less)
  have next_marker: "(case ms of [] \<Rightarrow> True | n # _ \<Rightarrow> x < ceId n) \<longleftrightarrow> (\<forall>n\<in>set ms. x < ceId n)" for x
    using 2(2) by (cases ms) (auto intro: order_less_le_trans)
  have head: "closedMarker (m # ms) recorded m \<longleftrightarrow>
      list_ex (\<lambda>r. ceId m < doEventId r \<and> (case ms of [] \<Rightarrow> True | n # _ \<Rightarrow> doEventId r < ceId n)) recorded"
    unfolding closedMarker_def list_ex_iff next_marker using first by auto
  have tail: "closedMarker (m # ms) recorded n = closedMarker ms recorded n" if "n \<in> set ms" for n
    using first[OF that] by (auto simp: closedMarker_def)
  have "set (unpairedMarkers recorded ms) = {n \<in> set ms. \<not> closedMarker ms recorded n}"
    using 2 by simp
  then show ?case using head tail first by (auto simp: Let_def)
qed simp

lemma outcomeOf_id [simp]: "doEventId (outcomeOf e) = ceId e"
  by (simp add: outcomeOf_def Let_def)

lemma outcomeOf_kind: "doKind (outcomeOf e) = NOT_SENT \<longleftrightarrow> ceEventType e = NOT_SENT_EVIDENCE_EVENT"
  by (simp add: outcomeOf_def Let_def)

definition markersOf :: "claimEventRow list \<Rightarrow> claimEventRow list" where
  "markersOf es = filter isMarker (sort_key ceId es)"

definition recordsOf :: "claimEventRow list \<Rightarrow> deliveryOutcome list" where
  "recordsOf es = map outcomeOf (filter isRecord (sort_key ceId es))"

lemma markersOf_sorted:
  "distinct (map ceId es) \<Longrightarrow> sorted (map ceId (markersOf es)) \<and> distinct (map ceId (markersOf es))"
  by (auto simp: markersOf_def sorted_filter distinct_map intro: inj_on_subset)

lemma set_markersOf [simp]: "set (markersOf es) = {e \<in> set es. isMarker e}"
  by (auto simp: markersOf_def)

lemma set_recordsOf [simp]: "set (recordsOf es) = outcomeOf ` {e \<in> set es. isRecord e}"
  by (auto simp: recordsOf_def)

lemma summary_outcomes:
  "set (dsOutcomes (summarizeDeliveryEvidence es)) =
   set (recordsOf es) \<union> unpairedOutcome ` set (unpairedMarkers (recordsOf es) (markersOf es))"
  by (auto simp: summarizeDeliveryEvidence_def Let_def recordsOf_def markersOf_def)

lemma summary_parts:
  "dsAmbiguous (summarizeDeliveryEvidence es) = filter isAmbiguous (dsOutcomes (summarizeDeliveryEvidence es))"
  "dsNotSent (summarizeDeliveryEvidence es) =
     filter (\<lambda>x. doKind x = NOT_SENT) (dsOutcomes (summarizeDeliveryEvidence es))"
  "dsAdapterMarkers (summarizeDeliveryEvidence es) = int (length (markersOf es))"
  by (simp_all add: summarizeDeliveryEvidence_def Let_def markersOf_def)

lemma unpaired_ambiguous: "isAmbiguous (unpairedOutcome m)"
  by (simp add: isAmbiguous_def unpairedOutcome_def LOCAL_NON_SEND_CLASSIFICATIONS_def)

text \<open>What the records of a claim must say before it is released as never submitted.\<close>

definition attemptsClosedUnsent :: "claimEventRow list \<Rightarrow> bool" where
  "attemptsClosedUnsent es \<longleftrightarrow>
     (\<forall>e\<in>set es. isRecord e \<longrightarrow> doClassification (outcomeOf e) \<in> set LOCAL_NON_SEND_CLASSIFICATIONS) \<and>
     (\<forall>m\<in>set es. isMarker m \<longrightarrow>
        (\<exists>e\<in>set es. isRecord e \<and> ceId m < ceId e \<and>
           (\<forall>n\<in>set es. isMarker n \<longrightarrow> ceId m < ceId n \<longrightarrow> ceId e < ceId n)))"

lemma closedMarker_events:
  "closedMarker (markersOf es) (recordsOf es) m \<longleftrightarrow>
   (\<exists>e\<in>set es. isRecord e \<and> ceId m < ceId e \<and>
      (\<forall>n\<in>set es. isMarker n \<longrightarrow> ceId m < ceId n \<longrightarrow> ceId e < ceId n))"
  by (simp add: closedMarker_def) blast

lemma ambiguous_empty_iff:
  assumes "distinct (map ceId es)"
  shows "dsAmbiguous (summarizeDeliveryEvidence es) = [] \<longleftrightarrow> attemptsClosedUnsent es"
proof -
  have unp: "set (unpairedMarkers (recordsOf es) (markersOf es)) =
      {m \<in> set (markersOf es). \<not> closedMarker (markersOf es) (recordsOf es) m}"
    using markersOf_sorted[OF assms] by (intro unpairedMarkers_iff) auto
  have gen: "(\<forall>x\<in>A \<union> unpairedOutcome ` B. \<not> isAmbiguous x) \<longleftrightarrow> (\<forall>x\<in>A. \<not> isAmbiguous x) \<and> B = {}" for A B
    using unpaired_ambiguous by auto
  have "dsAmbiguous (summarizeDeliveryEvidence es) = [] \<longleftrightarrow>
      (\<forall>x\<in>set (recordsOf es). \<not> isAmbiguous x) \<and> set (unpairedMarkers (recordsOf es) (markersOf es)) = {}"
    unfolding summary_parts filter_empty_conv summary_outcomes by (rule gen)
  also have "\<dots> \<longleftrightarrow> attemptsClosedUnsent es"
    unfolding unp attemptsClosedUnsent_def closedMarker_events by (simp add: isAmbiguous_def) blast
  finally show ?thesis .
qed

lemma notSent_empty_iff:
  "dsNotSent (summarizeDeliveryEvidence es) \<noteq> [] \<longleftrightarrow> (\<exists>e\<in>set es. ceEventType e = NOT_SENT_EVIDENCE_EVENT)"
proof -
  have "doKind (unpairedOutcome m) \<noteq> NOT_SENT" for m by (simp add: unpairedOutcome_def)
  moreover have "ceEventType e = NOT_SENT_EVIDENCE_EVENT \<Longrightarrow> isRecord e" for e by (simp add: isRecord_def)
  ultimately show ?thesis
    unfolding summary_parts filter_empty_conv summary_outcomes set_recordsOf
    by (auto simp: outcomeOf_kind intro!: bexI[where A = "_ \<union> _"])
qed

lemma release_rule:
  assumes "distinct (map ceId es)"
  shows "reProven (evaluateNeverSubmittedRelease status (summarizeDeliveryEvidence es) blockReason) \<longleftrightarrow>
    attemptsClosedUnsent es \<and> \<not> blockReasonCarriesDeliveryUncertainty blockReason \<and>
    (status \<in> {''ENTRY_PENDING'', ''ADMISSION_BLOCKED''} \<and> \<not> (\<exists>e\<in>set es. isMarker e) \<or>
     (\<exists>e\<in>set es. ceEventType e = NOT_SENT_EVIDENCE_EVENT))"
proof -
  have "dsAdapterMarkers (summarizeDeliveryEvidence es) = 0 \<longleftrightarrow> \<not> (\<exists>e\<in>set es. isMarker e)"
    unfolding summary_parts by (auto simp flip: set_empty)
  then show ?thesis
    using ambiguous_empty_iff[OF assms] notSent_empty_iff[of es]
    by (auto simp: evaluateNeverSubmittedRelease_def)
qed

text \<open>The evidence rule is exact. A claim may be released as never submitted if and only if
  every recorded outcome is a local non-send, every adapter invocation is followed by a
  record before the next invocation (so a crash after a marker blocks the release), the
  block reason carries no delivery uncertainty, and either the claim never left the
  pre-broker statuses with no adapter marker or a not-sent record exists.\<close>
lemma release_rule_exact:
  assumes "distinct (map ceId es)"
  shows "reProven (evaluateNeverSubmittedRelease status (summarizeDeliveryEvidence es) blockReason) \<longleftrightarrow>
    attemptsClosedUnsent es \<and> \<not> blockReasonCarriesDeliveryUncertainty blockReason \<and>
    (status \<in> {''ENTRY_PENDING'', ''ADMISSION_BLOCKED''} \<and> \<not> (\<exists>e\<in>set es. isMarker e) \<or>
     (\<exists>e\<in>set es. ceEventType e = NOT_SENT_EVIDENCE_EVENT))"
  using assms by (rule release_rule)

definition sampleMarker :: claimEventRow where
  "sampleMarker = \<lparr>ceId = 10, ceClaimId = 1, ceEventType = ADAPTER_INVOCATION_STARTED_EVENT,
     ceEvidenceJson = adapterInvocationEvidence 4 ''c-4'', ceCreatedAt = 100\<rparr>"

definition sampleNotSent :: claimEventRow where
  "sampleNotSent = \<lparr>ceId = 12, ceClaimId = 1, ceEventType = NOT_SENT_EVIDENCE_EVENT,
     ceEvidenceJson = notSentEvidence ''NOT_SENT_LOCAL_BLOCKED'' ''ADAPTER_LOCAL_GUARD'' ''WORKER'' 4 ''guard'' None None,
     ceCreatedAt = 120\<rparr>"

lemma release_rule_exact_witness:
  "\<not> reProven (evaluateNeverSubmittedRelease ''ENTRY_SUBMITTING'' (summarizeDeliveryEvidence [sampleMarker]) None)"
  using release_rule_exact[of "[sampleMarker]" "''ENTRY_SUBMITTING''" None]
  by (simp add: attemptsClosedUnsent_def isMarker_def sampleMarker_def isRecord_def event_names)

lemma summary_of_evidence_set_witness:
  "summarizeDeliveryEvidence [sampleNotSent, sampleMarker] = summarizeDeliveryEvidence [sampleMarker, sampleNotSent]"
  using summary_of_evidence_set[of "[sampleNotSent, sampleMarker]" "[sampleMarker, sampleNotSent]"]
  by (simp add: sampleMarker_def sampleNotSent_def add_mset_commute)

text \<open>Recording that nothing was sent closes the attempt. Appending a not-sent record, as the
  writers build it, with an identifier after all others to the evidence of a claim whose
  earlier attempts are closed and whose newest adapter invocation may still be open makes
  the claim releasable, in every claim status, unless the block reason is uncertain.\<close>
lemma not_sent_record_enables_release:
  assumes "distinct (map ceId es)" and "\<forall>e\<in>set es. ceId e < n"
    and "classification \<in> {''NOT_SENT_PRE_DISPATCH'', ''NOT_SENT_LOCAL_BLOCKED'', ''NOT_SENT_LOCAL_RETRYABLE''}"
    and "\<forall>e\<in>set es. isRecord e \<longrightarrow> doClassification (outcomeOf e) \<in> set LOCAL_NON_SEND_CLASSIFICATIONS"
    and "\<forall>m\<in>set es. isMarker m \<longrightarrow> (\<exists>k\<in>set es. isMarker k \<and> ceId m < ceId k) \<longrightarrow>
      (\<exists>e\<in>set es. isRecord e \<and> ceId m < ceId e \<and>
         (\<forall>k\<in>set es. isMarker k \<longrightarrow> ceId m < ceId k \<longrightarrow> ceId e < ceId k))"
    and "\<not> blockReasonCarriesDeliveryUncertainty blockReason"
  shows "reProven (evaluateNeverSubmittedRelease status (summarizeDeliveryEvidence
    (es @ [\<lparr>ceId = n, ceClaimId = c, ceEventType = NOT_SENT_EVIDENCE_EVENT,
            ceEvidenceJson = notSentEvidence classification producer source i reason message p, ceCreatedAt = t\<rparr>]))
    blockReason)"
proof -
  define x where "x = \<lparr>ceId = n, ceClaimId = c, ceEventType = NOT_SENT_EVIDENCE_EVENT,
    ceEvidenceJson = notSentEvidence classification producer source i reason message p, ceCreatedAt = t\<rparr>"
  have rec: "isRecord x" "\<not> isMarker x" "ceId x = n" "ceEventType x = NOT_SENT_EVIDENCE_EVENT"
    by (simp_all add: x_def isRecord_def isMarker_def NOT_SENT_EVIDENCE_EVENT_def ADAPTER_INVOCATION_STARTED_EVENT_def)
  have "jsonGet (ceEvidenceJson x) ''classification'' = Some (JStr classification)"
    by (simp add: x_def notSentEvidence_def jsonGet_def split: option.splits)
  then have "doClassification (outcomeOf x) = classification"
    using rec(4) by (simp add: outcomeOf_def Let_def stringOr_def)
  then have cls: "doClassification (outcomeOf x) \<in> set LOCAL_NON_SEND_CLASSIFICATIONS"
    using assms(3) by (auto simp: LOCAL_NON_SEND_CLASSIFICATIONS_def)
  have "attemptsClosedUnsent (es @ [x])"
    unfolding attemptsClosedUnsent_def using assms(2,4,5) rec cls by (auto; metis)
  moreover have "distinct (map ceId (es @ [x]))" using assms(1,2) rec(3) by auto
  ultimately show ?thesis
    unfolding x_def [symmetric] using release_rule rec(4) assms(6) by auto
qed

lemma not_sent_record_enables_release_witness:
  "reProven (evaluateNeverSubmittedRelease ''ENTRY_SUBMITTING'' (summarizeDeliveryEvidence
    ([sampleMarker] @ [\<lparr>ceId = 11, ceClaimId = 1, ceEventType = NOT_SENT_EVIDENCE_EVENT,
      ceEvidenceJson = notSentEvidence ''NOT_SENT_PRE_DISPATCH'' ''WORKER_RISK_RECHECK'' ''WORKER'' 4 ''risk'' None None,
      ceCreatedAt = 110\<rparr>])) None)"
  by (rule not_sent_record_enables_release)
    (simp_all add: sampleMarker_def isMarker_def isRecord_def event_names
      blockReasonCarriesDeliveryUncertainty_def blockReasonDeliveryClassification_def unknownOutcomeReason_def)

end
