(* ===== verification/ExposureClaim.thy ===== *)
theory ExposureClaim
  imports DeliveryEvidence Store
begin

text \<open>
  \<open>src/services/entry-exposure-claim.service.ts\<close>: the claims that give one lifecycle at a time
  the entry exposure of a security in an account. The tables of the claims and of the
  evidence that a release reads extend the store. A write obeys the constraints of the
  migrations \<open>20261017120000\<close> and \<open>20261017130000\<close>: one that would break them throws and its
  transaction has no effect. Operations that hold the advisory lock of the account and
  security are atomic; the compare-and-set of a transition takes the database it read and
  the database it writes apart.
\<close>

subsection \<open>Tables\<close>

record claimRow =
  clId :: int
  clTradingAccountId :: int
  clSecurityId :: int
  clOrderIntentId :: "int option"
  clTrackedPositionId :: "int option"
  clOwnerKey :: string
  clStatus :: string
  clReleasedAt :: "int option"
  clReleaseReason :: "string option"
  clLastDiagnosedAt :: "int option"

text \<open>
  The rows that prove or suggest a broker write. A consumption is read with its decision;
  an opportunity event by its intent and its type.
\<close>

record brokerActivityRow =
  baOrderIntentId :: "int option"
  baTradingAccountId :: "int option"
  baActivityType :: string
  baSymbol :: "string option"
  baSide :: "string option"
  baTransactionTime :: "int option"
  baQty :: "jsnum option"

record dispatchDecisionRow =
  ddId :: int
  ddOutcome :: string
  ddOrderIntentId :: int
  ddTradingAccountId :: int
  ddSecurityId :: "int option"
  ddClientOrderId :: string

record dispatchConsumptionRow =
  dcId :: int
  dcOrderIntentId :: int
  dcClientOrderId :: string
  dcConsumedAt :: int
  dcDecision :: dispatchDecisionRow

record unenforcedDispatchRow =
  udId :: int
  udOrderIntentId :: int
  udClientOrderId :: string
  udTradingAccountId :: int
  udSecurityId :: int
  udBasis :: string
  udAuthorizedAt :: int

record armingTerminationRow =
  atId :: int
  atType :: string
  atOrderIntentId :: "int option"
  atClientOrderId :: "string option"
  atOccurredAt :: int

record acceptanceRunRow =
  lrId :: int
  lrTerminalAt :: "int option"
  lrExecutionClaimedAt :: "int option"
  lrExecutionUncertainAt :: "int option"
  lrExecutionFailureJson :: json

record entryDecisionRow =
  edOrderIntentId :: "int option"
  edBrokerOrderRecordId :: "int option"
  edTradingAccountId :: "int option"

record claimStore = store +
  claimTable :: "claimRow list"
  claimEventTable :: "claimEventRow list"
  brokerActivityTable :: "brokerActivityRow list"
  opportunityEventTable :: "(int \<times> string) list"
  dispatchConsumptionTable :: "dispatchConsumptionRow list"
  unenforcedDispatchTable :: "unenforcedDispatchRow list"
  armingTerminationTable :: "armingTerminationRow list"
  acceptanceRunTable :: "acceptanceRunRow list"
  entryDecisionTable :: "entryDecisionRow list"
  nextBrokerOrderId :: int
  nextClaimId :: int
  nextClaimEventId :: int

text \<open>
  The row checks: an owner, a known status, and the release fields set together with the
  status \<open>RELEASED\<close>. The table checks: the unique indexes, the partial one on unreleased
  claims among them; \<open>NULL\<close> never equals \<open>NULL\<close> in a unique index.
\<close>

definition claimRowOk :: "claimRow \<Rightarrow> bool" where
  "claimRowOk c \<longleftrightarrow>
     (clOrderIntentId c \<noteq> None \<or> clTrackedPositionId c \<noteq> None) \<and>
     isEntryExposureClaimStatus (clStatus c) \<and>
     (clReleasedAt c \<noteq> None \<longleftrightarrow> clReleaseReason c \<noteq> None) \<and>
     (clReleasedAt c \<noteq> None \<longleftrightarrow> clStatus c = ''RELEASED'')"

definition claimsClash :: "claimRow \<Rightarrow> claimRow \<Rightarrow> bool" where
  "claimsClash c d \<longleftrightarrow>
     clId c = clId d \<or> clOwnerKey c = clOwnerKey d \<or>
     (clOrderIntentId c \<noteq> None \<and> clOrderIntentId c = clOrderIntentId d) \<or>
     (clTrackedPositionId c \<noteq> None \<and> clTrackedPositionId c = clTrackedPositionId d) \<or>
     (clReleasedAt c = None \<and> clReleasedAt d = None \<and>
      clTradingAccountId c = clTradingAccountId d \<and> clSecurityId c = clSecurityId d)"

fun claimsOk :: "claimRow list \<Rightarrow> bool" where
  "claimsOk [] = True"
| "claimsOk (c # cs) = (claimRowOk c \<and> \<not> list_ex (claimsClash c) cs \<and> claimsOk cs)"

definition constraintError :: appError where
  "constraintError = PlainError ''PrismaClientKnownRequestError'' ''Constraint failed''"

definition appendEvent :: "int \<Rightarrow> string \<Rightarrow> json \<Rightarrow> int \<Rightarrow> claimStore \<Rightarrow> claimStore" where
  "appendEvent claimId eventType evidence now db =
     db\<lparr>claimEventTable := claimEventTable db @
           [\<lparr>ceId = nextClaimEventId db, ceClaimId = claimId, ceEventType = eventType,
             ceEvidenceJson = evidence, ceCreatedAt = now\<rparr>],
        nextClaimEventId := nextClaimEventId db + 1\<rparr>"

definition insertClaim :: "claimRow \<Rightarrow> string \<Rightarrow> json \<Rightarrow> int \<Rightarrow> claimStore \<Rightarrow> (claimRow \<times> claimStore) result" where
  "insertClaim c eventType evidence now db =
     (let c' = c\<lparr>clId := nextClaimId db\<rparr>; cs = claimTable db @ [c'] in
      if claimsOk cs
      then Inr (c', appendEvent (clId c') eventType evidence now
                      (db\<lparr>claimTable := cs, nextClaimId := nextClaimId db + 1\<rparr>))
      else Inl constraintError)"

text \<open>\<open>updateMany\<close>: the number of rows updated and the database.\<close>

definition updateClaims ::
  "(claimRow \<Rightarrow> bool) \<Rightarrow> (claimRow \<Rightarrow> claimRow) \<Rightarrow> claimStore \<Rightarrow> (int \<times> claimStore) result" where
  "updateClaims P f db =
     (let cs = map (\<lambda>c. if P c then f c else c) (claimTable db) in
      if claimsOk cs then Inr (int (length (filter P (claimTable db))), db\<lparr>claimTable := cs\<rparr>)
      else Inl constraintError)"

definition findClaim :: "(claimRow \<Rightarrow> bool) \<Rightarrow> claimStore \<Rightarrow> claimRow option" where
  "findClaim P db = List.find P (claimTable db)"

definition claimById :: "int \<Rightarrow> claimStore \<Rightarrow> claimRow option" where
  "claimById i = findClaim (\<lambda>c. clId c = i)"

definition claimOfIntent :: "int \<Rightarrow> claimStore \<Rightarrow> claimRow option" where
  "claimOfIntent i = findClaim (\<lambda>c. clOrderIntentId c = Some i)"

text \<open>\<open>findFirst\<close> with an order: the first of the rows sorted by a key, or by its descent.\<close>

definition firstBy :: "('a \<Rightarrow> int) \<Rightarrow> ('a \<Rightarrow> bool) \<Rightarrow> 'a list \<Rightarrow> 'a option" where
  "firstBy key P xs = (case sort_key key (filter P xs) of [] \<Rightarrow> None | x # _ \<Rightarrow> Some x)"

definition latestEvent :: "(claimEventRow \<Rightarrow> int) \<Rightarrow> (claimEventRow \<Rightarrow> bool) \<Rightarrow> claimStore \<Rightarrow> claimEventRow option" where
  "latestEvent key P db = firstBy (\<lambda>e. - key e) P (rev (claimEventTable db))"

definition eventWhere :: "int \<Rightarrow> string \<Rightarrow> claimEventRow \<Rightarrow> bool" where
  "eventWhere claimId eventType e = (ceClaimId e = claimId \<and> ceEventType e = eventType)"

definition conflict :: "string \<Rightarrow> string \<Rightarrow> (string \<times> json) list \<Rightarrow> appError" where
  "conflict code message details = HttpError 409 message (JObj ((''code'', JStr code) # details))"

definition ACTIVE_CLAIM_POSITION_STATUSES :: "string list" where
  "ACTIVE_CLAIM_POSITION_STATUSES = [''open'', ''closing'']"

definition positionById :: "int \<Rightarrow> claimStore \<Rightarrow> trackedPositionRow option" where
  "positionById i db = List.find (\<lambda>t. tpId t = i) (trackedPositionTable db)"

definition intentById :: "int \<Rightarrow> claimStore \<Rightarrow> orderIntentRow option" where
  "intentById i db = List.find (\<lambda>o'. oiId o' = i) (orderIntentTable db)"

subsection \<open>Diagnostics\<close>

definition appendClaimDiagnostic ::
  "int \<Rightarrow> string \<Rightarrow> json \<Rightarrow> int \<Rightarrow> claimStore \<Rightarrow> (claimRow option \<times> claimStore) result" where
  "appendClaimDiagnostic claimId eventType evidence now db =
     (case claimById claimId db of
        None \<Rightarrow> Inr (None, db)
      | Some current \<Rightarrow>
        if clReleasedAt current \<noteq> None then Inr (Some current, db)
        else
          (let attemptResult = (eventType \<in> set RECOVERY_ATTEMPT_RESULT_EVENT_TYPES);
               duplicate = latestEvent ceId (\<lambda>e. ceClaimId e = claimId \<and>
                 (if attemptResult then ceEventType e \<in> set RECOVERY_ATTEMPT_RESULT_EVENT_TYPES
                  else ceEventType e = eventType)) db;
               fresh = (case duplicate of None \<Rightarrow> True
                 | Some d \<Rightarrow> ceEventType d \<noteq> eventType \<or> \<not> sameEvidence (ceEvidenceJson d) evidence);
               db' = (if fresh then appendEvent claimId eventType evidence now db else db)
           in bindR (updateClaims
                (\<lambda>c. clId c = claimId \<and> clStatus c = clStatus current \<and> clReleasedAt c = None)
                (\<lambda>c. c\<lparr>clLastDiagnosedAt := Some now\<rparr>) db')
                (\<lambda>(_, db''). Inr (Some current, db''))))"

definition markClaimUnresolved ::
  "int \<Rightarrow> string \<Rightarrow> json \<Rightarrow> int \<Rightarrow> claimStore \<Rightarrow> (claimRow option \<times> claimStore) result" where
  "markClaimUnresolved claimId eventType evidence now db =
     (case claimById claimId db of
        None \<Rightarrow> Inr (None, db)
      | Some current \<Rightarrow>
        if clReleasedAt current \<noteq> None then Inr (Some current, db)
        else
          (let duplicate = latestEvent ceCreatedAt (eventWhere claimId eventType) db in
           bindR (updateClaims
             (\<lambda>c. clId c = claimId \<and> clStatus c = clStatus current \<and> clReleasedAt c = None)
             (\<lambda>c. c\<lparr>clStatus := ''UNRESOLVED'', clLastDiagnosedAt := Some now\<rparr>) db)
             (\<lambda>(count, db').
               if count \<noteq> 1 then Inr (claimById claimId db', db')
               else
                 (let db'' = (case duplicate of
                      None \<Rightarrow> appendEvent claimId eventType evidence now db'
                    | Some d \<Rightarrow> if sameEvidence (ceEvidenceJson d) evidence then db'
                              else appendEvent claimId eventType evidence now db')
                  in Inr (claimById claimId db'', db'')))))"

definition recordMissingLocalBrokerOrderDiagnostic ::
  "int \<Rightarrow> string option \<Rightarrow> string \<Rightarrow> int \<Rightarrow> claimStore \<Rightarrow> (claimRow option \<times> claimStore) result" where
  "recordMissingLocalBrokerOrderDiagnostic orderIntentId clientOrderId intentStatus now db =
     (case claimOfIntent orderIntentId db of
        None \<Rightarrow> Inr (None, db)
      | Some claim \<Rightarrow>
        if clReleasedAt claim \<noteq> None then Inr (Some claim, db)
        else appendClaimDiagnostic (clId claim) ''SUBMITTED_ORDER_LOCAL_BROKER_ORDER_MISSING''
          (JObj [(''orderIntentId'', jInt orderIntentId), (''clientOrderId'', jOpt JStr clientOrderId),
             (''intentStatus'', JStr intentStatus), (''reconciliationRequired'', JBool True),
             (''executionAuthority'', JStr ''NONE'')]) now db)"

subsection \<open>The writers of delivery evidence\<close>

text \<open>The event references its claim: without one the insert fails.\<close>

definition createEvent :: "int \<Rightarrow> string \<Rightarrow> json \<Rightarrow> int \<Rightarrow> claimStore \<Rightarrow> (unit \<times> claimStore) result" where
  "createEvent claimId eventType evidence now db =
     (if claimById claimId db = None then Inl constraintError
      else Inr ((), appendEvent claimId eventType evidence now db))"

definition recordAdapterInvocationStarted ::
  "int \<Rightarrow> int \<Rightarrow> string \<Rightarrow> int \<Rightarrow> claimStore \<Rightarrow> (unit \<times> claimStore) result" where
  "recordAdapterInvocationStarted claimId orderIntentId clientOrderId now db =
     createEvent claimId ADAPTER_INVOCATION_STARTED_EVENT (adapterInvocationEvidence orderIntentId clientOrderId) now db"

definition appendNotSentEvidence ::
  "int \<Rightarrow> int \<Rightarrow> string \<Rightarrow> string \<Rightarrow> string \<Rightarrow> string \<Rightarrow> string option \<Rightarrow> json option \<Rightarrow> int \<Rightarrow>
   claimStore \<Rightarrow> (unit \<times> claimStore) result" where
  "appendNotSentEvidence claimId orderIntentId classification producer source reason message proof' now db =
     createEvent claimId NOT_SENT_EVIDENCE_EVENT
       (notSentEvidence classification producer source orderIntentId reason message proof') now db"

subsection \<open>Acquisition\<close>

definition unclaimedIntent :: "claimStore \<Rightarrow> int \<Rightarrow> bool" where
  "unclaimedIntent db i = (claimOfIntent i db = None)"

definition activePositionOf :: "int \<Rightarrow> int \<Rightarrow> trackedPositionRow \<Rightarrow> bool" where
  "activePositionOf account security t =
     (tpTradingAccountId t = Some account \<and> tpSecurityId t = security \<and>
      tpStatus t \<in> set ACTIVE_CLAIM_POSITION_STATUSES)"

definition preClaimIntent :: "claimStore \<Rightarrow> int \<Rightarrow> string \<Rightarrow> orderIntentRow \<Rightarrow> bool" where
  "preClaimIntent db account symbol i =
     (oiTradingAccountId i = Some account \<and> oiSymbol i = symbol \<and> oiSide i = ''buy'' \<and>
      (oiStatus i \<in> set UNRESOLVED_ORDER_INTENT_STATUSES \<or>
       oiStatus i = ''filled'' \<and> oiTrackedPositionId i = None) \<and>
      unclaimedIntent db (oiId i))"

definition preClaimBrokerBuy :: "claimStore \<Rightarrow> int \<Rightarrow> int \<Rightarrow> brokerOrderRow \<Rightarrow> bool" where
  "preClaimBrokerBuy db account security b =
     (boTradingAccountId b = Some account \<and> boSecurityId b = security \<and>
      toLowerCase (boSide b) = ''buy'' \<and> boStatus b \<in> set BROKER_ACTIVE_ENTRY_STATUSES \<and>
      unclaimedIntent db (boOrderIntentId b))"

definition activeClaimWhere :: "int \<Rightarrow> int \<Rightarrow> claimRow \<Rightarrow> bool" where
  "activeClaimWhere account security c =
     (clTradingAccountId c = account \<and> clSecurityId c = security \<and> clReleasedAt c = None)"

text \<open>The code of the conflict with an active claim of another owner.\<close>

definition activeClaimCode :: "claimStore \<Rightarrow> claimRow \<Rightarrow> string" where
  "activeClaimCode db c =
     (case Option.bind (clTrackedPositionId c) (\<lambda>p. positionById p db) of
        Some t \<Rightarrow> if tpStatus t = ''closing'' then ''POSITION_CLOSING'' else ''ALREADY_IN_POSITION''
      | None \<Rightarrow> if clStatus c = ''UNRESOLVED'' then ''ENTRY_EXPOSURE_UNRESOLVED'' else ''ENTRY_ALREADY_PENDING'')"

record acquireResult =
  aqIntent :: orderIntentRow
  aqDuplicate :: bool
  aqClaimId :: int

definition claimIntentRow :: "claimStore \<Rightarrow> claimRow \<Rightarrow> orderIntentRow option" where
  "claimIntentRow db c = Option.bind (clOrderIntentId c) (\<lambda>i. intentById i db)"

definition newEntryClaim :: "int \<Rightarrow> int \<Rightarrow> int \<Rightarrow> string \<Rightarrow> claimRow" where
  "newEntryClaim account security intent ownerKey =
     \<lparr>clId = 0, clTradingAccountId = account, clSecurityId = security, clOrderIntentId = Some intent,
      clTrackedPositionId = None, clOwnerKey = ownerKey, clStatus = ''ENTRY_PENDING'',
      clReleasedAt = None, clReleaseReason = None, clLastDiagnosedAt = None\<rparr>"

definition acquireBlock :: "claimStore \<Rightarrow> int \<Rightarrow> string \<Rightarrow> int \<Rightarrow> appError option" where
  "acquireBlock db account symbol security =
     (case List.find (activePositionOf account security) (trackedPositionTable db) of
        Some t \<Rightarrow>
          Some (conflict (if tpStatus t = ''closing'' then ''POSITION_CLOSING'' else ''ALREADY_IN_POSITION'')
            (''Entry blocked because '' @ symbol @ '' already has an active tracked position.'')
            [(''tradingAccountId'', jInt account), (''symbol'', JStr symbol), (''trackedPositionId'', jInt (tpId t)),
             (''trackedPositionStatus'', JStr (tpStatus t)), (''legacyExposureWithoutClaim'', JBool True)])
      | None \<Rightarrow>
        (case firstBy oiCreatedAt (preClaimIntent db account symbol) (orderIntentTable db) of
           Some i \<Rightarrow>
             Some (conflict ''ENTRY_EXPOSURE_UNRESOLVED''
               (''Entry blocked because '' @ symbol @ '' has unresolved pre-claim entry evidence.'')
               [(''tradingAccountId'', jInt account), (''symbol'', JStr symbol), (''orderIntentId'', jInt (oiId i)),
                (''orderIntentStatus'', JStr (oiStatus i)), (''legacyExposureWithoutClaim'', JBool True)])
         | None \<Rightarrow>
           (case firstBy boCreatedAt (preClaimBrokerBuy db account security) (brokerOrderTable db) of
              Some b \<Rightarrow>
                Some (conflict ''ENTRY_EXPOSURE_UNRESOLVED''
                  (''Entry blocked because '' @ symbol @ '' has an active pre-claim broker BUY.'')
                  [(''tradingAccountId'', jInt account), (''symbol'', JStr symbol),
                   (''brokerOrderRecordId'', jInt (boId b)), (''brokerOrderId'', JStr (boBrokerOrderId b)),
                   (''brokerOrderStatus'', JStr (boStatus b)), (''orderIntentId'', jInt (boOrderIntentId b)),
                   (''legacyExposureWithoutClaim'', JBool True)])
            | None \<Rightarrow> None)))"

definition acquireEntryExposureClaim ::
  "(claimStore \<Rightarrow> (orderIntentRow \<times> claimStore) result) \<Rightarrow> int \<Rightarrow> string \<Rightarrow> string \<Rightarrow> int \<Rightarrow>
   claimStore \<Rightarrow> (acquireResult \<times> claimStore) result" where
  "acquireEntryExposureClaim createIntent account rawSymbol ownerKey now db =
     (let symbol = toUpperCase (trim rawSymbol) in
      case List.find (\<lambda>s. secSymbol s = symbol) (securityTable db) of
        None \<Rightarrow> Inl (conflict ''SECURITY_NOT_FOUND'' (''Security '' @ symbol @ '' is not registered.'')
                  [(''symbol'', JStr symbol)])
      | Some security \<Rightarrow>
        (let proceed =
           (case findClaim (activeClaimWhere account (secId security)) db of
              Some active \<Rightarrow>
                (case (if clOwnerKey active = ownerKey then claimIntentRow db active else None) of
                   Some i \<Rightarrow> Inr (\<lparr>aqIntent = i, aqDuplicate = True, aqClaimId = clId active\<rparr>, db)
                 | None \<Rightarrow>
                   Inl (conflict (activeClaimCode db active)
                     (''Entry exposure for '' @ symbol @ '' is already owned by another lifecycle.'')
                     [(''tradingAccountId'', jInt account), (''symbol'', JStr symbol), (''claimId'', jInt (clId active)),
                      (''claimStatus'', JStr (clStatus active)), (''orderIntentId'', jOpt jInt (clOrderIntentId active)),
                      (''trackedPositionId'', jOpt jInt (clTrackedPositionId active))]))
            | None \<Rightarrow>
              (case acquireBlock db account symbol (secId security) of
                 Some e \<Rightarrow> Inl e
               | None \<Rightarrow>
                 bindR (createIntent db) (\<lambda>(intent, db').
                 bindR (insertClaim (newEntryClaim account (secId security) (oiId intent) ownerKey) ''ACQUIRED''
                          (JObj [(''orderIntentId'', jInt (oiId intent)), (''symbol'', JStr symbol)]) now db')
                   (\<lambda>(claim, db''). Inr (\<lparr>aqIntent = intent, aqDuplicate = False, aqClaimId = clId claim\<rparr>, db'')))))
         in case findClaim (\<lambda>c. clOwnerKey c = ownerKey) db of
              None \<Rightarrow> proceed
            | Some prior \<Rightarrow>
              (case claimIntentRow db prior of
                 Some i \<Rightarrow> Inr (\<lparr>aqIntent = i, aqDuplicate = True, aqClaimId = clId prior\<rparr>, db)
               | None \<Rightarrow> proceed)))"

subsection \<open>Requirements at the broker boundary\<close>

definition requireEntryExposureClaim :: "int \<Rightarrow> bool \<Rightarrow> claimStore \<Rightarrow> claimRow result" where
  "requireEntryExposureClaim orderIntentId allowUnresolved db =
     (let refuse = (\<lambda>c. Inl (conflict ''ENTRY_EXPOSURE_UNRESOLVED'' ''Executable entry has no active exposure claim.''
            [(''orderIntentId'', jInt orderIntentId), (''claimId'', jOpt (\<lambda>d. jInt (clId d)) c),
             (''releasedAt'', jOpt JDate (Option.bind c clReleasedAt))]))
      in case claimOfIntent orderIntentId db of
           None \<Rightarrow> refuse None
         | Some claim \<Rightarrow>
           if clReleasedAt claim \<noteq> None then refuse (Some claim)
           else if clStatus claim = ''UNRESOLVED'' \<and> \<not> allowUnresolved then
             Inl (conflict ''ENTRY_EXPOSURE_UNRESOLVED''
               ''Entry exposure ownership is unresolved and cannot cross the broker boundary.''
               [(''orderIntentId'', jInt orderIntentId), (''claimId'', jInt (clId claim)),
                (''claimStatus'', JStr (clStatus claim))])
           else Inr claim)"

definition environmentOf :: "claimStore \<Rightarrow> orderIntentRow \<Rightarrow> string option" where
  "environmentOf db i =
     Option.bind (oiTradingAccountId i) (\<lambda>a. map_option taEnvironment (List.find (\<lambda>t. taId t = a) (tradingAccountTable db)))"

text \<open>The named mismatches, in the order of the object; an absent intent makes its fields \<open>undefined\<close>.\<close>

definition boundaryMismatches ::
  "claimStore \<Rightarrow> claimRow \<Rightarrow> orderIntentRow option \<Rightarrow> int \<Rightarrow> string \<Rightarrow> string \<Rightarrow> (string \<times> bool) list" where
  "boundaryMismatches db claim intent account symbol clientOrderId =
     (let security = List.find (\<lambda>s. secSymbol s = toUpperCase (trim symbol)) (securityTable db) in
      [(''intentMissing'', intent = None),
       (''account'', Option.bind intent oiTradingAccountId \<noteq> Some account \<or> clTradingAccountId claim \<noteq> account),
       (''security'', security = None \<or> clSecurityId claim \<noteq> secId (the security)),
       (''symbol'', map_option (\<lambda>i. toUpperCase (trim (oiSymbol i))) intent \<noteq> Some (toUpperCase (trim symbol))),
       (''side'', map_option (\<lambda>i. toLowerCase (trim (oiSide i))) intent \<noteq> Some ''buy''),
       (''clientOrderId'', Option.bind intent oiClientOrderId \<noteq> Some clientOrderId),
       (''intentStatus'', map_option oiStatus intent \<noteq> Some ''submitting''),
       (''claimStatus'', clStatus claim \<noteq> ''ENTRY_SUBMITTING''),
       (''environment'', Option.bind intent (environmentOf db) \<notin> {Some ''PAPER'', Some ''LIVE''})])"

definition requireExecutableEntryExposureClaim ::
  "int \<Rightarrow> int \<Rightarrow> string \<Rightarrow> string \<Rightarrow> claimStore \<Rightarrow> (claimRow \<times> orderIntentRow) result" where
  "requireExecutableEntryExposureClaim orderIntentId account symbol clientOrderId db =
     bindR (requireEntryExposureClaim orderIntentId False db) (\<lambda>claim.
       let intent = intentById orderIntentId db;
           mismatches = boundaryMismatches db claim intent account symbol clientOrderId
       in if list_ex snd mismatches then
            Inl (conflict ''ENTRY_EXPOSURE_IDENTITY_MISMATCH''
              ''Entry broker-boundary identity does not match its active claim.''
              [(''orderIntentId'', jInt orderIntentId), (''claimId'', jInt (clId claim)),
               (''mismatches'', JObj (map (\<lambda>(k, b). (k, JBool b)) mismatches)),
               (''expectedTradingAccountId'', jInt account),
               (''expectedSymbol'', JStr (toUpperCase (trim symbol))),
               (''expectedClientOrderId'', JStr clientOrderId)])
          else Inr (claim, the intent))"

subsection \<open>Transitions\<close>

text \<open>
  \<open>observed\<close> is the database of the first reads, \<open>db\<close> the one of the writes; between them
  other transactions may have changed the claim.
\<close>

definition transitionEntryExposureClaim ::
  "int \<Rightarrow> string \<Rightarrow> string \<Rightarrow> json option \<Rightarrow> int \<Rightarrow> claimStore \<Rightarrow> claimStore \<Rightarrow>
   (claimRow option \<times> claimStore) result" where
  "transitionEntryExposureClaim orderIntentId status eventType evidence now observed db =
     bindR (requireEntryExposureClaim orderIntentId True observed) (\<lambda>claim.
       let ev = (case evidence of None \<Rightarrow> JObj [] | Some e \<Rightarrow> e) in
       if \<not> isEntryExposureClaimStatus status then
         Inl (conflict ''INVALID_ENTRY_EXPOSURE_TRANSITION'' ''Unknown entry exposure claim status.''
           [(''claimId'', jInt (clId claim)), (''currentStatus'', JStr (clStatus claim)), (''requestedStatus'', JStr status)])
       else if clStatus claim = status then
         (case latestEvent ceCreatedAt (eventWhere (clId claim) eventType) observed of
            Some prior \<Rightarrow>
              if sameEvidence (ceEvidenceJson prior) ev then Inr (Some claim, db)
              else (let db' = appendEvent (clId claim) eventType ev now db in Inr (claimById (clId claim) db', db'))
          | None \<Rightarrow> (let db' = appendEvent (clId claim) eventType ev now db in Inr (claimById (clId claim) db', db')))
       else if \<not> canTransitionEntryExposureClaim (clStatus claim) status then
         Inl (conflict ''INVALID_ENTRY_EXPOSURE_TRANSITION'' ''Entry exposure claim transition is not permitted.''
           [(''claimId'', jInt (clId claim)), (''currentStatus'', JStr (clStatus claim)), (''requestedStatus'', JStr status),
            (''recoveryRequired'', JBool (clStatus claim = ''UNRESOLVED''))])
       else
         bindR (updateClaims (\<lambda>c. clId c = clId claim \<and> clStatus c = clStatus claim \<and> clReleasedAt c = None)
                  (\<lambda>c. c\<lparr>clStatus := status\<rparr>) db) (\<lambda>(count, db').
           if count \<noteq> 1 then
             (case claimById (clId claim) db' of
                None \<Rightarrow> Inr (None, db')
              | Some current \<Rightarrow>
                if clReleasedAt current \<noteq> None \<or> clStatus current = ''UNRESOLVED'' then Inr (Some current, db')
                else Inl (conflict ''ENTRY_EXPOSURE_STALE_TRANSITION''
                  ''Entry exposure changed before this observation could be applied.''
                  [(''claimId'', jInt (clId claim)), (''observedStatus'', JStr (clStatus claim)),
                   (''currentStatus'', JStr (clStatus current)), (''requestedStatus'', JStr status)]))
           else (let db'' = appendEvent (clId claim) eventType ev now db' in Inr (claimById (clId claim) db'', db''))))"

subsection \<open>Release of an unsubmitted claim\<close>

definition releaseEvidenceCounts :: "claimStore \<Rightarrow> int \<Rightarrow> (string \<times> int) list" where
  "releaseEvidenceCounts db i =
     [(''brokerOrders'', int (length (filter (\<lambda>b. boOrderIntentId b = i) (brokerOrderTable db)))),
      (''brokerActivities'', int (length (filter (\<lambda>a. baOrderIntentId a = Some i) (brokerActivityTable db)))),
      (''brokerDispatchEvidence'', int (length (filter (\<lambda>(j, t). j = i \<and>
          t \<in> set [''ADAPTER_DISPATCH_REACHED'', ''BROKER_RESPONSE_CONFIRMED'', ''BROKER_REJECTED'',
                   ''DELIVERY_UNCERTAIN'', ''RECOVERY_FOUND'']) (opportunityEventTable db)))),
      (''dispatchConsumptions'', int (length (filter (\<lambda>d. dcOrderIntentId d = i) (dispatchConsumptionTable db)))),
      (''unenforcedDispatches'', int (length (filter (\<lambda>d. udOrderIntentId d = i) (unenforcedDispatchTable db)))),
      (''liveArmingConsumptions'', int (length (filter (\<lambda>t. atOrderIntentId t = Some i \<and> atType t = ''CONSUMED'')
          (armingTerminationTable db))))]"

definition deliveryEventsOf :: "claimStore \<Rightarrow> int \<Rightarrow> claimEventRow list" where
  "deliveryEventsOf db claimId =
     sort_key ceId (filter (\<lambda>e. ceClaimId e = claimId \<and> ceEventType e \<in> set DELIVERY_EVIDENCE_EVENT_TYPES)
       (claimEventTable db))"

definition claimPosition :: "claimStore \<Rightarrow> claimRow \<Rightarrow> trackedPositionRow option" where
  "claimPosition db c = Option.bind (clTrackedPositionId c) (\<lambda>p. positionById p db)"

definition neverSubmittedEvidence :: "claimStore \<Rightarrow> claimRow \<Rightarrow> releaseEvidence" where
  "neverSubmittedEvidence db claim =
     evaluateNeverSubmittedRelease (clStatus claim) (summarizeDeliveryEvidence (deliveryEventsOf db (clId claim)))
       (Option.bind (claimIntentRow db claim) oiBlockReason)"

definition releaseRefused :: "claimStore \<Rightarrow> int \<Rightarrow> claimRow \<Rightarrow> bool" where
  "releaseRefused db i claim \<longleftrightarrow>
     list_ex (\<lambda>(_, n). 0 < n) (releaseEvidenceCounts db i) \<or>
     \<not> reProven (neverSubmittedEvidence db claim) \<or>
     (case claimPosition db claim of None \<Rightarrow> False | Some p \<Rightarrow> tpStatus p \<noteq> ''closed'')"

definition releaseUnsubmittedEntryExposureClaim ::
  "int \<Rightarrow> string \<Rightarrow> int \<Rightarrow> claimStore \<Rightarrow> (claimRow option \<times> claimStore) result" where
  "releaseUnsubmittedEntryExposureClaim orderIntentId reason now db =
     (case claimOfIntent orderIntentId db of
        None \<Rightarrow> Inr (None, db)
      | Some claim \<Rightarrow>
        if clReleasedAt claim \<noteq> None then Inr (Some claim, db)
        else if clStatus claim \<notin> set [''ENTRY_PENDING'', ''ENTRY_SUBMITTING'', ''ADMISSION_BLOCKED''] then
          Inl (conflict ''ENTRY_EXPOSURE_UNRESOLVED''
            ''A broker-exposed claim cannot be released by the admission path.''
            [(''orderIntentId'', jInt orderIntentId), (''claimId'', jInt (clId claim)),
             (''claimStatus'', JStr (clStatus claim))])
        else
          (let blockReason = Option.bind (claimIntentRow db claim) oiBlockReason;
               summary = summarizeDeliveryEvidence (deliveryEventsOf db (clId claim));
               evidence = neverSubmittedEvidence db claim
           in if releaseRefused db orderIntentId claim then
                Inl (conflict ''ENTRY_EXPOSURE_UNRESOLVED''
                  ''Claim has broker, position or uncertain delivery evidence, or lacks recorded not-sent evidence, and cannot be released as unsubmitted.''
                  ([(''orderIntentId'', jInt orderIntentId), (''claimId'', jInt (clId claim)),
                    (''claimStatus'', JStr (clStatus claim))] @ map (\<lambda>(k, n). (k, jInt n)) (releaseEvidenceCounts db orderIntentId) @
                   [(''trackedPositionStatus'', jOpt (\<lambda>p. JStr (tpStatus p)) (claimPosition db claim)),
                    (''blockReasonClassification'', jOpt JStr (blockReasonDeliveryClassification blockReason)),
                    (''recordedClassifications'', JArr (map (\<lambda>x. JStr (doClassification x)) (dsOutcomes summary))),
                    (''notSentEvidenceBlocker'', jOpt JStr (reBlocker evidence))]))
              else
                bindR (updateClaims
                  (\<lambda>c. clId c = clId claim \<and> clStatus c = clStatus claim \<and> clReleasedAt c = None)
                  (\<lambda>c. c\<lparr>clStatus := ''RELEASED'', clReleasedAt := Some now, clReleaseReason := Some reason\<rparr>) db)
                  (\<lambda>(count, db').
                    if count \<noteq> 1 then Inr (claimById (clId claim) db', db')
                    else (let db'' = appendEvent (clId claim) ''RELEASED_NO_BROKER_EXPOSURE''
                                (JObj [(''reason'', JStr reason), (''notSentBasis'', jOpt JStr (reBasis evidence))]) now db'
                          in Inr (claimById (clId claim) db'', db'')))))"

definition releasedByThisCall :: "claimRow option \<Rightarrow> string \<Rightarrow> bool" where
  "releasedByThisCall claim reason =
     (case claim of None \<Rightarrow> False | Some c \<Rightarrow> clReleasedAt c \<noteq> None \<and> clReleaseReason c = Some reason)"

subsection \<open>Attachment of a position\<close>

definition positionClaim :: "int \<Rightarrow> int \<Rightarrow> int \<Rightarrow> int \<Rightarrow> claimRow" where
  "positionClaim account security position now =
     \<lparr>clId = 0, clTradingAccountId = account, clSecurityId = security, clOrderIntentId = None,
      clTrackedPositionId = Some position,
      clOwnerKey = ''broker-position:'' @ showInt account @ '':'' @ showInt position,
      clStatus = ''UNRESOLVED'', clReleasedAt = None, clReleaseReason = None, clLastDiagnosedAt = Some now\<rparr>"

definition attachEntryExposureClaimToPosition ::
  "int \<Rightarrow> int \<Rightarrow> int \<Rightarrow> string \<Rightarrow> int option \<Rightarrow> int \<Rightarrow> claimStore \<Rightarrow> (claimRow option \<times> claimStore) result" where
  "attachEntryExposureClaimToPosition account security position symbol expectedIntent now db =
     (case findClaim (activeClaimWhere account security) db of
        None \<Rightarrow>
          bindR (insertClaim (positionClaim account security position now) ''OBSERVED_UNATTRIBUTED_BROKER_POSITION''
            (JObj [(''trackedPositionId'', jInt position), (''symbol'', JStr symbol)]) now db)
            (\<lambda>(c, db'). Inr (Some c, db'))
      | Some active \<Rightarrow>
        (let identity = [(''tradingAccountId'', jInt account), (''securityId'', jInt security), (''symbol'', JStr symbol)];
             evidence = JObj ([(''claimedTrackedPositionId'', jOpt jInt (clTrackedPositionId active)),
                (''observedTrackedPositionId'', jInt position)] @ identity)
         in if expectedIntent \<noteq> None \<and> clOrderIntentId active \<noteq> expectedIntent then
              markClaimUnresolved (clId active) ''POSITION_ATTACHMENT_ORDER_INTENT_CONFLICT''
                (JObj ([(''claimedOrderIntentId'', jOpt jInt (clOrderIntentId active)),
                   (''observedOrderIntentId'', jOpt jInt expectedIntent),
                   (''observedTrackedPositionId'', jInt position)] @ identity)) now db
            else if clStatus active = ''UNRESOLVED'' then
              (let prior = latestEvent ceCreatedAt (eventWhere (clId active) ''POSITION_ATTACHMENT_CONFLICT'') db in
               if (case prior of None \<Rightarrow> True | Some e \<Rightarrow> \<not> sameEvidence (ceEvidenceJson e) evidence) then
                 bindR (updateClaims (\<lambda>c. clId c = clId active) (\<lambda>c. c\<lparr>clLastDiagnosedAt := Some now\<rparr>) db)
                   (\<lambda>(_, db'). let db'' = appendEvent (clId active) ''POSITION_ATTACHMENT_CONFLICT'' evidence now db'
                              in Inr (claimById (clId active) db'', db''))
               else Inr (Some active, db))
            else if clTrackedPositionId active = Some position \<and> clStatus active = ''POSITION_OPEN'' then
              Inr (Some active, db)
            else if clTrackedPositionId active \<noteq> None \<and> clTrackedPositionId active \<noteq> Some position then
              bindR (updateClaims (\<lambda>c. clId c = clId active)
                (\<lambda>c. c\<lparr>clStatus := ''UNRESOLVED'', clLastDiagnosedAt := Some now\<rparr>) db)
                (\<lambda>(_, db'). let db'' = appendEvent (clId active) ''POSITION_ATTACHMENT_CONFLICT'' evidence now db'
                           in Inr (claimById (clId active) db'', db''))
            else
              bindR (updateClaims
                (\<lambda>c. clId c = clId active \<and> clStatus c = clStatus active \<and>
                     clTrackedPositionId c = clTrackedPositionId active \<and> clReleasedAt c = None)
                (\<lambda>c. c\<lparr>clTrackedPositionId := Some position, clStatus := ''POSITION_OPEN''\<rparr>) db)
                (\<lambda>(count, db').
                  if count \<noteq> 1 then
                    Inl (conflict ''ENTRY_EXPOSURE_STALE_TRANSITION''
                      ''Entry exposure changed before position attachment completed.''
                      [(''claimId'', jInt (clId active)), (''observedStatus'', JStr (clStatus active)),
                       (''observedTrackedPositionId'', jOpt jInt (clTrackedPositionId active))])
                  else (let db'' = appendEvent (clId active) ''POSITION_ATTACHED''
                              (JObj [(''trackedPositionId'', jInt position)]) now db'
                        in Inr (claimById (clId active) db'', db'')))))"

end
