(* ===== verification/Actions.thy ===== *)
theory Actions
  imports JsText
begin

text \<open>
  Actions: functions of a state that throw or return, with the state they leave; the errors
  of the services that write to the broker, and the failures of a database call.
\<close>

subsection \<open>Errors\<close>

datatype writeClassification = NOT_SENT_RETRYABLE | NOT_SENT_BLOCKED | BROKER_REJECTED | DELIVERY_UNCERTAIN

text \<open>
  The errors that the callers tell apart: a refusal of the guard with its outcome, reason,
  decision and diagnostic,
  a dispatch record whose acknowledgement was lost, a classified failure of a broker write,
  any other error; and the death of the process, which runs no handler.
\<close>

datatype entryError =
    Failure appError
  | DispatchRefused string string "int option" "string option"
  | DispatchRecordedNotSent string int
  | BrokerWriteDeliveryError writeClassification "int option" string
  | ProcessDied

text \<open>\<open>getBrokerWriteDeliveryClassification\<close>, with the text of a classification.\<close>

fun writeClassificationText :: "writeClassification \<Rightarrow> string" where
  "writeClassificationText NOT_SENT_RETRYABLE = ''NOT_SENT_RETRYABLE''"
| "writeClassificationText NOT_SENT_BLOCKED = ''NOT_SENT_BLOCKED''"
| "writeClassificationText BROKER_REJECTED = ''BROKER_REJECTED''"
| "writeClassificationText DELIVERY_UNCERTAIN = ''DELIVERY_UNCERTAIN''"

fun getBrokerWriteDeliveryClassification :: "entryError \<Rightarrow> writeClassification option" where
  "getBrokerWriteDeliveryClassification (BrokerWriteDeliveryError c status message) = Some c"
| "getBrokerWriteDeliveryClassification _ = None"

text \<open>A text that JavaScript takes as true.\<close>

definition given :: "string option \<Rightarrow> bool" where
  "given s = (s \<noteq> None \<and> s \<noteq> Some [])"

fun failureText :: "entryError \<Rightarrow> string" where
  "failureText (Failure (HttpError status message details)) = message"
| "failureText (Failure (PlainError name message)) = message"
| "failureText (DispatchRefused outcome reasonCode decision diagnostic) =
     ''Broker-time market policy refused the entry dispatch ('' @ outcome @ '': '' @ reasonCode @ '')'' @
     (if given diagnostic then '': '' @ the diagnostic else []) @ ''.''"
| "failureText (DispatchRecordedNotSent record' i) =
     ''A '' @ record' @ '' for this entry already committed; no further POST is permitted and this attempt did not invoke the adapter.''"
| "failureText (BrokerWriteDeliveryError c status message) = message"
| "failureText ProcessDied = []"

fun errorName :: "entryError \<Rightarrow> string" where
  "errorName (Failure (HttpError status message details)) = ''HttpError''"
| "errorName (Failure (PlainError name message)) = name"
| "errorName (DispatchRefused outcome reasonCode decision diagnostic) = ''MarketPolicyBrokerDispatchRefusedError''"
| "errorName (DispatchRecordedNotSent record' i) = ''EntryDispatchRecordedNotSentError''"
| "errorName (BrokerWriteDeliveryError c status message) = ''BrokerWriteDeliveryError''"
| "errorName ProcessDied = []"

subsection \<open>Actions\<close>

datatype fault = BeforeCommit entryError | AfterCommit entryError

type_synonym ('s, 'a) run = "'s \<Rightarrow> (entryError + 'a) \<times> 's"

definition returnA :: "'a \<Rightarrow> ('s, 'a) run" where "returnA x s = (Inr x, s)"
definition throwA :: "entryError \<Rightarrow> ('s, 'a) run" where "throwA e s = (Inl e, s)"

definition bindA :: "('s, 'a) run \<Rightarrow> ('a \<Rightarrow> ('s, 'b) run) \<Rightarrow> ('s, 'b) run" where
  "bindA m f s = (case m s of (Inl e, s') \<Rightarrow> (Inl e, s') | (Inr x, s') \<Rightarrow> f x s')"

definition unlessA :: "bool \<Rightarrow> entryError \<Rightarrow> ('s, unit) run" where
  "unlessA ok e = (if ok then returnA () else throwA e)"

text \<open>A handler runs for any error but the death of the process.\<close>

definition catchA :: "('s, 'a) run \<Rightarrow> (entryError \<Rightarrow> ('s, 'a) run) \<Rightarrow> ('s, 'a) run" where
  "catchA m h s = (case m s of
       (Inl e, s') \<Rightarrow> if e = ProcessDied then (Inl e, s') else h e s'
     | (Inr x, s') \<Rightarrow> (Inr x, s'))"

lemma bindA_cases:
  assumes "bindA m f s = (r, s')"
  obtains (error) e where "m s = (Inl e, s')" "r = Inl e"
    | (continue) x s1 where "m s = (Inr x, s1)" "f x s1 = (r, s')"
  using assms by (auto simp: bindA_def split: prod.splits sum.splits)

lemma catchA_cases:
  assumes "catchA m h s = (r, s')"
  obtains (handled) e s1 where "m s = (Inl e, s1)" "e \<noteq> ProcessDied" "h e s1 = (r, s')" | (passed) "m s = (r, s')"
  using assms by (auto simp: catchA_def split: prod.splits sum.splits if_splits)

end
