(* ===== verification/BrokerBoundary.thy ===== *)
theory BrokerBoundary
  imports ExposureClaim AdaptivePolling Actions
begin

text \<open>
  The broker boundary of \<open>src/services/place-order.service.ts\<close>: \<open>submitOrderToBroker\<close>, the one
  place from which an entry order is written to the broker. Between two of its awaits other
  transactions may change the database, a database call may fail before or after it took
  effect, and the process may die; all of that is in the environment, a parameter, as are
  the broker, the market-policy guard and the best-effort observation.
\<close>

subsection \<open>Inputs, orders and the state\<close>

record brokerSubmissionInput = placeOrderInput +
  bsiOrderType :: string
  bsiTimeInForce :: string
  bsiExtendedHours :: bool
  bsiClientOrderId :: string

record alpacaOrder =
  aoId :: string
  aoClientOrderId :: string
  aoSymbol :: "string option"
  aoSide :: "string option"
  aoStatus :: string
  aoQty :: "string option"
  aoFilledQty :: "string option"
  aoReplacedBy :: "string option"

record orderPayload =
  opSymbol :: string
  opSide :: string
  opType :: string
  opTimeInForce :: string
  opQty :: "string option"
  opNotional :: "string option"
  opLimitPrice :: "string option"
  opExtendedHours :: "bool option"
  opClientOrderId :: string

record entryContext =
  ecOrderIntentId :: int
  ecTradingAccountSubscriptionId :: int
  ecSubscriptionId :: int
  ecSymbol :: string
  ecClientOrderId :: string

record brokerPost =
  bpTradingAccountId :: int
  bpPayload :: orderPayload
  bpContext :: "entryContext option"

datatype submissionPhase =
  UNCLASSIFIED | NOT_DISPATCHED | EXISTING_ORDER_FOUND | DISPATCH_STARTED | BROKER_RESPONDED

text \<open>\<open>bsPosts\<close> is what the broker has been sent, in order.\<close>

record boundaryState =
  bsDb :: claimStore
  bsPhase :: submissionPhase
  bsPosts :: "brokerPost list"
  bsCoordinator :: coordinator

record dispatchRequest =
  drOrderIntentId :: int
  drTradingAccountId :: int
  drSymbol :: string
  drClientOrderId :: string

type_synonym 'a dbAction = "claimStore \<Rightarrow> (entryError + 'a) \<times> claimStore"
type_synonym 'a action = "(boundaryState, 'a) run"

text \<open>
  \<open>beOthers k\<close> is what other transactions do before the \<open>k\<close>-th await, \<open>beFault k\<close> the failure of
  a database call there.
\<close>

record boundaryEnv =
  beOthers :: "nat \<Rightarrow> claimStore \<Rightarrow> claimStore"
  beFault :: "nat \<Rightarrow> fault option"
  beDies :: "nat \<Rightarrow> bool"
  beNow :: "nat \<Rightarrow> int"
  beLookup :: "int \<Rightarrow> string \<Rightarrow> entryError + alpacaOrder option"
  bePrepare :: "dispatchRequest \<Rightarrow> (int option \<Rightarrow> unit dbAction) dbAction"
  beCapture :: "int \<Rightarrow> claimStore \<Rightarrow> int option \<times> claimStore"
  beObserve :: "int option \<Rightarrow> int option \<Rightarrow> string \<Rightarrow> claimStore \<Rightarrow> claimStore"
  bePost :: "brokerPost \<Rightarrow> entryError + alpacaOrder"

subsection \<open>Actions\<close>

definition setPhase :: "submissionPhase \<Rightarrow> unit action" where
  "setPhase p s = (Inr (), s\<lparr>bsPhase := p\<rparr>)"

definition dbStep :: "boundaryEnv \<Rightarrow> nat \<Rightarrow> 'a dbAction \<Rightarrow> 'a action" where
  "dbStep env k f s =
     (let db = beOthers env k (bsDb s) in
      case beFault env k of
        Some (BeforeCommit e) \<Rightarrow> (Inl e, s\<lparr>bsDb := db\<rparr>)
      | Some (AfterCommit e) \<Rightarrow> (Inl e, s\<lparr>bsDb := snd (f db)\<rparr>)
      | None \<Rightarrow> (fst (f db), s\<lparr>bsDb := snd (f db)\<rparr>))"

definition liveStep :: "boundaryEnv \<Rightarrow> nat \<Rightarrow> unit action" where
  "liveStep env k s = (if beDies env k then (Inl ProcessDied, s) else (Inr (), s))"

definition reading :: "(claimStore \<Rightarrow> 'a result) \<Rightarrow> 'a dbAction" where
  "reading f db = (case f db of Inl e \<Rightarrow> (Inl (Failure e), db) | Inr x \<Rightarrow> (Inr x, db))"

definition transaction :: "(claimStore \<Rightarrow> ('a \<times> claimStore) result) \<Rightarrow> 'a dbAction" where
  "transaction f db = (case f db of Inl e \<Rightarrow> (Inl (Failure e), db) | Inr (x, db') \<Rightarrow> (Inr x, db'))"

text \<open>A best-effort observation: it never fails, but the process may die during it.\<close>

definition observe :: "boundaryEnv \<Rightarrow> nat \<Rightarrow> int option \<Rightarrow> int option \<Rightarrow> string \<Rightarrow> unit action" where
  "observe env k opportunity intent eventType s =
     liveStep env k (s\<lparr>bsDb := beObserve env opportunity intent eventType (beOthers env k (bsDb s))\<rparr>)"

definition post :: "boundaryEnv \<Rightarrow> brokerPost \<Rightarrow> alpacaOrder action" where
  "post env p s = (bePost env p, s\<lparr>bsPosts := bsPosts s @ [p]\<rparr>)"

subsection \<open>The boundary\<close>

definition isEntrySubscriptionOrder :: "'a placeOrderInput_scheme \<Rightarrow> bool" where
  "isEntrySubscriptionOrder input =
     (poSubscriptionId input \<noteq> None \<and> poTradingAccountSubscriptionId input \<noteq> None \<and>
      poSide input = ''buy'' \<and> nullish (poSignalType input) ''entry'' = ''entry'')"

definition assertExistingEntryOrderIdentity :: "alpacaOrder \<Rightarrow> string \<Rightarrow> string \<Rightarrow> entryError option" where
  "assertExistingEntryOrderIdentity order clientOrderId symbol =
     (let mismatches =
            (if aoClientOrderId order \<noteq> clientOrderId then [''clientOrderId''] else []) @
            (if map_option (\<lambda>s. toUpperCase (trim s)) (aoSymbol order) \<noteq> Some (toUpperCase (trim symbol)) then [''symbol''] else []) @
            (if map_option (\<lambda>s. toLowerCase (trim s)) (aoSide order) \<noteq> Some ''buy'' then [''side''] else [])
      in if mismatches \<noteq> [] then
           Some (Failure (conflict ''EXISTING_BROKER_ORDER_IDENTITY_MISMATCH''
             ''Broker order found by stable client order ID does not match the entry identity.''
             [(''mismatches'', JArr (map JStr mismatches)), (''brokerOrderId'', JStr (aoId order))]))
         else None)"

definition DISPATCH_OPPORTUNITY_EVENT_TYPES :: "string list" where
  "DISPATCH_OPPORTUNITY_EVENT_TYPES =
     [''ADAPTER_DISPATCH_REACHED'', ''BROKER_RESPONSE_CONFIRMED'', ''BROKER_REJECTED'', ''DELIVERY_UNCERTAIN'']"

text \<open>The four counts of local evidence that an order may have been sent.\<close>

definition localDispatchEvidence :: "claimStore \<Rightarrow> int \<Rightarrow> (string \<times> int) list" where
  "localDispatchEvidence db i =
     [(''consumptions'', int (length (filter (\<lambda>d. dcOrderIntentId d = i) (dispatchConsumptionTable db)))),
      (''unenforcedDispatches'', int (length (filter (\<lambda>d. udOrderIntentId d = i) (unenforcedDispatchTable db)))),
      (''dispatchEvents'', int (length (filter (\<lambda>(j, t). j = i \<and> t \<in> set DISPATCH_OPPORTUNITY_EVENT_TYPES)
          (opportunityEventTable db)))),
      (''brokerOrders'', int (length (filter (\<lambda>b. boOrderIntentId b = i) (brokerOrderTable db))))]"

definition assertNoLocalEntryDispatchEvidence :: "int \<Rightarrow> claimStore \<Rightarrow> unit result" where
  "assertNoLocalEntryDispatchEvidence i db =
     (let counts = localDispatchEvidence db i in
      if list_ex (\<lambda>(_, n). n \<noteq> 0) counts then
        Inl (conflict ''PRIOR_ENTRY_DISPATCH_EVIDENCE''
          ''Entry has prior dispatch evidence; a missing broker lookup result is not proof of non-delivery.''
          ((''orderIntentId'', jInt i) # map (\<lambda>(k, n). (k, jInt n)) counts))
      else Inr ())"

definition entryPayload :: "brokerSubmissionInput \<Rightarrow> orderPayload" where
  "entryPayload input =
     \<lparr>opSymbol = poSymbol input, opSide = poSide input, opType = bsiOrderType input,
      opTimeInForce = bsiTimeInForce input, opQty = map_option numberText (poQty input),
      opNotional = map_option numberText (poNotional input), opLimitPrice = map_option numberText (poLimitPrice input),
      opExtendedHours = (if bsiExtendedHours input then Some True else None),
      opClientOrderId = bsiClientOrderId input\<rparr>"

definition entryPost :: "brokerSubmissionInput \<Rightarrow> int \<Rightarrow> int \<Rightarrow> brokerPost" where
  "entryPost input account intent =
     \<lparr>bpTradingAccountId = account, bpPayload = entryPayload input,
      bpContext =
        (if isEntrySubscriptionOrder input then
           Some \<lparr>ecOrderIntentId = intent, ecTradingAccountSubscriptionId = the (poTradingAccountSubscriptionId input),
             ecSubscriptionId = the (poSubscriptionId input), ecSymbol = poSymbol input,
             ecClientOrderId = bsiClientOrderId input\<rparr>
         else None)\<rparr>"

text \<open>The opportunity event that a failed adapter call leaves.\<close>

definition failureEventType :: "entryError \<Rightarrow> string" where
  "failureEventType e =
     (case getBrokerWriteDeliveryClassification e of
        Some BROKER_REJECTED \<Rightarrow> ''BROKER_REJECTED''
      | Some NOT_SENT_BLOCKED \<Rightarrow> ''DEFINITELY_NOT_SENT''
      | Some NOT_SENT_RETRYABLE \<Rightarrow> ''DEFERRED''
      | _ \<Rightarrow> ''DELIVERY_UNCERTAIN'')"

text \<open>The adapter call with its handler.\<close>

definition adapterCall :: "boundaryEnv \<Rightarrow> int option \<Rightarrow> brokerPost \<Rightarrow> alpacaOrder action" where
  "adapterCall env opportunity p =
     (\<lambda>s. case post env p s of
        (Inl e, s') \<Rightarrow>
          if e = ProcessDied then (Inl e, s')
          else bindA (observe env 8 opportunity None (failureEventType e)) (\<lambda>_. throwA e) s'
      | (Inr created, s') \<Rightarrow> (Inr created, s'))"

text \<open>
  From the confirmed absence of the order on: the guard, the final authorization and the
  durable marker, none of which sends anything; then the adapter and what follows its answer.
\<close>

definition authorizeEntry ::
  "boundaryEnv \<Rightarrow> brokerSubmissionInput \<Rightarrow> int \<Rightarrow> int \<Rightarrow> claimRow \<Rightarrow> int option action" where
  "authorizeEntry env input account intent claim =
     bindA (dbStep env 3 (bePrepare env \<lparr>drOrderIntentId = intent, drTradingAccountId = account,
         drSymbol = poSymbol input, drClientOrderId = bsiClientOrderId input\<rparr>)) (\<lambda>authorizeDispatch.
     bindA (dbStep env 4 (\<lambda>db. case beCapture env intent db of (o', db') \<Rightarrow> (Inr o', db'))) (\<lambda>opportunity.
     bindA (dbStep env 5 (authorizeDispatch opportunity)) (\<lambda>_.
     bindA (dbStep env 6 (transaction (recordAdapterInvocationStarted (clId claim) intent (bsiClientOrderId input) (beNow env 6)))) (\<lambda>_.
     returnA opportunity))))"

definition sendEntry ::
  "boundaryEnv \<Rightarrow> brokerSubmissionInput \<Rightarrow> int \<Rightarrow> int \<Rightarrow> int option \<Rightarrow> (bool \<times> alpacaOrder) action" where
  "sendEntry env input account intent opportunity =
     bindA (setPhase DISPATCH_STARTED) (\<lambda>_.
     bindA (observe env 7 opportunity None ''ADAPTER_DISPATCH_REACHED'') (\<lambda>_.
     bindA (adapterCall env opportunity (entryPost input account intent)) (\<lambda>created.
     bindA (setPhase BROKER_RESPONDED) (\<lambda>_.
     bindA (observe env 9 opportunity None ''BROKER_RESPONSE_CONFIRMED'') (\<lambda>_.
     bindA (observe env 10 opportunity None ''BROKER_ORDER_MATERIALIZED'') (\<lambda>_.
     bindA (\<lambda>s. (Inr (), s\<lparr>bsCoordinator :=
         forceAfterBrokerOrderCreated (bsCoordinator s) account BrokerOrderCreated (beNow env 10)\<rparr>)) (\<lambda>_.
     returnA (False, created))))))))"

definition submitOrderToBroker ::
  "boundaryEnv \<Rightarrow> brokerSubmissionInput \<Rightarrow> int \<Rightarrow> int \<Rightarrow> (bool \<times> alpacaOrder) action" where
  "submitOrderToBroker env input account intent =
     bindA (setPhase UNCLASSIFIED) (\<lambda>_.
     bindA (unlessA (bsiClientOrderId input \<noteq> [])
       (Failure (HttpError 500 ''Cannot submit broker order without a stable clientOrderId.'' JNull))) (\<lambda>_.
     bindA (unlessA (poSide input = ''buy'' \<and> nullish (poSignalType input) ''entry'' = ''entry'')
       (Failure (HttpError 400 ''The entry broker boundary accepts BUY entry orders only.'' JNull))) (\<lambda>_.
     bindA (dbStep env 0 (reading (requireExecutableEntryExposureClaim intent account (poSymbol input) (bsiClientOrderId input)))) (\<lambda>executable.
     bindA (\<lambda>s. (beLookup env account (bsiClientOrderId input), s)) (\<lambda>existing.
     case existing of
       Some order \<Rightarrow>
         bindA (setPhase EXISTING_ORDER_FOUND) (\<lambda>_.
         case assertExistingEntryOrderIdentity order (bsiClientOrderId input) (poSymbol input) of
           Some e \<Rightarrow> throwA e
         | None \<Rightarrow>
           bindA (observe env 1 None (Some intent) ''BROKER_ORDER_MATERIALIZED'') (\<lambda>_.
           returnA (True, order)))
     | None \<Rightarrow>
         bindA (dbStep env 2 (reading (assertNoLocalEntryDispatchEvidence intent))) (\<lambda>_.
         bindA (setPhase NOT_DISPATCHED) (\<lambda>_.
         bindA (authorizeEntry env input account intent (fst executable)) (\<lambda>opportunity.
         sendEntry env input account intent opportunity))))))))"

end
