(* ===== verification/OpenOrders.thy ===== *)
theory OpenOrders
  imports BrokerBoundary
begin

text \<open>
  The complete list of open BUY orders of \<open>src/integrations/alpaca/orders.adapter.ts\<close>, which
  a release of a claim relies on: the pages of the broker's book, read one after the other,
  with every order checked and the number of pages bounded. The request itself is a
  parameter; it may answer differently for each page, since the book may change in between.
\<close>

subsection \<open>Reading the pages\<close>

definition COMPLETE_OPEN_ORDER_PAGE_SIZE :: nat where "COMPLETE_OPEN_ORDER_PAGE_SIZE = 500"
definition COMPLETE_OPEN_ORDER_MAX_PAGES :: nat where "COMPLETE_OPEN_ORDER_MAX_PAGES = 20"

lemmas page_limits = COMPLETE_OPEN_ORDER_PAGE_SIZE_def COMPLETE_OPEN_ORDER_MAX_PAGES_def

record openOrderQuery =
  oqStatus :: string
  oqDirection :: string
  oqLimit :: nat
  oqSide :: string
  oqSymbols :: "string option"
  oqBeforeOrderId :: "string option"

text \<open>
  What a request gives: an error, something that is not an array (\<open>None\<close>), or an array with
  orders or \<open>null\<close>. A missing id or status is the empty text; the code treats both alike.
\<close>

type_synonym openOrderPage = "entryError + alpacaOrder option list option"

definition evidenceError :: "string \<Rightarrow> entryError" where
  "evidenceError message = Failure (PlainError ''Error'' message)"

definition pageQuery :: "string option \<Rightarrow> string option \<Rightarrow> openOrderQuery" where
  "pageQuery canonicalSymbol beforeOrderId =
     \<lparr>oqStatus = ''open'', oqDirection = ''desc'', oqLimit = COMPLETE_OPEN_ORDER_PAGE_SIZE, oqSide = ''buy'',
      oqSymbols = (if given canonicalSymbol then canonicalSymbol else None),
      oqBeforeOrderId = (if given beforeOrderId then beforeOrderId else None)\<rparr>"

definition completeRecord :: "alpacaOrder \<Rightarrow> bool" where
  "completeRecord o' = (aoId o' \<noteq> [] \<and> given (aoSymbol o') \<and> given (aoSide o') \<and> aoStatus o' \<noteq> [])"

definition requestedBuy :: "string option \<Rightarrow> alpacaOrder \<Rightarrow> bool" where
  "requestedBuy canonicalSymbol o' =
     ((given canonicalSymbol \<longrightarrow> Some (toUpperCase (trim (the (aoSymbol o')))) = canonicalSymbol) \<and>
      toLowerCase (the (aoSide o')) = ''buy'')"

text \<open>The orders of one page, added to those before it; their ids are the seen ids.\<close>

fun addPage :: "string option \<Rightarrow> alpacaOrder option list \<Rightarrow> alpacaOrder list \<Rightarrow> entryError + alpacaOrder list" where
  "addPage canonicalSymbol [] orders = Inr orders"
| "addPage canonicalSymbol (None # page) orders =
     Inl (evidenceError ''Alpaca returned an incomplete open-order record.'')"
| "addPage canonicalSymbol (Some order # page) orders =
     (if \<not> completeRecord order then Inl (evidenceError ''Alpaca returned an incomplete open-order record.'')
      else if aoId order \<in> set (map aoId orders) then
        Inl (evidenceError ''Alpaca open-order pagination repeated an order identity.'')
      else if \<not> requestedBuy canonicalSymbol order then
        Inl (evidenceError ''Alpaca open-order filtering returned a conflicting order identity.'')
      else addPage canonicalSymbol page (orders @ [order]))"

function openOrderPages ::
  "(nat \<Rightarrow> openOrderQuery \<Rightarrow> openOrderPage) \<Rightarrow> string option \<Rightarrow> nat \<Rightarrow> alpacaOrder list \<Rightarrow> string option \<Rightarrow>
   entryError + alpacaOrder list" where
  "openOrderPages request canonicalSymbol pageNumber orders beforeOrderId =
     (if pageNumber < COMPLETE_OPEN_ORDER_MAX_PAGES then
        (case request pageNumber (pageQuery canonicalSymbol beforeOrderId) of
           Inl e \<Rightarrow> Inl e
         | Inr None \<Rightarrow> Inl (evidenceError ''Alpaca returned malformed open-order evidence.'')
         | Inr (Some page) \<Rightarrow>
           (case addPage canonicalSymbol page orders of
              Inl e \<Rightarrow> Inl e
            | Inr orders' \<Rightarrow>
              if length page < COMPLETE_OPEN_ORDER_PAGE_SIZE then Inr orders'
              else
                (let nextCursor = map_option aoId (last page) in
                 if \<not> given nextCursor \<or> nextCursor = beforeOrderId then
                   Inl (evidenceError ''Alpaca open-order pagination did not advance.'')
                 else openOrderPages request canonicalSymbol (pageNumber + 1) orders' nextCursor)))
      else Inl (evidenceError ''Alpaca open-order evidence exceeded the bounded pagination limit.''))"
  by pat_completeness auto

termination
  by (relation "measure (\<lambda>(_, _, pageNumber, _, _). COMPLETE_OPEN_ORDER_MAX_PAGES - pageNumber)") auto

declare openOrderPages.simps [simp del]

definition getCompleteOpenAlpacaBuyOrders ::
  "(nat \<Rightarrow> openOrderQuery \<Rightarrow> openOrderPage) \<Rightarrow> string option \<Rightarrow> entryError + alpacaOrder list" where
  "getCompleteOpenAlpacaBuyOrders request canonicalSymbol = openOrderPages request canonicalSymbol 0 [] None"

definition getCompleteOpenAlpacaBuyOrdersForSymbol ::
  "(nat \<Rightarrow> openOrderQuery \<Rightarrow> openOrderPage) \<Rightarrow> string \<Rightarrow> entryError + alpacaOrder list" where
  "getCompleteOpenAlpacaBuyOrdersForSymbol request symbol =
     (let canonicalSymbol = toUpperCase (trim symbol) in
      if canonicalSymbol = [] then
        Inl (evidenceError ''A canonical symbol is required for complete open-order evidence.'')
      else getCompleteOpenAlpacaBuyOrders request (Some canonicalSymbol))"

subsection \<open>Every answer is checked\<close>

definition checkedOrders :: "string option \<Rightarrow> alpacaOrder list \<Rightarrow> bool" where
  "checkedOrders canonicalSymbol orders \<longleftrightarrow>
     distinct (map aoId orders) \<and> (\<forall>o'\<in>set orders. completeRecord o' \<and> requestedBuy canonicalSymbol o')"

lemma addPage_Inr:
  assumes "addPage symb page orders = Inr orders'" and "checkedOrders symb orders"
  shows "\<exists>added. page = map Some added \<and> orders' = orders @ added \<and> checkedOrders symb orders'"
  using assms
proof (induction symb page orders rule: addPage.induct)
  case (3 symb order page orders)
  then obtain added where "page = map Some added" "orders' = (orders @ [order]) @ added" "checkedOrders symb orders'"
    by (auto simp: checkedOrders_def split: if_splits)
  then show ?case by (intro exI[of _ "order # added"]) auto
qed auto

lemma addPage_checked:
  "checkedOrders symb (orders @ added) \<Longrightarrow> addPage symb (map Some added) orders = Inr (orders @ added)"
proof (induction added arbitrary: orders)
  case (Cons a added)
  then have "addPage symb (map Some added) (orders @ [a]) = Inr ((orders @ [a]) @ added)" by simp
  then show ?case using Cons.prems by (auto simp: checkedOrders_def)
qed simp

lemma openOrderPages_Inr:
  assumes "openOrderPages request symb n orders before = Inr result" and "checkedOrders symb orders"
  shows "\<exists>pages rest. result = orders @ concat pages @ rest \<and> checkedOrders symb result \<and>
    n + length pages < COMPLETE_OPEN_ORDER_MAX_PAGES \<and> length rest < COMPLETE_OPEN_ORDER_PAGE_SIZE \<and>
    (\<forall>p\<in>set pages. COMPLETE_OPEN_ORDER_PAGE_SIZE \<le> length p) \<and>
    (\<exists>q. request (n + length pages) q = Inr (Some (map Some rest)))"
  using assms
proof (induction request symb n orders before rule: openOrderPages.induct)
  case (1 request symb n orders before)
  obtain page where n: "n < COMPLETE_OPEN_ORDER_MAX_PAGES"
    and page: "request n (pageQuery symb before) = Inr (Some page)"
    using 1(2) by (subst (asm) openOrderPages.simps) (auto split: if_splits sum.splits option.splits)
  obtain orders' where add: "addPage symb page orders = Inr orders'"
    using 1(2) n page by (subst (asm) openOrderPages.simps) (auto split: sum.splits)
  obtain added where added: "page = map Some added" "orders' = orders @ added" "checkedOrders symb orders'"
    using addPage_Inr[OF add 1(3)] by blast
  show ?case
  proof (cases "length page < COMPLETE_OPEN_ORDER_PAGE_SIZE")
    case True
    then have "result = orders'" using 1(2) n page add by (subst (asm) openOrderPages.simps) simp
    then show ?thesis using added True n page by (intro exI[of _ "[]"] exI[of _ added]) auto
  next
    case False
    let ?next = "map_option aoId (last page)"
    have go: "\<not> (\<not> given ?next \<or> ?next = before)" "openOrderPages request symb (n + 1) orders' ?next = Inr result"
      using 1(2) n page add False
      by (subst (asm) openOrderPages.simps, simp add: Let_def split: if_splits)+
    obtain pages rest where "result = orders' @ concat pages @ rest" "checkedOrders symb result"
      "n + 1 + length pages < COMPLETE_OPEN_ORDER_MAX_PAGES" "length rest < COMPLETE_OPEN_ORDER_PAGE_SIZE"
      "\<forall>p\<in>set pages. COMPLETE_OPEN_ORDER_PAGE_SIZE \<le> length p"
      "\<exists>q. request (n + 1 + length pages) q = Inr (Some (map Some rest))"
      using 1(1)[OF n page refl add False refl go(1,2) added(3)] by blast
    then show ?thesis using added False
      by (intro exI[of _ "added # pages"] exI[of _ rest]) auto
  qed
qed

text \<open>A list of open orders is returned only when every record passed every check and the book was read to its
  end. Whatever the broker answers, the orders have distinct ids, complete records, the BUY side and the
  requested symbol; they are at most nineteen full pages and the page of the last request, which was
  short, so that a truncated book is never taken for a complete one.
\<close>
lemma open_orders_checked_and_complete:
  assumes "getCompleteOpenAlpacaBuyOrdersForSymbol request symbol = Inr orders"
  shows "checkedOrders (Some (toUpperCase (trim symbol))) orders \<and>
    (\<exists>pages rest q. orders = concat pages @ rest \<and> length pages < COMPLETE_OPEN_ORDER_MAX_PAGES \<and>
      (\<forall>p\<in>set pages. COMPLETE_OPEN_ORDER_PAGE_SIZE \<le> length p) \<and> length rest < COMPLETE_OPEN_ORDER_PAGE_SIZE \<and>
      request (length pages) q = Inr (Some (map Some rest)))"
proof -
  have "openOrderPages request (Some (toUpperCase (trim symbol))) 0 [] None = Inr orders"
    using assms by (simp add: getCompleteOpenAlpacaBuyOrdersForSymbol_def getCompleteOpenAlpacaBuyOrders_def Let_def split: if_splits)
  from openOrderPages_Inr[OF this] show ?thesis
    by (simp add: checkedOrders_def) blast
qed

subsection \<open>The whole book\<close>

text \<open>
  A broker that answers as its documentation says: the orders of a book, newest first, that
  come after the order of the cursor, at most as many as the limit of the request.
\<close>

definition servedAfter :: "alpacaOrder list \<Rightarrow> string option \<Rightarrow> alpacaOrder list" where
  "servedAfter book cursor =
     (case cursor of None \<Rightarrow> book | Some i \<Rightarrow> drop 1 (dropWhile (\<lambda>o'. aoId o' \<noteq> i) book))"

definition serveBook :: "alpacaOrder list \<Rightarrow> nat \<Rightarrow> openOrderQuery \<Rightarrow> openOrderPage" where
  "serveBook book n q = Inr (Some (map Some (take (oqLimit q) (servedAfter book (oqBeforeOrderId q)))))"

lemma servedAfter_cursor:
  assumes "distinct (map aoId (done @ rest))" and "done \<noteq> []"
  shows "servedAfter (done @ rest) (Some (aoId (last done))) = rest"
proof -
  obtain xs x where d: "done = xs @ [x]" using assms(2) by (cases "done" rule: rev_cases) auto
  have "dropWhile (\<lambda>o'. aoId o' \<noteq> aoId x) (xs @ x # rest) = x # rest"
    using assms(1) by (subst dropWhile_append2) (simp_all add: d image_iff, metis)
  then show ?thesis by (simp add: servedAfter_def d)
qed

lemma pages_of_book:
  assumes "checkedOrders symb (done @ rest)" and "n \<le> COMPLETE_OPEN_ORDER_MAX_PAGES"
    and "length done = n * COMPLETE_OPEN_ORDER_PAGE_SIZE"
  shows "openOrderPages (serveBook (done @ rest)) symb n done (if done = [] then None else Some (aoId (last done))) =
    (if n * COMPLETE_OPEN_ORDER_PAGE_SIZE + length rest < COMPLETE_OPEN_ORDER_MAX_PAGES * COMPLETE_OPEN_ORDER_PAGE_SIZE
     then Inr (done @ rest)
     else Inl (evidenceError ''Alpaca open-order evidence exceeded the bounded pagination limit.''))"
  using assms
proof (induction "COMPLETE_OPEN_ORDER_MAX_PAGES - n" arbitrary: n "done" rest)
  case 0
  then show ?case by (subst openOrderPages.simps) simp
next
  case (Suc k)
  let ?size = COMPLETE_OPEN_ORDER_PAGE_SIZE
  let ?before = "if done = [] then None else Some (aoId (last done))"
  define page where "page = take ?size rest"
  have n: "n < COMPLETE_OPEN_ORDER_MAX_PAGES" using Suc(2) by simp
  have dist: "distinct (map aoId (done @ rest))" and ids: "\<forall>o'\<in>set (done @ rest). aoId o' \<noteq> []"
    using Suc(3) by (auto simp: checkedOrders_def completeRecord_def)
  have "servedAfter (done @ rest) ?before = rest"
    using servedAfter_cursor[OF dist] by (auto simp: servedAfter_def)
  moreover have "oqBeforeOrderId (pageQuery symb ?before) = ?before" "oqLimit (pageQuery symb ?before) = ?size"
    using ids by (auto simp: pageQuery_def given_def)
  ultimately have req: "serveBook (done @ rest) n (pageQuery symb ?before) = Inr (Some (map Some page))"
    by (simp add: serveBook_def page_def)
  have parts: "done @ rest = (done @ page) @ drop ?size rest" by (simp add: page_def)
  have whole: "checkedOrders symb ((done @ page) @ drop ?size rest)" using Suc(3) by (simp only: parts[symmetric])
  then have "checkedOrders symb (done @ page)" by (auto simp: checkedOrders_def)
  then have add: "addPage symb (map Some page) done = Inr (done @ page)" by (rule addPage_checked)
  show ?case
  proof (cases "length rest < ?size")
    case True
    then have "page = rest" by (simp add: page_def)
    moreover have "n * ?size + length rest < COMPLETE_OPEN_ORDER_MAX_PAGES * ?size"
      using True n by (auto simp: page_limits)
    ultimately show ?thesis using True n req add by (subst openOrderPages.simps) simp
  next
    case False
    then have full: "length page = ?size" "page \<noteq> []" by (auto simp: page_def page_limits)
    have last: "last (map Some page) = Some (last page)" using full(2) by (rule last_map)
    have "last page \<in> set rest" using last_in_set[OF full(2)] unfolding page_def by (rule in_set_takeD)
    then have go: "given (Some (aoId (last page)))" "Some (aoId (last page)) \<noteq> ?before"
      using ids dist full(2) by (auto simp: given_def dest!: last_in_set[of "done"])
    have "openOrderPages (serveBook (done @ rest)) symb n done ?before =
        openOrderPages (serveBook (done @ rest)) symb (n + 1) (done @ page) (Some (aoId (last page)))"
      using n req add full(1) go last by (subst openOrderPages.simps) (simp add: Let_def)
    also have "\<dots> = openOrderPages (serveBook ((done @ page) @ drop ?size rest)) symb (n + 1) (done @ page)
        (if done @ page = [] then None else Some (aoId (last (done @ page))))"
      using full(2) by (simp only: parts) simp
    also have "\<dots> = (if (n + 1) * ?size + length (drop ?size rest) < COMPLETE_OPEN_ORDER_MAX_PAGES * ?size
        then Inr ((done @ page) @ drop ?size rest)
        else Inl (evidenceError ''Alpaca open-order evidence exceeded the bounded pagination limit.''))"
      using Suc(2,5) n full(1) whole by (intro Suc(1)) simp_all
    finally show ?thesis using False by (simp add: page_def)
  qed
qed

text \<open>C30: the reading of the book ends, and gives the whole book or refuses. On a broker that serves any book of
  distinct, complete BUY orders of the symbol, by pages as documented, the result is exactly that book
  when it has fewer than 10000 orders (the extra page that tells the end of an exactly full one
  included), and otherwise the error of the page limit; never a part of the book.
\<close>
theorem open_order_book_read_to_its_end:
  assumes "checkedOrders (Some (toUpperCase (trim symbol))) book" and "toUpperCase (trim symbol) \<noteq> []"
  shows "getCompleteOpenAlpacaBuyOrdersForSymbol (serveBook book) symbol =
    (if length book < 10000 then Inr book
     else Inl (evidenceError ''Alpaca open-order evidence exceeded the bounded pagination limit.''))"
  using pages_of_book[of "Some (toUpperCase (trim symbol))" "[]" book 0] assms
  by (simp add: getCompleteOpenAlpacaBuyOrdersForSymbol_def getCompleteOpenAlpacaBuyOrders_def Let_def page_limits)

definition openBook :: "alpacaOrder list" where
  "openBook =
     [\<lparr>aoId = ''b-2'', aoClientOrderId = ''c-2'', aoSymbol = Some ''SPY'', aoSide = Some ''buy'', aoStatus = ''new'',
       aoQty = Some ''3'', aoFilledQty = Some ''0'', aoReplacedBy = None\<rparr>,
      \<lparr>aoId = ''b-1'', aoClientOrderId = ''c-1'', aoSymbol = Some '' spy'', aoSide = Some ''BUY'', aoStatus = ''held'',
       aoQty = Some ''1'', aoFilledQty = Some ''0'', aoReplacedBy = None\<rparr>]"

lemma openBook_checked: "toUpperCase (trim ''spy'') = ''SPY''" "checkedOrders (Some ''SPY'') openBook"
  by code_simp+

theorem open_order_book_read_to_its_end_witness:
  "getCompleteOpenAlpacaBuyOrdersForSymbol (serveBook openBook) ''spy'' = Inr openBook"
  using open_order_book_read_to_its_end[of "''spy''" openBook] openBook_checked by (simp add: openBook_def)

lemma open_orders_checked_and_complete_witness: "distinct (map aoId openBook) \<and>
    list_all (requestedBuy (Some ''SPY'')) openBook"
proof -
  have "getCompleteOpenAlpacaBuyOrdersForSymbol (serveBook openBook) ''spy'' = Inr openBook" by code_simp
  from open_orders_checked_and_complete[OF this] show ?thesis
    using openBook_checked by (simp add: checkedOrders_def list_all_iff)
qed

end
