(* ===== verification/EntryRecovery.thy ===== *)
theory EntryRecovery
  imports OpenOrders
begin

text \<open>
  \<open>src/services/entry-dispatch-recovery.service.ts\<close>: what is recorded when an entry fails
  after the broker boundary, and the evidence by which its claim may be released. Each read
  outside a transaction sees the database of its moment: \<open>reads k\<close> is the database of the
  \<open>k\<close>-th read. The broker's answers and the hash of the fingerprint are parameters.
\<close>

subsection \<open>Classifications\<close>

definition ENTRY_DISPATCH_REJECTION_SETTLE_MS :: int where
  "ENTRY_DISPATCH_REJECTION_SETTLE_MS = 60000"
definition DEFINITIVE_BROKER_REJECTION_STATUS_CODES :: "jsnum list" where
  "DEFINITIVE_BROKER_REJECTION_STATUS_CODES = map jsInt [400, 401, 403, 404, 422, 429]"
definition TERMINAL_ENTRY_INTENT_STATUSES :: "string list" where
  "TERMINAL_ENTRY_INTENT_STATUSES = [''failed'', ''blocked'', ''rejected'', ''canceled'', ''cancelled'', ''expired'']"
definition RECOVERY_TERMINAL_BROKER_ORDER_STATUSES :: "string list" where
  "RECOVERY_TERMINAL_BROKER_ORDER_STATUSES = [''filled'', ''canceled'', ''cancelled'', ''expired'', ''rejected'']"
definition PRE_DISPATCH_CLAIM_STATUSES :: "string list" where
  "PRE_DISPATCH_CLAIM_STATUSES = [''ENTRY_PENDING'', ''ENTRY_SUBMITTING'', ''ADMISSION_BLOCKED'']"
definition RECOVERABLE_CLAIM_STATUSES :: "string list" where
  "RECOVERABLE_CLAIM_STATUSES = PRE_DISPATCH_CLAIM_STATUSES @ [''UNRESOLVED'']"
definition CONTRADICTIONS :: "string list" where
  "CONTRADICTIONS =
     [''IDENTITY_MISMATCH'', ''LOCAL_BROKER_ORDER_PRESENT'', ''LOCAL_BROKER_ACTIVITY_PRESENT'', ''LOCAL_POSITION_PRESENT'',
      ''LOCAL_EXECUTABLE_BUY_PRESENT'', ''UNATTRIBUTED_BUY_FILL_PRESENT'', ''BROKER_ORDER_FOUND'',
      ''BROKER_ORDER_IDENTITY_CONFLICT'', ''BROKER_BUY_ORDER_PRESENT'', ''BROKER_POSITION_PRESENT'']"

fun entryDispatchOutcomeFor :: "writeClassification option \<Rightarrow> string" where
  "entryDispatchOutcomeFor (Some NOT_SENT_BLOCKED) = ''NOT_SENT_LOCAL_BLOCKED''"
| "entryDispatchOutcomeFor (Some NOT_SENT_RETRYABLE) = ''NOT_SENT_LOCAL_RETRYABLE''"
| "entryDispatchOutcomeFor (Some BROKER_REJECTED) = ''BROKER_REJECTED''"
| "entryDispatchOutcomeFor _ = ''DELIVERY_UNCERTAIN''"

definition adapterInvocationFor :: "string \<Rightarrow> string" where
  "adapterInvocationFor classification =
     (if classification = ''NOT_SENT_DISPATCH_RECORD_ACK_LOST'' then ''NOT_INVOKED''
      else if classification = ''NOT_SENT_LOCAL_BLOCKED'' \<or> classification = ''NOT_SENT_LOCAL_RETRYABLE''
      then ''LOCAL_GUARD_BEFORE_REQUEST''
      else if classification = ''BROKER_REJECTED'' then ''HTTP_RESPONSE_RECEIVED''
      else ''UNKNOWN'')"

definition deliveryProof :: "string \<Rightarrow> string" where
  "deliveryProof classification =
     (if classification = ''NOT_SENT_DISPATCH_RECORD_ACK_LOST'' then ''ADAPTER_NOT_INVOKED_BY_THIS_ATTEMPT''
      else if classification \<in> set LOCAL_NON_SEND_CLASSIFICATIONS then ''ADAPTER_FAILED_BEFORE_NETWORK_REQUEST''
      else if classification = ''BROKER_REJECTED'' then ''HTTP_REJECTION_RESPONSE_REQUIRES_BROKER_VERIFICATION''
      else ''NONE_DELIVERY_UNCERTAIN'')"

subsection \<open>The records of a dispatch\<close>

record dispatchRecords =
  drsConsumption :: "dispatchConsumptionRow option"
  drsUnenforced :: "unenforcedDispatchRow option"
  drsDispatchEvents :: int
  drsLiveArming :: "armingTerminationRow option"
  drsDurable :: bool
  drsPresent :: bool
  drsStartedAt :: "int option"

definition loadEntryDispatchRecords :: "int \<Rightarrow> claimStore \<Rightarrow> dispatchRecords" where
  "loadEntryDispatchRecords i db =
     (let consumption = List.find (\<lambda>d. dcOrderIntentId d = i) (dispatchConsumptionTable db);
          unenforced = List.find (\<lambda>d. udOrderIntentId d = i) (unenforcedDispatchTable db);
          dispatchEvents = int (length (filter (\<lambda>(j, t). j = i \<and> t \<in> set DISPATCH_OPPORTUNITY_EVENT_TYPES)
            (opportunityEventTable db)));
          liveArming = List.find (\<lambda>t. atOrderIntentId t = Some i \<and> atType t = ''CONSUMED'') (armingTerminationTable db)
      in \<lparr>drsConsumption = consumption, drsUnenforced = unenforced, drsDispatchEvents = dispatchEvents,
          drsLiveArming = liveArming,
          drsDurable = (consumption \<noteq> None \<or> unenforced \<noteq> None),
          drsPresent = (consumption \<noteq> None \<or> unenforced \<noteq> None \<or> liveArming \<noteq> None \<or> 0 < dispatchEvents),
          drsStartedAt = (case consumption of Some c \<Rightarrow> Some (dcConsumedAt c)
            | None \<Rightarrow> case unenforced of Some u \<Rightarrow> Some (udAuthorizedAt u) | None \<Rightarrow> map_option atOccurredAt liveArming)\<rparr>)"

definition recordIdentity :: "dispatchRecords \<Rightarrow> (string \<times> json) list" where
  "recordIdentity records =
     [(''consumptionId'', jOpt (\<lambda>c. jInt (dcId c)) (drsConsumption records)),
      (''dispatchDecisionId'', jOpt (\<lambda>c. jInt (ddId (dcDecision c))) (drsConsumption records)),
      (''dispatchDecisionOutcome'', jOpt (\<lambda>c. JStr (ddOutcome (dcDecision c))) (drsConsumption records)),
      (''unenforcedDispatchId'', jOpt (\<lambda>u. jInt (udId u)) (drsUnenforced records)),
      (''unenforcedDispatchBasis'', jOpt (\<lambda>u. JStr (udBasis u)) (drsUnenforced records)),
      (''liveArmingTerminationId'', jOpt (\<lambda>t. jInt (atId t)) (drsLiveArming records)),
      (''dispatchOpportunityEvents'', jInt (drsDispatchEvents records))]"

subsection \<open>Recording an outcome\<close>

fun observationText :: "outcomeObservation \<Rightarrow> string" where
  "observationText OBSERVED = ''OBSERVED''"
| "observationText INFERRED = ''INFERRED''"

record outcomeArgs =
  oaOrderIntentId :: int
  oaClassification :: string
  oaSource :: string
  oaObservation :: "outcomeObservation option"
  oaStatusCode :: "jsnum option"
  oaMessage :: "string option"
  oaRecords :: "dispatchRecords option"

record outcomeResult =
  orClaim :: "claimRow option"
  orNewlyUnresolved :: bool
  orEvidence :: "json option"

definition outcomeEvidence :: "outcomeArgs \<Rightarrow> dispatchRecords \<Rightarrow> string option \<Rightarrow> json" where
  "outcomeEvidence args records clientOrderId =
     JObj ([(''classification'', JStr (oaClassification args)), (''statusCode'', jOpt JNum (oaStatusCode args)),
        (''source'', JStr (oaSource args)),
        (''observation'', JStr (observationText (case oaObservation args of Some x \<Rightarrow> x
           | None \<Rightarrow> if oaSource args = ''WORKER'' then OBSERVED else INFERRED))),
        (''adapterInvocation'', JStr (adapterInvocationFor (oaClassification args))),
        (''dispatchRecordPresent'', JBool (drsPresent records)),
        (''orderIntentId'', jInt (oaOrderIntentId args)), (''clientOrderId'', jOpt JStr clientOrderId)]
       @ recordIdentity records @
       [(''message'', (if given (oaMessage args) then JStr (take 300 (the (oaMessage args))) else JNull)),
        (''deliveryProof'', JStr (deliveryProof (oaClassification args))),
        (''executionAuthority'', JStr ''NONE''), (''originalIntentResubmission'', JStr ''PROHIBITED'')])"

text \<open>
  Its reads: the records (unless given), the claim, and the claim again in the transition;
  \<open>db\<close> is the database of the write.
\<close>

definition recordEntryDispatchOutcome ::
  "outcomeArgs \<Rightarrow> int \<Rightarrow> (nat \<Rightarrow> claimStore) \<Rightarrow> claimStore \<Rightarrow> (outcomeResult \<times> claimStore) result" where
  "recordEntryDispatchOutcome args now reads db =
     (let records = (case oaRecords args of Some r \<Rightarrow> r
            | None \<Rightarrow> loadEntryDispatchRecords (oaOrderIntentId args) (reads 0)) in
      case claimOfIntent (oaOrderIntentId args) (reads 1) of
        None \<Rightarrow> Inr (\<lparr>orClaim = None, orNewlyUnresolved = False, orEvidence = None\<rparr>, db)
      | Some claim \<Rightarrow>
        if clReleasedAt claim \<noteq> None then
          Inr (\<lparr>orClaim = Some claim, orNewlyUnresolved = False, orEvidence = None\<rparr>, db)
        else
          (let evidence = outcomeEvidence args records (Option.bind (claimIntentRow (reads 1) claim) oiClientOrderId) in
           if clStatus claim \<notin> set RECOVERABLE_CLAIM_STATUSES then
             bindR (appendClaimDiagnostic (clId claim) ''DISPATCH_OUTCOME_NOT_APPLIED''
                 (JObj [(''claimStatus'', JStr (clStatus claim)), (''outcome'', evidence)]) now db)
               (\<lambda>(_, db'). Inr (\<lparr>orClaim = Some claim, orNewlyUnresolved = False, orEvidence = Some evidence\<rparr>, db'))
           else
             bindR (transitionEntryExposureClaim (oaOrderIntentId args) ''UNRESOLVED'' ''DISPATCH_OUTCOME_RECORDED''
                 (Some evidence) now (reads 2) db)
               (\<lambda>(updated, db'). Inr (\<lparr>orClaim = updated, orNewlyUnresolved = (clStatus claim \<noteq> ''UNRESOLVED''),
                  orEvidence = Some evidence\<rparr>, db'))))"

subsection \<open>The basis of a release\<close>

record releaseBasis =
  rbBasis :: "string option"
  rbConclusiveness :: string
  rbBlocker :: "string option"

definition evaluateDispatchReleaseBasis :: "deliveryOutcome list \<Rightarrow> int \<Rightarrow> releaseBasis" where
  "evaluateDispatchReleaseBasis outcomes now =
     (if outcomes = [] then
        \<lparr>rbBasis = None, rbConclusiveness = ''AMBIGUOUS_ABSENCE'', rbBlocker = Some ''DISPATCH_OUTCOME_NOT_RECORDED''\<rparr>
      else if list_ex (\<lambda>x. doClassification x \<notin> set LOCAL_NON_SEND_CLASSIFICATIONS \<and>
                 doClassification x \<noteq> ''BROKER_REJECTED'') outcomes then
        \<lparr>rbBasis = None, rbConclusiveness = ''AMBIGUOUS_ABSENCE'', rbBlocker = Some ''DELIVERY_OUTCOME_UNCERTAIN''\<rparr>
      else
        (let rejections = filter (\<lambda>x. doClassification x = ''BROKER_REJECTED'') outcomes in
         if rejections = [] then
           \<lparr>rbBasis = Some ''DEFINITE_LOCAL_NON_SEND'', rbConclusiveness = ''CONCLUSIVE'', rbBlocker = None\<rparr>
         else if list_ex (\<lambda>x. case doStatusCode x of None \<Rightarrow> True
                    | Some c \<Rightarrow> c \<notin> set DEFINITIVE_BROKER_REJECTION_STATUS_CODES) rejections then
           \<lparr>rbBasis = None, rbConclusiveness = ''AMBIGUOUS_ABSENCE'', rbBlocker = Some ''BROKER_REJECTION_NOT_DEFINITIVE''\<rparr>
         else if now - Max (set (map doRecordedAt rejections)) < ENTRY_DISPATCH_REJECTION_SETTLE_MS then
           \<lparr>rbBasis = None, rbConclusiveness = ''PENDING'', rbBlocker = Some ''BROKER_REJECTION_SETTLING''\<rparr>
         else
           \<lparr>rbBasis = Some ''CONFIRMED_BROKER_REJECTION'', rbConclusiveness = ''CONCLUSIVE'', rbBlocker = None\<rparr>))"

subsection \<open>Local exposure\<close>

record localExposureCounts =
  leBrokerOrders :: int
  leBrokerActivities :: int
  leActivePositions :: int
  leLocalExecutableBuys :: int
  leUnattributedFills :: int
  leTrackedPositionAttached :: bool

definition countWhere :: "('a \<Rightarrow> bool) \<Rightarrow> 'a list \<Rightarrow> int" where
  "countWhere P xs = int (length (filter P xs))"

definition unattributedFill :: "claimRow \<Rightarrow> string \<Rightarrow> int option \<Rightarrow> brokerActivityRow \<Rightarrow> bool" where
  "unattributedFill claim symbol startedAt a =
     (baTradingAccountId a = Some (clTradingAccountId claim) \<and> baActivityType a = ''FILL'' \<and>
      map_option toLowerCase (baSide a) = Some ''buy'' \<and>
      map_option toLowerCase (baSymbol a) = Some (toLowerCase symbol) \<and> baOrderIntentId a = None \<and>
      (case startedAt of None \<Rightarrow> True
       | Some t \<Rightarrow> (case baTransactionTime a of None \<Rightarrow> True | Some u \<Rightarrow> t - 60000 \<le> u)))"

definition localExposure :: "claimRow \<Rightarrow> int \<Rightarrow> string \<Rightarrow> int option \<Rightarrow> claimStore \<Rightarrow> localExposureCounts" where
  "localExposure claim i symbol startedAt db =
     \<lparr>leBrokerOrders = countWhere (\<lambda>b. boOrderIntentId b = i) (brokerOrderTable db),
      leBrokerActivities = countWhere (\<lambda>a. baOrderIntentId a = Some i) (brokerActivityTable db),
      leActivePositions = countWhere (activePositionOf (clTradingAccountId claim) (clSecurityId claim)) (trackedPositionTable db),
      leLocalExecutableBuys = countWhere (\<lambda>b. boTradingAccountId b = Some (clTradingAccountId claim) \<and>
        boSecurityId b = clSecurityId claim \<and> toLowerCase (boSide b) = ''buy'' \<and>
        boStatus b \<notin> set RECOVERY_TERMINAL_BROKER_ORDER_STATUSES) (brokerOrderTable db),
      leUnattributedFills = countWhere (unattributedFill claim symbol startedAt) (brokerActivityTable db),
      leTrackedPositionAttached = (clTrackedPositionId claim \<noteq> None)\<rparr>"

text \<open>The blockers of local exposure, which the assessment and the final revalidation share.\<close>

definition localBlockers :: "localExposureCounts \<Rightarrow> string list" where
  "localBlockers local =
     (if leBrokerOrders local \<noteq> 0 then [''LOCAL_BROKER_ORDER_PRESENT''] else []) @
     (if leBrokerActivities local \<noteq> 0 then [''LOCAL_BROKER_ACTIVITY_PRESENT''] else []) @
     (if leActivePositions local \<noteq> 0 \<or> leTrackedPositionAttached local then [''LOCAL_POSITION_PRESENT''] else []) @
     (if leLocalExecutableBuys local \<noteq> 0 then [''LOCAL_EXECUTABLE_BUY_PRESENT''] else []) @
     (if leUnattributedFills local \<noteq> 0 then [''UNATTRIBUTED_BUY_FILL_PRESENT''] else [])"

subsection \<open>The assessment\<close>

record alpacaPosition =
  apSymbol :: string
  apSide :: string
  apQty :: string

text \<open>The answers of the broker: the order by its client order id, the open BUY orders and the position of the symbol.\<close>

record brokerView =
  bvOrder :: "alpacaOrder option"
  bvOpenBuys :: "alpacaOrder list"
  bvPosition :: "alpacaPosition option"

record recoveryEnv =
  reReads :: "nat \<Rightarrow> claimStore"
  reBroker :: "int \<Rightarrow> string \<Rightarrow> string \<Rightarrow> string + brokerView"
  reHash :: "json \<Rightarrow> string"
  reNow :: int
  reWriteNow :: int

record releaseAssessment =
  raClaim :: claimRow
  raSymbol :: string
  raIntent :: orderIntentRow
  raRecords :: dispatchRecords
  raBasis :: releaseBasis
  raConclusiveness :: string
  raBroker :: brokerView
  raLookupError :: "string option"
  raBlockers :: "string list"
  raEvidence :: json
  raEligible :: bool
  raEvidenceEventCount :: int
  raConfirmationFingerprint :: string

definition securitySymbolOf :: "claimStore \<Rightarrow> claimRow \<Rightarrow> string" where
  "securitySymbolOf db claim =
     (case List.find (\<lambda>s. secId s = clSecurityId claim) (securityTable db) of None \<Rightarrow> [] | Some s \<Rightarrow> secSymbol s)"

definition identityMismatches :: "claimRow \<Rightarrow> string \<Rightarrow> orderIntentRow \<Rightarrow> dispatchRecords \<Rightarrow> string list" where
  "identityMismatches claim symbol intent records =
     (if oiTradingAccountId intent \<noteq> Some (clTradingAccountId claim) then [''ACCOUNT''] else []) @
     (if toUpperCase (trim (oiSymbol intent)) \<noteq> symbol then [''SECURITY''] else []) @
     (if toLowerCase (trim (oiSide intent)) \<noteq> ''buy'' then [''SIDE''] else []) @
     (if \<not> given (oiClientOrderId intent) then [''CLIENT_ORDER_ID_MISSING''] else []) @
     (case drsConsumption records of None \<Rightarrow> []
      | Some c \<Rightarrow>
        if Some (dcClientOrderId c) \<noteq> oiClientOrderId intent \<or> Some (ddClientOrderId (dcDecision c)) \<noteq> oiClientOrderId intent \<or>
           ddOrderIntentId (dcDecision c) \<noteq> oiId intent \<or> ddTradingAccountId (dcDecision c) \<noteq> clTradingAccountId claim \<or>
           (ddSecurityId (dcDecision c) \<noteq> None \<and> ddSecurityId (dcDecision c) \<noteq> Some (clSecurityId claim))
        then [''CONSUMPTION''] else []) @
     (case drsUnenforced records of None \<Rightarrow> []
      | Some u \<Rightarrow>
        if Some (udClientOrderId u) \<noteq> oiClientOrderId intent \<or> udTradingAccountId u \<noteq> clTradingAccountId claim \<or>
           udSecurityId u \<noteq> clSecurityId claim
        then [''UNENFORCED_DISPATCH''] else []) @
     (case drsLiveArming records of None \<Rightarrow> []
      | Some t \<Rightarrow> if atClientOrderId t \<noteq> None \<and> atClientOrderId t \<noteq> oiClientOrderId intent then [''LIVE_ARMING''] else [])"

definition brokerOrderConflict :: "string \<Rightarrow> orderIntentRow \<Rightarrow> alpacaOrder \<Rightarrow> bool" where
  "brokerOrderConflict symbol intent order =
     (Some (aoClientOrderId order) \<noteq> oiClientOrderId intent \<or>
      map_option (\<lambda>s. toUpperCase (trim s)) (aoSymbol order) \<noteq> Some symbol \<or>
      map_option (\<lambda>s. toLowerCase (trim s)) (aoSide order) \<noteq> Some ''buy'')"

definition assessmentBlockers ::
  "claimRow \<Rightarrow> string \<Rightarrow> orderIntentRow \<Rightarrow> dispatchRecords \<Rightarrow> deliverySummary \<Rightarrow> releaseBasis \<Rightarrow>
   localExposureCounts \<Rightarrow> string option \<Rightarrow> brokerView \<Rightarrow> string list" where
  "assessmentBlockers claim symbol intent records summary basis local lookupError view =
     (let evidence = (dsOutcomes summary \<noteq> [] \<or> drsPresent records);
          dispatchEvidence = (drsPresent records \<or> dsDispatchOutcomes summary \<noteq> [])
      in (if clReleasedAt claim \<noteq> None then [''CLAIM_ALREADY_RELEASED''] else []) @
         (if \<not> evidence then [''NO_DELIVERY_EVIDENCE''] else []) @
         (case rbBlocker basis of Some b \<Rightarrow> if evidence then [b] else [] | None \<Rightarrow> []) @
         (if clStatus claim \<notin> set RECOVERABLE_CLAIM_STATUSES then [''CLAIM_STATUS_NOT_RECOVERABLE'']
          else if dispatchEvidence \<and> clStatus claim \<noteq> ''UNRESOLVED'' then [''CLAIM_OUTCOME_NOT_RECORDED''] else []) @
         (if identityMismatches claim symbol intent records \<noteq> [] then [''IDENTITY_MISMATCH''] else []) @
         (if oiStatus intent \<notin> set TERMINAL_ENTRY_INTENT_STATUSES then [''INTENT_NOT_TERMINAL''] else []) @
         localBlockers local @
         (if lookupError \<noteq> None then [''BROKER_LOOKUP_FAILED''] else []) @
         (case bvOrder view of None \<Rightarrow> []
          | Some order \<Rightarrow> [if brokerOrderConflict symbol intent order then ''BROKER_ORDER_IDENTITY_CONFLICT'' else ''BROKER_ORDER_FOUND'']) @
         (if bvOpenBuys view \<noteq> [] then [''BROKER_BUY_ORDER_PRESENT''] else []) @
         (if bvPosition view \<noteq> None then [''BROKER_POSITION_PRESENT''] else []))"

text \<open>The evidence object, of which the fingerprint is taken.\<close>

fun outcomeKindText :: "outcomeKind \<Rightarrow> string" where
  "outcomeKindText OUTCOME = ''OUTCOME''"
| "outcomeKindText NOT_SENT = ''NOT_SENT''"
| "outcomeKindText UNPAIRED_ADAPTER_MARKER = ''UNPAIRED_ADAPTER_MARKER''"

definition outcomeView :: "deliverySummary \<Rightarrow> json" where
  "outcomeView summary =
     JArr (map (\<lambda>x. JObj [(''eventId'', jInt (doEventId x)), (''kind'', JStr (outcomeKindText (doKind x))),
        (''classification'', JStr (doClassification x)), (''statusCode'', jOpt JNum (doStatusCode x)),
        (''observation'', JStr (observationText (doObservation x))),
        (''adapterInvocation'', JStr (doAdapterInvocation x))]) (dsOutcomes summary))"

definition localExposureJson :: "localExposureCounts \<Rightarrow> json" where
  "localExposureJson local =
     JObj [(''brokerOrders'', jInt (leBrokerOrders local)), (''brokerActivities'', jInt (leBrokerActivities local)),
       (''activePositions'', jInt (leActivePositions local)), (''localExecutableBuys'', jInt (leLocalExecutableBuys local)),
       (''unattributedFills'', jInt (leUnattributedFills local)),
       (''trackedPositionAttached'', JBool (leTrackedPositionAttached local))]"

text \<open>A property that is \<open>undefined\<close> is left out of the JSON text.\<close>

definition jKnown :: "string \<Rightarrow> string option \<Rightarrow> (string \<times> json) list" where
  "jKnown k x = (case x of None \<Rightarrow> [] | Some s \<Rightarrow> [(k, JStr s)])"

definition brokerViewJson :: "brokerView \<Rightarrow> string option \<Rightarrow> json" where
  "brokerViewJson view lookupError =
     JObj [(''order'', jOpt (\<lambda>o'. JObj ([(''id'', JStr (aoId o')), (''clientOrderId'', JStr (aoClientOrderId o'))] @
          jKnown ''symbol'' (aoSymbol o') @ jKnown ''side'' (aoSide o') @
          [(''status'', JStr (aoStatus o')), (''filledQty'', jOpt JStr (aoFilledQty o'))])) (bvOrder view)),
       (''openBuyOrders'', JArr (map (\<lambda>o'. JObj [(''id'', JStr (aoId o')), (''clientOrderId'', JStr (aoClientOrderId o')),
          (''status'', JStr (aoStatus o')), (''qty'', jOpt JStr (aoQty o'))]) (bvOpenBuys view))),
       (''position'', jOpt (\<lambda>p. JObj [(''symbol'', JStr (apSymbol p)), (''side'', JStr (apSide p)),
          (''qty'', JStr (apQty p))]) (bvPosition view)),
       (''lookupError'', jOpt JStr lookupError)]"

definition assessmentEvidence ::
  "claimStore \<Rightarrow> claimRow \<Rightarrow> string \<Rightarrow> orderIntentRow \<Rightarrow> dispatchRecords \<Rightarrow> deliverySummary \<Rightarrow> releaseBasis \<Rightarrow> string \<Rightarrow>
   localExposureCounts \<Rightarrow> string option \<Rightarrow> brokerView \<Rightarrow> string list \<Rightarrow> json" where
  "assessmentEvidence db claim symbol intent records summary basis conclusiveness local lookupError view blockers =
     JObj [(''disposition'', JStr (if drsPresent records then ''DISPATCHED_ENTRY_VERIFIED_NO_EXPOSURE''
          else ''NO_DISPATCH_RECORD_VERIFIED_NO_EXPOSURE'')),
       (''claim'', JObj [(''id'', jInt (clId claim)), (''status'', JStr (clStatus claim)),
          (''tradingAccountId'', jInt (clTradingAccountId claim)), (''securityId'', jInt (clSecurityId claim)),
          (''symbol'', JStr symbol), (''orderIntentId'', jInt (oiId intent)),
          (''trackedPositionId'', jOpt jInt (clTrackedPositionId claim))]),
       (''orderIntent'', JObj [(''id'', jInt (oiId intent)), (''status'', JStr (oiStatus intent)),
          (''clientOrderId'', jOpt JStr (oiClientOrderId intent)), (''environment'', jOpt JStr (environmentOf db intent))]),
       (''dispatch'', JObj (recordIdentity records)),
       (''dispatchRecordPresent'', JBool (drsPresent records)),
       (''recordedOutcomes'', outcomeView summary),
       (''adapterMarkers'', jInt (dsAdapterMarkers summary)),
       (''basis'', jOpt JStr (rbBasis basis)),
       (''conclusiveness'', JStr conclusiveness),
       (''local'', localExposureJson local),
       (''broker'', brokerViewJson view lookupError),
       (''identityMismatches'', JArr (map JStr (identityMismatches claim symbol intent records))),
       (''blockers'', JArr (map JStr blockers))]"

definition notFoundError :: "int \<Rightarrow> appError" where
  "notFoundError i = HttpError 404 (''No entry exposure claim exists for OrderIntent '' @ showInt i @ ''.'') JNull"

text \<open>Its reads: the claim, the dispatch records, the delivery events, the local exposure.\<close>

definition assessEntryClaimRelease :: "int \<Rightarrow> recoveryEnv \<Rightarrow> releaseAssessment result" where
  "assessEntryClaimRelease i env =
     (case claimOfIntent i (reReads env 0) of
        None \<Rightarrow> Inl (notFoundError i)
      | Some claim \<Rightarrow>
        (case claimIntentRow (reReads env 0) claim of
           None \<Rightarrow> Inl (notFoundError i)
         | Some intent \<Rightarrow>
           (let symbol = toUpperCase (trim (securitySymbolOf (reReads env 0) claim));
                records = loadEntryDispatchRecords i (reReads env 1);
                events = deliveryEventsOf (reReads env 2) (clId claim);
                summary = summarizeDeliveryEvidence events;
                basis = evaluateDispatchReleaseBasis (dsOutcomes summary) (reNow env);
                local = localExposure claim i symbol (drsStartedAt records) (reReads env 3);
                answer = (if given (oiClientOrderId intent)
                  then reBroker env (clTradingAccountId claim) (the (oiClientOrderId intent)) symbol
                  else Inr \<lparr>bvOrder = None, bvOpenBuys = [], bvPosition = None\<rparr>);
                view = (case answer of Inr v \<Rightarrow> v | Inl _ \<Rightarrow> \<lparr>bvOrder = None, bvOpenBuys = [], bvPosition = None\<rparr>);
                lookupError = (case answer of Inr _ \<Rightarrow> None | Inl message \<Rightarrow> Some (take 300 message));
                blockers = assessmentBlockers claim symbol intent records summary basis local lookupError view;
                conclusiveness = (if list_ex (\<lambda>b. b \<in> set CONTRADICTIONS) blockers then ''CONTRADICTED''
                  else if rbConclusiveness basis = ''AMBIGUOUS_ABSENCE'' then ''AMBIGUOUS_ABSENCE''
                  else if blockers \<noteq> [] then ''PENDING'' else ''CONCLUSIVE'');
                evidence = assessmentEvidence (reReads env 0) claim symbol intent records summary basis conclusiveness
                  local lookupError view blockers
            in Inr \<lparr>raClaim = claim, raSymbol = symbol, raIntent = intent, raRecords = records, raBasis = basis,
                 raConclusiveness = conclusiveness, raBroker = view, raLookupError = lookupError, raBlockers = blockers,
                 raEvidence = evidence, raEligible = (blockers = [] \<and> rbBasis basis \<noteq> None),
                 raEvidenceEventCount = int (length events), raConfirmationFingerprint = reHash env evidence\<rparr>)))"

subsection \<open>The verified release\<close>

datatype releaseMode = SYSTEM | OPERATOR

fun modeText :: "releaseMode \<Rightarrow> string" where
  "modeText SYSTEM = ''SYSTEM''"
| "modeText OPERATOR = ''OPERATOR''"

record releaseArgs =
  rlOrderIntentId :: int
  rlMode :: releaseMode
  rlActorUserId :: "int option"
  rlConfirmationFingerprint :: "string option"

record releaseResult =
  rrReleased :: bool
  rrReason :: string
  rrAssessment :: releaseAssessment

definition unconfirmed :: "releaseArgs \<Rightarrow> releaseAssessment \<Rightarrow> bool" where
  "unconfirmed args assessment =
     (rlMode args = OPERATOR \<and>
      (rlActorUserId args \<in> {None, Some 0} \<or>
       rlConfirmationFingerprint args \<noteq> Some (raConfirmationFingerprint assessment)))"

definition releaseReasonOf :: "releaseAssessment \<Rightarrow> string" where
  "releaseReasonOf assessment =
     (if drsPresent (raRecords assessment) then ''VERIFIED_DISPATCH_NO_EXPOSURE'' else ''VERIFIED_NO_DISPATCH_RECORD_NO_EXPOSURE'')
     @ '':'' @ (case rbBasis (raBasis assessment) of None \<Rightarrow> ''null'' | Some b \<Rightarrow> b)"

definition blockedEvidence :: "releaseArgs \<Rightarrow> releaseAssessment \<Rightarrow> json" where
  "blockedEvidence args assessment =
     (let broker = brokerViewJson (raBroker assessment) (raLookupError assessment) in
      JObj [(''mode'', JStr (modeText (rlMode args))), (''actorUserId'', jOpt jInt (rlActorUserId args)),
        (''basis'', jOpt JStr (rbBasis (raBasis assessment))), (''conclusiveness'', JStr (raConclusiveness assessment)),
        (''blockers'', JArr (map JStr (raBlockers assessment))),
        (''brokerOrder'', the (jsonGet broker ''order'')), (''brokerPosition'', the (jsonGet broker ''position'')),
        (''openBuyOrderIds'', JArr (map (\<lambda>o'. JStr (aoId o')) (bvOpenBuys (raBroker assessment)))),
        (''lookupFailed'', JBool (raLookupError assessment \<noteq> None))])"

text \<open>
  The assessment as it is stored: the evidence with what was derived from it.
\<close>

definition assessmentJson :: "releaseAssessment \<Rightarrow> json" where
  "assessmentJson assessment =
     (case raEvidence assessment of
        JObj kvs \<Rightarrow>
          JObj (kvs @ [(''eligible'', JBool (raEligible assessment)),
            (''evidenceEventCount'', jInt (raEvidenceEventCount assessment)),
            (''dispatchStartedAt'', jOpt JDate (drsStartedAt (raRecords assessment))),
            (''confirmationFingerprint'', JStr (raConfirmationFingerprint assessment))])
      | other \<Rightarrow> other)"

text \<open>The final checks under the entry-exposure lock, in the database \<open>inside\<close> of the transaction's reads.\<close>

definition revalidation :: "releaseAssessment \<Rightarrow> int \<Rightarrow> claimRow \<Rightarrow> claimStore \<Rightarrow> string list" where
  "revalidation assessment i current inside =
     (let local = localExposure current i (raSymbol assessment) (drsStartedAt (raRecords assessment)) inside;
          records = loadEntryDispatchRecords i inside
      in (if clStatus current \<noteq> clStatus (raClaim assessment) then [''CLAIM_STATUS_CHANGED''] else []) @
         (case claimIntentRow inside current of
            None \<Rightarrow> [''INTENT_NOT_TERMINAL'']
          | Some intent \<Rightarrow> if oiStatus intent \<notin> set TERMINAL_ENTRY_INTENT_STATUSES then [''INTENT_NOT_TERMINAL''] else []) @
         localBlockers local @
         (if int (length (deliveryEventsOf inside (clId (raClaim assessment)))) \<noteq> raEvidenceEventCount assessment
          then [''DISPATCH_OUTCOME_CHANGED''] else []) @
         (if drsPresent records \<noteq> drsPresent (raRecords assessment) then [''DISPATCH_RECORD_CHANGED''] else []))"

text \<open>A blocked revalidation is not mistaken for a release.\<close>

lemma revalidation_text: "revalidation a i current inside \<noteq> [] \<Longrightarrow> joinComma (revalidation a i current inside) \<noteq> ''RELEASED''"
  by (auto simp: revalidation_def localBlockers_def joinComma_def Let_def split: option.splits if_splits)

definition authorizeOperator :: "releaseArgs \<Rightarrow> releaseAssessment \<Rightarrow> int \<Rightarrow> claimStore \<Rightarrow> (unit \<times> claimStore) result" where
  "authorizeOperator args assessment now db =
     (if rlMode args = OPERATOR then
        createEvent (clId (raClaim assessment)) ''OPERATOR_REMEDIATION_AUTHORIZED''
          (JObj [(''actorUserId'', jOpt jInt (rlActorUserId args)),
             (''confirmationFingerprint'', jOpt JStr (rlConfirmationFingerprint args)),
             (''disposition'', the (jsonGet (raEvidence assessment) ''disposition'')),
             (''evidence'', assessmentJson assessment)]) now db
      else Inr ((), db))"

definition releasedEvidence :: "releaseArgs \<Rightarrow> releaseAssessment \<Rightarrow> json" where
  "releasedEvidence args assessment =
     JObj [(''mode'', JStr (modeText (rlMode args))), (''actorUserId'', jOpt jInt (rlActorUserId args)),
       (''basis'', jOpt JStr (rbBasis (raBasis assessment))),
       (''confirmationFingerprint'', JStr (raConfirmationFingerprint assessment)),
       (''evidence'', assessmentJson assessment),
       (''executionAuthority'', JStr ''NONE''), (''originalIntentResubmission'', JStr ''PROHIBITED''),
       (''dispatchRecord'', JStr (if drsPresent (raRecords assessment) then ''RETAINED_IMMUTABLE'' else ''NONE''))]"

definition releaseTransaction ::
  "releaseArgs \<Rightarrow> releaseAssessment \<Rightarrow> int \<Rightarrow> claimStore \<Rightarrow> claimStore \<Rightarrow> (string \<times> claimStore) result" where
  "releaseTransaction args assessment now inside db =
     (case claimById (clId (raClaim assessment)) inside of
        None \<Rightarrow> Inr (''CLAIM_ALREADY_RELEASED'', db)
      | Some current \<Rightarrow>
        if clReleasedAt current \<noteq> None then Inr (''CLAIM_ALREADY_RELEASED'', db)
        else
          (let blocked = revalidation assessment (rlOrderIntentId args) current inside in
           if blocked \<noteq> [] then
             bindR (appendClaimDiagnostic (clId (raClaim assessment)) ''DISPATCH_RECOVERY_REVALIDATION_BLOCKED''
                 (JObj [(''mode'', JStr (modeText (rlMode args))), (''revalidation'', JArr (map JStr blocked))]) now db)
               (\<lambda>(_, db'). Inr (joinComma blocked, db'))
           else
             bindR (authorizeOperator args assessment now db) (\<lambda>(_, db1).
             bindR (updateClaims (\<lambda>c. clId c = clId (raClaim assessment) \<and> clStatus c = clStatus (raClaim assessment) \<and>
                   clReleasedAt c = None)
                 (\<lambda>c. c\<lparr>clStatus := ''RELEASED'', clReleasedAt := Some now, clReleaseReason := Some (releaseReasonOf assessment)\<rparr>) db1)
               (\<lambda>(count, db2).
                 if count \<noteq> 1 then Inr (''CLAIM_STATUS_CHANGED'', db2)
                 else bindR (createEvent (clId (raClaim assessment)) ''RELEASED_VERIFIED_DISPATCH_NO_EXPOSURE''
                     (releasedEvidence args assessment) now db2) (\<lambda>(_, db3). Inr (''RELEASED'', db3))))))"

text \<open>
  The whole operation writes in one transaction: the diagnostic of a blocked release, or the
  release. \<open>inside\<close> is the database of the reads of that transaction, \<open>db\<close> the one it writes.
\<close>

definition releaseVerifiedEntryExposureClaim ::
  "releaseArgs \<Rightarrow> recoveryEnv \<Rightarrow> claimStore \<Rightarrow> claimStore \<Rightarrow> (releaseResult \<times> claimStore) result" where
  "releaseVerifiedEntryExposureClaim args env inside db =
     bindR (assessEntryClaimRelease (rlOrderIntentId args) env) (\<lambda>assessment.
       let refused = (\<lambda>reason. \<lparr>rrReleased = False, rrReason = reason, rrAssessment = assessment\<rparr>) in
       if unconfirmed args assessment then Inr (refused ''CONFIRMATION_FINGERPRINT_MISMATCH'', db)
       else if \<not> raEligible assessment then
         bindR (if ''CLAIM_ALREADY_RELEASED'' \<in> set (raBlockers assessment) then Inr (None, db)
                else appendClaimDiagnostic (clId (raClaim assessment)) ''DISPATCH_RECOVERY_RELEASE_BLOCKED''
                  (blockedEvidence args assessment) (reWriteNow env) db)
           (\<lambda>(_, db'). Inr (refused (if raBlockers assessment = [] then ''NO_RELEASE_BASIS''
               else joinComma (raBlockers assessment)), db'))
       else
         bindR (releaseTransaction args assessment (reWriteNow env) inside db) (\<lambda>(outcome, db').
           if outcome \<noteq> ''RELEASED'' then Inr (refused outcome, db')
           else Inr (\<lparr>rrReleased = True, rrReason = releaseReasonOf assessment, rrAssessment = assessment\<rparr>, db')))"

subsection \<open>The proof of a pre-dispatch failure\<close>

definition PRE_DISPATCH_PROOF_EXCLUDED_ERROR_CODES :: "string list" where
  "PRE_DISPATCH_PROOF_EXCLUDED_ERROR_CODES =
     [''EXISTING_BROKER_ORDER_IDENTITY_MISMATCH'', ''PRIOR_ENTRY_DISPATCH_EVIDENCE'', ''ENTRY_EXPOSURE_IDENTITY_MISMATCH'',
      ''ENTRY_EXPOSURE_UNRESOLVED'', ''INVALID_ENTRY_EXPOSURE_TRANSITION'', ''ENTRY_EXPOSURE_STALE_TRANSITION'']"

text \<open>It is asked of a caught error, so never after the death of the process.\<close>

fun isPreDispatchProofCandidateError :: "entryError \<Rightarrow> bool" where
  "isPreDispatchProofCandidateError (BrokerWriteDeliveryError c status message) = False"
| "isPreDispatchProofCandidateError (Failure (HttpError status message details)) =
     (stringOr (jsonGet details ''code'') [] \<notin> set PRE_DISPATCH_PROOF_EXCLUDED_ERROR_CODES)"
| "isPreDispatchProofCandidateError _ = True"

record preDispatchProof =
  ppProven :: bool
  ppClaimId :: "int option"
  ppBlockers :: "string list"
  ppProof :: json

definition markerProtocolClaim :: "claimEventRow \<Rightarrow> bool" where
  "markerProtocolClaim e = (jsonGet (ceEvidenceJson e) ''markerProtocol'' = Some (JStr ADAPTER_MARKER_PROTOCOL))"

definition proveWorkerPreDispatchNonDelivery :: "int \<Rightarrow> int \<Rightarrow> claimStore \<Rightarrow> preDispatchProof" where
  "proveWorkerPreDispatchNonDelivery i account db =
     (case claimOfIntent i db of
        None \<Rightarrow> \<lparr>ppProven = False, ppClaimId = None, ppBlockers = [''CLAIM_MISSING''], ppProof = JObj []\<rparr>
      | Some claim \<Rightarrow>
        (let intent = intentById i db;
             events = deliveryEventsOf db (clId claim);
             records = loadEntryDispatchRecords i db;
             brokerOrders = countWhere (\<lambda>b. boOrderIntentId b = i) (brokerOrderTable db);
             brokerActivities = countWhere (\<lambda>a. baOrderIntentId a = Some i) (brokerActivityTable db);
             summary = summarizeDeliveryEvidence events;
             workerClaims = filter (\<lambda>e. ceEventType e = WORKER_CLAIMED_EVENT) events;
             protocolClaims = filter markerProtocolClaim workerClaims;
             blockers =
               (if clReleasedAt claim \<noteq> None then [''CLAIM_RELEASED''] else []) @
               (if clStatus claim \<noteq> ''ENTRY_SUBMITTING'' then [''CLAIM_NOT_SUBMITTING''] else []) @
               (if clTradingAccountId claim \<noteq> account \<or> Option.bind intent oiTradingAccountId \<noteq> Some account
                then [''ACCOUNT_MISMATCH''] else []) @
               (if clTrackedPositionId claim \<noteq> None then [''POSITION_ATTACHED''] else []) @
               (if map_option oiStatus intent \<noteq> Some ''submitting'' then [''INTENT_NOT_SUBMITTING''] else []) @
               (if given (Option.bind intent oiBlockReason) then [''INTENT_PRIOR_OUTCOME_RECORDED''] else []) @
               (if protocolClaims = [] then [''MARKER_PROTOCOL_NOT_ESTABLISHED''] else []) @
               (if 1 < length workerClaims then [''MULTIPLE_SUBMISSION_CLAIMS''] else []) @
               (if 0 < dsAdapterMarkers summary then [''ADAPTER_INVOCATION_MARKER_PRESENT''] else []) @
               (if dsOutcomes summary \<noteq> [] then [''PRIOR_DELIVERY_OUTCOME_RECORDED''] else []) @
               (if drsPresent records then [''DISPATCH_RECORD_PRESENT''] else []) @
               (if 0 < brokerOrders then [''LOCAL_BROKER_ORDER_PRESENT''] else []) @
               (if 0 < brokerActivities then [''LOCAL_BROKER_ACTIVITY_PRESENT''] else [])
         in \<lparr>ppProven = (blockers = []), ppClaimId = Some (clId claim), ppBlockers = blockers,
             ppProof = JObj ([(''basis'', JStr ''ADAPTER_MARKER_V1_NO_INVOCATION_MARKER''),
                (''submissionPhase'', JStr ''UNCLASSIFIED''),
                (''workerClaimEventId'', (case protocolClaims of [] \<Rightarrow> JNull | e # _ \<Rightarrow> jInt (ceId e))),
                (''adapterMarkers'', jInt (dsAdapterMarkers summary)),
                (''recordedOutcomes'', jInt (int (length (dsOutcomes summary))))] @ recordIdentity records @
                [(''brokerOrders'', jInt brokerOrders), (''brokerActivities'', jInt brokerActivities)])\<rparr>))"

end
