(* ===== verification/TerminalRelease.thy ===== *)
theory TerminalRelease
  imports EntryRecovery
begin

text \<open>
  The authoritative release of \<open>src/services/entry-exposure-claim.service.ts\<close>: once the broker
  reports the order of an entry as terminal, its claim is released only when the broker's own
  records (the order, the orders that replaced it, the position and the open BUY orders) and the
  local fills leave no exposure. The broker's answers are a parameter; a failed request gives
  its message. \<open>reads k\<close> is the database of the \<open>k\<close>-th read before the final transaction,
  \<open>inside\<close> the one of the reads of that transaction and \<open>db\<close> the one that is written.
\<close>

subsection \<open>The broker's records\<close>

record terminalBroker =
  tbOrderById :: "int \<Rightarrow> string \<Rightarrow> string + alpacaOrder option"
  tbOrderByClientOrderId :: "int \<Rightarrow> string \<Rightarrow> string + alpacaOrder option"
  tbPosition :: "int \<Rightarrow> string \<Rightarrow> string + alpacaPosition option"
  tbOpenBuys :: "int \<Rightarrow> string \<Rightarrow> string + alpacaOrder list"

text \<open>The loop over the replacements, at most ten of them.\<close>

fun followReplacements ::
  "(string \<Rightarrow> string + alpacaOrder option) \<Rightarrow> nat \<Rightarrow> alpacaOrder list \<Rightarrow> alpacaOrder \<Rightarrow> string + alpacaOrder list \<times> alpacaOrder" where
  "followReplacements ask 0 orders order = Inr (orders, order)"
| "followReplacements ask (Suc n) orders order =
     (if \<not> given (aoReplacedBy order) then Inr (orders, order)
      else case ask (the (aoReplacedBy order)) of
        Inl message \<Rightarrow> Inl message
      | Inr None \<Rightarrow> Inl ''Replacement order chain is incomplete or cyclic.''
      | Inr (Some replacement) \<Rightarrow>
          if list_ex (\<lambda>o'. aoId o' = aoId replacement) orders then Inl ''Replacement order chain is incomplete or cyclic.''
          else followReplacements ask n (orders @ [replacement]) replacement)"

definition replacementChain ::
  "(string \<Rightarrow> string + alpacaOrder option) \<Rightarrow> alpacaOrder \<Rightarrow> string + alpacaOrder list \<times> alpacaOrder" where
  "replacementChain ask order =
     (case followReplacements ask 10 [order] order of
        Inl message \<Rightarrow> Inl message
      | Inr (orders, last') \<Rightarrow>
          if given (aoReplacedBy last') then Inl ''Replacement order chain exceeded its bounded depth.''
          else Inr (orders, last'))"

record terminalView =
  tvChain :: "alpacaOrder list"
  tvOrder :: "alpacaOrder option"
  tvPosition :: "alpacaPosition option"
  tvOpenBuys :: "alpacaOrder list"

definition localOrderOf :: "int \<Rightarrow> claimStore \<Rightarrow> brokerOrderRow option" where
  "localOrderOf i db = firstBy (\<lambda>b. - boCreatedAt b) (\<lambda>b. boOrderIntentId b = i) (brokerOrderTable db)"

definition acquireTerminalView ::
  "terminalBroker \<Rightarrow> claimRow \<Rightarrow> string \<Rightarrow> string option \<Rightarrow> brokerOrderRow option \<Rightarrow> string + terminalView" where
  "acquireTerminalView broker claim symbol clientOrderId localOrder =
     (let account = clTradingAccountId claim;
          found = (case localOrder of
              Some l \<Rightarrow> tbOrderById broker account (boBrokerOrderId l)
            | None \<Rightarrow> if given clientOrderId then tbOrderByClientOrderId broker account (the clientOrderId) else Inr None);
          linked = (case found of
              Inl message \<Rightarrow> Inl message
            | Inr None \<Rightarrow> Inr ([], None)
            | Inr (Some order) \<Rightarrow>
                (case replacementChain (tbOrderById broker account) order of
                   Inl message \<Rightarrow> Inl message
                 | Inr (orders, last') \<Rightarrow> Inr (orders, Some last')))
      in case linked of
           Inl message \<Rightarrow> Inl message
         | Inr (orders, order) \<Rightarrow>
           (case (tbPosition broker account symbol, tbOpenBuys broker account symbol) of
              (Inr position, Inr openBuys) \<Rightarrow>
                Inr \<lparr>tvChain = orders, tvOrder = order, tvPosition = position, tvOpenBuys = openBuys\<rparr>
            | (Inl message, _) \<Rightarrow> Inl message
            | (_, Inl message) \<Rightarrow> Inl message))"

subsection \<open>The checks\<close>

definition FINAL_ORDER_STATUSES :: "string list" where
  "FINAL_ORDER_STATUSES = [''filled'', ''canceled'', ''cancelled'', ''expired'', ''rejected'']"

text \<open>\<open>order.symbol.trim()\<close> and \<open>order.side.toLowerCase()\<close> throw on an absent property.\<close>

fun chainConflict :: "string \<Rightarrow> alpacaOrder list \<Rightarrow> bool result" where
  "chainConflict symbol [] = Inr False"
| "chainConflict symbol (order # orders) =
     (case aoSymbol order of
        None \<Rightarrow> Inl (PlainError ''TypeError'' ''Cannot read properties of undefined (reading 'trim')'')
      | Some s \<Rightarrow>
        if toUpperCase (trim s) \<noteq> toUpperCase (trim symbol) then Inr True
        else case aoSide order of
            None \<Rightarrow> Inl (PlainError ''TypeError'' ''Cannot read properties of undefined (reading 'toLowerCase')'')
          | Some side \<Rightarrow> if toLowerCase side \<noteq> ''buy'' then Inr True else chainConflict symbol orders)"

definition finalStatusOf :: "alpacaOrder \<Rightarrow> string" where
  "finalStatusOf order = toLowerCase (trim (aoStatus order))"

definition brokerFilledOf :: "alpacaOrder list \<Rightarrow> jsnum" where
  "brokerFilledOf orders =
     jsSum (map (\<lambda>order. case aoFilledQty order of None \<Rightarrow> Fin 0 | Some q \<Rightarrow> stringToNumber q) orders)"

definition entryFill :: "int \<Rightarrow> brokerActivityRow \<Rightarrow> bool" where
  "entryFill i a = (baOrderIntentId a = Some i \<and> baActivityType a = ''FILL'' \<and> baSide a = Some ''buy'')"

definition accountedFills :: "int \<Rightarrow> claimStore \<Rightarrow> jsnum" where
  "accountedFills i db = jsSum (map (\<lambda>a. nullish (baQty a) (Fin 0)) (filter (entryFill i) (brokerActivityTable db)))"

text \<open>\<open>accounted + 1e-9 < filled\<close>, with the double nearest to \<open>1e-9\<close>.\<close>

definition fillsMissing :: "jsnum \<Rightarrow> jsnum \<Rightarrow> bool" where
  "fillsMissing accounted filled = jsLt (jsAdd accounted (rnd (1 / 1000000000))) filled"

definition otherExecutableBuy :: "claimRow \<Rightarrow> string list \<Rightarrow> brokerOrderRow \<Rightarrow> bool" where
  "otherExecutableBuy claim ids b =
     (boTradingAccountId b = Some (clTradingAccountId claim) \<and> boSecurityId b = clSecurityId claim \<and>
      toLowerCase (boSide b) = ''buy'' \<and> boBrokerOrderId b \<notin> set ids \<and> boStatus b \<notin> set FINAL_ORDER_STATUSES)"

subsection \<open>The release\<close>

definition terminalReleaseTransaction ::
  "int \<Rightarrow> claimRow \<Rightarrow> alpacaOrder list \<Rightarrow> alpacaOrder \<Rightarrow> jsnum \<Rightarrow> jsnum \<Rightarrow> int \<Rightarrow> claimStore \<Rightarrow> claimStore \<Rightarrow>
   (claimRow option \<times> claimStore) result" where
  "terminalReleaseTransaction i claim orders order filled accounted now inside db =
     (case claimById (clId claim) inside of
        None \<Rightarrow> Inr (None, db)
      | Some current \<Rightarrow>
        if clReleasedAt current \<noteq> None then Inr (Some current, db)
        else
          (let activePosition = countWhere (activePositionOf (clTradingAccountId claim) (clSecurityId claim)) (trackedPositionTable inside);
               nonterminalOrder = countWhere (otherExecutableBuy claim (map aoId orders)) (brokerOrderTable inside);
               currentAccounted = accountedFills i inside
           in if activePosition \<noteq> 0 \<or> nonterminalOrder \<noteq> 0 \<or> fillsMissing currentAccounted filled then
                bindR (appendClaimDiagnostic (clId claim) ''AUTHORITATIVE_RELEASE_REVALIDATION_BLOCKED''
                    (JObj [(''activePosition'', jInt activePosition), (''nonterminalOrder'', jInt nonterminalOrder),
                       (''currentAccounted'', JNum currentAccounted), (''brokerFilled'', JNum filled)]) now db)
                  (\<lambda>(_, db'). Inr (None, db'))
              else
                bindR (updateClaims (\<lambda>c. clId c = clId claim \<and> clStatus c = clStatus current \<and> clReleasedAt c = None)
                    (\<lambda>c. c\<lparr>clStatus := ''RELEASED'', clReleasedAt := Some now,
                         clReleaseReason := Some (''BROKER_'' @ toUpperCase (aoStatus order) @ ''_NO_EXPOSURE'')\<rparr>) db)
                  (\<lambda>(count, db1).
                    if count \<noteq> 1 then Inr (claimById (clId claim) db1, db1)
                    else bindR (createEvent (clId claim) ''RELEASED_AUTHORITATIVE_NO_EXPOSURE''
                        (JObj [(''brokerOrderIds'', JArr (map (\<lambda>o'. JStr (aoId o')) orders)), (''brokerOrderStatus'', JStr (aoStatus order)),
                           (''brokerFilledQuantity'', JNum filled), (''locallyAccountedQuantity'', JNum accounted),
                           (''brokerPosition'', JNull), (''executableBrokerBuyOrders'', JArr [])]) now db1)
                      (\<lambda>(_, db2). Inr (claimById (clId claim) db2, db2)))))"

text \<open>From the broker's answer on.\<close>

definition releaseOnView ::
  "int \<Rightarrow> claimRow \<Rightarrow> string \<Rightarrow> string \<Rightarrow> string + terminalView \<Rightarrow> int \<Rightarrow> (nat \<Rightarrow> claimStore) \<Rightarrow> claimStore \<Rightarrow> claimStore \<Rightarrow>
   (claimRow option \<times> claimStore) result" where
  "releaseOnView i claim symbol normalized answer now reads inside db =
     (let diagnose = (\<lambda>eventType fields'. bindR (appendClaimDiagnostic (clId claim) eventType (JObj fields') now db)
            (\<lambda>(_, db'). Inr (None, db')))
      in case answer of
           Inl message \<Rightarrow>
             diagnose ''AUTHORITATIVE_RELEASE_RETRYABLE'' [(''brokerStatus'', JStr normalized), (''error'', JStr message)]
         | Inr view \<Rightarrow>
           bindR (chainConflict symbol (tvChain view)) (\<lambda>identityConflict.
             if identityConflict then
               bindR (markClaimUnresolved (clId claim) ''AUTHORITATIVE_RELEASE_IDENTITY_CONFLICT''
                   (JObj [(''orderIds'', JArr (map (\<lambda>o'. JStr (aoId o')) (tvChain view))), (''symbol'', JStr symbol)]) now db)
                 (\<lambda>(_, db'). Inr (None, db'))
             else
               (case tvOrder view of
                  Some order \<Rightarrow>
                    if finalStatusOf order \<notin> set FINAL_ORDER_STATUSES \<or> tvPosition view \<noteq> None \<or> tvOpenBuys view \<noteq> [] then
                      diagnose ''AUTHORITATIVE_RELEASE_BLOCKED''
                        [(''observedBrokerOrderStatus'', JStr (finalStatusOf order)),
                         (''brokerPositionQuantity'', jOpt (\<lambda>p. JStr (apQty p)) (tvPosition view)),
                         (''executableBrokerBuyOrderIds'', JArr (map (\<lambda>o'. JStr (aoId o')) (tvOpenBuys view)))]
                    else
                      (let filled = brokerFilledOf (tvChain view); accounted = accountedFills i (reads 2) in
                       if \<not> isFinite filled \<or> jsLt filled (Fin 0) \<or> fillsMissing accounted filled then
                         diagnose ''AUTHORITATIVE_RELEASE_FILLS_INCOMPLETE''
                           [(''brokerOrderId'', JStr (aoId order)), (''brokerOrderStatus'', JStr (aoStatus order)),
                            (''brokerFilledQuantity'', jOpt JStr (aoFilledQty order)), (''locallyAccountedQuantity'', JNum accounted)]
                       else terminalReleaseTransaction i claim (tvChain view) order filled accounted now inside db)
                | None \<Rightarrow>
                    diagnose ''AUTHORITATIVE_RELEASE_BLOCKED''
                      [(''observedBrokerOrderStatus'', JNull),
                       (''brokerPositionQuantity'', jOpt (\<lambda>p. JStr (apQty p)) (tvPosition view)),
                       (''executableBrokerBuyOrderIds'', JArr (map (\<lambda>o'. JStr (aoId o')) (tvOpenBuys view)))])))"

definition releaseConfirmedTerminalEntryClaim ::
  "int \<Rightarrow> string \<Rightarrow> bool \<Rightarrow> terminalBroker \<Rightarrow> int \<Rightarrow> (nat \<Rightarrow> claimStore) \<Rightarrow> claimStore \<Rightarrow> claimStore \<Rightarrow>
   (claimRow option \<times> claimStore) result" where
  "releaseConfirmedTerminalEntryClaim i brokerStatus allowUnresolved broker now reads inside db =
     (let lower = toLowerCase brokerStatus; normalized = (if lower = ''cancelled'' then ''canceled'' else lower) in
      if \<not> isTerminalBrokerOrderStatus normalized then Inr (None, db)
      else case claimOfIntent i (reads 0) of
        None \<Rightarrow> Inr (None, db)
      | Some claim \<Rightarrow>
        if clReleasedAt claim \<noteq> None then Inr (Some claim, db)
        else if clStatus claim = ''UNRESOLVED'' \<and> \<not> allowUnresolved then Inr (Some claim, db)
        else if normalized = ''filled'' \<and> clTrackedPositionId claim \<in> {None, Some 0} \<and> \<not> allowUnresolved then
          transitionEntryExposureClaim i ''FILLED_AWAITING_POSITION'' ''BROKER_ORDER_FILLED_AWAITING_POSITION''
            (Some (JObj [(''brokerStatus'', JStr normalized)])) now (reads 1) db
        else if map_option tpStatus (claimPosition (reads 0) claim) \<in> {Some ''open'', Some ''closing''} then Inr (Some claim, db)
        else
          (let symbol = securitySymbolOf (reads 0) claim;
               answer = acquireTerminalView broker claim symbol
                 (Option.bind (claimIntentRow (reads 0) claim) oiClientOrderId) (localOrderOf i (reads 1))
           in releaseOnView i claim symbol normalized answer now reads inside db))"

text \<open>The release for a closed position.\<close>

definition releaseEntryExposureClaimForClosedPosition ::
  "int \<Rightarrow> terminalBroker \<Rightarrow> int \<Rightarrow> (nat \<Rightarrow> claimStore) \<Rightarrow> claimStore \<Rightarrow> claimStore \<Rightarrow> (claimRow option \<times> claimStore) result" where
  "releaseEntryExposureClaimForClosedPosition position broker now reads inside db =
     (case findClaim (\<lambda>c. clTrackedPositionId c = Some position) (reads 0) of
        None \<Rightarrow> Inr (None, db)
      | Some claim \<Rightarrow>
        if clReleasedAt claim \<noteq> None then Inr (Some claim, db)
        else
          (let status = map_option tpStatus (positionById position (reads 1)) in
           if status \<noteq> Some ''closed'' then
             Inl (conflict ''ENTRY_EXPOSURE_UNRESOLVED'' ''Position claim cannot be released before confirmed closure.''
               [(''trackedPositionId'', jInt position), (''claimId'', jInt (clId claim)), (''positionStatus'', jOpt JStr status)])
           else if clOrderIntentId claim \<in> {None, Some 0} then
             bindR (markClaimUnresolved (clId claim) ''CLOSED_POSITION_REQUIRES_OPERATOR_REVIEW''
                 (JObj [(''trackedPositionId'', jInt position),
                    (''reason'', JStr ''No originating entry intent is available for exact broker-order verification.'')]) now db)
               (\<lambda>(_, db'). Inr (None, db'))
           else releaseConfirmedTerminalEntryClaim (the (clOrderIntentId claim)) ''filled'' False broker now
                  (\<lambda>k. reads (k + 2)) inside db))"

end
