(* ===== verification/ClaimMaintenance.thy ===== *)
theory ClaimMaintenance
  imports TerminalRelease
begin

text \<open>
  The remaining writers of the claims: the lease of a recovery attempt and its attempt time
  (\<open>src/services/entry-dispatch-recovery.service.ts\<close>), the release of the claim of an adopted
  position (\<open>src/services/entry-exposure-claim.service.ts\<close>), the two transactions of the
  rollout (\<open>src/services/entry-exposure-readiness.service.ts\<close>) and the authorization event of
  an operator (\<open>src/services/entry-exposure-remediation.service.ts\<close>).
\<close>

text \<open>\<open>updateMany\<close> gives the number of rows and sets their \<open>updatedAt\<close>.\<close>

definition updateIntents :: "(orderIntentRow \<Rightarrow> bool) \<Rightarrow> (orderIntentRow \<Rightarrow> orderIntentRow) \<Rightarrow> int \<Rightarrow> claimStore \<Rightarrow> int \<times> claimStore" where
  "updateIntents P f now db =
     (int (length (filter P (orderIntentTable db))),
      db\<lparr>orderIntentTable := map (\<lambda>o'. if P o' then (f o')\<lparr>oiUpdatedAt := now\<rparr> else o') (orderIntentTable db)\<rparr>)"

subsection \<open>Leases\<close>

definition ENTRY_DISPATCH_RECOVERY_RETRY_MS :: int where "ENTRY_DISPATCH_RECOVERY_RETRY_MS = 60000"

definition isDue :: "int option \<Rightarrow> int \<Rightarrow> bool" where
  "isDue lastDiagnosedAt now =
     (case lastDiagnosedAt of None \<Rightarrow> True | Some t \<Rightarrow> t \<le> now - ENTRY_DISPATCH_RECOVERY_RETRY_MS)"

text \<open>The lease: one attempt for each retry interval, by compare-and-set.\<close>

definition leaseRecoveryAttempt :: "int \<Rightarrow> int \<Rightarrow> claimStore \<Rightarrow> (bool \<times> claimStore) result" where
  "leaseRecoveryAttempt claimId now db =
     bindR (updateClaims (\<lambda>c. clId c = claimId \<and> clReleasedAt c = None \<and> isDue (clLastDiagnosedAt c) now)
         (\<lambda>c. c\<lparr>clLastDiagnosedAt := Some now\<rparr>) db)
       (\<lambda>(count, db'). Inr (count = 1, db'))"

definition keepAttemptTime :: "int \<Rightarrow> int \<Rightarrow> claimStore \<Rightarrow> (unit \<times> claimStore) result" where
  "keepAttemptTime claimId now db =
     bindR (updateClaims (\<lambda>c. clId c = claimId \<and> clReleasedAt c = None \<and>
           (case clLastDiagnosedAt c of None \<Rightarrow> False | Some t \<Rightarrow> t < now))
         (\<lambda>c. c\<lparr>clLastDiagnosedAt := Some now\<rparr>) db)
       (\<lambda>(count, db'). Inr ((), db'))"

subsection \<open>The claim of an adopted position\<close>

text \<open>The filter of the open orders; a method call on an absent property throws.\<close>

fun relevantOpenBuys :: "string \<Rightarrow> alpacaOrder list \<Rightarrow> alpacaOrder list result" where
  "relevantOpenBuys symbol [] = Inr []"
| "relevantOpenBuys symbol (order # orders) =
     (case aoSymbol order of
        None \<Rightarrow> Inl (PlainError ''TypeError'' ''Cannot read properties of undefined (reading 'toUpperCase')'')
      | Some s \<Rightarrow>
        if toUpperCase s \<noteq> toUpperCase symbol then relevantOpenBuys symbol orders
        else case aoSide order of
            None \<Rightarrow> Inl (PlainError ''TypeError'' ''Cannot read properties of undefined (reading 'toLowerCase')'')
          | Some side \<Rightarrow>
              bindR (relevantOpenBuys symbol orders) (\<lambda>rest.
                Inr (if toLowerCase side = ''buy'' \<and> \<not> isTerminalBrokerOrderStatus (aoStatus order) then order # rest else rest)))"

definition executableBuyOf :: "int \<Rightarrow> int \<Rightarrow> brokerOrderRow \<Rightarrow> bool" where
  "executableBuyOf account security b =
     (boTradingAccountId b = Some account \<and> boSecurityId b = security \<and> toLowerCase (boSide b) = ''buy'' \<and>
      boStatus b \<notin> set FINAL_ORDER_STATUSES)"

definition adoptedReleaseTransaction ::
  "int \<Rightarrow> claimRow \<Rightarrow> int \<Rightarrow> claimStore \<Rightarrow> claimStore \<Rightarrow> (claimRow option \<times> claimStore) result" where
  "adoptedReleaseTransaction actorUserId claim now inside db =
     (case claimById (clId claim) inside of
        None \<Rightarrow> Inr (None, db)
      | Some current \<Rightarrow>
        if clReleasedAt current \<noteq> None then Inr (Some current, db)
        else if map_option tpStatus (claimPosition inside current) \<noteq> Some ''closed'' \<or>
          countWhere (activePositionOf (clTradingAccountId claim) (clSecurityId claim)) (trackedPositionTable inside) \<noteq> 0 \<or>
          countWhere (executableBuyOf (clTradingAccountId claim) (clSecurityId claim)) (brokerOrderTable inside) \<noteq> 0
        then Inr (None, db)
        else
          bindR (updateClaims (\<lambda>c. clId c = clId claim \<and> clStatus c = clStatus current \<and> clReleasedAt c = None)
              (\<lambda>c. c\<lparr>clStatus := ''RELEASED'', clReleasedAt := Some now,
                   clReleaseReason := Some ''OPERATOR_VERIFIED_CLOSED_ADOPTED_POSITION_NO_BROKER_EXPOSURE''\<rparr>) db)
            (\<lambda>(count, db1).
              if count \<noteq> 1 then Inr (claimById (clId claim) db1, db1)
              else bindR (createEvent (clId claim) ''RELEASED_OPERATOR_VERIFIED_POSITION_ONLY''
                  (JObj [(''actorUserId'', jInt actorUserId), (''trackedPositionId'', jOpt jInt (clTrackedPositionId claim)),
                     (''brokerPosition'', JNull), (''openBrokerBuyOrders'', JArr [])]) now db1)
                (\<lambda>(_, db2). Inr (claimById (clId claim) db2, db2))))"

text \<open>
  \<open>start\<close> is the database of the first read. A failed request throws its message; of two
  failing requests the one for the position is taken.
\<close>

definition releaseClosedAdoptedPositionClaim ::
  "int \<Rightarrow> int \<Rightarrow> terminalBroker \<Rightarrow> int \<Rightarrow> claimStore \<Rightarrow> claimStore \<Rightarrow> claimStore \<Rightarrow> (claimRow option \<times> claimStore) result" where
  "releaseClosedAdoptedPositionClaim claimId actorUserId broker now start inside db =
     (case claimById claimId start of
        None \<Rightarrow> Inr (None, db)
      | Some claim \<Rightarrow>
        if clReleasedAt claim \<noteq> None then Inr (Some claim, db)
        else if clOrderIntentId claim \<notin> {None, Some 0} \<or> clTrackedPositionId claim \<in> {None, Some 0} \<or>
          map_option tpStatus (claimPosition start claim) \<noteq> Some ''closed'' then
          Inl (conflict ''ENTRY_EXPOSURE_UNRESOLVED''
            ''Position-only remediation requires an adopted closed position with no attributed entry intent.''
            [(''claimId'', jInt claimId)])
        else
          (let symbol = securitySymbolOf start claim in
           case (tbPosition broker (clTradingAccountId claim) symbol, tbOpenBuys broker (clTradingAccountId claim) symbol) of
             (Inl message, _) \<Rightarrow> Inl (PlainError ''Error'' message)
           | (_, Inl message) \<Rightarrow> Inl (PlainError ''Error'' message)
           | (Inr position, Inr openOrders) \<Rightarrow>
               bindR (relevantOpenBuys symbol openOrders) (\<lambda>relevant.
                 if position \<noteq> None \<or> relevant \<noteq> [] then
                   bindR (markClaimUnresolved (clId claim) ''OPERATOR_POSITION_ONLY_RELEASE_REFUSED''
                       (JObj [(''actorUserId'', jInt actorUserId), (''brokerPositionQuantity'', jOpt (\<lambda>p. JStr (apQty p)) position),
                          (''openBrokerBuyOrderIds'', JArr (map (\<lambda>o'. JStr (aoId o')) relevant))]) now db)
                     (\<lambda>(_, db'). Inr (None, db'))
                 else adoptedReleaseTransaction actorUserId claim now inside db)))"

subsection \<open>The rollout\<close>

definition rolloutPositionClaim :: "int \<Rightarrow> int \<Rightarrow> int \<Rightarrow> claimRow" where
  "rolloutPositionClaim account security position =
     \<lparr>clId = 0, clTradingAccountId = account, clSecurityId = security, clOrderIntentId = None,
      clTrackedPositionId = Some position,
      clOwnerKey = ''rollout-position:'' @ showInt account @ '':'' @ showInt position,
      clStatus = ''POSITION_OPEN'', clReleasedAt = None, clReleaseReason = None, clLastDiagnosedAt = None\<rparr>"

definition adoptRolloutPosition ::
  "int \<Rightarrow> int \<Rightarrow> int \<Rightarrow> string \<Rightarrow> int \<Rightarrow> claimStore \<Rightarrow> (unit \<times> claimStore) result" where
  "adoptRolloutPosition account security position symbol now db =
     (if findClaim (activeClaimWhere account security) db \<noteq> None then Inr ((), db)
      else bindR (insertClaim (rolloutPositionClaim account security position) ''OPERATOR_ROLLOUT_ADOPTION''
          (JObj [(''trackedPositionId'', jInt position), (''symbol'', JStr (toUpperCase (trim symbol))),
             (''attribution'', JStr ''LEGACY_OPEN_POSITION_PROTECTED_UNKNOWN_ENTRY_PROVENANCE''),
             (''executionAuthority'', JStr ''NONE'')]) now db)
        (\<lambda>(_, db'). Inr ((), db')))"

definition rolloutIntentClaim :: "int \<Rightarrow> int \<Rightarrow> int \<Rightarrow> claimRow" where
  "rolloutIntentClaim account security intent =
     \<lparr>clId = 0, clTradingAccountId = account, clSecurityId = security, clOrderIntentId = Some intent,
      clTrackedPositionId = None,
      clOwnerKey = ''rollout-intent:'' @ showInt account @ '':'' @ showInt intent,
      clStatus = ''ADMISSION_BLOCKED'', clReleasedAt = None, clReleaseReason = None, clLastDiagnosedAt = None\<rparr>"

text \<open>The claim of a never submitted intent is created and released in one transaction.\<close>

definition blockRolloutIntent ::
  "int \<Rightarrow> int \<Rightarrow> int \<Rightarrow> string \<Rightarrow> int \<Rightarrow> int \<Rightarrow> claimStore \<Rightarrow> (unit \<times> claimStore) result" where
  "blockRolloutIntent account security intent symbol now releasedAt db =
     (if findClaim (activeClaimWhere account security) db \<noteq> None then Inr ((), db)
      else
        (let (count, db1) = updateIntents (\<lambda>o'. oiId o' = intent \<and> oiStatus o' \<in> set [''received'', ''pending''])
               (\<lambda>o'. o'\<lparr>oiStatus := ''blocked'', oiBlockReason := Some ''ROLLOUT_VERIFIED_NEVER_SUBMITTED''\<rparr>) now db
         in if count \<noteq> 1 then Inr ((), db1)
            else
              bindR (insertClaim (rolloutIntentClaim account security intent) ''OPERATOR_ROLLOUT_NEVER_SUBMITTED_VERIFIED''
                  (JObj [(''orderIntentId'', jInt intent), (''symbol'', JStr (toUpperCase (trim symbol))),
                     (''brokerPosition'', JNull), (''executableBrokerBuyOrders'', JArr []),
                     (''localBrokerOrders'', jInt 0), (''localBrokerActivities'', jInt 0)]) now db1)
                (\<lambda>(claim, db2).
              bindR (updateClaims (\<lambda>c. clId c = clId claim)
                  (\<lambda>c. c\<lparr>clStatus := ''RELEASED'', clReleasedAt := Some releasedAt,
                       clReleaseReason := Some ''ROLLOUT_VERIFIED_NEVER_SUBMITTED''\<rparr>) db2)
                (\<lambda>(_, db3). Inr ((), appendEvent (clId claim) ''RELEASED_NO_BROKER_EXPOSURE''
                   (JObj [(''source'', JStr ''ROLLOUT_READINESS'')]) releasedAt db3)))))"

subsection \<open>The authorization of an operator\<close>

definition authorizeRemediation ::
  "int \<Rightarrow> int \<Rightarrow> string \<Rightarrow> string \<Rightarrow> string \<Rightarrow> json \<Rightarrow> int \<Rightarrow> claimStore \<Rightarrow> (unit \<times> claimStore) result" where
  "authorizeRemediation claimId actorUserId actorEmail confirmationFingerprint disposition preview now db =
     createEvent claimId ''OPERATOR_REMEDIATION_AUTHORIZED''
       (JObj [(''actorUserId'', jInt actorUserId), (''actorEmail'', JStr actorEmail),
          (''confirmationFingerprint'', JStr confirmationFingerprint), (''disposition'', JStr disposition),
          (''preview'', preview)]) now db"

end
