(* ===== verification/ReleaseRouting.thy ===== *)
theory ReleaseRouting
  imports ClaimMaintenance
begin

text \<open>
  What \<open>src/services/entry-dispatch-recovery.service.ts\<close> does when an entry has failed: it
  releases the claim as never submitted, or routes it to the recovery by evidence, or keeps it
  with the refusal recorded. The operations are actions on the state of the boundary: before
  each database call other transactions may run, and each call may fail before or after it
  took effect. A database operation of several reads sees the database of each moment.
  System events and log lines are left out.
\<close>

subsection \<open>Operations of several reads\<close>

text \<open>\<open>dbAfter env k n db\<close>: the database at the \<open>(k + n)\<close>-th await, when it was \<open>db\<close> before the \<open>k\<close>-th.\<close>

fun dbAfter :: "boundaryEnv \<Rightarrow> nat \<Rightarrow> nat \<Rightarrow> claimStore \<Rightarrow> claimStore" where
  "dbAfter env k 0 db = beOthers env k db"
| "dbAfter env k (Suc n) db = beOthers env (k + Suc n) (dbAfter env k n db)"

definition dbOperation ::
  "boundaryEnv \<Rightarrow> nat \<Rightarrow> nat \<Rightarrow> ((nat \<Rightarrow> claimStore) \<Rightarrow> claimStore \<Rightarrow> ('a \<times> claimStore) result) \<Rightarrow> 'a action" where
  "dbOperation env k n f s =
     (let db = dbAfter env k n (bsDb s);
          written = transaction (f (\<lambda>m. dbAfter env k m (bsDb s))) db
      in case beFault env k of
           Some (BeforeCommit e) \<Rightarrow> (Inl e, s\<lparr>bsDb := db\<rparr>)
         | Some (AfterCommit e) \<Rightarrow> (Inl e, s\<lparr>bsDb := snd written\<rparr>)
         | None \<Rightarrow> (fst written, s\<lparr>bsDb := snd written\<rparr>))"

definition dbRead :: "boundaryEnv \<Rightarrow> nat \<Rightarrow> (claimStore \<Rightarrow> 'a) \<Rightarrow> 'a action" where
  "dbRead env k f = dbStep env k (\<lambda>db. (Inr (f db), db))"

definition transitionA :: "boundaryEnv \<Rightarrow> nat \<Rightarrow> int \<Rightarrow> string \<Rightarrow> string \<Rightarrow> json option \<Rightarrow> claimRow option action" where
  "transitionA env k i status eventType evidence =
     dbOperation env k 1 (\<lambda>reads db.
       transitionEntryExposureClaim i status eventType evidence (beNow env k) (reads 0) db)"

subsection \<open>Updates of the intents\<close>

text \<open>\<open>update\<close> throws when there is no such row.\<close>

definition updateIntent :: "int \<Rightarrow> (orderIntentRow \<Rightarrow> orderIntentRow) \<Rightarrow> int \<Rightarrow> claimStore \<Rightarrow> (unit \<times> claimStore) result" where
  "updateIntent i f now db =
     (if intentById i db = None then
        Inl (PlainError ''PrismaClientKnownRequestError'' ''Record to update not found.'')
      else Inr ((), snd (updateIntents (\<lambda>o'. oiId o' = i) f now db)))"

subsection \<open>Errors\<close>

text \<open>
  \<open>errorCode\<close>: the \<open>code\<close> of the two dispatch errors; that of a library error is a parameter.
\<close>

definition errorCode :: "(appError \<Rightarrow> string option) \<Rightarrow> entryError \<Rightarrow> string" where
  "errorCode libraryCode e =
     (case e of
        DispatchRefused outcome reasonCode decision diagnostic \<Rightarrow> ''MARKET_POLICY_BROKER_TIME_'' @ outcome
      | DispatchRecordedNotSent record' i \<Rightarrow> ''ENTRY_DISPATCH_RECORD_EXISTS''
      | Failure err \<Rightarrow> (case libraryCode err of Some c \<Rightarrow> c | None \<Rightarrow> errorName e)
      | _ \<Rightarrow> errorName e)"

fun isObject :: "json \<Rightarrow> bool" where
  "isObject (JObj kvs) = True"
| "isObject (JArr xs) = True"
| "isObject _ = False"

fun errorDetails :: "entryError \<Rightarrow> json" where
  "errorDetails (Failure (HttpError status message details)) = (if isObject details then details else JNull)"
| "errorDetails _ = JNull"

fun domainEvidenceConflict :: "entryError \<Rightarrow> bool" where
  "domainEvidenceConflict (Failure (HttpError status message details)) =
     (status = 409 \<and> stringOr (jsonGet details ''code'') [] \<in>
        set [''ENTRY_EXPOSURE_UNRESOLVED'', ''INVALID_ENTRY_EXPOSURE_TRANSITION'', ''ENTRY_EXPOSURE_STALE_TRANSITION''])"
| "domainEvidenceConflict _ = False"

subsection \<open>The environment of the recovery\<close>

record routingEnv =
  rtBoundary :: boundaryEnv
  rtBroker :: "int \<Rightarrow> string \<Rightarrow> string \<Rightarrow> string + brokerView"
  rtHash :: "json \<Rightarrow> string"
  rtLibraryCode :: "appError \<Rightarrow> string option"

definition systemArgs :: "int \<Rightarrow> releaseArgs" where
  "systemArgs i = \<lparr>rlOrderIntentId = i, rlMode = SYSTEM, rlActorUserId = None, rlConfirmationFingerprint = None\<rparr>"

text \<open>\<open>now\<close> is the time of the assessment; the caller may give an earlier one than that of the write.\<close>

definition verifiedReleaseAt :: "'e routingEnv_scheme \<Rightarrow> nat \<Rightarrow> int \<Rightarrow> releaseArgs \<Rightarrow> releaseResult action" where
  "verifiedReleaseAt env k now args =
     dbOperation (rtBoundary env) k 5 (\<lambda>reads db.
       releaseVerifiedEntryExposureClaim args
         \<lparr>reReads = reads, reBroker = rtBroker env, reHash = rtHash env, reNow = now,
          reWriteNow = beNow (rtBoundary env) (k + 4)\<rparr> (reads 4) db)"

definition verifiedReleaseA :: "'e routingEnv_scheme \<Rightarrow> nat \<Rightarrow> releaseArgs \<Rightarrow> releaseResult action" where
  "verifiedReleaseA env k args = verifiedReleaseAt env k (beNow (rtBoundary env) k) args"

text \<open>A deduplicated diagnostic of a failed recovery; its own failures are ignored.\<close>

definition recordRecoveryError :: "'e routingEnv_scheme \<Rightarrow> nat \<Rightarrow> int \<Rightarrow> string \<Rightarrow> entryError \<Rightarrow> unit action" where
  "recordRecoveryError env k i source e =
     (let db = rtBoundary env in
      bindA (catchA (dbRead db k (claimOfIntent i)) (\<lambda>_. returnA None)) (\<lambda>claim.
        case claim of
          None \<Rightarrow> returnA ()
        | Some c \<Rightarrow>
            catchA (bindA (dbStep db (k + 1) (transaction (appendClaimDiagnostic (clId c) ''DISPATCH_RECOVERY_ERROR''
                (JObj [(''source'', JStr source), (''failureClass'', JStr ''TECHNICAL''),
                   (''errorCode'', JStr (errorCode (rtLibraryCode env) e))]) (beNow db (k + 1))))) (\<lambda>_. returnA ()))
              (\<lambda>_. returnA ())))"

text \<open>Whether the claim was released, and the reason otherwise.\<close>

definition attemptReleaseAfterRecordedOutcome ::
  "'e routingEnv_scheme \<Rightarrow> nat \<Rightarrow> int \<Rightarrow> string \<Rightarrow> string \<Rightarrow> (bool \<times> string) action" where
  "attemptReleaseAfterRecordedOutcome env k i classification source =
     (if classification \<notin> set LOCAL_NON_SEND_CLASSIFICATIONS then returnA (False, ''AWAITING_EVIDENCE_BASED_RECOVERY'')
      else catchA (bindA (verifiedReleaseA env k (systemArgs i)) (\<lambda>r. returnA (rrReleased r, rrReason r)))
        (\<lambda>e. bindA (recordRecoveryError env (k + 6) i source e) (\<lambda>_. returnA (False, ''RECOVERY_ERROR''))))"

definition routeEntryDispatchFailure :: "'e routingEnv_scheme \<Rightarrow> nat \<Rightarrow> outcomeArgs \<Rightarrow> (bool \<times> string) action" where
  "routeEntryDispatchFailure env k args =
     bindA (dbOperation (rtBoundary env) k 3 (\<lambda>reads db. recordEntryDispatchOutcome args (beNow (rtBoundary env) (k + 3)) reads db)) (\<lambda>_.
     attemptReleaseAfterRecordedOutcome env (k + 4) (oaOrderIntentId args) (oaClassification args) (oaSource args))"

subsection \<open>The release of an unsubmitted entry\<close>

datatype unsubmittedOutcome =
    RELEASED (urClaimStatus: "string option")
  | ALREADY_RELEASED (urClaimStatus: "string option")
  | NOT_RELEASED (urClaimStatus: "string option")
  | ROUTED_TO_EVIDENCE_RECOVERY
  | REFUSED_RETAINED
  | RETRYABLE_FAILURE (urAttemptRecorded: bool)

definition unsubmittedResult :: "claimRow option \<Rightarrow> string \<Rightarrow> unsubmittedOutcome" where
  "unsubmittedResult claim reason =
     (let status = map_option clStatus claim in
      if releasedByThisCall claim reason then RELEASED status
      else if Option.bind claim clReleasedAt \<noteq> None then ALREADY_RELEASED status
      else NOT_RELEASED status)"

text \<open>A failure that proves nothing about the ownership: the claim stays as it is.\<close>

definition retryableFailure ::
  "'e routingEnv_scheme \<Rightarrow> nat \<Rightarrow> int \<Rightarrow> string \<Rightarrow> string \<Rightarrow> entryError \<Rightarrow> unsubmittedOutcome action" where
  "retryableFailure env k i reason source e =
     (let db = rtBoundary env in
      bindA (catchA (bindA (dbRead db k (claimOfIntent i)) (\<lambda>claim.
          case claim of
            None \<Rightarrow> returnA False
          | Some c \<Rightarrow> bindA (dbStep db (k + 1) (transaction (appendClaimDiagnostic (clId c) ''RECOVERY_ATTEMPT_FAILED''
              (JObj [(''source'', JStr source), (''reason'', JStr reason), (''failureClass'', JStr ''TECHNICAL''),
                 (''errorCode'', JStr (errorCode (rtLibraryCode env) e)), (''automaticRetry'', JStr ''SCHEDULED'')])
              (beNow db (k + 1))))) (\<lambda>_. returnA True)))
        (\<lambda>_. returnA False)) (\<lambda>attemptRecorded. returnA (RETRYABLE_FAILURE attemptRecorded)))"

text \<open>A refusal by the evidence: an earlier dispatch record, or none.\<close>

definition refusedWithPriorRecord ::
  "'e routingEnv_scheme \<Rightarrow> nat \<Rightarrow> int \<Rightarrow> string \<Rightarrow> string \<Rightarrow> entryError \<Rightarrow> unsubmittedOutcome action" where
  "refusedWithPriorRecord env k i reason source e =
     (let db = rtBoundary env in
      bindA (catchA (dbRead db k (claimOfIntent i)) (\<lambda>_. returnA None)) (\<lambda>claim.
      bindA (case claim of
          Some c \<Rightarrow>
            if clReleasedAt c = None then
              catchA (bindA (dbStep db (k + 1) (transaction (appendClaimDiagnostic (clId c) ''PRE_BOUNDARY_FAILURE_WITH_PRIOR_DISPATCH_RECORD''
                  (JObj [(''reason'', JStr reason), (''source'', JStr source), (''refusal'', JStr (take 300 (failureText e)))])
                  (beNow db (k + 1))))) (\<lambda>_. returnA ()))
                (recordRecoveryError env (k + 2) i source)
            else returnA ()
        | None \<Rightarrow> returnA ()) (\<lambda>_. returnA REFUSED_RETAINED)))"

definition refusedWithoutRecord ::
  "'e routingEnv_scheme \<Rightarrow> nat \<Rightarrow> int \<Rightarrow> string \<Rightarrow> string \<Rightarrow> entryError \<Rightarrow> unsubmittedOutcome action" where
  "refusedWithoutRecord env k i reason source e =
     (let db = rtBoundary env in
      bindA (catchA (dbRead db k (claimOfIntent i)) (\<lambda>_. returnA None)) (\<lambda>claim.
      bindA (case claim of
          Some c \<Rightarrow>
            if clReleasedAt c = None then
              catchA (bindA (transitionA db (k + 1) i ''UNRESOLVED'' ''UNSUBMITTED_RELEASE_REFUSED''
                  (Some (JObj [(''reason'', JStr reason), (''source'', JStr source), (''refusal'', JStr (take 300 (failureText e))),
                     (''details'', errorDetails e), (''executionAuthority'', JStr ''NONE'')]))) (\<lambda>_. returnA ()))
                (recordRecoveryError env (k + 3) i source)
            else returnA ()
        | None \<Rightarrow> returnA ()) (\<lambda>_. returnA REFUSED_RETAINED)))"

definition afterRefusal ::
  "'e routingEnv_scheme \<Rightarrow> nat \<Rightarrow> int \<Rightarrow> string \<Rightarrow> string \<Rightarrow> bool \<Rightarrow> string option \<Rightarrow> entryError \<Rightarrow> unsubmittedOutcome action" where
  "afterRefusal env k i reason source dispatchAttempted message e =
     bindA (catchA (bindA (dbRead (rtBoundary env) k (loadEntryDispatchRecords i)) (\<lambda>r. returnA (Some r))) (\<lambda>_. returnA None)) (\<lambda>records.
       case records of
         Some r \<Rightarrow>
           if drsDurable r \<and> dispatchAttempted then
             bindA (catchA (routeEntryDispatchFailure env (k + 1)
                 \<lparr>oaOrderIntentId = i, oaClassification = ''NOT_SENT_DISPATCH_RECORD_ACK_LOST'', oaSource = source,
                  oaObservation = Some OBSERVED, oaStatusCode = None,
                  oaMessage = Some (nullish message reason), oaRecords = Some r\<rparr>)
               (\<lambda>routeError. bindA (recordRecoveryError env (k + 13) i source routeError) (\<lambda>_. returnA (False, []))))
               (\<lambda>_. returnA ROUTED_TO_EVIDENCE_RECOVERY)
           else if drsPresent r then refusedWithPriorRecord env (k + 15) i reason source e
           else refusedWithoutRecord env (k + 15) i reason source e
       | None \<Rightarrow> refusedWithoutRecord env (k + 15) i reason source e)"

definition releaseUnsubmittedOrRouteToRecovery ::
  "'e routingEnv_scheme \<Rightarrow> nat \<Rightarrow> int \<Rightarrow> string \<Rightarrow> string \<Rightarrow> bool \<Rightarrow> string option \<Rightarrow> unsubmittedOutcome action" where
  "releaseUnsubmittedOrRouteToRecovery env k i reason source dispatchAttempted message =
     catchA (bindA (dbStep (rtBoundary env) k (transaction (releaseUnsubmittedEntryExposureClaim i reason (beNow (rtBoundary env) k))))
         (\<lambda>claim. returnA (unsubmittedResult claim reason)))
       (\<lambda>e. if domainEvidenceConflict e then afterRefusal env (k + 1) i reason source dispatchAttempted message e
            else retryableFailure env (k + 1) i reason source e)"

end
