(* ===== verification/TerminalSweep.thy ===== *)
theory TerminalSweep
  imports ReleaseRouting
begin

text \<open>
  The sweeps of \<open>src/services/entry-dispatch-recovery.service.ts\<close>: terminal intents whose claims
  are still held, and admissions that were abandoned. A pure classification of the evidence
  decides what a sweep may do with a claim; a lease bounds the attempts. The read-only views of
  the readiness report are left out.
\<close>

definition ENTRY_DISPATCH_RECOVERY_BATCH_LIMIT :: nat where "ENTRY_DISPATCH_RECOVERY_BATCH_LIMIT = 3"
definition STALE_ADMISSION_THRESHOLD_MS :: int where "STALE_ADMISSION_THRESHOLD_MS = 15 * 60000"
definition STALE_ADMISSION_BATCH_LIMIT :: nat where "STALE_ADMISSION_BATCH_LIMIT = 3"

subsection \<open>Results of attempts\<close>

datatype attemptResult = BLOCKED_BY_EVIDENCE | TECHNICAL_FAILURE | REFUSED | RETAINED

definition ATTEMPT_RESULT_EVENTS :: "(string \<times> attemptResult option) list" where
  "ATTEMPT_RESULT_EVENTS =
     [(''DISPATCH_RECOVERY_RELEASE_BLOCKED'', Some BLOCKED_BY_EVIDENCE),
      (''DISPATCH_RECOVERY_REVALIDATION_BLOCKED'', Some BLOCKED_BY_EVIDENCE),
      (''DISPATCH_RECOVERY_ERROR'', Some TECHNICAL_FAILURE), (''RECOVERY_ATTEMPT_FAILED'', Some TECHNICAL_FAILURE),
      (''UNSUBMITTED_RELEASE_REFUSED'', Some REFUSED), (''PRE_BOUNDARY_FAILURE_WITH_PRIOR_DISPATCH_RECORD'', Some REFUSED),
      (''DISPATCH_RECOVERY_ATTEMPT_RESULT'', None)]"

fun attemptResultText :: "attemptResult \<Rightarrow> string" where
  "attemptResultText BLOCKED_BY_EVIDENCE = ''BLOCKED_BY_EVIDENCE''"
| "attemptResultText TECHNICAL_FAILURE = ''TECHNICAL_FAILURE''"
| "attemptResultText REFUSED = ''REFUSED''"
| "attemptResultText RETAINED = ''RETAINED''"

definition attemptResultOf :: "claimEventRow \<Rightarrow> attemptResult option" where
  "attemptResultOf e =
     (case map_of ATTEMPT_RESULT_EVENTS (ceEventType e) of
        None \<Rightarrow> None
      | Some (Some mapped) \<Rightarrow> Some mapped
      | Some None \<Rightarrow>
          (case List.find (\<lambda>r. jsonGet (ceEvidenceJson e) ''result'' = Some (JStr (attemptResultText r)))
               [BLOCKED_BY_EVIDENCE, TECHNICAL_FAILURE, REFUSED, RETAINED] of
             Some r \<Rightarrow> Some r | None \<Rightarrow> Some RETAINED))"

subsection \<open>What a block reason implies\<close>

text \<open>\<open>/status (\d{3})/\<close>: the first match.\<close>

fun statusDigits :: "string \<Rightarrow> string option" where
  "statusDigits [] = None"
| "statusDigits (c # s) =
     (let digits = take 3 (drop 7 (c # s)) in
      if startsWith (c # s) ''status '' \<and> length digits = 3 \<and> list_all isDigit digits then Some digits else statusDigits s)"

text \<open>\<open>/^MARKET_POLICY_BROKER_TIME:[A-Z_]+:DEFINITELY_NOT_SENT/\<close>\<close>

definition upperOrUnderscore :: "char \<Rightarrow> bool" where
  "upperOrUnderscore c = (c \<in> set ''ABCDEFGHIJKLMNOPQRSTUVWXYZ_'')"

definition policyRefusalReason :: "string \<Rightarrow> bool" where
  "policyRefusalReason reason =
     (let prefix = ''MARKET_POLICY_BROKER_TIME:'';
          outcome = takeWhile upperOrUnderscore (drop (length prefix) reason)
      in startsWith reason prefix \<and> outcome \<noteq> [] \<and>
         startsWith (drop (length prefix + length outcome) reason) '':DEFINITELY_NOT_SENT'')"

definition writeClassificationOfText :: "string \<Rightarrow> writeClassification option" where
  "writeClassificationOfText s = List.find (\<lambda>k. writeClassificationText k = s)
     [NOT_SENT_RETRYABLE, NOT_SENT_BLOCKED, BROKER_REJECTED, DELIVERY_UNCERTAIN]"

definition inferEntryDispatchOutcome :: "string option \<Rightarrow> string \<times> jsnum option" where
  "inferEntryDispatchOutcome blockReason =
     (let reason = nullish blockReason [] in
      case blockReasonDeliveryClassification (Some reason) of
        Some write' \<Rightarrow>
          (entryDispatchOutcomeFor (writeClassificationOfText write'),
           if write' = ''BROKER_REJECTED'' then map_option stringToNumber (statusDigits reason) else None)
      | None \<Rightarrow>
          if policyRefusalReason reason \<or> startsWith reason ''ENTRY_DISPATCH_RECORDED_NOT_SENT'' \<or>
             startsWith reason ''LOCAL_PRE_DISPATCH_FAILURE''
          then (''NOT_SENT_DISPATCH_RECORD_ACK_LOST'', None)
          else (''DISPATCH_OUTCOME_UNKNOWN'', None))"

subsection \<open>Candidates and their classification\<close>

datatype recoveryState =
    AUTOMATIC_NEVER_SUBMITTED_RELEASE | AUTOMATIC_NOT_SENT_EVIDENCE_RECORDING | AUTOMATIC_OUTCOME_RECORDING
  | AUTOMATIC_VERIFIED_RELEASE | OPERATOR_INVESTIGATION | PROTECTED_EXPOSURE

fun recoveryStateText :: "recoveryState \<Rightarrow> string" where
  "recoveryStateText AUTOMATIC_NEVER_SUBMITTED_RELEASE = ''AUTOMATIC_NEVER_SUBMITTED_RELEASE''"
| "recoveryStateText AUTOMATIC_NOT_SENT_EVIDENCE_RECORDING = ''AUTOMATIC_NOT_SENT_EVIDENCE_RECORDING''"
| "recoveryStateText AUTOMATIC_OUTCOME_RECORDING = ''AUTOMATIC_OUTCOME_RECORDING''"
| "recoveryStateText AUTOMATIC_VERIFIED_RELEASE = ''AUTOMATIC_VERIFIED_RELEASE''"
| "recoveryStateText OPERATOR_INVESTIGATION = ''OPERATOR_INVESTIGATION''"
| "recoveryStateText PROTECTED_EXPOSURE = ''PROTECTED_EXPOSURE''"

definition AUTOMATIC_STATES :: "recoveryState list" where
  "AUTOMATIC_STATES = [AUTOMATIC_NEVER_SUBMITTED_RELEASE, AUTOMATIC_NOT_SENT_EVIDENCE_RECORDING,
     AUTOMATIC_OUTCOME_RECORDING, AUTOMATIC_VERIFIED_RELEASE]"

record terminalClaimCandidate =
  tcId :: int
  tcStatus :: string
  tcTradingAccountId :: int
  tcSecurityId :: int
  tcSymbol :: string
  tcLastDiagnosedAt :: "int option"
  tcTrackedPositionId :: "int option"
  tcIntent :: orderIntentRow
  tcConsumption :: "dispatchConsumptionRow option"
  tcUnenforced :: "unenforcedDispatchRow option"
  tcDispatchOpportunityEvents :: int
  tcBrokerOrders :: int
  tcLiveArmingConsumed :: bool
  tcEvents :: "claimEventRow list"

text \<open>A classification of non-dispatch with its producer.\<close>

type_synonym notSentBasis = "string \<times> string"

definition legacyNotSentReason :: "string \<Rightarrow> bool" where
  "legacyNotSentReason reason = (policyRefusalReason reason \<or> startsWith reason ''LOCAL_PRE_DISPATCH_FAILURE:'')"

text \<open>The refusal of the recheck, as the worker stored it beside the request.\<close>

definition refusedByRisk :: "orderIntentRow \<Rightarrow> bool" where
  "refusedByRisk intent =
     (case jsonGet (oiRawRequestJson intent) ''riskEvaluation'' of
        Some risk \<Rightarrow>
          jsonGet risk ''allowed'' = Some (JBool False) \<and> oiStatus intent = ''blocked'' \<and>
          (case asString (jsonGet risk ''reason'') of None \<Rightarrow> False | Some reason \<Rightarrow> Some reason = oiBlockReason intent)
      | None \<Rightarrow> False)"

definition legacyNotSentEvidence :: "terminalClaimCandidate \<Rightarrow> notSentBasis option" where
  "legacyNotSentEvidence candidate =
     (let intent = tcIntent candidate; local = blockReasonDeliveryClassification (oiBlockReason intent) in
      if local = Some ''NOT_SENT_BLOCKED'' then Some (''NOT_SENT_LOCAL_BLOCKED'', ''TERMINAL_SWEEP_LEGACY_LOCAL_CLASSIFICATION'')
      else if local = Some ''NOT_SENT_RETRYABLE'' then Some (''NOT_SENT_LOCAL_RETRYABLE'', ''TERMINAL_SWEEP_LEGACY_LOCAL_CLASSIFICATION'')
      else if legacyNotSentReason (nullish (oiBlockReason intent) []) then
        Some (''NOT_SENT_PRE_DISPATCH'', ''TERMINAL_SWEEP_LEGACY_LOCAL_CLASSIFICATION'')
      else if refusedByRisk intent then Some (''NOT_SENT_PRE_DISPATCH'', ''TERMINAL_SWEEP_RISK_EVALUATION_BLOCKED'')
      else None)"

record claimClassification =
  ccState :: recoveryState
  ccBlocker :: "string option"
  ccNotSent :: "notSentBasis option"
  ccSummary :: deliverySummary
  ccBasis :: releaseBasis
  ccRecordsPresent :: bool

definition ccAutomatic :: "claimClassification \<Rightarrow> bool" where
  "ccAutomatic c = (ccState c \<in> set AUTOMATIC_STATES)"

definition candidateRecordsPresent :: "terminalClaimCandidate \<Rightarrow> bool" where
  "candidateRecordsPresent candidate =
     ((case tcConsumption candidate of None \<Rightarrow> False | Some c \<Rightarrow> dcId c \<noteq> 0) \<or>
      (case tcUnenforced candidate of None \<Rightarrow> False | Some u \<Rightarrow> udId u \<noteq> 0) \<or>
      0 < tcDispatchOpportunityEvents candidate \<or> tcLiveArmingConsumed candidate)"

definition preDispatchState ::
  "terminalClaimCandidate \<Rightarrow> deliverySummary \<Rightarrow> bool \<Rightarrow> recoveryState \<times> string option \<times> notSentBasis option" where
  "preDispatchState candidate summary recordsPresent =
     (let intent = tcIntent candidate;
          legacy = (if dsAdapterMarkers summary = 0 then legacyNotSentEvidence candidate else None)
      in if recordsPresent \<or> dsDispatchOutcomes summary \<noteq> [] then
           (AUTOMATIC_OUTCOME_RECORDING, Some ''DISPATCH_OUTCOME_NOT_RECORDED'', None)
         else if reProven (evaluateNeverSubmittedRelease (tcStatus candidate) summary (oiBlockReason intent)) then
           (AUTOMATIC_NEVER_SUBMITTED_RELEASE, None, None)
         else if tcStatus candidate = ''ENTRY_SUBMITTING'' \<and> dsMarkerProtocol summary \<and> dsAdapterMarkers summary = 0 then
           (AUTOMATIC_NOT_SENT_EVIDENCE_RECORDING, None, Some (''NOT_SENT_PRE_DISPATCH'', ''TERMINAL_SWEEP_ADAPTER_NOT_INVOKED''))
         else if legacy \<noteq> None then (AUTOMATIC_NOT_SENT_EVIDENCE_RECORDING, None, legacy)
         else (AUTOMATIC_OUTCOME_RECORDING, Some ''DELIVERY_OUTCOME_UNKNOWN_NO_DISPATCH_RECORD'', None))"

definition unresolvedState ::
  "deliverySummary \<Rightarrow> releaseBasis \<Rightarrow> bool \<Rightarrow> recoveryState \<times> string option \<times> notSentBasis option" where
  "unresolvedState summary basis recordsPresent =
     (if dsOutcomes summary = [] then
        (if recordsPresent then (AUTOMATIC_OUTCOME_RECORDING, Some ''DISPATCH_OUTCOME_NOT_RECORDED'', None)
         else (OPERATOR_INVESTIGATION, Some ''NO_DELIVERY_EVIDENCE'', None))
      else if rbConclusiveness basis = ''AMBIGUOUS_ABSENCE'' then
        (OPERATOR_INVESTIGATION,
         if \<not> recordsPresent \<and> rbBlocker basis = Some ''DELIVERY_OUTCOME_UNCERTAIN'' \<and> \<not> dsAdapterRequestObserved summary
         then Some ''DELIVERY_OUTCOME_UNKNOWN_NO_DISPATCH_RECORD'' else rbBlocker basis, None)
      else (AUTOMATIC_VERIFIED_RELEASE, rbBlocker basis, None))"

definition classifyTerminalEntryClaim :: "terminalClaimCandidate \<Rightarrow> int \<Rightarrow> claimClassification" where
  "classifyTerminalEntryClaim candidate now =
     (let summary = summarizeDeliveryEvidence (tcEvents candidate);
          recordsPresent = candidateRecordsPresent candidate;
          basis = evaluateDispatchReleaseBasis (dsOutcomes summary) now;
          (state, blocker, notSent) =
            (if 0 < tcBrokerOrders candidate \<or> tcTrackedPositionId candidate \<noteq> None then
               (PROTECTED_EXPOSURE, Some ''BROKER_ORDER_OR_POSITION_EVIDENCE'', None)
             else if tcStatus candidate \<in> set PRE_DISPATCH_CLAIM_STATUSES then preDispatchState candidate summary recordsPresent
             else if tcStatus candidate \<noteq> ''UNRESOLVED'' then (PROTECTED_EXPOSURE, Some ''CLAIM_STATUS_NOT_RECOVERABLE'', None)
             else unresolvedState summary basis recordsPresent)
      in \<lparr>ccState = state, ccBlocker = blocker, ccNotSent = notSent, ccSummary = summary, ccBasis = basis,
          ccRecordsPresent = recordsPresent\<rparr>)"

subsection \<open>Loading\<close>

text \<open>\<open>db\<close> is the database of the claims, \<open>later\<close> that of the LIVE armings.\<close>

definition candidateOf :: "claimStore \<Rightarrow> claimStore \<Rightarrow> claimRow \<Rightarrow> orderIntentRow \<Rightarrow> terminalClaimCandidate" where
  "candidateOf db later claim intent =
     \<lparr>tcId = clId claim, tcStatus = clStatus claim, tcTradingAccountId = clTradingAccountId claim,
      tcSecurityId = clSecurityId claim, tcSymbol = securitySymbolOf db claim, tcLastDiagnosedAt = clLastDiagnosedAt claim,
      tcTrackedPositionId = clTrackedPositionId claim, tcIntent = intent,
      tcConsumption = List.find (\<lambda>d. dcOrderIntentId d = oiId intent) (dispatchConsumptionTable db),
      tcUnenforced = List.find (\<lambda>d. udOrderIntentId d = oiId intent) (unenforcedDispatchTable db),
      tcDispatchOpportunityEvents = countWhere (\<lambda>(j, t). j = oiId intent \<and> t \<in> set DISPATCH_OPPORTUNITY_EVENT_TYPES)
        (opportunityEventTable db),
      tcBrokerOrders = countWhere (\<lambda>b. boOrderIntentId b = oiId intent) (brokerOrderTable db),
      tcLiveArmingConsumed = list_ex (\<lambda>t. atOrderIntentId t = Some (oiId intent) \<and> atType t = ''CONSUMED'') (armingTerminationTable later),
      tcEvents = deliveryEventsOf db (clId claim)\<rparr>"

definition terminalClaims :: "bool \<Rightarrow> int list \<Rightarrow> claimStore \<Rightarrow> (claimRow \<times> orderIntentRow) list" where
  "terminalClaims includePositionAttached accounts db =
     List.map_filter (\<lambda>c. case claimIntentRow db c of
         None \<Rightarrow> None
       | Some intent \<Rightarrow>
           if clReleasedAt c = None \<and> (includePositionAttached \<or> clTrackedPositionId c = None) \<and>
              oiStatus intent \<in> set TERMINAL_ENTRY_INTENT_STATUSES \<and> (accounts = [] \<or> clTradingAccountId c \<in> set accounts)
           then Some (c, intent) else None)
       (sort_key clId (claimTable db))"

definition loadTerminalClaimCandidates :: "bool \<Rightarrow> int list \<Rightarrow> claimStore \<Rightarrow> claimStore \<Rightarrow> terminalClaimCandidate list" where
  "loadTerminalClaimCandidates includePositionAttached accounts db later =
     map (\<lambda>(c, intent). candidateOf db later c intent) (terminalClaims includePositionAttached accounts db)"

definition staleAdmissionClaim :: "int \<Rightarrow> int list \<Rightarrow> claimStore \<Rightarrow> claimRow \<Rightarrow> bool" where
  "staleAdmissionClaim now accounts db c =
     (clReleasedAt c = None \<and> clStatus c = ''ENTRY_PENDING'' \<and> clTrackedPositionId c = None \<and>
      (accounts = [] \<or> clTradingAccountId c \<in> set accounts) \<and>
      (case claimIntentRow db c of None \<Rightarrow> False
       | Some intent \<Rightarrow> oiStatus intent = ''received'' \<and> oiUpdatedAt intent \<le> now - STALE_ADMISSION_THRESHOLD_MS))"

subsection \<open>The work of an account\<close>

record accountRecovery =
  arActionableDue :: nat
  arActionableWaiting :: nat
  arOperatorInvestigation :: nat
  arProtectedExposure :: nat
  arHeld :: nat
  arStaleAdmissionHeld :: nat
  arStaleAdmissionDue :: nat

definition noRecovery :: accountRecovery where
  "noRecovery = \<lparr>arActionableDue = 0, arActionableWaiting = 0, arOperatorInvestigation = 0, arProtectedExposure = 0,
     arHeld = 0, arStaleAdmissionHeld = 0, arStaleAdmissionDue = 0\<rparr>"

definition countAdmission :: "int \<Rightarrow> claimRow \<Rightarrow> accountRecovery \<Rightarrow> accountRecovery" where
  "countAdmission now c entry =
     entry\<lparr>arStaleAdmissionHeld := arStaleAdmissionHeld entry + 1,
       arStaleAdmissionDue := arStaleAdmissionDue entry + (if isDue (clLastDiagnosedAt c) now then 1 else 0)\<rparr>"

definition countCandidate :: "int \<Rightarrow> terminalClaimCandidate \<Rightarrow> accountRecovery \<Rightarrow> accountRecovery" where
  "countCandidate now candidate entry =
     (let c = classifyTerminalEntryClaim candidate now; held = entry\<lparr>arHeld := arHeld entry + 1\<rparr> in
      if ccAutomatic c then
        (if isDue (tcLastDiagnosedAt candidate) now then held\<lparr>arActionableDue := arActionableDue held + 1\<rparr>
         else held\<lparr>arActionableWaiting := arActionableWaiting held + 1\<rparr>)
      else if ccState c = OPERATOR_INVESTIGATION then held\<lparr>arOperatorInvestigation := arOperatorInvestigation held + 1\<rparr>
      else held\<lparr>arProtectedExposure := arProtectedExposure held + 1\<rparr>)"

definition updateAccount :: "int \<Rightarrow> (accountRecovery \<Rightarrow> accountRecovery) \<Rightarrow> (int \<rightharpoonup> accountRecovery) \<Rightarrow> (int \<rightharpoonup> accountRecovery)" where
  "updateAccount account f m = m(account \<mapsto> f (case m account of None \<Rightarrow> noRecovery | Some entry \<Rightarrow> entry))"

definition summarizeTerminalClaimRecoveryByAccount ::
  "int \<Rightarrow> int list \<Rightarrow> claimStore \<Rightarrow> claimStore \<Rightarrow> claimStore \<Rightarrow> (int \<rightharpoonup> accountRecovery)" where
  "summarizeTerminalClaimRecoveryByAccount now accounts db later admissions =
     fold (\<lambda>candidate. updateAccount (tcTradingAccountId candidate) (countCandidate now candidate))
       (loadTerminalClaimCandidates False accounts db later)
       (fold (\<lambda>c. updateAccount (clTradingAccountId c) (countAdmission now c))
         (filter (staleAdmissionClaim now accounts admissions) (claimTable admissions)) Map.empty)"

subsection \<open>Attempts\<close>

definition latestAttemptResultEvent :: "int \<Rightarrow> claimStore \<Rightarrow> claimEventRow option" where
  "latestAttemptResultEvent claimId db =
     latestEvent ceId (\<lambda>e. ceClaimId e = claimId \<and> ceEventType e \<in> set RECOVERY_ATTEMPT_RESULT_EVENT_TYPES) db"

definition recordAttemptResultIfStale ::
  "'e routingEnv_scheme \<Rightarrow> int \<Rightarrow> int \<Rightarrow> attemptResult \<times> string \<Rightarrow> recoveryState \<Rightarrow> unit action" where
  "recordAttemptResultIfStale env claimId priorResultEventId attempt state =
     (let db = rtBoundary env in
      bindA (dbRead db 380 (latestAttemptResultEvent claimId)) (\<lambda>latest.
      if (case latest of None \<Rightarrow> False
          | Some e \<Rightarrow> priorResultEventId < ceId e \<or> attemptResultOf e = Some (fst attempt)) then returnA ()
      else bindA (dbStep db 381 (transaction (appendClaimDiagnostic claimId ''DISPATCH_RECOVERY_ATTEMPT_RESULT''
          (JObj [(''source'', JStr ''TERMINAL_CLAIM_SWEEP''), (''result'', JStr (attemptResultText (fst attempt))),
             (''reason'', JStr (snd attempt)), (''recoveryState'', JStr (recoveryStateText state))]) (beNow db 381)))) (\<lambda>_.
        returnA ())))"

text \<open>Structured evidence for a claim, only against exactly the evidence that was classified.\<close>

definition recordNotSentEvidence :: "terminalClaimCandidate \<Rightarrow> notSentBasis \<Rightarrow> int \<Rightarrow> claimStore \<Rightarrow> (bool \<times> claimStore) result" where
  "recordNotSentEvidence candidate notSent now db =
     (case claimById (tcId candidate) db of
        None \<Rightarrow> Inr (False, db)
      | Some current \<Rightarrow>
        if clReleasedAt current \<noteq> None \<or> clStatus current \<noteq> tcStatus candidate \<or>
           length (deliveryEventsOf db (tcId candidate)) \<noteq> length (tcEvents candidate) then Inr (False, db)
        else bindR (appendNotSentEvidence (tcId candidate) (oiId (tcIntent candidate)) (fst notSent) (snd notSent)
            ''TERMINAL_CLAIM_SWEEP'' ''TERMINAL_INTENT_VERIFIED_NEVER_SUBMITTED'' (oiBlockReason (tcIntent candidate)) None now db)
          (\<lambda>(_, db'). Inr (True, db')))"

definition releaseAsNeverSubmitted :: "'e routingEnv_scheme \<Rightarrow> int \<Rightarrow> unsubmittedOutcome action" where
  "releaseAsNeverSubmitted env i =
     releaseUnsubmittedOrRouteToRecovery env 310 i ''TERMINAL_INTENT_VERIFIED_NEVER_SUBMITTED'' ''TERMINAL_CLAIM_SWEEP'' False None"

definition recordNotSentEvidenceAndRelease ::
  "'e routingEnv_scheme \<Rightarrow> terminalClaimCandidate \<Rightarrow> notSentBasis \<Rightarrow> unsubmittedOutcome action" where
  "recordNotSentEvidenceAndRelease env candidate notSent =
     (let db = rtBoundary env in
      bindA (dbStep db 304 (transaction (recordNotSentEvidence candidate notSent (beNow db 304)))) (\<lambda>recorded.
      if recorded then releaseAsNeverSubmitted env (oiId (tcIntent candidate)) else returnA (NOT_RELEASED None)))"

subsection \<open>The sweep of terminal claims\<close>

record sweepTally =
  swAttempted :: "int list"
  swReleased :: nat
  swRetained :: nat
  swRecorded :: nat
  swFailures :: "(int \<times> string) list"

definition noSweep :: sweepTally where
  "noSweep = \<lparr>swAttempted = [], swReleased = 0, swRetained = 0, swRecorded = 0, swFailures = []\<rparr>"

definition addSweep :: "sweepTally \<Rightarrow> sweepTally \<Rightarrow> sweepTally" where
  "addSweep a b = \<lparr>swAttempted = swAttempted a @ swAttempted b, swReleased = swReleased a + swReleased b,
     swRetained = swRetained a + swRetained b, swRecorded = swRecorded a + swRecorded b,
     swFailures = swFailures a @ swFailures b\<rparr>"

definition countRelease :: "bool \<Rightarrow> sweepTally \<Rightarrow> sweepTally" where
  "countRelease released t =
     (if released then t\<lparr>swReleased := swReleased t + 1\<rparr> else t\<lparr>swRetained := swRetained t + 1\<rparr>)"

definition countFailure :: "int \<Rightarrow> string \<Rightarrow> sweepTally \<Rightarrow> sweepTally" where
  "countFailure claimId message t = t\<lparr>swFailures := swFailures t @ [(claimId, message)]\<rparr>"

definition messageOf :: "entryError \<Rightarrow> string" where
  "messageOf e = take 300 (failureText e)"

fun outcomeName :: "unsubmittedOutcome \<Rightarrow> string" where
  "outcomeName (RELEASED s) = ''RELEASED''"
| "outcomeName (ALREADY_RELEASED s) = ''ALREADY_RELEASED''"
| "outcomeName (NOT_RELEASED s) = ''NOT_RELEASED''"
| "outcomeName ROUTED_TO_EVIDENCE_RECOVERY = ''ROUTED_TO_EVIDENCE_RECOVERY''"
| "outcomeName REFUSED_RETAINED = ''REFUSED_RETAINED''"
| "outcomeName (RETRYABLE_FAILURE r) = ''RETRYABLE_FAILURE''"

fun isReleased :: "unsubmittedOutcome \<Rightarrow> bool" where
  "isReleased (RELEASED s) = True" | "isReleased _ = False"
fun isRetryable :: "unsubmittedOutcome \<Rightarrow> bool" where
  "isRetryable (RETRYABLE_FAILURE r) = True" | "isRetryable _ = False"

text \<open>What an attempt concluded; \<open>None\<close> once the claim is released.\<close>

definition unsubmittedConclusion :: "unsubmittedOutcome \<Rightarrow> (attemptResult \<times> string) option" where
  "unsubmittedConclusion release =
     (if isReleased release then None
      else Some (if isRetryable release then TECHNICAL_FAILURE else if release = REFUSED_RETAINED then REFUSED else RETAINED,
        outcomeName release))"

definition verifiedConclusion :: "releaseResult \<Rightarrow> (attemptResult \<times> string) option" where
  "verifiedConclusion release =
     (if rrReleased release then None
      else Some (if \<not> raEligible (rrAssessment release) then BLOCKED_BY_EVIDENCE else RETAINED, rrReason release))"

definition unsubmittedTally :: "int \<Rightarrow> unsubmittedOutcome \<Rightarrow> sweepTally \<Rightarrow> sweepTally" where
  "unsubmittedTally claimId release t =
     (let counted = countRelease (isReleased release) t in
      if isRetryable release then countFailure claimId ''RETRYABLE_RELEASE_FAILURE'' counted else counted)"

type_synonym sweepConclusion = "(attemptResult \<times> string) option \<times> sweepTally"

definition sweepError ::
  "'e routingEnv_scheme \<Rightarrow> terminalClaimCandidate \<Rightarrow> sweepTally \<Rightarrow> entryError \<Rightarrow> sweepConclusion action" where
  "sweepError env candidate t e =
     bindA (recordRecoveryError env 370 (oiId (tcIntent candidate)) ''TERMINAL_CLAIM_SWEEP'' e) (\<lambda>_.
     returnA (Some (TECHNICAL_FAILURE, errorCode (rtLibraryCode env) e),
       countFailure (tcId candidate) (messageOf e) (countRelease False t)))"

definition sweepVerified :: "'e routingEnv_scheme \<Rightarrow> int \<Rightarrow> terminalClaimCandidate \<Rightarrow> sweepTally \<Rightarrow> sweepConclusion action" where
  "sweepVerified env now candidate t =
     bindA (verifiedReleaseAt env 340 now (systemArgs (oiId (tcIntent candidate)))) (\<lambda>release.
     returnA (verifiedConclusion release, countRelease (rrReleased release) t))"

text \<open>An outcome that is recorded already is kept as it is.\<close>

definition inferredOutcome :: "terminalClaimCandidate \<Rightarrow> claimClassification \<Rightarrow> string \<times> jsnum option" where
  "inferredOutcome candidate c =
     (case List.find (\<lambda>x. doKind x = OUTCOME) (rev (dsOutcomes (ccSummary c))) of
        Some prior \<Rightarrow> (doClassification prior, doStatusCode prior)
      | None \<Rightarrow> if ccRecordsPresent c then inferEntryDispatchOutcome (oiBlockReason (tcIntent candidate))
                else (''DISPATCH_OUTCOME_UNKNOWN'', None))"

definition sweepOutcome :: "'e routingEnv_scheme \<Rightarrow> int \<Rightarrow> terminalClaimCandidate \<Rightarrow> claimClassification \<Rightarrow> sweepConclusion action" where
  "sweepOutcome env now candidate c =
     (let db = rtBoundary env; i = oiId (tcIntent candidate); inferred = inferredOutcome candidate c;
          blockReason = oiBlockReason (tcIntent candidate); recorded = noSweep\<lparr>swRecorded := 1\<rparr>
      in bindA (dbOperation db 334 3 (\<lambda>reads d. recordEntryDispatchOutcome
             \<lparr>oaOrderIntentId = i, oaClassification = fst inferred, oaSource = ''TERMINAL_CLAIM_SWEEP'', oaObservation = Some INFERRED,
              oaStatusCode = snd inferred,
              oaMessage = (if ccRecordsPresent c then blockReason
                else Some (''No durable dispatch record and no structured not-sent evidence; delivery is unknown. Block reason: '' @
                  nullish blockReason ''none'')),
              oaRecords = None\<rparr> (beNow db 337) reads d)) (\<lambda>_.
         if ccRecordsPresent c then catchA (sweepVerified env now candidate recorded) (sweepError env candidate recorded)
         else returnA (Some (RETAINED, ''OUTCOME_RECORDED_OPERATOR_INVESTIGATION''), countRelease False recorded)))"

definition sweepAttempt :: "'e routingEnv_scheme \<Rightarrow> int \<Rightarrow> terminalClaimCandidate \<Rightarrow> claimClassification \<Rightarrow> sweepConclusion action" where
  "sweepAttempt env now candidate c =
     (case ccState c of
        AUTOMATIC_NEVER_SUBMITTED_RELEASE \<Rightarrow>
          bindA (releaseAsNeverSubmitted env (oiId (tcIntent candidate))) (\<lambda>release.
          returnA (unsubmittedConclusion release, unsubmittedTally (tcId candidate) release noSweep))
      | AUTOMATIC_NOT_SENT_EVIDENCE_RECORDING \<Rightarrow>
          bindA (recordNotSentEvidenceAndRelease env candidate (the (ccNotSent c))) (\<lambda>release.
          returnA (unsubmittedConclusion release, unsubmittedTally (tcId candidate) release (noSweep\<lparr>swRecorded := 1\<rparr>)))
      | AUTOMATIC_OUTCOME_RECORDING \<Rightarrow> sweepOutcome env now candidate c
      | _ \<Rightarrow> sweepVerified env now candidate noSweep)"

definition sweepLeased :: "'e routingEnv_scheme \<Rightarrow> int \<Rightarrow> terminalClaimCandidate \<Rightarrow> claimClassification \<Rightarrow> sweepTally action" where
  "sweepLeased env now candidate c =
     (let db = rtBoundary env in
      bindA (catchA (bindA (dbRead db 302 (latestAttemptResultEvent (tcId candidate))) (\<lambda>e.
          returnA (Some (case e of None \<Rightarrow> 0 | Some event \<Rightarrow> ceId event)))) (\<lambda>_. returnA None)) (\<lambda>prior.
      bindA (catchA (sweepAttempt env now candidate c) (sweepError env candidate noSweep)) (\<lambda>(conclusion, tally).
      bindA (case (conclusion, prior) of
          (Some attempt, Some priorId) \<Rightarrow>
            catchA (recordAttemptResultIfStale env (tcId candidate) priorId attempt (ccState c)) (\<lambda>_. returnA ())
        | _ \<Rightarrow> returnA ()) (\<lambda>_.
      bindA (catchA (dbStep db 384 (transaction (keepAttemptTime (tcId candidate) now))) (\<lambda>_. returnA ())) (\<lambda>_.
      returnA (tally\<lparr>swAttempted := [tcId candidate]\<rparr>))))))"

definition sweepOne :: "'e routingEnv_scheme \<Rightarrow> int \<Rightarrow> terminalClaimCandidate \<times> claimClassification \<Rightarrow> sweepTally action" where
  "sweepOne env now row =
     (let (candidate, c) = row in
      bindA (catchA (bindA (dbStep (rtBoundary env) 301 (transaction (leaseRecoveryAttempt (tcId candidate) now))) (\<lambda>leased. returnA (Inr leased)))
          (\<lambda>e. returnA (Inl (messageOf e)))) (\<lambda>leased.
      case leased of
        Inl message \<Rightarrow> returnA (countFailure (tcId candidate) message noSweep)
      | Inr False \<Rightarrow> returnA noSweep
      | Inr True \<Rightarrow> sweepLeased env now candidate c))"

text \<open>Oldest attempt first, never attempted ones before them; candidates are loaded by id.\<close>

definition attemptOrder :: "(terminalClaimCandidate \<times> 'a) list \<Rightarrow> (terminalClaimCandidate \<times> 'a) list" where
  "attemptOrder rows =
     (let byId = sort_key (\<lambda>(c, _). tcId c) rows in
      filter (\<lambda>(c, _). tcLastDiagnosedAt c = None) byId @
      sort_key (\<lambda>(c, _). the (tcLastDiagnosedAt c)) (filter (\<lambda>(c, _). tcLastDiagnosedAt c \<noteq> None) byId))"

definition sweepSelection :: "int \<Rightarrow> int \<Rightarrow> terminalClaimCandidate list \<Rightarrow> (terminalClaimCandidate \<times> claimClassification) list" where
  "sweepSelection account now candidates =
     take ENTRY_DISPATCH_RECOVERY_BATCH_LIMIT (attemptOrder
       (filter (\<lambda>(candidate, c). ccAutomatic c \<and> isDue (tcLastDiagnosedAt candidate) now)
         (map (\<lambda>candidate. (candidate, classifyTerminalEntryClaim candidate now))
           (filter (\<lambda>candidate. tcTradingAccountId candidate = account) candidates))))"

text \<open>\<open>envs n\<close> is the environment while the \<open>n\<close>-th claim is attempted.\<close>

fun sweepAll :: "(nat \<Rightarrow> 'e routingEnv_scheme) \<Rightarrow> nat \<Rightarrow> int \<Rightarrow> (terminalClaimCandidate \<times> claimClassification) list \<Rightarrow>
    sweepTally \<Rightarrow> sweepTally action" where
  "sweepAll envs n now [] t = returnA t"
| "sweepAll envs n now (row # rows) t =
     bindA (sweepOne (envs n) now row) (\<lambda>one. sweepAll envs (Suc n) now rows (addSweep t one))"

definition recoverTerminalEntryClaimsForAccount :: "(nat \<Rightarrow> 'e routingEnv_scheme) \<Rightarrow> int \<Rightarrow> int \<Rightarrow> (nat \<times> sweepTally) action" where
  "recoverTerminalEntryClaimsForAccount envs account now =
     bindA (dbOperation (rtBoundary (envs 0)) 299 1 (\<lambda>reads db. Inr (loadTerminalClaimCandidates False [account] (reads 0) db, db))) (\<lambda>candidates.
     (let rows = sweepSelection account now candidates in
      bindA (sweepAll envs 0 now rows noSweep) (\<lambda>t. returnA (length rows, t))))"

subsection \<open>Abandoned admissions\<close>

datatype admissionVerdict = AdmissionGone | AdmissionBlocked "string list" | AdmissionRecorded

definition admissionBlockers :: "int \<Rightarrow> int \<Rightarrow> int \<Rightarrow> claimRow \<Rightarrow> orderIntentRow option \<Rightarrow> claimStore \<Rightarrow> string list" where
  "admissionBlockers account i cutoff claim intent db =
     (let events = deliveryEventsOf db (clId claim);
          summary = summarizeDeliveryEvidence events;
          holds = (\<lambda>P. case intent of None \<Rightarrow> False | Some o' \<Rightarrow> P o')
      in map snd (filter fst
        [(clStatus claim \<noteq> ''ENTRY_PENDING'', ''CLAIM_NOT_PENDING''),
         (clTrackedPositionId claim \<noteq> None, ''POSITION_ATTACHED''),
         (intent = None, ''INTENT_MISSING''),
         (holds (\<lambda>o'. oiStatus o' \<noteq> ''received''), ''INTENT_NOT_RECEIVED''),
         (holds (\<lambda>o'. cutoff < oiUpdatedAt o'), ''ADMISSION_RECENTLY_ACTIVE''),
         (holds (\<lambda>o'. toLowerCase (trim (oiSide o')) \<noteq> ''buy''), ''INTENT_NOT_BUY''),
         (holds (\<lambda>o'. oiTradingAccountId o' \<noteq> Some account \<or> clTradingAccountId claim \<noteq> account), ''ACCOUNT_MISMATCH''),
         (holds (\<lambda>o'. oiLiveEntryAcceptanceRunId o' \<noteq> None), ''LIVE_ENTRY_ACCEPTANCE_EXECUTION''),
         (list_ex (\<lambda>e. ceEventType e = WORKER_CLAIMED_EVENT) events, ''WORKER_CLAIM_RECORDED''),
         (0 < dsAdapterMarkers summary, ''ADAPTER_INVOCATION_MARKER_PRESENT''),
         (dsOutcomes summary \<noteq> [], ''DELIVERY_OUTCOME_RECORDED''),
         (drsPresent (loadEntryDispatchRecords i db), ''DISPATCH_RECORD_PRESENT''),
         (0 < countWhere (\<lambda>b. boOrderIntentId b = i) (brokerOrderTable db), ''LOCAL_BROKER_ORDER_PRESENT''),
         (0 < countWhere (\<lambda>a. baOrderIntentId a = Some i) (brokerActivityTable db), ''LOCAL_BROKER_ACTIVITY_PRESENT'')]))"

definition failAbandoned :: "int \<Rightarrow> int \<Rightarrow> int \<Rightarrow> claimStore \<Rightarrow> int \<times> claimStore" where
  "failAbandoned i cutoff now db =
     updateIntents (\<lambda>o'. oiId o' = i \<and> oiStatus o' = ''received'' \<and> oiUpdatedAt o' \<le> cutoff)
       (\<lambda>o'. o'\<lparr>oiStatus := ''failed'', oiBlockReason := Some ''STALE_ADMISSION_NEVER_DISPATCHED: the admission did not complete and its intent never became executable; it was not requeued and a new entry requires a new admission decision.''\<rparr>) now db"

definition judgeAdmission :: "int \<Rightarrow> int \<Rightarrow> int \<Rightarrow> int \<Rightarrow> int \<Rightarrow> claimStore \<Rightarrow> (admissionVerdict \<times> claimStore) result" where
  "judgeAdmission account claimId i cutoff now db =
     (case claimById claimId db of
        None \<Rightarrow> Inr (AdmissionGone, db)
      | Some claim \<Rightarrow>
        if clReleasedAt claim \<noteq> None then Inr (AdmissionGone, db)
        else
          (let blockers = admissionBlockers account i cutoff claim (claimIntentRow db claim) db;
               records = loadEntryDispatchRecords i db
           in if blockers \<noteq> [] then
                bindR (appendClaimDiagnostic claimId ''STALE_ADMISSION_RECOVERY_BLOCKED''
                    (JObj [(''orderIntentId'', jInt i), (''blockers'', JArr (map JStr blockers)), (''executionAuthority'', JStr ''NONE'')]) now db)
                  (\<lambda>(_, db'). Inr (AdmissionBlocked blockers, db'))
              else
                (let (n, db1) = failAbandoned i cutoff now db in
                 if n \<noteq> 1 then Inr (AdmissionBlocked [''INTENT_CHANGED''], db1)
                 else bindR (appendNotSentEvidence claimId i ''NOT_SENT_PRE_DISPATCH'' ''STALE_ADMISSION_NEVER_EXECUTABLE''
                     ''STALE_ADMISSION_RECOVERY'' ''STALE_ADMISSION_NEVER_SUBMITTED'' None
                     (Some (JObj ([(''basis'', JStr ''CLAIM_NEVER_LEFT_ENTRY_PENDING''), (''intentStatus'', JStr ''received''),
                        (''thresholdMs'', jInt STALE_ADMISSION_THRESHOLD_MS)] @ recordIdentity records @
                        [(''brokerOrders'', jInt (countWhere (\<lambda>b. boOrderIntentId b = i) (brokerOrderTable db))),
                         (''brokerActivities'', jInt (countWhere (\<lambda>a. baOrderIntentId a = Some i) (brokerActivityTable db)))]))) now db1)
                   (\<lambda>(_, db2). Inr (AdmissionRecorded, db2)))))"

definition releaseAbandoned :: "'e routingEnv_scheme \<Rightarrow> int \<Rightarrow> int \<Rightarrow> sweepTally action" where
  "releaseAbandoned env claimId i =
     bindA (releaseUnsubmittedOrRouteToRecovery env 404 i ''STALE_ADMISSION_NEVER_SUBMITTED'' ''STALE_ADMISSION_RECOVERY'' False None) (\<lambda>release.
     returnA (unsubmittedTally claimId release noSweep))"

definition admissionError :: "'e routingEnv_scheme \<Rightarrow> int \<Rightarrow> int \<Rightarrow> entryError \<Rightarrow> sweepTally action" where
  "admissionError env claimId i e =
     bindA (recordRecoveryError env 440 i ''STALE_ADMISSION_RECOVERY'' e) (\<lambda>_.
     returnA (countFailure claimId (messageOf e) (countRelease False noSweep)))"

definition recoverAdmission :: "'e routingEnv_scheme \<Rightarrow> int \<Rightarrow> int \<Rightarrow> claimRow \<Rightarrow> sweepTally action" where
  "recoverAdmission env account now candidate =
     (let db = rtBoundary env; i = the (clOrderIntentId candidate) in
      bindA (catchA (bindA (dbStep db 401 (transaction (leaseRecoveryAttempt (clId candidate) now))) (\<lambda>leased. returnA (Inr leased)))
          (\<lambda>e. returnA (Inl (messageOf e)))) (\<lambda>leased.
      case leased of
        Inl message \<Rightarrow> returnA (countFailure (clId candidate) message noSweep)
      | Inr False \<Rightarrow> returnA noSweep
      | Inr True \<Rightarrow>
          bindA (catchA
            (bindA (dbStep db 402 (transaction (judgeAdmission account (clId candidate) i (now - STALE_ADMISSION_THRESHOLD_MS) (beNow db 402)))) (\<lambda>verdict.
             case verdict of
               AdmissionRecorded \<Rightarrow> releaseAbandoned env (clId candidate) i
             | AdmissionBlocked _ \<Rightarrow> returnA (countRelease False noSweep)
             | AdmissionGone \<Rightarrow> returnA noSweep))
            (admissionError env (clId candidate) i)) (\<lambda>t.
          returnA (t\<lparr>swAttempted := [clId candidate]\<rparr>))))"

definition admissionSelection :: "int \<Rightarrow> int \<Rightarrow> claimStore \<Rightarrow> claimRow list" where
  "admissionSelection account now db =
     take STALE_ADMISSION_BATCH_LIMIT (sort_key clId
       (filter (\<lambda>c. staleAdmissionClaim now [account] db c \<and> isDue (clLastDiagnosedAt c) now) (claimTable db)))"

fun recoverAdmissions :: "(nat \<Rightarrow> 'e routingEnv_scheme) \<Rightarrow> nat \<Rightarrow> int \<Rightarrow> int \<Rightarrow> claimRow list \<Rightarrow> sweepTally \<Rightarrow> sweepTally action" where
  "recoverAdmissions envs n account now [] t = returnA t"
| "recoverAdmissions envs n account now (c # cs) t =
     bindA (recoverAdmission (envs n) account now c) (\<lambda>one. recoverAdmissions envs (Suc n) account now cs (addSweep t one))"

definition recoverStaleAdmissionClaimsForAccount :: "(nat \<Rightarrow> 'e routingEnv_scheme) \<Rightarrow> int \<Rightarrow> int \<Rightarrow> (nat \<times> sweepTally) action" where
  "recoverStaleAdmissionClaimsForAccount envs account now =
     bindA (dbRead (rtBoundary (envs 0)) 400 (admissionSelection account now)) (\<lambda>candidates.
     bindA (recoverAdmissions envs 0 account now candidates noSweep) (\<lambda>t. returnA (length candidates, t)))"

end
