(* ===== verification/SubscriptionInput.thy ===== *)
theory SubscriptionInput
  imports OpenOrders OrderRiskSafety
begin

text \<open>
  \<open>resolveSubscriptionOrderInput\<close> of \<open>src/services/subscription.service.ts\<close>: a request names an
  account subscription, and everything else about the order that identifies it (account,
  subscription, symbol, side) comes from the database, which must permit the entry or exit.
\<close>

text \<open>\<open>PlaceOrderInput\<close>, the request that the schema of \<open>place-order.schema.ts\<close> has accepted.\<close>

record placeOrderRequest =
  prSymbol :: "string option"
  prSide :: "string option"
  prOrderType :: "string option"
  prTimeInForce :: "string option"
  prQty :: "jsnum option"
  prNotional :: "jsnum option"
  prLimitPrice :: "jsnum option"
  prExtendedHours :: bool
  prTradingAccountSubscriptionId :: int
  prSubscriptionKey :: "string option"
  prSignalType :: "string option"

text \<open>\<open>ResolvedPlaceOrderInput\<close>.\<close>

record resolvedOrderInput = placeOrderInput +
  rpOrderType :: string
  rpTimeInForce :: string
  rpExtendedHours :: bool
  rpTradingAccountId :: "int option"

definition refuse :: "int \<Rightarrow> string \<Rightarrow> appError" where
  "refuse status message = HttpError status message JNull"

text \<open>A relation that a foreign key guarantees; the query fails without it.\<close>

definition included :: "'a option \<Rightarrow> 'a result" where
  "included x = (case x of Some a \<Rightarrow> Inr a
     | None \<Rightarrow> Inl (PlainError ''PrismaClientUnknownRequestError'' ''Inconsistent query result''))"

definition requireThat :: "bool \<Rightarrow> int \<Rightarrow> string \<Rightarrow> unit result" where
  "requireThat ok status message = (if ok then Inr () else Inl (refuse status message))"

definition entryAssignmentChecks ::
  "accountSubscriptionRow \<Rightarrow> subscriptionRow \<Rightarrow> tradingAccountRow \<Rightarrow> (bool \<times> int \<times> string) list" where
  "entryAssignmentChecks assignment subscription account =
     [(subEnabled subscription, 403, ''Subscription '' @ subKey subscription @ '' is globally disabled.''),
      (tasEnabled assignment, 403, ''TradingAccountSubscription '' @ showInt (tasId assignment) @ '' is disabled.''),
      (tasEntriesEnabled assignment, 403,
       ''Entries are disabled for TradingAccountSubscription '' @ showInt (tasId assignment) @ ''.''),
      (secEnabled (subSecurity subscription), 403,
       ''Security '' @ secSymbol (subSecurity subscription) @ '' is disabled.''),
      (strEnabled (subStrategy subscription), 403,
       ''Strategy '' @ strKey (subStrategy subscription) @ '' is disabled.''),
      (epEnabled (subExitProfile subscription), 403,
       ''Exit profile '' @ epKey (subExitProfile subscription) @ '' is disabled.''),
      (taStatus account = ''ACTIVE'', 403,
       ''Trading account '' @ showInt (tasTradingAccountId assignment) @ '' is not operational ('' @ taStatus account @ '').''),
      (taTradingEnabled account, 403,
       ''Trading is disabled for account '' @ showInt (tasTradingAccountId assignment) @ ''.''),
      (\<not> taKillSwitchEnabled account, 403,
       ''Kill switch is enabled for account '' @ showInt (tasTradingAccountId assignment) @ ''.''),
      (taCredentialStatus account = Some ''ACTIVE'', 403,
       ''Trading account '' @ showInt (tasTradingAccountId assignment) @ '' does not have active credentials.''),
      (tasAllocation assignment \<noteq> None, 409,
       ''TradingAccountSubscription '' @ showInt (tasId assignment) @ '' has no allocation.''),
      ((case tasAllocation assignment of None \<Rightarrow> False
        | Some a \<Rightarrow> alTradingAccountId a = tasTradingAccountId assignment \<and> alEnabled a), 409,
       ''TradingAccountSubscription '' @ showInt (tasId assignment) @ '' does not have an enabled allocation for its account.'')]"

text \<open>The checks in order; the first that fails throws.\<close>

fun runChecks :: "(bool \<times> int \<times> string) list \<Rightarrow> unit result" where
  "runChecks [] = Inr ()"
| "runChecks ((ok, status, message) # checks) = bindR (requireThat ok status message) (\<lambda>_. runChecks checks)"

definition isEntryRequest :: "placeOrderRequest \<Rightarrow> bool" where
  "isEntryRequest input = (nullish (prSignalType input) ''entry'' = ''entry'')"

definition resolvedInput ::
  "placeOrderRequest \<Rightarrow> accountSubscriptionRow \<Rightarrow> subscriptionRow \<Rightarrow> resolvedOrderInput" where
  "resolvedInput input assignment subscription =
     \<lparr>poSymbol = subSymbol subscription, poSide = (if isEntryRequest input then ''buy'' else ''sell''),
      poQty = prQty input, poNotional = prNotional input, poLimitPrice = prLimitPrice input,
      poSignalType = prSignalType input, poSubscriptionKey = Some (subKey subscription),
      poSubscriptionId = Some (subId subscription), poTradingAccountSubscriptionId = Some (tasId assignment),
      rpOrderType = nullish (prOrderType input) ''market'', rpTimeInForce = nullish (prTimeInForce input) ''day'',
      rpExtendedHours = prExtendedHours input, rpTradingAccountId = Some (tasTradingAccountId assignment)\<rparr>"

definition resolveSubscriptionOrderInput :: "placeOrderRequest \<Rightarrow> 'a store_scheme \<Rightarrow> resolvedOrderInput result" where
  "resolveSubscriptionOrderInput input db =
     (case List.find (\<lambda>t. tasId t = prTradingAccountSubscriptionId input) (accountSubscriptionTable db) of
        None \<Rightarrow> Inl (refuse 404
          (''TradingAccountSubscription '' @ showInt (prTradingAccountSubscriptionId input) @ '' was not found.''))
      | Some assignment \<Rightarrow>
        bindR (included (List.find (\<lambda>s. subId s = tasSubscriptionId assignment) (subscriptionTable db))) (\<lambda>subscription.
        bindR (included (List.find (\<lambda>a. taId a = tasTradingAccountId assignment) (tradingAccountTable db))) (\<lambda>account.
        bindR (requireThat (\<not> (given (prSubscriptionKey input) \<and> prSubscriptionKey input \<noteq> Some (subKey subscription))) 409
          (''TradingAccountSubscription '' @ showInt (tasId assignment) @ '' does not reference Subscription '' @
           nullish (prSubscriptionKey input) ''undefined'' @ ''.'')) (\<lambda>_.
        bindR (if isEntryRequest input then runChecks (entryAssignmentChecks assignment subscription account)
               else requireThat (tasExitsEnabled assignment) 403
                 (''Exits are disabled for TradingAccountSubscription '' @ showInt (tasId assignment) @ ''.'')) (\<lambda>_.
        Inr (resolvedInput input assignment subscription))))))"

lemma runChecks_Inr: "runChecks checks = Inr u \<longleftrightarrow> (\<forall>c\<in>set checks. fst c)"
  by (induction checks) (auto simp: requireThat_def bindR_Inr_iff split: if_splits)

text \<open>The permissions of an entry, read off the tables.\<close>

definition entryPermitted :: "accountSubscriptionRow \<Rightarrow> subscriptionRow \<Rightarrow> tradingAccountRow \<Rightarrow> bool" where
  "entryPermitted assignment subscription account \<longleftrightarrow>
     subEnabled subscription \<and> tasEnabled assignment \<and> tasEntriesEnabled assignment \<and>
     secEnabled (subSecurity subscription) \<and> strEnabled (subStrategy subscription) \<and>
     epEnabled (subExitProfile subscription) \<and> taStatus account = ''ACTIVE'' \<and> taTradingEnabled account \<and>
     \<not> taKillSwitchEnabled account \<and> taCredentialStatus account = Some ''ACTIVE'' \<and>
     (\<exists>a. tasAllocation assignment = Some a \<and> alTradingAccountId a = tasTradingAccountId assignment \<and> alEnabled a)"

lemma entryChecks_iff: "runChecks (entryAssignmentChecks assignment subscription account) = Inr u \<longleftrightarrow>
    entryPermitted assignment subscription account"
  unfolding runChecks_Inr entryAssignmentChecks_def entryPermitted_def by (cases "tasAllocation assignment") simp_all

text \<open>C18: an order is resolved exactly when its account subscription exists, belongs to the subscription that was
  asked for, and permits it: an entry needs the subscription, the assignment and its entries, the security, the
  strategy and the exit profile enabled, an active account that trades, without kill switch and with active
  credentials, and an enabled allocation of that same account; an exit needs only the exits of the assignment.
  The account, the subscription, the symbol and the side of the order then come from the database, whatever
  the request says.
\<close>
theorem resolved_order_is_permitted:
  assumes "List.find (\<lambda>t. tasId t = prTradingAccountSubscriptionId input) (accountSubscriptionTable db) = Some assignment"
    and "List.find (\<lambda>s. subId s = tasSubscriptionId assignment) (subscriptionTable db) = Some subscription"
    and "List.find (\<lambda>a. taId a = tasTradingAccountId assignment) (tradingAccountTable db) = Some account"
  shows "resolveSubscriptionOrderInput input db = Inr order \<longleftrightarrow>
    (prSubscriptionKey input \<in> {None, Some [], Some (subKey subscription)} \<and>
     (if prSignalType input \<in> {None, Some ''entry''} then entryPermitted assignment subscription account
      else tasExitsEnabled assignment) \<and>
     order = resolvedInput input assignment subscription \<and>
     rpTradingAccountId order = Some (tasTradingAccountId assignment) \<and> poSymbol order = subSymbol subscription \<and>
     poSide order = (if prSignalType input \<in> {None, Some ''entry''} then ''buy'' else ''sell''))"
proof -
  have entry: "isEntryRequest input \<longleftrightarrow> prSignalType input \<in> {None, Some ''entry''}"
    by (auto simp: isEntryRequest_def nullish_def split: option.splits)
  have key: "\<not> (given (prSubscriptionKey input) \<and> prSubscriptionKey input \<noteq> Some (subKey subscription)) \<longleftrightarrow>
      prSubscriptionKey input \<in> {None, Some [], Some (subKey subscription)}"
    by (auto simp: given_def)
  have "resolveSubscriptionOrderInput input db = Inr order \<longleftrightarrow>
    (prSubscriptionKey input \<in> {None, Some [], Some (subKey subscription)} \<and>
     (if isEntryRequest input then entryPermitted assignment subscription account else tasExitsEnabled assignment) \<and>
     order = resolvedInput input assignment subscription)"
    unfolding resolveSubscriptionOrderInput_def assms option.case included_def bindR_simps key
    using entryChecks_iff[of assignment subscription account "()"]
    by (auto simp: requireThat_def bindR_Inr_iff)
  then show ?thesis unfolding entry by (auto simp: resolvedInput_def entry)
qed

text \<open>An entry of the account that the gate admits, and the same one after its allocation was disabled.\<close>

definition sampleRequest :: placeOrderRequest where
  "sampleRequest =
     \<lparr>prSymbol = None, prSide = Some ''sell'', prOrderType = None, prTimeInForce = None, prQty = None,
      prNotional = Some (Fin 256), prLimitPrice = None, prExtendedHours = False, prTradingAccountSubscriptionId = 11,
      prSubscriptionKey = Some ''spy-dip'', prSignalType = None\<rparr>"

definition disabledAssignment :: accountSubscriptionRow where
  "disabledAssignment = sampleAssignment\<lparr>tasAllocation := Some (sampleAllocation\<lparr>alEnabled := False\<rparr>)\<rparr>"

lemma sample_lookups:
  "List.find (\<lambda>t. tasId t = prTradingAccountSubscriptionId sampleRequest) (accountSubscriptionTable sampleStore) = Some sampleAssignment"
  "List.find (\<lambda>t. tasId t = prTradingAccountSubscriptionId sampleRequest)
     (accountSubscriptionTable (sampleStore\<lparr>accountSubscriptionTable := [disabledAssignment]\<rparr>)) = Some disabledAssignment"
  "List.find (\<lambda>s. subId s = 3) (subscriptionTable sampleStore) = Some (hd (subscriptionTable sampleStore))"
  "List.find (\<lambda>t. taId t = 7) (tradingAccountTable sampleStore) = Some (hd (tradingAccountTable sampleStore))"
  by (simp_all add: sampleStore_def emptyStore_def disabledAssignment_def sampleAssignment_def sampleRequest_def)

lemma sample_ids:
  "tasSubscriptionId sampleAssignment = 3" "tasTradingAccountId sampleAssignment = 7"
  "tasSubscriptionId disabledAssignment = 3" "tasTradingAccountId disabledAssignment = 7"
  "prSubscriptionKey sampleRequest = Some (subKey (hd (subscriptionTable sampleStore)))" "prSignalType sampleRequest = None"
  by (simp_all add: sampleStore_def emptyStore_def disabledAssignment_def sampleAssignment_def sampleRequest_def)

lemma sample_permitted:
  "entryPermitted sampleAssignment (hd (subscriptionTable sampleStore)) (hd (tradingAccountTable sampleStore))"
  "\<not> entryPermitted disabledAssignment sub' account'"
  by (simp_all add: entryPermitted_def sampleAssignment_def sampleAllocation_def sampleStore_def emptyStore_def disabledAssignment_def)

theorem resolved_order_is_permitted_witness:
  "resolveSubscriptionOrderInput sampleRequest sampleStore =
     Inr (resolvedInput sampleRequest sampleAssignment (hd (subscriptionTable sampleStore))) \<and>
   (\<forall>order. resolveSubscriptionOrderInput sampleRequest (sampleStore\<lparr>accountSubscriptionTable := [disabledAssignment]\<rparr>) \<noteq> Inr order)"
proof
  show "resolveSubscriptionOrderInput sampleRequest sampleStore =
      Inr (resolvedInput sampleRequest sampleAssignment (hd (subscriptionTable sampleStore)))"
    by (subst resolved_order_is_permitted[OF sample_lookups(1), unfolded sample_ids, OF sample_lookups(3,4)])
      (simp add: sample_permitted resolvedInput_def isEntryRequest_def sample_ids nullish_def)
  show "\<forall>order. resolveSubscriptionOrderInput sampleRequest (sampleStore\<lparr>accountSubscriptionTable := [disabledAssignment]\<rparr>) \<noteq> Inr order"
    using resolved_order_is_permitted[OF sample_lookups(2), of "hd (subscriptionTable sampleStore)" "hd (tradingAccountTable sampleStore)"]
    by (simp add: sample_lookups sample_ids sample_permitted)
qed

end
