(* ===== verification/OrderWorker.thy ===== *)
theory OrderWorker
  imports TerminalSweep SubscriptionInput OrderRisk
begin

text \<open>
  \<open>src/workers/order.worker.ts\<close>: the worker that takes pending entry intents, sends each
  through the broker boundary and records what came of it. The validation of the stored
  request by its schema is a parameter; so are the broker and the reads of the gate that the
  environment of the risk gate holds. A transaction is one step of the database.
\<close>

subsection \<open>The environment and the outcome of an intent\<close>

record workerEnv = routingEnv +
  wkParse :: "json \<Rightarrow> entryError + placeOrderRequest"
  wkRisk :: riskEnv
  wkTerminal :: terminalBroker

datatype intentOutcome = NotClaimed | IntentSubmitted | IntentBlocked | IntentFailed

definition PENDING_ORDER_BATCH_LIMIT_PER_ACCOUNT :: nat where
  "PENDING_ORDER_BATCH_LIMIT_PER_ACCOUNT = 5"

subsection \<open>The claim of an intent and its evaluation\<close>

definition claimPendingIntent :: "int \<Rightarrow> int \<Rightarrow> claimStore \<Rightarrow> int \<times> claimStore" where
  "claimPendingIntent i now db =
     updateIntents (\<lambda>o'. oiId o' = i \<and> oiStatus o' = ''pending'') (\<lambda>o'. o'\<lparr>oiStatus := ''submitting''\<rparr>) now db"

text \<open>\<open>recordOrderIntentRiskEvaluation\<close>: the evaluation is stored beside the request.\<close>

definition riskEvaluationJson :: "riskGateResult \<Rightarrow> int \<Rightarrow> json" where
  "riskEvaluationJson risk now =
     (case risk of
        RiskAllowed details \<Rightarrow> JObj [(''evaluatedAt'', JDate now), (''allowed'', JBool True), (''reason'', JNull), (''details'', details)]
      | RiskBlocked status reason details \<Rightarrow>
          JObj [(''evaluatedAt'', JDate now), (''allowed'', JBool False), (''reason'', JStr reason), (''details'', details)])"

definition recordOrderIntentRiskEvaluation :: "int \<Rightarrow> riskGateResult \<Rightarrow> int \<Rightarrow> claimStore \<Rightarrow> (unit \<times> claimStore) result" where
  "recordOrderIntentRiskEvaluation i risk now db =
     (case intentById i db of
        None \<Rightarrow> Inr ((), db)
      | Some intent \<Rightarrow>
        (let raw = (case oiRawRequestJson intent of JObj kvs \<Rightarrow> kvs | _ \<Rightarrow> []) in
         updateIntent i (\<lambda>o'. o'\<lparr>oiRawRequestJson := JObj (raw @ [(''riskEvaluation'', riskEvaluationJson risk now)])\<rparr>) now db))"

subsection \<open>The records of an accepted order\<close>

definition findBrokerOrder :: "string \<Rightarrow> int \<Rightarrow> claimStore \<Rightarrow> brokerOrderRow option" where
  "findBrokerOrder brokerOrderId account db =
     List.find (\<lambda>b. boBrokerOrderId b = brokerOrderId \<and> boTradingAccountId b = Some account) (brokerOrderTable db)"

definition linkEntryDecisionToBrokerOrder :: "int \<Rightarrow> int \<Rightarrow> int \<Rightarrow> claimStore \<Rightarrow> claimStore" where
  "linkEntryDecisionToBrokerOrder i recordId account db =
     db\<lparr>entryDecisionTable := map (\<lambda>d. if edOrderIntentId d = Some i \<and> edBrokerOrderRecordId d = None
         then d\<lparr>edBrokerOrderRecordId := Some recordId, edTradingAccountId := Some account\<rparr> else d) (entryDecisionTable db)\<rparr>"

text \<open>The row of a broker order; the two unique indexes of the account must allow it.\<close>

definition insertBrokerOrder ::
  "orderIntentRow \<Rightarrow> int \<Rightarrow> alpacaOrder \<Rightarrow> string \<Rightarrow> string \<Rightarrow> int \<Rightarrow> int \<Rightarrow> claimStore \<Rightarrow> (unit \<times> claimStore) result" where
  "insertBrokerOrder intent account order symbol side security now db =
     (if list_ex (\<lambda>b. boTradingAccountId b = Some account \<and>
           (boBrokerOrderId b = aoId order \<or> boClientOrderId b = aoClientOrderId order)) (brokerOrderTable db)
      then Inl constraintError
      else Inr ((), db\<lparr>brokerOrderTable := brokerOrderTable db @
          [\<lparr>boId = nextBrokerOrderId db, boOrderIntentId = oiId intent, boTradingAccountId = Some account,
            boSecurityId = security, boBrokerOrderId = aoId order, boClientOrderId = aoClientOrderId order,
            boSymbol = symbol, boSide = side, boStatus = aoStatus order,
            boTrackedPositionId = oiTrackedPositionId intent, boCreatedAt = now\<rparr>],
        nextBrokerOrderId := nextBrokerOrderId db + 1\<rparr>))"

text \<open>The nested creation of the broker order: the security must exist.\<close>

definition createBrokerOrder :: "orderIntentRow \<Rightarrow> int \<Rightarrow> alpacaOrder \<Rightarrow> int \<Rightarrow> claimStore \<Rightarrow> (unit \<times> claimStore) result" where
  "createBrokerOrder intent account order now db =
     (case (aoSymbol order, aoSide order) of
        (Some symbol, Some side) \<Rightarrow>
          (case List.find (\<lambda>s. secSymbol s = toUpperCase symbol) (securityTable db) of
             None \<Rightarrow> Inl constraintError
           | Some security \<Rightarrow> insertBrokerOrder intent account order symbol side (secId security) now db)
      | _ \<Rightarrow> Inl (PlainError ''TypeError'' ''Cannot read properties of undefined (reading 'toUpperCase')''))"

definition submittedWithBrokerOrder :: "orderIntentRow \<Rightarrow> int \<Rightarrow> alpacaOrder \<Rightarrow> int \<Rightarrow> claimStore \<Rightarrow> (unit \<times> claimStore) result" where
  "submittedWithBrokerOrder intent account order now db =
     bindR (updateIntent (oiId intent) (\<lambda>o'. o'\<lparr>oiStatus := ''submitted''\<rparr>) now db) (\<lambda>(_, db').
     createBrokerOrder intent account order now db')"

definition terminalReleaseA :: "'e workerEnv_scheme \<Rightarrow> nat \<Rightarrow> int \<Rightarrow> string \<Rightarrow> claimRow option action" where
  "terminalReleaseA env k i status =
     dbOperation (rtBoundary env) k 4 (\<lambda>reads db.
       releaseConfirmedTerminalEntryClaim i status False (wkTerminal env) (beNow (rtBoundary env) k) reads (reads 3) db)"

text \<open>From the broker's answer to the submitted intent; a failed transition of the claim is ignored.\<close>

definition recordSubmission :: "'e workerEnv_scheme \<Rightarrow> orderIntentRow \<Rightarrow> int \<Rightarrow> bool \<times> alpacaOrder \<Rightarrow> unit action" where
  "recordSubmission env intent account result =
     (let db = rtBoundary env; i = oiId intent; order = snd result in
      bindA (catchA (transitionA db 40 i ''BROKER_ORDER_ACTIVE''
          (if fst result then ''BROKER_ORDER_RECOVERED'' else ''BROKER_ORDER_ACCEPTED'')
          (Some (JObj [(''brokerOrderId'', JStr (aoId order)), (''brokerStatus'', JStr (aoStatus order))]))) (\<lambda>_. returnA None)) (\<lambda>_.
      bindA (dbRead db 42 (findBrokerOrder (aoId order) account)) (\<lambda>existing.
      bindA (case existing of
          Some b \<Rightarrow>
            bindA (dbStep db 43 (\<lambda>d. (Inr (), linkEntryDecisionToBrokerOrder i (boId b) account d))) (\<lambda>_.
            dbStep db 44 (transaction (updateIntent i (\<lambda>o'. o'\<lparr>oiStatus := ''submitted''\<rparr>) (beNow db 44))))
        | None \<Rightarrow>
            bindA (dbStep db 45 (transaction (submittedWithBrokerOrder intent account order (beNow db 45)))) (\<lambda>_.
            bindA (dbRead db 46 (findBrokerOrder (aoId order) account)) (\<lambda>created.
            case created of
              Some b \<Rightarrow> dbStep db 47 (\<lambda>d. (Inr (), linkEntryDecisionToBrokerOrder i (boId b) account d))
            | None \<Rightarrow> returnA ()))) (\<lambda>_.
      bindA (terminalReleaseA env 48 i (aoStatus order)) (\<lambda>_. returnA ())))))"

subsection \<open>The processing of an intent\<close>

text \<open>The claim of the intent: the compare-and-set gives it to one worker.\<close>

definition claimIntent :: "'e workerEnv_scheme \<Rightarrow> orderIntentRow \<Rightarrow> (claimRow \<times> bool) action" where
  "claimIntent env intent =
     (let db = rtBoundary env in
      bindA (dbStep db 20 (reading (requireEntryExposureClaim (oiId intent) False))) (\<lambda>entryClaim.
      bindA (dbStep db 21 (\<lambda>d. case claimPendingIntent (oiId intent) (beNow db 21) d of (n, d') \<Rightarrow> (Inr n, d'))) (\<lambda>count.
      returnA (entryClaim, count = 1))))"

definition workerError :: "string \<Rightarrow> entryError" where
  "workerError message = Failure (PlainError ''Error'' message)"

definition riskOptionsOf :: "orderIntentRow \<Rightarrow> int \<Rightarrow> riskOptions" where
  "riskOptionsOf intent account =
     \<lparr>roRequestedNotionalOverride = getSizingEstimatedNotional (oiRawRequestJson intent), roTradingAccountId = Some account,
      roEnforceEntrySessionGuard = None, roExcludeOrderIntentId = Some (oiId intent)\<rparr>"

definition submissionInput :: "placeOrderRequest \<Rightarrow> orderIntentRow \<Rightarrow> int \<Rightarrow> string \<Rightarrow> brokerSubmissionInput" where
  "submissionInput raw intent assignment clientOrderId =
     \<lparr>poSymbol = oiSymbol intent, poSide = ''buy'', poQty = prQty raw, poNotional = prNotional raw,
      poLimitPrice = prLimitPrice raw, poSignalType = prSignalType raw, poSubscriptionKey = prSubscriptionKey raw,
      poSubscriptionId = oiSubscriptionId intent, poTradingAccountSubscriptionId = Some assignment,
      bsiOrderType = oiOrderType intent, bsiTimeInForce = oiTimeInForce intent,
      bsiExtendedHours = prExtendedHours raw, bsiClientOrderId = clientOrderId\<rparr>"

text \<open>The blocked entry: its refusal and its evidence of not having been sent commit together.\<close>

definition blockByRisk :: "int \<Rightarrow> claimRow \<Rightarrow> string \<Rightarrow> int \<Rightarrow> claimStore \<Rightarrow> (unit \<times> claimStore) result" where
  "blockByRisk i entryClaim reason now db =
     bindR (updateIntent i (\<lambda>o'. o'\<lparr>oiStatus := ''blocked'', oiBlockReason := Some reason\<rparr>) now db) (\<lambda>(_, db').
     appendNotSentEvidence (clId entryClaim) i ''NOT_SENT_PRE_DISPATCH'' ''WORKER_RISK_RECHECK'' ''WORKER''
       ''WORKER_RISK_RECHECK_BLOCKED'' (Some reason) None now db')"

text \<open>The recheck of the gate; \<open>True\<close> when the entry may go on.\<close>

definition recheckRisk :: "'e workerEnv_scheme \<Rightarrow> orderIntentRow \<Rightarrow> int \<Rightarrow> claimRow \<Rightarrow> brokerSubmissionInput \<Rightarrow> bool action" where
  "recheckRisk env intent account entryClaim input =
     (let db = rtBoundary env; i = oiId intent in
      bindA (dbStep db 25 (reading (\<lambda>d. evaluateOrderRisk (wkRisk env) (store.truncate d) (placeOrderInput.truncate input)
          (riskOptionsOf intent account)))) (\<lambda>risk.
      bindA (dbStep db 26 (transaction (recordOrderIntentRiskEvaluation i risk (beNow db 26)))) (\<lambda>_.
      case risk of
        RiskAllowed details \<Rightarrow> returnA True
      | RiskBlocked status reason details \<Rightarrow>
          bindA (dbStep db 27 (transaction (blockByRisk i entryClaim reason (beNow db 27)))) (\<lambda>_.
          bindA (dbRead db 28 (\<lambda>d. ())) (\<lambda>_.
          bindA (releaseUnsubmittedOrRouteToRecovery env 60 i ''WORKER_RISK_RECHECK_BLOCKED'' ''WORKER'' False None) (\<lambda>_.
          returnA False))))))"

text \<open>
  What precedes the boundary: the transition of the claim under the marker protocol, the
  identity of the intent, and the recheck. \<open>None\<close> is a blocked intent. Step 28 of the recheck
  is the event of the blocked order.
\<close>

definition prepareSubmission ::
  "'e workerEnv_scheme \<Rightarrow> orderIntentRow \<Rightarrow> claimRow \<Rightarrow> (brokerSubmissionInput \<times> int) option action" where
  "prepareSubmission env intent entryClaim =
     (let db = rtBoundary env; i = oiId intent in
      bindA (transitionA db 22 i ''ENTRY_SUBMITTING'' WORKER_CLAIMED_EVENT
          (Some (JObj [(''markerProtocol'', JStr ADAPTER_MARKER_PROTOCOL)]))) (\<lambda>_.
      bindA (unlessA (given (oiClientOrderId intent))
          (workerError (''OrderIntent '' @ showInt i @ '' is missing clientOrderId. Cannot submit safely.''))) (\<lambda>_.
      case (oiTradingAccountId intent, oiTradingAccountSubscriptionId intent) of
        (Some account, Some assignment) \<Rightarrow>
          bindA (\<lambda>s. (wkParse env (oiRawRequestJson intent), s)) (\<lambda>raw.
          bindA (dbStep db 24 (reading (resolveSubscriptionOrderInput raw))) (\<lambda>current.
          bindA (unlessA (rpTradingAccountId current = Some account \<and> poTradingAccountSubscriptionId current = Some assignment)
              (workerError (''OrderIntent '' @ showInt i @ '' account assignment no longer matches its recorded routing identity.''))) (\<lambda>_.
          if oiSide intent \<noteq> ''buy'' \<or> prSignalType raw = Some ''exit'' then
            bindA (dbStep db 29 (transaction (updateIntent i
                (\<lambda>o'. o'\<lparr>oiStatus := ''blocked'', oiBlockReason := Some ''LONG_ONLY_SELL_REQUIRES_VERIFIED_EXIT_BOUNDARY''\<rparr>)
                (beNow db 29)))) (\<lambda>_. returnA None)
          else
            (let input = submissionInput raw intent assignment (the (oiClientOrderId intent)) in
             if isEntryOrder (placeOrderInput.truncate input) then
               bindA (recheckRisk env intent account entryClaim input) (\<lambda>allowed.
               returnA (if allowed then Some (input, account) else None))
             else returnA (Some (input, account))))))
      | _ \<Rightarrow> throwA (workerError (''OrderIntent '' @ showInt i @ '' is missing explicit trading account assignment identity.'')))))"

definition sendAndRecord :: "'e workerEnv_scheme \<Rightarrow> orderIntentRow \<Rightarrow> brokerSubmissionInput \<Rightarrow> int \<Rightarrow> unit action" where
  "sendAndRecord env intent input account =
     bindA (submitOrderToBroker (rtBoundary env) input account (oiId intent)) (recordSubmission env intent account)"

end
