(* ===== verification/WorkerFailure.thy ===== *)
theory WorkerFailure
  imports OrderWorker
begin

text \<open>
  The handler of a failed intent in \<open>src/workers/order.worker.ts\<close>, and the loop over the
  pending intents. The handler classifies what the failure says of the delivery, commits the
  terminal state of the intent together with that classification, and only then releases the
  claim or leaves it to the recovery.
\<close>

subsection \<open>Classification\<close>

datatype evidencePlan =
    NotSentPlan (planClassification: string) (planProducer: string) (planReleaseReason: string) (planDispatchAttempted: bool)
  | OutcomePlan (planClassification: string)

text \<open>What the handler knows: whether the boundary was entered, its phase, and the error.\<close>

record failureContext =
  fcStarted :: bool
  fcPhase :: submissionPhase
  fcError :: entryError

definition definitelyNotDispatched :: "failureContext \<Rightarrow> bool" where
  "definitelyNotDispatched c = (\<not> fcStarted c \<or> fcPhase c = NOT_DISPATCHED)"

definition preDispatchCandidate :: "failureContext \<Rightarrow> bool" where
  "preDispatchCandidate c = (fcStarted c \<and> fcPhase c = UNCLASSIFIED \<and> isPreDispatchProofCandidateError (fcError c))"

definition recordedNotSent :: "failureContext \<Rightarrow> (string \<times> int) option" where
  "recordedNotSent c =
     (if definitelyNotDispatched c then (case fcError c of DispatchRecordedNotSent record' i \<Rightarrow> Some (record', i) | _ \<Rightarrow> None) else None)"

definition dispatchRefusal :: "failureContext \<Rightarrow> (string \<times> string \<times> int option) option" where
  "dispatchRefusal c =
     (if definitelyNotDispatched c \<and> recordedNotSent c = None then
        (case fcError c of DispatchRefused outcome reasonCode decision diagnostic \<Rightarrow> Some (outcome, reasonCode, decision) | _ \<Rightarrow> None)
      else None)"

definition writeClassificationOf :: "failureContext \<Rightarrow> writeClassification option" where
  "writeClassificationOf c =
     (if dispatchRefusal c \<noteq> None \<or> recordedNotSent c \<noteq> None then None else getBrokerWriteDeliveryClassification (fcError c))"

definition failureStatusCode :: "failureContext \<Rightarrow> int option" where
  "failureStatusCode c = (case fcError c of BrokerWriteDeliveryError k status message \<Rightarrow> status | _ \<Rightarrow> None)"

definition refusalBlockReason :: "string \<times> string \<times> int option \<Rightarrow> string" where
  "refusalBlockReason r =
     (let (outcome, reasonCode, decision) = r in
      ''MARKET_POLICY_BROKER_TIME:'' @ outcome @ '':DEFINITELY_NOT_SENT:'' @ reasonCode @
      (case decision of None \<Rightarrow> [] | Some d \<Rightarrow> if d = 0 then [] else '':decision='' @ showInt d))"

definition failureReason :: "failureContext \<Rightarrow> string" where
  "failureReason c =
     (let message = failureText (fcError c) in
      case recordedNotSent c of
        Some (record', i) \<Rightarrow> ''ENTRY_DISPATCH_RECORDED_NOT_SENT:'' @ record' @ '':'' @ showInt i
      | None \<Rightarrow>
        (case dispatchRefusal c of
           Some r \<Rightarrow> refusalBlockReason r
         | None \<Rightarrow>
           if definitelyNotDispatched c then ''LOCAL_PRE_DISPATCH_FAILURE:'' @ message
           else (case writeClassificationOf c of
                   Some k \<Rightarrow> ''BROKER_WRITE_DELIVERY:'' @ writeClassificationText k @ '':'' @ message
                 | None \<Rightarrow> ''BROKER_WRITE_DELIVERY:DELIVERY_UNCERTAIN:'' @ message)))"

definition deliveryUncertain :: "failureContext \<Rightarrow> bool" where
  "deliveryUncertain c =
     (\<not> definitelyNotDispatched c \<and> writeClassificationOf c \<in> {Some DELIVERY_UNCERTAIN, None})"

definition policyDenied :: "failureContext \<Rightarrow> bool" where
  "policyDenied c = (case dispatchRefusal c of None \<Rightarrow> False | Some (outcome, _) \<Rightarrow> outcome \<noteq> ''TECHNICAL_FAILURE'')"

definition conservativePlan :: "failureContext \<Rightarrow> dispatchRecords option \<Rightarrow> evidencePlan" where
  "conservativePlan c records =
     (if recordedNotSent c \<noteq> None then OutcomePlan ''NOT_SENT_DISPATCH_RECORD_ACK_LOST''
      else if definitelyNotDispatched c then
        NotSentPlan ''NOT_SENT_PRE_DISPATCH''
          (if dispatchRefusal c \<noteq> None then ''BROKER_TIME_MARKET_POLICY_REFUSAL''
           else if fcStarted c then ''BROKER_BOUNDARY_NOT_DISPATCHED'' else ''WORKER_PRE_BOUNDARY_FAILURE'')
          (case dispatchRefusal c of
             Some (outcome, _) \<Rightarrow> ''BROKER_TIME_MARKET_POLICY_'' @ outcome @ ''_NOT_SENT''
           | None \<Rightarrow> ''WORKER_PROVEN_PRE_DISPATCH_LOCAL_FAILURE'')
          (fcStarted c \<and> fcPhase c = NOT_DISPATCHED)
      else if writeClassificationOf c \<in> {Some NOT_SENT_BLOCKED, Some NOT_SENT_RETRYABLE} \<and>
              (case records of None \<Rightarrow> False | Some r \<Rightarrow> \<not> drsPresent r) then
        NotSentPlan (if writeClassificationOf c = Some NOT_SENT_BLOCKED then ''NOT_SENT_LOCAL_BLOCKED'' else ''NOT_SENT_LOCAL_RETRYABLE'')
          ''ADAPTER_LOCAL_GUARD'' (writeClassificationText (the (writeClassificationOf c))) False
      else OutcomePlan (entryDispatchOutcomeFor (writeClassificationOf c)))"

subsection \<open>The transaction of a failure\<close>

definition preDispatchProofOf :: "orderIntentRow \<Rightarrow> failureContext \<Rightarrow> claimStore \<Rightarrow> preDispatchProof option" where
  "preDispatchProofOf intent c db =
     (if preDispatchCandidate c then
        map_option (\<lambda>account. proveWorkerPreDispatchNonDelivery (oiId intent) account db) (oiTradingAccountId intent)
      else None)"

definition provenNotSent :: "preDispatchProof option \<Rightarrow> bool" where
  "provenNotSent p = (case p of None \<Rightarrow> False | Some q \<Rightarrow> ppProven q)"

definition attemptPlan :: "failureContext \<Rightarrow> dispatchRecords option \<Rightarrow> preDispatchProof option \<Rightarrow> evidencePlan" where
  "attemptPlan c records p =
     (if provenNotSent p then
        NotSentPlan ''NOT_SENT_PRE_DISPATCH'' ''WORKER_PRE_BOUNDARY_FAILURE'' ''WORKER_PROVEN_PRE_DISPATCH_BOUNDARY_FAILURE'' False
      else conservativePlan c records)"

definition attemptBlockReason :: "orderIntentRow \<Rightarrow> failureContext \<Rightarrow> preDispatchProof option \<Rightarrow> string" where
  "attemptBlockReason intent c p =
     (if provenNotSent p then ''LOCAL_PRE_DISPATCH_FAILURE:'' @ failureText (fcError c)
      else preserveBlockReason (oiBlockReason intent) (failureReason c))"

definition attemptUncertain :: "failureContext \<Rightarrow> preDispatchProof option \<Rightarrow> bool" where
  "attemptUncertain c p = (\<not> provenNotSent p \<and> deliveryUncertain c)"

definition failedStatus :: "orderIntentRow \<Rightarrow> failureContext \<Rightarrow> preDispatchProof option \<Rightarrow> string" where
  "failedStatus intent c p =
     (if oiLiveEntryAcceptanceRunId intent \<noteq> None then
        (if attemptUncertain c p then ''submitting''
         else if writeClassificationOf c = Some NOT_SENT_BLOCKED \<or> policyDenied c then ''blocked'' else ''failed'')
      else if policyDenied c then ''blocked'' else ''failed'')"

text \<open>An intent of a LIVE acceptance run also marks the run.\<close>

definition acceptanceFailureJson :: "orderIntentRow \<Rightarrow> failureContext \<Rightarrow> preDispatchProof option \<Rightarrow> json" where
  "acceptanceFailureJson intent c p =
     JObj [(''classification'', JStr (if dispatchRefusal c \<noteq> None then ''DEFINITELY_NOT_SENT''
         else if provenNotSent p then ''LOCAL_FAILURE''
         else case writeClassificationOf c of Some k \<Rightarrow> writeClassificationText k
           | None \<Rightarrow> if definitelyNotDispatched c then ''LOCAL_FAILURE'' else ''DELIVERY_UNCERTAIN'')),
       (''source'', JStr ''pending_order_submission''), (''orderIntentId'', jInt (oiId intent)),
       (''clientOrderId'', jOpt JStr (oiClientOrderId intent)), (''message'', JStr (failureText (fcError c)))]"

definition markAcceptanceRun :: "orderIntentRow \<Rightarrow> failureContext \<Rightarrow> preDispatchProof option \<Rightarrow> int \<Rightarrow> claimStore \<Rightarrow> claimStore" where
  "markAcceptanceRun intent c p now db =
     (case oiLiveEntryAcceptanceRunId intent of
        None \<Rightarrow> db
      | Some run \<Rightarrow>
        db\<lparr>acceptanceRunTable := map (\<lambda>r. if lrId r = run \<and> lrTerminalAt r = None then
             r\<lparr>lrExecutionUncertainAt := (if attemptUncertain c p then Some now else lrExecutionUncertainAt r),
               lrExecutionFailureJson := acceptanceFailureJson intent c p\<rparr> else r) (acceptanceRunTable db)\<rparr>)"

definition failureMessage :: "failureContext \<Rightarrow> preDispatchProof option \<Rightarrow> string" where
  "failureMessage c p =
     (case p of None \<Rightarrow> failureText (fcError c)
      | Some q \<Rightarrow> failureText (fcError c) @ '' [pre-dispatch non-delivery not proven: '' @ joinComma (ppBlockers q) @ '']'')"

text \<open>The delivery evidence of the plan, in the database \<open>db\<close> of the transaction.\<close>

definition writePlan ::
  "orderIntentRow \<Rightarrow> failureContext \<Rightarrow> dispatchRecords option \<Rightarrow> preDispatchProof option \<Rightarrow> int \<Rightarrow> claimStore \<Rightarrow> (unit \<times> claimStore) result" where
  "writePlan intent c records p now db =
     (case attemptPlan c records p of
        OutcomePlan classification \<Rightarrow>
          bindR (recordEntryDispatchOutcome
              \<lparr>oaOrderIntentId = oiId intent, oaClassification = classification, oaSource = ''WORKER'',
               oaObservation = Some OBSERVED, oaStatusCode = map_option jsInt (failureStatusCode c),
               oaMessage = Some (failureMessage c p), oaRecords = records\<rparr> now (\<lambda>_. db) db)
            (\<lambda>(_, db'). Inr ((), db'))
      | NotSentPlan classification producer releaseReason dispatchAttempted \<Rightarrow>
          (case claimOfIntent (oiId intent) db of
             None \<Rightarrow> Inr ((), db)
           | Some claim \<Rightarrow>
             if clReleasedAt claim = None \<and> clStatus claim \<in> set PRE_DISPATCH_CLAIM_STATUSES then
               appendNotSentEvidence (clId claim) (oiId intent) classification producer ''WORKER'' releaseReason
                 (Some (failureText (fcError c))) (if provenNotSent p then map_option ppProof p else None) now db
             else Inr ((), db)))"

definition persistFailure ::
  "orderIntentRow \<Rightarrow> failureContext \<Rightarrow> dispatchRecords option \<Rightarrow> int \<Rightarrow> claimStore \<Rightarrow> (evidencePlan \<times> claimStore) result" where
  "persistFailure intent c records now db =
     (let p = preDispatchProofOf intent c db in
      bindR (updateIntent (oiId intent)
          (\<lambda>o'. o'\<lparr>oiStatus := failedStatus intent c p, oiBlockReason := Some (attemptBlockReason intent c p)\<rparr>) now db) (\<lambda>(_, db1).
      bindR (writePlan intent c records p now (markAcceptanceRun intent c p now db1)) (\<lambda>(_, db2).
      Inr (attemptPlan c records p, db2))))"

subsection \<open>The handler\<close>

definition releaseByPlan :: "'e workerEnv_scheme \<Rightarrow> orderIntentRow \<Rightarrow> failureContext \<Rightarrow> evidencePlan \<Rightarrow> unit action" where
  "releaseByPlan env intent c plan =
     (case plan of
        NotSentPlan classification producer releaseReason dispatchAttempted \<Rightarrow>
          bindA (releaseUnsubmittedOrRouteToRecovery env 110 (oiId intent) releaseReason ''WORKER'' dispatchAttempted
            (Some (failureText (fcError c)))) (\<lambda>_. returnA ())
      | OutcomePlan classification \<Rightarrow>
          catchA (bindA (attemptReleaseAfterRecordedOutcome env 150 (oiId intent) classification ''WORKER'') (\<lambda>_. returnA ()))
            (\<lambda>_. returnA ()))"

definition handleIn :: "'e workerEnv_scheme \<Rightarrow> orderIntentRow \<Rightarrow> failureContext \<Rightarrow> intentOutcome action" where
  "handleIn env intent c =
     (let db = rtBoundary env in
      bindA (if \<not> definitelyNotDispatched c \<or> recordedNotSent c \<noteq> None then
          catchA (bindA (dbRead db 100 (loadEntryDispatchRecords (oiId intent))) (\<lambda>r. returnA (Some r))) (\<lambda>_. returnA None)
        else returnA None) (\<lambda>records.
      bindA (catchA (bindA (dbStep db 101 (transaction (persistFailure intent c records (beNow db 101)))) (\<lambda>plan. returnA (Some plan)))
          (\<lambda>_. returnA None)) (\<lambda>persisted.
      case persisted of
        None \<Rightarrow> returnA IntentFailed
      | Some plan \<Rightarrow>
          bindA (releaseByPlan env intent c plan) (\<lambda>_.
          returnA (if policyDenied c then IntentBlocked else IntentFailed)))))"

definition handleFailure :: "'e workerEnv_scheme \<Rightarrow> orderIntentRow \<Rightarrow> bool \<Rightarrow> entryError \<Rightarrow> intentOutcome action" where
  "handleFailure env intent started e s =
     handleIn env intent \<lparr>fcStarted = started, fcPhase = bsPhase s, fcError = e\<rparr> s"

text \<open>The death of the process runs no handler.\<close>

definition failing :: "'e workerEnv_scheme \<Rightarrow> orderIntentRow \<Rightarrow> bool \<Rightarrow> entryError \<Rightarrow> intentOutcome action" where
  "failing env intent started e = (if e = ProcessDied then throwA e else handleFailure env intent started e)"

text \<open>One intent: whether it was claimed, and its outcome.\<close>

definition processPendingIntent :: "'e workerEnv_scheme \<Rightarrow> orderIntentRow \<Rightarrow> (bool \<times> intentOutcome) action" where
  "processPendingIntent env intent s0 =
     (case claimIntent env intent (s0\<lparr>bsPhase := UNCLASSIFIED\<rparr>) of
        (Inl e, s) \<Rightarrow> bindA (failing env intent False e) (\<lambda>r. returnA (False, r)) s
      | (Inr (entryClaim, claimed), s) \<Rightarrow>
        if \<not> claimed then (Inr (False, NotClaimed), s)
        else (case prepareSubmission env intent entryClaim s of
                (Inl e, s') \<Rightarrow> bindA (failing env intent False e) (\<lambda>r. returnA (True, r)) s'
              | (Inr None, s') \<Rightarrow> (Inr (True, IntentBlocked), s')
              | (Inr (Some (input, account)), s') \<Rightarrow>
                (case sendAndRecord env intent input account s' of
                   (Inl e, s'') \<Rightarrow> bindA (failing env intent True e) (\<lambda>r. returnA (True, r)) s''
                 | (Inr _, s'') \<Rightarrow> (Inr (True, IntentSubmitted), s''))))"

subsection \<open>The batch of an account\<close>

record batchResult =
  brFound :: nat
  brClaimed :: nat
  brSubmitted :: nat
  brBlocked :: nat
  brFailed :: nat

definition countIntent :: "bool \<times> intentOutcome \<Rightarrow> batchResult \<Rightarrow> batchResult" where
  "countIntent r b =
     b\<lparr>brClaimed := brClaimed b + (if fst r then 1 else 0),
       brSubmitted := brSubmitted b + (if snd r = IntentSubmitted then 1 else 0),
       brBlocked := brBlocked b + (if snd r = IntentBlocked then 1 else 0),
       brFailed := brFailed b + (if snd r = IntentFailed then 1 else 0)\<rparr>"

definition pendingBatch :: "int \<Rightarrow> claimStore \<Rightarrow> orderIntentRow list" where
  "pendingBatch account db =
     take PENDING_ORDER_BATCH_LIMIT_PER_ACCOUNT (sort_key oiCreatedAt
       (filter (\<lambda>o'. oiStatus o' = ''pending'' \<and> oiTradingAccountId o' = Some account) (orderIntentTable db)))"

text \<open>\<open>envs n\<close> is the environment while the \<open>n\<close>-th intent is processed.\<close>

fun processIntents :: "(nat \<Rightarrow> 'e workerEnv_scheme) \<Rightarrow> nat \<Rightarrow> orderIntentRow list \<Rightarrow> batchResult \<Rightarrow> batchResult action" where
  "processIntents envs n [] b = returnA b"
| "processIntents envs n (intent # intents) b =
     bindA (processPendingIntent (envs n) intent) (\<lambda>r. processIntents envs (Suc n) intents (countIntent r b))"

definition processPendingOrdersForAccount :: "(nat \<Rightarrow> 'e workerEnv_scheme) \<Rightarrow> int \<Rightarrow> batchResult action" where
  "processPendingOrdersForAccount envs account =
     bindA (dbRead (rtBoundary (envs 0)) 19 (pendingBatch account)) (\<lambda>pending.
     processIntents envs 0 pending
       \<lparr>brFound = length pending, brClaimed = 0, brSubmitted = 0, brBlocked = 0, brFailed = 0\<rparr>)"

end
