(* ===== verification/StaleRecovery.thy ===== *)
theory StaleRecovery
  imports WorkerFailure
begin

text \<open>
  \<open>recoverStaleSubmittingIntentsForAccount\<close> in \<open>src/workers/order.worker.ts\<close>: intents that
  have been submitting for five minutes are linked to the broker order they produced, or closed
  by what the durable evidence says of them; none is ever sent again. The sweeps of terminal
  claims and of abandoned admissions follow the loop. A system event is an await that changes
  no modelled table.
\<close>

definition STALE_SUBMITTING_INTENT_THRESHOLD_MS :: int where
  "STALE_SUBMITTING_INTENT_THRESHOLD_MS = 5 * 60000"

fun includesText :: "string \<Rightarrow> string \<Rightarrow> bool" where
  "includesText needle [] = (needle = [])"
| "includesText needle (c # s) = (startsWith (c # s) needle \<or> includesText needle s)"

definition RECOVERY_DEFERRED :: string where
  "RECOVERY_DEFERRED = ''RECOVERY_DEFERRED_EVENT_RECORDED''"

subsection \<open>The selection\<close>

text \<open>An exit whose deferral has been recorded waits for the threshold between two lookups.\<close>

definition deferredExit :: "int \<Rightarrow> orderIntentRow \<Rightarrow> bool" where
  "deferredExit staleBefore o' =
     (toLowerCase (oiSide o') = ''sell'' \<and>
      (case oiBlockReason o' of None \<Rightarrow> False | Some r \<Rightarrow> includesText RECOVERY_DEFERRED r) \<and>
      (case oiLastSubmittedOrderSyncAt o' of None \<Rightarrow> False | Some t \<Rightarrow> staleBefore < t))"

definition staleSelection :: "int \<Rightarrow> int \<Rightarrow> claimStore \<Rightarrow> (orderIntentRow \<times> brokerOrderRow option) list" where
  "staleSelection account now db =
     (let staleBefore = now - STALE_SUBMITTING_INTENT_THRESHOLD_MS in
      map (\<lambda>o'. (o', List.find (\<lambda>b. boOrderIntentId b = oiId o') (brokerOrderTable db)))
        (take 25 (sort_key oiUpdatedAt (filter (\<lambda>o'. oiTradingAccountId o' = Some account \<and> oiStatus o' = ''submitting'' \<and>
           \<not> deferredExit staleBefore o' \<and> oiUpdatedAt o' \<le> staleBefore) (orderIntentTable db)))))"

subsection \<open>The writes\<close>

definition submittingIntent :: "int \<Rightarrow> orderIntentRow \<Rightarrow> bool" where
  "submittingIntent i o' = (oiId o' = i \<and> oiStatus o' = ''submitting'')"

definition whileSubmitting :: "int \<Rightarrow> (orderIntentRow \<Rightarrow> orderIntentRow) \<Rightarrow> int \<Rightarrow> int dbAction" where
  "whileSubmitting i f now db = (case updateIntents (submittingIntent i) f now db of (n, db') \<Rightarrow> (Inr n, db'))"

definition linkedRow :: "orderIntentRow \<Rightarrow> orderIntentRow" where
  "linkedRow o' = o'\<lparr>oiStatus := ''submitted'', oiBlockReason := None\<rparr>"

definition materializeBrokerOrder ::
  "orderIntentRow \<Rightarrow> int \<Rightarrow> alpacaOrder \<Rightarrow> int \<Rightarrow> int \<Rightarrow> claimStore \<Rightarrow> (unit \<times> claimStore) result" where
  "materializeBrokerOrder intent account order security now db =
     bindR (case findBrokerOrder (aoId order) account db of
         Some b \<Rightarrow> Inr ((), db)
       | None \<Rightarrow> insertBrokerOrder intent account order (nullish (aoSymbol order) []) (nullish (aoSide order) []) security now db)
       (\<lambda>(_, db'). Inr ((), snd (updateIntents (submittingIntent (oiId intent)) linkedRow now db')))"

definition uncertainAcceptance :: "orderIntentRow \<Rightarrow> int \<Rightarrow> int \<Rightarrow> claimStore \<Rightarrow> (unit \<times> claimStore) result" where
  "uncertainAcceptance intent run now db =
     (let db1 = snd (updateIntents (submittingIntent (oiId intent)) (\<lambda>o'. o'\<lparr>oiBlockReason := Some (nullish (oiBlockReason intent)
            ''BROKER_WRITE_DELIVERY:DELIVERY_UNCERTAIN:acceptance broker lookup found no order'')\<rparr>) now db)
      in Inr ((), db1\<lparr>acceptanceRunTable := map (\<lambda>r.
          if lrId r = run \<and> lrTerminalAt r = None \<and> lrExecutionClaimedAt r \<noteq> None then
            r\<lparr>lrExecutionUncertainAt := Some now,
              lrExecutionFailureJson := JObj [(''classification'', JStr (nullish (blockReasonDeliveryClassification (oiBlockReason intent)) ''DELIVERY_UNCERTAIN'')),
                (''source'', JStr ''stale_submitting_recovery''), (''orderIntentId'', jInt (oiId intent)),
                (''clientOrderId'', jOpt JStr (oiClientOrderId intent)), (''brokerLookup'', JStr ''NOT_FOUND_OR_UNRESOLVED'')]\<rparr>
          else r) (acceptanceRunTable db1)\<rparr>))"

definition closeUnsentExit :: "orderIntentRow \<Rightarrow> string \<Rightarrow> int \<Rightarrow> claimStore \<Rightarrow> (unit \<times> claimStore) result" where
  "closeUnsentExit intent classification now db =
     (let db1 = snd (updateIntents (submittingIntent (oiId intent))
            (\<lambda>o'. o'\<lparr>oiStatus := (if classification = ''NOT_SENT_BLOCKED'' then ''blocked'' else ''failed'')\<rparr>) now db)
      in Inr ((), case oiTrackedPositionId intent of
          None \<Rightarrow> db1
        | Some position \<Rightarrow> db1\<lparr>trackedPositionTable := map (\<lambda>t. if tpId t = position \<and> tpStatus t = ''closing''
              then t\<lparr>tpStatus := ''open''\<rparr> else t) (trackedPositionTable db1)\<rparr>))"

subsection \<open>The disposition of an entry\<close>

datatype staleDisposition = StaleNone | StaleNotSent | StaleOutcome outcomeResult

text \<open>
  Proven never sent: nothing says that it was dispatched, and the claim never reached
  the boundary, or a worker that writes markers claimed it and no marker was written.
\<close>

definition staleNotSent :: "dispatchRecords \<Rightarrow> int \<Rightarrow> claimStore \<Rightarrow> bool" where
  "staleNotSent records i db =
     (case claimOfIntent i db of
        None \<Rightarrow> False
      | Some claim \<Rightarrow>
        (let summary = summarizeDeliveryEvidence (deliveryEventsOf db (clId claim)) in
         \<not> drsPresent records \<and> clReleasedAt claim = None \<and> dsOutcomes summary = [] \<and>
         (clStatus claim \<in> set [''ENTRY_PENDING'', ''ADMISSION_BLOCKED''] \<or>
          clStatus claim = ''ENTRY_SUBMITTING'' \<and> dsMarkerProtocol summary \<and> dsAdapterMarkers summary = 0)))"

definition staleReason :: "dispatchRecords \<Rightarrow> bool \<Rightarrow> string" where
  "staleReason records proven =
     (if proven then ''Recovery confirmed no broker order and the broker adapter was never invoked; entry requires a new admission decision and was not requeued.''
      else if drsPresent records then ''DISPATCH_STARTED_OUTCOME_UNKNOWN: a dispatch record exists and no broker order was found; claim retained for evidence-based recovery and never resent.''
      else ''STALE_SUBMISSION_OUTCOME_UNKNOWN: no durable dispatch record and no proof the request was not issued; claim retained for investigation and never resent.'')"

definition disposeStale ::
  "orderIntentRow \<Rightarrow> dispatchRecords \<Rightarrow> int \<Rightarrow> claimStore \<Rightarrow> (staleDisposition \<times> claimStore) result" where
  "disposeStale intent records now db =
     (let i = oiId intent;
          proven = staleNotSent records i db;
          (n, db1) = updateIntents (submittingIntent i) (\<lambda>o'. o'\<lparr>oiStatus := ''failed'',
            oiBlockReason := Some (preserveBlockReason (oiBlockReason intent) (staleReason records proven))\<rparr>) now db
      in case claimOfIntent i db of
           None \<Rightarrow> Inr (StaleNone, db1)
         | Some claim \<Rightarrow>
           if n \<noteq> 1 \<or> clReleasedAt claim \<noteq> None then Inr (StaleNone, db1)
           else if proven then
             (if clStatus claim = ''ENTRY_SUBMITTING'' then
                bindR (appendNotSentEvidence (clId claim) i ''NOT_SENT_PRE_DISPATCH'' ''STALE_RECOVERY_ADAPTER_NOT_INVOKED''
                    ''STALE_RECOVERY'' ''RECOVERY_CONFIRMED_NEVER_SUBMITTED'' (oiBlockReason intent) None now db1)
                  (\<lambda>(_, db2). Inr (StaleNotSent, db2))
              else Inr (StaleNotSent, db1))
           else
             bindR (recordEntryDispatchOutcome
                 \<lparr>oaOrderIntentId = i, oaClassification = ''DISPATCH_OUTCOME_UNKNOWN'', oaSource = ''STALE_RECOVERY'',
                  oaObservation = Some INFERRED, oaStatusCode = None,
                  oaMessage = Some (if drsPresent records
                    then ''Stale submission with a durable dispatch record; the stable client-order-ID lookup found no broker order.''
                    else ''Stale submission without a durable dispatch record or proof of non-dispatch; the stable client-order-ID lookup found no broker order.''),
                  oaRecords = Some records\<rparr> now (\<lambda>_. db1) db1)
               (\<lambda>(outcome, db2). Inr (StaleOutcome outcome, db2)))"

subsection \<open>One intent\<close>

record staleTally =
  slLinked :: nat
  slRetryable :: nat
  slRetained :: nat
  slFailures :: "(int \<times> string) list"

definition linkedOne :: staleTally where
  "linkedOne = \<lparr>slLinked = 1, slRetryable = 0, slRetained = 0, slFailures = []\<rparr>"
definition retryableOne :: staleTally where
  "retryableOne = \<lparr>slLinked = 0, slRetryable = 1, slRetained = 0, slFailures = []\<rparr>"
definition retainedOne :: staleTally where
  "retainedOne = \<lparr>slLinked = 0, slRetryable = 0, slRetained = 1, slFailures = []\<rparr>"

definition addTally :: "staleTally \<Rightarrow> staleTally \<Rightarrow> staleTally" where
  "addTally a b = \<lparr>slLinked = slLinked a + slLinked b, slRetryable = slRetryable a + slRetryable b,
     slRetained = slRetained a + slRetained b, slFailures = slFailures a @ slFailures b\<rparr>"

definition systemEvent :: "boundaryEnv \<Rightarrow> nat \<Rightarrow> unit action" where
  "systemEvent env k = dbRead env k (\<lambda>_. ())"

text \<open>The failure of an intent is counted, and isolated from the others.\<close>

definition isolate :: "boundaryEnv \<Rightarrow> int \<Rightarrow> staleTally \<Rightarrow> entryError \<Rightarrow> staleTally action" where
  "isolate env i done' e =
     bindA (catchA (systemEvent env 290) (\<lambda>_. returnA ())) (\<lambda>_.
     returnA (addTally done' (retainedOne\<lparr>slFailures := [(i, failureText e)]\<rparr>)))"

text \<open>An intent with a local broker order is counted as linked before its claim is.\<close>

definition linkPersisted :: "'e workerEnv_scheme \<Rightarrow> orderIntentRow \<Rightarrow> staleTally action" where
  "linkPersisted env intent =
     (let db = rtBoundary env; i = oiId intent in
      bindA (observe db 203 None (Some i) ''RECOVERY_FOUND'') (\<lambda>_.
      bindA (observe db 204 None (Some i) ''BROKER_ORDER_MATERIALIZED'') (\<lambda>_.
      bindA (dbStep db 205 (whileSubmitting i linkedRow (beNow db 205))) (\<lambda>_.
      if isSellIntent (oiSide intent) then returnA linkedOne
      else catchA (bindA (transitionA db 206 i ''BROKER_ORDER_ACTIVE'' ''RECOVERY_LINKED_LOCAL_BROKER_ORDER'' None) (\<lambda>_. returnA linkedOne))
             (isolate db i linkedOne)))))"

text \<open>The lookup by the stable client order id; \<open>None\<close> when the intent is no longer submitting.\<close>

definition lookupStale :: "'e workerEnv_scheme \<Rightarrow> int \<Rightarrow> int \<Rightarrow> orderIntentRow \<Rightarrow> alpacaOrder option option action" where
  "lookupStale env account now intent =
     (let db = rtBoundary env; i = oiId intent in
      catchA
        (bindA (dbStep db 208 (whileSubmitting i (\<lambda>o'. o'\<lparr>oiLastSubmittedOrderSyncAt := Some now\<rparr>) (beNow db 208))) (\<lambda>n.
         if n \<noteq> 1 then returnA None
         else bindA (\<lambda>s. (beLookup db account (the (oiClientOrderId intent)), s)) (\<lambda>found. returnA (Some found))))
        (\<lambda>e. bindA (observe db 209 None (Some i) ''RECOVERY_INCONCLUSIVE'') (\<lambda>_. throwA e)))"

definition staleIdentityOk :: "orderIntentRow \<Rightarrow> alpacaOrder \<Rightarrow> bool" where
  "staleIdentityOk intent order =
     (Some (aoClientOrderId order) = oiClientOrderId intent \<and>
      map_option (\<lambda>s. toUpperCase (trim s)) (aoSymbol order) = Some (toUpperCase (trim (oiSymbol intent))) \<and>
      map_option (\<lambda>s. toLowerCase (trim s)) (aoSide order) = Some (toLowerCase (trim (oiSide intent))))"

definition securityOfOrder :: "alpacaOrder \<Rightarrow> claimStore \<Rightarrow> int result" where
  "securityOfOrder order db =
     (case List.find (\<lambda>s. secSymbol s = toUpperCase (nullish (aoSymbol order) [])) (securityTable db) of
        None \<Rightarrow> Inl (PlainError ''PrismaClientKnownRequestError'' ''No record was found for a query.'')
      | Some s \<Rightarrow> Inr (secId s))"

definition linkFound :: "'e workerEnv_scheme \<Rightarrow> int \<Rightarrow> orderIntentRow \<Rightarrow> alpacaOrder \<Rightarrow> staleTally action" where
  "linkFound env account intent order =
     (let db = rtBoundary env; i = oiId intent in
      bindA (unlessA (staleIdentityOk intent order) (workerError (''Broker order '' @ aoId order @
          '' found by stable client order ID does not match OrderIntent '' @ showInt i @ '' identity.''))) (\<lambda>_.
      bindA (observe db 210 None (Some i) ''RECOVERY_FOUND'') (\<lambda>_.
      bindA (observe db 211 None (Some i) ''BROKER_ORDER_MATERIALIZED'') (\<lambda>_.
      bindA (dbStep db 212 (reading (securityOfOrder order))) (\<lambda>security.
      bindA (dbStep db 213 (transaction (materializeBrokerOrder intent account order security (beNow db 213)))) (\<lambda>_.
      bindA (systemEvent db 214) (\<lambda>_.
      if isSellIntent (oiSide intent) then returnA linkedOne
      else bindA (transitionA db 215 i ''BROKER_ORDER_ACTIVE'' ''RECOVERY_FOUND_BROKER_ORDER''
          (Some (JObj [(''brokerOrderId'', JStr (aoId order)), (''brokerStatus'', JStr (aoStatus order))]))) (\<lambda>_. returnA linkedOne))))))))"

definition retainAcceptance :: "'e workerEnv_scheme \<Rightarrow> orderIntentRow \<Rightarrow> int \<Rightarrow> staleTally action" where
  "retainAcceptance env intent run =
     (let db = rtBoundary env in
      bindA (dbStep db 218 (transaction (uncertainAcceptance intent run (beNow db 218)))) (\<lambda>_.
      bindA (systemEvent db 219) (\<lambda>_. returnA retainedOne)))"

definition deferExit :: "'e workerEnv_scheme \<Rightarrow> orderIntentRow \<Rightarrow> staleTally action" where
  "deferExit env intent =
     (let db = rtBoundary env in
      bindA (if includesText RECOVERY_DEFERRED (nullish (oiBlockReason intent) []) then returnA ()
        else bindA (systemEvent db 221) (\<lambda>_.
          bindA (dbStep db 222 (whileSubmitting (oiId intent) (\<lambda>o'. o'\<lparr>oiBlockReason := Some
              (nullish (oiBlockReason intent) ''BROKER_WRITE_DELIVERY:DELIVERY_UNCERTAIN'' @ '':'' @ RECOVERY_DEFERRED)\<rparr>)
              (beNow db 222))) (\<lambda>_. returnA ()))) (\<lambda>_.
      returnA retainedOne))"

definition recoverExit :: "'e workerEnv_scheme \<Rightarrow> orderIntentRow \<Rightarrow> staleTally action" where
  "recoverExit env intent =
     (let db = rtBoundary env; classification = blockReasonDeliveryClassification (oiBlockReason intent) in
      if classification \<in> {Some ''NOT_SENT_RETRYABLE'', Some ''NOT_SENT_BLOCKED'', Some ''BROKER_REJECTED''} then
        bindA (dbStep db 220 (transaction (closeUnsentExit intent (the classification) (beNow db 220)))) (\<lambda>_. returnA retryableOne)
      else deferExit env intent)"

definition recoverEntry :: "'e workerEnv_scheme \<Rightarrow> orderIntentRow \<Rightarrow> staleTally action" where
  "recoverEntry env intent =
     (let db = rtBoundary env; i = oiId intent in
      bindA (dbRead db 224 (loadEntryDispatchRecords i)) (\<lambda>records.
      bindA (dbStep db 225 (transaction (disposeStale intent records (beNow db 225)))) (\<lambda>disposition.
      case disposition of
        StaleNotSent \<Rightarrow>
          bindA (releaseUnsubmittedOrRouteToRecovery env 230 i ''RECOVERY_CONFIRMED_NEVER_SUBMITTED'' ''STALE_RECOVERY'' False None) (\<lambda>release.
          returnA (case release of RELEASED _ \<Rightarrow> retryableOne | _ \<Rightarrow> retainedOne))
      | _ \<Rightarrow> returnA retainedOne)))"

definition recoverAbsent :: "'e workerEnv_scheme \<Rightarrow> orderIntentRow \<Rightarrow> staleTally action" where
  "recoverAbsent env intent =
     bindA (observe (rtBoundary env) 217 None (Some (oiId intent)) ''RECOVERY_ABSENCE_CONFIRMED'') (\<lambda>_.
     case oiLiveEntryAcceptanceRunId intent of
       Some run \<Rightarrow> retainAcceptance env intent run
     | None \<Rightarrow> if isSellIntent (oiSide intent) then recoverExit env intent else recoverEntry env intent)"

definition recoverOne :: "'e workerEnv_scheme \<Rightarrow> int \<Rightarrow> int \<Rightarrow> orderIntentRow \<times> brokerOrderRow option \<Rightarrow> staleTally action" where
  "recoverOne env account now row =
     (let (intent, persisted) = row in
      if \<not> given (oiClientOrderId intent) then returnA retainedOne
      else
        bindA (if isSellIntent (oiSide intent) then returnA ()
          else bindA (dbStep (rtBoundary env) 202 (reading (requireEntryExposureClaim (oiId intent) True))) (\<lambda>_. returnA ())) (\<lambda>_.
        if persisted \<noteq> None then linkPersisted env intent
        else
          bindA (lookupStale env account now intent) (\<lambda>found.
          case found of
            None \<Rightarrow> returnA retainedOne
          | Some None \<Rightarrow> recoverAbsent env intent
          | Some (Some order) \<Rightarrow> linkFound env account intent order)))"

definition recoverIsolated :: "'e workerEnv_scheme \<Rightarrow> int \<Rightarrow> int \<Rightarrow> orderIntentRow \<times> brokerOrderRow option \<Rightarrow> staleTally action" where
  "recoverIsolated env account now row =
     catchA (recoverOne env account now row)
       (isolate (rtBoundary env) (oiId (fst row)) \<lparr>slLinked = 0, slRetryable = 0, slRetained = 0, slFailures = []\<rparr>)"

subsection \<open>The loop\<close>

text \<open>\<open>envs n\<close> is the environment while the \<open>n\<close>-th intent is recovered; the sweeps have their own.\<close>

fun recoverAll :: "(nat \<Rightarrow> 'e workerEnv_scheme) \<Rightarrow> nat \<Rightarrow> int \<Rightarrow> int \<Rightarrow> (orderIntentRow \<times> brokerOrderRow option) list \<Rightarrow>
    staleTally \<Rightarrow> staleTally action" where
  "recoverAll envs n account now [] tally = returnA tally"
| "recoverAll envs n account now (row # rows) tally =
     bindA (recoverIsolated (envs n) account now row) (\<lambda>t. recoverAll envs (Suc n) account now rows (addTally tally t))"

text \<open>The sweeps follow, whatever became of the intents; a failed sweep is retried on the next tick.\<close>

definition guarded :: "(nat \<times> sweepTally) action \<Rightarrow> (string + nat \<times> sweepTally) action" where
  "guarded sweep = catchA (bindA sweep (\<lambda>r. returnA (Inr r))) (\<lambda>e. returnA (Inl (failureText e)))"

record staleResult =
  srFound :: nat
  srTally :: staleTally
  srDispatchRecovery :: "string + nat \<times> sweepTally"
  srAdmissionRecovery :: "string + nat \<times> sweepTally"

definition recoverStaleSubmittingIntentsForAccount ::
  "(nat \<Rightarrow> 'e workerEnv_scheme) \<Rightarrow> (nat \<Rightarrow> 'e workerEnv_scheme) \<Rightarrow> (nat \<Rightarrow> 'e workerEnv_scheme) \<Rightarrow> int \<Rightarrow> int \<Rightarrow> staleResult action" where
  "recoverStaleSubmittingIntentsForAccount envs sweepEnvs admissionEnvs account now =
     bindA (dbRead (rtBoundary (envs 0)) 201 (staleSelection account now)) (\<lambda>rows.
     bindA (recoverAll envs 0 account now rows \<lparr>slLinked = 0, slRetryable = 0, slRetained = 0, slFailures = []\<rparr>) (\<lambda>tally.
     bindA (guarded (recoverTerminalEntryClaimsForAccount sweepEnvs account now)) (\<lambda>terminal.
     bindA (guarded (recoverStaleAdmissionClaimsForAccount admissionEnvs account now)) (\<lambda>admission.
     returnA \<lparr>srFound = length rows, srTally = tally, srDispatchRecovery = terminal, srAdmissionRecovery = admission\<rparr>))))"

end
