(* ===== verification/ClaimSafety.thy ===== *)
theory ClaimSafety
  imports ClaimMaintenance
begin

text \<open>
  What the claims guarantee: the tables stay well-formed and only grow, a released claim is
  final, an acquisition is exclusive and can be repeated, and a claim is released as
  unsubmitted only on evidence. The constraints of the database are never what keeps an
  acquisition exclusive: its own checks are.
\<close>

subsection \<open>Well-formed tables\<close>

lemma claimsClash_sym: "claimsClash c d \<longleftrightarrow> claimsClash d c"
  unfolding claimsClash_def by (intro iffI) (metis+)

lemma claimsClash_self: "claimsClash c c"
  by (simp add: claimsClash_def)

lemma claimsOk_append:
  "claimsOk (cs @ [c]) \<longleftrightarrow> claimsOk cs \<and> claimRowOk c \<and> (\<forall>d\<in>set cs. \<not> claimsClash d c)"
  by (induction cs) (auto simp: list_ex_iff)

lemma claimsOk_unique: "claimsOk cs \<Longrightarrow> c \<in> set cs \<Longrightarrow> d \<in> set cs \<Longrightarrow> claimsClash c d \<Longrightarrow> c = d"
  by (induction cs) (auto simp: list_ex_iff claimsClash_sym)

lemma claimsOk_row: "claimsOk cs \<Longrightarrow> c \<in> set cs \<Longrightarrow> claimRowOk c"
  by (induction cs) auto

lemma claimsOk_id: "claimsOk cs \<Longrightarrow> c \<in> set cs \<Longrightarrow> d \<in> set cs \<Longrightarrow> clId c = clId d \<Longrightarrow> c = d"
  by (rule claimsOk_unique) (auto simp: claimsClash_def)

definition claimInv :: "claimStore \<Rightarrow> bool" where
  "claimInv db \<longleftrightarrow>
     claimsOk (claimTable db) \<and> (\<forall>c\<in>set (claimTable db). clId c < nextClaimId db) \<and>
     distinct (map ceId (claimEventTable db)) \<and>
     (\<forall>e\<in>set (claimEventTable db). ceId e < nextClaimEventId db)"

text \<open>
  How a database may develop: events are only appended; every claim stays, with its
  identity; a released claim stays exactly as it is.
\<close>

definition claimIdentity :: "claimRow \<Rightarrow> int \<times> int \<times> int \<times> int option \<times> string" where
  "claimIdentity c = (clId c, clTradingAccountId c, clSecurityId c, clOrderIntentId c, clOwnerKey c)"

definition develops :: "claimStore \<Rightarrow> claimStore \<Rightarrow> bool" where
  "develops db db' \<longleftrightarrow>
     (\<exists>es. claimEventTable db' = claimEventTable db @ es) \<and>
     (\<forall>c\<in>set (claimTable db). \<exists>c'\<in>set (claimTable db').
        claimIdentity c' = claimIdentity c \<and> (clReleasedAt c \<noteq> None \<longrightarrow> c' = c))"

lemma develops_refl [simp]: "develops db db"
  by (auto simp: develops_def)

lemma develops_trans: "develops a b \<Longrightarrow> develops b c \<Longrightarrow> develops a c"
  unfolding develops_def by (metis append.assoc)

definition claimPart :: "claimStore \<Rightarrow> claimRow list \<times> claimEventRow list \<times> int \<times> int" where
  "claimPart db = (claimTable db, claimEventTable db, nextClaimId db, nextClaimEventId db)"

lemma claimPart_cong:
  "claimPart db' = claimPart db \<Longrightarrow> claimInv db' = claimInv db"
  "claimPart db' = claimPart db \<Longrightarrow> develops d db' = develops d db"
  by (simp_all add: claimPart_def claimInv_def develops_def)

text \<open>A step that keeps the invariant and develops the database.\<close>

definition safeStep :: "claimStore \<Rightarrow> claimStore \<Rightarrow> bool" where
  "safeStep db db' \<longleftrightarrow> claimInv db' \<and> develops db db'"

lemma safeStep_trans: "safeStep a b \<Longrightarrow> safeStep b c \<Longrightarrow> safeStep a c"
  by (auto simp: safeStep_def intro: develops_trans)

lemma safeStep_refl: "claimInv db \<Longrightarrow> safeStep db db"
  by (simp add: safeStep_def)

lemma safeStep_inv: "safeStep db db' \<Longrightarrow> claimInv db'"
  by (simp add: safeStep_def)

lemma otherTables_safe: "claimInv db \<Longrightarrow> claimPart db' = claimPart db \<Longrightarrow> safeStep db db'"
  unfolding safeStep_def using claimPart_cong[of db' db] develops_refl by blast

lemma appendEvent_safe: "claimInv db \<Longrightarrow> safeStep db (appendEvent i t ev now db)"
  by (fastforce simp: safeStep_def claimInv_def develops_def appendEvent_def)

lemma insertClaim_safe: "claimInv db \<Longrightarrow> insertClaim c t ev now db = Inr (c', db') \<Longrightarrow> safeStep db db'"
proof -
  assume inv: "claimInv db" and ins: "insertClaim c t ev now db = Inr (c', db')"
  let ?d = "db\<lparr>claimTable := claimTable db @ [c\<lparr>clId := nextClaimId db\<rparr>], nextClaimId := nextClaimId db + 1\<rparr>"
  have ok: "claimsOk (claimTable db @ [c\<lparr>clId := nextClaimId db\<rparr>])" and db': "db' = appendEvent (nextClaimId db) t ev now ?d"
    using ins by (auto simp: insertClaim_def Let_def split: if_splits)
  have "safeStep db ?d"
    using inv ok by (fastforce simp: safeStep_def claimInv_def develops_def)
  then show ?thesis unfolding db' using appendEvent_safe safeStep_trans by (metis safeStep_def)
qed

lemma updateClaims_Inr:
  "updateClaims P f db = Inr (n, db') \<longleftrightarrow>
   claimsOk (map (\<lambda>c. if P c then f c else c) (claimTable db)) \<and>
   n = int (length (filter P (claimTable db))) \<and>
   db' = db\<lparr>claimTable := map (\<lambda>c. if P c then f c else c) (claimTable db)\<rparr>"
  by (auto simp: updateClaims_def Let_def)

lemma updateClaims_safe:
  assumes "claimInv db" and "updateClaims P f db = Inr (n, db')"
    and "\<And>c. claimIdentity (f c) = claimIdentity c"
    and "\<And>c. c \<in> set (claimTable db) \<Longrightarrow> P c \<Longrightarrow> clReleasedAt c = None"
  shows "safeStep db db'"
proof -
  have id: "clId (f c) = clId c" for c using assms(3)[of c] by (simp add: claimIdentity_def)
  have db': "db' = db\<lparr>claimTable := map (\<lambda>c. if P c then f c else c) (claimTable db)\<rparr>"
    and ok: "claimsOk (map (\<lambda>c. if P c then f c else c) (claimTable db))"
    using assms(2) by (auto simp: updateClaims_Inr)
  have "claimInv db'" using assms(1) ok by (auto simp: claimInv_def db' id)
  moreover have "\<exists>c'\<in>set (claimTable db'). claimIdentity c' = claimIdentity c \<and> (clReleasedAt c \<noteq> None \<longrightarrow> c' = c)"
    if "c \<in> set (claimTable db)" for c
    using that assms(3)[of c] assms(4)[OF that]
    by (intro bexI[of _ "if P c then f c else c"]) (auto simp: db')
  then have "develops db db'" by (simp add: develops_def db')
  ultimately show ?thesis by (simp add: safeStep_def)
qed

lemma findClaim_SomeD: "findClaim P db = Some c \<Longrightarrow> c \<in> set (claimTable db) \<and> P c"
  by (auto simp: findClaim_def find_Some_iff)

lemma findClaim_None: "findClaim P db = None \<longleftrightarrow> (\<forall>c\<in>set (claimTable db). \<not> P c)"
  by (auto simp: findClaim_def find_None_iff)

lemma claimById_unreleased:
  assumes "claimInv db" "c \<in> set (claimTable db)" "clReleasedAt c = None" "d \<in> set (claimTable db)" "clId d = clId c"
  shows "clReleasedAt d = None"
  using assms claimsOk_id by (metis claimInv_def)

subsection \<open>Every operation is a safe step\<close>

lemma appendClaimDiagnostic_safe:
  assumes "claimInv db" and "appendClaimDiagnostic i t ev now db = Inr (c, db')"
  shows "safeStep db db'"
proof (cases "claimById i db")
  case None
  then show ?thesis using assms by (simp add: appendClaimDiagnostic_def safeStep_refl)
next
  case (Some current)
  show ?thesis
  proof (cases "clReleasedAt current")
    case (Some r)
    then show ?thesis using assms \<open>claimById i db = Some current\<close>
      by (simp add: appendClaimDiagnostic_def safeStep_refl)
  next
    case None
    then obtain db1 n where db1: "db1 = db \<or> db1 = appendEvent i t ev now db"
      and up: "updateClaims (\<lambda>c. clId c = i \<and> clStatus c = clStatus current \<and> clReleasedAt c = None)
        (\<lambda>c. c\<lparr>clLastDiagnosedAt := Some now\<rparr>) db1 = Inr (n, db')"
      using assms(2) \<open>claimById i db = Some current\<close>
      by (auto simp: appendClaimDiagnostic_def Let_def bindR_Inr_iff split: if_splits)
    have "safeStep db db1" using db1 assms(1) appendEvent_safe safeStep_refl by blast
    moreover have "safeStep db1 db'"
      using up by (rule updateClaims_safe[rotated]) (use \<open>safeStep db db1\<close> in \<open>auto simp: safeStep_def claimIdentity_def\<close>)
    ultimately show ?thesis by (rule safeStep_trans)
  qed
qed

text \<open>An update of unreleased rows that may be followed by an event.\<close>

lemma update_event_safe:
  assumes "claimInv db" and "updateClaims P f db = Inr (n, db1)"
    and "db' = db1 \<or> db' = appendEvent i t ev now db1"
    and "\<And>c. claimIdentity (f c) = claimIdentity c"
    and "\<And>c. c \<in> set (claimTable db) \<Longrightarrow> P c \<Longrightarrow> clReleasedAt c = None"
  shows "safeStep db db'"
  using assms(3) updateClaims_safe[OF assms(1,2,4,5)] appendEvent_safe safeStep_trans
  by (metis safeStep_def)

lemma markClaimUnresolved_safe:
  assumes "claimInv db" and "markClaimUnresolved i t ev now db = Inr (c, db')"
  shows "safeStep db db'"
proof (cases "\<exists>current. claimById i db = Some current \<and> clReleasedAt current = None")
  case False
  then show ?thesis using assms
    by (auto simp: markClaimUnresolved_def safeStep_refl split: option.splits)
next
  case True
  then obtain current where cur: "claimById i db = Some current" "clReleasedAt current = None" by blast
  then obtain n db1 where up: "updateClaims (\<lambda>c. clId c = i \<and> clStatus c = clStatus current \<and> clReleasedAt c = None)
      (\<lambda>c. c\<lparr>clStatus := ''UNRESOLVED'', clLastDiagnosedAt := Some now\<rparr>) db = Inr (n, db1)"
    and "db' = db1 \<or> db' = appendEvent i t ev now db1"
    using assms(2) by (auto simp: markClaimUnresolved_def Let_def bindR_Inr_iff split: option.splits if_splits)
  then show ?thesis
    by (intro update_event_safe[OF assms(1) up]) (auto simp: claimIdentity_def)
qed

text \<open>What the rest of the code promises of \<open>createIntent\<close>: it writes no claim and no claim event.\<close>

definition keepsClaims :: "(claimStore \<Rightarrow> (orderIntentRow \<times> claimStore) result) \<Rightarrow> bool" where
  "keepsClaims createIntent \<longleftrightarrow> (\<forall>db i db'. createIntent db = Inr (i, db') \<longrightarrow> claimPart db' = claimPart db)"

lemma acquire_cases:
  assumes "acquireEntryExposureClaim createIntent a s k now db = Inr (r, db')"
  obtains (duplicate) "db' = db" "aqDuplicate r"
  | (fresh) security i db1 c t ev where "List.find (\<lambda>x. secSymbol x = toUpperCase (trim s)) (securityTable db) = Some security"
      "findClaim (activeClaimWhere a (secId security)) db = None"
      "acquireBlock db a (toUpperCase (trim s)) (secId security) = None"
      "createIntent db = Inr (i, db1)"
      "insertClaim (newEntryClaim a (secId security) (oiId i) k) t ev now db1 = Inr (c, db')"
      "r = \<lparr>aqIntent = i, aqDuplicate = False, aqClaimId = clId c\<rparr>" "t = ''ACQUIRED''"
      "\<And>p. findClaim (\<lambda>c. clOwnerKey c = k) db = Some p \<Longrightarrow> claimIntentRow db p = None"
  using assms
  by (auto simp: acquireEntryExposureClaim_def Let_def bindR_Inr_iff split: option.splits if_splits)

lemma acquire_safe:
  assumes "claimInv db" and "keepsClaims createIntent"
    and "acquireEntryExposureClaim createIntent a s k now db = Inr (r, db')"
  shows "safeStep db db'"
  using assms(3)
proof (cases rule: acquire_cases)
  case duplicate
  then show ?thesis using assms(1) by (simp add: safeStep_refl)
next
  case (fresh security i db1 c t ev)
  then have part: "claimPart db1 = claimPart db" using assms(2) by (simp add: keepsClaims_def)
  then have "claimInv db1" using assms(1) claimPart_cong by blast
  then have "safeStep db1 db'" using fresh(5) insertClaim_safe by blast
  then show ?thesis using part by (simp add: safeStep_def develops_def claimPart_def)
qed

lemma requireClaim_Inr:
  "requireEntryExposureClaim i b db = Inr c \<longleftrightarrow>
   claimOfIntent i db = Some c \<and> clReleasedAt c = None \<and> (clStatus c = ''UNRESOLVED'' \<longrightarrow> b)"
  by (auto simp: requireEntryExposureClaim_def Let_def split: option.splits if_splits)

text \<open>The ways a transition can commit.\<close>

lemma transition_cases:
  assumes "transitionEntryExposureClaim i st t ev now observed db = Inr (r, db')"
  obtains (unchanged) "db' = db" | (repeated) c :: claimRow and e where "db' = appendEvent (clId c) t e now db"
    | (written) c :: claimRow and n db1 e where "updateClaims (\<lambda>d. clId d = clId c \<and> clStatus d = clStatus c \<and> clReleasedAt d = None)
        (\<lambda>d. d\<lparr>clStatus := st\<rparr>) db = Inr (n, db1)" "db' = db1 \<or> db' = appendEvent (clId c) t e now db1"
proof -
  obtain c where c: "requireEntryExposureClaim i True observed = Inr c"
    using assms by (auto simp: transitionEntryExposureClaim_def bindR_Inr_iff)
  consider "db' = db" | e where "db' = appendEvent (clId c) t e now db"
    | n db1 e where "updateClaims (\<lambda>d. clId d = clId c \<and> clStatus d = clStatus c \<and> clReleasedAt d = None)
        (\<lambda>d. d\<lparr>clStatus := st\<rparr>) db = Inr (n, db1)" "db' = db1 \<or> db' = appendEvent (clId c) t e now db1"
    using assms c
    by (auto simp: transitionEntryExposureClaim_def Let_def bindR_Inr_iff split: option.splits if_splits)
  then show ?thesis using unchanged repeated written by cases blast+
qed

lemma transition_safe:
  assumes "claimInv db" and "transitionEntryExposureClaim i st t ev now observed db = Inr (r, db')"
  shows "safeStep db db'"
  using assms(2)
proof (cases rule: transition_cases)
  case (written c n db1 e)
  then show ?thesis by (intro update_event_safe[OF assms(1) written(1,2)]) (auto simp: claimIdentity_def)
qed (use assms(1) safeStep_refl appendEvent_safe in auto)

lemma recordMissing_safe:
  assumes "claimInv db" and "recordMissingLocalBrokerOrderDiagnostic i coid st now db = Inr (r, db')"
  shows "safeStep db db'"
  using assms appendClaimDiagnostic_safe
  by (auto simp: recordMissingLocalBrokerOrderDiagnostic_def safeStep_refl split: option.splits if_splits)

text \<open>A release that commits changed the one unreleased claim of the intent, on evidence.\<close>

definition releasable :: "claimStore \<Rightarrow> int \<Rightarrow> claimRow \<Rightarrow> bool" where
  "releasable db i claim \<longleftrightarrow>
     claimOfIntent i db = Some claim \<and> clReleasedAt claim = None \<and>
     clStatus claim \<in> set [''ENTRY_PENDING'', ''ENTRY_SUBMITTING'', ''ADMISSION_BLOCKED''] \<and>
     \<not> releaseRefused db i claim"

lemma release_cases:
  assumes "releaseUnsubmittedEntryExposureClaim i reason now db = Inr (r, db')"
  obtains (unchanged) "db' = db" "\<And>c. r = Some c \<Longrightarrow> claimOfIntent i db = Some c \<and> clReleasedAt c \<noteq> None"
  | (released) claim n db1 ev where "releasable db i claim"
      "updateClaims (\<lambda>c. clId c = clId claim \<and> clStatus c = clStatus claim \<and> clReleasedAt c = None)
        (\<lambda>c. c\<lparr>clStatus := ''RELEASED'', clReleasedAt := Some now, clReleaseReason := Some reason\<rparr>) db = Inr (n, db1)"
      "db' = (if n = 1 then appendEvent (clId claim) ''RELEASED_NO_BROKER_EXPOSURE'' ev now db1 else db1)"
      "r = claimById (clId claim) db'"
proof (cases "\<exists>claim. claimOfIntent i db = Some claim \<and> clReleasedAt claim = None")
  case False
  then show ?thesis using assms
    by (intro unchanged) (auto simp: releaseUnsubmittedEntryExposureClaim_def split: option.splits)
next
  case True
  then obtain claim where c: "claimOfIntent i db = Some claim" "clReleasedAt claim = None" by blast
  let ?f = "\<lambda>c. c\<lparr>clStatus := ''RELEASED'', clReleasedAt := Some now, clReleaseReason := Some reason\<rparr>"
  let ?P = "\<lambda>c. clId c = clId claim \<and> clStatus c = clStatus claim \<and> clReleasedAt c = None"
  have ok: "releasable db i claim"
    using assms c by (simp add: releaseUnsubmittedEntryExposureClaim_def Let_def releasable_def split: if_splits)
  then have st: "(clStatus claim \<notin> set [''ENTRY_PENDING'', ''ENTRY_SUBMITTING'', ''ADMISSION_BLOCKED'']) = False"
    and ref: "releaseRefused db i claim = False" unfolding releasable_def by blast+
  obtain ev where eq: "releaseUnsubmittedEntryExposureClaim i reason now db =
      bindR (updateClaims ?P ?f db) (\<lambda>(count, db'). if count \<noteq> 1 then Inr (claimById (clId claim) db', db')
        else Inr (claimById (clId claim) (appendEvent (clId claim) ''RELEASED_NO_BROKER_EXPOSURE'' ev now db'),
          appendEvent (clId claim) ''RELEASED_NO_BROKER_EXPOSURE'' ev now db'))"
    unfolding releaseUnsubmittedEntryExposureClaim_def Let_def c option.case st ref if_False by auto
  show ?thesis
  proof (cases "updateClaims ?P ?f db")
    case (Inl x)
    then show ?thesis using assms by (simp add: eq)
  next
    case (Inr x)
    obtain n db1 where "x = (n, db1)" by (cases x)
    then show ?thesis
      using assms ok Inr by (intro released[of claim n db1 ev]) (auto simp: eq split: if_splits)
  qed
qed

lemma release_safe:
  assumes "claimInv db" and "releaseUnsubmittedEntryExposureClaim i reason now db = Inr (r, db')"
  shows "safeStep db db'"
  using assms(2)
proof (cases rule: release_cases)
  case unchanged
  then show ?thesis using assms(1) by (simp add: safeStep_refl)
next
  case (released claim n db1 ev)
  then show ?thesis
    by (intro update_event_safe[OF assms(1) released(2)]) (auto simp: claimIdentity_def)
qed

lemma attach_safe:
  assumes "claimInv db" and "attachEntryExposureClaimToPosition a s p symb e now db = Inr (r, db')"
  shows "safeStep db db'"
proof (cases "findClaim (activeClaimWhere a s) db")
  case None
  then show ?thesis using assms insertClaim_safe
    by (auto simp: attachEntryExposureClaimToPosition_def bindR_Inr_iff)
next
  case (Some active)
  then have act: "active \<in> set (claimTable db)" "clReleasedAt active = None"
    by (auto dest: findClaim_SomeD simp: activeClaimWhere_def)
  have un: "clReleasedAt c = None" if "c \<in> set (claimTable db)" "clId c = clId active" for c
    using claimById_unreleased[OF assms(1) act that] .
  have upd: "safeStep db (appendEvent (clId active) t ev now db1)"
    if "updateClaims P f db = Inr (n, db1)" "\<And>c. claimIdentity (f c) = claimIdentity c"
      "\<And>c. P c \<Longrightarrow> clId c = clId active" for P f n db1 t ev
    using that un by (intro update_event_safe[OF assms(1) that(1)]) auto
  note defs = attachEntryExposureClaimToPosition_def Let_def bindR_Inr_iff
  show ?thesis
  proof (cases "e \<noteq> None \<and> clOrderIntentId active \<noteq> e")
    case True
    then show ?thesis using assms Some markClaimUnresolved_safe by (simp add: defs)
  next
    case own: False
    show ?thesis
    proof (cases "clStatus active = ''UNRESOLVED''")
      case True
      then show ?thesis using assms Some own
        by (auto simp: defs safeStep_refl claimIdentity_def intro!: upd split: if_splits)
    next
      case False
      then show ?thesis using assms Some own
        by (auto simp: defs safeStep_refl claimIdentity_def intro!: upd split: if_splits)
    qed
  qed
qed

lemma createEvent_safe: "claimInv db \<Longrightarrow> createEvent i t ev now db = Inr (u, db') \<Longrightarrow> safeStep db db'"
  using appendEvent_safe by (auto simp: createEvent_def split: if_splits)

lemma recordOutcome_safe:
  assumes "claimInv db" and "recordEntryDispatchOutcome args now reads db = Inr (r, db')"
  shows "safeStep db db'"
proof -
  have "db' = db \<or> (\<exists>c t ev x. appendClaimDiagnostic c t ev now db = Inr (x, db')) \<or>
      (\<exists>i st t ev x. transitionEntryExposureClaim i st t ev now (reads 2) db = Inr (x, db'))"
    using assms(2) by (auto simp: recordEntryDispatchOutcome_def Let_def bindR_Inr_iff split: option.splits if_splits)
  then show ?thesis
    using assms(1) safeStep_refl appendClaimDiagnostic_safe transition_safe by blast
qed

lemma authorizeOperator_safe:
  "claimInv db \<Longrightarrow> authorizeOperator args a now db = Inr (u, db') \<Longrightarrow> safeStep db db'"
  using createEvent_safe safeStep_refl by (auto simp: authorizeOperator_def split: if_splits)

text \<open>The ways a transaction of the verified release can commit.\<close>

lemma releaseTransaction_cases:
  assumes "releaseTransaction args a now inside db = Inr (outcome, db')"
  obtains (gone) "outcome = ''CLAIM_ALREADY_RELEASED''" "db' = db"
  | (blocked) t ev x where "outcome \<noteq> ''RELEASED''" "appendClaimDiagnostic (clId (raClaim a)) t ev now db = Inr (x, db')"
  | (written) current db1 n db2 where "claimById (clId (raClaim a)) inside = Some current" "clReleasedAt current = None"
      "revalidation a (rlOrderIntentId args) current inside = []" "authorizeOperator args a now db = Inr ((), db1)"
      "updateClaims (\<lambda>c. clId c = clId (raClaim a) \<and> clStatus c = clStatus (raClaim a) \<and> clReleasedAt c = None)
         (\<lambda>c. c\<lparr>clStatus := ''RELEASED'', clReleasedAt := Some now, clReleaseReason := Some (releaseReasonOf a)\<rparr>) db1 = Inr (n, db2)"
      "n \<noteq> 1 \<and> outcome = ''CLAIM_STATUS_CHANGED'' \<and> db' = db2 \<or>
       n = 1 \<and> outcome = ''RELEASED'' \<and> createEvent (clId (raClaim a)) ''RELEASED_VERIFIED_DISPATCH_NO_EXPOSURE''
         (releasedEvidence args a) now db2 = Inr ((), db')"
proof (cases "claimById (clId (raClaim a)) inside")
  case None
  then show ?thesis using assms gone by (simp add: releaseTransaction_def)
next
  case (Some current)
  let ?b = "revalidation a (rlOrderIntentId args) current inside"
  have reasons: "joinComma ?b \<noteq> ''RELEASED''" if "?b \<noteq> []"
    using that revalidation_text by blast
  show ?thesis
  proof (cases "clReleasedAt current \<noteq> None \<or> ?b \<noteq> []")
    case True
    then show ?thesis using assms Some reasons gone blocked
      by (auto simp: releaseTransaction_def Let_def bindR_Inr_iff split: if_splits)
  next
    case False
    then show ?thesis using assms Some
      by (auto simp: releaseTransaction_def Let_def bindR_Inr_iff split: if_splits intro: written[OF Some])
  qed
qed

lemma verifiedRelease_run:
  assumes "releaseVerifiedEntryExposureClaim args env inside db = Inr (r, db')"
  shows "\<exists>a. assessEntryClaimRelease (rlOrderIntentId args) env = Inr a \<and>
    (\<not> rrReleased r \<and> (db' = db \<or>
       (\<exists>t ev x. appendClaimDiagnostic (clId (raClaim a)) t ev (reWriteNow env) db = Inr (x, db'))) \<or>
     (\<exists>outcome. \<not> unconfirmed args a \<and> raEligible a \<and>
       releaseTransaction args a (reWriteNow env) inside db = Inr (outcome, db') \<and> (rrReleased r \<longleftrightarrow> outcome = ''RELEASED'')))"
  using assms by (auto simp: releaseVerifiedEntryExposureClaim_def Let_def bindR_Inr_iff split: if_splits)

lemma verifiedRelease_safe:
  assumes "claimInv db" and "releaseVerifiedEntryExposureClaim args env inside db = Inr (r, db')"
  shows "safeStep db db'"
proof -
  obtain a where "db' = db \<or> (\<exists>c t ev now x. appendClaimDiagnostic c t ev now db = Inr (x, db')) \<or>
      (\<exists>outcome. releaseTransaction args a (reWriteNow env) inside db = Inr (outcome, db'))"
    using verifiedRelease_run[OF assms(2)] by blast
  moreover have "safeStep db db'" if "releaseTransaction args a now inside db = Inr (outcome, db')" for now outcome
    using that
  proof (cases rule: releaseTransaction_cases)
    case (written current db1 n db2)
    have "safeStep db db1" using assms(1) written(4) by (rule authorizeOperator_safe)
    moreover have "safeStep db1 db2"
      using safeStep_inv[OF calculation] written(5) by (rule updateClaims_safe) (auto simp: claimIdentity_def)
    ultimately have "safeStep db db2" by (rule safeStep_trans)
    moreover have "db' = db2 \<or> safeStep db2 db'"
      using written(6) createEvent_safe[OF safeStep_inv[OF \<open>safeStep db db2\<close>]] by blast
    ultimately show ?thesis using safeStep_trans by blast
  qed (use assms(1) safeStep_refl appendClaimDiagnostic_safe in blast)+
  ultimately show ?thesis using assms(1) safeStep_refl appendClaimDiagnostic_safe by blast
qed

text \<open>The ways the final transaction of an authoritative release can commit.\<close>

lemma terminalTransaction_cases:
  assumes "terminalReleaseTransaction i claim orders order filled accounted now inside db = Inr (r, db')"
  obtains (unchanged) "db' = db"
  | (blocked) t ev x where "appendClaimDiagnostic (clId claim) t ev now db = Inr (x, db')"
  | (written) current n db1 where "claimById (clId claim) inside = Some current" "clReleasedAt current = None"
      "countWhere (activePositionOf (clTradingAccountId claim) (clSecurityId claim)) (trackedPositionTable inside) = 0"
      "countWhere (otherExecutableBuy claim (map aoId orders)) (brokerOrderTable inside) = 0"
      "\<not> fillsMissing (accountedFills i inside) filled"
      "updateClaims (\<lambda>c. clId c = clId claim \<and> clStatus c = clStatus current \<and> clReleasedAt c = None)
         (\<lambda>c. c\<lparr>clStatus := ''RELEASED'', clReleasedAt := Some now,
              clReleaseReason := Some (''BROKER_'' @ toUpperCase (aoStatus order) @ ''_NO_EXPOSURE'')\<rparr>) db = Inr (n, db1)"
      "n \<noteq> 1 \<and> db' = db1 \<or> n = 1 \<and> (\<exists>ev. createEvent (clId claim) ''RELEASED_AUTHORITATIVE_NO_EXPOSURE'' ev now db1 = Inr ((), db'))"
proof (cases "claimById (clId claim) inside")
  case None
  then show ?thesis using assms unchanged by (simp add: terminalReleaseTransaction_def)
next
  case (Some current)
  let ?blocked = "countWhere (activePositionOf (clTradingAccountId claim) (clSecurityId claim)) (trackedPositionTable inside) \<noteq> 0 \<or>
    countWhere (otherExecutableBuy claim (map aoId orders)) (brokerOrderTable inside) \<noteq> 0 \<or>
    fillsMissing (accountedFills i inside) filled"
  show ?thesis
  proof (cases "clReleasedAt current \<noteq> None \<or> ?blocked")
    case True
    then show ?thesis using assms Some unchanged blocked
      by (auto simp: terminalReleaseTransaction_def Let_def bindR_Inr_iff split: if_splits)
  next
    case False
    then show ?thesis using assms Some
      by (auto simp: terminalReleaseTransaction_def Let_def bindR_Inr_iff split: if_splits intro: written[OF Some])
  qed
qed

lemma terminalTransaction_safe:
  assumes "claimInv db" and "terminalReleaseTransaction i claim orders order filled accounted now inside db = Inr (r, db')"
  shows "safeStep db db'"
  using assms(2)
proof (cases rule: terminalTransaction_cases)
  case (written current n db1)
  have "safeStep db db1" using assms(1) written(6) by (rule updateClaims_safe) (auto simp: claimIdentity_def)
  then show ?thesis using written(7) createEvent_safe[OF safeStep_inv] safeStep_trans by blast
qed (use assms(1) safeStep_refl appendClaimDiagnostic_safe in blast)+

lemma releaseOnView_run:
  assumes "releaseOnView i claim symbol normalized answer now reads inside db = Inr (r, db')"
  shows "(\<exists>t ev x. appendClaimDiagnostic (clId claim) t ev now db = Inr (x, db')) \<or>
    (\<exists>t ev x. markClaimUnresolved (clId claim) t ev now db = Inr (x, db')) \<or>
    (\<exists>view order. answer = Inr view \<and> chainConflict symbol (tvChain view) = Inr False \<and> tvOrder view = Some order \<and>
       finalStatusOf order \<in> set FINAL_ORDER_STATUSES \<and> tvPosition view = None \<and> tvOpenBuys view = [] \<and>
       isFinite (brokerFilledOf (tvChain view)) \<and> \<not> jsLt (brokerFilledOf (tvChain view)) (Fin 0) \<and>
       \<not> fillsMissing (accountedFills i (reads 2)) (brokerFilledOf (tvChain view)) \<and>
       terminalReleaseTransaction i claim (tvChain view) order (brokerFilledOf (tvChain view)) (accountedFills i (reads 2))
         now inside db = Inr (r, db'))"
proof (cases answer)
  case (Inl m)
  then show ?thesis using assms by (auto simp: releaseOnView_def Let_def bindR_Inr_iff)
next
  case (Inr view)
  show ?thesis
  proof (cases "chainConflict symbol (tvChain view)")
    case (Inl e)
    then show ?thesis using assms \<open>answer = Inr view\<close> by (auto simp: releaseOnView_def Let_def bindR_Inr_iff)
  next
    case conf: (Inr b)
    show ?thesis
    proof (cases "\<not> b \<and> tvOrder view \<noteq> None")
      case False
      then show ?thesis using assms Inr conf
        by (auto simp: releaseOnView_def Let_def bindR_Inr_iff split: if_splits option.splits)
    next
      case True
      then obtain order where "tvOrder view = Some order" by auto
      then show ?thesis using assms Inr conf True
        by (auto simp: releaseOnView_def Let_def bindR_Inr_iff simp del: bindR_simps(1) split: if_splits)
    qed
  qed
qed

lemma releaseConfirmed_run:
  assumes "releaseConfirmedTerminalEntryClaim i status allow broker now reads inside db = Inr (r, db')"
  shows "db' = db \<or> (\<exists>st t ev. transitionEntryExposureClaim i st t ev now (reads 1) db = Inr (r, db')) \<or>
    (\<exists>claim answer normalized. claimOfIntent i (reads 0) = Some claim \<and> clReleasedAt claim = None \<and>
       map_option tpStatus (claimPosition (reads 0) claim) \<notin> {Some ''open'', Some ''closing''} \<and>
       answer = acquireTerminalView broker claim (securitySymbolOf (reads 0) claim)
         (Option.bind (claimIntentRow (reads 0) claim) oiClientOrderId) (localOrderOf i (reads 1)) \<and>
       releaseOnView i claim (securitySymbolOf (reads 0) claim) normalized answer now reads inside db = Inr (r, db'))"
proof (cases "claimOfIntent i (reads 0)")
  case None
  then show ?thesis using assms by (auto simp: releaseConfirmedTerminalEntryClaim_def Let_def split: if_splits)
next
  case (Some claim)
  then show ?thesis using assms
    by (cases "clReleasedAt claim = None") (auto simp: releaseConfirmedTerminalEntryClaim_def Let_def split: if_splits)
qed

lemma releaseConfirmed_safe:
  assumes "claimInv db" and "releaseConfirmedTerminalEntryClaim i status allow broker now reads inside db = Inr (r, db')"
  shows "safeStep db db'"
proof -
  note safe = safeStep_refl[OF assms(1)] transition_safe[OF assms(1)] appendClaimDiagnostic_safe[OF assms(1)]
    markClaimUnresolved_safe[OF assms(1)] terminalTransaction_safe[OF assms(1)]
  show ?thesis using releaseConfirmed_run[OF assms(2)] releaseOnView_run safe by meson
qed

lemma closedPosition_safe:
  assumes "claimInv db" and "releaseEntryExposureClaimForClosedPosition p broker now reads inside db = Inr (r, db')"
  shows "safeStep db db'"
proof -
  have "db' = db \<or> (\<exists>c t ev x. markClaimUnresolved c t ev now db = Inr (x, db')) \<or>
      (\<exists>i st a. releaseConfirmedTerminalEntryClaim i st a broker now (\<lambda>k. reads (k + 2)) inside db = Inr (r, db'))"
    using assms(2) by (auto simp: releaseEntryExposureClaimForClosedPosition_def Let_def bindR_Inr_iff split: option.splits if_splits)
  then show ?thesis
    using assms(1) safeStep_refl markClaimUnresolved_safe releaseConfirmed_safe by blast
qed

text \<open>Leases, the adopted position, the rollout and the operator.\<close>

lemma lease_safe:
  assumes "claimInv db" and "leaseRecoveryAttempt c now db = Inr (r, db')"
  shows "safeStep db db'"
proof -
  obtain n where "updateClaims (\<lambda>d. clId d = c \<and> clReleasedAt d = None \<and> isDue (clLastDiagnosedAt d) now)
      (\<lambda>d. d\<lparr>clLastDiagnosedAt := Some now\<rparr>) db = Inr (n, db')"
    using assms(2) by (auto simp: leaseRecoveryAttempt_def bindR_Inr_iff)
  then show ?thesis by (rule updateClaims_safe[OF assms(1)]) (simp_all add: claimIdentity_def)
qed

lemma attemptTime_safe:
  assumes "claimInv db" and "keepAttemptTime c now db = Inr (r, db')"
  shows "safeStep db db'"
proof -
  obtain n where "updateClaims (\<lambda>d. clId d = c \<and> clReleasedAt d = None \<and>
      (case clLastDiagnosedAt d of None \<Rightarrow> False | Some t \<Rightarrow> t < now)) (\<lambda>d. d\<lparr>clLastDiagnosedAt := Some now\<rparr>) db = Inr (n, db')"
    using assms(2) by (auto simp: keepAttemptTime_def bindR_Inr_iff)
  then show ?thesis by (rule updateClaims_safe[OF assms(1)]) (simp_all add: claimIdentity_def)
qed

text \<open>The ways the transaction for an adopted position can commit, and the whole operation.\<close>

lemma adoptedTransaction_cases:
  assumes "adoptedReleaseTransaction u claim now inside db = Inr (r, db')"
  obtains (unchanged) "db' = db"
  | (written) current n db1 where "claimById (clId claim) inside = Some current" "clReleasedAt current = None"
      "map_option tpStatus (claimPosition inside current) = Some ''closed''"
      "updateClaims (\<lambda>c. clId c = clId claim \<and> clStatus c = clStatus current \<and> clReleasedAt c = None)
         (\<lambda>c. c\<lparr>clStatus := ''RELEASED'', clReleasedAt := Some now,
              clReleaseReason := Some ''OPERATOR_VERIFIED_CLOSED_ADOPTED_POSITION_NO_BROKER_EXPOSURE''\<rparr>) db = Inr (n, db1)"
      "n \<noteq> 1 \<and> db' = db1 \<or> n = 1 \<and> (\<exists>ev. createEvent (clId claim) ''RELEASED_OPERATOR_VERIFIED_POSITION_ONLY'' ev now db1 = Inr ((), db'))"
  using assms that
  by (auto simp: adoptedReleaseTransaction_def bindR_Inr_iff split: option.splits if_splits)

lemma adoptedRelease_run:
  assumes "releaseClosedAdoptedPositionClaim c u broker now start inside db = Inr (r, db')"
  shows "db' = db \<or> (\<exists>i t ev x. markClaimUnresolved i t ev now db = Inr (x, db')) \<or>
    (\<exists>claim. claimById c start = Some claim \<and> clOrderIntentId claim \<in> {None, Some 0} \<and>
       adoptedReleaseTransaction u claim now inside db = Inr (r, db'))"
proof (cases "claimById c start")
  case None
  then show ?thesis using assms by (simp add: releaseClosedAdoptedPositionClaim_def)
next
  case (Some claim)
  then show ?thesis using assms
    by (auto simp: releaseClosedAdoptedPositionClaim_def Let_def bindR_Inr_iff split: if_splits sum.splits)
qed

lemma adoptedRelease_safe:
  assumes "claimInv db" and "releaseClosedAdoptedPositionClaim c u broker now start inside db = Inr (r, db')"
  shows "safeStep db db'"
proof -
  have "safeStep db db'" if "adoptedReleaseTransaction u claim now inside db = Inr (r, db')" for claim
    using that
  proof (cases rule: adoptedTransaction_cases)
    case (written current n db1)
    have "safeStep db db1" using assms(1) written(4) by (rule updateClaims_safe) (auto simp: claimIdentity_def)
    then show ?thesis using written(5) createEvent_safe[OF safeStep_inv] safeStep_trans by blast
  qed (use assms(1) safeStep_refl in blast)
  then show ?thesis
    using adoptedRelease_run[OF assms(2)] assms(1) safeStep_refl markClaimUnresolved_safe by blast
qed

lemma rolloutAdopt_safe:
  "claimInv db \<Longrightarrow> adoptRolloutPosition a s p symb now db = Inr (r, db') \<Longrightarrow> safeStep db db'"
  using insertClaim_safe safeStep_refl by (auto simp: adoptRolloutPosition_def bindR_Inr_iff split: if_splits)

lemma updateIntents_claimPart: "claimPart (snd (updateIntents P f now db)) = claimPart db"
  by (simp add: updateIntents_def claimPart_def)

text \<open>The rollout releases only the row it has just inserted.\<close>

lemma rolloutBlock_run:
  assumes "blockRolloutIntent a s i symb now t db = Inr (r, db')"
  shows "claimPart db' = claimPart db \<or>
    (\<exists>db1 c t1 ev db2 n db3 t2 ev2. claimPart db1 = claimPart db \<and>
       insertClaim (rolloutIntentClaim a s i) t1 ev now db1 = Inr (c, db2) \<and>
       updateClaims (\<lambda>d. clId d = clId c) (\<lambda>d. d\<lparr>clStatus := ''RELEASED'', clReleasedAt := Some t,
         clReleaseReason := Some ''ROLLOUT_VERIFIED_NEVER_SUBMITTED''\<rparr>) db2 = Inr (n, db3) \<and>
       db' = appendEvent (clId c) t2 ev2 t db3)"
proof (cases "findClaim (activeClaimWhere a s) db")
  case None
  let ?u = "updateIntents (\<lambda>o'. oiId o' = i \<and> oiStatus o' \<in> set [''received'', ''pending''])
      (\<lambda>o'. o'\<lparr>oiStatus := ''blocked'', oiBlockReason := Some ''ROLLOUT_VERIFIED_NEVER_SUBMITTED''\<rparr>) now db"
  have part: "claimPart (snd ?u) = claimPart db" by (rule updateIntents_claimPart)
  show ?thesis
  proof (cases "fst ?u = 1")
    case True
    then obtain c t1 ev db2 n db3 t2 ev2 where "insertClaim (rolloutIntentClaim a s i) t1 ev now (snd ?u) = Inr (c, db2)"
        "updateClaims (\<lambda>d. clId d = clId c) (\<lambda>d. d\<lparr>clStatus := ''RELEASED'', clReleasedAt := Some t,
           clReleaseReason := Some ''ROLLOUT_VERIFIED_NEVER_SUBMITTED''\<rparr>) db2 = Inr (n, db3)"
        "db' = appendEvent (clId c) t2 ev2 t db3"
      using assms None by (auto simp: blockRolloutIntent_def Let_def split_beta bindR_Inr_iff simp del: set_simps)
    then show ?thesis using part by blast
  next
    case False
    then show ?thesis using assms None part
      by (auto simp: blockRolloutIntent_def Let_def split_beta simp del: set_simps)
  qed
qed (use assms in \<open>simp add: blockRolloutIntent_def\<close>)

lemma rolloutBlock_safe:
  assumes "claimInv db" and "blockRolloutIntent a s i symb now t db = Inr (r, db')"
  shows "safeStep db db'"
  using rolloutBlock_run[OF assms(2)]
proof (elim disjE exE conjE)
  fix db1 c t1 ev db2 n db3 t2 ev2
  assume part: "claimPart db1 = claimPart db" and ins: "insertClaim (rolloutIntentClaim a s i) t1 ev now db1 = Inr (c, db2)"
    and up: "updateClaims (\<lambda>d. clId d = clId c) (\<lambda>d. d\<lparr>clStatus := ''RELEASED'', clReleasedAt := Some t,
         clReleaseReason := Some ''ROLLOUT_VERIFIED_NEVER_SUBMITTED''\<rparr>) db2 = Inr (n, db3)"
    and db': "db' = appendEvent (clId c) t2 ev2 t db3"
  have one: "safeStep db db1" using assms(1) part by (rule otherTables_safe)
  have two: "safeStep db1 db2" using safeStep_inv[OF one] ins by (rule insertClaim_safe)
  have new: "c \<in> set (claimTable db2)" "clReleasedAt c = None"
    using ins by (auto simp: insertClaim_def appendEvent_def rolloutIntentClaim_def Let_def split: if_splits)
  have "safeStep db2 db'"
    using safeStep_inv[OF two] up disjI2[OF db']
  proof (rule update_event_safe)
    show "clReleasedAt d = None" if "d \<in> set (claimTable db2)" "clId d = clId c" for d
      using claimsOk_id[of "claimTable db2" d c] safeStep_inv[OF two] that new by (auto simp: claimInv_def)
  qed (simp add: claimIdentity_def)
  with one two show ?thesis using safeStep_trans by blast
qed (use assms(1) otherTables_safe in blast)

subsection \<open>Sequences of transactions\<close>

text \<open>
  Every write of a claim or a claim event in the code, in any order; a transaction that writes
  them several times is the sequence of its operations. Those that read outside their transaction
  carry the databases of their reads. \<open>OtherTables\<close> stands for the writes of all other tables: it
  leaves the claims and their events alone. A transaction that throws has no effect.
\<close>

datatype claimOp =
    AcquireOp "claimStore \<Rightarrow> (orderIntentRow \<times> claimStore) result" int string string int
  | TransitionOp int string string "json option" int claimStore
  | ReleaseOp int string int
  | AttachOp int int int string "int option" int
  | DiagnosticOp int string json int
  | UnresolvedOp int string json int
  | MissingOrderOp int "string option" string int
  | AdapterMarkerOp int int string int
  | NotSentOp int int string string string string "string option" "json option" int
  | OutcomeOp outcomeArgs int "nat \<Rightarrow> claimStore"
  | VerifiedReleaseOp releaseArgs recoveryEnv claimStore
  | TerminalReleaseOp int string bool terminalBroker int "nat \<Rightarrow> claimStore" claimStore
  | ClosedPositionOp int terminalBroker int "nat \<Rightarrow> claimStore" claimStore
  | LeaseOp int int
  | AttemptTimeOp int int
  | AdoptedReleaseOp int int terminalBroker int claimStore claimStore
  | RolloutAdoptOp int int int string int
  | RolloutBlockOp int int int string int int
  | AuthorizeRemediationOp int int string string string json int
  | OtherTables "claimStore \<Rightarrow> claimStore"

definition commit :: "claimStore \<Rightarrow> ('a \<times> claimStore) result \<Rightarrow> claimStore" where
  "commit db r = (case r of Inl _ \<Rightarrow> db | Inr (_, db') \<Rightarrow> db')"

fun claimStep :: "claimOp \<Rightarrow> claimStore \<Rightarrow> claimStore" where
  "claimStep (AcquireOp createIntent a s k now) db = commit db (acquireEntryExposureClaim createIntent a s k now db)"
| "claimStep (TransitionOp i st t ev now observed) db =
     commit db (transitionEntryExposureClaim i st t ev now observed db)"
| "claimStep (ReleaseOp i reason now) db = commit db (releaseUnsubmittedEntryExposureClaim i reason now db)"
| "claimStep (AttachOp a s p symb e now) db = commit db (attachEntryExposureClaimToPosition a s p symb e now db)"
| "claimStep (DiagnosticOp i t ev now) db = commit db (appendClaimDiagnostic i t ev now db)"
| "claimStep (UnresolvedOp i t ev now) db = commit db (markClaimUnresolved i t ev now db)"
| "claimStep (MissingOrderOp i coid st now) db = commit db (recordMissingLocalBrokerOrderDiagnostic i coid st now db)"
| "claimStep (AdapterMarkerOp c i coid now) db = commit db (recordAdapterInvocationStarted c i coid now db)"
| "claimStep (NotSentOp c i cls producer source reason msg pf now) db =
     commit db (appendNotSentEvidence c i cls producer source reason msg pf now db)"
| "claimStep (OutcomeOp args now reads) db = commit db (recordEntryDispatchOutcome args now reads db)"
| "claimStep (VerifiedReleaseOp args env inside) db = commit db (releaseVerifiedEntryExposureClaim args env inside db)"
| "claimStep (TerminalReleaseOp i status allow broker now reads inside) db =
     commit db (releaseConfirmedTerminalEntryClaim i status allow broker now reads inside db)"
| "claimStep (ClosedPositionOp p broker now reads inside) db =
     commit db (releaseEntryExposureClaimForClosedPosition p broker now reads inside db)"
| "claimStep (LeaseOp c now) db = commit db (leaseRecoveryAttempt c now db)"
| "claimStep (AttemptTimeOp c now) db = commit db (keepAttemptTime c now db)"
| "claimStep (AdoptedReleaseOp c u broker now start inside) db =
     commit db (releaseClosedAdoptedPositionClaim c u broker now start inside db)"
| "claimStep (RolloutAdoptOp a s p symb now) db = commit db (adoptRolloutPosition a s p symb now db)"
| "claimStep (RolloutBlockOp a s i symb now t) db = commit db (blockRolloutIntent a s i symb now t db)"
| "claimStep (AuthorizeRemediationOp c u mail fp d pv now) db = commit db (authorizeRemediation c u mail fp d pv now db)"
| "claimStep (OtherTables f) db = f db"

fun claimOpPermitted :: "claimOp \<Rightarrow> bool" where
  "claimOpPermitted (AcquireOp createIntent _ _ _ _) = keepsClaims createIntent"
| "claimOpPermitted (OtherTables f) = (\<forall>db. claimPart (f db) = claimPart db)"
| "claimOpPermitted _ = True"

lemma commit_safe: "claimInv db \<Longrightarrow> (\<And>x db'. r = Inr (x, db') \<Longrightarrow> safeStep db db') \<Longrightarrow> safeStep db (commit db r)"
  by (auto simp: commit_def safeStep_refl split: sum.splits)

lemma claimStep_safe:
  assumes "claimInv db" and "claimOpPermitted op"
  shows "safeStep db (claimStep op db)"
proof (cases op)
  case (AcquireOp f a s k now)
  then show ?thesis using assms acquire_safe[of db f] by (auto intro!: commit_safe)
next
  case (TransitionOp i st t ev now observed)
  then show ?thesis using assms transition_safe by (auto intro!: commit_safe)
next
  case (ReleaseOp i reason now)
  then show ?thesis using assms release_safe by (auto intro!: commit_safe)
next
  case (AttachOp a s p symb e now)
  then show ?thesis using assms attach_safe by (auto intro!: commit_safe)
next
  case (DiagnosticOp i t ev now)
  then show ?thesis using assms appendClaimDiagnostic_safe by (auto intro!: commit_safe)
next
  case (UnresolvedOp i t ev now)
  then show ?thesis using assms markClaimUnresolved_safe by (auto intro!: commit_safe)
next
  case (MissingOrderOp i coid st now)
  then show ?thesis using assms recordMissing_safe by (auto intro!: commit_safe)
next
  case (AdapterMarkerOp c i coid now)
  then show ?thesis using assms createEvent_safe by (auto simp: recordAdapterInvocationStarted_def intro!: commit_safe)
next
  case (NotSentOp c i cls producer source reason msg pf now)
  then show ?thesis using assms createEvent_safe by (auto simp: appendNotSentEvidence_def intro!: commit_safe)
next
  case (OutcomeOp args now reads)
  then show ?thesis using assms recordOutcome_safe by (auto intro!: commit_safe)
next
  case (VerifiedReleaseOp args env inside)
  then show ?thesis using assms verifiedRelease_safe by (auto intro!: commit_safe)
next
  case (TerminalReleaseOp i status allow broker now reads inside)
  then show ?thesis using assms releaseConfirmed_safe by (auto intro!: commit_safe)
next
  case (ClosedPositionOp p broker now reads inside)
  then show ?thesis using assms closedPosition_safe by (auto intro!: commit_safe)
next
  case (LeaseOp c now)
  then show ?thesis using assms lease_safe by (auto intro!: commit_safe)
next
  case (AttemptTimeOp c now)
  then show ?thesis using assms attemptTime_safe by (auto intro!: commit_safe)
next
  case (AdoptedReleaseOp c u broker now start inside)
  then show ?thesis using assms adoptedRelease_safe by (auto intro!: commit_safe)
next
  case (RolloutAdoptOp a s p symb now)
  then show ?thesis using assms rolloutAdopt_safe by (auto intro!: commit_safe)
next
  case (RolloutBlockOp a s i symb now t)
  then show ?thesis using assms rolloutBlock_safe by (auto intro!: commit_safe)
next
  case (AuthorizeRemediationOp c u mail fp d pv now)
  then show ?thesis using assms createEvent_safe by (auto simp: authorizeRemediation_def intro!: commit_safe)
next
  case (OtherTables f)
  then show ?thesis using assms otherTables_safe by simp
qed

interpretation claims: opMachine claimStep claimOpPermitted "safeStep db0" for db0
proof
  fix db op
  assume run: "safeStep db0 db" and "claimOpPermitted op"
  then have "safeStep db (claimStep op db)" by (intro claimStep_safe) (simp_all add: safeStep_def)
  with run show "safeStep db0 (claimStep op db)" by (rule safeStep_trans)
qed

text \<open>C11: whatever operations of the code write claims or claim events (acquisitions, transitions, releases of
  every kind, attachments, diagnostics, markers, outcomes, leases, the rollout, the authorization of an
  operator), in whatever order, with whatever stale reads and with any writes of other tables between them, the
  claim tables stay well-formed: at most one unreleased claim per account
  and security, one claim per owner key and per order intent, release fields exactly on
  released claims. The event log is only appended to, no claim disappears or changes its
  identity, and a released claim stays exactly as it was released.
\<close>
theorem claim_history_only_grows:
  assumes "claimInv db" and "list_all claimOpPermitted ops"
  shows "claimInv (fold claimStep ops db) \<and>
    (\<exists>es. claimEventTable (fold claimStep ops db) = claimEventTable db @ es) \<and>
    (\<forall>c\<in>set (claimTable db). \<exists>c'\<in>set (claimTable (fold claimStep ops db)).
       claimIdentity c' = claimIdentity c \<and> (clReleasedAt c \<noteq> None \<longrightarrow> c' = c)) \<and>
    (\<forall>c\<in>set (claimTable (fold claimStep ops db)). \<forall>d\<in>set (claimTable (fold claimStep ops db)).
       clReleasedAt c = None \<longrightarrow> clReleasedAt d = None \<longrightarrow>
       clTradingAccountId c = clTradingAccountId d \<longrightarrow> clSecurityId c = clSecurityId d \<longrightarrow> c = d)"
proof (intro conjI)
  have *: "safeStep db (fold claimStep ops db)"
    using assms by (intro claims.run_holds safeStep_refl)
  then show inv: "claimInv (fold claimStep ops db)" by (simp add: safeStep_def)
  show "\<exists>es. claimEventTable (fold claimStep ops db) = claimEventTable db @ es"
    using * by (simp add: safeStep_def develops_def)
  show "\<forall>c\<in>set (claimTable db). \<exists>c'\<in>set (claimTable (fold claimStep ops db)).
       claimIdentity c' = claimIdentity c \<and> (clReleasedAt c \<noteq> None \<longrightarrow> c' = c)"
    using * by (simp add: safeStep_def develops_def)
  show "\<forall>c\<in>set (claimTable (fold claimStep ops db)). \<forall>d\<in>set (claimTable (fold claimStep ops db)).
       clReleasedAt c = None \<longrightarrow> clReleasedAt d = None \<longrightarrow>
       clTradingAccountId c = clTradingAccountId d \<longrightarrow> clSecurityId c = clSecurityId d \<longrightarrow> c = d"
    using inv claimsOk_unique by (fastforce simp: claimInv_def claimsClash_def)
qed

subsection \<open>Acquisition\<close>

lemma firstBy_None: "firstBy key P xs = None \<longleftrightarrow> (\<forall>x\<in>set xs. \<not> P x)"
proof -
  have "sort_key key (filter P xs) = [] \<longleftrightarrow> filter P xs = []"
    by (metis length_0_conv length_sort)
  then show ?thesis by (auto simp: firstBy_def filter_empty_conv split: list.splits)
qed

lemma acquireBlock_None:
  "acquireBlock db a symb s = None \<longleftrightarrow>
   (\<forall>t\<in>set (trackedPositionTable db). \<not> activePositionOf a s t) \<and>
   (\<forall>i\<in>set (orderIntentTable db). \<not> preClaimIntent db a symb i) \<and>
   (\<forall>b\<in>set (brokerOrderTable db). \<not> preClaimBrokerBuy db a s b)"
proof -
  have "acquireBlock db a symb s = None \<longleftrightarrow>
      List.find (activePositionOf a s) (trackedPositionTable db) = None \<and>
      firstBy oiCreatedAt (preClaimIntent db a symb) (orderIntentTable db) = None \<and>
      firstBy boCreatedAt (preClaimBrokerBuy db a s) (brokerOrderTable db) = None"
    by (simp add: acquireBlock_def split: option.split)
  then show ?thesis unfolding find_None_iff firstBy_None by blast
qed

lemma insertClaim_Inr:
  "insertClaim c t ev now db = Inr (c', db') \<longleftrightarrow>
   claimsOk (claimTable db @ [c\<lparr>clId := nextClaimId db\<rparr>]) \<and> c' = c\<lparr>clId := nextClaimId db\<rparr> \<and>
   db' = appendEvent (nextClaimId db) t ev now
     (db\<lparr>claimTable := claimTable db @ [c\<lparr>clId := nextClaimId db\<rparr>], nextClaimId := nextClaimId db + 1\<rparr>)"
  by (auto simp: insertClaim_def Let_def)

text \<open>C3: an acquisition that is not a repeat is exclusive. It commits only when the account has no
  unreleased claim on the security, no open or closing position in it, no entry intent with
  an unresolved outcome (or filled without a position) that no claim covers, and no live
  broker buy order that no claim covers. Afterwards its own claim, in ENTRY_PENDING for the
  new intent and the owner key, is the only unreleased one, and the event log has exactly
  one more entry, its ACQUIRED event.
\<close>
theorem acquisition_is_exclusive:
  assumes "acquireEntryExposureClaim createIntent a rawSymbol k now db = Inr (r, db')"
    and "\<not> aqDuplicate r" and "keepsClaims createIntent"
  shows "\<exists>security\<in>set (securityTable db). secSymbol security = toUpperCase (trim rawSymbol) \<and>
    (\<forall>c\<in>set (claimTable db). \<not> (clTradingAccountId c = a \<and> clSecurityId c = secId security \<and> clReleasedAt c = None)) \<and>
    (\<forall>t\<in>set (trackedPositionTable db). \<not> activePositionOf a (secId security) t) \<and>
    (\<forall>i\<in>set (orderIntentTable db). \<not> preClaimIntent db a (toUpperCase (trim rawSymbol)) i) \<and>
    (\<forall>b\<in>set (brokerOrderTable db). \<not> preClaimBrokerBuy db a (secId security) b) \<and>
    filter (activeClaimWhere a (secId security)) (claimTable db') =
      [(newEntryClaim a (secId security) (oiId (aqIntent r)) k)\<lparr>clId := aqClaimId r\<rparr>] \<and>
    (\<exists>e. claimEventTable db' = claimEventTable db @ [e] \<and> ceEventType e = ''ACQUIRED'' \<and> ceClaimId e = aqClaimId r)"
  using assms(1)
proof (cases rule: acquire_cases)
  case duplicate
  then show ?thesis using assms(2) by simp
next
  case (fresh security i db1 c t ev)
  have part: "claimTable db1 = claimTable db" "claimEventTable db1 = claimEventTable db"
    using assms(3) fresh(4) by (simp_all add: keepsClaims_def claimPart_def)
  have sec: "security \<in> set (securityTable db)" "secSymbol security = toUpperCase (trim rawSymbol)"
    using fresh(1) by (auto simp: find_Some_iff)
  have none: "filter (activeClaimWhere a (secId security)) (claimTable db) = []"
    using fresh(2) by (simp add: findClaim_None filter_empty_conv)
  have new: "claimTable db' = claimTable db @ [(newEntryClaim a (secId security) (oiId i) k)\<lparr>clId := clId c\<rparr>]"
    "\<exists>e. claimEventTable db' = claimEventTable db @ [e] \<and> ceEventType e = ''ACQUIRED'' \<and> ceClaimId e = clId c"
    using fresh(5,7) by (auto simp: insertClaim_Inr appendEvent_def part)
  have self: "activeClaimWhere a (secId security) ((newEntryClaim a (secId security) (oiId i) k)\<lparr>clId := n\<rparr>)" for n
    by (simp add: activeClaimWhere_def newEntryClaim_def)
  show ?thesis
    using sec none new fresh(3)
    by (intro bexI[OF _ sec(1)] conjI)
      (simp_all add: fresh(6) acquireBlock_None self filter_empty_conv activeClaimWhere_def newEntryClaim_def)
qed

text \<open>Tables with one security and a \<open>createIntent\<close> that inserts a given row.\<close>

definition sampleClaims :: claimStore where
  "sampleClaims =
     \<lparr>settingTable = [], securityTable = [\<lparr>secId = 11, secSymbol = ''SPY'', secEnabled = True\<rparr>],
      subscriptionTable = [], accountSubscriptionTable = [], riskSettingsTable = [],
      tradingAccountTable = [\<lparr>taId = 7, taMaxDeployableNotional = None, taEnvironment = ''PAPER'', taStatus = ''ACTIVE'',
        taTradingEnabled = True, taKillSwitchEnabled = False, taCredentialStatus = Some ''ACTIVE''\<rparr>],
      trackedPositionTable = [], orderIntentTable = [], brokerOrderTable = [], positionExitStateTable = [],
      claimTable = [], claimEventTable = [], brokerActivityTable = [], opportunityEventTable = [],
      dispatchConsumptionTable = [], unenforcedDispatchTable = [], armingTerminationTable = [],
      acceptanceRunTable = [], entryDecisionTable = [], nextBrokerOrderId = 1,
      nextClaimId = 1, nextClaimEventId = 1\<rparr>"

definition insertIntent :: "orderIntentRow \<Rightarrow> claimStore \<Rightarrow> (orderIntentRow \<times> claimStore) result" where
  "insertIntent i db = Inr (i, db\<lparr>orderIntentTable := orderIntentTable db @ [i]\<rparr>)"

lemma insertIntent_keepsClaims [simp]: "keepsClaims (insertIntent i)"
  by (auto simp: keepsClaims_def insertIntent_def claimPart_def)

definition acquiredClaims :: claimStore where
  "acquiredClaims = commit sampleClaims (acquireEntryExposureClaim (insertIntent sampleIntent) 7 ''spy '' ''entry:7:a'' 5 sampleClaims)"

lemma sampleClaims_inv [simp]: "claimInv sampleClaims"
  by (simp add: claimInv_def sampleClaims_def)

lemma spy_symbol: "toUpperCase (trim ''spy '') = ''SPY''" "toUpperCase (trim ''SPY'') = ''SPY''"
  by code_simp+

lemmas acquire_eval =
  acquireEntryExposureClaim_def Let_def spy_symbol sampleClaims_def findClaim_def acquireBlock_def firstBy_def
  bindR_def insertIntent_def insertClaim_def newEntryClaim_def claimRowOk_def isEntryExposureClaimStatus_def
  CLAIM_STATUSES_def commit_def

lemma acquired_sample:
  "acquireEntryExposureClaim (insertIntent sampleIntent) 7 ''spy '' ''entry:7:a'' 5 sampleClaims =
   Inr (\<lparr>aqIntent = sampleIntent, aqDuplicate = False, aqClaimId = 1\<rparr>, acquiredClaims)"
  unfolding acquiredClaims_def by (simp add: acquire_eval)

theorem acquisition_is_exclusive_witness:
  "filter (activeClaimWhere 7 11) (claimTable acquiredClaims) = [(newEntryClaim 7 11 1 ''entry:7:a'')\<lparr>clId := 1\<rparr>]"
  using acquisition_is_exclusive[OF acquired_sample]
  by (simp add: sampleClaims_def sampleIntent_def)

text \<open>The conflicts of the code of an acquisition.\<close>

definition isAcquireConflict :: "appError \<Rightarrow> bool" where
  "isAcquireConflict e \<longleftrightarrow> (\<exists>code message details. e = conflict code message details \<and>
     code \<in> {''SECURITY_NOT_FOUND'', ''POSITION_CLOSING'', ''ALREADY_IN_POSITION'',
       ''ENTRY_EXPOSURE_UNRESOLVED'', ''ENTRY_ALREADY_PENDING''})"

lemma isAcquireConflictI:
  "code \<in> {''SECURITY_NOT_FOUND'', ''POSITION_CLOSING'', ''ALREADY_IN_POSITION'',
     ''ENTRY_EXPOSURE_UNRESOLVED'', ''ENTRY_ALREADY_PENDING''} \<Longrightarrow> isAcquireConflict (conflict code m ds)"
  unfolding isAcquireConflict_def
  by (rule exI[of _ code], rule exI[of _ m], rule exI[of _ ds], rule conjI[OF refl])

lemma isAcquireConflict_codes [simp]:
  "isAcquireConflict (conflict ''SECURITY_NOT_FOUND'' m ds)"
  "isAcquireConflict (conflict ''POSITION_CLOSING'' m ds)"
  "isAcquireConflict (conflict ''ALREADY_IN_POSITION'' m ds)"
  "isAcquireConflict (conflict ''ENTRY_EXPOSURE_UNRESOLVED'' m ds)"
  "isAcquireConflict (conflict ''ENTRY_ALREADY_PENDING'' m ds)"
  by (rule isAcquireConflictI, simp)+

lemma acquireBlock_conflict: "acquireBlock db a symb s = Some e \<Longrightarrow> isAcquireConflict e"
  by (auto simp only: acquireBlock_def option.case option.inject option.distinct isAcquireConflict_codes
      split: option.splits if_splits)

lemma activeClaim_conflict: "isAcquireConflict (conflict (activeClaimCode db c) m ds)"
  by (simp add: activeClaimCode_def split: option.split)

lemma newClaim_fits:
  assumes "claimInv db" and "\<forall>c\<in>set (claimTable db). clOwnerKey c \<noteq> k" and "unclaimedIntent db i"
    and "findClaim (activeClaimWhere a s) db = None"
  shows "claimsOk (claimTable db @ [(newEntryClaim a s i k)\<lparr>clId := nextClaimId db\<rparr>])"
proof -
  have "\<not> claimsClash d ((newEntryClaim a s i k)\<lparr>clId := nextClaimId db\<rparr>)" if "d \<in> set (claimTable db)" for d
    using that assms
    by (simp add: claimsClash_def newEntryClaim_def claimInv_def findClaim_None activeClaimWhere_def
        unclaimedIntent_def claimOfIntent_def) force
  moreover have "claimRowOk ((newEntryClaim a s i k)\<lparr>clId := nextClaimId db\<rparr>)"
    by (simp add: claimRowOk_def newEntryClaim_def isEntryExposureClaimStatus_def CLAIM_STATUSES_def)
  ultimately show ?thesis using assms(1) by (simp add: claimsOk_append claimInv_def)
qed

text \<open>C33: the checks of an acquisition keep it exclusive, never the constraints of the database.
  On well-formed tables, with an owner key that no claim has used and a fresh intent, an
  acquisition that fails does so with what creating the intent threw, or with one of the
  five conflicts of the code (status 409); it never runs into a constraint.
\<close>
theorem acquisition_fails_only_by_its_checks:
  assumes "acquireEntryExposureClaim createIntent a rawSymbol k now db = Inl e"
    and "claimInv db" and "keepsClaims createIntent" and "\<forall>c\<in>set (claimTable db). clOwnerKey c \<noteq> k"
    and "\<forall>i db'. createIntent db = Inr (i, db') \<longrightarrow> unclaimedIntent db (oiId i)"
  shows "createIntent db = Inl e \<or> isAcquireConflict e"
proof (cases "List.find (\<lambda>s. secSymbol s = toUpperCase (trim rawSymbol)) (securityTable db)")
  case None
  then show ?thesis using assms(1) by (auto simp: acquireEntryExposureClaim_def Let_def)
next
  case sec: (Some security)
  have prior: "findClaim (\<lambda>c. clOwnerKey c = k) db = None"
    using assms(4) by (simp add: findClaim_None)
  note acquire = assms(1) [unfolded acquireEntryExposureClaim_def Let_def sec prior option.case]
  show ?thesis
  proof (cases "findClaim (activeClaimWhere a (secId security)) db")
    case (Some active)
    then have "clOwnerKey active \<noteq> k" using assms(4) findClaim_SomeD by blast
    then show ?thesis using acquire activeClaim_conflict by (auto simp: Some)
  next
    case free: None
    show ?thesis
    proof (cases "acquireBlock db a (toUpperCase (trim rawSymbol)) (secId security)")
      case (Some e')
      then show ?thesis using acquire acquireBlock_conflict by (simp add: free)
    next
      case clear: None
      show ?thesis
      proof (cases "createIntent db")
        case (Inl e')
        then show ?thesis using acquire by (simp add: free clear bindR_def)
      next
        case (Inr x)
        obtain i db1 where x: "x = (i, db1)" by (cases x)
        have part: "claimTable db1 = claimTable db" "nextClaimId db1 = nextClaimId db"
          using assms(3) Inr x by (simp_all add: keepsClaims_def claimPart_def)
        then show ?thesis
          using acquire newClaim_fits[OF assms(2,4) _ free] assms(5)
          by (simp add: free clear Inr x bindR_def insertClaim_def Let_def)
      qed
    qed
  qed
qed

lemma acquiredClaims_tables [simp]:
  "claimTable acquiredClaims = [(newEntryClaim 7 11 1 ''entry:7:a'')\<lparr>clId := 1\<rparr>]"
  "securityTable acquiredClaims = securityTable sampleClaims" "orderIntentTable acquiredClaims = [sampleIntent]"
  "trackedPositionTable acquiredClaims = []"
  by (simp_all add: acquiredClaims_def acquire_eval appendEvent_def sampleIntent_def)

lemma acquiredClaims_inv: "claimInv acquiredClaims"
  using acquire_safe[OF sampleClaims_inv insertIntent_keepsClaims acquired_sample] by (simp add: safeStep_def)

theorem acquisition_fails_only_by_its_checks_witness:
  "\<exists>e. acquireEntryExposureClaim (insertIntent (sampleIntent\<lparr>oiId := 2\<rparr>)) 7 ''SPY'' ''entry:7:b'' 9 acquiredClaims = Inl e \<and>
     isAcquireConflict e"
proof -
  let ?r = "acquireEntryExposureClaim (insertIntent (sampleIntent\<lparr>oiId := 2\<rparr>)) 7 ''SPY'' ''entry:7:b'' 9 acquiredClaims"
  obtain e where e: "?r = Inl e"
    by (simp add: acquireEntryExposureClaim_def Let_def spy_symbol sampleClaims_def findClaim_def newEntryClaim_def
        activeClaimWhere_def)
  have "unclaimedIntent acquiredClaims 2"
    by (simp add: unclaimedIntent_def claimOfIntent_def findClaim_def newEntryClaim_def)
  then have "isAcquireConflict e"
    using acquisition_fails_only_by_its_checks[OF e acquiredClaims_inv]
    by (simp add: insertIntent_def newEntryClaim_def keepsClaims_def claimPart_def)
  then show ?thesis using e by blast
qed

theorem claim_history_only_grows_witness:
  "claimInv (fold claimStep [AcquireOp (insertIntent sampleIntent) 7 ''spy '' ''entry:7:a'' 5,
     AcquireOp (insertIntent (sampleIntent\<lparr>oiId := 2\<rparr>)) 7 ''SPY'' ''entry:7:b'' 9] sampleClaims)"
  using claim_history_only_grows[of sampleClaims "[AcquireOp (insertIntent sampleIntent) 7 ''spy '' ''entry:7:a'' 5,
     AcquireOp (insertIntent (sampleIntent\<lparr>oiId := 2\<rparr>)) 7 ''SPY'' ''entry:7:b'' 9]"] by simp

lemma findClaim_unique:
  assumes "claimInv db" and "c \<in> set (claimTable db)" and "P c" and "\<And>d. P d \<Longrightarrow> claimsClash d c"
  shows "findClaim P db = Some c"
proof -
  obtain d where d: "findClaim P db = Some d"
    using assms(2,3) findClaim_None by fastforce
  then have "d = c"
    using findClaim_SomeD[OF d] assms by (auto simp: claimInv_def intro: claimsOk_unique)
  then show ?thesis using d by simp
qed

text \<open>An acquisition can be repeated. Whatever transactions ran in between - the claim may have
  been released since - acquiring again with the same owner key returns the intent and the
  claim of the first call, marked as a duplicate, and writes nothing. Neither the account
  nor the symbol of the repeated call matter, as long as its symbol is registered.
\<close>
lemma acquisition_repeats:
  assumes "acquireEntryExposureClaim createIntent a rawSymbol k now db = Inr (r, db1)"
    and "\<not> aqDuplicate r" and "claimInv db" and "keepsClaims createIntent"
    and "list_all claimOpPermitted ops" and "intentById (oiId (aqIntent r)) (fold claimStep ops db1) = Some i"
    and "\<exists>s\<in>set (securityTable (fold claimStep ops db1)). secSymbol s = toUpperCase (trim rawSymbol')"
  shows "acquireEntryExposureClaim createIntent' a' rawSymbol' k now' (fold claimStep ops db1) =
    Inr (\<lparr>aqIntent = i, aqDuplicate = True, aqClaimId = aqClaimId r\<rparr>, fold claimStep ops db1)"
proof -
  let ?db2 = "fold claimStep ops db1"
  obtain c where c: "c \<in> set (claimTable db1)" "clOwnerKey c = k" "clOrderIntentId c = Some (oiId (aqIntent r))"
    "clId c = aqClaimId r"
    using assms(1)
  proof (cases rule: acquire_cases)
    case duplicate
    then show thesis using assms(2) by simp
  next
    case (fresh security i db1' c t ev)
    then show thesis by (intro that[of c]) (auto simp: insertClaim_Inr newEntryClaim_def appendEvent_def)
  qed
  have "claimInv db1" using acquire_safe[OF assms(3,4,1)] by (simp add: safeStep_def)
  then have "safeStep db1 ?db2" using assms(5) by (intro claims.run_holds safeStep_refl)
  then obtain c' where c': "c' \<in> set (claimTable ?db2)" "claimIdentity c' = claimIdentity c" and inv: "claimInv ?db2"
    using c(1) by (auto simp: safeStep_def develops_def)
  then have id: "clOwnerKey c' = k" "clOrderIntentId c' = Some (oiId (aqIntent r))" "clId c' = aqClaimId r"
    using c by (simp_all add: claimIdentity_def)
  have "findClaim (\<lambda>d. clOwnerKey d = k) ?db2 = Some c'"
    using inv c'(1) id by (intro findClaim_unique) (auto simp: claimsClash_def)
  moreover have "claimIntentRow ?db2 c' = Some i" using assms(6) id by (simp add: claimIntentRow_def)
  moreover obtain s where "List.find (\<lambda>x. secSymbol x = toUpperCase (trim rawSymbol')) (securityTable ?db2) = Some s"
    using assms(7) by (cases "List.find (\<lambda>x. secSymbol x = toUpperCase (trim rawSymbol')) (securityTable ?db2)")
      (auto simp: find_None_iff)
  ultimately show ?thesis by (simp add: acquireEntryExposureClaim_def Let_def id(3))
qed

lemma acquisition_repeats_witness:
  "acquireEntryExposureClaim (insertIntent (sampleIntent\<lparr>oiId := 2\<rparr>)) 7 ''SPY'' ''entry:7:a'' 9
     (fold claimStep [TransitionOp 1 ''ENTRY_SUBMITTING'' ''WORKER_CLAIMED'' None 6 acquiredClaims] acquiredClaims) =
   Inr (\<lparr>aqIntent = sampleIntent, aqDuplicate = True, aqClaimId = 1\<rparr>,
     fold claimStep [TransitionOp 1 ''ENTRY_SUBMITTING'' ''WORKER_CLAIMED'' None 6 acquiredClaims] acquiredClaims)"
proof -
  let ?ops = "[TransitionOp 1 ''ENTRY_SUBMITTING'' ''WORKER_CLAIMED'' None 6 acquiredClaims]"
  have keep: "securityTable (fold claimStep ?ops acquiredClaims) = securityTable acquiredClaims \<and>
      orderIntentTable (fold claimStep ?ops acquiredClaims) = orderIntentTable acquiredClaims"
    by (auto simp: commit_def transitionEntryExposureClaim_def Let_def bindR_def updateClaims_def appendEvent_def
        split: sum.splits option.splits if_splits prod.splits)
  have "intentById 1 (fold claimStep ?ops acquiredClaims) = Some sampleIntent"
    unfolding intentById_def keep[THEN conjunct2] by (simp add: sampleIntent_def)
  moreover have "\<exists>s\<in>set (securityTable (fold claimStep ?ops acquiredClaims)). secSymbol s = toUpperCase (trim ''SPY'')"
    unfolding keep[THEN conjunct1] by (simp add: sampleClaims_def spy_symbol)
  ultimately show ?thesis
    using acquisition_repeats[OF acquired_sample, of ?ops sampleIntent "''SPY''"]
    by (simp add: sampleIntent_def del: fold.simps)
qed

subsection \<open>Release and attachment\<close>

lemma deliveryEvents_distinct: "claimInv db \<Longrightarrow> distinct (map ceId (deliveryEventsOf db i))"
  by (simp add: deliveryEventsOf_def claimInv_def distinct_map inj_on_def)

lemma count_none: "\<not> 0 < int (length (filter P xs)) \<longleftrightarrow> (\<forall>x\<in>set xs. \<not> P x)"
  by (auto simp: filter_empty_conv)

lemma noBrokerEvidence:
  "\<not> list_ex (\<lambda>(_, n). 0 < n) (releaseEvidenceCounts db i) \<longleftrightarrow>
   (\<forall>b\<in>set (brokerOrderTable db). boOrderIntentId b \<noteq> i) \<and> (\<forall>a\<in>set (brokerActivityTable db). baOrderIntentId a \<noteq> Some i) \<and>
   (\<forall>(j, t)\<in>set (opportunityEventTable db). j = i \<longrightarrow> t \<notin> {''ADAPTER_DISPATCH_REACHED'', ''BROKER_RESPONSE_CONFIRMED'',
      ''BROKER_REJECTED'', ''DELIVERY_UNCERTAIN'', ''RECOVERY_FOUND''}) \<and>
   (\<forall>d\<in>set (dispatchConsumptionTable db). dcOrderIntentId d \<noteq> i) \<and>
    (\<forall>d\<in>set (unenforcedDispatchTable db). udOrderIntentId d \<noteq> i) \<and>
   (\<forall>t\<in>set (armingTerminationTable db). \<not> (atOrderIntentId t = Some i \<and> atType t = ''CONSUMED''))"
  unfolding releaseEvidenceCounts_def list_ex_Cons_iff list_ex_Nil_iff prod.case de_Morgan_disj count_none
  by auto

text \<open>An update that can hit only one claim, and hits it.\<close>

lemma claimById_appendEvent [simp]: "claimById i (appendEvent j t ev now db) = claimById i db"
  by (simp add: claimById_def findClaim_def appendEvent_def)

lemma claimTable_appendEvent [simp]: "claimTable (appendEvent j t ev now db) = claimTable db"
  by (simp add: appendEvent_def)

lemma claimsOk_distinct: "claimsOk cs \<Longrightarrow> distinct cs"
  by (induction cs) (auto simp: list_ex_iff claimsClash_self)

lemma updateClaims_one:
  assumes inv: "claimInv db" and act: "active \<in> set (claimTable db)" "P active"
    and up: "updateClaims P f db = Inr (n, db1)" and P: "\<And>c. P c \<Longrightarrow> clId c = clId active"
    and f: "\<And>c. clId (f c) = clId c"
  shows "n = 1" "claimById (clId active) db1 = Some (f active)"
    "claimTable db1 = map (\<lambda>c. if c = active then f c else c) (claimTable db)"
proof -
  have ok: "claimsOk (claimTable db)" using inv by (simp add: claimInv_def)
  have only: "P c \<longleftrightarrow> c = active" if "c \<in> set (claimTable db)" for c
    using that act P claimsOk_id[OF ok that act(1)] by blast
  have tab: "claimTable db1 = map (\<lambda>c. if P c then f c else c) (claimTable db)"
    and n: "n = int (length (filter P (claimTable db)))" and ok1: "claimsOk (claimTable db1)"
    using up by (auto simp: updateClaims_Inr)
  have "set (filter P (claimTable db)) = {active}" using only act by auto
  moreover have "distinct (filter P (claimTable db))" using ok by (simp add: claimsOk_distinct)
  ultimately show "n = 1" using n distinct_card by fastforce
  show tab': "claimTable db1 = map (\<lambda>c. if c = active then f c else c) (claimTable db)"
    unfolding tab using only by auto
  have "f active \<in> set (claimTable db1)" using act by (auto simp: tab')
  moreover obtain d where d: "findClaim (\<lambda>c. clId c = clId active) db1 = Some d"
    using calculation findClaim_None[of "\<lambda>c. clId c = clId active" db1] f by fastforce
  ultimately have "d = f active"
    using findClaim_SomeD[OF d] claimsOk_id[OF ok1] f by metis
  then show "claimById (clId active) db1 = Some (f active)" using d by (simp add: claimById_def)
qed

lemma release_evidence:
  assumes "claimInv db" and "releaseUnsubmittedEntryExposureClaim i reason now db = Inr (r, db')"
    and "claimTable db' \<noteq> claimTable db"
  shows "\<exists>claim\<in>set (claimTable db). clOrderIntentId claim = Some i \<and> clReleasedAt claim = None \<and>
    clStatus claim \<in> {''ENTRY_PENDING'', ''ENTRY_SUBMITTING'', ''ADMISSION_BLOCKED''} \<and>
    (\<forall>b\<in>set (brokerOrderTable db). boOrderIntentId b \<noteq> i) \<and> (\<forall>a\<in>set (brokerActivityTable db). baOrderIntentId a \<noteq> Some i) \<and>
    (\<forall>(j, t)\<in>set (opportunityEventTable db). j = i \<longrightarrow> t \<notin> {''ADAPTER_DISPATCH_REACHED'', ''BROKER_RESPONSE_CONFIRMED'',
       ''BROKER_REJECTED'', ''DELIVERY_UNCERTAIN'', ''RECOVERY_FOUND''}) \<and>
    (\<forall>d\<in>set (dispatchConsumptionTable db). dcOrderIntentId d \<noteq> i) \<and>
    (\<forall>d\<in>set (unenforcedDispatchTable db). udOrderIntentId d \<noteq> i) \<and>
    (\<forall>t\<in>set (armingTerminationTable db). \<not> (atOrderIntentId t = Some i \<and> atType t = ''CONSUMED'')) \<and>
    (\<forall>p. claimPosition db claim = Some p \<longrightarrow> tpStatus p = ''closed'') \<and>
    attemptsClosedUnsent (deliveryEventsOf db (clId claim)) \<and>
    (clStatus claim \<in> {''ENTRY_PENDING'', ''ADMISSION_BLOCKED''} \<and>
       \<not> (\<exists>e\<in>set (deliveryEventsOf db (clId claim)). isMarker e) \<or>
     (\<exists>e\<in>set (deliveryEventsOf db (clId claim)). ceEventType e = NOT_SENT_EVIDENCE_EVENT)) \<and>
    claimTable db' = map (\<lambda>c. if c = claim
      then c\<lparr>clStatus := ''RELEASED'', clReleasedAt := Some now, clReleaseReason := Some reason\<rparr> else c) (claimTable db) \<and>
    releasedByThisCall r reason"
  using assms(2)
proof (cases rule: release_cases)
  case unchanged
  then show ?thesis using assms(3) by simp
next
  case (released claim n db1 ev)
  have rel: "claimOfIntent i db = Some claim" "clReleasedAt claim = None"
    "clStatus claim \<in> {''ENTRY_PENDING'', ''ENTRY_SUBMITTING'', ''ADMISSION_BLOCKED''}" "\<not> releaseRefused db i claim"
    using released(1) unfolding releasable_def by simp_all
  then have act: "claim \<in> set (claimTable db)" "clOrderIntentId claim = Some i"
    using findClaim_SomeD unfolding claimOfIntent_def by blast+
  have one: "n = 1" "claimById (clId claim) db1 = Some (claim\<lparr>clStatus := ''RELEASED'', clReleasedAt := Some now, clReleaseReason := Some reason\<rparr>)"
    "claimTable db1 = map (\<lambda>c. if c = claim then c\<lparr>clStatus := ''RELEASED'', clReleasedAt := Some now, clReleaseReason := Some reason\<rparr> else c) (claimTable db)"
    by (rule updateClaims_one[OF assms(1) act(1) _ released(2)]; simp add: rel(2))+
  have pos: "\<forall>p. claimPosition db claim = Some p \<longrightarrow> tpStatus p = ''closed''"
    using rel(4) by (auto simp: releaseRefused_def)
  have counts: "\<not> list_ex (\<lambda>(_, n). 0 < n) (releaseEvidenceCounts db i)"
    and proven: "reProven (neverSubmittedEvidence db claim)"
    using rel(4) unfolding releaseRefused_def by blast+
  have tab: "claimTable db' = claimTable db1" "releasedByThisCall r reason"
    using released(3,4) one by (simp_all add: releasedByThisCall_def)
  have "claimTable db' = map (\<lambda>c. if c = claim
      then c\<lparr>clStatus := ''RELEASED'', clReleasedAt := Some now, clReleaseReason := Some reason\<rparr> else c) (claimTable db)"
    by (simp only: tab(1) one(3))
  then show ?thesis
    using counts[unfolded noBrokerEvidence] act(2) rel(2,3) pos tab(2)
      proven[unfolded neverSubmittedEvidence_def release_rule[OF deliveryEvents_distinct[OF assms(1)]]]
    by (intro bexI[OF _ act(1)]) (elim conjE, intro conjI; assumption)
qed

text \<open>C9: a claim is released as unsubmitted only on evidence that nothing was sent. When such a
  release changes the claims, it is the claim of that intent, unreleased and in one of the
  three statuses before the broker boundary, without any broker order, broker activity,
  broker dispatch event, dispatch consumption or live arming consumption of the intent, with
  no position that is not closed; every adapter invocation on it is closed by a local
  non-send record, and it either never left the pre-broker statuses without an invocation
  or carries a not-sent record. Only this claim changes, and the caller sees its release.
\<close>
theorem unsubmitted_release_has_evidence:
  assumes "claimInv db" and "releaseUnsubmittedEntryExposureClaim i reason now db = Inr (r, db')"
    and "claimTable db' \<noteq> claimTable db"
  shows "\<exists>claim\<in>set (claimTable db). clOrderIntentId claim = Some i \<and> clReleasedAt claim = None \<and>
    clStatus claim \<in> {''ENTRY_PENDING'', ''ENTRY_SUBMITTING'', ''ADMISSION_BLOCKED''} \<and>
    (\<forall>b\<in>set (brokerOrderTable db). boOrderIntentId b \<noteq> i) \<and> (\<forall>a\<in>set (brokerActivityTable db). baOrderIntentId a \<noteq> Some i) \<and>
    (\<forall>(j, t)\<in>set (opportunityEventTable db). j = i \<longrightarrow> t \<notin> {''ADAPTER_DISPATCH_REACHED'', ''BROKER_RESPONSE_CONFIRMED'',
       ''BROKER_REJECTED'', ''DELIVERY_UNCERTAIN'', ''RECOVERY_FOUND''}) \<and>
    (\<forall>d\<in>set (dispatchConsumptionTable db). dcOrderIntentId d \<noteq> i) \<and>
    (\<forall>d\<in>set (unenforcedDispatchTable db). udOrderIntentId d \<noteq> i) \<and>
    (\<forall>t\<in>set (armingTerminationTable db). \<not> (atOrderIntentId t = Some i \<and> atType t = ''CONSUMED'')) \<and>
    (\<forall>p. claimPosition db claim = Some p \<longrightarrow> tpStatus p = ''closed'') \<and>
    attemptsClosedUnsent (deliveryEventsOf db (clId claim)) \<and>
    (clStatus claim \<in> {''ENTRY_PENDING'', ''ADMISSION_BLOCKED''} \<and>
       \<not> (\<exists>e\<in>set (deliveryEventsOf db (clId claim)). isMarker e) \<or>
     (\<exists>e\<in>set (deliveryEventsOf db (clId claim)). ceEventType e = NOT_SENT_EVIDENCE_EVENT)) \<and>
    claimTable db' = map (\<lambda>c. if c = claim
      then c\<lparr>clStatus := ''RELEASED'', clReleasedAt := Some now, clReleaseReason := Some reason\<rparr> else c) (claimTable db) \<and>
    releasedByThisCall r reason"
  using assms by (rule release_evidence)

lemma open_invocation_keeps_claim:
  assumes "claimInv db" and "claimOfIntent i db = Some claim" and "m \<in> set (claimEventTable db)"
    and "ceClaimId m = clId claim" and "ceEventType m = ADAPTER_INVOCATION_STARTED_EVENT"
    and "\<forall>e\<in>set (claimEventTable db). ceClaimId e = clId claim \<and> isRecord e \<longrightarrow> ceId e < ceId m"
  shows "claimTable (claimStep (ReleaseOp i reason now) db) = claimTable db"
proof (rule ccontr)
  assume "claimTable (claimStep (ReleaseOp i reason now) db) \<noteq> claimTable db"
  then obtain r db' where "releaseUnsubmittedEntryExposureClaim i reason now db = Inr (r, db')"
      "claimTable db' \<noteq> claimTable db"
    by (auto simp: commit_def split: sum.splits prod.splits)
  then obtain c where c: "c \<in> set (claimTable db)" "clOrderIntentId c = Some i"
    and closed: "attemptsClosedUnsent (deliveryEventsOf db (clId c))"
    using release_evidence[OF assms(1)] by blast
  have "claim \<in> set (claimTable db)" "clOrderIntentId claim = Some i"
    using assms(2) findClaim_SomeD unfolding claimOfIntent_def by blast+
  then have "c = claim"
    using c assms(1) by (auto simp: claimInv_def claimsClash_def intro: claimsOk_unique)
  have marker: "m \<in> set (deliveryEventsOf db (clId claim))" "isMarker m"
    using assms(3-5) by (simp_all add: deliveryEventsOf_def isMarker_def DELIVERY_EVIDENCE_EVENT_TYPES_def)
  then obtain e where "e \<in> set (deliveryEventsOf db (clId claim))" "isRecord e" "ceId m < ceId e"
    using closed \<open>c = claim\<close> unfolding attemptsClosedUnsent_def by blast
  then show False using assms(6) by (force simp: deliveryEventsOf_def)
qed

text \<open>A crash between the adapter marker and any record of its outcome keeps the claim. While
  the newest adapter invocation of the claim of an intent has no later outcome or not-sent
  record, releasing it as unsubmitted changes no claim, whatever else is recorded.
\<close>
lemma open_invocation_blocks_release:
  assumes "claimInv db" and "claimOfIntent i db = Some claim" and "m \<in> set (claimEventTable db)"
    and "ceClaimId m = clId claim" and "ceEventType m = ADAPTER_INVOCATION_STARTED_EVENT"
    and "\<forall>e\<in>set (claimEventTable db). ceClaimId e = clId claim \<and> isRecord e \<longrightarrow> ceId e < ceId m"
  shows "claimTable (claimStep (ReleaseOp i reason now) db) = claimTable db"
  using assms by (rule open_invocation_keeps_claim)

lemma open_invocation_blocks_release_witness:
  "claimTable (claimStep (ReleaseOp 1 ''stale'' 50) (claimStep (AdapterMarkerOp 1 1 ''c-1'' 30) acquiredClaims)) =
   claimTable (claimStep (AdapterMarkerOp 1 1 ''c-1'' 30) acquiredClaims)"
proof (rule open_invocation_blocks_release[where claim = "(newEntryClaim 7 11 1 ''entry:7:a'')\<lparr>clId := 1\<rparr>"])
  let ?e = "\<lparr>ceId = nextClaimEventId acquiredClaims, ceClaimId = 1, ceEventType = ADAPTER_INVOCATION_STARTED_EVENT,
    ceEvidenceJson = adapterInvocationEvidence 1 ''c-1'', ceCreatedAt = 30\<rparr>"
  let ?db = "claimStep (AdapterMarkerOp 1 1 ''c-1'' 30) acquiredClaims"
  have db: "?db = appendEvent 1 ADAPTER_INVOCATION_STARTED_EVENT (adapterInvocationEvidence 1 ''c-1'') 30 acquiredClaims"
    by (simp add: recordAdapterInvocationStarted_def createEvent_def claimById_def findClaim_def commit_def)
  show "claimInv ?db" unfolding db using appendEvent_safe acquiredClaims_inv by (simp add: safeStep_def)
  show "claimOfIntent 1 ?db = Some ((newEntryClaim 7 11 1 ''entry:7:a'')\<lparr>clId := 1\<rparr>)"
    unfolding db by (simp add: claimOfIntent_def findClaim_def newEntryClaim_def)
  show "?e \<in> set (claimEventTable ?db)" unfolding db by (simp add: appendEvent_def)
  show "\<forall>e\<in>set (claimEventTable ?db). ceClaimId e = clId ((newEntryClaim 7 11 1 ''entry:7:a'')\<lparr>clId := 1\<rparr>) \<and> isRecord e \<longrightarrow>
      ceId e < ceId ?e"
    unfolding db
    by (simp add: appendEvent_def acquiredClaims_def acquire_eval isRecord_def event_names)
qed simp_all

lemma sample_release:
  "\<exists>r db'. releaseUnsubmittedEntryExposureClaim 1 ''risk'' 20 acquiredClaims = Inr (r, db') \<and>
     claimTable db' \<noteq> claimTable acquiredClaims"
proof -
  have ev: "claimEventTable acquiredClaims = [\<lparr>ceId = 1, ceClaimId = 1, ceEventType = ''ACQUIRED'',
      ceEvidenceJson = JObj [(''orderIntentId'', jInt 1), (''symbol'', JStr ''SPY'')], ceCreatedAt = 5\<rparr>]"
    by (simp add: acquiredClaims_def acquire_eval appendEvent_def sampleIntent_def)
  have none: "deliveryEventsOf acquiredClaims 1 = []"
    by (simp add: deliveryEventsOf_def ev DELIVERY_EVIDENCE_EVENT_TYPES_def event_names)
  have tables: "releaseEvidenceCounts acquiredClaims 1 = releaseEvidenceCounts sampleClaims 1"
    by (simp add: releaseEvidenceCounts_def acquiredClaims_def acquire_eval appendEvent_def)
  let ?c = "(newEntryClaim 7 11 1 ''entry:7:a'')\<lparr>clId := 1\<rparr>"
  have "reProven (neverSubmittedEvidence acquiredClaims ?c)"
    unfolding neverSubmittedEvidence_def
    by (subst release_rule)
      (simp_all add: none attemptsClosedUnsent_def newEntryClaim_def claimIntentRow_def intentById_def
        sampleIntent_def blockReasonCarriesDeliveryUncertainty_def blockReasonDeliveryClassification_def
        unknownOutcomeReason_def)
  then have "\<not> releaseRefused acquiredClaims 1 ?c"
    by (simp add: releaseRefused_def tables claimPosition_def newEntryClaim_def)
      (simp add: releaseEvidenceCounts_def sampleClaims_def)
  then show ?thesis
    by (simp add: releaseUnsubmittedEntryExposureClaim_def Let_def claimOfIntent_def findClaim_def bindR_def updateClaims_def
        newEntryClaim_def claimRowOk_def isEntryExposureClaimStatus_def CLAIM_STATUSES_def)
qed

theorem unsubmitted_release_has_evidence_witness:
  "\<exists>r db'. releaseUnsubmittedEntryExposureClaim 1 ''risk'' 20 acquiredClaims = Inr (r, db') \<and> releasedByThisCall r ''risk''"
  using sample_release unsubmitted_release_has_evidence[OF acquiredClaims_inv] by metis

text \<open>What attaching a broker position does to the claim of its security. Without an
  unreleased claim it creates one for the position that is UNRESOLVED. Otherwise the
  unreleased claim becomes POSITION_OPEN for the position - from any of the other statuses,
  also from those from which the transition table has no step to POSITION_OPEN - except
  when another intent was expected, the claim is UNRESOLVED, or it tracks another position:
  then it ends UNRESOLVED and keeps what it tracks. It is never released.
\<close>
lemma attachment_binds_or_blocks:
  assumes "claimInv db" and "attachEntryExposureClaimToPosition a s p symb e now db = Inr (r, db')"
  shows "\<exists>c. r = Some c \<and> clReleasedAt c = None \<and>
    (case findClaim (activeClaimWhere a s) db of
       None \<Rightarrow> clStatus c = ''UNRESOLVED'' \<and> clTrackedPositionId c = Some p \<and> clOrderIntentId c = None
     | Some active \<Rightarrow> claimIdentity c = claimIdentity active \<and>
         (if e \<noteq> None \<and> clOrderIntentId active \<noteq> e \<or> clStatus active = ''UNRESOLVED'' \<or>
             clTrackedPositionId active \<notin> {None, Some p}
          then clStatus c = ''UNRESOLVED'' \<and> clTrackedPositionId c = clTrackedPositionId active
          else clStatus c = ''POSITION_OPEN'' \<and> clTrackedPositionId c = Some p))"
proof (cases "findClaim (activeClaimWhere a s) db")
  case None
  then show ?thesis using assms(2)
    by (auto simp: attachEntryExposureClaimToPosition_def bindR_Inr_iff insertClaim_Inr positionClaim_def)
next
  case (Some active)
  then have act: "active \<in> set (claimTable db)" "clReleasedAt active = None"
    by (auto dest: findClaim_SomeD simp: activeClaimWhere_def)
  have one: "n = 1 \<and> claimById (clId active) db1 = Some (f active)"
    if "updateClaims P f db = Inr (n, db1)" "P active" "\<And>c. P c \<Longrightarrow> clId c = clId active" "\<And>c. clId (f c) = clId c"
    for P f n db1
    using updateClaims_one[OF assms(1) act(1) that(2,1,3,4)] by blast
  have byId: "claimById (clId active) db = Some active"
    using assms(1) act(1) unfolding claimById_def by (intro findClaim_unique) (auto simp: claimsClash_def)
  note defs = attachEntryExposureClaimToPosition_def Let_def bindR_Inr_iff Some act(2) claimIdentity_def
  show ?thesis
  proof (cases "e \<noteq> None \<and> clOrderIntentId active \<noteq> e")
    case True
    then show ?thesis using assms(2)
      by (auto simp: defs markClaimUnresolved_def byId dest!: one split: option.splits if_splits)
  next
    case own: False
    show ?thesis
    proof (cases "clStatus active = ''UNRESOLVED''")
      case True
      then show ?thesis using assms(2) own
        by (auto simp: defs dest!: one split: if_splits)
    next
      case st: False
      let ?P = "\<lambda>c. clId c = clId active \<and> clStatus c = clStatus active \<and>
        clTrackedPositionId c = clTrackedPositionId active \<and> clReleasedAt c = None"
      let ?f = "\<lambda>c. c\<lparr>clTrackedPositionId := Some p, clStatus := ''POSITION_OPEN''\<rparr>"
      consider (same) "clTrackedPositionId active = Some p" "clStatus active = ''POSITION_OPEN''"
        | (other) q where "clTrackedPositionId active = Some q" "q \<noteq> p"
        | (attached) n db1 where "clTrackedPositionId active \<in> {None, Some p}" "updateClaims ?P ?f db = Inr (n, db1)"
            "r = claimById (clId active) db1"
        using assms(2) own st by (cases "clTrackedPositionId active") (auto simp: defs split: if_splits)
      then show ?thesis
      proof cases
        case same
        then show ?thesis using assms(2) own st by (auto simp: defs)
      next
        case other
        then show ?thesis using assms(2) own st by (auto simp: defs dest!: one)
      next
        case attached
        then have "r = Some (?f active)" using one[OF attached(2)] act(2) by simp
        then show ?thesis using attached(1) own st act(2) by (auto simp: Some claimIdentity_def)
      qed
    qed
  qed
qed

lemma attachment_binds_or_blocks_witness:
  "\<exists>c db'. attachEntryExposureClaimToPosition 7 11 31 ''SPY'' None 40 acquiredClaims = Inr (Some c, db') \<and>
     clStatus c = ''POSITION_OPEN'' \<and> \<not> canTransitionEntryExposureClaim ''ENTRY_PENDING'' ''POSITION_OPEN''"
proof -
  have no: "\<not> canTransitionEntryExposureClaim ''ENTRY_PENDING'' ''POSITION_OPEN''" by code_simp
  obtain r db' where r: "attachEntryExposureClaimToPosition 7 11 31 ''SPY'' None 40 acquiredClaims = Inr (r, db')"
    by (simp add: attachEntryExposureClaimToPosition_def Let_def findClaim_def activeClaimWhere_def newEntryClaim_def
        updateClaims_def bindR_def claimRowOk_def isEntryExposureClaimStatus_def CLAIM_STATUSES_def)
  show ?thesis
    using attachment_binds_or_blocks[OF acquiredClaims_inv r] r no
    by (auto simp: findClaim_def activeClaimWhere_def newEntryClaim_def)
qed

text \<open>C36: a transition is a compare-and-set along the transition table. However stale the claim it
  read, a transition that succeeds leaves all claims unchanged, or moves only the row with
  the identifier it read, from exactly the status it read, while it is unreleased, along a
  step of the table; and it never makes a claim RELEASED.
\<close>
theorem transitions_follow_table:
  assumes "claimInv db" and "transitionEntryExposureClaim i st t ev now observed db = Inr (r, db')"
  shows "(claimTable db' = claimTable db \<or>
      (\<exists>claim\<in>set (claimTable observed). clOrderIntentId claim = Some i \<and>
         canTransitionEntryExposureClaim (clStatus claim) st \<and> clStatus claim \<noteq> st \<and>
         claimTable db' = map (\<lambda>c. if clId c = clId claim \<and> clStatus c = clStatus claim \<and> clReleasedAt c = None
                                  then c\<lparr>clStatus := st\<rparr> else c) (claimTable db))) \<and>
    (\<forall>c\<in>set (claimTable db'). clStatus c = ''RELEASED'' \<longrightarrow> c \<in> set (claimTable db))"
proof -
  obtain claim where c: "requireEntryExposureClaim i True observed = Inr claim"
    using assms(2) by (auto simp: transitionEntryExposureClaim_def bindR_Inr_iff)
  then have obs: "claim \<in> set (claimTable observed)" "clOrderIntentId claim = Some i"
    using findClaim_SomeD unfolding requireClaim_Inr claimOfIntent_def by blast+
  let ?P = "\<lambda>d. clId d = clId claim \<and> clStatus d = clStatus claim \<and> clReleasedAt d = None"
  have "safeStep db db'" using transition_safe[OF assms] .
  then have ok: "claimRowOk d" if "d \<in> set (claimTable db')" for d
    using that claimsOk_row unfolding safeStep_def claimInv_def by blast
  consider (same) "claimTable db' = claimTable db"
    | (moved) n db1 where "canTransitionEntryExposureClaim (clStatus claim) st" "clStatus claim \<noteq> st"
        "updateClaims ?P (\<lambda>d. d\<lparr>clStatus := st\<rparr>) db = Inr (n, db1)" "claimTable db' = claimTable db1"
    using assms(2) c
    by (cases "clStatus claim = st") (auto simp: transitionEntryExposureClaim_def Let_def bindR_Inr_iff
        split: option.splits if_splits)
  then show ?thesis
  proof cases
    case same
    then show ?thesis by simp
  next
    case moved
    then have tab: "claimTable db' = map (\<lambda>d. if ?P d then d\<lparr>clStatus := st\<rparr> else d) (claimTable db)"
      by (auto simp: updateClaims_Inr)
    have "d \<in> set (claimTable db)" if d: "d \<in> set (claimTable db')" "clStatus d = ''RELEASED''" for d
    proof -
      have "clReleasedAt d \<noteq> None" using ok[OF d(1)] d(2) by (auto simp: claimRowOk_def)
      then show ?thesis using d(1) unfolding tab by (auto split: if_splits)
    qed
    then show ?thesis using moved(1,2) obs tab by blast
  qed
qed

theorem transitions_follow_table_witness:
  "\<exists>r db'. transitionEntryExposureClaim 1 ''ENTRY_SUBMITTING'' ''WORKER_CLAIMED'' None 6 acquiredClaims acquiredClaims =
     Inr (r, db') \<and> (\<forall>c\<in>set (claimTable db'). clStatus c = ''RELEASED'' \<longrightarrow> c \<in> set (claimTable acquiredClaims))"
proof -
  have yes: "canTransitionEntryExposureClaim ''ENTRY_PENDING'' ''ENTRY_SUBMITTING''" by code_simp
  have "\<exists>r db'. transitionEntryExposureClaim 1 ''ENTRY_SUBMITTING'' ''WORKER_CLAIMED'' None 6 acquiredClaims acquiredClaims =
      Inr (r, db')"
    by (simp add: transitionEntryExposureClaim_def requireEntryExposureClaim_def Let_def claimOfIntent_def findClaim_def
        newEntryClaim_def updateClaims_def bindR_def claimRowOk_def isEntryExposureClaimStatus_def CLAIM_STATUSES_def yes)
  then show ?thesis using transitions_follow_table[OF acquiredClaims_inv] by blast
qed

text \<open>The requirement at the broker boundary is exact. An entry may cross it if and only if its
  intent has an unreleased claim in ENTRY_SUBMITTING of the same account and of the security
  of the symbol, and the intent row is a submitting buy of the same account, symbol and
  client order id, whose account trades in PAPER or LIVE.
\<close>
lemma boundary_requirement_exact:
  "requireExecutableEntryExposureClaim i account symb coid db = Inr (claim, intent) \<longleftrightarrow>
   claimOfIntent i db = Some claim \<and> clReleasedAt claim = None \<and> clStatus claim = ''ENTRY_SUBMITTING'' \<and>
   clTradingAccountId claim = account \<and>
   (\<exists>s. List.find (\<lambda>s. secSymbol s = toUpperCase (trim symb)) (securityTable db) = Some s \<and> clSecurityId claim = secId s) \<and>
   intentById i db = Some intent \<and> oiTradingAccountId intent = Some account \<and>
   toUpperCase (trim (oiSymbol intent)) = toUpperCase (trim symb) \<and>
   toLowerCase (trim (oiSide intent)) = ''buy'' \<and> oiClientOrderId intent = Some coid \<and>
   oiStatus intent = ''submitting'' \<and> environmentOf db intent \<in> {Some ''PAPER'', Some ''LIVE''}"
proof (cases "requireEntryExposureClaim i False db")
  case (Inl e)
  then have "\<not> (claimOfIntent i db = Some claim \<and> clReleasedAt claim = None \<and> clStatus claim = ''ENTRY_SUBMITTING'')"
    using requireClaim_Inr[of i False db claim] by auto
  then show ?thesis using Inl by (auto simp: requireExecutableEntryExposureClaim_def bindR_def)
next
  case (Inr c)
  then have c: "claimOfIntent i db = Some c" "clReleasedAt c = None" by (simp_all add: requireClaim_Inr)
  let ?s = "List.find (\<lambda>s. secSymbol s = toUpperCase (trim symb)) (securityTable db)"
  have "requireExecutableEntryExposureClaim i account symb coid db = Inr (claim, intent) \<longleftrightarrow>
      \<not> list_ex snd (boundaryMismatches db c (intentById i db) account symb coid) \<and> c = claim \<and>
      the (intentById i db) = intent"
    by (simp add: requireExecutableEntryExposureClaim_def bindR_def Inr Let_def)
  then show ?thesis
    by (cases "intentById i db"; cases ?s) (use c(2) in \<open>auto simp: boundaryMismatches_def c(1)\<close>)
qed

end
