(* ===== verification/BoundarySafety.thy ===== *)
theory BoundarySafety
  imports BrokerBoundary ClaimSafety
begin

text \<open>
  What holds of one run of \<open>submitOrderToBroker\<close>, whatever other transactions, failing database
  calls and the death of the process do in between: what its phase says of the broker, what
  was checked before the order was sent, and what stays recorded afterwards.
\<close>

subsection \<open>Steps that send nothing\<close>

lemma dbStep_frame:
  assumes "dbStep env k f s = (r, s')"
  shows "bsPosts s' = bsPosts s \<and> bsPhase s' = bsPhase s"
  using assms by (auto simp: dbStep_def Let_def split: option.splits fault.splits)

lemma dbStep_Inr:
  assumes "dbStep env k f s = (Inr x, s')"
  shows "f (beOthers env k (bsDb s)) = (Inr x, bsDb s')"
  using assms by (auto simp: dbStep_def Let_def prod_eq_iff split: option.splits fault.splits)

lemma observe_frame:
  assumes "observe env k opportunity intent t s = (r, s')"
  shows "bsPosts s' = bsPosts s \<and> bsPhase s' = bsPhase s \<and> (r = Inr () \<or> r = Inl ProcessDied)"
  using assms by (auto simp: observe_def liveStep_def split: if_splits)

lemma adapterCall_run:
  assumes "adapterCall env opportunity p s = (r, s')"
  shows "bsPosts s' = bsPosts s @ [p] \<and> bsPhase s' = bsPhase s \<and>
    ((\<exists>e. bePost env p = Inl e \<and> (r = Inl e \<or> r = Inl ProcessDied)) \<or> bePost env p = r)"
  using assms
  by (auto simp: adapterCall_def post_def throwA_def split: if_splits sum.splits elim!: bindA_cases dest!: observe_frame)

lemma authorizeEntry_frame:
  assumes "authorizeEntry env input account intent claim s = (r, s')"
  shows "bsPosts s' = bsPosts s \<and> bsPhase s' = bsPhase s"
  using assms by (auto simp: authorizeEntry_def returnA_def elim!: bindA_cases dest!: dbStep_frame)

text \<open>The ways a dispatch can end.\<close>

lemma sendEntry_run:
  assumes "sendEntry env input account intent opportunity s = (r, s')"
  shows "r = Inl ProcessDied \<and> bsPosts s' = bsPosts s \<and> bsPhase s' = DISPATCH_STARTED \<or>
    bsPosts s' = bsPosts s @ [entryPost input account intent] \<and>
    ((\<exists>e. bePost env (entryPost input account intent) = Inl e \<and> (r = Inl e \<or> r = Inl ProcessDied) \<and>
        bsPhase s' = DISPATCH_STARTED) \<or>
     (\<exists>order. bePost env (entryPost input account intent) = Inr order \<and>
        (r = Inr (False, order) \<or> r = Inl ProcessDied) \<and> bsPhase s' = BROKER_RESPONDED))"
  using assms unfolding sendEntry_def
  by (auto simp: setPhase_def returnA_def elim!: bindA_cases dest!: adapterCall_run observe_frame)

lemma authorizeEntry_Inr:
  assumes "authorizeEntry env input account intent claim s = (Inr opportunity, s')"
  obtains db3 auth db4 db5 db6 where
    "bePrepare env \<lparr>drOrderIntentId = intent, drTradingAccountId = account, drSymbol = poSymbol input,
        drClientOrderId = bsiClientOrderId input\<rparr> (beOthers env 3 (bsDb s)) = (Inr auth, db3)"
    "beCapture env intent (beOthers env 4 db3) = (opportunity, db4)"
    "auth opportunity (beOthers env 5 db4) = (Inr (), db5)"
    "recordAdapterInvocationStarted (clId claim) intent (bsiClientOrderId input) (beNow env 6) (beOthers env 6 db5) = Inr ((), db6)"
    "bsDb s' = db6"
  using assms unfolding authorizeEntry_def
  by (auto simp: returnA_def transaction_def elim!: bindA_cases dest!: dbStep_Inr split: prod.splits sum.splits)

text \<open>A submission without its monadic plumbing.\<close>

lemma submitOrderToBroker_eq:
  "submitOrderToBroker env input account intent s =
     (let s0 = s\<lparr>bsPhase := UNCLASSIFIED\<rparr> in
      if bsiClientOrderId input = [] then
        (Inl (Failure (HttpError 500 ''Cannot submit broker order without a stable clientOrderId.'' JNull)), s0)
      else if \<not> (poSide input = ''buy'' \<and> nullish (poSignalType input) ''entry'' = ''entry'') then
        (Inl (Failure (HttpError 400 ''The entry broker boundary accepts BUY entry orders only.'' JNull)), s0)
      else case dbStep env 0 (reading (requireExecutableEntryExposureClaim intent account (poSymbol input) (bsiClientOrderId input))) s0 of
        (Inl e, s1) \<Rightarrow> (Inl e, s1)
      | (Inr (claim, i), s1) \<Rightarrow>
        (case beLookup env account (bsiClientOrderId input) of
           Inl e \<Rightarrow> (Inl e, s1)
         | Inr (Some order) \<Rightarrow>
             (case assertExistingEntryOrderIdentity order (bsiClientOrderId input) (poSymbol input) of
                Some e \<Rightarrow> (Inl e, s1\<lparr>bsPhase := EXISTING_ORDER_FOUND\<rparr>)
              | None \<Rightarrow>
                (case observe env 1 None (Some intent) ''BROKER_ORDER_MATERIALIZED'' (s1\<lparr>bsPhase := EXISTING_ORDER_FOUND\<rparr>) of
                   (Inl e, s2) \<Rightarrow> (Inl e, s2)
                 | (Inr _, s2) \<Rightarrow> (Inr (True, order), s2)))
         | Inr None \<Rightarrow>
             (case dbStep env 2 (reading (assertNoLocalEntryDispatchEvidence intent)) s1 of
                (Inl e, s2) \<Rightarrow> (Inl e, s2)
              | (Inr _, s2) \<Rightarrow>
                (case authorizeEntry env input account intent claim (s2\<lparr>bsPhase := NOT_DISPATCHED\<rparr>) of
                   (Inl e, s3) \<Rightarrow> (Inl e, s3)
                 | (Inr opportunity, s3) \<Rightarrow> sendEntry env input account intent opportunity s3))))"
  by (auto simp: submitOrderToBroker_def bindA_def setPhase_def unlessA_def returnA_def throwA_def Let_def
    split: prod.splits sum.splits option.splits)

lemma reading_Inr: "reading f db = (Inr x, db') \<longleftrightarrow> f db = Inr x \<and> db' = db"
  by (auto simp: reading_def split: sum.splits)

text \<open>The ways a submission can end; every order that is sent passed all checks before.\<close>

lemma absent_run:
  assumes run: "(case dbStep env 2 (reading (assertNoLocalEntryDispatchEvidence intent)) s1 of
        (Inl e, s2) \<Rightarrow> (Inl e, s2)
      | (Inr _, s2) \<Rightarrow>
        (case authorizeEntry env input account intent claim (s2\<lparr>bsPhase := NOT_DISPATCHED\<rparr>) of
           (Inl e, s3) \<Rightarrow> (Inl e, s3)
         | (Inr opportunity, s3) \<Rightarrow> sendEntry env input account intent opportunity s3)) = (r, s')"
    and s1: "bsPhase s1 = UNCLASSIFIED"
  obtains
    (refused) e where "r = Inl e" "bsPosts s' = bsPosts s1" "bsPhase s' \<in> {UNCLASSIFIED, NOT_DISPATCHED}"
  | (sending) opportunity s2 s3 where
      "assertNoLocalEntryDispatchEvidence intent (beOthers env 2 (bsDb s1)) = Inr ()" "bsDb s2 = beOthers env 2 (bsDb s1)"
      "authorizeEntry env input account intent claim s2 = (Inr opportunity, s3)"
      "bsPosts s3 = bsPosts s1" "sendEntry env input account intent opportunity s3 = (r, s')"
proof -
  obtain r2 s2 where two: "dbStep env 2 (reading (assertNoLocalEntryDispatchEvidence intent)) s1 = (r2, s2)" by fastforce
  obtain r3 s3 where three: "authorizeEntry env input account intent claim (s2\<lparr>bsPhase := NOT_DISPATCHED\<rparr>) = (r3, s3)"
    by fastforce
  note frames = dbStep_frame[OF two] authorizeEntry_frame[OF three]
  show ?thesis
  proof (cases "(\<exists>e. r2 = Inl e) \<or> (\<exists>e. r3 = Inl e)")
    case True
    then show ?thesis using run s1 two three frames refused by (cases r2) auto
  next
    case False
    then obtain u opportunity where ok: "r2 = Inr u" "r3 = Inr opportunity" by (cases r2; cases r3) auto
    have "assertNoLocalEntryDispatchEvidence intent (beOthers env 2 (bsDb s1)) = Inr () \<and> bsDb s2 = beOthers env 2 (bsDb s1)"
      using dbStep_Inr[OF two[unfolded ok]] by (auto simp: reading_Inr)
    then show ?thesis
      using run two three frames ok by (intro sending[of "s2\<lparr>bsPhase := NOT_DISPATCHED\<rparr>" opportunity s3]) auto
  qed
qed

lemma boundary_run:
  assumes "submitOrderToBroker env input account intent s = (r, s')"
  obtains
    (refused) e where "r = Inl e" "bsPosts s' = bsPosts s" "bsPhase s' \<in> {UNCLASSIFIED, NOT_DISPATCHED, EXISTING_ORDER_FOUND}"
  | (found) order where "r = Inr (True, order)" "bsPosts s' = bsPosts s" "bsPhase s' = EXISTING_ORDER_FOUND"
      "beLookup env account (bsiClientOrderId input) = Inr (Some order)"
      "assertExistingEntryOrderIdentity order (bsiClientOrderId input) (poSymbol input) = None"
  | (sending) claim i opportunity s2 s3 where
      "requireExecutableEntryExposureClaim intent account (poSymbol input) (bsiClientOrderId input) (beOthers env 0 (bsDb s)) = Inr (claim, i)"
      "beLookup env account (bsiClientOrderId input) = Inr None"
      "assertNoLocalEntryDispatchEvidence intent (beOthers env 2 (beOthers env 0 (bsDb s))) = Inr ()"
      "bsDb s2 = beOthers env 2 (beOthers env 0 (bsDb s))"
      "authorizeEntry env input account intent claim s2 = (Inr opportunity, s3)"
      "bsPosts s3 = bsPosts s" "sendEntry env input account intent opportunity s3 = (r, s')"
proof -
  let ?read = "dbStep env 0 (reading (requireExecutableEntryExposureClaim intent account (poSymbol input) (bsiClientOrderId input)))
    (s\<lparr>bsPhase := UNCLASSIFIED\<rparr>)"
  let ?lookup = "beLookup env account (bsiClientOrderId input)"
  note run = assms[unfolded submitOrderToBroker_eq Let_def]
  obtain r1 s1 where one: "?read = (r1, s1)" by fastforce
  have s1: "bsPosts s1 = bsPosts s" "bsPhase s1 = UNCLASSIFIED" using dbStep_frame[OF one] by auto
  show ?thesis
  proof (cases "bsiClientOrderId input = [] \<or> \<not> (poSide input = ''buy'' \<and> nullish (poSignalType input) ''entry'' = ''entry'') \<or>
      (\<exists>e. r1 = Inl e) \<or> (\<exists>e. ?lookup = Inl e)")
    case True
    then show ?thesis using run one s1 refused by (cases r1) (auto split: if_splits)
  next
    case False
    then obtain claim i where ex: "r1 = Inr (claim, i)" by (cases r1) auto
    have exec: "requireExecutableEntryExposureClaim intent account (poSymbol input) (bsiClientOrderId input)
        (beOthers env 0 (bsDb s)) = Inr (claim, i)" "bsDb s1 = beOthers env 0 (bsDb s)"
      using dbStep_Inr[OF one[unfolded ex]] by (auto simp: reading_Inr)
    show ?thesis
    proof (cases ?lookup)
      case (Inr found')
      show ?thesis
      proof (cases found')
        case None
        then have "(case dbStep env 2 (reading (assertNoLocalEntryDispatchEvidence intent)) s1 of
            (Inl e, s2) \<Rightarrow> (Inl e, s2)
          | (Inr _, s2) \<Rightarrow>
            (case authorizeEntry env input account intent claim (s2\<lparr>bsPhase := NOT_DISPATCHED\<rparr>) of
               (Inl e, s3) \<Rightarrow> (Inl e, s3)
             | (Inr opportunity, s3) \<Rightarrow> sendEntry env input account intent opportunity s3)) = (r, s')"
          using run False one ex Inr by simp
        then show ?thesis
        proof (rule absent_run[OF _ s1(2)])
          show ?thesis if "r = Inl e" "bsPosts s' = bsPosts s1" "bsPhase s' \<in> {UNCLASSIFIED, NOT_DISPATCHED}" for e
            using that refused s1 by auto
        qed (use sending exec s1 Inr None in auto)
      next
        case (Some order)
        then show ?thesis using run False one ex Inr s1 refused found
          by (auto split: option.splits prod.splits sum.splits dest!: observe_frame)
      qed
    qed (use False in blast)
  qed
qed

text \<open>C12: the phase of a submission tells what the broker was sent. However the run ends (a result, any error, or
  the death of the process), an order was sent at most once; none was sent when the phase is unclassified, not
  dispatched or existing order found; once the broker responded it was sent exactly once; a result of an
  existing order belongs to its phase and carries the client order id, the symbol and the side of the entry.
\<close>
theorem submission_phase_tells_delivery:
  assumes "submitOrderToBroker env input account intent s = (r, s')"
  shows "bsPosts s' \<in> {bsPosts s, bsPosts s @ [entryPost input account intent]} \<and>
    (bsPhase s' \<in> {UNCLASSIFIED, NOT_DISPATCHED, EXISTING_ORDER_FOUND} \<longrightarrow> bsPosts s' = bsPosts s) \<and>
    (bsPhase s' = DISPATCH_STARTED \<longrightarrow> (\<exists>e. r = Inl e)) \<and>
    (bsPhase s' = BROKER_RESPONDED \<longrightarrow> bsPosts s' = bsPosts s @ [entryPost input account intent]) \<and>
    (\<forall>order. r = Inr (False, order) \<longrightarrow>
      bsPhase s' = BROKER_RESPONDED \<and> bePost env (entryPost input account intent) = Inr order) \<and>
    (\<forall>order. r = Inr (True, order) \<longrightarrow>
      bsPhase s' = EXISTING_ORDER_FOUND \<and> beLookup env account (bsiClientOrderId input) = Inr (Some order) \<and>
      assertExistingEntryOrderIdentity order (bsiClientOrderId input) (poSymbol input) = None)"
  using assms
proof (cases rule: boundary_run)
  case (sending claim i opportunity s2 s3)
  then show ?thesis using sendEntry_run[OF sending(7)] by auto
qed auto

text \<open>C17: an order is sent only after every check. When a run sent an order, the entry was executable on its claim
  (a submitting intent with its matching, submitting claim), the lookup by the stable client order id found no
  order, no local record of an earlier dispatch existed, the guard authorized the dispatch, and after all of them
  the marker of the adapter invocation was committed; each in the database as it was at that moment.
\<close>
theorem sent_only_after_checks:
  assumes "submitOrderToBroker env input account intent s = (r, s')" and "bsPosts s' \<noteq> bsPosts s"
  shows "\<exists>claim i auth db3 opportunity db4 db5 db6.
    requireExecutableEntryExposureClaim intent account (poSymbol input) (bsiClientOrderId input)
      (beOthers env 0 (bsDb s)) = Inr (claim, i) \<and>
    beLookup env account (bsiClientOrderId input) = Inr None \<and>
    list_all (\<lambda>(_, n). n = 0) (localDispatchEvidence (beOthers env 2 (beOthers env 0 (bsDb s))) intent) \<and>
    bePrepare env \<lparr>drOrderIntentId = intent, drTradingAccountId = account, drSymbol = poSymbol input,
        drClientOrderId = bsiClientOrderId input\<rparr> (beOthers env 3 (beOthers env 2 (beOthers env 0 (bsDb s)))) = (Inr auth, db3) \<and>
    beCapture env intent (beOthers env 4 db3) = (opportunity, db4) \<and>
    auth opportunity (beOthers env 5 db4) = (Inr (), db5) \<and>
    recordAdapterInvocationStarted (clId claim) intent (bsiClientOrderId input) (beNow env 6) (beOthers env 6 db5) = Inr ((), db6)"
  using assms(1)
proof (cases rule: boundary_run)
  case (sending claim i opportunity s2 s3)
  have "list_all (\<lambda>(_, n). n = 0) (localDispatchEvidence (beOthers env 2 (beOthers env 0 (bsDb s))) intent)"
    using sending(3) by (auto simp: assertNoLocalEntryDispatchEvidence_def Let_def list_ex_iff list_all_iff split: if_splits)
  with sending show ?thesis
    by (elim authorizeEntry_Inr) (intro exI conjI; (assumption | simp only:))
qed (use assms(2) in auto)

subsection \<open>What stays recorded\<close>

text \<open>
  Other transactions, the guard and the observers leave the claim tables as the operations on
  claims do: well-formed, with events only appended and identities kept.
\<close>

definition safeAction :: "'a dbAction \<Rightarrow> bool" where
  "safeAction f \<longleftrightarrow> (\<forall>db. claimInv db \<longrightarrow> safeStep db (snd (f db)))"

definition safeEnv :: "boundaryEnv \<Rightarrow> bool" where
  "safeEnv env \<longleftrightarrow>
     (\<forall>k db. claimInv db \<longrightarrow> safeStep db (beOthers env k db)) \<and>
     (\<forall>o' i t db. claimInv db \<longrightarrow> safeStep db (beObserve env o' i t db)) \<and>
     (\<forall>i db. claimInv db \<longrightarrow> safeStep db (snd (beCapture env i db))) \<and>
     (\<forall>req. safeAction (bePrepare env req) \<and>
        (\<forall>db auth. fst (bePrepare env req db) = Inr auth \<longrightarrow> (\<forall>o'. safeAction (auth o'))))"

lemma safeEnv_others: "safeEnv env \<Longrightarrow> safeStep db0 db \<Longrightarrow> safeStep db0 (beOthers env k db)"
  unfolding safeEnv_def using safeStep_trans safeStep_inv by metis

lemma observe_safe:
  assumes "safeEnv env" "observe env k opportunity i t s = (r, s')" "safeStep db0 (bsDb s)"
  shows "safeStep db0 (bsDb s')"
proof -
  have "bsDb s' = beObserve env opportunity i t (beOthers env k (bsDb s))"
    using assms(2) by (auto simp: observe_def liveStep_def split: if_splits)
  moreover have "safeStep db0 (beOthers env k (bsDb s))" using assms by (intro safeEnv_others)
  ultimately show ?thesis using assms(1) unfolding safeEnv_def by (metis safeStep_trans safeStep_inv)
qed

lemma sendEntry_safe:
  assumes "safeEnv env" and "sendEntry env input account intent opportunity s = (r, s')" and "safeStep db0 (bsDb s)"
  shows "safeStep db0 (bsDb s')"
  using assms(2,3) unfolding sendEntry_def adapterCall_def post_def
  by (auto simp: setPhase_def returnA_def throwA_def split: sum.splits if_splits
    elim!: bindA_cases dest!: observe_safe[OF assms(1)])

lemma safeAction_step: "safeAction f \<Longrightarrow> safeStep a db \<Longrightarrow> f db = (r, db') \<Longrightarrow> safeStep a db'"
  unfolding safeAction_def using safeStep_trans safeStep_inv snd_conv by metis

lemma fresh_event: "safeStep a b \<Longrightarrow> \<forall>e\<in>set (claimEventTable a). ceId e \<noteq> nextClaimEventId b"
proof
  fix e assume "safeStep a b" and e: "e \<in> set (claimEventTable a)"
  then have "e \<in> set (claimEventTable b)" "claimInv b" by (auto simp: safeStep_def develops_def)
  then have "ceId e < nextClaimEventId b" by (simp add: claimInv_def)
  then show "ceId e \<noteq> nextClaimEventId b" by simp
qed

text \<open>The marker that is committed before the adapter runs, with the claim it belongs to.\<close>

lemma authorizeEntry_marker:
  assumes env: "safeEnv env" and inv: "claimInv (bsDb s)"
    and run: "authorizeEntry env input account intent claim s = (Inr opportunity, s')"
  shows "safeStep (bsDb s) (bsDb s') \<and> (\<exists>m. m \<in> set (claimEventTable (bsDb s')) \<and> m \<notin> set (claimEventTable (bsDb s)) \<and>
    ceClaimId m = clId claim \<and> ceEventType m = ADAPTER_INVOCATION_STARTED_EVENT)"
  using run
proof (rule authorizeEntry_Inr)
  fix db3 auth db4 db5 db6
  assume prep: "bePrepare env \<lparr>drOrderIntentId = intent, drTradingAccountId = account, drSymbol = poSymbol input,
        drClientOrderId = bsiClientOrderId input\<rparr> (beOthers env 3 (bsDb s)) = (Inr auth, db3)"
    and cap: "beCapture env intent (beOthers env 4 db3) = (opportunity, db4)"
    and au: "auth opportunity (beOthers env 5 db4) = (Inr (), db5)"
    and mark: "recordAdapterInvocationStarted (clId claim) intent (bsiClientOrderId input) (beNow env 6) (beOthers env 6 db5) = Inr ((), db6)"
    and db: "bsDb s' = db6"
  have safe: "safeAction (bePrepare env req)" "safeAction (\<lambda>d. case beCapture env i d of (o', d') \<Rightarrow> (Inr o', d'))"
    "fst (bePrepare env req d) = Inr f \<Longrightarrow> safeAction (f o')" for req i d f o'
    using env by (simp_all add: safeEnv_def safeAction_def split_beta)
  have "safeStep (bsDb s) (beOthers env 3 (bsDb s))" using env safeStep_refl[OF inv] by (rule safeEnv_others)
  then have "safeStep (bsDb s) (beOthers env 4 db3)"
    using safeAction_step[OF safe(1) _ prep] safeEnv_others[OF env] by blast
  then have "safeStep (bsDb s) db4"
    by (rule safeAction_step[OF safe(2)[of intent], where r = "Inr opportunity"]) (simp add: cap)
  then have "safeStep (bsDb s) (beOthers env 5 db4)" by (rule safeEnv_others[OF env])
  moreover have "safeAction (auth opportunity)" using safe(3) prep by (metis fst_conv)
  ultimately have "safeStep (bsDb s) db5"
    using safeAction_step[of "auth opportunity" "bsDb s" "beOthers env 5 db4" "Inr ()" db5] au by blast
  then have six: "safeStep (bsDb s) (beOthers env 6 db5)" by (rule safeEnv_others[OF env])
  have db6: "db6 = appendEvent (clId claim) ADAPTER_INVOCATION_STARTED_EVENT
      (adapterInvocationEvidence intent (bsiClientOrderId input)) (beNow env 6) (beOthers env 6 db5)"
    using mark by (auto simp: recordAdapterInvocationStarted_def createEvent_def split: if_splits)
  have "safeStep (bsDb s) db6"
    unfolding db6 using six appendEvent_safe[OF safeStep_inv[OF six]] by (rule safeStep_trans)
  moreover have "\<forall>e\<in>set (claimEventTable (bsDb s)). ceId e \<noteq> nextClaimEventId (beOthers env 6 db5)"
    using fresh_event[OF six] by blast
  ultimately show ?thesis
    unfolding db by (auto simp: db6 appendEvent_def dest!: bspec intro!: exI[of _ "\<lparr>ceId = nextClaimEventId (beOthers env 6 db5), ceClaimId = clId claim,
      ceEventType = ADAPTER_INVOCATION_STARTED_EVENT, ceEvidenceJson = adapterInvocationEvidence intent (bsiClientOrderId input),
      ceCreatedAt = beNow env 6\<rparr>"])
qed

lemma sent_marker:
  assumes env: "safeEnv env" and inv: "claimInv (bsDb s)"
    and run: "submitOrderToBroker env input account intent s = (r, s')" and sent: "bsPosts s' \<noteq> bsPosts s"
  shows "safeStep (bsDb s) (bsDb s') \<and> (\<exists>claim m. claim \<in> set (claimTable (bsDb s')) \<and> clOrderIntentId claim = Some intent \<and>
    m \<in> set (claimEventTable (bsDb s')) \<and> m \<notin> set (claimEventTable (bsDb s)) \<and>
    ceClaimId m = clId claim \<and> ceEventType m = ADAPTER_INVOCATION_STARTED_EVENT)"
  using run
proof (cases rule: boundary_run)
  case (sending claim i opportunity s2 s3)
  let ?db0 = "beOthers env 0 (bsDb s)"
  have db0: "safeStep (bsDb s) ?db0" using env safeStep_refl[OF inv] by (rule safeEnv_others)
  have two: "safeStep ?db0 (bsDb s2)"
    unfolding sending(4) using env safeStep_refl[OF safeStep_inv[OF db0]] by (rule safeEnv_others)
  obtain m where three: "safeStep (bsDb s2) (bsDb s3)" and m: "m \<in> set (claimEventTable (bsDb s3))"
      "m \<notin> set (claimEventTable (bsDb s2))" "ceClaimId m = clId claim" "ceEventType m = ADAPTER_INVOCATION_STARTED_EVENT"
    using authorizeEntry_marker[OF env safeStep_inv[OF two] sending(5)] by blast
  have last: "safeStep (bsDb s3) (bsDb s')"
    using sendEntry_safe[OF env sending(7)] safeStep_refl[OF safeStep_inv[OF three]] by blast
  have "claim \<in> set (claimTable ?db0)" "clOrderIntentId claim = Some intent"
    using sending(1) findClaim_SomeD
    by (auto simp: requireExecutableEntryExposureClaim_def requireEntryExposureClaim_def claimOfIntent_def Let_def bindR_Inr_iff
      split: option.splits if_splits)
  moreover have "safeStep ?db0 (bsDb s')" using two three last safeStep_trans by blast
  ultimately obtain c where "c \<in> set (claimTable (bsDb s'))" "clOrderIntentId c = Some intent" "clId c = clId claim"
    by (auto simp: safeStep_def develops_def claimIdentity_def)
  moreover have "m \<in> set (claimEventTable (bsDb s'))" "m \<notin> set (claimEventTable (bsDb s))"
    using m(1,2) last safeStep_trans[OF db0 two] by (auto simp: safeStep_def develops_def)
  ultimately show ?thesis
    using m(3,4) safeStep_trans[OF safeStep_trans[OF db0 two] safeStep_trans[OF three last]] by metis
qed (use sent in auto)

lemma claimOfIntent_unique:
  assumes "claimInv db" "c \<in> set (claimTable db)" "clOrderIntentId c = Some i"
  shows "claimOfIntent i db = Some c"
proof (cases "claimOfIntent i db")
  case None
  then show ?thesis using assms by (auto simp: claimOfIntent_def findClaim_None)
next
  case (Some d)
  then have "d \<in> set (claimTable db)" "clOrderIntentId d = Some i"
    using findClaim_SomeD unfolding claimOfIntent_def by blast+
  then have "d = c" using assms by (auto simp: claimInv_def claimsClash_def intro: claimsOk_unique)
  then show ?thesis using Some by simp
qed

lemma sent_marker_later:
  assumes "safeEnv env" and "claimInv (bsDb s)"
    and "submitOrderToBroker env input account intent s = (r, s')" and "bsPosts s' \<noteq> bsPosts s"
    and "list_all claimOpPermitted ops"
  shows "\<exists>claim m. claimInv (fold claimStep ops (bsDb s')) \<and> claimOfIntent intent (fold claimStep ops (bsDb s')) = Some claim \<and>
    m \<in> set (claimEventTable (fold claimStep ops (bsDb s'))) \<and> m \<notin> set (claimEventTable (bsDb s)) \<and>
    ceClaimId m = clId claim \<and> ceEventType m = ADAPTER_INVOCATION_STARTED_EVENT"
proof -
  let ?db = "fold claimStep ops (bsDb s')"
  obtain c m where run: "safeStep (bsDb s) (bsDb s')" and c: "c \<in> set (claimTable (bsDb s'))" "clOrderIntentId c = Some intent"
    and m: "m \<in> set (claimEventTable (bsDb s'))" "m \<notin> set (claimEventTable (bsDb s))" "ceClaimId m = clId c"
      "ceEventType m = ADAPTER_INVOCATION_STARTED_EVENT"
    using sent_marker[OF assms(1-4)] by blast
  have later: "safeStep (bsDb s') ?db"
    using claims.run_holds[OF safeStep_refl[OF safeStep_inv[OF run]] assms(5)] .
  then obtain d where d: "d \<in> set (claimTable ?db)" "clId d = clId c" "clOrderIntentId d = Some intent"
    using c by (auto simp: safeStep_def develops_def claimIdentity_def)
  have inv: "claimInv ?db" using later by (rule safeStep_inv)
  have m': "m \<in> set (claimEventTable ?db)" "ceClaimId m = clId d"
    using m(1,3) later d(2) by (auto simp: safeStep_def develops_def)
  show ?thesis
    using inv claimOfIntent_unique[OF inv d(1,3)] m' m(2,4) by (intro exI[of _ d] exI[of _ m]) blast
qed

subsection \<open>A run that dies after its order was sent\<close>

definition boundaryClaims :: claimStore where
  "boundaryClaims = sampleClaims\<lparr>
     orderIntentTable := [sampleIntent\<lparr>oiStatus := ''submitting'', oiClientOrderId := Some ''c-1''\<rparr>],
     claimTable := [(newEntryClaim 7 11 1 ''entry:7:a'')\<lparr>clId := 1, clStatus := ''ENTRY_SUBMITTING''\<rparr>],
     nextClaimId := 2\<rparr>"

definition spyEntry :: brokerSubmissionInput where
  "spyEntry =
     \<lparr>poSymbol = ''SPY'', poSide = ''buy'', poQty = Some (Fin 3), poNotional = None, poLimitPrice = None,
      poSignalType = Some ''entry'', poSubscriptionKey = None, poSubscriptionId = Some 2,
      poTradingAccountSubscriptionId = Some 3, bsiOrderType = ''market'', bsiTimeInForce = ''day'',
      bsiExtendedHours = False, bsiClientOrderId = ''c-1''\<rparr>"

definition spyOrder :: alpacaOrder where
  "spyOrder = \<lparr>aoId = ''b-1'', aoClientOrderId = ''c-1'', aoSymbol = Some ''SPY'', aoSide = Some ''buy'', aoStatus = ''new'',
     aoQty = Some ''3'', aoFilledQty = Some ''0'', aoReplacedBy = None\<rparr>"

definition dyingEnv :: boundaryEnv where
  "dyingEnv =
     \<lparr>beOthers = (\<lambda>k db. db), beFault = (\<lambda>k. None), beDies = (\<lambda>k. k = 8 \<or> k = 9), beNow = (\<lambda>k. int k),
      beLookup = (\<lambda>a c. Inr None), bePrepare = (\<lambda>req db. (Inr (\<lambda>o' d. (Inr (), d)), db)),
      beCapture = (\<lambda>i db. (None, db)), beObserve = (\<lambda>o' i t db. db), bePost = (\<lambda>p. Inr spyOrder)\<rparr>"

definition sampleBoundary :: boundaryState where
  "sampleBoundary = \<lparr>bsDb = boundaryClaims, bsPhase = UNCLASSIFIED, bsPosts = [], bsCoordinator = reset\<rparr>"

lemma dyingEnv_safe: "safeEnv dyingEnv"
  by (auto simp: safeEnv_def safeAction_def dyingEnv_def intro: safeStep_refl)

lemma boundaryClaims_inv: "claimInv boundaryClaims"
  by (simp add: claimInv_def boundaryClaims_def sampleClaims_def newEntryClaim_def claimRowOk_def
      isEntryExposureClaimStatus_def CLAIM_STATUSES_def)

lemma spy_upper: "toUpperCase (trim ''SPY'') = ''SPY''" "toLowerCase (trim ''buy'') = ''buy''"
  by code_simp+

lemma sample_executable:
  "requireExecutableEntryExposureClaim 1 7 ''SPY'' ''c-1'' boundaryClaims =
     Inr ((newEntryClaim 7 11 1 ''entry:7:a'')\<lparr>clId := 1, clStatus := ''ENTRY_SUBMITTING''\<rparr>,
       sampleIntent\<lparr>oiStatus := ''submitting'', oiClientOrderId := Some ''c-1''\<rparr>)"
  by (simp add: requireExecutableEntryExposureClaim_def requireEntryExposureClaim_def boundaryMismatches_def environmentOf_def
      claimOfIntent_def findClaim_def intentById_def boundaryClaims_def sampleClaims_def sampleIntent_def
      newEntryClaim_def bindR_def Let_def spy_upper)

lemma sample_claim: "claimById 1 boundaryClaims =
    Some ((newEntryClaim 7 11 1 ''entry:7:a'')\<lparr>clId := 1, clStatus := ''ENTRY_SUBMITTING''\<rparr>)"
  by (simp add: claimById_def findClaim_def boundaryClaims_def newEntryClaim_def)

lemma sample_evidence: "assertNoLocalEntryDispatchEvidence 1 boundaryClaims = Inr ()"
  by (simp add: assertNoLocalEntryDispatchEvidence_def localDispatchEvidence_def boundaryClaims_def sampleClaims_def Let_def)

lemma sample_sent:
  assumes "submitOrderToBroker dyingEnv spyEntry 7 1 sampleBoundary = (r, s')"
  shows "bsPosts s' \<noteq> bsPosts sampleBoundary"
proof -
  have "bsPosts (snd (submitOrderToBroker dyingEnv spyEntry 7 1 sampleBoundary)) = [entryPost spyEntry 7 1]"
    using sample_executable sample_evidence sample_claim
    by (simp add: submitOrderToBroker_eq dbStep_def reading_def dyingEnv_def spyEntry_def sampleBoundary_def Let_def
       authorizeEntry_def sendEntry_def bindA_def setPhase_def observe_def liveStep_def adapterCall_def post_def returnA_def
       transaction_def recordAdapterInvocationStarted_def createEvent_def newEntryClaim_def nullish_def)
  then show ?thesis using assms by (simp add: sampleBoundary_def)
qed

lemma sample_run: obtains r s' where "submitOrderToBroker dyingEnv spyEntry 7 1 sampleBoundary = (r, s')"
  by fastforce

theorem submission_phase_tells_delivery_witness:
  "\<exists>r s'. submitOrderToBroker dyingEnv spyEntry 7 1 sampleBoundary = (r, s') \<and>
    bsPosts s' = [entryPost spyEntry 7 1]"
proof -
  obtain r s' where run: "submitOrderToBroker dyingEnv spyEntry 7 1 sampleBoundary = (r, s')" by (rule sample_run)
  then have "bsPosts s' = [entryPost spyEntry 7 1]"
    using submission_phase_tells_delivery[OF run] sample_sent[OF run] by (simp add: sampleBoundary_def)
  then show ?thesis using run by blast
qed

theorem sent_only_after_checks_witness:
  "\<exists>claim i. requireExecutableEntryExposureClaim 1 7 ''SPY'' ''c-1'' boundaryClaims = Inr (claim, i) \<and>
    list_all (\<lambda>(_, n). n = 0) (localDispatchEvidence boundaryClaims 1)"
proof -
  obtain r s' where run: "submitOrderToBroker dyingEnv spyEntry 7 1 sampleBoundary = (r, s')" by (rule sample_run)
  show ?thesis
    using sent_only_after_checks[OF run sample_sent[OF run]]
    by (auto simp: sampleBoundary_def dyingEnv_def spyEntry_def)
qed

end
