(* ===== verification/WorkerFacts.thy ===== *)
theory WorkerFacts
  imports StaleRecovery BoundarySafety
begin

text \<open>
  The facts of the database that the order worker and its stale recovery keep, whatever
  other transactions, failing database calls and the death of the process do in between:
  a calculus of actions that keep a fact, the interface of such a fact, and its three instances.
\<close>

subsection \<open>Operations on claims leave the intents alone\<close>

lemma appendEvent_intents [simp]: "orderIntentTable (appendEvent i t ev now db) = orderIntentTable db"
  by (simp add: appendEvent_def)

lemma updateClaims_intents: "updateClaims P f db = Inr (n, db') \<Longrightarrow> orderIntentTable db' = orderIntentTable db"
  by (auto simp: updateClaims_Inr)

lemma createEvent_intents: "createEvent i t ev now db = Inr (u, db') \<Longrightarrow> orderIntentTable db' = orderIntentTable db"
  by (auto simp: createEvent_def split: if_splits)

lemma diagnostic_intents: "appendClaimDiagnostic i t ev now db = Inr (x, db') \<Longrightarrow> orderIntentTable db' = orderIntentTable db"
  by (auto simp: appendClaimDiagnostic_def Let_def bindR_Inr_iff dest!: updateClaims_intents split: option.splits if_splits)

lemma unresolved_intents: "markClaimUnresolved i t ev now db = Inr (x, db') \<Longrightarrow> orderIntentTable db' = orderIntentTable db"
  by (auto simp: markClaimUnresolved_def Let_def bindR_Inr_iff dest!: updateClaims_intents split: option.splits if_splits)

lemma transition_intents:
  assumes "transitionEntryExposureClaim i st t ev now observed db = Inr (x, db')"
  shows "orderIntentTable db' = orderIntentTable db"
  using assms by (cases rule: transition_cases) (auto dest: updateClaims_intents)

lemma release_intents:
  assumes "releaseUnsubmittedEntryExposureClaim i reason now db = Inr (x, db')"
  shows "orderIntentTable db' = orderIntentTable db"
  using assms by (cases rule: release_cases) (auto dest: updateClaims_intents)

lemma recordOutcome_intents:
  assumes "recordEntryDispatchOutcome args now reads db = Inr (r, db')"
  shows "orderIntentTable db' = orderIntentTable db"
proof -
  have "db' = db \<or> (\<exists>c t ev x. appendClaimDiagnostic c t ev now db = Inr (x, db')) \<or>
      (\<exists>i st t ev x. transitionEntryExposureClaim i st t ev now (reads 2) db = Inr (x, db'))"
    using assms by (auto simp: recordEntryDispatchOutcome_def Let_def bindR_Inr_iff split: option.splits if_splits)
  then show ?thesis using diagnostic_intents transition_intents by blast
qed

lemma verifiedRelease_intents:
  assumes "releaseVerifiedEntryExposureClaim args env inside db = Inr (r, db')"
  shows "orderIntentTable db' = orderIntentTable db"
proof -
  obtain a where "db' = db \<or> (\<exists>c t ev now x. appendClaimDiagnostic c t ev now db = Inr (x, db')) \<or>
      (\<exists>outcome. releaseTransaction args a (reWriteNow env) inside db = Inr (outcome, db'))"
    using verifiedRelease_run[OF assms] by blast
  moreover have "orderIntentTable db' = orderIntentTable db" if "releaseTransaction args a now inside db = Inr (outcome, db')" for now outcome
    using that
  proof (cases rule: releaseTransaction_cases)
    case (written current db1 n db2)
    have "orderIntentTable db1 = orderIntentTable db"
      using written(4) createEvent_intents by (auto simp: authorizeOperator_def split: if_splits)
    then show ?thesis using updateClaims_intents[OF written(5)] written(6) createEvent_intents by metis
  qed (auto dest: diagnostic_intents)
  ultimately show ?thesis using diagnostic_intents by blast
qed

lemma terminalRelease_intents:
  assumes "releaseConfirmedTerminalEntryClaim i status allow broker now reads inside db = Inr (r, db')"
  shows "orderIntentTable db' = orderIntentTable db"
proof -
  have tx: "orderIntentTable db' = orderIntentTable db"
    if "terminalReleaseTransaction i claim orders order filled accounted now inside db = Inr (r, db')" for claim orders order filled accounted
    using that
  proof (cases rule: terminalTransaction_cases)
    case (written current n db1)
    have "orderIntentTable db' = orderIntentTable db1"
      using written(7) by (elim disjE exE conjE) (simp, erule createEvent_intents)
    then show ?thesis using updateClaims_intents[OF written(6)] by simp
  next
    case (blocked t ev x)
    then show ?thesis by (rule diagnostic_intents)
  qed simp
  have view: "orderIntentTable db' = orderIntentTable db"
    if "releaseOnView i claim symbol normalized answer now reads inside db = Inr (r, db')" for claim symbol normalized answer
    using releaseOnView_run[OF that] by (elim disjE exE conjE) (erule diagnostic_intents unresolved_intents tx)+
  show ?thesis
    using releaseConfirmed_run[OF assms] by (elim disjE exE conjE) (simp | erule transition_intents view)+
qed

subsection \<open>What an action keeps\<close>

definition keeps :: "(claimStore \<Rightarrow> bool) \<Rightarrow> 'a action \<Rightarrow> bool" where
  "keeps P m \<longleftrightarrow> (\<forall>s r s'. P (bsDb s) \<longrightarrow> m s = (r, s') \<longrightarrow> P (bsDb s'))"

definition quiet :: "'a action \<Rightarrow> bool" where
  "quiet m \<longleftrightarrow> (\<forall>s r s'. m s = (r, s') \<longrightarrow> bsPosts s' = bsPosts s \<and> bsPhase s' = bsPhase s)"

lemma keepsD: "keeps P m \<Longrightarrow> P (bsDb s) \<Longrightarrow> m s = (r, s') \<Longrightarrow> P (bsDb s')"
  unfolding keeps_def by blast

lemma quietD: "quiet m \<Longrightarrow> m s = (r, s') \<Longrightarrow> bsPosts s' = bsPosts s \<and> bsPhase s' = bsPhase s"
  unfolding quiet_def by blast

text \<open>The composition of actions that keep a fact, and of actions that send nothing.\<close>

lemma keeps_returnA [intro!]: "keeps P (returnA x)" by (simp add: keeps_def returnA_def)
lemma keeps_throwA [intro!]: "keeps P (throwA e)" by (simp add: keeps_def throwA_def)
lemma keeps_unlessA [intro!]: "keeps P (unlessA ok e)" by (auto simp: unlessA_def)
lemma keeps_setPhase [intro!]: "keeps P (setPhase p)" by (simp add: keeps_def setPhase_def)
lemma keeps_value [intro!]: "keeps P (\<lambda>s. (v, s))" by (simp add: keeps_def)
lemma keeps_bindA [intro!]: "keeps P m \<Longrightarrow> (\<And>x. keeps P (f x)) \<Longrightarrow> keeps P (bindA m f)"
  unfolding keeps_def by (blast elim!: bindA_cases)
lemma keeps_catchA [intro!]: "keeps P m \<Longrightarrow> (\<And>e. keeps P (h e)) \<Longrightarrow> keeps P (catchA m h)"
  unfolding keeps_def by (blast elim!: catchA_cases)

lemma quiet_returnA [intro!]: "quiet (returnA x)" by (simp add: quiet_def returnA_def)
lemma quiet_throwA [intro!]: "quiet (throwA e)" by (simp add: quiet_def throwA_def)
lemma quiet_unlessA [intro!]: "quiet (unlessA ok e)" by (auto simp: unlessA_def)
lemma quiet_value [intro!]: "quiet (\<lambda>s. (v, s))" by (simp add: quiet_def)
lemma quiet_bindA [intro!]: "quiet m \<Longrightarrow> (\<And>x. quiet (f x)) \<Longrightarrow> quiet (bindA m f)"
  unfolding quiet_def by (fastforce elim!: bindA_cases)
lemma quiet_catchA [intro!]: "quiet m \<Longrightarrow> (\<And>e. quiet (h e)) \<Longrightarrow> quiet (catchA m h)"
  unfolding quiet_def by (fastforce elim!: catchA_cases)
lemma quiet_dbStep [intro!]: "quiet (dbStep env k f)"
  unfolding quiet_def using dbStep_frame by blast
lemma quiet_dbOperation [intro!]: "quiet (dbOperation env k n f)"
  by (auto simp: quiet_def dbOperation_def Let_def split: option.splits fault.splits)
lemma quiet_dbRead [intro!]: "quiet (dbRead env k f)"
  by (auto simp: dbRead_def)

lemmas quiet_defs = transitionA_def verifiedReleaseA_def verifiedReleaseAt_def recordRecoveryError_def attemptReleaseAfterRecordedOutcome_def
  routeEntryDispatchFailure_def retryableFailure_def refusedWithPriorRecord_def refusedWithoutRecord_def afterRefusal_def
  releaseUnsubmittedOrRouteToRecovery_def

lemma quiet_release [intro!]: "quiet (releaseUnsubmittedOrRouteToRecovery env k i reason source attempted message)"
  unfolding quiet_defs Let_def by (auto split: option.splits if_splits)

subsection \<open>Facts that every transaction keeps\<close>

text \<open>
  The interface of a fact about the database that the worker keeps: it implies that the claim
  tables are well-formed; it survives every safe step on the claims; and it survives updates of the
  intents that make none of them pending.
\<close>

definition leavesPending :: "orderIntentRow list \<Rightarrow> orderIntentRow list \<Rightarrow> bool" where
  "leavesPending xs ys \<longleftrightarrow>
     (\<exists>g. ys = map g xs \<and> (\<forall>x. oiId (g x) = oiId x \<and> (oiStatus (g x) = ''pending'' \<longrightarrow> oiStatus x = ''pending'')))"

lemma leavesPending_refl [simp]: "leavesPending xs xs"
  unfolding leavesPending_def by (intro exI[of _ id]) simp

definition envKeeps :: "(claimStore \<Rightarrow> bool) \<Rightarrow> boundaryEnv \<Rightarrow> bool" where
  "envKeeps P env \<longleftrightarrow>
     (\<forall>k db. P db \<longrightarrow> P (beOthers env k db)) \<and>
     (\<forall>o' i t db. P db \<longrightarrow> P (beObserve env o' i t db)) \<and>
     (\<forall>i db. P db \<longrightarrow> P (snd (beCapture env i db))) \<and>
     (\<forall>req db. P db \<longrightarrow> P (snd (bePrepare env req db))) \<and>
     (\<forall>req d f o' db. fst (bePrepare env req d) = Inr f \<longrightarrow> P db \<longrightarrow> P (snd (f o' db)))"

lemma envKeeps_others: "envKeeps P env \<Longrightarrow> P db \<Longrightarrow> P (beOthers env k db)"
  unfolding envKeeps_def by (elim conjE allE) (erule mp)

lemma envKeeps_after: "envKeeps P env \<Longrightarrow> P db \<Longrightarrow> P (dbAfter env k n db)"
  by (induction n) (auto simp: envKeeps_def)

lemma keeps_dbStep:
  assumes "envKeeps P env" and "\<And>db. P db \<Longrightarrow> P (snd (f db))"
  shows "keeps P (dbStep env k f)"
  unfolding keeps_def
proof (intro allI impI)
  fix s r s'
  assume "P (bsDb s)" and run: "dbStep env k f s = (r, s')"
  then have "P (beOthers env k (bsDb s))" using assms(1) unfolding envKeeps_def by blast
  moreover from this have "P (snd (f (beOthers env k (bsDb s))))" by (rule assms(2))
  moreover have "bsDb s' = beOthers env k (bsDb s) \<or> bsDb s' = snd (f (beOthers env k (bsDb s)))"
    using run by (auto simp: dbStep_def Let_def split: option.splits fault.splits)
  ultimately show "P (bsDb s')" by metis
qed

lemma transaction_keeps:
  assumes "P db" and "\<And>x db'. f db = Inr (x, db') \<Longrightarrow> P db'"
  shows "P (snd (transaction f db))"
proof (cases "f db")
  case (Inr y)
  then show ?thesis using assms(2) by (cases y) (simp add: transaction_def)
qed (simp add: transaction_def assms(1))

lemma keeps_transaction:
  assumes "envKeeps P env" and "\<And>db x db'. P db \<Longrightarrow> f db = Inr (x, db') \<Longrightarrow> P db'"
  shows "keeps P (dbStep env k (transaction f))"
proof (rule keeps_dbStep[OF assms(1)])
  show "P (snd (transaction f db))" if "P db" for db 
    by (rule transaction_keeps[where P = P]) (use that assms(2) in blast)+
qed

lemma keeps_dbOperation:
  assumes "envKeeps P env" and "\<And>reads db x db'. P db \<Longrightarrow> f reads db = Inr (x, db') \<Longrightarrow> P db'"
  shows "keeps P (dbOperation env k n f)"
  unfolding keeps_def
proof (intro allI impI)
  fix s r s'
  assume P: "P (bsDb s)" and run: "dbOperation env k n f s = (r, s')"
  have "P (dbAfter env k n (bsDb s))" using envKeeps_after[OF assms(1) P] .
  moreover from this have "P (snd (transaction (f (\<lambda>m. dbAfter env k m (bsDb s))) (dbAfter env k n (bsDb s))))"
    by (rule transaction_keeps) (rule assms(2)[OF \<open>P (dbAfter env k n (bsDb s))\<close>])
  moreover have "bsDb s' = dbAfter env k n (bsDb s) \<or>
      bsDb s' = snd (transaction (f (\<lambda>m. dbAfter env k m (bsDb s))) (dbAfter env k n (bsDb s)))"
    using run by (auto simp: dbOperation_def Let_def split: option.splits fault.splits)
  ultimately show "P (bsDb s')" by metis
qed

lemma keeps_reading [intro!]: "envKeeps P env \<Longrightarrow> keeps P (dbStep env k (reading f))"
  by (intro keeps_dbStep) (auto simp: reading_def split: sum.splits)

lemma keeps_dbRead [intro!]: "envKeeps P env \<Longrightarrow> keeps P (dbRead env k f)"
  unfolding dbRead_def by (intro keeps_dbStep) auto

lemma keeps_observe [intro!]: "envKeeps P env \<Longrightarrow> keeps P (observe env k opportunity i t)"
  by (auto simp: keeps_def observe_def liveStep_def envKeeps_def split: if_splits)

lemma keeps_adapterCall [intro!]:
  assumes "envKeeps P env"
  shows "keeps P (adapterCall env opportunity p)"
  unfolding keeps_def
proof (intro allI impI)
  fix s r s'
  assume P: "P (bsDb s)" and run: "adapterCall env opportunity p s = (r, s')"
  show "P (bsDb s')"
  proof (cases "\<exists>e. bePost env p = Inl e \<and> e \<noteq> ProcessDied")
    case True
    then obtain e where "bindA (observe env 8 opportunity None (failureEventType e)) (\<lambda>_. throwA e :: alpacaOrder action)
        (s\<lparr>bsPosts := bsPosts s @ [p]\<rparr>) = (r, s')" using run by (auto simp: adapterCall_def post_def)
    then show ?thesis
    proof (rule keepsD[rotated 2])
      show "keeps P (bindA (observe env 8 opportunity None (failureEventType e)) (\<lambda>_. throwA e :: alpacaOrder action))"
        using assms by auto
    qed (simp add: P)
  next
    case False
    then have "bsDb s' = bsDb s" using run by (cases "bePost env p") (auto simp: adapterCall_def post_def)
    then show ?thesis using P by simp
  qed
qed

locale workerFact =
  fixes P :: "claimStore \<Rightarrow> bool"
  assumes well_formed: "P db \<Longrightarrow> claimInv db"
    and claim_write: "P db \<Longrightarrow> safeStep db db' \<Longrightarrow> orderIntentTable db' = orderIntentTable db \<Longrightarrow> P db'"
    and intent_write: "P db \<Longrightarrow> claimPart db' = claimPart db \<Longrightarrow>
      leavesPending (orderIntentTable db) (orderIntentTable db') \<Longrightarrow> P db'"
begin

text \<open>The transactions of the worker.\<close>

lemma transition: "P db \<Longrightarrow> transitionEntryExposureClaim i st t ev now observed db = Inr (x, db') \<Longrightarrow> P db'"
  using claim_write transition_safe transition_intents well_formed by metis

lemma diagnostic: "P db \<Longrightarrow> appendClaimDiagnostic i t ev now db = Inr (x, db') \<Longrightarrow> P db'"
  using claim_write appendClaimDiagnostic_safe diagnostic_intents well_formed by metis

lemma unsubmitted: "P db \<Longrightarrow> releaseUnsubmittedEntryExposureClaim i reason now db = Inr (x, db') \<Longrightarrow> P db'"
  using claim_write release_safe release_intents well_formed by metis

lemma outcome: "P db \<Longrightarrow> recordEntryDispatchOutcome args now reads db = Inr (x, db') \<Longrightarrow> P db'"
  using claim_write recordOutcome_safe recordOutcome_intents well_formed by metis

lemma verified: "P db \<Longrightarrow> releaseVerifiedEntryExposureClaim args env inside db = Inr (x, db') \<Longrightarrow> P db'"
  using claim_write verifiedRelease_safe verifiedRelease_intents well_formed by metis

lemma terminal: "P db \<Longrightarrow> releaseConfirmedTerminalEntryClaim i st a broker now reads inside db = Inr (x, db') \<Longrightarrow> P db'"
  using claim_write releaseConfirmed_safe terminalRelease_intents well_formed by metis

lemma created: "P db \<Longrightarrow> createEvent i t ev now db = Inr (u, db') \<Longrightarrow> P db'"
  using claim_write createEvent_safe createEvent_intents well_formed by metis

lemma intents:
  assumes "P db" and "\<And>x. oiId (f x) = oiId x" and "\<And>x. Q x \<Longrightarrow> oiStatus (f x) = ''pending'' \<Longrightarrow> oiStatus x = ''pending''"
  shows "P (snd (updateIntents Q f now db))"
proof (rule intent_write[OF assms(1)])
  show "claimPart (snd (updateIntents Q f now db)) = claimPart db" by (simp add: updateIntents_def claimPart_def)
  show "leavesPending (orderIntentTable db) (orderIntentTable (snd (updateIntents Q f now db)))"
    unfolding leavesPending_def updateIntents_def using assms(2,3)
    by (intro exI[of _ "\<lambda>o'. if Q o' then (f o')\<lparr>oiUpdatedAt := now\<rparr> else o'"]) simp
qed

lemma intent:
  assumes "P db" and "updateIntent i f now db = Inr (u, db')"
    and "\<And>x. oiId (f x) = oiId x" and "\<And>x. oiStatus (f x) = ''pending'' \<Longrightarrow> oiStatus x = ''pending''"
  shows "P db'"
  using assms(2) intents[OF assms(1), of f "\<lambda>o'. oiId o' = i" now] assms(3,4) by (auto simp: updateIntent_def split: if_splits)

lemma others: "P db \<Longrightarrow> claimPart db' = claimPart db \<Longrightarrow> orderIntentTable db' = orderIntentTable db \<Longrightarrow> P db'"
  by (rule intent_write) auto

text \<open>The release and its routing.\<close>

lemma transitionA: "envKeeps P env \<Longrightarrow> keeps P (transitionA env k i st t ev)"
  unfolding transitionA_def by (rule keeps_dbOperation, assumption, erule (1) transition)

lemma diagnosticA: "envKeeps P env \<Longrightarrow> keeps P (dbStep env k (transaction (appendClaimDiagnostic i t ev now)))"
  by (rule keeps_transaction, assumption, erule (1) diagnostic)

lemma unsubmittedA: "envKeeps P env \<Longrightarrow> keeps P (dbStep env k (transaction (releaseUnsubmittedEntryExposureClaim i reason now)))"
  by (rule keeps_transaction, assumption, erule (1) unsubmitted)

lemma outcomeA: "envKeeps P env \<Longrightarrow> keeps P (dbOperation env k n (\<lambda>reads db. recordEntryDispatchOutcome args now reads db))"
  by (rule keeps_dbOperation, assumption, erule (1) outcome)

lemma verifiedAt: "envKeeps P (rtBoundary env) \<Longrightarrow> keeps P (verifiedReleaseAt env k now args)"
  unfolding verifiedReleaseAt_def by (rule keeps_dbOperation, assumption, erule (1) verified)

lemma verifiedA: "envKeeps P (rtBoundary env) \<Longrightarrow> keeps P (verifiedReleaseA env k args)"
  unfolding verifiedReleaseA_def by (rule verifiedAt)

lemma recoveryError: "envKeeps P (rtBoundary env) \<Longrightarrow> keeps P (recordRecoveryError env k i source e)"
  unfolding recordRecoveryError_def Let_def
  by (auto intro!: diagnosticA split: option.splits)

lemma attemptRelease: "envKeeps P (rtBoundary env) \<Longrightarrow> keeps P (attemptReleaseAfterRecordedOutcome env k i c source)"
  unfolding attemptReleaseAfterRecordedOutcome_def by (auto intro!: verifiedA recoveryError)

lemma routing: "envKeeps P (rtBoundary env) \<Longrightarrow> keeps P (routeEntryDispatchFailure env k args)"
  unfolding routeEntryDispatchFailure_def by (auto intro!: outcomeA attemptRelease)

lemma refused: "envKeeps P (rtBoundary env) \<Longrightarrow> keeps P (afterRefusal env k i reason source attempted message e)"
  unfolding afterRefusal_def refusedWithPriorRecord_def refusedWithoutRecord_def Let_def
  by (auto intro!: diagnosticA routing recoveryError transitionA split: option.splits)

lemma releaseUnsubmitted:
  "envKeeps P (rtBoundary env) \<Longrightarrow> keeps P (releaseUnsubmittedOrRouteToRecovery env k i reason source attempted message)"
  unfolding releaseUnsubmittedOrRouteToRecovery_def retryableFailure_def Let_def
  by (auto intro!: unsubmittedA diagnosticA refused split: option.splits)

text \<open>The boundary.\<close>

lemma authorize:
  assumes "envKeeps P env"
  shows "keeps P (authorizeEntry env input account i claim)"
  unfolding keeps_def
proof (intro allI impI)
  fix s r s'
  let ?prepare = "dbStep env 3 (bePrepare env \<lparr>drOrderIntentId = i, drTradingAccountId = account,
    drSymbol = poSymbol input, drClientOrderId = bsiClientOrderId input\<rparr>)"
  let ?rest = "\<lambda>f. bindA (dbStep env 4 (\<lambda>db. case beCapture env i db of (o', db') \<Rightarrow> (Inr o', db'))) (\<lambda>opportunity.
     bindA (dbStep env 5 (f opportunity)) (\<lambda>_.
     bindA (dbStep env 6 (transaction (recordAdapterInvocationStarted (clId claim) i (bsiClientOrderId input) (beNow env 6)))) (\<lambda>_.
     returnA opportunity)))"
  assume P: "P (bsDb s)" and run: "authorizeEntry env input account i claim s = (r, s')"
  have prep: "keeps P ?prepare" using assms by (intro keeps_dbStep) (auto simp: envKeeps_def)
  have capture: "keeps P (dbStep env 4 (\<lambda>db. case beCapture env i db of (o', db') \<Rightarrow> (Inr o', db')))"
    using assms by (intro keeps_dbStep) (auto simp: envKeeps_def split_beta)
  have marker: "keeps P (dbStep env 6 (transaction (recordAdapterInvocationStarted (clId claim) i (bsiClientOrderId input) (beNow env 6))))"
    unfolding recordAdapterInvocationStarted_def by (rule keeps_transaction[OF assms], erule (1) created)
  from run[unfolded authorizeEntry_def] show "P (bsDb s')"
  proof (cases rule: bindA_cases)
    case (error e)
    then show ?thesis using keepsD[OF prep P] by blast
  next
    case (continue f s1)
    have f: "fst (bePrepare env \<lparr>drOrderIntentId = i, drTradingAccountId = account,
        drSymbol = poSymbol input, drClientOrderId = bsiClientOrderId input\<rparr> (beOthers env 3 (bsDb s))) = Inr f"
      using dbStep_Inr[OF continue(1)] by simp
    have "keeps P (dbStep env 5 (f o'))" for o'
      using assms f unfolding envKeeps_def by (intro keeps_dbStep[OF assms]) blast
    then have rest: "keeps P (?rest f)" by (intro keeps_bindA keeps_returnA capture marker)
    have "P (bsDb s1)" by (rule keepsD[OF prep P continue(1)])
    then show ?thesis using rest continue(2) unfolding keeps_def by blast
  qed
qed

lemma boundary: "envKeeps P env \<Longrightarrow> keeps P (submitOrderToBroker env input account i)"
  unfolding submitOrderToBroker_def sendEntry_def
  by (auto intro!: authorize split: option.splits) (auto simp: keeps_def)

text \<open>The submission and its records.\<close>

lemma linked: "P db \<Longrightarrow> P (linkEntryDecisionToBrokerOrder i b account db)"
  by (erule others) (simp_all add: linkEntryDecisionToBrokerOrder_def claimPart_def)

lemma inserted: "P db \<Longrightarrow> insertBrokerOrder intent account order symbol side security now db = Inr (u, db') \<Longrightarrow> P db'"
  by (erule others) (auto simp: insertBrokerOrder_def claimPart_def split: if_splits)

lemma createdOrder: "P db \<Longrightarrow> createBrokerOrder intent account order now db = Inr (u, db') \<Longrightarrow> P db'"
  by (auto simp: createBrokerOrder_def split: option.splits elim!: inserted)

lemma submitted: "P db \<Longrightarrow> updateIntent i (\<lambda>o'. o'\<lparr>oiStatus := ''submitted''\<rparr>) now db = Inr (u, db') \<Longrightarrow> P db'"
  by (erule (1) intent) simp_all

lemma submittedWith:
  assumes "P db" and "submittedWithBrokerOrder intent account order now db = Inr (u, db')"
  shows "P db'"
proof -
  obtain db1 where "updateIntent (oiId intent) (\<lambda>o'. o'\<lparr>oiStatus := ''submitted''\<rparr>) now db = Inr ((), db1)"
    and two: "createBrokerOrder intent account order now db1 = Inr (u, db')"
    using assms(2) by (auto simp: submittedWithBrokerOrder_def bindR_Inr_iff)
  then have "P db1" using submitted[OF assms(1)] by blast
  then show ?thesis using two by (rule createdOrder)
qed

lemma linkedA: "envKeeps P env \<Longrightarrow> keeps P (dbStep env k (\<lambda>d. (Inr (), linkEntryDecisionToBrokerOrder i b account d)))"
  by (rule keeps_dbStep) (auto intro: linked)

lemma submittedA: "envKeeps P env \<Longrightarrow> keeps P (dbStep env k (transaction (updateIntent i (\<lambda>o'. o'\<lparr>oiStatus := ''submitted''\<rparr>) now)))"
  by (rule keeps_transaction, assumption, erule (1) submitted)

lemma submittedWithA: "envKeeps P env \<Longrightarrow> keeps P (dbStep env k (transaction (submittedWithBrokerOrder intent account order now)))"
  by (rule keeps_transaction, assumption, erule (1) submittedWith)

lemma terminalA: "envKeeps P (rtBoundary env) \<Longrightarrow> keeps P (terminalReleaseA env k i status)"
  unfolding terminalReleaseA_def by (rule keeps_dbOperation, assumption, erule (1) terminal)

lemma recorded: "envKeeps P (rtBoundary env) \<Longrightarrow> keeps P (recordSubmission env intent account result)"
  unfolding recordSubmission_def Let_def
  by (auto intro!: transitionA linkedA submittedA submittedWithA terminalA split: option.splits)

lemma sent: "envKeeps P (rtBoundary env) \<Longrightarrow> keeps P (sendAndRecord env intent input account)"
  unfolding sendAndRecord_def by (auto intro!: boundary recorded)

text \<open>The preparation.\<close>

lemma claimed: "envKeeps P (rtBoundary env) \<Longrightarrow> keeps P (claimIntent env intent)"
  unfolding claimIntent_def Let_def
  by (auto intro!: keeps_dbStep intents simp: claimPendingIntent_def split_beta)

lemma evaluated: "P db \<Longrightarrow> recordOrderIntentRiskEvaluation i risk now db = Inr (u, db') \<Longrightarrow> P db'"
  by (auto simp: recordOrderIntentRiskEvaluation_def Let_def split: option.splits elim!: intent)

lemma blocked:
  assumes "P db" and "blockByRisk i claim reason now db = Inr (u, db')"
  shows "P db'"
proof -
  obtain db1 where one: "updateIntent i (\<lambda>o'. o'\<lparr>oiStatus := ''blocked'', oiBlockReason := Some reason\<rparr>) now db = Inr ((), db1)"
    and two: "\<exists>t ev. createEvent (clId claim) t ev now db1 = Inr (u, db')"
    using assms(2) by (auto simp: blockByRisk_def appendNotSentEvidence_def bindR_Inr_iff)
  have "P db1" by (rule intent[OF assms(1) one]) simp_all
  then show ?thesis using two created by blast
qed

lemma evaluatedA: "envKeeps P env \<Longrightarrow> keeps P (dbStep env k (transaction (recordOrderIntentRiskEvaluation i risk now)))"
  by (rule keeps_transaction, assumption, erule (1) evaluated)

lemma blockedA: "envKeeps P env \<Longrightarrow> keeps P (dbStep env k (transaction (blockByRisk i claim reason now)))"
  by (rule keeps_transaction, assumption, erule (1) blocked)

lemma sellBlockedA: "envKeeps P env \<Longrightarrow> keeps P (dbStep env k (transaction (updateIntent i
    (\<lambda>o'. o'\<lparr>oiStatus := ''blocked'', oiBlockReason := reason\<rparr>) now)))"
  by (rule keeps_transaction, assumption, erule (1) intent) simp_all

lemma rechecked: "envKeeps P (rtBoundary env) \<Longrightarrow> keeps P (recheckRisk env intent account claim input)"
  unfolding recheckRisk_def Let_def by (auto intro!: evaluatedA blockedA releaseUnsubmitted split: riskGateResult.splits)

lemma prepared: "envKeeps P (rtBoundary env) \<Longrightarrow> keeps P (prepareSubmission env intent claim)"
  unfolding prepareSubmission_def Let_def by (auto intro!: transitionA sellBlockedA rechecked split: option.splits)

text \<open>The handler.\<close>

lemma planned:
  assumes "P db" and "writePlan intent c records p now db = Inr (u, db')"
  shows "P db'"
proof (cases "attemptPlan c records p")
  case (OutcomePlan k)
  then show ?thesis using assms outcome by (auto simp: writePlan_def bindR_Inr_iff)
next
  case (NotSentPlan k producer reason attempted)
  then have "db' = db \<or> (\<exists>i t ev. createEvent i t ev now db = Inr (u, db'))"
    using assms(2) by (auto simp: writePlan_def appendNotSentEvidence_def split: option.splits if_splits)
  then show ?thesis using assms(1) created by blast
qed

lemma failed: "P db \<Longrightarrow> persistFailure intent c records now db = Inr (plan, db') \<Longrightarrow> P db'"
proof -
  assume P: "P db" and run: "persistFailure intent c records now db = Inr (plan, db')"
  let ?p = "preDispatchProofOf intent c db"
  obtain db1 where one: "updateIntent (oiId intent)
      (\<lambda>o'. o'\<lparr>oiStatus := failedStatus intent c ?p, oiBlockReason := Some (attemptBlockReason intent c ?p)\<rparr>) now db = Inr ((), db1)"
    and two: "writePlan intent c records ?p now (markAcceptanceRun intent c ?p now db1) = Inr ((), db')"
    using run by (auto simp: persistFailure_def Let_def bindR_Inr_iff)
  have "failedStatus intent c ?p \<noteq> ''pending''" by (simp add: failedStatus_def)
  then have "P db1" by (intro intent[OF P one]) simp_all
  then have "P (markAcceptanceRun intent c ?p now db1)"
    by (rule others) (simp_all add: markAcceptanceRun_def claimPart_def split: option.splits)
  then show ?thesis using two by (rule planned)
qed

lemma failedA: "envKeeps P env \<Longrightarrow> keeps P (dbStep env k (transaction (persistFailure intent c records now)))"
  by (rule keeps_transaction, assumption, erule (1) failed)

lemma releasedBy: "envKeeps P (rtBoundary env) \<Longrightarrow> keeps P (releaseByPlan env intent c plan)"
  unfolding releaseByPlan_def by (auto intro!: releaseUnsubmitted attemptRelease split: evidencePlan.splits)

lemma handled:
  assumes "envKeeps P (rtBoundary env)"
  shows "keeps P (failing env intent started e)"
proof -
  have "keeps P (handleIn env intent c)" for c
    unfolding handleIn_def Let_def using assms by (auto intro!: failedA releasedBy split: option.splits)
  then have "keeps P (handleFailure env intent started e)" unfolding keeps_def handleFailure_def by blast
  then show ?thesis by (auto simp: failing_def)
qed

text \<open>The whole processing of an intent keeps the fact.\<close>

lemma failing_kept:
  assumes "envKeeps P (rtBoundary env)" and "P (bsDb s)" and "bindA (failing env intent started e) (\<lambda>r. returnA (b, r)) s = (r, s')"
  shows "P (bsDb s')"
proof -
  have k: "keeps P (bindA (failing env intent started e) (\<lambda>r. returnA (b, r)))" using handled[OF assms(1)] by auto
  show ?thesis by (rule keepsD[OF k assms(2,3)])
qed

lemma after_claim:
  assumes env: "envKeeps P (rtBoundary env)"
    and one: "claimIntent env intent (s0\<lparr>bsPhase := UNCLASSIFIED\<rparr>) = (Inr (claim, True), s1)"
    and P1: "P (bsDb s1)" and run: "processPendingIntent env intent s0 = (r, s')"
  shows "P (bsDb s')"
proof -
  obtain r2 s2 where two: "prepareSubmission env intent claim s1 = (r2, s2)" by fastforce
  have P2: "P (bsDb s2)" by (rule keepsD[OF prepared[OF env] P1 two])
  show ?thesis
  proof (cases "\<exists>input account. r2 = Inr (Some (input, account))")
    case False
    then show ?thesis using run one two P2 failing_kept[OF env P2]
      by (auto simp: processPendingIntent_def split: sum.splits option.splits)
  next
    case True
    then obtain input account where r2: "r2 = Inr (Some (input, account))" by blast
    obtain r3 s3 where three: "sendAndRecord env intent input account s2 = (r3, s3)" by fastforce
    have P3: "P (bsDb s3)" by (rule keepsD[OF sent[OF env] P2 three])
    show ?thesis using run one two r2 three P3 failing_kept[OF env P3] by (cases r3) (auto simp: processPendingIntent_def)
  qed
qed

lemma processed:
  assumes env: "envKeeps P (rtBoundary env)" and P: "P (bsDb s0)" and run: "processPendingIntent env intent s0 = (r, s')"
  shows "P (bsDb s')"
proof -
  obtain r1 s1 where one: "claimIntent env intent (s0\<lparr>bsPhase := UNCLASSIFIED\<rparr>) = (r1, s1)" by fastforce
  have P1: "P (bsDb s1)" by (rule keepsD[OF claimed[OF env] _ one]) (simp add: P)
  show ?thesis
  proof (cases "\<exists>claim. r1 = Inr (claim, True)")
    case False
    then show ?thesis using run one P1 failing_kept[OF env P1] by (cases r1) (auto simp: processPendingIntent_def)
  next
    case True
    then show ?thesis using after_claim[OF env _ P1 run] one by blast
  qed
qed

text \<open>The recovery of stale intents.\<close>

lemma submittingA:
  assumes "envKeeps P env" and "\<And>x. oiId (f x) = oiId x" and "\<And>x. oiStatus (f x) = ''pending'' \<Longrightarrow> oiStatus x = ''pending''"
  shows "keeps P (dbStep env k (whileSubmitting i f now))"
proof (rule keeps_dbStep[OF assms(1)])
  show "P (snd (whileSubmitting i f now db))" if "P db" for db
    using intents[OF that assms(2), of "submittingIntent i" now] assms(3) by (simp add: whileSubmitting_def split_beta)
qed

lemma linkedRowA: "envKeeps P env \<Longrightarrow> keeps P (dbStep env k (whileSubmitting i linkedRow now))"
  by (rule submittingA) (simp_all add: linkedRow_def)

lemma syncedA: "envKeeps P env \<Longrightarrow> keeps P (dbStep env k (whileSubmitting i (\<lambda>o'. o'\<lparr>oiLastSubmittedOrderSyncAt := t\<rparr>) now))"
  by (rule submittingA) simp_all

lemma reasonedA: "envKeeps P env \<Longrightarrow> keeps P (dbStep env k (whileSubmitting i (\<lambda>o'. o'\<lparr>oiBlockReason := r\<rparr>) now))"
  by (rule submittingA) simp_all

lemma materialized:
  assumes "P db" and "materializeBrokerOrder intent account order security now db = Inr (u, db')"
  shows "P db'"
proof -
  obtain db1 where one: "db1 = db \<or> (\<exists>symbol side. insertBrokerOrder intent account order symbol side security now db = Inr ((), db1))"
    and two: "db' = snd (updateIntents (submittingIntent (oiId intent)) linkedRow now db1)"
    using assms(2) by (auto simp: materializeBrokerOrder_def bindR_Inr_iff split: option.splits)
  have "P db1" using one assms(1) inserted by blast
  then show ?thesis unfolding two by (rule intents) (simp_all add: linkedRow_def)
qed

lemma acceptance: "P db \<Longrightarrow> uncertainAcceptance intent run now db = Inr (u, db') \<Longrightarrow> P db'"
  by (rule others[OF intents[of db "\<lambda>o'. o'\<lparr>oiBlockReason := Some (nullish (oiBlockReason intent)
      ''BROKER_WRITE_DELIVERY:DELIVERY_UNCERTAIN:acceptance broker lookup found no order'')\<rparr>" "submittingIntent (oiId intent)" now]])
    (auto simp: uncertainAcceptance_def Let_def claimPart_def)

lemma closedExit: "P db \<Longrightarrow> closeUnsentExit intent c now db = Inr (u, db') \<Longrightarrow> P db'"
  by (rule others[OF intents[of db "\<lambda>o'. o'\<lparr>oiStatus := (if c = ''NOT_SENT_BLOCKED'' then ''blocked'' else ''failed'')\<rparr>"
      "submittingIntent (oiId intent)" now]])
    (auto simp: closeUnsentExit_def Let_def claimPart_def split: if_splits option.splits)

lemma disposed:
  assumes "P db" and "disposeStale intent records now db = Inr (d, db')"
  shows "P db'"
proof -
  obtain db1 where one: "db1 = snd (updateIntents (submittingIntent (oiId intent)) (\<lambda>o'. o'\<lparr>oiStatus := ''failed'', oiBlockReason :=
        Some (preserveBlockReason (oiBlockReason intent) (staleReason records (staleNotSent records (oiId intent) db)))\<rparr>) now db)"
    and two: "db' = db1 \<or> (\<exists>c t ev. createEvent c t ev now db1 = Inr ((), db')) \<or>
        (\<exists>args x. recordEntryDispatchOutcome args now (\<lambda>_. db1) db1 = Inr (x, db'))"
    using assms(2) by (auto simp: disposeStale_def Let_def appendNotSentEvidence_def bindR_Inr_iff split: prod.splits option.splits if_splits) blast+
  have "P db1" unfolding one by (rule intents[OF assms(1)]) simp_all
  then show ?thesis using two created outcome by blast
qed

lemma materializedA: "envKeeps P env \<Longrightarrow> keeps P (dbStep env k (transaction (materializeBrokerOrder intent account order security now)))"
  by (rule keeps_transaction, assumption, erule (1) materialized)

lemma acceptanceA: "envKeeps P env \<Longrightarrow> keeps P (dbStep env k (transaction (uncertainAcceptance intent run now)))"
  by (rule keeps_transaction, assumption, erule (1) acceptance)

lemma closedExitA: "envKeeps P env \<Longrightarrow> keeps P (dbStep env k (transaction (closeUnsentExit intent c now)))"
  by (rule keeps_transaction, assumption, erule (1) closedExit)

lemma disposedA: "envKeeps P env \<Longrightarrow> keeps P (dbStep env k (transaction (disposeStale intent records now)))"
  by (rule keeps_transaction, assumption, erule (1) disposed)

lemma isolated: "envKeeps P env \<Longrightarrow> keeps P (isolate env i t e)"
  unfolding isolate_def systemEvent_def by auto

lemma stalePersisted: "envKeeps P (rtBoundary env) \<Longrightarrow> keeps P (linkPersisted env intent)"
  unfolding linkPersisted_def Let_def by (auto intro!: linkedRowA transitionA isolated)

lemma staleLookup: "envKeeps P (rtBoundary env) \<Longrightarrow> keeps P (lookupStale env account now intent)"
  unfolding lookupStale_def Let_def by (auto intro!: syncedA)

lemma staleFound: "envKeeps P (rtBoundary env) \<Longrightarrow> keeps P (linkFound env account intent order)"
  unfolding linkFound_def systemEvent_def Let_def by (auto intro!: materializedA transitionA)

lemma staleExit: "envKeeps P (rtBoundary env) \<Longrightarrow> keeps P (recoverExit env intent)"
  unfolding recoverExit_def deferExit_def systemEvent_def Let_def by (auto intro!: closedExitA reasonedA)

lemma staleEntry: "envKeeps P (rtBoundary env) \<Longrightarrow> keeps P (recoverEntry env intent)"
  unfolding recoverEntry_def Let_def by (auto intro!: disposedA releaseUnsubmitted split: staleDisposition.splits)

lemma staleAbsent: "envKeeps P (rtBoundary env) \<Longrightarrow> keeps P (recoverAbsent env intent)"
  unfolding recoverAbsent_def retainAcceptance_def systemEvent_def Let_def
  by (auto intro!: acceptanceA staleExit staleEntry split: option.splits)

lemma recovered: "envKeeps P (rtBoundary env) \<Longrightarrow> keeps P (recoverIsolated env account now row)"
  unfolding recoverIsolated_def recoverOne_def
  by (auto intro!: stalePersisted staleLookup staleFound staleAbsent isolated split: prod.splits option.splits)

lemma recoveredAll: "(\<And>n. envKeeps P (rtBoundary (envs n))) \<Longrightarrow> keeps P (recoverAll envs n account now rows tally)"
  by (induction rows arbitrary: n tally) (auto intro: recovered)

text \<open>The sweeps.\<close>

lemma claimsUpdated:
  assumes "P db" and "updateClaims Q f db = Inr (n, db')" and "\<And>c. claimIdentity (f c) = claimIdentity c"
    and "\<And>c. Q c \<Longrightarrow> clReleasedAt c = None"
  shows "P db'"
proof (rule claim_write[OF assms(1)])
  show "safeStep db db'" by (rule updateClaims_safe[OF well_formed[OF assms(1)] assms(2,3)]) (rule assms(4))
  show "orderIntentTable db' = orderIntentTable db" by (rule updateClaims_intents[OF assms(2)])
qed

lemma leased:
  assumes "P db" and "leaseRecoveryAttempt c now db = Inr (x, db')"
  shows "P db'"
proof -
  obtain n where "updateClaims (\<lambda>d. clId d = c \<and> clReleasedAt d = None \<and> isDue (clLastDiagnosedAt d) now)
      (\<lambda>d. d\<lparr>clLastDiagnosedAt := Some now\<rparr>) db = Inr (n, db')"
    using assms(2) by (auto simp: leaseRecoveryAttempt_def bindR_Inr_iff)
  then show ?thesis by (rule claimsUpdated[OF assms(1)]) (simp_all add: claimIdentity_def)
qed

lemma timeKept:
  assumes "P db" and "keepAttemptTime c now db = Inr (x, db')"
  shows "P db'"
proof -
  obtain n where "updateClaims (\<lambda>d. clId d = c \<and> clReleasedAt d = None \<and>
      (case clLastDiagnosedAt d of None \<Rightarrow> False | Some t \<Rightarrow> t < now)) (\<lambda>d. d\<lparr>clLastDiagnosedAt := Some now\<rparr>) db = Inr (n, db')"
    using assms(2) by (auto simp: keepAttemptTime_def bindR_Inr_iff)
  then show ?thesis by (rule claimsUpdated[OF assms(1)]) (simp_all add: claimIdentity_def)
qed

lemma notSentRecorded:
  assumes "P db" and "recordNotSentEvidence candidate b now db = Inr (x, db')"
  shows "P db'"
proof -
  have "db' = db \<or> (\<exists>c t ev. createEvent c t ev now db = Inr ((), db'))"
    using assms(2) by (auto simp: recordNotSentEvidence_def appendNotSentEvidence_def bindR_Inr_iff split: option.splits if_splits)
  then show ?thesis using assms(1) created by blast
qed

lemma abandoned: "P db \<Longrightarrow> P (snd (failAbandoned i cutoff now db))"
  unfolding failAbandoned_def by (rule intents) simp_all

lemma judged:
  assumes "P db" and "judgeAdmission account c i cutoff now db = Inr (x, db')"
  shows "P db'"
proof -
  have "db' = db \<or> (\<exists>t ev y. appendClaimDiagnostic c t ev now db = Inr (y, db')) \<or>
    db' = snd (failAbandoned i cutoff now db) \<or> (\<exists>t ev. createEvent c t ev now (snd (failAbandoned i cutoff now db)) = Inr ((), db'))"
    using assms(2)
    by (auto simp: judgeAdmission_def appendNotSentEvidence_def Let_def bindR_Inr_iff split_beta split: option.splits if_splits)
  then show ?thesis using assms(1) diagnostic abandoned[OF assms(1)] created by blast
qed

lemma leasedA: "envKeeps P env \<Longrightarrow> keeps P (dbStep env k (transaction (leaseRecoveryAttempt c now)))"
  by (rule keeps_transaction, assumption, erule (1) leased)

lemma timeKeptA: "envKeeps P env \<Longrightarrow> keeps P (dbStep env k (transaction (keepAttemptTime c now)))"
  by (rule keeps_transaction, assumption, erule (1) timeKept)

lemma notSentRecordedA: "envKeeps P env \<Longrightarrow> keeps P (dbStep env k (transaction (recordNotSentEvidence candidate b now)))"
  by (rule keeps_transaction, assumption, erule (1) notSentRecorded)

lemma judgedA: "envKeeps P env \<Longrightarrow> keeps P (dbStep env k (transaction (judgeAdmission account c i cutoff now)))"
  by (rule keeps_transaction, assumption, erule (1) judged)

lemma loaded: "envKeeps P env \<Longrightarrow> keeps P (dbOperation env k n (\<lambda>reads db. Inr (f reads db, db)))"
  by (rule keeps_dbOperation) auto

lemma sweptVerified: "envKeeps P (rtBoundary env) \<Longrightarrow> keeps P (sweepVerified env now candidate t)"
  unfolding sweepVerified_def by (auto intro!: verifiedAt)

lemma sweptError: "envKeeps P (rtBoundary env) \<Longrightarrow> keeps P (sweepError env candidate t e)"
  unfolding sweepError_def by (auto intro!: recoveryError)

lemma sweptOutcome: "envKeeps P (rtBoundary env) \<Longrightarrow> keeps P (sweepOutcome env now candidate c)"
  unfolding sweepOutcome_def Let_def by (auto intro!: outcomeA sweptVerified sweptError)

lemma sweptAttempt: "envKeeps P (rtBoundary env) \<Longrightarrow> keeps P (sweepAttempt env now candidate c)"
  unfolding sweepAttempt_def releaseAsNeverSubmitted_def recordNotSentEvidenceAndRelease_def Let_def
  by (auto intro!: releaseUnsubmitted notSentRecordedA sweptOutcome sweptVerified split: recoveryState.splits)

lemma resultRecorded: "envKeeps P (rtBoundary env) \<Longrightarrow> keeps P (recordAttemptResultIfStale env c prior attempt state)"
  unfolding recordAttemptResultIfStale_def Let_def by (auto intro!: diagnosticA)

lemma sweptLeased: "envKeeps P (rtBoundary env) \<Longrightarrow> keeps P (sweepLeased env now candidate c)"
  unfolding sweepLeased_def Let_def
  by (auto intro!: sweptAttempt sweptError resultRecorded timeKeptA split: option.splits prod.splits)

lemma swept: "envKeeps P (rtBoundary env) \<Longrightarrow> keeps P (sweepOne env now row)"
  unfolding sweepOne_def by (auto intro!: leasedA sweptLeased split: prod.splits sum.splits bool.splits)

lemma sweptAll: "(\<And>n. envKeeps P (rtBoundary (envs n))) \<Longrightarrow> keeps P (sweepAll envs n now rows t)"
  by (induction rows arbitrary: n t) (auto intro: swept)

lemma sweptTerminal: "(\<And>n. envKeeps P (rtBoundary (envs n))) \<Longrightarrow> keeps P (recoverTerminalEntryClaimsForAccount envs account now)"
  unfolding recoverTerminalEntryClaimsForAccount_def Let_def by (auto intro!: loaded sweptAll)

lemma admissionRecovered: "envKeeps P (rtBoundary env) \<Longrightarrow> keeps P (recoverAdmission env account now c)"
  unfolding recoverAdmission_def releaseAbandoned_def admissionError_def Let_def
  by (auto intro!: leasedA judgedA releaseUnsubmitted recoveryError split: sum.splits bool.splits admissionVerdict.splits)

lemma admissionsRecovered:
  "(\<And>n. envKeeps P (rtBoundary (envs n))) \<Longrightarrow> keeps P (recoverAdmissions envs n account now cs t)"
  by (induction cs arbitrary: n t) (auto intro: admissionRecovered)

lemma sweptAdmissions: "(\<And>n. envKeeps P (rtBoundary (envs n))) \<Longrightarrow> keeps P (recoverStaleAdmissionClaimsForAccount envs account now)"
  unfolding recoverStaleAdmissionClaimsForAccount_def by (auto intro!: admissionsRecovered)

lemma recoveredStale:
  assumes "\<And>n. envKeeps P (rtBoundary (envs n))" and "\<And>n. envKeeps P (rtBoundary (sweepEnvs n))"
    and "\<And>n. envKeeps P (rtBoundary (admissionEnvs n))"
  shows "keeps P (recoverStaleSubmittingIntentsForAccount envs sweepEnvs admissionEnvs account now)"
  unfolding recoverStaleSubmittingIntentsForAccount_def guarded_def
  using assms by (intro keeps_bindA keeps_catchA keeps_dbRead keeps_returnA recoveredAll sweptTerminal sweptAdmissions)

end

text \<open>The three facts: well-formed claims, their history, and an intent that is no longer pending.\<close>

definition settledIntent :: "int \<Rightarrow> claimStore \<Rightarrow> bool" where
  "settledIntent i db \<longleftrightarrow> claimInv db \<and> list_all (\<lambda>o'. oiId o' = i \<longrightarrow> oiStatus o' \<noteq> ''pending'') (orderIntentTable db)"

interpretation claimsFact: workerFact claimInv
  by unfold_locales (auto dest: safeStep_inv claimPart_cong(1))

interpretation historyFact: workerFact "safeStep db0" for db0
proof
  show "claimInv db" if "safeStep db0 db" for db using that by (rule safeStep_inv)
  show "safeStep db0 db'" if "safeStep db0 db" "safeStep db db'" for db db' using that by (rule safeStep_trans)
  show "safeStep db0 db'" if "safeStep db0 db" "claimPart db' = claimPart db" for db db'
    using that claimPart_cong[OF that(2)] by (simp add: safeStep_def)
qed

interpretation settledFact: workerFact "settledIntent i" for i
proof
  show "claimInv db" if "settledIntent i db" for db using that by (simp add: settledIntent_def)
  show "settledIntent i db'" if "settledIntent i db" "safeStep db db'" "orderIntentTable db' = orderIntentTable db" for db db'
    using that by (auto simp: settledIntent_def dest: safeStep_inv)
  show "settledIntent i db'" if settled: "settledIntent i db" and same: "claimPart db' = claimPart db"
    and leaves: "leavesPending (orderIntentTable db) (orderIntentTable db')" for db db'
  proof -
    obtain g where g: "orderIntentTable db' = map g (orderIntentTable db)"
      and g': "oiId (g x) = oiId x" "oiStatus (g x) = ''pending'' \<Longrightarrow> oiStatus x = ''pending''" for x
      using leaves unfolding leavesPending_def by blast
    have "list_all (\<lambda>o'. oiId o' = i \<longrightarrow> oiStatus o' \<noteq> ''pending'') (orderIntentTable db')"
      using settled g' unfolding g settledIntent_def list_all_iff by auto
    then show ?thesis using settled claimPart_cong(1)[OF same] by (simp add: settledIntent_def)
  qed
qed

end
