(* ===== verification/RecoverySafety.thy ===== *)
theory RecoverySafety
  imports BoundarySafety
begin

text \<open>
  What the evidence-based recovery of claims guarantees: which evidence a verified release
  has, that an uncertain delivery is never released, and that an order that was sent is
  never proved unsent.
\<close>

subsection \<open>The evidence of a release\<close>

text \<open>An outcome that leaves no doubt: nothing was sent, or a definitive rejection by the broker.\<close>

definition conclusiveOutcome :: "deliveryOutcome \<Rightarrow> bool" where
  "conclusiveOutcome x \<longleftrightarrow>
     doClassification x \<in> set LOCAL_NON_SEND_CLASSIFICATIONS \<or>
     doClassification x = ''BROKER_REJECTED'' \<and> doStatusCode x \<in> Some ` jsInt ` {400, 401, 403, 404, 422, 429}"

lemma definitive_codes:
  "(case code of None \<Rightarrow> True | Some c \<Rightarrow> c \<notin> set DEFINITIVE_BROKER_REJECTION_STATUS_CODES) \<longleftrightarrow>
   code \<notin> Some ` jsInt ` {400, 401, 403, 404, 422, 429}"
  by (cases code) (auto simp: DEFINITIVE_BROKER_REJECTION_STATUS_CODES_def)

lemma rejected_not_local: "''BROKER_REJECTED'' \<notin> set LOCAL_NON_SEND_CLASSIFICATIONS"
  by (simp add: LOCAL_NON_SEND_CLASSIFICATIONS_def)

lemma doubtful_element:
  "r \<notin> L \<Longrightarrow> ((\<exists>x\<in>A. f x \<notin> L \<and> f x \<noteq> r) \<or> (\<exists>x\<in>{x \<in> A. f x = r}. g x \<notin> D)) =
    (\<exists>x\<in>A. \<not> (f x \<in> L \<or> f x = r \<and> g x \<in> D))"
  by blast

lemma release_basis_iff:
  "rbBasis (evaluateDispatchReleaseBasis outcomes now) \<noteq> None \<longleftrightarrow>
   outcomes \<noteq> [] \<and> (\<forall>x\<in>set outcomes. conclusiveOutcome x \<and>
     (doClassification x = ''BROKER_REJECTED'' \<longrightarrow> doRecordedAt x + ENTRY_DISPATCH_REJECTION_SETTLE_MS \<le> now))"
proof -
  let ?rej = "filter (\<lambda>x. doClassification x = ''BROKER_REJECTED'') outcomes"
  let ?uncertain = "list_ex (\<lambda>x. doClassification x \<notin> set LOCAL_NON_SEND_CLASSIFICATIONS \<and>
    doClassification x \<noteq> ''BROKER_REJECTED'') outcomes"
  let ?weak = "list_ex (\<lambda>x. case doStatusCode x of None \<Rightarrow> True
    | Some c \<Rightarrow> c \<notin> set DEFINITIVE_BROKER_REJECTION_STATUS_CODES) ?rej"
  let ?early = "now - Max (set (map doRecordedAt ?rej)) < ENTRY_DISPATCH_REJECTION_SETTLE_MS"
  have doubt: "?uncertain \<or> ?weak \<longleftrightarrow> (\<exists>x\<in>set outcomes. \<not> conclusiveOutcome x)"
  proof -
    define D where "D = Some ` jsInt ` {400, 401, 403, 404, 422, 429}"
    show ?thesis
      unfolding list_ex_iff definitive_codes conclusiveOutcome_def D_def[symmetric] set_filter
      by (rule doubtful_element[OF rejected_not_local])
  qed
  have early: "?early \<longleftrightarrow> (\<exists>x\<in>set ?rej. \<not> doRecordedAt x + ENTRY_DISPATCH_REJECTION_SETTLE_MS \<le> now)" if "?rej \<noteq> []"
  proof -
    have "Max (set (map doRecordedAt ?rej)) \<le> now - ENTRY_DISPATCH_REJECTION_SETTLE_MS \<longleftrightarrow>
        (\<forall>t\<in>set (map doRecordedAt ?rej). t \<le> now - ENTRY_DISPATCH_REJECTION_SETTLE_MS)"
      using that by (intro Max_le_iff) (auto simp: filter_empty_conv)
    then show ?thesis by (auto simp: not_le[symmetric] algebra_simps)
  qed
  have "rbBasis (evaluateDispatchReleaseBasis outcomes now) \<noteq> None \<longleftrightarrow>
      outcomes \<noteq> [] \<and> \<not> ?uncertain \<and> (?rej = [] \<or> \<not> ?weak \<and> \<not> ?early)"
    by (simp add: evaluateDispatchReleaseBasis_def Let_def)
  also have "\<dots> \<longleftrightarrow> outcomes \<noteq> [] \<and> \<not> (?uncertain \<or> ?weak) \<and> (?rej = [] \<or> \<not> ?early)"
    by auto
  also have "\<dots> \<longleftrightarrow> outcomes \<noteq> [] \<and> (\<forall>x\<in>set outcomes. conclusiveOutcome x) \<and>
      (\<forall>x\<in>set ?rej. doRecordedAt x + ENTRY_DISPATCH_REJECTION_SETTLE_MS \<le> now)"
    unfolding doubt using early by (cases "?rej = []") auto
  also have "\<dots> \<longleftrightarrow> outcomes \<noteq> [] \<and> (\<forall>x\<in>set outcomes. conclusiveOutcome x \<and>
      (doClassification x = ''BROKER_REJECTED'' \<longrightarrow> doRecordedAt x + ENTRY_DISPATCH_REJECTION_SETTLE_MS \<le> now))"
    by auto
  finally show ?thesis .
qed

text \<open>No trace of exposure in the local tables: neither of the intent nor of the claim's account and security.\<close>

definition noLocalExposure :: "claimRow \<Rightarrow> int \<Rightarrow> string \<Rightarrow> int option \<Rightarrow> claimStore \<Rightarrow> bool" where
  "noLocalExposure claim i symbol startedAt db \<longleftrightarrow>
     (\<forall>b\<in>set (brokerOrderTable db). boOrderIntentId b \<noteq> i \<and>
        (boTradingAccountId b = Some (clTradingAccountId claim) \<and> boSecurityId b = clSecurityId claim \<and>
         toLowerCase (boSide b) = ''buy'' \<longrightarrow> boStatus b \<in> set RECOVERY_TERMINAL_BROKER_ORDER_STATUSES)) \<and>
     (\<forall>a\<in>set (brokerActivityTable db). baOrderIntentId a \<noteq> Some i \<and> \<not> unattributedFill claim symbol startedAt a) \<and>
     (\<forall>t\<in>set (trackedPositionTable db). \<not> activePositionOf (clTradingAccountId claim) (clSecurityId claim) t) \<and>
     clTrackedPositionId claim = None"

lemma countWhere_0: "countWhere P xs = 0 \<longleftrightarrow> (\<forall>x\<in>set xs. \<not> P x)"
  by (auto simp: countWhere_def filter_empty_conv)

lemma localBlockers_Nil:
  "localBlockers (localExposure claim i symbol startedAt db) = [] \<longleftrightarrow> noLocalExposure claim i symbol startedAt db"
  by (auto simp: localBlockers_def localExposure_def countWhere_0 noLocalExposure_def)

text \<open>The parts of an eligible assessment.\<close>

lemma assessment_parts:
  assumes "assessEntryClaimRelease i env = Inr a"
  obtains claim intent summary where "claimOfIntent i (reReads env 0) = Some claim"
    "claimIntentRow (reReads env 0) claim = Some intent" "raClaim a = claim" "raIntent a = intent"
    "raSymbol a = toUpperCase (trim (securitySymbolOf (reReads env 0) claim))"
    "raRecords a = loadEntryDispatchRecords i (reReads env 1)"
    "summary = summarizeDeliveryEvidence (deliveryEventsOf (reReads env 2) (clId claim))"
    "raBasis a = evaluateDispatchReleaseBasis (dsOutcomes summary) (reNow env)"
    "raEvidenceEventCount a = int (length (deliveryEventsOf (reReads env 2) (clId claim)))"
    "raConfirmationFingerprint a = reHash env (raEvidence a)"
    "raEligible a \<longleftrightarrow> raBlockers a = [] \<and> rbBasis (raBasis a) \<noteq> None"
    "raBlockers a = assessmentBlockers claim (raSymbol a) intent (raRecords a) summary (raBasis a)
      (localExposure claim i (raSymbol a) (drsStartedAt (raRecords a)) (reReads env 3)) (raLookupError a) (raBroker a)"
    "given (oiClientOrderId intent) \<Longrightarrow> raLookupError a = None \<Longrightarrow>
      reBroker env (clTradingAccountId claim) (the (oiClientOrderId intent)) (raSymbol a) = Inr (raBroker a)"
proof -
  obtain claim intent where c: "claimOfIntent i (reReads env 0) = Some claim"
      "claimIntentRow (reReads env 0) claim = Some intent"
    using assms by (auto simp: assessEntryClaimRelease_def split: option.splits)
  have ans: "(case m of Inr x \<Rightarrow> None | Inl message \<Rightarrow> Some (take 300 message)) = None \<Longrightarrow>
      m = Inr (case m of Inr v \<Rightarrow> v | Inl x \<Rightarrow> v0)" for m :: "string + brokerView" and v0
    by (cases m) auto
  show ?thesis
    by (rule that[OF c])
      (use assms c in \<open>auto simp: assessEntryClaimRelease_def Let_def intro: ans\<close>)
qed

lemma no_blockers:
  assumes "assessmentBlockers claim symbol intent records summary basis local lookupError view = []"
  shows "clReleasedAt claim = None \<and> clStatus claim \<in> set RECOVERABLE_CLAIM_STATUSES \<and>
    (drsPresent records \<or> dsDispatchOutcomes summary \<noteq> [] \<longrightarrow> clStatus claim = ''UNRESOLVED'') \<and>
    identityMismatches claim symbol intent records = [] \<and> oiStatus intent \<in> set TERMINAL_ENTRY_INTENT_STATUSES \<and>
    localBlockers local = [] \<and> lookupError = None \<and> view = \<lparr>bvOrder = None, bvOpenBuys = [], bvPosition = None\<rparr>"
  using assms by (cases view) (auto simp: assessmentBlockers_def Let_def split: option.splits if_splits)

lemma identity_given: "identityMismatches claim symbol intent records = [] \<Longrightarrow> given (oiClientOrderId intent)"
  by (auto simp: identityMismatches_def split: if_splits)

text \<open>A release that committed, with the assessment and the final checks it rests on.\<close>

lemma verified_release_done:
  assumes "releaseVerifiedEntryExposureClaim args env inside db = Inr (r, db')" and "rrReleased r"
  obtains a current db1 db2 where "assessEntryClaimRelease (rlOrderIntentId args) env = Inr a" "\<not> unconfirmed args a" "raEligible a"
    "claimById (clId (raClaim a)) inside = Some current" "clReleasedAt current = None"
    "revalidation a (rlOrderIntentId args) current inside = []"
    "authorizeOperator args a (reWriteNow env) db = Inr ((), db1)"
    "updateClaims (\<lambda>c. clId c = clId (raClaim a) \<and> clStatus c = clStatus (raClaim a) \<and> clReleasedAt c = None)
       (\<lambda>c. c\<lparr>clStatus := ''RELEASED'', clReleasedAt := Some (reWriteNow env), clReleaseReason := Some (releaseReasonOf a)\<rparr>) db1
       = Inr (1, db2)"
    "createEvent (clId (raClaim a)) ''RELEASED_VERIFIED_DISPATCH_NO_EXPOSURE'' (releasedEvidence args a) (reWriteNow env) db2 = Inr ((), db')"
proof -
  obtain a where a: "assessEntryClaimRelease (rlOrderIntentId args) env = Inr a" "\<not> unconfirmed args a" "raEligible a"
    "releaseTransaction args a (reWriteNow env) inside db = Inr (''RELEASED'', db')"
    using verifiedRelease_run[OF assms(1)] assms(2) by blast
  from a(4) show ?thesis
    by (cases rule: releaseTransaction_cases) (use a that in auto)
qed

text \<open>C15: a verified release rests on conclusive evidence, checked twice. A claim is released this way only when it
  was unreleased and recoverable, and its intent in a terminal status with a client order id; at least one
  outcome was recorded, and each is a local non-send or a rejection with a definitive status code that is
  at least 60 seconds old; the broker was asked afresh and knew no order of that id, no open buy order and
  no position of the symbol; no local order, activity, position or unattributed fill existed, neither
  at the assessment nor inside the transaction, under a still unreleased claim and a terminal intent; an
  operator confirmed exactly this evidence. Only unreleased rows of that claim in the assessed status
  change, and there is one.
\<close>
theorem verified_release_needs_conclusive_evidence:
  assumes "releaseVerifiedEntryExposureClaim args env inside db = Inr (r, db')" and "rrReleased r"
  shows "\<exists>claim intent c. claimOfIntent (rlOrderIntentId args) (reReads env 0) = Some claim \<and>
    claimIntentRow (reReads env 0) claim = Some intent \<and>
    clReleasedAt claim = None \<and> clStatus claim \<in> set RECOVERABLE_CLAIM_STATUSES \<and>
    oiStatus intent \<in> set TERMINAL_ENTRY_INTENT_STATUSES \<and>
    dsOutcomes (summarizeDeliveryEvidence (deliveryEventsOf (reReads env 2) (clId claim))) \<noteq> [] \<and>
    (\<forall>x\<in>set (dsOutcomes (summarizeDeliveryEvidence (deliveryEventsOf (reReads env 2) (clId claim)))).
       conclusiveOutcome x \<and> (doClassification x = ''BROKER_REJECTED'' \<longrightarrow> doRecordedAt x + 60000 \<le> reNow env)) \<and>
    oiClientOrderId intent = Some c \<and> c \<noteq> [] \<and>
    reBroker env (clTradingAccountId claim) c (toUpperCase (trim (securitySymbolOf (reReads env 0) claim))) =
      Inr \<lparr>bvOrder = None, bvOpenBuys = [], bvPosition = None\<rparr> \<and>
    noLocalExposure claim (rlOrderIntentId args) (toUpperCase (trim (securitySymbolOf (reReads env 0) claim)))
      (drsStartedAt (loadEntryDispatchRecords (rlOrderIntentId args) (reReads env 1))) (reReads env 3) \<and>
    (\<exists>current i. claimById (clId claim) inside = Some current \<and> clReleasedAt current = None \<and>
       claimIntentRow inside current = Some i \<and> oiStatus i \<in> set TERMINAL_ENTRY_INTENT_STATUSES \<and>
       noLocalExposure current (rlOrderIntentId args) (toUpperCase (trim (securitySymbolOf (reReads env 0) claim)))
         (drsStartedAt (loadEntryDispatchRecords (rlOrderIntentId args) (reReads env 1))) inside) \<and>
    (rlMode args = OPERATOR \<longrightarrow> rlActorUserId args \<noteq> None \<and>
       rlConfirmationFingerprint args = Some (reHash env (raEvidence (rrAssessment r)))) \<and>
    claimTable db' = map (\<lambda>d. if clId d = clId claim \<and> clStatus d = clStatus claim \<and> clReleasedAt d = None
      then d\<lparr>clStatus := ''RELEASED'', clReleasedAt := Some (reWriteNow env), clReleaseReason := Some (rrReason r)\<rparr> else d)
      (claimTable db) \<and>
    length (filter (\<lambda>d. clId d = clId claim \<and> clStatus d = clStatus claim \<and> clReleasedAt d = None) (claimTable db)) = 1"
  using assms
proof (rule verified_release_done)
  fix a current db1 db2
  assume a: "assessEntryClaimRelease (rlOrderIntentId args) env = Inr a" "\<not> unconfirmed args a" "raEligible a"
    and current: "claimById (clId (raClaim a)) inside = Some current" "clReleasedAt current = None"
      "revalidation a (rlOrderIntentId args) current inside = []"
    and auth: "authorizeOperator args a (reWriteNow env) db = Inr ((), db1)"
    and up: "updateClaims (\<lambda>c. clId c = clId (raClaim a) \<and> clStatus c = clStatus (raClaim a) \<and> clReleasedAt c = None)
       (\<lambda>c. c\<lparr>clStatus := ''RELEASED'', clReleasedAt := Some (reWriteNow env), clReleaseReason := Some (releaseReasonOf a)\<rparr>) db1
       = Inr (1, db2)"
    and event: "createEvent (clId (raClaim a)) ''RELEASED_VERIFIED_DISPATCH_NO_EXPOSURE'' (releasedEvidence args a) (reWriteNow env) db2 = Inr ((), db')"
  have r: "rrReason r = releaseReasonOf a" "rrAssessment r = a"
    using assms a(1) by (auto simp: releaseVerifiedEntryExposureClaim_def Let_def bindR_Inr_iff split: if_splits)
  have tables: "claimTable db1 = claimTable db" "claimTable db' = claimTable db2"
    using auth event by (auto simp: authorizeOperator_def createEvent_def split: if_splits)
  from a(1) show ?thesis
  proof (rule assessment_parts)
    fix claim intent summary
    assume parts: "claimOfIntent (rlOrderIntentId args) (reReads env 0) = Some claim"
      "claimIntentRow (reReads env 0) claim = Some intent" "raClaim a = claim" "raIntent a = intent"
      "raSymbol a = toUpperCase (trim (securitySymbolOf (reReads env 0) claim))"
      "raRecords a = loadEntryDispatchRecords (rlOrderIntentId args) (reReads env 1)"
      and summary: "summary = summarizeDeliveryEvidence (deliveryEventsOf (reReads env 2) (clId claim))"
      and basis: "raBasis a = evaluateDispatchReleaseBasis (dsOutcomes summary) (reNow env)"
      and hash: "raConfirmationFingerprint a = reHash env (raEvidence a)"
      and eligible: "raEligible a \<longleftrightarrow> raBlockers a = [] \<and> rbBasis (raBasis a) \<noteq> None"
      and blockers: "raBlockers a = assessmentBlockers claim (raSymbol a) intent (raRecords a) summary (raBasis a)
        (localExposure claim (rlOrderIntentId args) (raSymbol a) (drsStartedAt (raRecords a)) (reReads env 3))
        (raLookupError a) (raBroker a)"
      and broker: "given (oiClientOrderId intent) \<Longrightarrow> raLookupError a = None \<Longrightarrow>
        reBroker env (clTradingAccountId claim) (the (oiClientOrderId intent)) (raSymbol a) = Inr (raBroker a)"
    have "raBlockers a = []" using a(3) eligible by simp
    note clear = no_blockers[OF this[unfolded blockers]]
    have id: "given (oiClientOrderId intent)" using clear identity_given by blast
    then obtain c where c: "oiClientOrderId intent = Some c" "c \<noteq> []" by (auto simp: given_def)
    have outcomes: "dsOutcomes summary \<noteq> [] \<and> (\<forall>x\<in>set (dsOutcomes summary). conclusiveOutcome x \<and>
        (doClassification x = ''BROKER_REJECTED'' \<longrightarrow> doRecordedAt x + 60000 \<le> reNow env))"
      using a(3) eligible basis release_basis_iff by (simp add: ENTRY_DISPATCH_REJECTION_SETTLE_MS_def)
    have view: "reBroker env (clTradingAccountId claim) c (raSymbol a) = Inr \<lparr>bvOrder = None, bvOpenBuys = [], bvPosition = None\<rparr>"
      using broker[OF id] clear c by simp
    have now: "noLocalExposure claim (rlOrderIntentId args) (raSymbol a) (drsStartedAt (raRecords a)) (reReads env 3)"
      using clear localBlockers_Nil by blast
    have final: "noLocalExposure current (rlOrderIntentId args) (raSymbol a) (drsStartedAt (raRecords a)) inside \<and>
        (\<exists>i. claimIntentRow inside current = Some i \<and> oiStatus i \<in> set TERMINAL_ENTRY_INTENT_STATUSES)"
      using current(3) localBlockers_Nil by (auto simp: revalidation_def Let_def split: option.splits if_splits)
    have op: "rlMode args = OPERATOR \<longrightarrow> rlActorUserId args \<noteq> None \<and>
        rlConfirmationFingerprint args = Some (reHash env (raEvidence a))"
      using a(2) hash by (auto simp: unconfirmed_def)
    have written: "claimTable db' = map (\<lambda>d. if clId d = clId claim \<and> clStatus d = clStatus claim \<and> clReleasedAt d = None
        then d\<lparr>clStatus := ''RELEASED'', clReleasedAt := Some (reWriteNow env), clReleaseReason := Some (rrReason r)\<rparr> else d) (claimTable db)"
      "length (filter (\<lambda>d. clId d = clId claim \<and> clStatus d = clStatus claim \<and> clReleasedAt d = None) (claimTable db)) = 1"
      using up by (simp_all add: updateClaims_Inr tables parts(3) r)
    have inside: "\<exists>current i. claimById (clId claim) inside = Some current \<and> clReleasedAt current = None \<and>
       claimIntentRow inside current = Some i \<and> oiStatus i \<in> set TERMINAL_ENTRY_INTENT_STATUSES \<and>
       noLocalExposure current (rlOrderIntentId args) (raSymbol a) (drsStartedAt (raRecords a)) inside"
      using current(1,2) final unfolding parts(3) by blast
    show ?thesis
    proof (intro exI[of _ claim] exI[of _ intent] exI[of _ c],
        unfold parts(5)[symmetric] parts(6)[symmetric] summary[symmetric] r(2), intro conjI)
    qed (fact parts(1,2) c view now inside op written | use clear in blast | use outcomes in blast)+
  qed
qed

subsection \<open>Uncertain deliveries\<close>

text \<open>A recorded outcome stays in every later summary of the claim.\<close>

lemma recorded_outcome_stays:
  assumes "safeStep db0 db" and "e \<in> set (claimEventTable db0)" and "ceClaimId e = i" and "isRecord e"
  shows "outcomeOf e \<in> set (dsOutcomes (summarizeDeliveryEvidence (deliveryEventsOf db i)))"
proof -
  have "e \<in> set (claimEventTable db)" using assms(1,2) by (auto simp: safeStep_def develops_def)
  then have "e \<in> set (deliveryEventsOf db i)"
    using assms(3,4) by (auto simp: deliveryEventsOf_def isRecord_def DELIVERY_EVIDENCE_EVENT_TYPES_def)
  then show ?thesis using assms(4) by (auto simp: summary_outcomes)
qed

lemma claimOfIntent_stays:
  assumes "safeStep db0 db" and "claimOfIntent i db0 = Some claim"
  shows "\<exists>c. claimOfIntent i db = Some c \<and> clId c = clId claim"
proof -
  have "claim \<in> set (claimTable db0)" "clOrderIntentId claim = Some i"
    using assms(2) findClaim_SomeD unfolding claimOfIntent_def by blast+
  then obtain c where "c \<in> set (claimTable db)" "clId c = clId claim" "clOrderIntentId c = Some i"
    using assms(1) by (auto simp: safeStep_def develops_def claimIdentity_def)
  then show ?thesis using claimOfIntent_unique[OF safeStep_inv[OF assms(1)]] by blast
qed

definition claimStates :: "claimStore \<Rightarrow> (int \<times> string \<times> int option) list" where
  "claimStates db = map (\<lambda>c. (clId c, clStatus c, clReleasedAt c)) (claimTable db)"

lemma appendClaimDiagnostic_states:
  "appendClaimDiagnostic i t ev now db = Inr (x, db') \<Longrightarrow> claimStates db' = claimStates db"
  by (auto simp: appendClaimDiagnostic_def Let_def bindR_Inr_iff updateClaims_Inr claimStates_def appendEvent_def
    split: option.splits if_splits)

lemma uncertain_not_eligible:
  assumes "claimOfIntent i db0 = Some claim" and "e \<in> set (claimEventTable db0)"
    and "ceClaimId e = clId claim" and "isRecord e" and "\<not> conclusiveOutcome (outcomeOf e)"
    and "safeStep db0 (reReads env 0)" and "safeStep db0 (reReads env 2)"
    and "assessEntryClaimRelease i env = Inr a"
  shows "\<not> raEligible a"
proof -
  obtain c where c: "claimOfIntent i (reReads env 0) = Some c" "clId c = clId claim"
    using claimOfIntent_stays[OF assms(6,1)] by blast
  show ?thesis
    using assms(8)
  proof (rule assessment_parts)
    fix claim' intent summary
    assume claim': "claimOfIntent i (reReads env 0) = Some claim'"
      and summary: "summary = summarizeDeliveryEvidence (deliveryEventsOf (reReads env 2) (clId claim'))"
      and basis: "raBasis a = evaluateDispatchReleaseBasis (dsOutcomes summary) (reNow env)"
      and eligible: "raEligible a \<longleftrightarrow> raBlockers a = [] \<and> rbBasis (raBasis a) \<noteq> None"
    have "outcomeOf e \<in> set (dsOutcomes summary)"
      using recorded_outcome_stays[OF assms(7,2)] assms(3,4) claim' c unfolding summary by simp
    then have "rbBasis (raBasis a) = None"
      using release_basis_iff[of "dsOutcomes summary" "reNow env"] assms(5) unfolding basis by blast
    then show ?thesis using eligible by simp
  qed
qed

text \<open>C16: an uncertain delivery is never released on the absence of an order. Once an outcome that is neither a local
  non-send nor a definitive rejection was recorded on the claim of an intent (a timeout, a conflict, a
  server error, an unknown outcome), every later verified release refuses: whatever the broker answers,
  whatever was recorded since, in whichever mode and with whichever confirmation, it releases nothing
  and changes the status of no claim.
\<close>
theorem uncertain_delivery_keeps_claim:
  assumes "claimOfIntent (rlOrderIntentId args) db0 = Some claim" and "e \<in> set (claimEventTable db0)"
    and "ceClaimId e = clId claim" and "isRecord e" and "\<not> conclusiveOutcome (outcomeOf e)"
    and "safeStep db0 (reReads env 0)" and "safeStep db0 (reReads env 2)"
    and "releaseVerifiedEntryExposureClaim args env inside db = Inr (r, db')"
  shows "\<not> rrReleased r \<and> claimStates db' = claimStates db"
proof -
  obtain a where a: "assessEntryClaimRelease (rlOrderIntentId args) env = Inr a"
    and run: "\<not> rrReleased r \<and> (db' = db \<or>
         (\<exists>t ev x. appendClaimDiagnostic (clId (raClaim a)) t ev (reWriteNow env) db = Inr (x, db'))) \<or> raEligible a"
    using verifiedRelease_run[OF assms(8)] by blast
  have "\<not> raEligible a" using assms(1-7) a by (rule uncertain_not_eligible)
  then show ?thesis using run appendClaimDiagnostic_states by blast
qed

subsection \<open>Orders that were sent\<close>

text \<open>C19: an order that was sent is never proved unsent. After a run of the broker boundary that sent an order, however
  it ended, and after any claim transactions, the proof of a pre-dispatch failure fails for that entry:
  the marker that was committed before the adapter ran is among its blockers.
\<close>
theorem sent_order_is_never_proven_unsent:
  assumes "safeEnv env" and "claimInv (bsDb s)"
    and "submitOrderToBroker env input account intent s = (r, s')" and "bsPosts s' \<noteq> bsPosts s"
    and "list_all claimOpPermitted ops"
  shows "\<not> ppProven (proveWorkerPreDispatchNonDelivery intent account' (fold claimStep ops (bsDb s'))) \<and>
    ''ADAPTER_INVOCATION_MARKER_PRESENT'' \<in>
      set (ppBlockers (proveWorkerPreDispatchNonDelivery intent account' (fold claimStep ops (bsDb s'))))"
proof -
  let ?db = "fold claimStep ops (bsDb s')"
  obtain claim m where claim: "claimOfIntent intent ?db = Some claim" and m: "m \<in> set (claimEventTable ?db)"
      "ceClaimId m = clId claim" "ceEventType m = ADAPTER_INVOCATION_STARTED_EVENT"
    using sent_marker_later[OF assms] by blast
  have "m \<in> set (markersOf (deliveryEventsOf ?db (clId claim)))"
    using m by (auto simp: deliveryEventsOf_def isMarker_def DELIVERY_EVIDENCE_EVENT_TYPES_def)
  then have "0 < dsAdapterMarkers (summarizeDeliveryEvidence (deliveryEventsOf ?db (clId claim)))"
    unfolding summary_parts by (metis length_pos_if_in_set of_nat_0_less_iff)
  then show ?thesis using claim by (auto simp: proveWorkerPreDispatchNonDelivery_def Let_def)
qed

subsection \<open>A release and a refusal\<close>

text \<open>The tables of the boundary after a recorded outcome of a given class, and a broker that knows nothing of the entry.\<close>

definition recordedOutcome :: "string \<Rightarrow> claimEventRow" where
  "recordedOutcome classification =
     \<lparr>ceId = 1, ceClaimId = 1, ceEventType = ''DISPATCH_OUTCOME_RECORDED'',
      ceEvidenceJson = JObj [(''classification'', JStr classification)], ceCreatedAt = 50\<rparr>"

definition recoveryClaims :: "string \<Rightarrow> claimStore" where
  "recoveryClaims classification = boundaryClaims\<lparr>
     orderIntentTable := [sampleIntent\<lparr>oiStatus := ''failed'', oiClientOrderId := Some ''c-1''\<rparr>],
     claimTable := [(newEntryClaim 7 11 1 ''entry:7:a'')\<lparr>clId := 1, clStatus := ''UNRESOLVED''\<rparr>],
     claimEventTable := [recordedOutcome classification], nextClaimEventId := 2\<rparr>"

definition recoveryEnvOf :: "claimStore \<Rightarrow> recoveryEnv" where
  "recoveryEnvOf db =
     \<lparr>reReads = (\<lambda>k. db), reBroker = (\<lambda>account i symbol. Inr \<lparr>bvOrder = None, bvOpenBuys = [], bvPosition = None\<rparr>),
      reHash = (\<lambda>j. ''hash''), reNow = 100, reWriteNow = 101\<rparr>"

definition systemRelease :: releaseArgs where
  "systemRelease = \<lparr>rlOrderIntentId = 1, rlMode = SYSTEM, rlActorUserId = None, rlConfirmationFingerprint = None\<rparr>"

lemmas recovery_rows =
  recoveryClaims_def boundaryClaims_def sampleClaims_def sampleIntent_def newEntryClaim_def claimOfIntent_def
  claimIntentRow_def claimById_def intentById_def findClaim_def securitySymbolOf_def

lemma recovery_events: "deliveryEventsOf (recoveryClaims k) 1 = [recordedOutcome k]"
  by (simp add: deliveryEventsOf_def recoveryClaims_def recordedOutcome_def DELIVERY_EVIDENCE_EVENT_TYPES_def DISPATCH_OUTCOME_EVENT_TYPES_def)

lemma recovery_outcome:
  "doKind (outcomeOf (recordedOutcome k)) = OUTCOME" "doClassification (outcomeOf (recordedOutcome k)) = k"
  by (simp_all add: outcomeOf_def recordedOutcome_def NOT_SENT_EVIDENCE_EVENT_def jsonGet_def stringOr_def Let_def)

lemma recovery_summary:
  "dsOutcomes (summarizeDeliveryEvidence [recordedOutcome k]) = [outcomeOf (recordedOutcome k)]"
  "dsDispatchOutcomes (summarizeDeliveryEvidence [recordedOutcome k]) = [outcomeOf (recordedOutcome k)]"
proof -
  have rec: "isRecord (recordedOutcome k)" "\<not> isMarker (recordedOutcome k)"
    by (simp_all add: isRecord_def isMarker_def recordedOutcome_def DISPATCH_OUTCOME_EVENT_TYPES_def ADAPTER_INVOCATION_STARTED_EVENT_def)
  show "dsOutcomes (summarizeDeliveryEvidence [recordedOutcome k]) = [outcomeOf (recordedOutcome k)]"
    "dsDispatchOutcomes (summarizeDeliveryEvidence [recordedOutcome k]) = [outcomeOf (recordedOutcome k)]"
    using rec recovery_outcome(1) by (simp_all add: summarizeDeliveryEvidence_def Let_def)
qed

lemma recovery_local: "localBlockers (localExposure ((newEntryClaim 7 11 1 ''entry:7:a'')\<lparr>clId := 1, clStatus := ''UNRESOLVED''\<rparr>)
    1 symb t (recoveryClaims k)) = []"
  by (simp add: localBlockers_def localExposure_def countWhere_def recovery_rows)

lemma recovery_records: "loadEntryDispatchRecords 1 (recoveryClaims k) =
    \<lparr>drsConsumption = None, drsUnenforced = None, drsDispatchEvents = 0, drsLiveArming = None, drsDurable = False,
     drsPresent = False, drsStartedAt = None\<rparr>"
  by (simp add: loadEntryDispatchRecords_def recovery_rows)

lemma recovery_inv: "claimInv (recoveryClaims k)"
  by (simp add: claimInv_def recovery_rows recordedOutcome_def claimRowOk_def isEntryExposureClaimStatus_def CLAIM_STATUSES_def)

lemma recovery_identity:
  "identityMismatches ((newEntryClaim 7 11 1 ''entry:7:a'')\<lparr>clId := 1, clStatus := ''UNRESOLVED''\<rparr>) ''SPY''
     (sampleIntent\<lparr>oiStatus := ''failed'', oiClientOrderId := Some ''c-1''\<rparr>) (loadEntryDispatchRecords 1 (recoveryClaims k)) = []"
  unfolding recovery_records by (simp add: identityMismatches_def sampleIntent_def newEntryClaim_def given_def spy_upper)

lemma recovery_assessment:
  assumes "k = ''NOT_SENT_LOCAL_BLOCKED''"
  obtains a where "assessEntryClaimRelease 1 (recoveryEnvOf (recoveryClaims k)) = Inr a" "raEligible a"
    "raClaim a = (newEntryClaim 7 11 1 ''entry:7:a'')\<lparr>clId := 1, clStatus := ''UNRESOLVED''\<rparr>"
    "raSymbol a = ''SPY''" "raRecords a = loadEntryDispatchRecords 1 (recoveryClaims k)" "raEvidenceEventCount a = 1"
proof -
  let ?db = "recoveryClaims k"
  let ?claim = "(newEntryClaim 7 11 1 ''entry:7:a'')\<lparr>clId := 1, clStatus := ''UNRESOLVED''\<rparr>"
  let ?intent = "sampleIntent\<lparr>oiStatus := ''failed'', oiClientOrderId := Some ''c-1''\<rparr>"
  have rows: "claimOfIntent 1 ?db = Some ?claim" "claimIntentRow ?db ?claim = Some ?intent" "toUpperCase (trim (securitySymbolOf ?db ?claim)) = ''SPY''"
    by (simp_all add: recovery_rows spy_upper)
  obtain a where a: "assessEntryClaimRelease 1 (recoveryEnvOf ?db) = Inr a"
    using rows(1,2) by (simp add: assessEntryClaimRelease_def Let_def recoveryEnvOf_def)
  show ?thesis
    using a
  proof (rule assessment_parts)
    fix claim intent summary
    assume parts: "claimOfIntent 1 (reReads (recoveryEnvOf ?db) 0) = Some claim"
      "claimIntentRow (reReads (recoveryEnvOf ?db) 0) claim = Some intent" "raClaim a = claim"
      "raSymbol a = toUpperCase (trim (securitySymbolOf (reReads (recoveryEnvOf ?db) 0) claim))"
      "raRecords a = loadEntryDispatchRecords 1 (reReads (recoveryEnvOf ?db) 1)"
      "summary = summarizeDeliveryEvidence (deliveryEventsOf (reReads (recoveryEnvOf ?db) 2) (clId claim))"
      "raBasis a = evaluateDispatchReleaseBasis (dsOutcomes summary) (reNow (recoveryEnvOf ?db))"
      "raEvidenceEventCount a = int (length (deliveryEventsOf (reReads (recoveryEnvOf ?db) 2) (clId claim)))"
      "raEligible a \<longleftrightarrow> raBlockers a = [] \<and> rbBasis (raBasis a) \<noteq> None"
      and blockers: "raBlockers a = assessmentBlockers claim (raSymbol a) intent (raRecords a) summary (raBasis a)
        (localExposure claim 1 (raSymbol a) (drsStartedAt (raRecords a)) (reReads (recoveryEnvOf ?db) 3))
        (raLookupError a) (raBroker a)"
    have reads: "reReads (recoveryEnvOf ?db) n = ?db" "reNow (recoveryEnvOf ?db) = 100" for n by (simp_all add: recoveryEnvOf_def)
    have c: "claim = ?claim" "intent = ?intent" using parts(1,2) rows(1,2) unfolding reads by simp_all
    have id: "clId ?claim = 1" by simp
    have sum: "summary = summarizeDeliveryEvidence [recordedOutcome k]" using parts(6) unfolding reads c id recovery_events .
    have basis: "raBasis a = \<lparr>rbBasis = Some ''DEFINITE_LOCAL_NON_SEND'', rbConclusiveness = ''CONCLUSIVE'', rbBlocker = None\<rparr>"
      unfolding parts(7) sum recovery_summary
      by (simp add: evaluateDispatchReleaseBasis_def recovery_outcome assms LOCAL_NON_SEND_CLASSIFICATIONS_def)
    have broker: "raBroker a = \<lparr>bvOrder = None, bvOpenBuys = [], bvPosition = None\<rparr>" "raLookupError a = None"
      using a rows(1,2) by (auto simp: assessEntryClaimRelease_def Let_def recoveryEnvOf_def)
    have symb: "raSymbol a = ''SPY''" using parts(4) rows(3) unfolding reads c by simp
    have local: "localBlockers (localExposure ?claim 1 ''SPY'' t ?db) = []" for t by (rule recovery_local)
    have "raBlockers a = []"
      unfolding blockers reads c symb parts(5) basis broker sum
      using recovery_identity[of k] local
      by (simp add: assessmentBlockers_def recovery_summary recovery_records RECOVERABLE_CLAIM_STATUSES_def newEntryClaim_def
          TERMINAL_ENTRY_INTENT_STATUSES_def)
    then show ?thesis
      using that[OF a] parts(3,8,9) basis symb parts(5) unfolding reads c id recovery_events by simp
  qed
qed

theorem verified_release_needs_conclusive_evidence_witness:
  "\<exists>r db. releaseVerifiedEntryExposureClaim systemRelease (recoveryEnvOf (recoveryClaims ''NOT_SENT_LOCAL_BLOCKED''))
      (recoveryClaims ''NOT_SENT_LOCAL_BLOCKED'') (recoveryClaims ''NOT_SENT_LOCAL_BLOCKED'') = Inr (r, db) \<and>
    claimStates db = [(1, ''RELEASED'', Some 101)]"
proof -
  define k where "k = ''NOT_SENT_LOCAL_BLOCKED''"
  let ?db = "recoveryClaims k" and ?env = "recoveryEnvOf (recoveryClaims k)"
  let ?claim = "(newEntryClaim 7 11 1 ''entry:7:a'')\<lparr>clId := 1, clStatus := ''UNRESOLVED''\<rparr>"
  obtain a where a: "assessEntryClaimRelease 1 ?env = Inr a" "raEligible a" "raClaim a = ?claim" "raSymbol a = ''SPY''"
      "raRecords a = loadEntryDispatchRecords 1 ?db" "raEvidenceEventCount a = 1"
    by (rule recovery_assessment[OF k_def])
  have current: "claimById 1 ?db = Some ?claim" "claimIntentRow ?db ?claim = Some (sampleIntent\<lparr>oiStatus := ''failed'', oiClientOrderId := Some ''c-1''\<rparr>)"
    "clReleasedAt ?claim = None" "clId ?claim = 1" "clStatus ?claim = ''UNRESOLVED''"
    by (simp_all add: recovery_rows)
  have valid: "revalidation a 1 ?claim ?db = []"
    using current(2) recovery_local[of "''SPY''" "drsStartedAt (loadEntryDispatchRecords 1 ?db)" k]
    by (simp add: revalidation_def a(3-6) recovery_events TERMINAL_ENTRY_INTENT_STATUSES_def Let_def)
  let ?f = "\<lambda>c. c\<lparr>clStatus := ''RELEASED'', clReleasedAt := Some 101, clReleaseReason := Some (releaseReasonOf a)\<rparr>"
  have up: "updateClaims (\<lambda>c. clId c = 1 \<and> clStatus c = ''UNRESOLVED'' \<and> clReleasedAt c = None) ?f ?db =
      Inr (1, ?db\<lparr>claimTable := [?f ?claim]\<rparr>)"
    by (simp add: updateClaims_def recovery_rows claimRowOk_def isEntryExposureClaimStatus_def CLAIM_STATUSES_def)
  have found: "claimById 1 (?db\<lparr>claimTable := [?f ?claim]\<rparr>) \<noteq> None" by (simp add: claimById_def findClaim_def)
  have now: "reWriteNow ?env = 101" by (simp add: recoveryEnvOf_def)
  have tx: "\<exists>db. releaseTransaction systemRelease a 101 ?db ?db = Inr (''RELEASED'', db)"
    using current(1,3) valid up found
    by (simp add: releaseTransaction_def a(3) current(4,5) Let_def authorizeOperator_def systemRelease_def createEvent_def)
  then obtain db where db: "releaseTransaction systemRelease a 101 ?db ?db = Inr (''RELEASED'', db)" by blast
  have run: "releaseVerifiedEntryExposureClaim systemRelease ?env ?db ?db =
      Inr (\<lparr>rrReleased = True, rrReason = releaseReasonOf a, rrAssessment = a\<rparr>, db)"
    using a(1,2) db now by (simp add: releaseVerifiedEntryExposureClaim_def systemRelease_def unconfirmed_def)
  obtain claim where claim: "claimOfIntent 1 ?db = Some claim" "claimTable db = map (\<lambda>d. if clId d = clId claim \<and> clStatus d = clStatus claim \<and> clReleasedAt d = None
      then d\<lparr>clStatus := ''RELEASED'', clReleasedAt := Some 101, clReleaseReason := Some (releaseReasonOf a)\<rparr> else d) (claimTable ?db)"
    using verified_release_needs_conclusive_evidence[OF run] now by (auto simp: systemRelease_def recoveryEnvOf_def)
  then have "claimStates db = [(1, ''RELEASED'', Some 101)]"
    by (auto simp: claimStates_def recovery_rows)
  then show ?thesis using run unfolding k_def by blast
qed

text \<open>A refusal writes its diagnostic.\<close>

theorem uncertain_delivery_keeps_claim_witness:
  "\<exists>r db. releaseVerifiedEntryExposureClaim systemRelease (recoveryEnvOf (recoveryClaims ''DELIVERY_UNCERTAIN''))
      (recoveryClaims ''DELIVERY_UNCERTAIN'') (recoveryClaims ''DELIVERY_UNCERTAIN'') = Inr (r, db) \<and>
    \<not> rrReleased r \<and> claimStates db = [(1, ''UNRESOLVED'', None)]"
proof -
  define k where "k = ''DELIVERY_UNCERTAIN''"
  let ?db = "recoveryClaims k" and ?env = "recoveryEnvOf (recoveryClaims k)"
  let ?claim = "(newEntryClaim 7 11 1 ''entry:7:a'')\<lparr>clId := 1, clStatus := ''UNRESOLVED''\<rparr>"
  have id: "rlOrderIntentId systemRelease = 1" by (simp add: systemRelease_def)
  have claim: "claimOfIntent (rlOrderIntentId systemRelease) ?db = Some ?claim" "recordedOutcome k \<in> set (claimEventTable ?db)"
    "ceClaimId (recordedOutcome k) = clId ?claim" "isRecord (recordedOutcome k)"
    by (simp_all add: id recovery_rows isRecord_def recordedOutcome_def DISPATCH_OUTCOME_EVENT_TYPES_def)
  have doubt: "\<not> conclusiveOutcome (outcomeOf (recordedOutcome k))"
    by (simp add: conclusiveOutcome_def recovery_outcome k_def LOCAL_NON_SEND_CLASSIFICATIONS_def)
  have reads: "safeStep ?db (reReads ?env n)" for n
    using recovery_inv safeStep_refl by (simp add: recoveryEnvOf_def)
  have "claimIntentRow ?db ?claim \<noteq> None" by (simp add: recovery_rows)
  then obtain a where a: "assessEntryClaimRelease (rlOrderIntentId systemRelease) ?env = Inr a" "raClaim a = ?claim"
    using claim(1) by (auto simp: assessEntryClaimRelease_def Let_def recoveryEnvOf_def)
  have not_eligible: "\<not> raEligible a" by (rule uncertain_not_eligible[OF claim doubt reads reads a(1)])
  have "\<exists>x db. appendClaimDiagnostic 1 t ev now ?db = Inr (x, db)" for t ev now
    by (simp add: appendClaimDiagnostic_def recovery_rows Let_def updateClaims_def appendEvent_def claimRowOk_def
        isEntryExposureClaimStatus_def CLAIM_STATUSES_def)
  then obtain x db1 where "appendClaimDiagnostic 1 ''DISPATCH_RECOVERY_RELEASE_BLOCKED'' (blockedEvidence systemRelease a)
      (reWriteNow ?env) ?db = Inr (x, db1)" by blast
  moreover have "clId (raClaim a) = 1" "\<not> unconfirmed systemRelease a" by (simp_all add: a(2) unconfirmed_def systemRelease_def)
  ultimately have "\<exists>r db. releaseVerifiedEntryExposureClaim systemRelease ?env ?db ?db = Inr (r, db)"
    using a(1) not_eligible by (simp add: releaseVerifiedEntryExposureClaim_def)
  then obtain r db where run: "releaseVerifiedEntryExposureClaim systemRelease ?env ?db ?db = Inr (r, db)" by blast
  have "claimStates ?db = [(1, ''UNRESOLVED'', None)]" by (simp add: claimStates_def recovery_rows)
  then show ?thesis
    using uncertain_delivery_keeps_claim[OF claim doubt reads reads run] run unfolding k_def by auto
qed

theorem sent_order_is_never_proven_unsent_witness:
  "\<exists>r s'. submitOrderToBroker dyingEnv spyEntry 7 1 sampleBoundary = (r, s') \<and>
    \<not> ppProven (proveWorkerPreDispatchNonDelivery 1 7 (fold claimStep [ReleaseOp 1 ''gone'' 90] (bsDb s')))"
proof -
  obtain r s' where run: "submitOrderToBroker dyingEnv spyEntry 7 1 sampleBoundary = (r, s')" by (rule sample_run)
  have "claimInv (bsDb sampleBoundary)" by (simp add: sampleBoundary_def boundaryClaims_inv)
  then show ?thesis
    using sent_order_is_never_proven_unsent[OF dyingEnv_safe _ run sample_sent[OF run], of "[ReleaseOp 1 ''gone'' 90]" 7] run
    by auto
qed

end
