(* ===== verification/TerminalSafety.thy ===== *)
theory TerminalSafety
  imports RecoverySafety
begin

text \<open>
  What the authoritative release of a claim guarantees: the broker's record of its order has
  ended in every replacement, its fills are accounted for, and nothing of the security is held or
  may still be bought.
\<close>

subsection \<open>What an authoritative release rests on\<close>

lemma followReplacements_chain:
  "followReplacements ask n orders order = Inr (os, last') \<Longrightarrow> distinct (map aoId orders) \<Longrightarrow> orders \<noteq> [] \<Longrightarrow>
   last orders = order \<Longrightarrow>
   distinct (map aoId os) \<and> length os \<le> length orders + n \<and> os \<noteq> [] \<and> last os = last' \<and> hd os = hd orders"
proof (induction ask n orders order rule: followReplacements.induct)
  case (2 ask n orders order)
  show ?case
  proof (cases "given (aoReplacedBy order)")
    case True
    then obtain rep where rep: "ask (the (aoReplacedBy order)) = Inr (Some rep)" "\<not> list_ex (\<lambda>o'. aoId o' = aoId rep) orders"
        "followReplacements ask n (orders @ [rep]) rep = Inr (os, last')"
      using 2(2) by (auto split: sum.splits option.splits if_splits)
    have "distinct (map aoId (orders @ [rep]))" using 2(3) rep(2) by (auto simp: list_ex_iff)
    then show ?thesis using 2(1)[of "Some rep" rep] True rep 2(4) by auto
  qed (use 2 in auto)
qed auto

lemma replacementChain_Inr:
  assumes "replacementChain ask order = Inr (os, last')"
  shows "distinct (map aoId os) \<and> length os \<le> 11 \<and> os \<noteq> [] \<and> last os = last' \<and> hd os = order \<and> \<not> given (aoReplacedBy last')"
proof -
  obtain os' l where run: "followReplacements ask 10 [order] order = Inr (os', l)"
    using assms by (auto simp: replacementChain_def split: sum.splits)
  then have "os' = os" "l = last'" "\<not> given (aoReplacedBy last')"
    using assms by (auto simp: replacementChain_def split: if_splits)
  then show ?thesis using followReplacements_chain[OF run] by simp
qed

lemma chainConflict_False:
  "chainConflict symbol orders = Inr False \<longleftrightarrow>
   (\<forall>order\<in>set orders. \<exists>s side. aoSymbol order = Some s \<and> toUpperCase (trim s) = toUpperCase (trim symbol) \<and>
      aoSide order = Some side \<and> toLowerCase side = ''buy'')"
  by (induction orders) (auto split: option.splits)

text \<open>Only a release sets the time of release.\<close>

lemma updateClaims_released:
  assumes "updateClaims P f db = Inr (n, db')" and "\<And>c. clReleasedAt (f c) = clReleasedAt c"
    and "\<And>c. P c \<Longrightarrow> clReleasedAt c = None" and "c \<in> set (claimTable db')" and "clReleasedAt c \<noteq> None"
  shows "c \<in> set (claimTable db)"
  using assms by (fastforce simp: updateClaims_Inr split: if_splits)

lemma diagnostic_released:
  assumes "appendClaimDiagnostic i t ev now db = Inr (x, db')" and "c \<in> set (claimTable db')" "clReleasedAt c \<noteq> None"
  shows "c \<in> set (claimTable db)"
proof -
  have "claimTable db' = claimTable db \<or> (\<exists>n d st. claimTable d = claimTable db \<and>
      updateClaims (\<lambda>c. clId c = i \<and> clStatus c = st \<and> clReleasedAt c = None) (\<lambda>c. c\<lparr>clLastDiagnosedAt := Some now\<rparr>) d = Inr (n, db'))"
    using assms(1) by (auto simp: appendClaimDiagnostic_def Let_def bindR_Inr_iff split: option.splits if_splits)
  then show ?thesis
  proof (elim disjE exE conjE)
    fix n d st
    assume "claimTable d = claimTable db"
      and "updateClaims (\<lambda>c. clId c = i \<and> clStatus c = st \<and> clReleasedAt c = None) (\<lambda>c. c\<lparr>clLastDiagnosedAt := Some now\<rparr>) d = Inr (n, db')"
    then show ?thesis using updateClaims_released[OF _ _ _ assms(2,3)] by fastforce
  qed (use assms(2) in simp)
qed

lemma unresolved_released:
  assumes "markClaimUnresolved i t ev now db = Inr (x, db')" and "c \<in> set (claimTable db')" "clReleasedAt c \<noteq> None"
  shows "c \<in> set (claimTable db)"
proof -
  have "claimTable db' = claimTable db \<or> (\<exists>n d st. claimTable db' = claimTable d \<and>
      updateClaims (\<lambda>c. clId c = i \<and> clStatus c = st \<and> clReleasedAt c = None)
        (\<lambda>c. c\<lparr>clStatus := ''UNRESOLVED'', clLastDiagnosedAt := Some now\<rparr>) db = Inr (n, d))"
    using assms(1) by (auto simp: markClaimUnresolved_def Let_def bindR_Inr_iff split: option.splits if_splits)
  then show ?thesis
  proof (elim disjE exE conjE)
    fix n d st
    assume "claimTable db' = claimTable d"
      and "updateClaims (\<lambda>c. clId c = i \<and> clStatus c = st \<and> clReleasedAt c = None)
        (\<lambda>c. c\<lparr>clStatus := ''UNRESOLVED'', clLastDiagnosedAt := Some now\<rparr>) db = Inr (n, d)"
    then show ?thesis using updateClaims_released assms(2,3) by fastforce
  qed (use assms(2) in simp)
qed

lemma transition_released:
  assumes "transitionEntryExposureClaim i st t ev now observed db = Inr (x, db')" and "c \<in> set (claimTable db')" "clReleasedAt c \<noteq> None"
  shows "c \<in> set (claimTable db)"
  using assms(1)
proof (cases rule: transition_cases)
  case (written k n db1 e)
  have "c \<in> set (claimTable db1)" using assms(2) written(2) by auto
  then show ?thesis using updateClaims_released[OF written(1)] assms(3) by simp
qed (use assms(2) in auto)

text \<open>The broker's answer: the order of the intent, followed to its last replacement.\<close>

lemma acquireTerminalView_Inr:
  assumes "acquireTerminalView broker claim symbol clientOrderId localOrder = Inr view" and "tvOrder view = Some order"
  shows "tbPosition broker (clTradingAccountId claim) symbol = Inr (tvPosition view) \<and>
    tbOpenBuys broker (clTradingAccountId claim) symbol = Inr (tvOpenBuys view) \<and>
    distinct (map aoId (tvChain view)) \<and> length (tvChain view) \<le> 11 \<and> tvChain view \<noteq> [] \<and> last (tvChain view) = order \<and>
    \<not> given (aoReplacedBy order) \<and>
    (case localOrder of Some l \<Rightarrow> tbOrderById broker (clTradingAccountId claim) (boBrokerOrderId l)
     | None \<Rightarrow> tbOrderByClientOrderId broker (clTradingAccountId claim) (the clientOrderId)) = Inr (Some (hd (tvChain view)))"
proof -
  let ?found = "case localOrder of Some l \<Rightarrow> tbOrderById broker (clTradingAccountId claim) (boBrokerOrderId l)
    | None \<Rightarrow> if given clientOrderId then tbOrderByClientOrderId broker (clTradingAccountId claim) (the clientOrderId) else Inr None"
  obtain first where first: "?found = Inr (Some first)"
    using assms by (cases ?found) (auto simp: acquireTerminalView_def Let_def split: option.splits sum.splits)
  obtain os l where c: "replacementChain (tbOrderById broker (clTradingAccountId claim)) first = Inr (os, l)"
    using assms first by (cases "replacementChain (tbOrderById broker (clTradingAccountId claim)) first")
      (auto simp: acquireTerminalView_def Let_def)
  have "tvChain view = os" "l = order" "tbPosition broker (clTradingAccountId claim) symbol = Inr (tvPosition view)"
    "tbOpenBuys broker (clTradingAccountId claim) symbol = Inr (tvOpenBuys view)"
    using assms first c by (auto simp: acquireTerminalView_def Let_def split: sum.splits)
  then show ?thesis
    using replacementChain_Inr[OF c] first by (auto split: option.splits if_splits)
qed

text \<open>C10: an authoritative release leaves no exposure. When this operation released a claim, the broker's record of the
  order of its intent, followed over at most ten replacements to the last one, consists of distinct buy orders of
  the security; the last order has ended (filled, canceled, expired or rejected); the broker holds no position
  of the security and has no open buy order of it; the fills it reports are a number that the recorded fills of
  the intent account for, before and within the transaction; and within it the account has no active position of the
  security and no other order that may still buy it.
\<close>
theorem authoritative_release_leaves_no_exposure:
  assumes "releaseConfirmedTerminalEntryClaim i status allow broker now reads inside db = Inr (r, db')"
    and "c \<in> set (claimTable db')" and "c \<notin> set (claimTable db)" and "clReleasedAt c \<noteq> None"
  shows "\<exists>claim view order. claimOfIntent i (reads 0) = Some claim \<and> clReleasedAt claim = None \<and> clId c = clId claim \<and>
    acquireTerminalView broker claim (securitySymbolOf (reads 0) claim)
      (Option.bind (claimIntentRow (reads 0) claim) oiClientOrderId) (localOrderOf i (reads 1)) = Inr view \<and>
    tvOrder view = Some order \<and> last (tvChain view) = order \<and> \<not> given (aoReplacedBy order) \<and>
    distinct (map aoId (tvChain view)) \<and> length (tvChain view) \<le> 11 \<and>
    (\<forall>o'\<in>set (tvChain view). \<exists>s side. aoSymbol o' = Some s \<and>
       toUpperCase (trim s) = toUpperCase (trim (securitySymbolOf (reads 0) claim)) \<and>
       aoSide o' = Some side \<and> toLowerCase side = ''buy'') \<and>
    finalStatusOf order \<in> set FINAL_ORDER_STATUSES \<and>
    tbPosition broker (clTradingAccountId claim) (securitySymbolOf (reads 0) claim) = Inr None \<and>
    tbOpenBuys broker (clTradingAccountId claim) (securitySymbolOf (reads 0) claim) = Inr [] \<and>
    isFinite (brokerFilledOf (tvChain view)) \<and> \<not> jsLt (brokerFilledOf (tvChain view)) (Fin 0) \<and>
    \<not> fillsMissing (accountedFills i (reads 2)) (brokerFilledOf (tvChain view)) \<and>
    \<not> fillsMissing (accountedFills i inside) (brokerFilledOf (tvChain view)) \<and>
    (\<forall>t\<in>set (trackedPositionTable inside). \<not> activePositionOf (clTradingAccountId claim) (clSecurityId claim) t) \<and>
    (\<forall>b\<in>set (brokerOrderTable inside). \<not> otherExecutableBuy claim (map aoId (tvChain view)) b)"
proof -
  have kept: "False" if "claimTable db' = claimTable db \<or> (\<exists>i t ev x. appendClaimDiagnostic i t ev now db = Inr (x, db')) \<or>
      (\<exists>i t ev x. markClaimUnresolved i t ev now db = Inr (x, db')) \<or>
      (\<exists>i st t ev x ob. transitionEntryExposureClaim i st t ev now ob db = Inr (x, db'))"
    using that assms(2-4) diagnostic_released unresolved_released transition_released by metis
  obtain claim normalized where claim: "claimOfIntent i (reads 0) = Some claim" "clReleasedAt claim = None"
    and run: "releaseOnView i claim (securitySymbolOf (reads 0) claim) normalized
      (acquireTerminalView broker claim (securitySymbolOf (reads 0) claim)
        (Option.bind (claimIntentRow (reads 0) claim) oiClientOrderId) (localOrderOf i (reads 1))) now reads inside db = Inr (r, db')"
    using releaseConfirmed_run[OF assms(1)] kept by blast
  obtain view order where view: "acquireTerminalView broker claim (securitySymbolOf (reads 0) claim)
        (Option.bind (claimIntentRow (reads 0) claim) oiClientOrderId) (localOrderOf i (reads 1)) = Inr view"
      "tvOrder view = Some order" and checks: "chainConflict (securitySymbolOf (reads 0) claim) (tvChain view) = Inr False"
      "finalStatusOf order \<in> set FINAL_ORDER_STATUSES" "tvPosition view = None" "tvOpenBuys view = []"
      "isFinite (brokerFilledOf (tvChain view))" "\<not> jsLt (brokerFilledOf (tvChain view)) (Fin 0)"
      "\<not> fillsMissing (accountedFills i (reads 2)) (brokerFilledOf (tvChain view))"
    and tx: "terminalReleaseTransaction i claim (tvChain view) order (brokerFilledOf (tvChain view)) (accountedFills i (reads 2))
         now inside db = Inr (r, db')"
    using releaseOnView_run[OF run] kept by blast
  note broker = acquireTerminalView_Inr[OF view, unfolded checks(3,4)]
  from tx show ?thesis
  proof (cases rule: terminalTransaction_cases)
    case (written current n db1)
    have table: "claimTable db' = claimTable db1" using written(7) by (auto simp: createEvent_def split: if_splits)
    have "clId c = clId claim"
      using assms(2,3) written(6) unfolding table by (auto simp: updateClaims_Inr split: if_splits)
    then show ?thesis
      using claim view checks broker written(3,4,5) unfolding chainConflict_False countWhere_0 by blast
  qed (use kept in blast)+
qed

subsection \<open>A release after a canceled order\<close>

definition canceledOrder :: alpacaOrder where
  "canceledOrder = spyOrder\<lparr>aoStatus := ''canceled''\<rparr>"

definition canceledBroker :: terminalBroker where
  "canceledBroker =
     \<lparr>tbOrderById = (\<lambda>a i. Inr None), tbOrderByClientOrderId = (\<lambda>a i. Inr (Some canceledOrder)),
      tbPosition = (\<lambda>a symbol. Inr None), tbOpenBuys = (\<lambda>a symbol. Inr [])\<rparr>"

definition activeClaim :: claimRow where
  "activeClaim = (newEntryClaim 7 11 1 ''entry:7:a'')\<lparr>clId := 1, clStatus := ''BROKER_ORDER_ACTIVE''\<rparr>"

definition activeClaims :: claimStore where
  "activeClaims = boundaryClaims\<lparr>
     orderIntentTable := [sampleIntent\<lparr>oiStatus := ''submitted'', oiClientOrderId := Some ''c-1''\<rparr>],
     claimTable := [activeClaim]\<rparr>"

lemmas active_rows =
  activeClaims_def activeClaim_def boundaryClaims_def sampleClaims_def newEntryClaim_def sampleIntent_def claimOfIntent_def
  claimIntentRow_def claimById_def intentById_def findClaim_def securitySymbolOf_def claimPosition_def

lemma canceled_numbers:
  "brokerFilledOf [canceledOrder] = Fin 0" "\<not> jsLt (Fin 0) (Fin 0)"
  "isTerminalBrokerOrderStatus ''canceled''" "toLowerCase ''canceled'' = ''canceled''" "toUpperCase ''canceled'' = ''CANCELED''"
  "finalStatusOf canceledOrder = ''canceled''" "chainConflict ''SPY'' [canceledOrder] = Inr False"
  by code_simp+

lemma zero_accounted: "\<not> fillsMissing (Fin 0) (Fin 0)"
proof -
  have "jsLe (Fin 0) (jsAdd (Fin 0) (rnd (1 / 1000000000)))" by (intro jsAdd_nonneg rnd_nonneg) (simp_all add: jsLe_def jsEq_def)
  then show ?thesis unfolding fillsMissing_def by (subst not_jsLt) auto
qed

lemma active_inv: "claimInv activeClaims"
  by (simp add: claimInv_def active_rows claimRowOk_def isEntryExposureClaimStatus_def CLAIM_STATUSES_def)

lemma active_view:
  "acquireTerminalView canceledBroker activeClaim ''SPY'' (Some ''c-1'') None =
     Inr \<lparr>tvChain = [canceledOrder], tvOrder = Some canceledOrder, tvPosition = None, tvOpenBuys = []\<rparr>"
  by (simp add: acquireTerminalView_def canceledBroker_def replacementChain_def canceledOrder_def spyOrder_def given_def numeral_nat)

definition releasedClaim :: claimRow where
  "releasedClaim = activeClaim\<lparr>clStatus := ''RELEASED'', clReleasedAt := Some 9, clReleaseReason := Some ''BROKER_CANCELED_NO_EXPOSURE''\<rparr>"

lemma active_transaction:
  "\<exists>r db. terminalReleaseTransaction 1 activeClaim [canceledOrder] canceledOrder (Fin 0) (Fin 0) 9 activeClaims activeClaims = Inr (r, db) \<and>
     claimTable db = [releasedClaim]"
proof -
  let ?f = "\<lambda>c. c\<lparr>clStatus := ''RELEASED'', clReleasedAt := Some 9, clReleaseReason := Some (''BROKER_'' @ toUpperCase (aoStatus canceledOrder) @ ''_NO_EXPOSURE'')\<rparr>"
  have current: "claimById (clId activeClaim) activeClaims = Some activeClaim" "clReleasedAt activeClaim = None"
    by (simp_all add: active_rows)
  have none: "countWhere (activePositionOf (clTradingAccountId activeClaim) (clSecurityId activeClaim)) (trackedPositionTable activeClaims) = 0"
    "countWhere (otherExecutableBuy activeClaim (map aoId [canceledOrder])) (brokerOrderTable activeClaims) = 0"
    "\<not> fillsMissing (accountedFills 1 activeClaims) (Fin 0)"
    using zero_accounted by (simp_all add: countWhere_def active_rows accountedFills_def jsSum_def)
  have status: "aoStatus canceledOrder = ''canceled''" by (simp add: canceledOrder_def)
  have up: "updateClaims (\<lambda>c. clId c = clId activeClaim \<and> clStatus c = clStatus activeClaim \<and> clReleasedAt c = None) ?f activeClaims =
      Inr (1, activeClaims\<lparr>claimTable := [releasedClaim]\<rparr>)"
    unfolding status canceled_numbers(5)
    by (simp add: updateClaims_def active_rows releasedClaim_def claimRowOk_def isEntryExposureClaimStatus_def CLAIM_STATUSES_def)
  have found: "claimById (clId activeClaim) (activeClaims\<lparr>claimTable := [releasedClaim]\<rparr>) \<noteq> None"
    by (simp add: active_rows releasedClaim_def)
  show ?thesis
    using current none up found by (simp add: terminalReleaseTransaction_def Let_def createEvent_def)
qed

theorem authoritative_release_leaves_no_exposure_witness:
  "\<exists>r db. releaseConfirmedTerminalEntryClaim 1 ''canceled'' False canceledBroker 9 (\<lambda>_. activeClaims) activeClaims activeClaims = Inr (r, db) \<and>
     claimTable db = [releasedClaim] \<and> tbPosition canceledBroker 7 ''SPY'' = Inr None"
proof -
  obtain r db where tx: "terminalReleaseTransaction 1 activeClaim [canceledOrder] canceledOrder (Fin 0) (Fin 0) 9 activeClaims activeClaims = Inr (r, db)"
    and table: "claimTable db = [releasedClaim]"
    using active_transaction by blast
  have rows: "claimOfIntent 1 activeClaims = Some activeClaim" "securitySymbolOf activeClaims activeClaim = ''SPY''"
    "Option.bind (claimIntentRow activeClaims activeClaim) oiClientOrderId = Some ''c-1''" "localOrderOf 1 activeClaims = None"
    "clReleasedAt activeClaim = None" "clStatus activeClaim = ''BROKER_ORDER_ACTIVE''" "claimPosition activeClaims activeClaim = None"
    "accountedFills 1 activeClaims = Fin 0"
    by (simp_all add: active_rows localOrderOf_def firstBy_def accountedFills_def jsSum_def)
  have final: "''canceled'' \<in> set FINAL_ORDER_STATUSES" by (simp add: FINAL_ORDER_STATUSES_def)
  have run: "releaseConfirmedTerminalEntryClaim 1 ''canceled'' False canceledBroker 9 (\<lambda>_. activeClaims) activeClaims activeClaims = Inr (r, db)"
    using tx final
    by (simp add: releaseConfirmedTerminalEntryClaim_def Let_def canceled_numbers zero_accounted rows active_view releaseOnView_def
        del: chainConflict.simps)
  have new: "releasedClaim \<in> set (claimTable db)" "releasedClaim \<notin> set (claimTable activeClaims)" "clReleasedAt releasedClaim \<noteq> None"
    using table by (simp_all add: releasedClaim_def active_rows)
  have "clTradingAccountId activeClaim = 7" by (simp add: active_rows)
  then have "tbPosition canceledBroker 7 ''SPY'' = Inr None"
    using authoritative_release_leaves_no_exposure[OF run new] rows by auto
  then show ?thesis using run table by blast
qed

end
