(* ===== verification/WorkerSafety.thy ===== *)
theory WorkerSafety
  imports WorkerFacts TerminalSafety OrderRiskSafety
begin

text \<open>
  What holds of the order worker and its stale recovery: an intent is sent at most once,
  and what the handler of a failure and the recovery may record of an order that was sent.
\<close>

subsection \<open>An intent is sent at most once\<close>

lemma quiet_claimIntent: "quiet (claimIntent env intent)"
  unfolding claimIntent_def Let_def by auto

lemma quiet_prepare: "quiet (prepareSubmission env intent claim)"
  unfolding prepareSubmission_def recheckRisk_def transitionA_def Let_def
  by (auto split: option.splits riskGateResult.splits)

lemma quiet_record: "quiet (recordSubmission env intent account result)"
  unfolding recordSubmission_def terminalReleaseA_def transitionA_def Let_def by (auto split: option.splits)

lemma quiet_failing: "quiet (failing env intent started e)"
proof -
  have "quiet (releaseByPlan env intent c plan)" for c plan
    unfolding releaseByPlan_def attemptReleaseAfterRecordedOutcome_def verifiedReleaseA_def verifiedReleaseAt_def recordRecoveryError_def Let_def
    by (auto split: evidencePlan.splits option.splits)
  then have "quiet (handleIn env intent c)" for c
    unfolding handleIn_def Let_def by (auto split: option.splits)
  then have "quiet (handleFailure env intent started e)" unfolding quiet_def handleFailure_def by blast
  then show ?thesis by (auto simp: failing_def)
qed

text \<open>The order, if any, that a submission sends.\<close>

lemma boundary_posts:
  assumes "submitOrderToBroker env input account i s = (r, s')"
  shows "bsPosts s' = bsPosts s \<or> bsPosts s' = bsPosts s @ [entryPost input account i]"
  using assms
proof (cases rule: boundary_run)
  case (sending claim j opportunity s2 s3)
  then show ?thesis using sendEntry_run[OF sending(7)] by auto
qed auto

lemma sendAndRecord_posts:
  assumes "sendAndRecord env intent input account s = (r, s')"
  shows "bsPosts s' = bsPosts s \<or> bsPosts s' = bsPosts s @ [entryPost input account (oiId intent)]"
  using assms[unfolded sendAndRecord_def]
proof (cases rule: bindA_cases)
  case (continue x s1)
  then show ?thesis using boundary_posts[OF continue(1)] quietD[OF quiet_record continue(2)] by auto
qed (auto dest: boundary_posts)

lemma process_posts:
  assumes "processPendingIntent env intent s0 = (r, s')"
  shows "bsPosts s' = bsPosts s0 \<or>
    (\<exists>claim s1 p. claimIntent env intent (s0\<lparr>bsPhase := UNCLASSIFIED\<rparr>) = (Inr (claim, True), s1) \<and> bsPosts s' = bsPosts s0 @ [p])"
proof -
  have fail: "bsPosts t' = bsPosts t" if "bindA (failing env intent started e) (\<lambda>r. returnA (b, r)) t = (q, t')"
    for started e and b :: bool and t q t'
  proof -
    have "quiet (bindA (failing env intent started e) (\<lambda>r. returnA (b, r)))" using quiet_failing by auto
    then show ?thesis using that unfolding quiet_def by blast
  qed
  obtain r1 s1 where one: "claimIntent env intent (s0\<lparr>bsPhase := UNCLASSIFIED\<rparr>) = (r1, s1)" by fastforce
  have p1: "bsPosts s1 = bsPosts s0" using quietD[OF quiet_claimIntent one] by simp
  show ?thesis
  proof (cases "\<exists>claim. r1 = Inr (claim, True)")
    case False
    then show ?thesis using assms one p1 fail by (cases r1) (auto simp: processPendingIntent_def)
  next
    case True
    then obtain claim where r1: "r1 = Inr (claim, True)" by blast
    obtain r2 s2 where two: "prepareSubmission env intent claim s1 = (r2, s2)" by fastforce
    have p2: "bsPosts s2 = bsPosts s0" using quietD[OF quiet_prepare two] p1 by simp
    show ?thesis
    proof (cases "\<exists>input account. r2 = Inr (Some (input, account))")
      case False
      then show ?thesis using assms one r1 two p2 fail by (auto simp: processPendingIntent_def split: sum.splits option.splits)
    next
      case True
      then obtain input account where r2: "r2 = Inr (Some (input, account))" by blast
      obtain r3 s3 where three: "sendAndRecord env intent input account s2 = (r3, s3)" by fastforce
      have "bsPosts s' = bsPosts s3"
        using assms one r1 two r2 three fail by (cases r3) (auto simp: processPendingIntent_def)
      then show ?thesis using sendAndRecord_posts[OF three] p2 one r1 by auto
    qed
  qed
qed

text \<open>The compare-and-set: it succeeds on a pending intent only, and leaves it settled.\<close>

lemma claimIntent_Inr:
  assumes "claimIntent env intent s = (Inr (claim, b), s1)"
  obtains n where "claimPendingIntent (oiId intent) (beNow (rtBoundary env) 21)
      (beOthers (rtBoundary env) 21 (beOthers (rtBoundary env) 20 (bsDb s))) = (n, bsDb s1)" and "b \<longleftrightarrow> n = 1"
proof -
  obtain c s2 where one: "dbStep (rtBoundary env) 20 (reading (requireEntryExposureClaim (oiId intent) False)) s = (Inr c, s2)"
    and rest: "bindA (dbStep (rtBoundary env) 21 (\<lambda>d. case claimPendingIntent (oiId intent) (beNow (rtBoundary env) 21) d of
        (n, d') \<Rightarrow> (Inr n, d'))) (\<lambda>count. returnA (c, count = 1)) s2 = (Inr (claim, b), s1)"
    using assms unfolding claimIntent_def Let_def by (auto elim: bindA_cases)
  obtain n where two: "dbStep (rtBoundary env) 21 (\<lambda>d. case claimPendingIntent (oiId intent) (beNow (rtBoundary env) 21) d of
        (n, d') \<Rightarrow> (Inr n, d')) s2 = (Inr n, s1)" and b: "b \<longleftrightarrow> n = 1"
    using rest by (auto simp: returnA_def elim: bindA_cases)
  have "bsDb s2 = beOthers (rtBoundary env) 20 (bsDb s)" using dbStep_Inr[OF one] by (simp add: reading_Inr)
  then show ?thesis using that[of n] b dbStep_Inr[OF two] by (simp split: prod.splits)
qed

lemma claimPending_settles:
  assumes "claimPendingIntent i now db = (n, db')" and "claimInv db'"
  shows "settledIntent i db'"
proof -
  have "orderIntentTable db' = map (\<lambda>o'. if oiId o' = i \<and> oiStatus o' = ''pending''
      then o'\<lparr>oiStatus := ''submitting'', oiUpdatedAt := now\<rparr> else o') (orderIntentTable db)"
    using assms(1) by (auto simp: claimPendingIntent_def updateIntents_def)
  then have "list_all (\<lambda>o'. oiId o' = i \<longrightarrow> oiStatus o' \<noteq> ''pending'') (orderIntentTable db')"
    by (elim ssubst) (simp add: list.pred_map o_def list.pred_True)
  then show ?thesis using assms(2) by (simp add: settledIntent_def)
qed

lemma claimPending_settled:
  assumes "claimPendingIntent i now db = (n, db')" and "settledIntent i db"
  shows "n = 0"
proof -
  have "filter (\<lambda>o'. oiId o' = i \<and> oiStatus o' = ''pending'') (orderIntentTable db) = []"
    using assms(2) by (auto simp: settledIntent_def list_all_iff filter_empty_conv)
  then show ?thesis using assms(1) by (simp add: claimPendingIntent_def updateIntents_def)
qed

lemma claimIntent_won:
  assumes "claimIntent env intent s = (Inr (claim, True), s1)" and "envKeeps claimInv (rtBoundary env)" and "claimInv (bsDb s)"
  shows "settledIntent (oiId intent) (bsDb s1)"
  by (rule claimIntent_Inr[OF assms(1)], erule claimPending_settles)
    (rule keepsD[OF claimsFact.claimed[OF assms(2)] assms(3,1)])

lemma claimIntent_lost:
  assumes "claimIntent env intent s = (Inr (claim, b), s1)" and "envKeeps (settledIntent (oiId intent)) (rtBoundary env)"
    and "settledIntent (oiId intent) (bsDb s)"
  shows "\<not> b"
proof (rule claimIntent_Inr[OF assms(1)])
  fix n
  assume run: "claimPendingIntent (oiId intent) (beNow (rtBoundary env) 21)
      (beOthers (rtBoundary env) 21 (beOthers (rtBoundary env) 20 (bsDb s))) = (n, bsDb s1)" and b: "b \<longleftrightarrow> n = 1"
  have "settledIntent (oiId intent) (beOthers (rtBoundary env) 21 (beOthers (rtBoundary env) 20 (bsDb s)))"
    by (intro envKeeps_others[OF assms(2)] assms(3))
  then show ?thesis using claimPending_settled[OF run] b by simp
qed

text \<open>The recovery of stale intents sends nothing.\<close>

lemma quiet_observe [intro!]: "quiet (observe env k opportunity i t)"
  unfolding quiet_def using observe_frame by blast

lemma quiet_recovered: "quiet (recoverIsolated env account now row)"
  unfolding recoverIsolated_def recoverOne_def linkPersisted_def lookupStale_def linkFound_def recoverAbsent_def recoverExit_def
    deferExit_def recoverEntry_def retainAcceptance_def isolate_def systemEvent_def transitionA_def Let_def
  by (auto split: prod.splits option.splits staleDisposition.splits)

lemma quiet_sweep: "quiet (sweepOne env now row)"
  unfolding sweepOne_def sweepLeased_def sweepAttempt_def sweepOutcome_def sweepVerified_def sweepError_def
    releaseAsNeverSubmitted_def recordNotSentEvidenceAndRelease_def recordAttemptResultIfStale_def verifiedReleaseAt_def
    recordRecoveryError_def Let_def
  by (auto split: prod.splits sum.splits bool.splits option.splits recoveryState.splits)

lemma quiet_admission: "quiet (recoverAdmission env account now c)"
  unfolding recoverAdmission_def releaseAbandoned_def admissionError_def recordRecoveryError_def Let_def
  by (auto split: sum.splits bool.splits option.splits admissionVerdict.splits)

lemma quiet_stale: "quiet (recoverStaleSubmittingIntentsForAccount envs sweepEnvs admissionEnvs account now)"
proof -
  have "quiet (recoverAll envs n account now rows tally)" for n rows tally
    by (induction rows arbitrary: n tally) (auto intro: quiet_recovered)
  moreover have "quiet (sweepAll sweepEnvs n now rows t)" for n rows t
    by (induction rows arbitrary: n t) (auto intro: quiet_sweep)
  moreover have "quiet (recoverAdmissions admissionEnvs n account now cs t)" for n cs t
    by (induction cs arbitrary: n t) (auto intro: quiet_admission)
  ultimately show ?thesis
    unfolding recoverStaleSubmittingIntentsForAccount_def guarded_def recoverTerminalEntryClaimsForAccount_def
      recoverStaleAdmissionClaimsForAccount_def Let_def by auto
qed

text \<open>Runs of the worker on an intent and of the recovery, each in environments of its own.\<close>

datatype 'e workerRun = ProcessRun "'e workerEnv_scheme" orderIntentRow | RecoveryRun "nat \<Rightarrow> 'e workerEnv_scheme" "nat \<Rightarrow> 'e workerEnv_scheme" "nat \<Rightarrow> 'e workerEnv_scheme" int int

fun runStep :: "'e workerRun \<Rightarrow> boundaryState \<Rightarrow> boundaryState" where
  "runStep (ProcessRun env intent) s = snd (processPendingIntent env intent s)"
| "runStep (RecoveryRun envs sweepEnvs admissionEnvs account now) s =
     snd (recoverStaleSubmittingIntentsForAccount envs sweepEnvs admissionEnvs account now s)"

definition runWorker :: "'e workerRun list \<Rightarrow> boundaryState \<Rightarrow> boundaryState" where
  "runWorker runs s = fold runStep runs s"

text \<open>The environments keep \<open>P\<close>, and it is the intent \<open>i\<close> that is processed.\<close>

fun runKeeps :: "int \<Rightarrow> (claimStore \<Rightarrow> bool) \<Rightarrow> 'e workerRun \<Rightarrow> bool" where
  "runKeeps i P (ProcessRun env intent) \<longleftrightarrow> oiId intent = i \<and> envKeeps P (rtBoundary env)"
| "runKeeps i P (RecoveryRun envs sweepEnvs admissionEnvs account now) \<longleftrightarrow> (\<forall>n. envKeeps P (rtBoundary (envs n)) \<and>
     envKeeps P (rtBoundary (sweepEnvs n)) \<and> envKeeps P (rtBoundary (admissionEnvs n)))"

lemma step_claims: "runKeeps i claimInv run \<Longrightarrow> claimInv (bsDb s) \<Longrightarrow> claimInv (bsDb (runStep run s))"
proof (cases run)
  case (ProcessRun env intent)
  then show "runKeeps i claimInv run \<Longrightarrow> claimInv (bsDb s) \<Longrightarrow> ?thesis"
    using claimsFact.processed[of env s intent] by (cases "processPendingIntent env intent s") simp
next
  case (RecoveryRun envs sweepEnvs admissionEnvs account now)
  then show "runKeeps i claimInv run \<Longrightarrow> claimInv (bsDb s) \<Longrightarrow> ?thesis"
    using keepsD[OF claimsFact.recoveredStale[of envs sweepEnvs admissionEnvs account now], of s]
    by (cases "recoverStaleSubmittingIntentsForAccount envs sweepEnvs admissionEnvs account now s") simp
qed

lemma step_settled:
  "runKeeps i (settledIntent i) run \<Longrightarrow> settledIntent i (bsDb s) \<Longrightarrow>
   settledIntent i (bsDb (runStep run s)) \<and> bsPosts (runStep run s) = bsPosts s"
proof (cases run)
  case (ProcessRun env intent)
  obtain r s1 where one: "processPendingIntent env intent s = (r, s1)" by fastforce
  show "runKeeps i (settledIntent i) run \<Longrightarrow> settledIntent i (bsDb s) \<Longrightarrow> ?thesis"
    using settledFact.processed[of i env s intent r s1] process_posts[OF one] claimIntent_lost[of env intent] ProcessRun one
    by fastforce
next
  case (RecoveryRun envs sweepEnvs admissionEnvs account now)
  then show "runKeeps i (settledIntent i) run \<Longrightarrow> settledIntent i (bsDb s) \<Longrightarrow> ?thesis"
    using keepsD[OF settledFact.recoveredStale[of i envs sweepEnvs admissionEnvs account now], of s] quietD[OF quiet_stale, of envs sweepEnvs admissionEnvs account now s]
    by (cases "recoverStaleSubmittingIntentsForAccount envs sweepEnvs admissionEnvs account now s") simp
qed

lemma settled_sends_nothing:
  "list_all (runKeeps i (settledIntent i)) runs \<Longrightarrow> settledIntent i (bsDb s) \<Longrightarrow> bsPosts (runWorker runs s) = bsPosts s"
proof (induction runs arbitrary: s)
  case (Cons run runs)
  then have "settledIntent i (bsDb (runStep run s)) \<and> bsPosts (runStep run s) = bsPosts s"
    using step_settled[of i run s] by simp
  then show ?case using Cons by (simp add: runWorker_def)
qed (simp add: runWorker_def)

lemma step_sends:
  assumes "runKeeps i claimInv run" and "runKeeps i (settledIntent i) run" and "claimInv (bsDb s)"
  shows "bsPosts (runStep run s) = bsPosts s \<or>
    (\<exists>p. bsPosts (runStep run s) = bsPosts s @ [p]) \<and> settledIntent i (bsDb (runStep run s))"
proof (cases run)
  case (ProcessRun env intent)
  obtain r s1 where one: "processPendingIntent env intent s = (r, s1)" by fastforce
  have env: "oiId intent = i" "envKeeps claimInv (rtBoundary env)" "envKeeps (settledIntent i) (rtBoundary env)"
    using assms(1,2) ProcessRun by auto
  have step: "runStep run s = s1" by (simp add: ProcessRun one)
  from process_posts[OF one] show ?thesis
  proof
    assume "\<exists>claim s2 p. claimIntent env intent (s\<lparr>bsPhase := UNCLASSIFIED\<rparr>) = (Inr (claim, True), s2) \<and>
      bsPosts s1 = bsPosts s @ [p]"
    then obtain claim s2 p where won: "claimIntent env intent (s\<lparr>bsPhase := UNCLASSIFIED\<rparr>) = (Inr (claim, True), s2)"
      and p: "bsPosts s1 = bsPosts s @ [p]" by blast
    have "settledIntent i (bsDb s2)" using claimIntent_won[OF won env(2)] assms(3) env(1) by simp
    then have "settledIntent i (bsDb s1)" by (rule settledFact.after_claim[OF env(3) won _ one])
    then show ?thesis using p unfolding step by blast
  qed (simp add: step)
next
  case (RecoveryRun envs sweepEnvs admissionEnvs account now)
  then show ?thesis using quietD[OF quiet_stale, of envs sweepEnvs admissionEnvs account now s]
    by (cases "recoverStaleSubmittingIntentsForAccount envs sweepEnvs admissionEnvs account now s") simp
qed

text \<open>C2: an order intent is sent to the broker at most once. However often the worker processes it, each time from any
  stale copy of its row, and the recovery of stale intents runs in between, with any errors, lost
  acknowledgements and deaths of the process on the way, and whatever other transactions
  do between two awaits (as long as they keep the claim tables well-formed and never make an
  intent pending again that has left that status), at most one order is sent for it.
\<close>
theorem intent_is_sent_at_most_once:
  assumes "list_all (runKeeps i claimInv) runs" and "list_all (runKeeps i (settledIntent i)) runs" and "claimInv (bsDb s)"
  shows "bsPosts (runWorker runs s) = bsPosts s \<or> (\<exists>p. bsPosts (runWorker runs s) = bsPosts s @ [p])"
  using assms
proof (induction runs arbitrary: s)
  case (Cons run runs)
  have run: "runKeeps i claimInv run" "runKeeps i (settledIntent i) run" using Cons.prems by auto
  have step: "runWorker (run # runs) s = runWorker runs (runStep run s)" by (simp add: runWorker_def)
  from step_sends[OF run Cons.prems(3)] show ?case
  proof
    assume "bsPosts (runStep run s) = bsPosts s"
    then show ?thesis using Cons.IH[of "runStep run s"] Cons.prems step_claims[OF run(1) Cons.prems(3)] unfolding step by simp
  next
    assume "(\<exists>p. bsPosts (runStep run s) = bsPosts s @ [p]) \<and> settledIntent i (bsDb (runStep run s))"
    then show ?thesis using settled_sends_nothing[of i runs "runStep run s"] Cons.prems unfolding step by auto
  qed
qed (simp add: runWorker_def)

subsection \<open>What a failed submission may record\<close>

text \<open>Errors that say nothing of a delivery; the errors of the database are such.\<close>

definition silent :: "entryError \<Rightarrow> bool" where
  "silent e \<longleftrightarrow> getBrokerWriteDeliveryClassification e = None"

definition silentFaults :: "boundaryEnv \<Rightarrow> bool" where
  "silentFaults env \<longleftrightarrow> (\<forall>k e. beFault env k \<in> {Some (BeforeCommit e), Some (AfterCommit e)} \<longrightarrow> silent e)"

definition silentErrors :: "'a action \<Rightarrow> bool" where
  "silentErrors m \<longleftrightarrow> (\<forall>s e s'. m s = (Inl e, s') \<longrightarrow> silent e)"

lemma silent_Failure [simp]: "silent (Failure e)" by (simp add: silent_def)

lemma silent_returnA [intro!]: "silentErrors (returnA x)" by (simp add: silentErrors_def returnA_def)
lemma silent_bindA [intro!]: "silentErrors m \<Longrightarrow> (\<And>x. silentErrors (f x)) \<Longrightarrow> silentErrors (bindA m f)"
  unfolding silentErrors_def by (fastforce elim!: bindA_cases)
lemma silent_catchA [intro!]: "silentErrors m \<Longrightarrow> (\<And>e. silentErrors (h e)) \<Longrightarrow> silentErrors (catchA m h)"
  unfolding silentErrors_def by (fastforce elim!: catchA_cases)
lemma silent_dbStep:
  assumes "silentFaults env" and "\<And>db e. fst (f db) = Inl e \<Longrightarrow> silent e"
  shows "silentErrors (dbStep env k f)"
  using assms unfolding silentErrors_def silentFaults_def
  by (auto simp: dbStep_def Let_def split: option.splits fault.splits)
lemma silent_transaction [intro!]: "silentFaults env \<Longrightarrow> silentErrors (dbStep env k (transaction f))"
  by (rule silent_dbStep) (auto simp: transaction_def split: sum.splits)
lemma silent_write [intro!]: "silentFaults env \<Longrightarrow> silentErrors (dbStep env k (\<lambda>d. (Inr (), f d)))"
  by (rule silent_dbStep) auto
lemma silent_dbRead [intro!]: "silentFaults env \<Longrightarrow> silentErrors (dbRead env k f)"
  unfolding dbRead_def by (rule silent_dbStep) auto
lemma silent_dbOperation [intro!]: "silentFaults env \<Longrightarrow> silentErrors (dbOperation env k n f)"
  unfolding silentErrors_def silentFaults_def
  by (auto simp: dbOperation_def Let_def transaction_def split: option.splits fault.splits sum.splits)

lemma silent_record: "silentFaults (rtBoundary env) \<Longrightarrow> silentErrors (recordSubmission env intent account result)"
  unfolding recordSubmission_def terminalReleaseA_def transitionA_def Let_def by (auto split: option.splits)

text \<open>A failed submission that had sent its order: the adapter failed, or something after its answer.\<close>

lemma sentFailure_cases:
  assumes "sendAndRecord env intent input account s = (Inl e, s')" and "bsPosts s' \<noteq> bsPosts s" and "e \<noteq> ProcessDied"
    and "silentFaults (rtBoundary env)"
  obtains (adapter) "bePost (rtBoundary env) (entryPost input account (oiId intent)) = Inl e" "bsPhase s' = DISPATCH_STARTED"
    | (recording) order where "bePost (rtBoundary env) (entryPost input account (oiId intent)) = Inr order"
        "bsPhase s' = BROKER_RESPONDED" "silent e"
  using assms(1)[unfolded sendAndRecord_def]
proof (cases rule: bindA_cases)
  case (error e')
  then have "submitOrderToBroker (rtBoundary env) input account (oiId intent) s = (Inl e, s')" by simp
  then show ?thesis
  proof (cases rule: boundary_run)
    case (sending claim j opportunity s2 s3)
    then show ?thesis using sendEntry_run[OF sending(7)] assms(2,3) adapter by auto
  qed (use assms(2) in auto)
next
  case (continue result s1)
  have frame: "bsPosts s' = bsPosts s1" "bsPhase s' = bsPhase s1" using quietD[OF quiet_record continue(2)] by auto
  have quietly: "silent e" using continue(2) silent_record[OF assms(4)] unfolding silentErrors_def by blast
  show ?thesis using continue(1)
  proof (cases rule: boundary_run)
    case (sending claim j opportunity s2 s3)
    then show ?thesis using sendEntry_run[OF sending(7)] frame quietly recording by auto
  qed (use assms(2) frame in auto)
qed

lemma persistFailure_plan:
  "persistFailure intent c records now db = Inr (plan, db') \<Longrightarrow> plan = attemptPlan c records (preDispatchProofOf intent c db)"
  by (auto simp: persistFailure_def Let_def bindR_Inr_iff)

lemma sent_plan:
  assumes "fcStarted c" and "fcPhase c \<in> {DISPATCH_STARTED, BROKER_RESPONDED}"
  shows "attemptPlan c records (preDispatchProofOf intent c db) =
    (let k = getBrokerWriteDeliveryClassification (fcError c) in
     if k \<in> {Some NOT_SENT_BLOCKED, Some NOT_SENT_RETRYABLE} \<and> (\<exists>r. records = Some r \<and> \<not> drsPresent r) then
       NotSentPlan (entryDispatchOutcomeFor k) ''ADAPTER_LOCAL_GUARD'' (writeClassificationText (the k)) False
     else OutcomePlan (entryDispatchOutcomeFor k))"
proof -
  have "\<not> definitelyNotDispatched c" "\<not> preDispatchCandidate c"
    using assms by (auto simp: definitelyNotDispatched_def preDispatchCandidate_def)
  then show ?thesis
    by (auto simp: attemptPlan_def preDispatchProofOf_def provenNotSent_def conservativePlan_def dispatchRefusal_def
        recordedNotSent_def writeClassificationOf_def Let_def split: option.splits)
qed

text \<open>The event that an outcome leaves, with its evidence.\<close>

lemma outcomeEvidence_class:
  assumes "ceEventType e = ''DISPATCH_OUTCOME_RECORDED''" and "ceEvidenceJson e = outcomeEvidence args records c"
  shows "isRecord e \<and> doKind (outcomeOf e) = OUTCOME \<and> doClassification (outcomeOf e) = oaClassification args"
  using assms
  by (simp add: isRecord_def outcomeOf_def Let_def outcomeEvidence_def recordIdentity_def stringOr_def jsonGet_def
      NOT_SENT_EVIDENCE_EVENT_def DISPATCH_OUTCOME_EVENT_TYPES_def)

lemma notSentEvidence_class:
  assumes "ceEventType e = NOT_SENT_EVIDENCE_EVENT" and "ceEvidenceJson e = notSentEvidence k p src i r msg pf"
  shows "isRecord e \<and> doKind (outcomeOf e) = NOT_SENT \<and> doClassification (outcomeOf e) = k"
  using assms by (cases pf) (simp_all add: isRecord_def outcomeOf_def Let_def notSentEvidence_def stringOr_def jsonGet_def)

lemma transition_events:
  assumes "transitionEntryExposureClaim i st t (Some ev) now observed db = Inr (r, db')" and "e \<in> set (claimEventTable db')"
  shows "e \<in> set (claimEventTable db) \<or> ceEventType e = t \<and> ceEvidenceJson e = ev"
  using assms
  by (auto simp: transitionEntryExposureClaim_def Let_def bindR_Inr_iff updateClaims_Inr appendEvent_def
      split: option.splits if_splits)

lemma recordOutcome_evidence:
  assumes "recordEntryDispatchOutcome args now reads db = Inr (r, db')" and "e \<in> set (claimEventTable db')"
    and "e \<notin> set (claimEventTable db)" and "isRecord e"
  shows "\<exists>records c. ceEventType e = ''DISPATCH_OUTCOME_RECORDED'' \<and> ceEvidenceJson e = outcomeEvidence args records c"
proof -
  consider "db' = db" | c ev x where "appendClaimDiagnostic c ''DISPATCH_OUTCOME_NOT_APPLIED'' ev now db = Inr (x, db')"
    | i st x records c where "transitionEntryExposureClaim i st ''DISPATCH_OUTCOME_RECORDED''
        (Some (outcomeEvidence args records c)) now (reads 2) db = Inr (x, db')"
    using assms(1) by (auto simp: recordEntryDispatchOutcome_def Let_def bindR_Inr_iff split: option.splits if_splits)
  then show ?thesis
  proof cases
    case 2
    then show ?thesis using assms(2-4)
      by (auto simp: appendClaimDiagnostic_def Let_def bindR_Inr_iff updateClaims_Inr appendEvent_def isRecord_def
          DISPATCH_OUTCOME_EVENT_TYPES_def NOT_SENT_EVIDENCE_EVENT_def split: option.splits if_splits)
  next
    case 3
    then show ?thesis using transition_events[OF 3 assms(2)] assms(3) by blast
  qed (use assms(2,3) in simp)
qed

text \<open>A claim that has not left the pre-dispatch statuses always gets the event and becomes unresolved.\<close>

lemma recordOutcome_held:
  assumes inv: "claimInv db" and run: "recordEntryDispatchOutcome args now (\<lambda>_. db) db = Inr (r, db')"
    and claim: "claimOfIntent (oaOrderIntentId args) db = Some claim" "clReleasedAt claim = None"
      "clStatus claim \<in> set PRE_DISPATCH_CLAIM_STATUSES"
  shows "\<exists>e records c. claimEventTable db' = claimEventTable db @ [e] \<and> ceClaimId e = clId claim \<and>
    ceEventType e = ''DISPATCH_OUTCOME_RECORDED'' \<and> ceEvidenceJson e = outcomeEvidence args records c \<and>
    map_option clStatus (claimById (clId claim) db') = Some ''UNRESOLVED''"
proof -
  have c: "claim \<in> set (claimTable db)" using claim(1) findClaim_SomeD unfolding claimOfIntent_def by blast
  have st: "clStatus claim \<in> set RECOVERABLE_CLAIM_STATUSES" "clStatus claim \<noteq> ''UNRESOLVED''"
    using claim(3) by (auto simp: RECOVERABLE_CLAIM_STATUSES_def PRE_DISPATCH_CLAIM_STATUSES_def)
  obtain records k x where trans: "transitionEntryExposureClaim (oaOrderIntentId args) ''UNRESOLVED'' ''DISPATCH_OUTCOME_RECORDED''
      (Some (outcomeEvidence args records k)) now db db = Inr (x, db')"
    using run claim(1,2) st by (auto simp: recordEntryDispatchOutcome_def Let_def bindR_Inr_iff split: if_splits)
  let ?P = "\<lambda>c. clId c = clId claim \<and> clStatus c = clStatus claim \<and> clReleasedAt c = None"
  have req: "requireEntryExposureClaim (oaOrderIntentId args) True db = Inr claim"
    using claim by (simp add: requireClaim_Inr)
  obtain n db1 where up: "updateClaims ?P (\<lambda>c. c\<lparr>clStatus := ''UNRESOLVED''\<rparr>) db = Inr (n, db1)"
    and rest: "n = 1 \<Longrightarrow> db' = appendEvent (clId claim) ''DISPATCH_OUTCOME_RECORDED'' (outcomeEvidence args records k) now db1"
    using trans st(2) by (auto simp: transitionEntryExposureClaim_def req Let_def bindR_Inr_iff split: if_splits)
  have one: "n = 1" "claimById (clId claim) db1 = Some (claim\<lparr>clStatus := ''UNRESOLVED''\<rparr>)"
    by (rule updateClaims_one[OF inv c _ up]; simp add: claim(2))+
  have "claimEventTable db1 = claimEventTable db" using up by (simp add: updateClaims_Inr)
  then show ?thesis
    using rest one by (auto simp: appendEvent_def claimById_def findClaim_def)
qed

text \<open>The writes of a failure, on the claim tables of the database it started from.\<close>

lemma persistFailure_writes:
  assumes "persistFailure intent c records now db = Inr (plan, db')"
  obtains db1 where "claimPart db1 = claimPart db"
    "writePlan intent c records (preDispatchProofOf intent c db) now db1 = Inr ((), db')"
proof -
  let ?p = "preDispatchProofOf intent c db"
  obtain db1 where db1: "updateIntent (oiId intent) (\<lambda>o'. o'\<lparr>oiStatus := failedStatus intent c ?p,
        oiBlockReason := Some (attemptBlockReason intent c ?p)\<rparr>) now db = Inr ((), db1)"
    and w: "writePlan intent c records ?p now (markAcceptanceRun intent c ?p now db1) = Inr ((), db')"
    using assms by (auto simp: persistFailure_def Let_def bindR_Inr_iff)
  have "claimPart db1 = claimPart db"
    using db1 by (auto simp: updateIntent_def updateIntents_def claimPart_def split: if_splits)
  then have "claimPart (markAcceptanceRun intent c ?p now db1) = claimPart db"
    by (simp add: markAcceptanceRun_def claimPart_def split: option.split)
  then show ?thesis using w by (rule that)
qed

text \<open>What the handler of a sent order writes: the classification and whether it denies the write.\<close>

lemma writePlan_records:
  assumes "writePlan intent c records p now db1 = Inr ((), db')" and "claimPart db1 = claimPart db" and "claimInv db"
    and "attemptPlan c records p = OutcomePlan k \<and> \<not> denied \<or>
      (\<exists>producer reason attempted. attemptPlan c records p = NotSentPlan k producer reason attempted \<and> denied)"
  shows "e \<in> set (claimEventTable db') \<Longrightarrow> e \<notin> set (claimEventTable db) \<Longrightarrow> isRecord e \<Longrightarrow>
      doClassification (outcomeOf e) = k \<and> (doKind (outcomeOf e) = NOT_SENT \<longleftrightarrow> denied)"
    and "claimOfIntent (oiId intent) db = Some claim \<Longrightarrow> clReleasedAt claim = None \<Longrightarrow>
      clStatus claim \<in> set PRE_DISPATCH_CLAIM_STATUSES \<Longrightarrow>
      \<exists>e. claimEventTable db' = claimEventTable db @ [e] \<and> ceClaimId e = clId claim \<and> isRecord e \<and>
        (denied \<or> map_option clStatus (claimById (clId claim) db') = Some ''UNRESOLVED'')"
proof -
  have tables: "claimEventTable db1 = claimEventTable db" "claimOfIntent i db1 = claimOfIntent i db" "claimInv db1" for i
    using assms(2,3) claimPart_cong[OF assms(2)] by (simp_all add: claimPart_def claimOfIntent_def findClaim_def)
  consider (outcome) "attemptPlan c records p = OutcomePlan k" "\<not> denied"
    | (notSent) producer reason attempted where "attemptPlan c records p = NotSentPlan k producer reason attempted" "denied"
    using assms(4) by blast
  then have both: "(e \<in> set (claimEventTable db') \<longrightarrow> e \<notin> set (claimEventTable db) \<longrightarrow> isRecord e \<longrightarrow>
      doClassification (outcomeOf e) = k \<and> (doKind (outcomeOf e) = NOT_SENT \<longleftrightarrow> denied)) \<and>
    (claimOfIntent (oiId intent) db = Some claim \<longrightarrow> clReleasedAt claim = None \<longrightarrow>
      clStatus claim \<in> set PRE_DISPATCH_CLAIM_STATUSES \<longrightarrow>
      (\<exists>e. claimEventTable db' = claimEventTable db @ [e] \<and> ceClaimId e = clId claim \<and> isRecord e \<and>
        (denied \<or> map_option clStatus (claimById (clId claim) db') = Some ''UNRESOLVED'')))" for e claim
  proof cases
    case outcome
    obtain args r where run: "recordEntryDispatchOutcome args now (\<lambda>_. db1) db1 = Inr (r, db')"
      and args: "oaOrderIntentId args = oiId intent" "oaClassification args = k"
      using assms(1) outcome(1) by (auto simp: writePlan_def bindR_Inr_iff)
    have kind: "isRecord e' \<and> doKind (outcomeOf e') \<noteq> NOT_SENT \<and> doClassification (outcomeOf e') = k"
      if "ceEventType e' = ''DISPATCH_OUTCOME_RECORDED''" "ceEvidenceJson e' = outcomeEvidence args records c" for e' records c
      using outcomeEvidence_class[OF that] args(2) by simp
    have "doClassification (outcomeOf e) = k \<and> (doKind (outcomeOf e) = NOT_SENT \<longleftrightarrow> denied)"
      if "e \<in> set (claimEventTable db')" "e \<notin> set (claimEventTable db)" "isRecord e"
      using recordOutcome_evidence[OF run that(1) _ that(3)] that(2) kind outcome(2) by (auto simp: tables)
    moreover have "\<exists>e. claimEventTable db' = claimEventTable db @ [e] \<and> ceClaimId e = clId claim \<and> isRecord e \<and>
        (denied \<or> map_option clStatus (claimById (clId claim) db') = Some ''UNRESOLVED'')"
      if "claimOfIntent (oiId intent) db = Some claim" "clReleasedAt claim = None" "clStatus claim \<in> set PRE_DISPATCH_CLAIM_STATUSES"
      using recordOutcome_held[OF tables(3) run _ that(2,3)] that(1) kind by (auto simp: tables args(1))
    ultimately show ?thesis by blast
  next
    case notSent
    then consider (none) "db' = db1" "\<And>d. claimOfIntent (oiId intent) db = Some d \<Longrightarrow>
        \<not> (clReleasedAt d = None \<and> clStatus d \<in> set PRE_DISPATCH_CLAIM_STATUSES)"
      | (written) d src i msg pf where "claimOfIntent (oiId intent) db = Some d"
        "db' = appendEvent (clId d) NOT_SENT_EVIDENCE_EVENT (notSentEvidence k producer src i reason msg pf) now db1"
      using assms(1) by (auto simp: writePlan_def tables appendNotSentEvidence_def createEvent_def split: option.splits if_splits)
    then show ?thesis
    proof cases
      case written
      then show ?thesis using notSentEvidence_class notSent(2) by (auto simp: appendEvent_def tables)
    qed (auto simp: tables)
  qed
  then show "e \<in> set (claimEventTable db') \<Longrightarrow> e \<notin> set (claimEventTable db) \<Longrightarrow> isRecord e \<Longrightarrow>
      doClassification (outcomeOf e) = k \<and> (doKind (outcomeOf e) = NOT_SENT \<longleftrightarrow> denied)"
    "claimOfIntent (oiId intent) db = Some claim \<Longrightarrow> clReleasedAt claim = None \<Longrightarrow>
      clStatus claim \<in> set PRE_DISPATCH_CLAIM_STATUSES \<Longrightarrow>
      \<exists>e. claimEventTable db' = claimEventTable db @ [e] \<and> ceClaimId e = clId claim \<and> isRecord e \<and>
        (denied \<or> map_option clStatus (claimById (clId claim) db') = Some ''UNRESOLVED'')"
    by blast+
qed

text \<open>The broker's answer, as the handler classifies it.\<close>

definition answerClass :: "entryError + alpacaOrder \<Rightarrow> string" where
  "answerClass answer =
     (case answer of
        Inr order \<Rightarrow> ''DELIVERY_UNCERTAIN''
      | Inl e \<Rightarrow>
        (case getBrokerWriteDeliveryClassification e of
           Some NOT_SENT_BLOCKED \<Rightarrow> ''NOT_SENT_LOCAL_BLOCKED''
         | Some NOT_SENT_RETRYABLE \<Rightarrow> ''NOT_SENT_LOCAL_RETRYABLE''
         | Some BROKER_REJECTED \<Rightarrow> ''BROKER_REJECTED''
         | _ \<Rightarrow> ''DELIVERY_UNCERTAIN''))"

lemma sentFailure_plan:
  assumes "sendAndRecord env intent input account s = (Inl e, s')" and "bsPosts s' \<noteq> bsPosts s" and "e \<noteq> ProcessDied"
    and "silentFaults (rtBoundary env)"
    and "fcStarted c" "fcPhase c = bsPhase s'" "fcError c = e"
    and k: "k = answerClass (bePost (rtBoundary env) (entryPost input account (oiId intent)))"
    and d: "denied \<longleftrightarrow> k \<in> {''NOT_SENT_LOCAL_BLOCKED'', ''NOT_SENT_LOCAL_RETRYABLE''} \<and> (\<exists>r. records = Some r \<and> \<not> drsPresent r)"
  shows "attemptPlan c records (preDispatchProofOf intent c db) = OutcomePlan k \<and> \<not> denied \<or>
    (\<exists>producer reason attempted. attemptPlan c records (preDispatchProofOf intent c db) = NotSentPlan k producer reason attempted \<and> denied)"
  using assms(1-4)
proof (cases rule: sentFailure_cases)
  case adapter
  then show ?thesis using sent_plan[of c] assms(5-7) unfolding k d
    by (auto simp: answerClass_def Let_def split: option.splits writeClassification.splits)
next
  case (recording order)
  then show ?thesis using sent_plan[of c] assms(5-7) unfolding k d
    by (simp add: answerClass_def silent_def)
qed

text \<open>C13: what the worker records of a failed submission follows its delivery. When an order was sent and the
  submission failed, the handler classifies the delivery by the broker's answer alone: an order that was accepted, and
  every error but three, is an uncertain delivery; a refusal by the broker is a rejection; a refusal by the adapter
  itself is a local block or retry. Every delivery record that the transaction of the failure adds to the claim events carries
  exactly that classification, and it denies the write (a not-sent record) only for a refusal by the adapter when no
  local record of a dispatch exists. When the claim of the intent is still held in a pre-dispatch status, exactly
  one such record is added, to that claim, which becomes UNRESOLVED unless the record denies the write.
\<close>
theorem failed_submission_recorded_by_delivery:
  assumes "sendAndRecord env intent input account s = (Inl e, s')" and "e \<noteq> ProcessDied"
    and "bsPosts s' \<noteq> bsPosts s" and "silentFaults (rtBoundary env)" and "claimInv db"
    and "persistFailure intent \<lparr>fcStarted = True, fcPhase = bsPhase s', fcError = e\<rparr> records now db = Inr (plan, db')"
  shows "let k = answerClass (bePost (rtBoundary env) (entryPost input account (oiId intent)));
      denied = (k \<in> {''NOT_SENT_LOCAL_BLOCKED'', ''NOT_SENT_LOCAL_RETRYABLE''} \<and> (\<exists>r. records = Some r \<and> \<not> drsPresent r))
    in planClassification plan = k \<and>
      ((\<exists>producer reason attempted. plan = NotSentPlan k producer reason attempted) \<longleftrightarrow> denied) \<and>
      (\<forall>e\<in>set (claimEventTable db') - set (claimEventTable db). isRecord e \<longrightarrow>
         doClassification (outcomeOf e) = k \<and> (doKind (outcomeOf e) = NOT_SENT \<longleftrightarrow> denied)) \<and>
      (\<forall>claim. claimOfIntent (oiId intent) db = Some claim \<longrightarrow> clReleasedAt claim = None \<longrightarrow>
         clStatus claim \<in> set PRE_DISPATCH_CLAIM_STATUSES \<longrightarrow>
         (\<exists>e. claimEventTable db' = claimEventTable db @ [e] \<and> ceClaimId e = clId claim \<and> isRecord e \<and>
            (denied \<or> map_option clStatus (claimById (clId claim) db') = Some ''UNRESOLVED'')))"
proof -
  let ?c = "\<lparr>fcStarted = True, fcPhase = bsPhase s', fcError = e\<rparr>"
  define k where "k = answerClass (bePost (rtBoundary env) (entryPost input account (oiId intent)))"
  define denied where "denied \<longleftrightarrow> k \<in> {''NOT_SENT_LOCAL_BLOCKED'', ''NOT_SENT_LOCAL_RETRYABLE''} \<and> (\<exists>r. records = Some r \<and> \<not> drsPresent r)"
  have plan: "attemptPlan ?c records (preDispatchProofOf intent ?c db) = OutcomePlan k \<and> \<not> denied \<or>
    (\<exists>producer reason attempted. attemptPlan ?c records (preDispatchProofOf intent ?c db) = NotSentPlan k producer reason attempted \<and> denied)"
    by (rule sentFailure_plan[OF assms(1,3,2,4) _ _ _ k_def denied_def]) simp_all
  obtain db1 where db1: "claimPart db1 = claimPart db"
    and writes: "writePlan intent ?c records (preDispatchProofOf intent ?c db) now db1 = Inr ((), db')"
    using persistFailure_writes[OF assms(6)] .
  note recorded = writePlan_records[OF writes db1 assms(5) plan]
  show ?thesis
    unfolding Let_def k_def[symmetric] denied_def[symmetric]
    using plan persistFailure_plan[OF assms(6)] recorded by auto
qed

subsection \<open>What the recovery may record of an order that was sent\<close>





subsection \<open>Runs of a worker whose broker rejects the order\<close>

definition rejection :: entryError where
  "rejection = BrokerWriteDeliveryError BROKER_REJECTED (Some 422) ''insufficient buying power''"

definition sampleWorker :: workerEnv where
  "sampleWorker =
     \<lparr>rtBoundary = dyingEnv\<lparr>beDies := (\<lambda>_. False), bePost := (\<lambda>p. Inl rejection)\<rparr>,
      rtBroker = (\<lambda>_ _ _. Inl ''down''), rtHash = (\<lambda>_. ''hash''), rtLibraryCode = (\<lambda>_. None),
      wkParse = (\<lambda>_. Inl (workerError ''invalid'')), wkRisk = sampleEnv,
      wkTerminal = \<lparr>tbOrderById = (\<lambda>_ _. Inr None), tbOrderByClientOrderId = (\<lambda>_ _. Inr None),
        tbPosition = (\<lambda>_ _. Inr None), tbOpenBuys = (\<lambda>_ _. Inr [])\<rparr>\<rparr>"

definition sampleRow :: orderIntentRow where
  "sampleRow = sampleIntent\<lparr>oiStatus := ''submitting'', oiClientOrderId := Some ''c-1''\<rparr>"

lemma sampleRow_id [simp]: "oiId sampleRow = 1" by (simp add: sampleRow_def sampleIntent_def)

theorem intent_is_sent_at_most_once_witness:
  "length (bsPosts (runWorker [ProcessRun sampleWorker sampleRow, RecoveryRun (\<lambda>_. sampleWorker) (\<lambda>_. sampleWorker) (\<lambda>_. sampleWorker) 7 400000,
     ProcessRun sampleWorker sampleRow] sampleBoundary)) \<le> 1"
proof -
  have "envKeeps P (rtBoundary sampleWorker)" for P by (simp add: envKeeps_def sampleWorker_def dyingEnv_def)
  then have "list_all (runKeeps 1 P) [ProcessRun sampleWorker sampleRow, RecoveryRun (\<lambda>_. sampleWorker) (\<lambda>_. sampleWorker) (\<lambda>_. sampleWorker) 7 400000,
      ProcessRun sampleWorker sampleRow]" for P by simp
  from intent_is_sent_at_most_once[OF this this, of sampleBoundary] show ?thesis
    using boundaryClaims_inv by (auto simp: sampleBoundary_def)
qed

lemma sample_rejected:
  "\<exists>s'. sendAndRecord sampleWorker sampleRow spyEntry 7 sampleBoundary = (Inl rejection, s') \<and>
    bsPosts s' = [entryPost spyEntry 7 1] \<and> bsPhase s' = DISPATCH_STARTED"
  using sample_executable sample_evidence sample_claim
  by (simp add: sendAndRecord_def submitOrderToBroker_eq dbStep_def reading_def dyingEnv_def spyEntry_def sampleBoundary_def Let_def
     authorizeEntry_def sendEntry_def bindA_def setPhase_def observe_def liveStep_def adapterCall_def post_def returnA_def
     transaction_def recordAdapterInvocationStarted_def createEvent_def newEntryClaim_def nullish_def sampleWorker_def
     rejection_def throwA_def)

definition noDispatchRecord :: dispatchRecords where
  "noDispatchRecord = loadEntryDispatchRecords 1 boundaryClaims"

lemma sample_transition:
  "\<exists>db' x. transitionEntryExposureClaim 1 ''UNRESOLVED'' t ev now
     (boundaryClaims\<lparr>orderIntentTable := os\<rparr>) (boundaryClaims\<lparr>orderIntentTable := os\<rparr>) = Inr (x, db')"
proof -
  have "canTransitionEntryExposureClaim ''ENTRY_SUBMITTING'' ''UNRESOLVED''" "isEntryExposureClaimStatus ''UNRESOLVED''" by code_simp+
  then show ?thesis
    by (simp add: transitionEntryExposureClaim_def Let_def requireEntryExposureClaim_def claimOfIntent_def findClaim_def
        boundaryClaims_def newEntryClaim_def updateClaims_def claimRowOk_def)
qed

lemma sample_persisted:
  "\<exists>plan db'. persistFailure sampleRow \<lparr>fcStarted = True, fcPhase = DISPATCH_STARTED, fcError = rejection\<rparr>
     (Some noDispatchRecord) 50 boundaryClaims = Inr (plan, db')"
proof -
  have found: "intentById 1 boundaryClaims \<noteq> None" by (simp add: intentById_def boundaryClaims_def sampleIntent_def)
  obtain os where os: "snd (updateIntents P f now boundaryClaims) = boundaryClaims\<lparr>orderIntentTable := os P f now\<rparr>" for P f now
    by (simp add: updateIntents_def)
  have claim: "claimOfIntent 1 (boundaryClaims\<lparr>orderIntentTable := o'\<rparr>) =
      Some ((newEntryClaim 7 11 1 ''entry:7:a'')\<lparr>clId := 1, clStatus := ''ENTRY_SUBMITTING''\<rparr>)" for o'
    by (simp add: claimOfIntent_def findClaim_def boundaryClaims_def newEntryClaim_def)
  have run: "oiLiveEntryAcceptanceRunId sampleRow = None" by (simp add: sampleRow_def sampleIntent_def)
  show ?thesis
    using found sample_transition
    by (simp add: persistFailure_def Let_def preDispatchProofOf_def preDispatchCandidate_def updateIntent_def os
      writePlan_def attemptPlan_def provenNotSent_def conservativePlan_def recordedNotSent_def
      definitelyNotDispatched_def writeClassificationOf_def dispatchRefusal_def rejection_def bindR_Inr_iff
      recordEntryDispatchOutcome_def claim markAcceptanceRun_def run RECOVERABLE_CLAIM_STATUSES_def PRE_DISPATCH_CLAIM_STATUSES_def
      newEntryClaim_def)
qed

theorem failed_submission_recorded_by_delivery_witness:
  "\<exists>s' db' e. sendAndRecord sampleWorker sampleRow spyEntry 7 sampleBoundary = (Inl rejection, s') \<and>
    persistFailure sampleRow \<lparr>fcStarted = True, fcPhase = bsPhase s', fcError = rejection\<rparr> (Some noDispatchRecord) 50
      boundaryClaims = Inr (OutcomePlan ''BROKER_REJECTED'', db') \<and>
    claimEventTable db' = [e] \<and> ceClaimId e = 1 \<and> doClassification (outcomeOf e) = ''BROKER_REJECTED'' \<and>
    map_option clStatus (claimById 1 db') = Some ''UNRESOLVED''"
proof -
  obtain s' where run: "sendAndRecord sampleWorker sampleRow spyEntry 7 sampleBoundary = (Inl rejection, s')"
    and posts: "bsPosts s' \<noteq> bsPosts sampleBoundary" and phase: "bsPhase s' = DISPATCH_STARTED"
    using sample_rejected by (auto simp: sampleBoundary_def)
  obtain plan db' where written: "persistFailure sampleRow \<lparr>fcStarted = True, fcPhase = bsPhase s', fcError = rejection\<rparr>
      (Some noDispatchRecord) 50 boundaryClaims = Inr (plan, db')"
    using sample_persisted phase by metis
  have silent: "silentFaults (rtBoundary sampleWorker)" by (simp add: silentFaults_def sampleWorker_def dyingEnv_def)
  have answer: "answerClass (bePost (rtBoundary sampleWorker) p) = ''BROKER_REJECTED''" for p
    by (simp add: answerClass_def sampleWorker_def rejection_def)
  have claim: "claimOfIntent (oiId sampleRow) boundaryClaims =
      Some ((newEntryClaim 7 11 1 ''entry:7:a'')\<lparr>clId := 1, clStatus := ''ENTRY_SUBMITTING''\<rparr>)"
    by (simp add: claimOfIntent_def findClaim_def boundaryClaims_def newEntryClaim_def)
  have empty: "claimEventTable boundaryClaims = []" by (simp add: boundaryClaims_def sampleClaims_def)
  have "rejection \<noteq> ProcessDied" by (simp add: rejection_def)
  note all = failed_submission_recorded_by_delivery[OF run this posts silent boundaryClaims_inv written, unfolded answer Let_def]
  have "plan = OutcomePlan ''BROKER_REJECTED''" using all by (cases plan) auto
  moreover obtain e where "claimEventTable db' = [e]" "ceClaimId e = 1" "isRecord e"
      "map_option clStatus (claimById 1 db') = Some ''UNRESOLVED''"
    using all claim empty by (auto simp: PRE_DISPATCH_CLAIM_STATUSES_def newEntryClaim_def)
  moreover have "doClassification (outcomeOf e) = ''BROKER_REJECTED''"
    using all calculation empty by auto
  ultimately show ?thesis using run written by blast
qed


end
