(* ===== verification/HeldClaims.thy ===== *)
theory HeldClaims
  imports RecoverySafety
begin

text \<open>
  Which transactions can release the claim of an order that was sent: none before an outcome
  is recorded, apart from the authoritative release on the broker's own records.
\<close>

subsection \<open>Operations that release no claim\<close>

definition releasesNothing :: "claimStore \<Rightarrow> claimStore \<Rightarrow> bool" where
  "releasesNothing db db' \<longleftrightarrow>
     (\<forall>c'\<in>set (claimTable db'). clReleasedAt c' \<noteq> None \<longrightarrow>
       (\<exists>c\<in>set (claimTable db). clId c = clId c' \<and> clReleasedAt c \<noteq> None))"

lemma releasesNothing_same: "claimTable db' = claimTable db \<Longrightarrow> releasesNothing db db'"
  by (auto simp: releasesNothing_def)

lemma releasesNothing_trans: "releasesNothing a b \<Longrightarrow> releasesNothing b c \<Longrightarrow> releasesNothing a c"
  unfolding releasesNothing_def by metis

lemma appendEvent_keeps [simp]: "claimTable (appendEvent i t ev now db) = claimTable db"
  by (simp add: appendEvent_def)

lemma update_releasesNothing:
  assumes "updateClaims P f db = Inr (n, db')" and "\<And>c. clId (f c) = clId c" "\<And>c. clReleasedAt (f c) = clReleasedAt c"
  shows "releasesNothing db db'"
  using assms by (auto simp: updateClaims_Inr releasesNothing_def)

lemma insert_releasesNothing:
  "insertClaim c t ev now db = Inr (c', db') \<Longrightarrow> clReleasedAt c = None \<Longrightarrow> releasesNothing db db'"
  by (auto simp: insertClaim_Inr releasesNothing_def)

lemma createEvent_table: "createEvent i t ev now db = Inr (u, db') \<Longrightarrow> claimTable db' = claimTable db"
  by (auto simp: createEvent_def split: if_splits)

lemma diagnostic_releasesNothing:
  assumes "appendClaimDiagnostic i t ev now db = Inr (x, db')"
  shows "releasesNothing db db'"
proof -
  have "db' = db \<or> (\<exists>P n db1. claimTable db1 = claimTable db \<and>
      updateClaims P (\<lambda>c. c\<lparr>clLastDiagnosedAt := Some now\<rparr>) db1 = Inr (n, db'))"
    using assms by (auto simp: appendClaimDiagnostic_def Let_def bindR_Inr_iff split: option.splits if_splits)
  then show ?thesis
    using releasesNothing_same update_releasesNothing[where f = "\<lambda>c. c\<lparr>clLastDiagnosedAt := Some now\<rparr>"]
      releasesNothing_trans by fastforce
qed

lemma unresolved_releasesNothing:
  assumes "markClaimUnresolved i t ev now db = Inr (x, db')"
  shows "releasesNothing db db'"
proof -
  have "db' = db \<or> (\<exists>P n db1. claimTable db' = claimTable db1 \<and>
      updateClaims P (\<lambda>c. c\<lparr>clStatus := ''UNRESOLVED'', clLastDiagnosedAt := Some now\<rparr>) db = Inr (n, db1))"
    using assms by (auto simp: markClaimUnresolved_def Let_def bindR_Inr_iff split: option.splits if_splits)
  then show ?thesis
    using releasesNothing_same releasesNothing_trans
      update_releasesNothing[where f = "\<lambda>c. c\<lparr>clStatus := ''UNRESOLVED'', clLastDiagnosedAt := Some now\<rparr>"] by fastforce
qed

lemma transition_releasesNothing:
  assumes "transitionEntryExposureClaim i st t ev now observed db = Inr (r, db')"
  shows "releasesNothing db db'"
  using assms
proof (cases rule: transition_cases)
  case (written c n db1 e)
  have "releasesNothing db db1" by (rule update_releasesNothing[OF written(1)]) simp_all
  then show ?thesis using written(2) releasesNothing_trans releasesNothing_same by fastforce
qed (simp_all add: releasesNothing_same)

lemma acquire_releasesNothing:
  assumes "keepsClaims createIntent" and "acquireEntryExposureClaim createIntent a s k now db = Inr (r, db')"
  shows "releasesNothing db db'"
  using assms(2)
proof (cases rule: acquire_cases)
  case (fresh security i db1 c t ev)
  have "releasesNothing db db1"
    using assms(1) fresh(4) by (intro releasesNothing_same) (simp add: keepsClaims_def claimPart_def)
  moreover have "releasesNothing db1 db'"
    by (rule insert_releasesNothing[OF fresh(5)]) (simp add: newEntryClaim_def)
  ultimately show ?thesis by (rule releasesNothing_trans)
qed (simp add: releasesNothing_same)

lemma update_event_releasesNothing:
  assumes "updateClaims P f db = Inr (n, db1)" and "\<And>c. clId (f c) = clId c" "\<And>c. clReleasedAt (f c) = clReleasedAt c"
  shows "releasesNothing db (appendEvent i t ev now db1)"
  using update_releasesNothing[OF assms] by (simp add: releasesNothing_def)

lemma attach_releasesNothing:
  assumes "attachEntryExposureClaimToPosition a s p symb e now db = Inr (r, db')"
  shows "releasesNothing db db'"
proof (cases "findClaim (activeClaimWhere a s) db")
  case None
  then obtain c t ev where "insertClaim (positionClaim a s p now) t ev now db = Inr (c, db')"
    using assms by (auto simp: attachEntryExposureClaimToPosition_def Let_def bindR_Inr_iff)
  then show ?thesis by (rule insert_releasesNothing) (simp add: positionClaim_def)
next
  case (Some active)
  then show ?thesis using assms
    by (auto simp: attachEntryExposureClaimToPosition_def Let_def bindR_Inr_iff split: if_splits
        intro: unresolved_releasesNothing releasesNothing_same
        elim: update_releasesNothing update_event_releasesNothing)
qed

lemma outcome_releasesNothing:
  assumes "recordEntryDispatchOutcome args now reads db = Inr (r, db')"
  shows "releasesNothing db db'"
proof -
  have "db' = db \<or> (\<exists>c t ev x. appendClaimDiagnostic c t ev now db = Inr (x, db')) \<or>
      (\<exists>i st t ev x. transitionEntryExposureClaim i st t ev now (reads 2) db = Inr (x, db'))"
    using assms by (auto simp: recordEntryDispatchOutcome_def Let_def bindR_Inr_iff split: option.splits if_splits)
  then show ?thesis
    using releasesNothing_same diagnostic_releasesNothing transition_releasesNothing by blast
qed

lemma missing_releasesNothing:
  assumes "recordMissingLocalBrokerOrderDiagnostic i coid st now db = Inr (r, db')"
  shows "releasesNothing db db'"
  using assms diagnostic_releasesNothing releasesNothing_same
  by (auto simp: recordMissingLocalBrokerOrderDiagnostic_def split: option.splits if_splits)

lemma lease_releasesNothing:
  assumes "leaseRecoveryAttempt c now db = Inr (r, db') \<or> keepAttemptTime c now db = Inr (r', db')"
  shows "releasesNothing db db'"
proof -
  obtain P n where "updateClaims P (\<lambda>d. d\<lparr>clLastDiagnosedAt := Some now\<rparr>) db = Inr (n, db')"
    using assms by (auto simp: leaseRecoveryAttempt_def keepAttemptTime_def bindR_Inr_iff)
  then show ?thesis by (rule update_releasesNothing) simp_all
qed

lemma rolloutAdopt_releasesNothing:
  "adoptRolloutPosition a s p symb now db = Inr (r, db') \<Longrightarrow> releasesNothing db db'"
  using insert_releasesNothing releasesNothing_same
  by (fastforce simp: adoptRolloutPosition_def rolloutPositionClaim_def bindR_Inr_iff split: if_splits)

lemma commit_releasesNothing:
  "(\<And>x db'. r = Inr (x, db') \<Longrightarrow> releasesNothing db db') \<Longrightarrow> releasesNothing db (commit db r)"
  by (auto simp: commit_def releasesNothing_same split: sum.splits)

text \<open>The operations that may release a claim are the releases, and the rollout of its own row.\<close>

fun mayRelease :: "claimOp \<Rightarrow> bool" where
  "mayRelease (ReleaseOp i reason now) = True"
| "mayRelease (VerifiedReleaseOp args env inside) = True"
| "mayRelease (TerminalReleaseOp i status allow broker now reads inside) = True"
| "mayRelease (ClosedPositionOp p broker now reads inside) = True"
| "mayRelease (AdoptedReleaseOp c u broker now start inside) = True"
| "mayRelease (RolloutBlockOp a s i symb now t) = True"
| "mayRelease _ = False"

lemma others_release_nothing:
  assumes "claimOpPermitted op" and "\<not> mayRelease op"
  shows "releasesNothing db (claimStep op db)"
proof (cases op)
  case (AcquireOp f a s k now)
  then show ?thesis using assms acquire_releasesNothing[of f] by (auto intro!: commit_releasesNothing)
next
  case (AttachOp a s p symb e now)
  then show ?thesis using attach_releasesNothing by (auto intro!: commit_releasesNothing)
next
  case (OtherTables f)
  then show ?thesis using assms by (auto simp: claimPart_def intro: releasesNothing_same)
qed (use assms in \<open>auto simp: recordAdapterInvocationStarted_def appendNotSentEvidence_def authorizeRemediation_def
    intro!: commit_releasesNothing intro: transition_releasesNothing diagnostic_releasesNothing
    unresolved_releasesNothing missing_releasesNothing outcome_releasesNothing
    rolloutAdopt_releasesNothing lease_releasesNothing releasesNothing_same createEvent_table\<close>)

subsection \<open>Operations that may release a claim\<close>

definition newlyReleased :: "claimStore \<Rightarrow> claimStore \<Rightarrow> claimRow \<Rightarrow> bool" where
  "newlyReleased db db' c' \<longleftrightarrow>
     c' \<in> set (claimTable db') \<and> clReleasedAt c' \<noteq> None \<and>
     (\<exists>c\<in>set (claimTable db). clId c = clId c' \<and> clReleasedAt c = None)"

lemma releasesNothing_new: "claimInv db \<Longrightarrow> releasesNothing db db' \<Longrightarrow> \<not> newlyReleased db db' c'"
  unfolding releasesNothing_def newlyReleased_def using claimById_unreleased by metis

lemma newlyReleased_commit:
  "newlyReleased db (commit db r) c' \<Longrightarrow> claimInv db \<Longrightarrow> \<exists>x db'. r = Inr (x, db') \<and> newlyReleased db db' c'"
  using releasesNothing_new[OF _ releasesNothing_same[of db db]] by (auto simp: commit_def split: sum.splits)

text \<open>A release by an update: the row, and what the update wrote.\<close>

lemma released_by_update:
  assumes "claimInv db" and "newlyReleased db db' c'" and "claimTable db0 = claimTable db"
    and "updateClaims P f db0 = Inr (n, db1)" and "claimTable db' = claimTable db1"
  shows "\<exists>d\<in>set (claimTable db). P d \<and> c' = f d"
proof -
  obtain d where d: "d \<in> set (claimTable db)" "c' = (if P d then f d else d)"
    using assms(2-5) by (auto simp: newlyReleased_def updateClaims_Inr)
  obtain c where c: "c \<in> set (claimTable db)" "clId c = clId c'" "clReleasedAt c = None" "clReleasedAt c' \<noteq> None"
    using assms(2) unfolding newlyReleased_def by blast
  have "P d"
  proof (rule ccontr)
    assume "\<not> P d"
    then have "c' = d" using d(2) by simp
    then show False using claimById_unreleased[OF assms(1) c(1,3) d(1)] c(2,4) by simp
  qed
  then show ?thesis using d by auto
qed

lemma unsubmitted_releases:
  assumes "claimInv db" and "releaseUnsubmittedEntryExposureClaim i reason now db = Inr (r, db')"
    and "newlyReleased db db' c'"
  shows "clOrderIntentId c' = Some i \<and> claimTable db' \<noteq> claimTable db"
  using assms(2)
proof (cases rule: release_cases)
  case unchanged
  then show ?thesis using assms(1,3) releasesNothing_new[OF assms(1) releasesNothing_same] by blast
next
  case (released claim n db1 ev)
  have claim: "claim \<in> set (claimTable db)" "clOrderIntentId claim = Some i"
    using released(1) findClaim_SomeD unfolding releasable_def claimOfIntent_def by blast+
  obtain d where d: "d \<in> set (claimTable db)" "clId d = clId claim"
      "c' = d\<lparr>clStatus := ''RELEASED'', clReleasedAt := Some now, clReleaseReason := Some reason\<rparr>"
    using released_by_update[OF assms(1,3) refl released(2)] released(3) by (auto split: if_splits)
  then have "d = claim" using claimsOk_id assms(1) claim(1) unfolding claimInv_def by blast
  then show ?thesis
    using d(3) claim releasesNothing_new[OF assms(1) releasesNothing_same] assms(3) by auto
qed

text \<open>The reason of a release on the records of the broker.\<close>

definition releasedByBroker :: "claimRow \<Rightarrow> bool" where
  "releasedByBroker c \<longleftrightarrow> (\<exists>status. clReleaseReason c = Some (''BROKER_'' @ status @ ''_NO_EXPOSURE''))"

lemma terminalTransaction_releases:
  assumes "claimInv db" and "terminalReleaseTransaction i claim orders order filled accounted now inside db = Inr (r, db')"
    and "newlyReleased db db' c'"
  shows "releasedByBroker c'"
  using assms(2)
proof (cases rule: terminalTransaction_cases)
  case unchanged
  then show ?thesis using assms(1,3) releasesNothing_new releasesNothing_same by blast
next
  case (blocked t ev x)
  then show ?thesis using assms(1,3) releasesNothing_new diagnostic_releasesNothing by blast
next
  case (written current n db1)
  have "claimTable db' = claimTable db1" using written(7) createEvent_table by blast
  from released_by_update[OF assms(1,3) refl written(6) this] show ?thesis
    by (auto simp: releasedByBroker_def)
qed

lemma terminal_releases:
  assumes "claimInv db" and "releaseConfirmedTerminalEntryClaim i status allow broker now reads inside db = Inr (r, db')"
    and "newlyReleased db db' c'"
  shows "releasedByBroker c'"
proof -
  have none: "\<not> releasesNothing db db'" using releasesNothing_new[OF assms(1)] assms(3) by blast
  have "db' \<noteq> db" using none releasesNothing_same by blast
  moreover have "\<nexists>st t ev. transitionEntryExposureClaim i st t ev now (reads 1) db = Inr (r, db')"
    using none transition_releasesNothing by blast
  ultimately obtain claim symbol normalized answer where
    view: "releaseOnView i claim symbol normalized answer now reads inside db = Inr (r, db')"
    using releaseConfirmed_run[OF assms(2)] by blast
  then obtain orders order filled accounted where
    "terminalReleaseTransaction i claim orders order filled accounted now inside db = Inr (r, db')"
    using releaseOnView_run[OF view] none diagnostic_releasesNothing unresolved_releasesNothing by blast
  then show ?thesis using terminalTransaction_releases assms(1,3) by blast
qed

lemma closed_releases:
  assumes "claimInv db" and "releaseEntryExposureClaimForClosedPosition p broker now reads inside db = Inr (r, db')"
    and "newlyReleased db db' c'"
  shows "releasedByBroker c'"
proof -
  have none: "\<not> releasesNothing db db'" using releasesNothing_new[OF assms(1)] assms(3) by blast
  have "db' = db \<or> (\<exists>c t ev x. markClaimUnresolved c t ev now db = Inr (x, db')) \<or>
      (\<exists>i st a. releaseConfirmedTerminalEntryClaim i st a broker now (\<lambda>k. reads (k + 2)) inside db = Inr (r, db'))"
    using assms(2) by (auto simp: releaseEntryExposureClaimForClosedPosition_def Let_def bindR_Inr_iff split: option.splits if_splits)
  then show ?thesis
    using none terminal_releases[OF assms(1) _ assms(3)] releasesNothing_same unresolved_releasesNothing by blast
qed

text \<open>The claim of an adopted position has no intent.\<close>

lemma adopted_releases:
  assumes "claimInv db" and "releaseClosedAdoptedPositionClaim c u broker now start inside db = Inr (r, db')"
    and "newlyReleased db db' c'" and "safeStep start db"
  shows "clOrderIntentId c' \<in> {None, Some 0}"
proof -
  have none: "\<not> releasesNothing db db'" using releasesNothing_new[OF assms(1)] assms(3) by blast
  then obtain claim where claim: "claimById c start = Some claim" "clOrderIntentId claim \<in> {None, Some 0}"
    and run: "adoptedReleaseTransaction u claim now inside db = Inr (r, db')"
    using adoptedRelease_run[OF assms(2)] releasesNothing_same unresolved_releasesNothing by blast
  from run show ?thesis
  proof (cases rule: adoptedTransaction_cases)
    case unchanged
    then show ?thesis using none releasesNothing_same by blast
  next
    case (written current n db1)
    have "claimTable db' = claimTable db1" using written(5) createEvent_table by blast
    from released_by_update[OF assms(1,3) refl written(4) this]
    obtain d where d: "d \<in> set (claimTable db)" "clId d = clId claim" "clOrderIntentId c' = clOrderIntentId d"
      by auto
    have "claim \<in> set (claimTable start)" using claim(1) findClaim_SomeD unfolding claimById_def by blast
    then obtain d' where "d' \<in> set (claimTable db)" "clId d' = clId claim" "clOrderIntentId d' = clOrderIntentId claim"
      using assms(4) by (auto simp: safeStep_def develops_def claimIdentity_def)
    then have "d = d'" using claimsOk_id assms(1) d(1,2) unfolding claimInv_def by metis
    then show ?thesis using d(3) \<open>clOrderIntentId d' = clOrderIntentId claim\<close> claim(2) by simp
  qed
qed

text \<open>The rollout releases a row that was not there before.\<close>

lemma rollout_releases:
  assumes "claimInv db" and "blockRolloutIntent a s i symb now t db = Inr (r, db')"
  shows "\<not> newlyReleased db db' c'"
  using rolloutBlock_run[OF assms(2)]
proof (elim disjE exE conjE)
  assume "claimPart db' = claimPart db"
  then show ?thesis using assms(1) releasesNothing_new releasesNothing_same by (simp add: claimPart_def)
next
  fix db1 c t1 ev db2 n db3 t2 ev2
  assume part: "claimPart db1 = claimPart db" and ins: "insertClaim (rolloutIntentClaim a s i) t1 ev now db1 = Inr (c, db2)"
    and up: "updateClaims (\<lambda>d. clId d = clId c) (\<lambda>d. d\<lparr>clStatus := ''RELEASED'', clReleasedAt := Some t,
         clReleaseReason := Some ''ROLLOUT_VERIFIED_NEVER_SUBMITTED''\<rparr>) db2 = Inr (n, db3)"
    and db': "db' = appendEvent (clId c) t2 ev2 t db3"
  have new: "clId c = nextClaimId db" "claimTable db2 = claimTable db @ [c]" "clReleasedAt c = None"
    using ins part by (auto simp: insertClaim_Inr claimPart_def rolloutIntentClaim_def)
  show ?thesis
  proof
    assume rel: "newlyReleased db db' c'"
    then obtain d where "d \<in> set (claimTable db)" "clId d = clId c'" "clReleasedAt d = None" "clId c' \<noteq> nextClaimId db"
      using assms(1) by (auto simp: newlyReleased_def claimInv_def)
    moreover have "c' \<in> set (claimTable db')" "clReleasedAt c' \<noteq> None" using rel by (simp_all add: newlyReleased_def)
    ultimately have "c' \<in> set (claimTable db)"
      using up new by (auto simp: db' updateClaims_Inr split: if_splits)
    then show False
      using \<open>clReleasedAt c' \<noteq> None\<close> claimById_unreleased[OF assms(1) \<open>d \<in> _\<close> \<open>clReleasedAt d = None\<close>] \<open>clId d = _\<close> by metis
  qed
qed

subsection \<open>The verified release\<close>

text \<open>
  Evidence only grows: as many delivery events as before are the same events. So the count
  that the transaction checks again ties the assessment to the database of the transaction.
\<close>

lemma same_evidence:
  assumes "safeStep a b" and "length (deliveryEventsOf b i) = length (deliveryEventsOf a i)"
  shows "deliveryEventsOf b i = deliveryEventsOf a i"
proof -
  obtain es where "claimEventTable b = claimEventTable a @ es" using assms(1) by (auto simp: safeStep_def develops_def)
  then show ?thesis using assms(2) by (auto simp: deliveryEventsOf_def)
qed

lemma open_marker_inconclusive:
  assumes "distinct (map ceId es)" and "m \<in> set es" "isMarker m"
    and "\<forall>e\<in>set es. isRecord e \<longrightarrow> ceId e < ceId m"
  shows "\<exists>x\<in>set (dsOutcomes (summarizeDeliveryEvidence es)). \<not> conclusiveOutcome x"
proof -
  have "\<not> closedMarker (markersOf es) (recordsOf es) m"
    using assms(4) unfolding closedMarker_events by force
  moreover have "set (unpairedMarkers (recordsOf es) (markersOf es)) =
      {m \<in> set (markersOf es). \<not> closedMarker (markersOf es) (recordsOf es) m}"
    using markersOf_sorted[OF assms(1)] by (intro unpairedMarkers_iff) auto
  ultimately have "unpairedOutcome m \<in> set (dsOutcomes (summarizeDeliveryEvidence es))"
    using assms(2,3) by (simp add: summary_outcomes)
  moreover have "\<not> conclusiveOutcome (unpairedOutcome m)"
    by (simp add: conclusiveOutcome_def unpairedOutcome_def LOCAL_NON_SEND_CLASSIFICATIONS_def)
  ultimately show ?thesis by blast
qed

lemma verified_releases:
  assumes "claimInv db" and "releaseVerifiedEntryExposureClaim args env inside db = Inr (r, db')"
    and "newlyReleased db db' c'"
    and "safeStep (reReads env 2) inside" "m \<in> set (claimEventTable inside)" "ceClaimId m = clId c'"
    and "ceEventType m = ADAPTER_INVOCATION_STARTED_EVENT"
  shows "\<exists>e\<in>set (claimEventTable inside). ceClaimId e = clId c' \<and> isRecord e \<and> \<not> ceId e < ceId m"
proof (rule ccontr)
  assume none: "\<not> ?thesis"
  have held: "\<not> releasesNothing db db'" using releasesNothing_new[OF assms(1)] assms(3) by blast
  then obtain a outcome where a: "assessEntryClaimRelease (rlOrderIntentId args) env = Inr a" "raEligible a"
    "releaseTransaction args a (reWriteNow env) inside db = Inr (outcome, db')"
    using verifiedRelease_run[OF assms(2)] releasesNothing_same diagnostic_releasesNothing by blast
  from a(3) obtain current where id: "clId c' = clId (raClaim a)"
    and valid: "revalidation a (rlOrderIntentId args) current inside = []"
  proof (cases rule: releaseTransaction_cases)
    case gone
    then show ?thesis using held releasesNothing_same by blast
  next
    case (blocked t ev x)
    then show ?thesis using held diagnostic_releasesNothing by blast
  next
    case (written current db1 n db2)
    have "claimTable db1 = claimTable db" using written(4) createEvent_table by (auto simp: authorizeOperator_def split: if_splits)
    moreover have "claimTable db' = claimTable db2" using written(6) createEvent_table by blast
    ultimately show ?thesis
      using released_by_update[OF assms(1,3) _ written(5)] written(3) that by auto
  qed
  let ?es = "deliveryEventsOf inside (clId c')"
  have "length ?es = length (deliveryEventsOf (reReads env 2) (clId c'))" and basis: "rbBasis (raBasis a) \<noteq> None"
    and sum: "raBasis a = evaluateDispatchReleaseBasis (dsOutcomes (summarizeDeliveryEvidence
      (deliveryEventsOf (reReads env 2) (clId c')))) (reNow env)"
    using a(1,2) valid id by (auto elim!: assessment_parts simp: revalidation_def Let_def split: if_splits)
  then have same: "?es = deliveryEventsOf (reReads env 2) (clId c')" by (intro same_evidence[OF assms(4)])
  have conclusive: "\<forall>x\<in>set (dsOutcomes (summarizeDeliveryEvidence ?es)). conclusiveOutcome x"
    using basis release_basis_iff unfolding sum same[symmetric] by blast
  have "distinct (map ceId ?es)" by (rule deliveryEvents_distinct[OF safeStep_inv[OF assms(4)]])
  moreover have "m \<in> set ?es" "isMarker m"
    using assms(5-7) by (auto simp: deliveryEventsOf_def isMarker_def DELIVERY_EVIDENCE_EVENT_TYPES_def)
  moreover have "\<forall>e\<in>set ?es. isRecord e \<longrightarrow> ceId e < ceId m"
    using none by (auto simp: deliveryEventsOf_def)
  ultimately show False using open_marker_inconclusive conclusive by blast
qed

subsection \<open>After an order was sent\<close>

text \<open>
  What an operation of a run since \<open>db0\<close> may have read before its write: a verified release
  assesses the evidence at any earlier moment and checks it again inside its transaction, after
  \<open>db0\<close>; the release for an adopted position read its claim at any earlier moment.
\<close>

fun readsInOrder :: "claimStore \<Rightarrow> claimOp \<Rightarrow> claimStore \<Rightarrow> bool" where
  "readsInOrder db0 (VerifiedReleaseOp args env inside) db \<longleftrightarrow>
     safeStep (reReads env 2) inside \<and> safeStep db0 inside \<and> safeStep inside db"
| "readsInOrder db0 (AdoptedReleaseOp c u broker now start inside) db \<longleftrightarrow> safeStep start db"
| "readsInOrder db0 _ db \<longleftrightarrow> True"

fun runInOrder :: "claimStore \<Rightarrow> claimOp list \<Rightarrow> claimStore \<Rightarrow> bool" where
  "runInOrder db0 [] db \<longleftrightarrow> True"
| "runInOrder db0 (op # ops) db \<longleftrightarrow> claimOpPermitted op \<and> readsInOrder db0 op db \<and> runInOrder db0 ops (claimStep op db)"

lemma runInOrder_permitted: "runInOrder db0 ops db \<Longrightarrow> list_all claimOpPermitted ops"
  by (induction ops arbitrary: db) auto

definition recordFollows :: "claimEventRow \<Rightarrow> claimStore \<Rightarrow> bool" where
  "recordFollows m db \<longleftrightarrow> (\<exists>e\<in>set (claimEventTable db). ceClaimId e = ceClaimId m \<and> isRecord e \<and> ceId m < ceId e)"

text \<open>The claim of a marker is held, or its release has a reason.\<close>

definition heldOrExplained :: "int \<Rightarrow> claimEventRow \<Rightarrow> claimStore \<Rightarrow> bool" where
  "heldOrExplained i m db \<longleftrightarrow>
     (\<exists>c\<in>set (claimTable db). clId c = ceClaimId m \<and> clOrderIntentId c = Some i \<and>
       (clReleasedAt c = None \<or> releasedByBroker c \<or> recordFollows m db))"

lemma marker_no_record: "ceEventType m = ADAPTER_INVOCATION_STARTED_EVENT \<Longrightarrow> \<not> isRecord m"
  by (simp add: isRecord_def ADAPTER_INVOCATION_STARTED_EVENT_def DISPATCH_OUTCOME_EVENT_TYPES_def NOT_SENT_EVIDENCE_EVENT_def)

lemma recordFollowsI:
  assumes "claimInv db" "m \<in> set (claimEventTable db)" "ceEventType m = ADAPTER_INVOCATION_STARTED_EVENT"
    and "e \<in> set (claimEventTable db)" "ceClaimId e = ceClaimId m" "isRecord e" "\<not> ceId e < ceId m"
  shows "recordFollows m db"
proof -
  have "e \<noteq> m" using marker_no_record assms(3,6) by blast
  then have "ceId e \<noteq> ceId m" using assms(1,2,4) by (auto simp: claimInv_def distinct_map inj_on_def)
  then show ?thesis using assms(4-7) unfolding recordFollows_def by force
qed

lemma recordFollows_stays: "safeStep db db' \<Longrightarrow> recordFollows m db \<Longrightarrow> recordFollows m db'"
  by (auto simp: recordFollows_def safeStep_def develops_def)

lemma release_explained:
  assumes inv: "claimInv db" and m: "m \<in> set (claimEventTable db)" "ceEventType m = ADAPTER_INVOCATION_STARTED_EVENT"
    and c: "c \<in> set (claimTable db)" "clId c = ceClaimId m" "clOrderIntentId c = Some i" "i \<noteq> 0"
    and op: "claimOpPermitted op" "readsInOrder db0 op db" "m \<in> set (claimEventTable db0)"
    and new: "newlyReleased db (claimStep op db) c'" "clId c' = ceClaimId m" "clOrderIntentId c' = Some i"
  shows "releasedByBroker c' \<or> recordFollows m db"
proof (cases op)
  case (ReleaseOp j reason now)
  then obtain r db' where run: "releaseUnsubmittedEntryExposureClaim j reason now db = Inr (r, db')" "newlyReleased db db' c'"
    using newlyReleased_commit[OF _ inv] new(1) by fastforce
  have changed: "j = i" "claimTable (claimStep op db) \<noteq> claimTable db"
    using unsubmitted_releases[OF inv run] new(3) run(1) ReleaseOp by (auto simp: commit_def)
  show ?thesis
  proof (rule ccontr)
    assume "\<not> ?thesis"
    then have "\<forall>e\<in>set (claimEventTable db). ceClaimId e = clId c \<and> isRecord e \<longrightarrow> ceId e < ceId m"
      using recordFollowsI[OF inv m] c(2) by auto
    then show False
      using open_invocation_keeps_claim[OF inv claimOfIntent_unique[OF inv c(1,3)] m(1) _ m(2), of reason now] changed c(2) ReleaseOp
      by simp
  qed
next
  case (VerifiedReleaseOp args env inside)
  then obtain r db' where run: "releaseVerifiedEntryExposureClaim args env inside db = Inr (r, db')" "newlyReleased db db' c'"
    using newlyReleased_commit[OF _ inv] new(1) by fastforce
  have reads: "safeStep (reReads env 2) inside" "safeStep db0 inside" "safeStep inside db"
    using op(2) VerifiedReleaseOp by simp_all
  have "m \<in> set (claimEventTable inside)" using op(3) reads(2) by (auto simp: safeStep_def develops_def)
  then obtain e where e: "e \<in> set (claimEventTable inside)" "ceClaimId e = clId c'" "isRecord e" "\<not> ceId e < ceId m"
    using verified_releases[OF inv run reads(1)] m(2) new(2) by auto
  have "e \<in> set (claimEventTable db)" using e(1) reads(3) by (auto simp: safeStep_def develops_def)
  then have "recordFollows m db" by (rule recordFollowsI[OF inv m _ _ e(3,4)]) (simp add: e(2) new(2))
  then show ?thesis ..
next
  case (TerminalReleaseOp j status allow broker now reads inside)
  then obtain r db' where "releaseConfirmedTerminalEntryClaim j status allow broker now reads inside db = Inr (r, db')"
      "newlyReleased db db' c'"
    using newlyReleased_commit[OF _ inv] new(1) by fastforce
  then show ?thesis using terminal_releases[OF inv] by blast
next
  case (ClosedPositionOp p broker now reads inside)
  then obtain r db' where "releaseEntryExposureClaimForClosedPosition p broker now reads inside db = Inr (r, db')"
      "newlyReleased db db' c'"
    using newlyReleased_commit[OF _ inv] new(1) by fastforce
  then show ?thesis using closed_releases[OF inv] by blast
next
  case (AdoptedReleaseOp k u broker now start inside)
  then obtain r db' where "releaseClosedAdoptedPositionClaim k u broker now start inside db = Inr (r, db')" "newlyReleased db db' c'"
    using newlyReleased_commit[OF _ inv] new(1) by fastforce
  then have "clOrderIntentId c' \<in> {None, Some 0}" using adopted_releases[OF inv] op(2) AdoptedReleaseOp by simp
  then show ?thesis using new(3) c(4) by simp
next
  case (RolloutBlockOp a s j symb now t)
  then obtain r db' where "blockRolloutIntent a s j symb now t db = Inr (r, db')" "newlyReleased db db' c'"
    using newlyReleased_commit[OF _ inv] new(1) by fastforce
  then show ?thesis using rollout_releases[OF inv] by blast
qed (use others_release_nothing[OF op(1)] releasesNothing_new[OF inv] new(1) in auto)

lemma heldOrExplained_step:
  assumes "heldOrExplained i m db" and "safeStep db0 db" and "m \<in> set (claimEventTable db0)"
    and "ceEventType m = ADAPTER_INVOCATION_STARTED_EVENT" and "i \<noteq> 0"
    and "claimOpPermitted op" and "readsInOrder db0 op db"
  shows "heldOrExplained i m (claimStep op db)"
proof -
  have inv: "claimInv db" using assms(2) by (rule safeStep_inv)
  have step: "safeStep db (claimStep op db)" using inv assms(6) by (rule claimStep_safe)
  have m: "m \<in> set (claimEventTable db)" using assms(2,3) by (auto simp: safeStep_def develops_def)
  obtain c where c: "c \<in> set (claimTable db)" "clId c = ceClaimId m" "clOrderIntentId c = Some i"
    and why: "clReleasedAt c = None \<or> releasedByBroker c \<or> recordFollows m db"
    using assms(1) unfolding heldOrExplained_def by blast
  obtain c' where c': "c' \<in> set (claimTable (claimStep op db))" "clId c' = ceClaimId m" "clOrderIntentId c' = Some i"
    and same: "clReleasedAt c \<noteq> None \<Longrightarrow> c' = c"
    using step c by (auto simp: safeStep_def develops_def claimIdentity_def)
  have "clReleasedAt c' = None \<or> releasedByBroker c' \<or> recordFollows m db"
  proof (cases "clReleasedAt c = None \<and> clReleasedAt c' \<noteq> None")
    case True
    then have "newlyReleased db (claimStep op db) c'"
      using c(1,2) c'(1,2) by (auto simp: newlyReleased_def)
    then show ?thesis using release_explained[OF inv m assms(4) c assms(5-7,3)] c'(2,3) by blast
  next
    case False
    then show ?thesis using why same by auto
  qed
  then show ?thesis unfolding heldOrExplained_def using c' recordFollows_stays[OF step] by blast
qed

lemma heldOrExplained_run:
  assumes "heldOrExplained i m db" and "safeStep db0 db" and "m \<in> set (claimEventTable db0)"
    and "ceEventType m = ADAPTER_INVOCATION_STARTED_EVENT" and "i \<noteq> 0" and "runInOrder db0 ops db"
  shows "heldOrExplained i m (fold claimStep ops db) \<and> safeStep db0 (fold claimStep ops db)"
  using assms(1,2,6)
proof (induction ops arbitrary: db)
  case (Cons op ops)
  then have op: "claimOpPermitted op" "readsInOrder db0 op db" by simp_all
  have "heldOrExplained i m (claimStep op db)"
    by (rule heldOrExplained_step[OF Cons.prems(1,2) assms(3-5) op])
  moreover have "safeStep db0 (claimStep op db)"
    using Cons.prems(2) claimStep_safe[OF safeStep_inv[OF Cons.prems(2)] op(1)] by (rule safeStep_trans)
  ultimately show ?case using Cons by simp
qed simp

text \<open>C14: an order that was sent keeps its claim until its outcome is recorded. After a run that sent an order,
  however it ended, its claim carries the marker that this run committed. Whatever claim transactions follow, in
  any order, if the claim was still held when the run ended then it is held, or an outcome or not-sent record
  of the claim follows that marker, or the authoritative release released it, as its reason says, on the broker's
  own records (C10). A verified release may have assessed its evidence at any earlier time, even before the marker;
  only its transaction comes after the run.
\<close>
theorem sent_order_keeps_claim:
  assumes "safeEnv env" and "claimInv (bsDb s)" and "intent \<noteq> 0"
    and "submitOrderToBroker env input account intent s = (r, s')" and "bsPosts s' \<noteq> bsPosts s"
    and "runInOrder (bsDb s') ops (bsDb s')"
  shows "\<exists>claim m c. claimOfIntent intent (bsDb s') = Some claim \<and>
    m \<in> set (claimEventTable (bsDb s')) \<and> m \<notin> set (claimEventTable (bsDb s)) \<and>
    ceClaimId m = clId claim \<and> ceEventType m = ADAPTER_INVOCATION_STARTED_EVENT \<and>
    m \<in> set (claimEventTable (fold claimStep ops (bsDb s'))) \<and>
    claimOfIntent intent (fold claimStep ops (bsDb s')) = Some c \<and> clId c = clId claim \<and>
    (clReleasedAt claim = None \<longrightarrow>
      clReleasedAt c = None \<or>
      (\<exists>e\<in>set (claimEventTable (fold claimStep ops (bsDb s'))). ceClaimId e = clId claim \<and> isRecord e \<and> ceId m < ceId e) \<or>
      (\<exists>status. clReleaseReason c = Some (''BROKER_'' @ status @ ''_NO_EXPOSURE'')))"
proof -
  let ?db = "fold claimStep ops (bsDb s')"
  obtain claim m where run: "safeStep (bsDb s) (bsDb s')"
    and claim: "claim \<in> set (claimTable (bsDb s'))" "clOrderIntentId claim = Some intent"
    and m: "m \<in> set (claimEventTable (bsDb s'))" "m \<notin> set (claimEventTable (bsDb s))" "ceClaimId m = clId claim"
      "ceEventType m = ADAPTER_INVOCATION_STARTED_EVENT"
    using sent_marker[OF assms(1,2,4,5)] by blast
  have inv: "claimInv (bsDb s')" using run by (rule safeStep_inv)
  have permitted: "list_all claimOpPermitted ops" using assms(6) by (rule runInOrder_permitted)
  have later: "safeStep (bsDb s') ?db" using claims.run_holds[OF safeStep_refl[OF inv] permitted] .
  have explained: "clReleasedAt claim = None \<longrightarrow> heldOrExplained intent m ?db"
    using heldOrExplained_run[OF _ safeStep_refl[OF inv] m(1,4) assms(3,6)] claim m(3)
    by (auto simp: heldOrExplained_def)
  obtain c where c: "c \<in> set (claimTable ?db)" "clId c = clId claim" "clOrderIntentId c = Some intent"
    using later claim by (auto simp: safeStep_def develops_def claimIdentity_def)
  have "clReleasedAt claim = None \<longrightarrow> clReleasedAt c = None \<or> releasedByBroker c \<or> recordFollows m ?db"
    using explained claimsOk_id[of "claimTable ?db" c] safeStep_inv[OF later] c(1,2) m(3)
    unfolding heldOrExplained_def claimInv_def by metis
  moreover have "m \<in> set (claimEventTable ?db)" using m(1) later by (auto simp: safeStep_def develops_def)
  ultimately show ?thesis
    using claimOfIntent_unique[OF inv claim] claimOfIntent_unique[OF safeStep_inv[OF later] c(1,3)] m c(2)
    unfolding releasedByBroker_def recordFollows_def by (intro exI[of _ claim] exI[of _ m] exI[of _ c]) auto
qed

subsection \<open>A process that dies after the write\<close>

lemma sample_end:
  assumes "submitOrderToBroker dyingEnv spyEntry 7 1 sampleBoundary = (r, s')"
  shows "bsDb s' = appendEvent 1 ADAPTER_INVOCATION_STARTED_EVENT (adapterInvocationEvidence 1 ''c-1'') 6 boundaryClaims"
proof -
  have "bsDb (snd (submitOrderToBroker dyingEnv spyEntry 7 1 sampleBoundary)) =
      appendEvent 1 ADAPTER_INVOCATION_STARTED_EVENT (adapterInvocationEvidence 1 ''c-1'') 6 boundaryClaims"
    using sample_executable sample_evidence sample_claim
    by (simp add: submitOrderToBroker_eq dbStep_def reading_def dyingEnv_def spyEntry_def sampleBoundary_def Let_def
       authorizeEntry_def sendEntry_def bindA_def setPhase_def observe_def liveStep_def adapterCall_def post_def returnA_def
       transaction_def recordAdapterInvocationStarted_def createEvent_def newEntryClaim_def nullish_def)
  then show ?thesis using assms by simp
qed

lemma release_writes:
  assumes "claimInv db"
  shows "e \<in> set (claimEventTable (claimStep (ReleaseOp i reason now) db)) \<Longrightarrow> isRecord e \<Longrightarrow> e \<in> set (claimEventTable db)"
    and "c \<in> set (claimTable (claimStep (ReleaseOp i reason now) db)) \<Longrightarrow> clReleaseReason c = Some reason \<or> c \<in> set (claimTable db)"
proof -
  let ?db = "claimStep (ReleaseOp i reason now) db"
  have "?db = db \<or> (\<exists>P n db1 ev k. updateClaims P (\<lambda>c. c\<lparr>clStatus := ''RELEASED'', clReleasedAt := Some now,
        clReleaseReason := Some reason\<rparr>) db = Inr (n, db1) \<and>
      (?db = db1 \<or> ?db = appendEvent k ''RELEASED_NO_BROKER_EXPOSURE'' ev now db1))"
  proof (cases "releaseUnsubmittedEntryExposureClaim i reason now db")
    case (Inr x)
    then obtain r db' where run: "releaseUnsubmittedEntryExposureClaim i reason now db = Inr (r, db')" by (cases x) auto
    from run show ?thesis
    proof (cases rule: release_cases)
      case (released claim n db1 ev)
      have "?db = db1 \<or> ?db = appendEvent (clId claim) ''RELEASED_NO_BROKER_EXPOSURE'' ev now db1"
        using run released(3) by (simp add: commit_def)
      then show ?thesis using released(2) by blast
    qed (use run in \<open>simp add: commit_def\<close>)
  qed (simp add: commit_def)
  then show "e \<in> set (claimEventTable ?db) \<Longrightarrow> isRecord e \<Longrightarrow> e \<in> set (claimEventTable db)"
    "c \<in> set (claimTable ?db) \<Longrightarrow> clReleaseReason c = Some reason \<or> c \<in> set (claimTable db)"
    by (auto simp: updateClaims_Inr appendEvent_def isRecord_def DISPATCH_OUTCOME_EVENT_TYPES_def NOT_SENT_EVIDENCE_EVENT_def
        split: if_splits)
qed

theorem sent_order_keeps_claim_witness:
  "\<exists>r s' c. submitOrderToBroker dyingEnv spyEntry 7 1 sampleBoundary = (r, s') \<and>
    claimOfIntent 1 (fold claimStep [LeaseOp 1 80, ReleaseOp 1 ''gone'' 90] (bsDb s')) = Some c \<and>
    clReleasedAt c = None"
proof -
  obtain r s' where run: "submitOrderToBroker dyingEnv spyEntry 7 1 sampleBoundary = (r, s')" by (rule sample_run)
  have inv: "claimInv (bsDb sampleBoundary)" by (simp add: sampleBoundary_def boundaryClaims_inv)
  let ?ops = "[LeaseOp 1 80, ReleaseOp 1 ''gone'' 90]"
  let ?one = "claimStep (LeaseOp 1 80) (bsDb s')"
  have "claimInv (bsDb s')" using sent_marker[OF dyingEnv_safe inv run sample_sent[OF run]] safeStep_inv by blast
  then have one: "claimInv ?one" using claimStep_safe[of "bsDb s'" "LeaseOp 1 80"] safeStep_inv by simp
  have events: "claimEventTable ?one = claimEventTable (bsDb s')"
    by (auto simp: commit_def leaseRecoveryAttempt_def bindR_def updateClaims_def Let_def split: sum.splits)
  have reasons: "clReleaseReason c = None" if "c \<in> set (claimTable ?one)" for c
    using that sample_end[OF run]
    by (auto simp: commit_def leaseRecoveryAttempt_def bindR_def updateClaims_def Let_def boundaryClaims_def newEntryClaim_def
        split: sum.splits if_splits)
  have start: "claimOfIntent 1 (bsDb s') = Some claim \<Longrightarrow> clReleasedAt claim = None" for claim
    by (auto simp: sample_end[OF run] claimOfIntent_def findClaim_def boundaryClaims_def newEntryClaim_def)
  have records: "\<not> isRecord e" if "e \<in> set (claimEventTable (fold claimStep ?ops (bsDb s')))" for e
  proof
    assume "isRecord e"
    then have "e \<in> set (claimEventTable ?one)" using release_writes(1)[OF one] that by simp
    then have "e \<in> set (claimEventTable (bsDb s'))" by (simp only: events)
    then show False
      using \<open>isRecord e\<close> unfolding sample_end[OF run]
      by (auto simp: appendEvent_def boundaryClaims_def sampleClaims_def isRecord_def ADAPTER_INVOCATION_STARTED_EVENT_def
          DISPATCH_OUTCOME_EVENT_TYPES_def NOT_SENT_EVIDENCE_EVENT_def)
  qed
  obtain c where c: "claimOfIntent 1 (fold claimStep ?ops (bsDb s')) = Some c"
    "clReleasedAt c = None \<or> (\<exists>status. clReleaseReason c = Some (''BROKER_'' @ status @ ''_NO_EXPOSURE''))"
    using sent_order_keeps_claim[OF dyingEnv_safe inv _ run sample_sent[OF run], of ?ops] start records by auto
  have "c \<in> set (claimTable (claimStep (ReleaseOp 1 ''gone'' 90) ?one))"
    using c(1) findClaim_SomeD unfolding claimOfIntent_def by fastforce
  from release_writes(2)[OF one this] have "clReleaseReason c = Some ''gone'' \<or> clReleaseReason c = None"
    using reasons[of c] by fastforce
  then show ?thesis using run c by auto
qed

end
