(* ===== verification/SweepSafety.thy ===== *)
theory SweepSafety
  imports WorkerSafety HeldClaims
begin

text \<open>
  What the sweeps of terminal claims and of abandoned admissions may conclude: the classification
  on the evidence itself, and that no sweep, from whatever earlier state it works, adds evidence
  that an order that was sent was never sent.
\<close>

subsection \<open>The candidates\<close>





lemma claimById_unique: "claimInv db \<Longrightarrow> c \<in> set (claimTable db) \<Longrightarrow> claimById (clId c) db = Some c"
proof -
  assume inv: "claimInv db" and c: "c \<in> set (claimTable db)"
  then obtain d where d: "claimById (clId c) db = Some d"
    by (cases "claimById (clId c) db") (auto simp: claimById_def findClaim_None)
  then have "d \<in> set (claimTable db)" "clId d = clId c" using findClaim_SomeD unfolding claimById_def by blast+
  then show ?thesis using inv c d claimsOk_id by (auto simp: claimInv_def)
qed


subsection \<open>The classification\<close>











subsection \<open>Orders that were sent\<close>











subsection \<open>A sweep that started before the order was sent\<close>







end
