(* ===== verification/ExactDecimal.thy ===== *)
theory ExactDecimal
  imports JsText DateText
begin

text \<open>
  The exact decimals of \<open>src/services/verified-exit-submission.service.ts\<close>: share quantities
  as a coefficient and a scale, parsed from numbers and from the texts of the broker, compared
  and subtracted without rounding. The lemmas relate each operation to the rational number
  that a decimal denotes.
\<close>

text \<open>A quantity of type \<open>unknown\<close>; \<open>QOther\<close> is any value that is neither a number nor a string.\<close>

datatype quantity = QNumber jsnum | QText string | QOther

record exactDecimal =
  xdCoefficient :: int
  xdScale :: nat
  xdCanonical :: string

definition quantityText :: "quantity \<Rightarrow> string" where
  "quantityText v = (case v of QNumber x \<Rightarrow> numberText x | QText s \<Rightarrow> trim s | QOther \<Rightarrow> [])"

text \<open>\<open>/^(?:0|[1-9]\d*)(?:\.\d+)?$/\<close>, with the parts before and after the point.\<close>

definition wholePart :: "string \<Rightarrow> string" where
  "wholePart text = takeWhile (\<lambda>c. c \<noteq> CHR ''.'') text"

definition fractionPart :: "string \<Rightarrow> string" where
  "fractionPart text = drop (length (wholePart text) + 1) text"

definition wholeSyntax :: "string \<Rightarrow> bool" where
  "wholeSyntax whole = (whole \<noteq> [] \<and> list_all isDigit whole \<and> (whole = ''0'' \<or> hd whole \<noteq> CHR ''0''))"

definition decimalSyntax :: "string \<Rightarrow> bool" where
  "decimalSyntax text =
     (wholeSyntax (wholePart text) \<and>
      (wholePart text = text \<or> fractionPart text \<noteq> [] \<and> list_all isDigit (fractionPart text)))"

text \<open>\<open>replace(/0+$/, '')\<close>\<close>

definition dropZeros :: "string \<Rightarrow> string" where
  "dropZeros s = rev (dropWhile (\<lambda>c. c = CHR ''0'') (rev s))"

definition decimalText :: "string \<Rightarrow> string \<Rightarrow> string" where
  "decimalText whole fraction = (if fraction \<noteq> [] then whole @ ''.'' @ fraction else whole)"

definition parseExactNonNegativeDecimal :: "quantity \<Rightarrow> exactDecimal option" where
  "parseExactNonNegativeDecimal v =
     (let text = quantityText v; whole = wholePart text; trimmedFraction = dropZeros (fractionPart text) in
      if \<not> decimalSyntax text then None
      else Some \<lparr>xdCoefficient = digitsValue 10 (whole @ trimmedFraction), xdScale = length trimmedFraction,
        xdCanonical = decimalText whole trimmedFraction\<rparr>)"

definition parseExactPositiveDecimal :: "quantity \<Rightarrow> exactDecimal option" where
  "parseExactPositiveDecimal v =
     (case parseExactNonNegativeDecimal v of None \<Rightarrow> None | Some d \<Rightarrow> if 0 < xdCoefficient d then Some d else None)"

definition scaledTo :: "nat \<Rightarrow> exactDecimal \<Rightarrow> int" where
  "scaledTo scale d = xdCoefficient d * 10 ^ (scale - xdScale d)"

definition compareDecimal :: "exactDecimal \<Rightarrow> exactDecimal \<Rightarrow> int" where
  "compareDecimal left right =
     (let scale = max (xdScale left) (xdScale right); l = scaledTo scale left; r = scaledTo scale right in
      if l < r then -1 else if r < l then 1 else 0)"

definition equalDecimal :: "exactDecimal \<Rightarrow> exactDecimal \<Rightarrow> bool" where
  "equalDecimal left right =
     (if xdScale left = xdScale right then xdCoefficient left = xdCoefficient right
      else let scale = max (xdScale left) (xdScale right) in scaledTo scale left = scaledTo scale right)"

definition padStart0 :: "nat \<Rightarrow> string \<Rightarrow> string" where
  "padStart0 n s = replicate (n - length s) (CHR ''0'') @ s"

definition subtractDecimal :: "exactDecimal \<Rightarrow> exactDecimal \<Rightarrow> string option" where
  "subtractDecimal left right =
     (let scale = max (xdScale left) (xdScale right);
          difference = scaledTo scale left - scaledTo scale right
      in if difference < 0 then None
         else if scale = 0 then Some (showPos difference)
         else
           (let padded = padStart0 (scale + 1) (showPos difference); n = length padded - scale
            in Some (decimalText (take n padded) (dropZeros (drop n padded)))))"

subsection \<open>Digits\<close>

lemma char_isDigit: "0 \<le> d \<Longrightarrow> d < 10 \<Longrightarrow> isDigit (char_of (48 + d :: int))"
  by (simp add: isDigit_def digit_char)

lemma zero_char [simp]: "char_of (48 :: int) = CHR ''0''"
  by code_simp

lemma char_zero: "0 \<le> d \<Longrightarrow> d < 10 \<Longrightarrow> char_of (48 + d :: int) = CHR ''0'' \<longleftrightarrow> d = 0"
proof -
  assume d: "0 \<le> d" "d < 10"
  have "digitValue 10 (CHR ''0'') = Some 0" by code_simp
  then show ?thesis using digit_char[OF d] digit_char[of 0] by auto
qed

lemma isDigit_plain: "isDigit c \<Longrightarrow> \<not> isSpace c \<and> c \<noteq> CHR ''.''"
proof -
  have "\<forall>c\<in>set (enum_class.enum :: char list). isDigit c \<longrightarrow> \<not> isSpace c \<and> c \<noteq> CHR ''.''" by code_simp
  then show "isDigit c \<Longrightarrow> ?thesis" by (auto simp: enum_UNIV)
qed

lemma showPos_rec: "10 \<le> n \<Longrightarrow> showPos n = showPos (n div 10) @ [char_of (48 + n mod 10)]"
  by (subst showPos.simps) simp

lemma showPos_digit: "n < 10 \<Longrightarrow> showPos n = [char_of (48 + n)]"
  by (subst showPos.simps) simp

lemma showPos_syntax: "0 \<le> n \<Longrightarrow> wholeSyntax (showPos n) \<and> digitsValue 10 (showPos n) = n"
proof (induction n rule: showPos.induct)
  case (1 n)
  show ?case
  proof (cases "n < 10")
    case True
    then show ?thesis using 1 char_zero[of n]
      by (auto simp: showPos_digit wholeSyntax_def char_isDigit digitsValue_def digit_char)
  next
    case False
    then have IH: "wholeSyntax (showPos (n div 10))" "digitsValue 10 (showPos (n div 10)) = n div 10"
      using 1 by auto
    have "showPos (n div 10) \<noteq> ''0''"
    proof
      assume "showPos (n div 10) = ''0''"
      then have "n div 10 = digitsValue 10 ''0''" using IH(2) by simp
      then show False using False by (simp add: digitsValue_def digitValue_def lowerChar_def)
    qed
    then show ?thesis using False IH by (auto simp: showPos_rec wholeSyntax_def char_isDigit digitsValue_snoc digit_char)
  qed
qed

lemma showPos_digitsValue: "wholeSyntax s \<Longrightarrow> showPos (digitsValue 10 s) = s"
proof (induction s rule: rev_induct)
  case (snoc c s)
  then obtain d where d: "digitValue 10 c = Some d" by (auto simp: wholeSyntax_def isDigit_def)
  have c: "0 \<le> d" "d < 10" "char_of (48 + d) = c" using digitValue_Some[OF d] by auto
  show ?case
  proof (cases "s = []")
    case True
    then show ?thesis using c d by (simp add: digitsValue_def showPos_digit)
  next
    case False
    then have s: "wholeSyntax s" "hd s \<noteq> CHR ''0''" using snoc.prems by (auto simp: wholeSyntax_def)
    then have IH: "showPos (digitsValue 10 s) = s" using snoc.IH by blast
    have "digitsValue 10 s \<noteq> 0"
    proof
      assume "digitsValue 10 s = 0"
      then have "s = showPos 0" using IH by simp
      then show False using s(2) by (simp add: showPos_digit char_zero)
    qed
    then have "0 < digitsValue 10 s" using digitsValue_bounds[of s] by simp
    then show ?thesis using c d IH by (simp add: digitsValue_snoc showPos_rec)
  qed
qed (simp add: wholeSyntax_def)

lemma digitsValue_append: "digitsValue 10 (s @ t) = digitsValue 10 s * 10 ^ length t + digitsValue 10 t"
proof (induction t rule: rev_induct)
  case (snoc c t)
  then show ?case using digitsValue_snoc[of 10 "s @ t" c] by (simp add: digitsValue_snoc algebra_simps)
qed simp

lemma digitsValue_replicate: "digitsValue 10 (replicate n (CHR ''0'')) = 0"
proof (induction n)
  case (Suc n)
  have "digitValue 10 (CHR ''0'') = Some 0" by code_simp
  then show ?case using Suc by (simp add: digitsValue_Cons)
qed simp

lemma dropZeros_split:
  obtains k where "s = dropZeros s @ replicate k (CHR ''0'')" "dropZeros s = [] \<or> last (dropZeros s) \<noteq> CHR ''0''"
proof -
  let ?P = "\<lambda>c. c = CHR ''0''"
  have "takeWhile ?P (rev s) = replicate (length (takeWhile ?P (rev s))) (CHR ''0'')"
    using replicate_length_same[of "takeWhile ?P (rev s)" "CHR ''0''"] set_takeWhileD[of _ ?P "rev s"] by metis
  then have "s = dropZeros s @ replicate (length (takeWhile ?P (rev s))) (CHR ''0'')"
    unfolding dropZeros_def by (metis rev_append rev_replicate rev_rev_ident takeWhile_dropWhile_id)
  moreover have "dropZeros s = [] \<or> last (dropZeros s) \<noteq> CHR ''0''"
    unfolding dropZeros_def using hd_dropWhile[of ?P "rev s"] by (auto simp: last_rev)
  ultimately show ?thesis using that by blast
qed

subsection \<open>Values and normal forms\<close>

definition decimalValue :: "exactDecimal \<Rightarrow> rat" where
  "decimalValue d = of_int (xdCoefficient d) / 10 ^ xdScale d"

text \<open>The number that a text with a decimal point denotes.\<close>

definition textValue :: "string \<Rightarrow> rat" where
  "textValue text = of_int (digitsValue 10 (wholePart text)) +
     of_int (digitsValue 10 (fractionPart text)) / 10 ^ length (fractionPart text)"

definition normalDecimal :: "int \<Rightarrow> nat \<Rightarrow> exactDecimal" where
  "normalDecimal c k = \<lparr>xdCoefficient = c, xdScale = k,
     xdCanonical = decimalText (showPos (c div 10 ^ k)) (padDigits k (c mod 10 ^ k))\<rparr>"

text \<open>A coefficient and a scale without superfluous zeros, with their text.\<close>

definition exactNormal :: "exactDecimal \<Rightarrow> bool" where
  "exactNormal d \<longleftrightarrow> 0 \<le> xdCoefficient d \<and> (xdScale d = 0 \<or> xdCoefficient d mod 10 \<noteq> 0) \<and>
     d = normalDecimal (xdCoefficient d) (xdScale d)"

lemma normalDecimal_parts:
  assumes "wholeSyntax whole" and "list_all isDigit fraction"
  shows "\<lparr>xdCoefficient = digitsValue 10 (whole @ fraction), xdScale = length fraction,
    xdCanonical = decimalText whole fraction\<rparr> = normalDecimal (digitsValue 10 (whole @ fraction)) (length fraction)"
  using assms digitsValue_bounds[of fraction]
  by (simp add: normalDecimal_def digitsValue_append showPos_digitsValue padDigits_digitsValue)

lemma last_digit:
  assumes "list_all isDigit s" and "s \<noteq> []" and "last s \<noteq> CHR ''0''"
  shows "digitsValue 10 (t @ s) mod 10 \<noteq> 0"
proof -
  obtain s' c where s: "s = s' @ [c]" using assms(2) by (cases s rule: rev_cases) auto
  then obtain d where d: "digitValue 10 c = Some d" using assms(1) by (auto simp: isDigit_def)
  have "0 \<le> d" "d < 10" "c = char_of (48 + d)" using digitValue_Some[OF d] by auto
  then have "0 < d" using assms(3) s char_zero[of d] by auto
  then show ?thesis using d \<open>d < 10\<close> digitsValue_snoc[of 10 "t @ s'" c] by (simp add: s)
qed

lemma plain_trim: "list_all (\<lambda>c. \<not> isSpace c) s \<Longrightarrow> trim s = s"
proof -
  have "list_all (\<lambda>c. \<not> isSpace c) s \<Longrightarrow> dropWhile isSpace s = s" for s by (cases s) auto
  from this[of s] this[of "rev s"] show "list_all (\<lambda>c. \<not> isSpace c) s \<Longrightarrow> ?thesis" by (simp add: trim_def)
qed

lemma digits_plain:
  assumes "list_all isDigit s"
  shows "list_all (\<lambda>c. \<not> isSpace c) s" and "CHR ''.'' \<notin> set s"
proof -
  have "isDigit c" if "c \<in> set s" for c using assms that by (simp only: list_all_iff)
  then have plain: "\<not> isSpace c \<and> c \<noteq> CHR ''.''" if "c \<in> set s" for c using isDigit_plain that by blast
  show "list_all (\<lambda>c. \<not> isSpace c) s" unfolding list_all_iff using plain by blast
  show "CHR ''.'' \<notin> set s" using plain by blast
qed

lemma decimalText_parts:
  assumes "list_all isDigit whole"
  shows "wholePart (decimalText whole fraction) = whole \<and> fractionPart (decimalText whole fraction) = fraction"
proof -
  have point: "c \<noteq> CHR ''.''" if "c \<in> set whole" for c using digits_plain(2)[OF assms] that by blast
  have alone: "wholePart whole = whole"
    unfolding wholePart_def takeWhile_eq_all_conv using point by blast
  have both: "wholePart (whole @ ''.'' @ fraction) = whole"
    unfolding wholePart_def by (subst takeWhile_append2, erule point) simp
  show ?thesis
  proof (cases "fraction = []")
    case True
    then show ?thesis unfolding decimalText_def fractionPart_def using alone by simp
  next
    case False
    then show ?thesis unfolding decimalText_def fractionPart_def using both by simp
  qed
qed

text \<open>The parser on the text of a normal form, and the normal form of what it parses.\<close>

lemma parse_text:
  assumes "wholeSyntax whole" and "list_all isDigit fraction"
  shows "parseExactNonNegativeDecimal (QText (decimalText whole fraction)) =
    Some (normalDecimal (digitsValue 10 (whole @ dropZeros fraction)) (length (dropZeros fraction)))"
proof -
  have whole: "list_all isDigit whole" using assms(1) by (simp add: wholeSyntax_def)
  have "list_all (\<lambda>c. \<not> isSpace c) (decimalText whole fraction)"
    using digits_plain[OF whole] digits_plain[OF assms(2)] by (simp add: decimalText_def isSpace_def)
  then have plain: "quantityText (QText (decimalText whole fraction)) = decimalText whole fraction"
    by (simp add: quantityText_def plain_trim)
  have parts: "wholePart (decimalText whole fraction) = whole" "fractionPart (decimalText whole fraction) = fraction"
    using decimalText_parts[OF whole] by auto
  have ok: "decimalSyntax (decimalText whole fraction)"
    using assms unfolding decimalSyntax_def parts by (auto simp: decimalText_def)
  obtain k where k: "fraction = dropZeros fraction @ replicate k (CHR ''0'')" by (rule dropZeros_split)
  have "list_all isDigit (dropZeros fraction)" using assms(2) k by (metis list_all_append)
  then show ?thesis
    unfolding parseExactNonNegativeDecimal_def plain parts Let_def using ok normalDecimal_parts[OF assms(1)] by simp
qed

lemma parse_normal:
  assumes "parseExactNonNegativeDecimal v = Some d"
  shows "decimalSyntax (quantityText v) \<and> exactNormal d \<and> decimalValue d = textValue (quantityText v)"
proof -
  let ?text = "quantityText v"
  let ?whole = "wholePart ?text" and ?fraction = "fractionPart ?text"
  have ok: "decimalSyntax ?text" and d: "d = \<lparr>xdCoefficient = digitsValue 10 (?whole @ dropZeros ?fraction),
      xdScale = length (dropZeros ?fraction), xdCanonical = decimalText ?whole (dropZeros ?fraction)\<rparr>"
    using assms by (auto simp: parseExactNonNegativeDecimal_def Let_def split: if_splits)
  have whole: "wholeSyntax ?whole" using ok by (simp add: decimalSyntax_def)
  have fraction: "list_all isDigit ?fraction"
    using ok by (auto simp: decimalSyntax_def fractionPart_def)
  obtain k where k: "?fraction = dropZeros ?fraction @ replicate k (CHR ''0'')"
    and last: "dropZeros ?fraction = [] \<or> last (dropZeros ?fraction) \<noteq> CHR ''0''" by (rule dropZeros_split)
  have digits: "list_all isDigit (dropZeros ?fraction)" using fraction k by (metis list_all_append)
  have normal: "d = normalDecimal (digitsValue 10 (?whole @ dropZeros ?fraction)) (length (dropZeros ?fraction))"
    unfolding d by (rule normalDecimal_parts[OF whole digits])
  have "length (dropZeros ?fraction) = 0 \<or> digitsValue 10 (?whole @ dropZeros ?fraction) mod 10 \<noteq> 0"
    using last last_digit[OF digits, of ?whole] by (cases "dropZeros ?fraction = []") auto
  then have "exactNormal d"
    unfolding exactNormal_def using normal digitsValue_bounds[of "?whole @ dropZeros ?fraction"]
    by (simp add: normalDecimal_def)
  moreover have "digitsValue 10 ?fraction = digitsValue 10 (dropZeros ?fraction) * 10 ^ k"
      "length ?fraction = length (dropZeros ?fraction) + k"
    using arg_cong[OF k, of "digitsValue 10"] arg_cong[OF k, of length] by (simp_all add: digitsValue_append digitsValue_replicate)
  then have "decimalValue d = textValue ?text"
    by (simp add: decimalValue_def textValue_def d digitsValue_append field_simps power_add)
  ultimately show ?thesis using ok by blast
qed

lemma normal_reparse: "exactNormal d \<Longrightarrow> parseExactNonNegativeDecimal (QText (xdCanonical d)) = Some d"
proof -
  assume normal: "exactNormal d"
  let ?c = "xdCoefficient d" and ?k = "xdScale d"
  let ?whole = "showPos (?c div 10 ^ ?k)" and ?fraction = "padDigits ?k (?c mod 10 ^ ?k)"
  have c: "0 \<le> ?c" and d: "d = normalDecimal ?c ?k" and nonzero: "?k = 0 \<or> ?c mod 10 \<noteq> 0"
    using normal by (auto simp: exactNormal_def)
  have whole: "wholeSyntax ?whole" "digitsValue 10 ?whole = ?c div 10 ^ ?k"
    using showPos_syntax[of "?c div 10 ^ ?k"] c by (auto simp: pos_imp_zdiv_nonneg_iff)
  have fraction: "list_all isDigit ?fraction" "digitsValue 10 ?fraction = ?c mod 10 ^ ?k" "length ?fraction = ?k"
    by (simp_all add: padDigits_digits digitsValue_padDigits)
  have total: "digitsValue 10 (?whole @ ?fraction) = ?c"
    unfolding digitsValue_append whole(2) fraction(2,3) by (rule div_mult_mod_eq)
  obtain j where j: "?fraction = dropZeros ?fraction @ replicate j (CHR ''0'')" by (rule dropZeros_split)
  have "j = 0"
  proof (rule ccontr)
    assume "j \<noteq> 0"
    then obtain j' where "j = Suc j'" by (cases j) auto
    then have "?c = digitsValue 10 (?whole @ dropZeros ?fraction) * 10 ^ Suc j'"
      using total j digitsValue_append[of "?whole @ dropZeros ?fraction" "replicate j (CHR ''0'')"]
      by (metis append.assoc digitsValue_replicate length_replicate add.right_neutral)
    then have "?c mod 10 = digitsValue 10 (?whole @ dropZeros ?fraction) * 10 ^ Suc j' mod 10" by (rule arg_cong)
    also have "\<dots> = 0" by simp
    finally have "?c mod 10 = 0" .
    moreover have "?k \<noteq> 0" using j fraction(3) \<open>j \<noteq> 0\<close> by (metis length_append length_replicate add_is_0)
    ultimately show False using nonzero by simp
  qed
  then have same: "dropZeros ?fraction = ?fraction" using j by simp
  have "xdCanonical d = decimalText ?whole ?fraction" by (subst d) (simp add: normalDecimal_def)
  then show ?thesis using parse_text[OF whole(1) fraction(1)] d unfolding same total fraction(3) by simp
qed

lemma normal_value:
  assumes "exactNormal d" and "exactNormal e" and "decimalValue d = decimalValue e"
  shows "d = e"
proof -
  have le: "xdScale a = xdScale b" if b: "exactNormal b" and same: "decimalValue a = decimalValue b" and less: "xdScale a \<le> xdScale b" for a b
  proof (rule ccontr)
    assume "xdScale a \<noteq> xdScale b"
    then obtain n where n: "xdScale b = xdScale a + Suc n" using less by (metis less_iff_Suc_add add_Suc_right le_neq_implies_less)
    have "(of_int (xdCoefficient b) :: rat) = of_int (xdCoefficient a * 10 ^ Suc n)"
      using same by (simp add: decimalValue_def n field_simps power_add)
    then have "xdCoefficient b = xdCoefficient a * 10 ^ Suc n" by (simp only: of_int_eq_iff)
    then have "xdCoefficient b mod 10 = 0" by simp
    then show False using b n by (simp add: exactNormal_def)
  qed
  have scale: "xdScale d = xdScale e"
    using le[of d e] le[of e d] assms by (cases "xdScale d \<le> xdScale e") auto
  then have "(of_int (xdCoefficient d) :: rat) = of_int (xdCoefficient e)" using assms(3) by (simp add: decimalValue_def)
  then have "xdCoefficient d = xdCoefficient e" by (simp only: of_int_eq_iff)
  then show ?thesis using assms(1,2) scale by (simp add: exactNormal_def)
qed

subsection \<open>Comparison and subtraction\<close>

lemma scaledTo_value:
  "xdScale d \<le> scale \<Longrightarrow> (of_int (scaledTo scale d) :: rat) = decimalValue d * 10 ^ scale"
  by (simp add: scaledTo_def decimalValue_def field_simps flip: power_add)

lemma padded_parts:
  "0 \<le> c \<Longrightarrow> padStart0 (k + 1) (showPos c) = showPos (c div 10 ^ k) @ padDigits k (c mod 10 ^ k)"
proof (induction k arbitrary: c)
  case 0
  then show ?case using showPos_syntax[of c] by (auto simp: padStart0_def wholeSyntax_def Suc_le_eq)
next
  case (Suc k)
  have shift: "padStart0 (Suc k + 1) (s @ [x]) = padStart0 (k + 1) s @ [x]" for s x by (simp add: padStart0_def)
  have "padStart0 (Suc k + 1) (showPos c) = padStart0 (k + 1) (showPos (c div 10)) @ [char_of (48 + c mod 10)]"
  proof (cases "c < 10")
    case True
    then show ?thesis using Suc.prems by (simp add: showPos_digit padStart0_def replicate_append_same flip: replicate_Suc)
  next
    case False
    then show ?thesis using showPos_rec[of c] shift by simp
  qed
  also have "\<dots> = showPos (c div 10 ^ Suc k) @ padDigits k (c div 10 mod 10 ^ k) @ [char_of (48 + c mod 10)]"
    using Suc by (simp add: zdiv_zmult2_eq)
  also have "c div 10 mod 10 ^ k = c mod 10 ^ Suc k div 10" by (simp add: zmod_zmult2_eq)
  also have "c mod 10 = c mod 10 ^ Suc k mod 10" by (simp add: mod_mod_cancel)
  finally show ?case by simp
qed

lemma dropZeros_idem [simp]: "dropZeros (dropZeros s) = dropZeros s"
  by (simp add: dropZeros_def)

lemma dropZeros_value:
  "of_int (digitsValue 10 (dropZeros s)) / 10 ^ length (dropZeros s) = (of_int (digitsValue 10 s) / 10 ^ length s :: rat)"
proof -
  obtain k where k: "s = dropZeros s @ replicate k (CHR ''0'')" by (rule dropZeros_split)
  have "digitsValue 10 s = digitsValue 10 (dropZeros s) * 10 ^ k" "length s = length (dropZeros s) + k"
    using arg_cong[OF k, of "digitsValue 10"] arg_cong[OF k, of length] by (simp_all add: digitsValue_append digitsValue_replicate)
  then show ?thesis by (simp add: power_add)
qed

lemma plain_quantity: "list_all isDigit whole \<Longrightarrow> list_all isDigit fraction \<Longrightarrow>
  quantityText (QText (decimalText whole fraction)) = decimalText whole fraction"
  using digits_plain(1)[of whole] digits_plain(1)[of fraction]
  by (simp add: quantityText_def plain_trim decimalText_def isSpace_def)

text \<open>The text of a nonnegative coefficient at a scale, as the subtraction prints it.\<close>

lemma printed_difference:
  assumes "0 \<le> c"
  obtains d where "parseExactNonNegativeDecimal (QText (decimalText (showPos (c div 10 ^ k)) (dropZeros (padDigits k (c mod 10 ^ k))))) = Some d"
    "xdCanonical d = decimalText (showPos (c div 10 ^ k)) (dropZeros (padDigits k (c mod 10 ^ k)))"
    "decimalValue d = of_int c / 10 ^ k"
proof -
  let ?whole = "showPos (c div 10 ^ k)" and ?digits = "padDigits k (c mod 10 ^ k)"
  let ?text = "decimalText ?whole (dropZeros ?digits)"
  have whole: "wholeSyntax ?whole" "digitsValue 10 ?whole = c div 10 ^ k"
    using showPos_syntax[of "c div 10 ^ k"] assms by (auto simp: pos_imp_zdiv_nonneg_iff)
  then have wholeDigits: "list_all isDigit ?whole" by (simp add: wholeSyntax_def)
  have digits: "list_all isDigit ?digits" "digitsValue 10 ?digits = c mod 10 ^ k" "length ?digits = k"
    by (simp_all add: padDigits_digits digitsValue_padDigits)
  obtain j where "?digits = dropZeros ?digits @ replicate j (CHR ''0'')" by (rule dropZeros_split)
  then have kept: "list_all isDigit (dropZeros ?digits)" using digits(1) by (metis list_all_append)
  have parsed: "parseExactNonNegativeDecimal (QText ?text) =
      Some (normalDecimal (digitsValue 10 (?whole @ dropZeros ?digits)) (length (dropZeros ?digits)))"
    using parse_text[OF whole(1) kept] by simp
  let ?d = "normalDecimal (digitsValue 10 (?whole @ dropZeros ?digits)) (length (dropZeros ?digits))"
  have "decimalValue ?d = textValue ?text"
    using parse_normal[OF parsed] plain_quantity[OF wholeDigits kept] by simp
  also have "\<dots> = of_int (c div 10 ^ k) + of_int (digitsValue 10 (dropZeros ?digits)) / 10 ^ length (dropZeros ?digits)"
    using decimalText_parts[OF wholeDigits, of "dropZeros ?digits"] by (simp add: textValue_def whole(2))
  also have "\<dots> = of_int (c div 10 ^ k) + of_int (c mod 10 ^ k) / 10 ^ k"
    unfolding dropZeros_value digits(2,3) by simp
  also have "\<dots> = of_int (c div 10 ^ k * 10 ^ k + c mod 10 ^ k) / 10 ^ k"
    unfolding of_int_add of_int_mult of_int_power of_int_numeral by (simp add: add_divide_distrib)
  also have "\<dots> = of_int c / 10 ^ k" by (simp only: div_mult_mod_eq)
  finally have amount: "decimalValue ?d = of_int c / 10 ^ k" .
  have "xdCanonical ?d = ?text" using normalDecimal_parts[OF whole(1) kept] by (metis exactDecimal.select_convs(3))
  then show ?thesis using that[OF parsed _ amount] by blast
qed

lemma subtract_text:
  assumes "subtractDecimal l r = Some t"
  obtains d where "parseExactNonNegativeDecimal (QText t) = Some d" "xdCanonical d = t"
    "decimalValue d = decimalValue l - decimalValue r"
proof -
  let ?k = "max (xdScale l) (xdScale r)"
  let ?c = "scaledTo ?k l - scaledTo ?k r"
  have c: "0 \<le> ?c" using assms by (auto simp: subtractDecimal_def Let_def split: if_splits)
  have t: "t = decimalText (showPos (?c div 10 ^ ?k)) (dropZeros (padDigits ?k (?c mod 10 ^ ?k)))"
  proof (cases "?k = 0")
    case True
    then show ?thesis using assms c by (simp add: subtractDecimal_def decimalText_def dropZeros_def)
  next
    case False
    have "t = decimalText (take (length (padStart0 (?k + 1) (showPos ?c)) - ?k) (padStart0 (?k + 1) (showPos ?c)))
        (dropZeros (drop (length (padStart0 (?k + 1) (showPos ?c)) - ?k) (padStart0 (?k + 1) (showPos ?c))))"
      using assms unfolding subtractDecimal_def Let_def if_not_P[OF False] if_not_P[OF c[folded not_less]] by simp
    then show ?thesis unfolding padded_parts[OF c] by simp
  qed
  have "(of_int ?c :: rat) / 10 ^ ?k = decimalValue l - decimalValue r"
    using scaledTo_value[of l ?k] scaledTo_value[of r ?k] by (simp add: field_simps)
  then show ?thesis using printed_difference[OF c, of ?k] that unfolding t by metis
qed

lemma scaled_less:
  "scaledTo (max (xdScale l) (xdScale r)) l < scaledTo (max (xdScale l) (xdScale r)) r \<longleftrightarrow> decimalValue l < decimalValue r"
  "scaledTo (max (xdScale l) (xdScale r)) r < scaledTo (max (xdScale l) (xdScale r)) l \<longleftrightarrow> decimalValue r < decimalValue l"
proof -
  let ?k = "max (xdScale l) (xdScale r)"
  have l: "(of_int (scaledTo ?k l) :: rat) = decimalValue l * 10 ^ ?k" and r: "(of_int (scaledTo ?k r) :: rat) = decimalValue r * 10 ^ ?k"
    by (simp_all add: scaledTo_value)
  show "scaledTo ?k l < scaledTo ?k r \<longleftrightarrow> decimalValue l < decimalValue r"
    using of_int_less_iff[where 'a = rat, of "scaledTo ?k l" "scaledTo ?k r"] unfolding l r by simp
  show "scaledTo ?k r < scaledTo ?k l \<longleftrightarrow> decimalValue r < decimalValue l"
    using of_int_less_iff[where 'a = rat, of "scaledTo ?k r" "scaledTo ?k l"] unfolding l r by simp
qed

lemma compareDecimal_value:
  "compareDecimal l r = (if decimalValue l < decimalValue r then -1 else if decimalValue r < decimalValue l then 1 else 0)"
  unfolding compareDecimal_def Let_def scaled_less ..

lemma equalDecimal_value: "equalDecimal l r \<longleftrightarrow> decimalValue l = decimalValue r"
proof -
  have "equalDecimal l r \<longleftrightarrow> scaledTo (max (xdScale l) (xdScale r)) l = scaledTo (max (xdScale l) (xdScale r)) r"
    by (auto simp: equalDecimal_def scaledTo_def Let_def)
  then show ?thesis using scaled_less[of l r] by (metis less_irrefl linorder_cases)
qed

lemma subtractDecimal_None: "subtractDecimal l r = None \<longleftrightarrow> decimalValue l < decimalValue r"
  by (simp add: subtractDecimal_def Let_def scaled_less)

text \<open>C28: exact decimals have one normal form. A quantity that parses denotes the number of its text, its canonical text
  parses to the same decimal again, and two quantities have the same canonical text exactly when they are the same number.
\<close>
theorem exact_decimal_normal_form:
  assumes "parseExactNonNegativeDecimal v = Some d" and "parseExactNonNegativeDecimal v' = Some e"
  shows "decimalValue d = textValue (quantityText v) \<and> parseExactNonNegativeDecimal (QText (xdCanonical d)) = Some d \<and>
    (xdCanonical d = xdCanonical e \<longleftrightarrow> textValue (quantityText v) = textValue (quantityText v'))"
proof -
  note d = parse_normal[OF assms(1)] and e = parse_normal[OF assms(2)]
  have "xdCanonical d = xdCanonical e \<longleftrightarrow> d = e" using d e normal_reparse by (metis option.inject)
  then show ?thesis using d e normal_reparse normal_value by metis
qed

theorem exact_decimal_normal_form_witness:
  "parseExactNonNegativeDecimal (QText ''12.50'') = Some \<lparr>xdCoefficient = 125, xdScale = 1, xdCanonical = ''12.5''\<rparr> \<and>
   parseExactNonNegativeDecimal (QText ''12.5'') = Some \<lparr>xdCoefficient = 125, xdScale = 1, xdCanonical = ''12.5''\<rparr> \<and>
   textValue (quantityText (QText ''12.50'')) = textValue (quantityText (QText ''12.5''))"
proof -
  have a: "parseExactNonNegativeDecimal (QText ''12.50'') = Some \<lparr>xdCoefficient = 125, xdScale = 1, xdCanonical = ''12.5''\<rparr>"
    and b: "parseExactNonNegativeDecimal (QText ''12.5'') = Some \<lparr>xdCoefficient = 125, xdScale = 1, xdCanonical = ''12.5''\<rparr>"
    by code_simp+
  show ?thesis using exact_decimal_normal_form[OF a b] a b by simp
qed

end
