(* ===== verification/ExitState.thy ===== *)
theory ExitState
  imports Actions LifecycleStatus AdaptivePolling DateText
begin

text \<open>
  The tables of the exit path, its environment, and \<open>src/services/position-exit-state.service.ts\<close>:
  the exit state of a tracked position, from watching its price to the life of its protective
  trailing-stop order at the broker. As at the entry boundary, other transactions may run before each
  await, and a database call may fail before or after it took effect.
\<close>

subsection \<open>Tables\<close>

record exitProfile =
  xfKey :: string
  xfExitMode :: string
  xfTakeProfitBehavior :: string
  xfTargetPct :: "jsnum option"
  xfStopLossPct :: "jsnum option"
  xfTrailingStopPct :: "jsnum option"

record exitSubscription =
  xuId :: int
  xuKey :: string
  xuExitProfile :: exitProfile

record exitAssignment =
  xaId :: int
  xaTradingAccountId :: int
  xaSubscriptionId :: int
  xaEnabled :: bool
  xaExitsEnabled :: bool

record exitPosition =
  xpId :: int
  xpSymbol :: string
  xpSide :: string
  xpQty :: jsnum
  xpCurrentPrice :: jsnum
  xpUnrealizedPnLPct :: jsnum
  xpStatus :: string
  xpSecurityId :: int
  xpSubscriptionId :: "int option"
  xpTradingAccountId :: "int option"
  xpAssignmentId :: "int option"
  xpLastSyncedAt :: int

record exitState =
  xsId :: int
  xsTrackedPositionId :: int
  xsExitManagementMode :: string
  xsStatus :: string
  xsTargetUnlocked :: bool
  xsTargetUnlockedAt :: "int option"
  xsTargetUnlockedPrice :: "jsnum option"
  xsTargetUnlockedPnlPct :: "jsnum option"
  xsHighWaterMark :: "jsnum option"
  xsTrailStopPrice :: "jsnum option"
  xsExitProfileKey :: "string option"
  xsExitMode :: "string option"
  xsTakeProfitBehavior :: "string option"
  xsTargetPct :: "jsnum option"
  xsTrailingStopPct :: "jsnum option"
  xsTrailBroker :: "string option"
  xsTrailBrokerOrderId :: "string option"
  xsTrailClientOrderId :: "string option"
  xsTrailOrderStatus :: "string option"
  xsRawBrokerJson :: "json option"
  xsAttentionRequired :: bool
  xsAttentionCode :: "string option"
  xsAttentionMessage :: "string option"
  xsAttentionAt :: "int option"
  xsAttentionClearedAt :: "int option"

record exitIntent =
  xiId :: int
  xiSource :: string
  xiSymbol :: string
  xiSide :: string
  xiOrderType :: string
  xiTimeInForce :: string
  xiQty :: jsnum
  xiClientOrderId :: string
  xiTradingAccountId :: int
  xiAssignmentId :: int
  xiTrackedPositionId :: "int option"
  xiSubscriptionId :: "int option"
  xiSubscriptionKey :: "string option"
  xiStatus :: string
  xiBlockReason :: "string option"
  xiRawRequestJson :: json
  xiCreatedAt :: int
  xiUpdatedAt :: int

record exitOrderRow =
  xoId :: int
  xoOrderIntentId :: int
  xoTradingAccountId :: int
  xoBroker :: string
  xoBrokerOrderId :: string
  xoClientOrderId :: string
  xoSymbol :: string
  xoSide :: string
  xoStatus :: string
  xoSecurityId :: int
  xoTrackedPositionId :: "int option"
  xoRawBrokerJson :: json

text \<open>The accounts with their environment, \<open>PAPER\<close> or \<open>LIVE\<close>.\<close>

record exitStore =
  xdAccounts :: "(int \<times> string) list"
  xdSubscriptions :: "exitSubscription list"
  xdAssignments :: "exitAssignment list"
  xdPositions :: "exitPosition list"
  xdExitStates :: "exitState list"
  xdIntents :: "exitIntent list"
  xdOrders :: "exitOrderRow list"
  xdNextStateId :: int
  xdNextIntentId :: int
  xdNextOrderId :: int

definition positionOf :: "int \<Rightarrow> exitStore \<Rightarrow> exitPosition option" where
  "positionOf i db = List.find (\<lambda>p. xpId p = i) (xdPositions db)"

definition exitStateOf :: "int \<Rightarrow> exitStore \<Rightarrow> exitState option" where
  "exitStateOf i db = List.find (\<lambda>x. xsTrackedPositionId x = i) (xdExitStates db)"

definition subscriptionOf :: "exitPosition \<Rightarrow> exitStore \<Rightarrow> exitSubscription option" where
  "subscriptionOf p db = Option.bind (xpSubscriptionId p) (\<lambda>i. List.find (\<lambda>u. xuId u = i) (xdSubscriptions db))"

definition assignmentOf :: "exitPosition \<Rightarrow> exitStore \<Rightarrow> exitAssignment option" where
  "assignmentOf p db = Option.bind (xpAssignmentId p) (\<lambda>i. List.find (\<lambda>a. xaId a = i) (xdAssignments db))"

subsection \<open>Writes\<close>

definition prismaError :: "string \<Rightarrow> appError" where
  "prismaError message = PlainError ''PrismaClientKnownRequestError'' message"

definition updatePositions :: "(exitPosition \<Rightarrow> bool) \<Rightarrow> (exitPosition \<Rightarrow> exitPosition) \<Rightarrow> exitStore \<Rightarrow> int \<times> exitStore" where
  "updatePositions P f db =
     (int (length (filter P (xdPositions db))),
      db\<lparr>xdPositions := map (\<lambda>p. if P p then f p else p) (xdPositions db)\<rparr>)"

definition updateStates :: "(exitState \<Rightarrow> bool) \<Rightarrow> (exitState \<Rightarrow> exitState) \<Rightarrow> exitStore \<Rightarrow> int \<times> exitStore" where
  "updateStates P f db =
     (int (length (filter P (xdExitStates db))),
      db\<lparr>xdExitStates := map (\<lambda>x. if P x then f x else x) (xdExitStates db)\<rparr>)"

text \<open>\<open>updateMany\<close> of intents sets their \<open>updatedAt\<close>.\<close>

definition updateExitIntents :: "(exitIntent \<Rightarrow> bool) \<Rightarrow> (exitIntent \<Rightarrow> exitIntent) \<Rightarrow> int \<Rightarrow> exitStore \<Rightarrow> int \<times> exitStore" where
  "updateExitIntents P f now db =
     (int (length (filter P (xdIntents db))),
      db\<lparr>xdIntents := map (\<lambda>i. if P i then (f i)\<lparr>xiUpdatedAt := now\<rparr> else i) (xdIntents db)\<rparr>)"

definition createExitIntent :: "exitIntent \<Rightarrow> int \<Rightarrow> exitStore \<Rightarrow> exitIntent \<times> exitStore" where
  "createExitIntent i now db =
     (let i' = i\<lparr>xiId := xdNextIntentId db, xiCreatedAt := now, xiUpdatedAt := now\<rparr>
      in (i', db\<lparr>xdIntents := xdIntents db @ [i'], xdNextIntentId := xdNextIntentId db + 1\<rparr>))"

text \<open>The unique indexes of the broker orders of an account: the broker's identifier and the client's.\<close>

definition ordersClash :: "exitOrderRow \<Rightarrow> exitOrderRow \<Rightarrow> bool" where
  "ordersClash a b =
     (xoTradingAccountId a = xoTradingAccountId b \<and> xoBroker a = xoBroker b \<and>
      (xoBrokerOrderId a = xoBrokerOrderId b \<or> xoClientOrderId a = xoClientOrderId b))"

text \<open>An update of the order \<open>existing\<close>, or the creation of a new one; it throws when an index would be violated.\<close>

definition saveOrder :: "int option \<Rightarrow> exitOrderRow \<Rightarrow> exitStore \<Rightarrow> (unit \<times> exitStore) result" where
  "saveOrder existing order db =
     (if list_ex (\<lambda>b. Some (xoId b) \<noteq> existing \<and> ordersClash order b) (xdOrders db) then Inl (prismaError ''Constraint failed'')
      else case existing of
          None \<Rightarrow> Inr ((), db\<lparr>xdOrders := xdOrders db @ [order\<lparr>xoId := xdNextOrderId db\<rparr>], xdNextOrderId := xdNextOrderId db + 1\<rparr>)
        | Some i \<Rightarrow>
            if list_ex (\<lambda>b. xoId b = i) (xdOrders db) then
              Inr ((), db\<lparr>xdOrders := map (\<lambda>b. if xoId b = i then order\<lparr>xoId := i\<rparr> else b) (xdOrders db)\<rparr>)
            else Inl (prismaError ''Record to update not found.''))"

subsection \<open>The broker and the environment\<close>

text \<open>Orders and positions as the broker returns them; \<open>soJson\<close> is the whole response.\<close>

record brokerSellOrder =
  soId :: string
  soClientOrderId :: string
  soSymbol :: string
  soSide :: string
  soStatus :: string
  soType :: string
  soQty :: "string option"
  soFilledQty :: "string option"
  soLimitPrice :: "string option"
  soStopPrice :: "string option"
  soTrailPrice :: "string option"
  soTrailPercent :: "string option"
  soJson :: json

record brokerPosition =
  bqAssetId :: string
  bqSymbol :: string
  bqQty :: string
  bqQtyAvailable :: "string option"
  bqSide :: string

record exitPayload =
  xqSymbol :: string
  xqSide :: string
  xqPositionIntent :: string
  xqType :: string
  xqTimeInForce :: string
  xqQty :: string
  xqClientOrderId :: string
  xqTrailPercent :: "string option"

record exitPost =
  xtTradingAccountId :: int
  xtPayload :: exitPayload

text \<open>\<open>xwSent\<close>: the exit orders that were sent, each with the answer.\<close>

record exitWorld =
  xwDb :: exitStore
  xwSent :: "(exitPost \<times> (entryError + brokerSellOrder)) list"
  xwCoordinator :: coordinator

datatype lockOutcome = LockAcquired | LockNotAcquired | LockError

text \<open>
  \<open>xeOthers k\<close> is what other transactions do before the \<open>k\<close>-th await, \<open>xeFault k\<close> the failure of a
  database call there. The answers of the broker depend on the await. \<open>xeEffect\<close> is the outcome of a
  write outside the modelled tables (system events, operational attention), \<open>xeAttentions\<close> the number of
  open exit attentions of a position, \<open>xeAttentionOpen\<close> whether one with a fingerprint is open.
\<close>

record exitEnv =
  xeOthers :: "nat \<Rightarrow> exitStore \<Rightarrow> exitStore"
  xeFault :: "nat \<Rightarrow> fault option"
  xeNow :: "nat \<Rightarrow> int"
  xeLookup :: "nat \<Rightarrow> int \<Rightarrow> string \<Rightarrow> entryError + brokerSellOrder option"
  xeOrderById :: "int \<Rightarrow> string \<Rightarrow> entryError + brokerSellOrder option"
  xePosition :: "int \<Rightarrow> string \<Rightarrow> entryError + brokerPosition option"
  xeOpenOrders :: "int \<Rightarrow> entryError + brokerSellOrder list"
  xePost :: "exitPost \<Rightarrow> entryError + brokerSellOrder"
  xeEffect :: "nat \<Rightarrow> entryError + unit"
  xeAuthorize :: "int \<Rightarrow> entryError + unit"
  xeLock :: "int \<Rightarrow> lockOutcome"
  xeAttentions :: "int \<Rightarrow> int \<Rightarrow> nat"
  xeAttentionOpen :: "string \<Rightarrow> bool"
  xeNodeEnv :: string
  xeLiveWriteDeploymentRole :: string

type_synonym 'a exitAction = "(exitWorld, 'a) run"

definition exitStep :: "exitEnv \<Rightarrow> nat \<Rightarrow> (exitStore \<Rightarrow> ('a \<times> exitStore) result) \<Rightarrow> 'a exitAction" where
  "exitStep env k f s =
     (let db = xeOthers env k (xwDb s);
          written = (case f db of Inl e \<Rightarrow> (Inl (Failure e), db) | Inr (x, db') \<Rightarrow> (Inr x, db'))
      in case xeFault env k of
           Some (BeforeCommit e) \<Rightarrow> (Inl e, s\<lparr>xwDb := db\<rparr>)
         | Some (AfterCommit e) \<Rightarrow> (Inl e, s\<lparr>xwDb := snd written\<rparr>)
         | None \<Rightarrow> (fst written, s\<lparr>xwDb := snd written\<rparr>))"

definition exitRead :: "exitEnv \<Rightarrow> nat \<Rightarrow> (exitStore \<Rightarrow> 'a) \<Rightarrow> 'a exitAction" where
  "exitRead env k f = exitStep env k (\<lambda>db. Inr (f db, db))"

text \<open>An await that changes no modelled table: a call to the broker, a guard, a system event.\<close>

definition exitCall :: "exitEnv \<Rightarrow> nat \<Rightarrow> entryError + 'a \<Rightarrow> 'a exitAction" where
  "exitCall env k r s = (r, s\<lparr>xwDb := xeOthers env k (xwDb s)\<rparr>)"

definition exitEffect :: "exitEnv \<Rightarrow> nat \<Rightarrow> unit exitAction" where
  "exitEffect env k = exitCall env k (xeEffect env k)"

definition exitSend :: "exitEnv \<Rightarrow> nat \<Rightarrow> exitPost \<Rightarrow> brokerSellOrder exitAction" where
  "exitSend env k p s =
     (xePost env p, s\<lparr>xwDb := xeOthers env k (xwDb s), xwSent := xwSent s @ [(p, xePost env p)]\<rparr>)"

definition plainError :: "string \<Rightarrow> entryError" where
  "plainError message = Failure (PlainError ''Error'' message)"

subsection \<open>The exit state\<close>

definition calculateTrailStopPrice :: "jsnum \<Rightarrow> jsnum \<Rightarrow> jsnum" where
  "calculateTrailStopPrice highWaterMark trailingStopPct =
     jsMul highWaterMark (jsSub (Fin 1) (jsDiv trailingStopPct (Fin 100)))"

definition mapTrailingStopOrderStatusToExitStateStatus :: "string \<Rightarrow> string" where
  "mapTrailingStopOrderStatusToExitStateStatus orderStatus =
     (let s = normalizeBrokerOrderStatus orderStatus in
      if s = ''filled'' then ''trailing_stop_filled''
      else if s = ''canceled'' then ''trailing_stop_canceled''
      else if s = ''expired'' then ''trailing_stop_expired''
      else if s = ''rejected'' then ''trailing_stop_rejected''
      else if s = ''replaced'' then ''trailing_stop_replaced_attention''
      else if s = ''done_for_day'' then ''trailing_stop_done_for_day_attention''
      else if s = ''calculated'' then ''trailing_stop_calculated_attention''
      else ''trailing_stop_submitted'')"

definition buildAttentionRequiredData :: "string \<Rightarrow> string \<Rightarrow> int \<Rightarrow> exitState \<Rightarrow> exitState" where
  "buildAttentionRequiredData code message now x =
     x\<lparr>xsAttentionRequired := True, xsAttentionCode := Some code, xsAttentionMessage := Some message,
       xsAttentionAt := Some now, xsAttentionClearedAt := None\<rparr>"

definition buildAttentionClearedData :: "int \<Rightarrow> exitState \<Rightarrow> exitState" where
  "buildAttentionClearedData now x =
     x\<lparr>xsAttentionRequired := False, xsAttentionCode := None, xsAttentionMessage := None,
       xsAttentionAt := None, xsAttentionClearedAt := Some now\<rparr>"

definition buildTrailingStopOrderStatusAttentionData :: "string \<Rightarrow> int \<Rightarrow> exitState \<Rightarrow> exitState" where
  "buildTrailingStopOrderStatusAttentionData orderStatus =
     (let s = normalizeBrokerOrderStatus orderStatus in
      if s = ''filled'' then buildAttentionClearedData
      else if s = ''rejected'' then buildAttentionRequiredData ''trail_order_rejected''
        ''Protective trailing stop order was rejected by the broker.''
      else if s = ''canceled'' then buildAttentionRequiredData ''trail_order_canceled''
        ''Protective trailing stop order was canceled.''
      else if s = ''expired'' then buildAttentionRequiredData ''trail_order_expired''
        ''Protective trailing stop order expired.''
      else if s = ''replaced'' then buildAttentionRequiredData ''trail_order_replaced_unlinked''
        ''Protective trailing stop order was replaced, but no verified replacement is linked.''
      else if s = ''done_for_day'' then buildAttentionRequiredData ''trail_order_done_for_day''
        ''Protective trailing stop order reached done_for_day while exposure may remain.''
      else if s = ''calculated'' then buildAttentionRequiredData ''trail_order_calculated''
        ''Protective trailing stop order reached calculated while exposure may remain.''
      else buildAttentionClearedData)"

text \<open>The columns that the creation and the reset take from the exit profile.\<close>

definition withProfile :: "exitProfile option \<Rightarrow> exitState \<Rightarrow> exitState" where
  "withProfile profile x =
     x\<lparr>xsExitProfileKey := map_option xfKey profile, xsExitMode := map_option xfExitMode profile,
       xsTakeProfitBehavior := map_option xfTakeProfitBehavior profile,
       xsTargetPct := Option.bind profile xfTargetPct, xsTrailingStopPct := Option.bind profile xfTrailingStopPct\<rparr>"

definition newExitState :: "int \<Rightarrow> exitState" where
  "newExitState i =
     \<lparr>xsId = 0, xsTrackedPositionId = i, xsExitManagementMode = ''BACKEND_MANAGED'', xsStatus = ''watching'',
      xsTargetUnlocked = False, xsTargetUnlockedAt = None, xsTargetUnlockedPrice = None, xsTargetUnlockedPnlPct = None,
      xsHighWaterMark = None, xsTrailStopPrice = None, xsExitProfileKey = None, xsExitMode = None,
      xsTakeProfitBehavior = None, xsTargetPct = None, xsTrailingStopPct = None, xsTrailBroker = None,
      xsTrailBrokerOrderId = None, xsTrailClientOrderId = None, xsTrailOrderStatus = None, xsRawBrokerJson = None,
      xsAttentionRequired = False, xsAttentionCode = None, xsAttentionMessage = None, xsAttentionAt = None,
      xsAttentionClearedAt = None\<rparr>"

definition createExitState :: "exitState \<Rightarrow> exitStore \<Rightarrow> (exitState \<times> exitStore) result" where
  "createExitState x db =
     (if exitStateOf (xsTrackedPositionId x) db \<noteq> None then Inl (prismaError ''Constraint failed'')
      else let x' = x\<lparr>xsId := xdNextStateId db\<rparr>
           in Inr (x', db\<lparr>xdExitStates := xdExitStates db @ [x'], xdNextStateId := xdNextStateId db + 1\<rparr>))"

text \<open>\<open>update\<close> by the position; the updated row.\<close>

definition updateExitState :: "int \<Rightarrow> (exitState \<Rightarrow> exitState) \<Rightarrow> exitStore \<Rightarrow> (exitState \<times> exitStore) result" where
  "updateExitState i f db =
     (case exitStateOf i db of
        None \<Rightarrow> Inl (prismaError ''Record to update not found.'')
      | Some x \<Rightarrow> Inr (f x, snd (updateStates (\<lambda>y. xsTrackedPositionId y = i) f db)))"

definition positionNotFound :: "int \<Rightarrow> appError" where
  "positionNotFound i = PlainError ''Error'' (''Tracked position '' @ showInt i @ '' was not found.'')"

definition getPositionWithExitProfile :: "int \<Rightarrow> exitStore \<Rightarrow> (exitProfile option \<times> exitStore) result" where
  "getPositionWithExitProfile i db =
     (case positionOf i db of
        None \<Rightarrow> Inl (positionNotFound i)
      | Some p \<Rightarrow> Inr (map_option xuExitProfile (subscriptionOf p db), db))"

definition ensurePositionExitState :: "exitEnv \<Rightarrow> nat \<Rightarrow> int \<Rightarrow> exitState exitAction" where
  "ensurePositionExitState env k i =
     bindA (exitRead env k (exitStateOf i)) (\<lambda>existing.
     case existing of
       Some x \<Rightarrow> returnA x
     | None \<Rightarrow>
       bindA (exitStep env (k + 1) (getPositionWithExitProfile i)) (\<lambda>profile.
       exitStep env (k + 2) (createExitState (withProfile profile (newExitState i)))))"

text \<open>The reset keeps the ownership, the raw response and the identity of the row.\<close>

definition resetState :: "exitProfile option \<Rightarrow> exitState \<Rightarrow> exitState" where
  "resetState profile x =
     withProfile profile (newExitState (xsTrackedPositionId x))
       \<lparr>xsId := xsId x, xsExitManagementMode := xsExitManagementMode x, xsRawBrokerJson := xsRawBrokerJson x\<rparr>"

definition resetPositionExitStateForOpenPosition :: "exitEnv \<Rightarrow> nat \<Rightarrow> int \<Rightarrow> exitState exitAction" where
  "resetPositionExitStateForOpenPosition env k i =
     bindA (exitStep env k (getPositionWithExitProfile i)) (\<lambda>profile.
     exitStep env (k + 1) (\<lambda>db.
       if exitStateOf i db = None then createExitState (withProfile profile (newExitState i)) db
       else updateExitState i (resetState profile) db))"

definition unlockTrailingStopExitState :: "int \<Rightarrow> jsnum \<Rightarrow> jsnum \<Rightarrow> jsnum \<Rightarrow> jsnum \<Rightarrow> int \<Rightarrow> exitStore \<Rightarrow> (exitState \<times> exitStore) result" where
  "unlockTrailingStopExitState i currentPrice pnlPct targetPct trailingStopPct now =
     updateExitState i (\<lambda>x. x\<lparr>xsStatus := ''target_unlocked'', xsTargetUnlocked := True, xsTargetUnlockedAt := Some now,
       xsTargetUnlockedPrice := Some currentPrice, xsTargetUnlockedPnlPct := Some pnlPct, xsHighWaterMark := Some currentPrice,
       xsTrailStopPrice := Some (calculateTrailStopPrice currentPrice trailingStopPct), xsTargetPct := Some targetPct,
       xsTrailingStopPct := Some trailingStopPct\<rparr>)"

definition markTrailingStopOrderSubmitted :: "int \<Rightarrow> string \<Rightarrow> string \<Rightarrow> string \<Rightarrow> string \<Rightarrow> json \<Rightarrow> int \<Rightarrow> exitStore \<Rightarrow> (exitState \<times> exitStore) result" where
  "markTrailingStopOrderSubmitted i broker brokerOrderId clientOrderId orderStatus raw now =
     (let s = normalizeBrokerOrderStatus orderStatus in
      updateExitState i (\<lambda>x. buildTrailingStopOrderStatusAttentionData s now
        (x\<lparr>xsStatus := mapTrailingStopOrderStatusToExitStateStatus s, xsTrailBroker := Some broker,
           xsTrailBrokerOrderId := Some brokerOrderId, xsTrailClientOrderId := Some clientOrderId,
           xsTrailOrderStatus := Some s, xsRawBrokerJson := Some raw\<rparr>)))"

definition markTrailingStopOrderSubmitFailed :: "int \<Rightarrow> json \<Rightarrow> int \<Rightarrow> exitStore \<Rightarrow> (exitState \<times> exitStore) result" where
  "markTrailingStopOrderSubmitFailed i payload now =
     updateExitState i (\<lambda>x. buildAttentionRequiredData ''trail_submit_failed''
       ''Protective trailing stop order submission failed.'' now
       (x\<lparr>xsStatus := ''trailing_stop_submit_failed'', xsTrailOrderStatus := Some ''submit_failed'', xsRawBrokerJson := Some payload\<rparr>))"

definition markPositionExitStateClosed :: "int \<Rightarrow> json option \<Rightarrow> int \<Rightarrow> exitStore \<Rightarrow> (exitState \<times> exitStore) result" where
  "markPositionExitStateClosed i payload now db =
     (let raw = (\<lambda>x. case payload of None \<Rightarrow> x | Some j \<Rightarrow> x\<lparr>xsRawBrokerJson := Some j\<rparr>);
          close = (\<lambda>x. raw (buildAttentionClearedData now (x\<lparr>xsStatus := ''closed''\<rparr>)))
      in if exitStateOf i db = None then createExitState (close (newExitState i)) db
         else updateExitState i close db)"

definition syncTrailingStopOrderStatus :: "int \<Rightarrow> string \<Rightarrow> string option \<Rightarrow> string \<Rightarrow> json \<Rightarrow> int \<Rightarrow> exitStore \<Rightarrow> int \<times> exitStore" where
  "syncTrailingStopOrderStatus account clientOrderId brokerOrderId orderStatus raw now db =
     (let s = normalizeBrokerOrderStatus orderStatus in
      updateStates
        (\<lambda>x. xsTrailClientOrderId x = Some clientOrderId \<and>
           (case positionOf (xsTrackedPositionId x) db of None \<Rightarrow> False | Some p \<Rightarrow> xpTradingAccountId p = Some account))
        (\<lambda>x. buildTrailingStopOrderStatusAttentionData s now
           (x\<lparr>xsStatus := mapTrailingStopOrderStatusToExitStateStatus s, xsTrailOrderStatus := Some s, xsRawBrokerJson := Some raw,
              xsTrailBrokerOrderId := (case brokerOrderId of None \<Rightarrow> xsTrailBrokerOrderId x | Some j \<Rightarrow> Some j)\<rparr>)) db)"

definition markPositionExitStateAttentionRequired :: "int \<Rightarrow> string \<Rightarrow> string \<Rightarrow> int \<Rightarrow> exitStore \<Rightarrow> (exitState \<times> exitStore) result" where
  "markPositionExitStateAttentionRequired i code message now =
     updateExitState i (buildAttentionRequiredData code message now)"

end
