(* ===== verification/VerifiedExit.thy ===== *)
theory VerifiedExit
  imports ExactDecimal ExitState
begin

text \<open>
  \<open>src/services/verified-exit-submission.service.ts\<close>: the only path by which an exit order is sent.
  The broker's position and open orders are compared with the local quantities in exact decimals;
  any doubt blocks the intent before the broker is written to.
\<close>

subsection \<open>Data\<close>

datatype exitVerificationOutcome =
    POSITION_NOT_FOUND | UNEXPECTED_SHORT_POSITION | QUANTITY_MISMATCH | RESERVED_QUANTITY
  | CONFLICTING_OPEN_SELL_ORDER | BROKER_STATE_UNAVAILABLE

fun outcomeText :: "exitVerificationOutcome \<Rightarrow> string" where
  "outcomeText POSITION_NOT_FOUND = ''POSITION_NOT_FOUND''"
| "outcomeText UNEXPECTED_SHORT_POSITION = ''UNEXPECTED_SHORT_POSITION''"
| "outcomeText QUANTITY_MISMATCH = ''QUANTITY_MISMATCH''"
| "outcomeText RESERVED_QUANTITY = ''RESERVED_QUANTITY''"
| "outcomeText CONFLICTING_OPEN_SELL_ORDER = ''CONFLICTING_OPEN_SELL_ORDER''"
| "outcomeText BROKER_STATE_UNAVAILABLE = ''BROKER_STATE_UNAVAILABLE''"

text \<open>A market order with its time in force, a trailing stop with its trail percentage as well.\<close>

datatype exitOrder = MarketExit string | TrailingStopExit string string

record verifiedExitContext =
  vxVerificationMode :: "string option"
  vxTradingAccountId :: int
  vxTrackedPositionId :: int
  vxOrderIntentId :: int
  vxSecurityId :: int
  vxSymbol :: string
  vxLocalTrackedQty :: quantity
  vxIntendedQty :: quantity
  vxAttributedExitFilledQty :: quantity
  vxClientOrderId :: string
  vxCorrelationId :: "string option"
  vxOrder :: exitOrder

datatype verifiedExitSubmissionResult =
    RECOVERED_LOCAL int | RECOVERED_BROKER brokerSellOrder | SUBMITTED brokerSellOrder

record conflictingOrder =
  cxBrokerOrderId :: string
  cxClientOrderId :: string
  cxType :: string
  cxSide :: string
  cxStatus :: string
  cxQty :: "string option"
  cxFilledQty :: "string option"
  cxRemainingQty :: "string option"
  cxLimitPrice :: "string option"
  cxStopPrice :: "string option"
  cxTrailPrice :: "string option"
  cxTrailPercent :: "string option"

text \<open>The arguments of \<open>block\<close> that differ between its calls.\<close>

record exitRefusal =
  xrOutcome :: exitVerificationOutcome
  xrMessage :: string
  xrEvidence :: "(string \<times> json) list"

fun quantityJson :: "quantity \<Rightarrow> json" where
  "quantityJson (QNumber x) = JNum x"
| "quantityJson (QText s) = JStr s"
| "quantityJson QOther = JNull"

text \<open>An optional text of the broker as a quantity; an absent one is \<open>undefined\<close>.\<close>

definition optionalText :: "string option \<Rightarrow> quantity" where
  "optionalText s = (case s of None \<Rightarrow> QOther | Some t \<Rightarrow> QText t)"

definition corrective :: "verifiedExitContext \<Rightarrow> bool" where
  "corrective cx = (vxVerificationMode cx = Some ''CORRECTIVE_REMAINDER_CLOSE'')"

subsection \<open>Conflicting orders\<close>

definition formatBrokerPrice :: "string \<Rightarrow> string" where
  "formatBrokerPrice v =
     (let fraction = takeWhile (\<lambda>c. c \<noteq> CHR ''.'') (fractionPart v)
      in wholePart v @ ''.'' @ fraction @ replicate (2 - length fraction) (CHR ''0''))"

definition conflictMessage :: "string \<Rightarrow> string \<Rightarrow> conflictingOrder list \<Rightarrow> string" where
  "conflictMessage symbol held conflicts =
     (case conflicts of
        [order] \<Rightarrow>
          ''Close blocked: '' @ symbol @ [CHR 0x27] @ ''s '' @ held @ '' shares are reserved by an open '' @
          (if given (cxLimitPrice order) then ''$'' @ formatBrokerPrice (the (cxLimitPrice order)) @ '' limit''
           else if given (cxStopPrice order) then ''$'' @ formatBrokerPrice (the (cxStopPrice order)) @ '' stop''
           else if given (cxTrailPercent order) then the (cxTrailPercent order) @ ''% trailing-stop''
           else if given (cxTrailPrice order) then ''$'' @ formatBrokerPrice (the (cxTrailPrice order)) @ '' trailing-stop''
           else map (\<lambda>c. if c = CHR ''_'' then CHR '' '' else c) (cxType order)) @
          '' sell. Cancel or complete that order, then retry. No additional sell was submitted.''
      | _ \<Rightarrow>
          ''Close blocked: '' @ symbol @ [CHR 0x27] @ ''s '' @ held @ '' shares are reserved by '' @ showInt (int (length conflicts)) @
          '' open sell orders. Review or cancel those orders, or allow them to complete, then retry. No additional sell was submitted.'')"

text \<open>The open orders of the symbol, other than the exit itself, that could sell the shares; the corrective mode takes buys as well.\<close>

definition isConflict :: "verifiedExitContext \<Rightarrow> brokerSellOrder \<Rightarrow> bool" where
  "isConflict cx order =
     (toUpperCase (soSymbol order) = toUpperCase (vxSymbol cx) \<and> (corrective cx \<or> soSide order = ''sell'') \<and>
      isNonterminalBrokerOrderStatus (soStatus order) \<and> soClientOrderId order \<noteq> vxClientOrderId cx)"

definition conflictEvidence :: "brokerSellOrder \<Rightarrow> conflictingOrder" where
  "conflictEvidence order =
     (let qty = parseExactPositiveDecimal (optionalText (soQty order));
          filled = parseExactNonNegativeDecimal (case soFilledQty order of None \<Rightarrow> QText ''0'' | Some t \<Rightarrow> QText t)
      in \<lparr>cxBrokerOrderId = soId order, cxClientOrderId = soClientOrderId order, cxType = soType order, cxSide = soSide order,
          cxStatus = soStatus order, cxQty = soQty order, cxFilledQty = soFilledQty order,
          cxRemainingQty = (case (qty, filled) of (Some q, Some f) \<Rightarrow> subtractDecimal q f | _ \<Rightarrow> None),
          cxLimitPrice = soLimitPrice order, cxStopPrice = soStopPrice order, cxTrailPrice = soTrailPrice order,
          cxTrailPercent = soTrailPercent order\<rparr>)"

definition conflictJson :: "conflictingOrder \<Rightarrow> json" where
  "conflictJson c =
     JObj [(''brokerOrderId'', JStr (cxBrokerOrderId c)), (''clientOrderId'', JStr (cxClientOrderId c)), (''type'', JStr (cxType c)),
       (''side'', JStr (cxSide c)), (''status'', JStr (cxStatus c)), (''qty'', jOpt JStr (cxQty c)),
       (''filledQty'', jOpt JStr (cxFilledQty c)), (''remainingQty'', jOpt JStr (cxRemainingQty c)),
       (''limitPrice'', jOpt JStr (cxLimitPrice c)), (''stopPrice'', jOpt JStr (cxStopPrice c)),
       (''trailPrice'', jOpt JStr (cxTrailPrice c)), (''trailPercent'', jOpt JStr (cxTrailPercent c))]"

subsection \<open>The verification\<close>

text \<open>\<open>expectedRemainder\<close> and \<open>quantityVerified\<close>: a normal exit closes exactly what is held and tracked, a corrective one
  exactly what the attributed fills have left.\<close>

definition expectedRemainder :: "verifiedExitContext \<Rightarrow> exactDecimal \<Rightarrow> string option" where
  "expectedRemainder cx local' =
     (if corrective cx then
        (case parseExactPositiveDecimal (vxAttributedExitFilledQty cx) of
           None \<Rightarrow> None
         | Some attributed \<Rightarrow> subtractDecimal local' attributed)
      else None)"

definition quantityVerified :: "verifiedExitContext \<Rightarrow> exactDecimal \<Rightarrow> exactDecimal \<Rightarrow> exactDecimal \<Rightarrow> bool" where
  "quantityVerified cx held intended local' =
     (if corrective cx then
        (case expectedRemainder cx local' of
           None \<Rightarrow> False
         | Some remainder \<Rightarrow> remainder \<noteq> ''0'' \<and>
             (case parseExactPositiveDecimal (QText remainder) of None \<Rightarrow> False | Some d \<Rightarrow> equalDecimal intended d) \<and>
             equalDecimal held intended)
      else equalDecimal held intended \<and> equalDecimal held local')"

text \<open>The evidence of the quantities once they have parsed.\<close>

definition heldEvidence :: "brokerPosition \<Rightarrow> exactDecimal \<Rightarrow> exactDecimal \<Rightarrow> (string \<times> json) list" where
  "heldEvidence position held available =
     [(''brokerPositionSide'', JStr (bqSide position)), (''brokerHeldQty'', JStr (xdCanonical held)),
      (''brokerAvailableQty'', JStr (xdCanonical available))]"

text \<open>The checks once the quantities have parsed: conflicting orders, the quantities, the shares reserved elsewhere.\<close>

definition verifyQuantities ::
    "verifiedExitContext \<Rightarrow> brokerPosition \<Rightarrow> brokerSellOrder list \<Rightarrow> exactDecimal \<Rightarrow> exactDecimal \<Rightarrow> exactDecimal \<Rightarrow> exactDecimal \<Rightarrow>
     exitRefusal + exactDecimal" where
  "verifyQuantities cx position openOrders held available intended local' =
     (let symbol = toUpperCase (vxSymbol cx);
          conflicts = map conflictEvidence (filter (isConflict cx) openOrders);
          evidence = heldEvidence position held available;
          listed = (''conflictingActiveSellOrders'', JArr (map conflictJson conflicts))
      in if list_ex (\<lambda>c. cxRemainingQty c = None) conflicts then
           Inl \<lparr>xrOutcome = BROKER_STATE_UNAVAILABLE,
             xrMessage = symbol @ '' has an active sell order with ambiguous remaining quantity.'', xrEvidence = evidence @ [listed]\<rparr>
         else if conflicts \<noteq> [] then
           Inl \<lparr>xrOutcome = CONFLICTING_OPEN_SELL_ORDER, xrMessage = conflictMessage symbol (xdCanonical held) conflicts,
             xrEvidence = evidence @ [listed,
               (''nextAction'', JStr ''Review or cancel the active order(s), or allow them to complete, then retry.'')]\<rparr>
         else if \<not> quantityVerified cx held intended local' then
           Inl \<lparr>xrOutcome = QUANTITY_MISMATCH,
             xrMessage = symbol @ (if corrective cx then '' corrective lifecycle equation could not be verified exactly.''
                                   else '' held, local, and intended quantities do not match exactly.''),
             xrEvidence = [(''verificationMode'', JStr (case vxVerificationMode cx of None \<Rightarrow> ''NORMAL_EXACT_CLOSE'' | Some m \<Rightarrow> m)),
               (''attributedExitFilledQty'', jOpt JStr (if corrective cx
                  then map_option xdCanonical (parseExactPositiveDecimal (vxAttributedExitFilledQty cx)) else None)),
               (''expectedRemainder'', jOpt JStr (expectedRemainder cx local'))] @ evidence\<rparr>
         else if 0 < compareDecimal available held then
           Inl \<lparr>xrOutcome = RESERVED_QUANTITY,
             xrMessage = symbol @ '' broker-available quantity exceeds held quantity; no sell was submitted.'',
             xrEvidence = evidence @ [(''failureClassification'', JStr ''AVAILABLE_QUANTITY_EXCEEDS_HELD'')]\<rparr>
         else if \<not> equalDecimal held available then
           Inl \<lparr>xrOutcome = RESERVED_QUANTITY,
             xrMessage = symbol @ '' broker-available quantity is lower than held quantity; no sell was submitted.'',
             xrEvidence = evidence @ [listed]\<rparr>
         else Inr intended)"

definition verifyExit :: "verifiedExitContext \<Rightarrow> brokerPosition option \<Rightarrow> brokerSellOrder list \<Rightarrow> exitRefusal + exactDecimal" where
  "verifyExit cx found openOrders =
     (let symbol = toUpperCase (vxSymbol cx) in
      case found of
        None \<Rightarrow> Inl \<lparr>xrOutcome = POSITION_NOT_FOUND, xrMessage = symbol @ '' is absent at the broker; no sell was submitted.'',
            xrEvidence = [(''brokerPositionSide'', JNull), (''brokerHeldQty'', JNull), (''brokerAvailableQty'', JNull)]\<rparr>
      | Some position \<Rightarrow>
          let asRead = [(''brokerPositionSide'', JStr (bqSide position)), (''brokerHeldQty'', JStr (bqQty position)),
                (''brokerAvailableQty'', jOpt JStr (bqQtyAvailable position))]
          in if toUpperCase (bqSymbol position) \<noteq> symbol \<or> bqSide position \<noteq> ''long'' then
               Inl \<lparr>xrOutcome = (if bqSide position = ''short'' then UNEXPECTED_SHORT_POSITION else BROKER_STATE_UNAVAILABLE),
                 xrMessage = symbol @ (if bqSide position = ''short'' then '' is short at the broker. All sell automation is blocked.''
                                       else '' broker position identity is ambiguous.''),
                 xrEvidence = [(''brokerAssetId'', JStr (bqAssetId position)), (''brokerSymbol'', JStr (bqSymbol position))] @ asRead\<rparr>
             else case (parseExactPositiveDecimal (QText (bqQty position)),
                        parseExactNonNegativeDecimal (optionalText (bqQtyAvailable position)),
                        parseExactPositiveDecimal (vxIntendedQty cx), parseExactPositiveDecimal (vxLocalTrackedQty cx)) of
                 (Some held, Some available, Some intended, Some local') \<Rightarrow>
                   verifyQuantities cx position openOrders held available intended local'
               | _ \<Rightarrow> Inl \<lparr>xrOutcome = BROKER_STATE_UNAVAILABLE,
                   xrMessage = symbol @ '' quantity evidence is missing or malformed; no sell was submitted.'', xrEvidence = asRead\<rparr>)"

subsection \<open>The block\<close>

definition deploymentAuthority :: "exitEnv \<Rightarrow> (string \<times> json) list" where
  "deploymentAuthority env =
     [(''nodeEnvironment'', JStr (xeNodeEnv env)), (''liveWriteDeploymentRole'', JStr (xeLiveWriteDeploymentRole env)),
      (''authoritativeProductionExecutor'',
        JBool (xeNodeEnv env = ''production'' \<and> xeLiveWriteDeploymentRole env = ''PRODUCTION_EXECUTOR''))]"

definition blockEvidence :: "exitEnv \<Rightarrow> int \<Rightarrow> verifiedExitContext \<Rightarrow> string \<Rightarrow> exitRefusal \<Rightarrow> (string \<times> json) list" where
  "blockEvidence env observedAt cx environment r =
     [(''tradingAccountId'', jInt (vxTradingAccountId cx)), (''environment'', JStr environment)] @ deploymentAuthority env @
     [(''trackedPositionId'', jInt (vxTrackedPositionId cx)), (''orderIntentId'', jInt (vxOrderIntentId cx)),
      (''securityId'', jInt (vxSecurityId cx)), (''symbol'', JStr (toUpperCase (vxSymbol cx))),
      (''localTrackedQty'', quantityJson (vxLocalTrackedQty cx)), (''intendedQty'', quantityJson (vxIntendedQty cx)),
      (''stableClientOrderId'', JStr (vxClientOrderId cx)), (''correlationId'', jOpt JStr (vxCorrelationId cx)),
      (''verificationTimestamp'', JDate observedAt), (''verificationOutcome'', JStr (outcomeText (xrOutcome r))),
      (''authorizationResult'', JStr ''NOT_ATTEMPTED'')] @ xrEvidence r"

definition exitFingerprint :: "verifiedExitContext \<Rightarrow> exitRefusal \<Rightarrow> string" where
  "exitFingerprint cx r =
     ''exit-safety:'' @ showInt (vxTradingAccountId cx) @ '':'' @ showInt (vxTrackedPositionId cx) @ '':'' @ outcomeText (xrOutcome r)"

text \<open>
  \<open>VerifiedExitPreSubmissionError\<close> is the \<open>HttpError\<close> whose details say that nothing was authorised;
  its delivery classification is \<open>NOT_SENT_BLOCKED\<close> for 409 and \<open>NOT_SENT_RETRYABLE\<close> for 503.
\<close>

definition blockExit :: "exitEnv \<Rightarrow> nat \<Rightarrow> verifiedExitContext \<Rightarrow> string \<Rightarrow> exitRefusal \<Rightarrow> 'a exitAction" where
  "blockExit env k cx environment r =
     (let evidence = blockEvidence env (xeNow env k) cx environment r in
      bindA (exitStep env k (\<lambda>db. Inr (updateExitIntents (\<lambda>i. xiId i = vxOrderIntentId cx)
        (\<lambda>i. i\<lparr>xiStatus := ''blocked'', xiBlockReason := Some (''EXIT_VERIFICATION:'' @ outcomeText (xrOutcome r))\<rparr>) (xeNow env k) db))) (\<lambda>_.
      bindA (catchA
        (bindA (exitEffect env (k + 1)) (\<lambda>_.
         bindA (if xeAttentionOpen env (exitFingerprint cx r) then returnA () else exitEffect env (k + 2)) (\<lambda>_.
         exitEffect env (k + 3))))
        (\<lambda>_. bindA (catchA (exitEffect env (k + 4)) (\<lambda>_. returnA ())) (\<lambda>_.
         throwA (Failure (HttpError 503 (toUpperCase (vxSymbol cx) @
           '' close was safely blocked before broker submission, but operational attention could not be refreshed. Retry after the internal issue is corrected. No sell was submitted.'')
           (JObj (evidence @ [(''attentionPersistenceFailed'', JBool True)]))))))) (\<lambda>_.
      throwA (Failure (HttpError 409 (xrMessage r) (JObj evidence))))))"

subsection \<open>The submission\<close>

definition accountEnvironment :: "int \<Rightarrow> exitStore \<Rightarrow> (string \<times> exitStore) result" where
  "accountEnvironment a db =
     (case map_of (xdAccounts db) a of None \<Rightarrow> Inl (prismaError ''No TradingAccount found'') | Some e \<Rightarrow> Inr (e, db))"

definition localOrder :: "verifiedExitContext \<Rightarrow> exitStore \<Rightarrow> exitOrderRow option" where
  "localOrder cx db = List.find (\<lambda>b. xoTradingAccountId b = vxTradingAccountId cx \<and> xoBroker b = ''alpaca'' \<and>
     xoClientOrderId b = vxClientOrderId cx) (xdOrders db)"

text \<open>A call with its error as a value.\<close>

definition attemptA :: "('s, 'a) run \<Rightarrow> ('s, entryError + 'a) run" where
  "attemptA m = catchA (bindA m (\<lambda>x. returnA (Inr x))) (\<lambda>e. returnA (Inl e))"

definition lookupRefusal :: "string \<Rightarrow> string \<Rightarrow> entryError \<Rightarrow> exitRefusal" where
  "lookupRefusal message classification e =
     \<lparr>xrOutcome = BROKER_STATE_UNAVAILABLE, xrMessage = message,
      xrEvidence = [(''failureClassification'', JStr classification), (''error'', JStr (failureText e))]\<rparr>"

definition exitPayloadOf :: "verifiedExitContext \<Rightarrow> exactDecimal \<Rightarrow> exitPayload" where
  "exitPayloadOf cx intended =
     \<lparr>xqSymbol = toUpperCase (vxSymbol cx), xqSide = ''sell'', xqPositionIntent = ''sell_to_close'',
      xqType = (case vxOrder cx of MarketExit t \<Rightarrow> ''market'' | TrailingStopExit t p \<Rightarrow> ''trailing_stop''),
      xqTimeInForce = (case vxOrder cx of MarketExit t \<Rightarrow> t | TrailingStopExit t p \<Rightarrow> t),
      xqQty = xdCanonical intended, xqClientOrderId = vxClientOrderId cx,
      xqTrailPercent = (case vxOrder cx of MarketExit t \<Rightarrow> None | TrailingStopExit t p \<Rightarrow> Some p)\<rparr>"

definition exitPostOf :: "verifiedExitContext \<Rightarrow> exactDecimal \<Rightarrow> exitPost" where
  "exitPostOf cx intended = \<lparr>xtTradingAccountId = vxTradingAccountId cx, xtPayload = exitPayloadOf cx intended\<rparr>"

text \<open>The POST, with the recovery of an order that exists although it was rejected.\<close>

definition sendVerifiedExit :: "exitEnv \<Rightarrow> nat \<Rightarrow> verifiedExitContext \<Rightarrow> exactDecimal \<Rightarrow> verifiedExitSubmissionResult exitAction" where
  "sendVerifiedExit env k cx intended =
     catchA (bindA (exitSend env k (exitPostOf cx intended)) (\<lambda>order. returnA (SUBMITTED order)))
       (\<lambda>e. if getBrokerWriteDeliveryClassification e = Some BROKER_REJECTED then
          bindA (catchA (exitCall env (k + 1) (xeLookup env (k + 1) (vxTradingAccountId cx) (vxClientOrderId cx)))
            (\<lambda>_. throwA (BrokerWriteDeliveryError DELIVERY_UNCERTAIN None
              ''Broker rejection could not be confirmed because deterministic recovery failed.''))) (\<lambda>recoveredAfterRejection.
          case recoveredAfterRejection of Some order \<Rightarrow> returnA (RECOVERED_BROKER order) | None \<Rightarrow> throwA e)
        else throwA e)"

text \<open>The attentions that the verification cleared, resolved one after another.\<close>

fun resolveAttentions :: "exitEnv \<Rightarrow> nat \<Rightarrow> nat \<Rightarrow> unit exitAction" where
  "resolveAttentions env k 0 = returnA ()"
| "resolveAttentions env k (Suc n) = bindA (exitEffect env k) (\<lambda>_. resolveAttentions env (k + 1) n)"

definition clearedAttentions :: "exitEnv \<Rightarrow> verifiedExitContext \<Rightarrow> nat" where
  "clearedAttentions env cx = (if corrective cx then 0 else xeAttentions env (vxTradingAccountId cx) (vxTrackedPositionId cx))"

definition authorizeAndSend :: "exitEnv \<Rightarrow> nat \<Rightarrow> verifiedExitContext \<Rightarrow> exactDecimal \<Rightarrow> verifiedExitSubmissionResult exitAction" where
  "authorizeAndSend env k cx intended =
     (let n = clearedAttentions env cx in
      bindA (if corrective cx then returnA () else exitEffect env k) (\<lambda>_.
      bindA (resolveAttentions env (k + 1) n) (\<lambda>_.
      bindA (exitCall env (k + 1 + n) (xeAuthorize env (vxTradingAccountId cx))) (\<lambda>_.
      sendVerifiedExit env (k + 2 + n) cx intended))))"

text \<open>The exit once the broker does not know it: the position, the open orders, the verification, the POST.\<close>

definition verifyAndSend :: "exitEnv \<Rightarrow> nat \<Rightarrow> verifiedExitContext \<Rightarrow> string \<Rightarrow> verifiedExitSubmissionResult exitAction" where
  "verifyAndSend env k cx environment =
     (let symbol = toUpperCase (vxSymbol cx); account = vxTradingAccountId cx in
      bindA (attemptA (exitCall env k (xePosition env account symbol))) (\<lambda>position.
      case position of
        Inl e \<Rightarrow> blockExit env (k + 2) cx environment
          (lookupRefusal (symbol @ '' broker position lookup failed; no sell was submitted.'') ''POSITION_LOOKUP_FAILED'' e)
      | Inr found \<Rightarrow>
        bindA (attemptA (exitCall env (k + 1) (xeOpenOrders env account))) (\<lambda>openOrders.
        case openOrders of
          Inl e \<Rightarrow> blockExit env (k + 2) cx environment
            (lookupRefusal (symbol @ '' open-order lookup failed; no sell was submitted.'') ''OPEN_ORDER_LOOKUP_FAILED'' e)
        | Inr orders \<Rightarrow>
          (case verifyExit cx found orders of
             Inl r \<Rightarrow> blockExit env (k + 2) cx environment r
           | Inr intended \<Rightarrow> authorizeAndSend env (k + 7) cx intended))))"

definition executeVerifiedExit :: "exitEnv \<Rightarrow> nat \<Rightarrow> verifiedExitContext \<Rightarrow> verifiedExitSubmissionResult exitAction" where
  "executeVerifiedExit env k cx =
     (let account = vxTradingAccountId cx in
      bindA (exitStep env k (accountEnvironment account)) (\<lambda>environment.
      bindA (exitRead env (k + 1) (localOrder cx)) (\<lambda>existing.
      case existing of
        Some b \<Rightarrow> returnA (RECOVERED_LOCAL (xoId b))
      | None \<Rightarrow>
        bindA (attemptA (exitCall env (k + 2) (xeLookup env (k + 2) account (vxClientOrderId cx)))) (\<lambda>lookup.
        case lookup of
          Inl e \<Rightarrow> blockExit env (k + 5) cx environment
            (lookupRefusal (toUpperCase (vxSymbol cx) @ '' deterministic exit recovery could not be verified.'')
              ''CLIENT_ORDER_ID_LOOKUP_FAILED'' e)
        | Inr (Some order) \<Rightarrow> returnA (RECOVERED_BROKER order)
        | Inr None \<Rightarrow> verifyAndSend env (k + 3) cx environment))))"

fun lockOutcomeText :: "lockOutcome \<Rightarrow> string" where
  "lockOutcomeText LockAcquired = ''ACQUIRED_AND_COMPLETED''"
| "lockOutcomeText LockNotAcquired = ''NOT_ACQUIRED''"
| "lockOutcomeText LockError = ''LOCK_ERROR''"

text \<open>\<open>withTradingAccountWorkflowLock\<close>: the advisory lock of the account around the submission.\<close>

definition submitVerifiedExit :: "exitEnv \<Rightarrow> nat \<Rightarrow> verifiedExitContext \<Rightarrow> verifiedExitSubmissionResult exitAction" where
  "submitVerifiedExit env k cx =
     bindA (unlessA (0 < vxTradingAccountId cx) (plainError ''A real positive tradingAccountId is required for an advisory lock.'')) (\<lambda>_.
     bindA (exitCall env k (Inr (xeLock env (vxTradingAccountId cx)))) (\<lambda>locked.
     if locked = LockAcquired then executeVerifiedExit env (k + 1) cx
     else throwA (Failure (HttpError 503 (''Exit submission lock was not acquired safely ('' @ lockOutcomeText locked @ '').'') JNull))))"

text \<open>The first await after a submission that started at \<open>k\<close>.\<close>

definition afterExit :: "exitEnv \<Rightarrow> nat \<Rightarrow> verifiedExitContext \<Rightarrow> nat" where
  "afterExit env k cx = k + 20 + clearedAttentions env cx"

definition submitVerifiedCorrectiveExitWithinAccountLock :: "exitEnv \<Rightarrow> nat \<Rightarrow> verifiedExitContext \<Rightarrow> verifiedExitSubmissionResult exitAction" where
  "submitVerifiedCorrectiveExitWithinAccountLock = executeVerifiedExit"

end
