(* ===== verification/ClosePosition.thy ===== *)
theory ClosePosition
  imports VerifiedExit
begin

text \<open>
  \<open>src/services/close-position.service.ts\<close>: the close of a tracked position. The position is claimed
  (\<open>open\<close> to \<open>closing\<close>) together with its sell intent in one serializable transaction, the verified exit
  is submitted, and the claim is released again exactly when it is known that no order exists.
\<close>

datatype closePositionMode = AUTOMATED_STRATEGY | MANUAL_EMERGENCY_CLOSE

fun closeModeText :: "closePositionMode \<Rightarrow> string" where
  "closeModeText AUTOMATED_STRATEGY = ''AUTOMATED_STRATEGY''"
| "closeModeText MANUAL_EMERGENCY_CLOSE = ''MANUAL_EMERGENCY_CLOSE''"

definition buildCloseClientOrderId :: "int \<Rightarrow> int \<Rightarrow> string" where
  "buildCloseClientOrderId account i = take 128 (''ai-exit-close-'' @ showInt account @ ''-'' @ showInt i)"

definition getDeliveryClassification :: "entryError \<Rightarrow> writeClassification" where
  "getDeliveryClassification e =
     (case getBrokerWriteDeliveryClassification e of Some c \<Rightarrow> c | None \<Rightarrow> DELIVERY_UNCERTAIN)"

fun isExitVerificationBlock :: "entryError \<Rightarrow> bool" where
  "isExitVerificationBlock (Failure (HttpError status message details)) =
     ((case jsonGet details ''verificationOutcome'' of Some (JStr s) \<Rightarrow> True | _ \<Rightarrow> False) \<and>
      jsonGet details ''authorizationResult'' = Some (JStr ''NOT_ATTEMPTED''))"
| "isExitVerificationBlock _ = False"

text \<open>\<open>String(error.details.verificationOutcome)\<close> of such an error.\<close>

fun verificationOutcome :: "entryError \<Rightarrow> string" where
  "verificationOutcome (Failure (HttpError status message details)) =
     (case jsonGet details ''verificationOutcome'' of Some (JStr s) \<Rightarrow> s | _ \<Rightarrow> [])"
| "verificationOutcome _ = []"

subsection \<open>The claim\<close>

definition pendingClose :: "int \<Rightarrow> exitStore \<Rightarrow> bool" where
  "pendingClose i db \<longleftrightarrow>
     list_ex (\<lambda>n. xiTrackedPositionId n = Some i \<and> xiSource n = ''close-position'' \<and>
       xiStatus n \<in> set [''pending'', ''submitting'', ''submitted'']) (xdIntents db) \<or>
     list_ex (\<lambda>b. xoTrackedPositionId b = Some i \<and> NONTERMINAL_BROKER_ORDER_PRISMA_FILTER (xoStatus b)) (xdOrders db)"

definition closeIntent :: "closePositionMode \<Rightarrow> int \<Rightarrow> exitAssignment \<Rightarrow> exitPosition \<Rightarrow> exitIntent" where
  "closeIntent mode account a p =
     \<lparr>xiId = 0, xiSource = ''close-position'', xiSymbol = toUpperCase (xpSymbol p), xiSide = ''sell'', xiOrderType = ''market'',
      xiTimeInForce = ''day'', xiQty = jsAbs (xpQty p), xiClientOrderId = buildCloseClientOrderId account (xpId p),
      xiTradingAccountId = account, xiAssignmentId = xaId a, xiTrackedPositionId = Some (xpId p),
      xiSubscriptionId = xpSubscriptionId p, xiSubscriptionKey = None, xiStatus = ''submitting'', xiBlockReason = None,
      xiRawRequestJson = JObj [(''signalType'', JStr ''exit''), (''source'', JStr ''close-position''),
        (''mode'', JStr (closeModeText mode)), (''trackedPositionId'', jInt (xpId p)), (''tradingAccountId'', jInt account),
        (''tradingAccountSubscriptionId'', jInt (xaId a))],
      xiCreatedAt = 0, xiUpdatedAt = 0\<rparr>"

definition closePending :: "exitPosition \<Rightarrow> appError" where
  "closePending p = HttpError 409 (''A close is already pending for tracked position '' @ showInt (xpId p) @ ''.'') JNull"

definition claimClose :: "int \<Rightarrow> closePositionMode \<Rightarrow> int \<Rightarrow> exitStore \<Rightarrow> ((exitPosition \<times> int \<times> exitIntent) \<times> exitStore) result" where
  "claimClose i mode now db =
     (case positionOf i db of
        None \<Rightarrow> Inl (HttpError 404 (''Active tracked position '' @ showInt i @ '' was not found.'') JNull)
      | Some p \<Rightarrow>
        case xpTradingAccountId p of
          None \<Rightarrow> Inl (HttpError 409 (''Tracked position '' @ showInt (xpId p) @ '' has no TradingAccount identity.'') JNull)
        | Some account \<Rightarrow>
          if toLowerCase (xpSide p) \<noteq> ''long'' then
            Inl (HttpError 409 ''AI Trader does not automatically cover or manage short exposure.'' JNull)
          else
            let inconsistent = HttpError 409 (''Tracked position '' @ showInt (xpId p) @
                  '' has missing or inconsistent account assignment identity.'') JNull in
            case assignmentOf p db of
              None \<Rightarrow> Inl inconsistent
            | Some a \<Rightarrow>
              if xaTradingAccountId a \<noteq> account \<or> Some (xaSubscriptionId a) \<noteq> xpSubscriptionId p then Inl inconsistent
              else if mode = AUTOMATED_STRATEGY \<and> (\<not> xaEnabled a \<or> \<not> xaExitsEnabled a) then
                Inl (HttpError 409 (''TradingAccountSubscription '' @ showInt (xaId a) @ '' has automated exits disabled.'') JNull)
              else if xpStatus p \<noteq> ''open'' \<or> pendingClose (xpId p) db then Inl (closePending p)
              else
                let (n, db1) = updatePositions (\<lambda>q. xpId q = xpId p \<and> xpStatus q = ''open'')
                      (\<lambda>q. q\<lparr>xpStatus := ''closing'', xpLastSyncedAt := now\<rparr>) db
                in if n \<noteq> 1 then Inl (closePending p)
                   else let (intent, db2) = createExitIntent (closeIntent mode account a p) now db1
                        in Inr ((p, account, intent), db2))"

definition closeContext :: "closePositionMode \<Rightarrow> exitPosition \<Rightarrow> int \<Rightarrow> exitIntent \<Rightarrow> verifiedExitContext" where
  "closeContext mode p account intent =
     \<lparr>vxVerificationMode = None, vxTradingAccountId = account, vxTrackedPositionId = xpId p, vxOrderIntentId = xiId intent,
      vxSecurityId = xpSecurityId p, vxSymbol = toUpperCase (xpSymbol p), vxLocalTrackedQty = QNumber (xpQty p),
      vxIntendedQty = QNumber (jsAbs (xpQty p)), vxAttributedExitFilledQty = QOther,
      vxClientOrderId = buildCloseClientOrderId account (xpId p),
      vxCorrelationId = Some (closeModeText mode @ '':'' @ showInt (xpId p)), vxOrder = MarketExit ''day''\<rparr>"

subsection \<open>The writes after the submission\<close>

text \<open>The release: the intent, when it has one of the statuses, ends with a status and a reason; the position opens again.\<close>

definition releaseClose :: "exitPosition \<Rightarrow> exitIntent \<Rightarrow> string list \<Rightarrow> string \<Rightarrow> string \<Rightarrow> int \<Rightarrow> exitStore \<Rightarrow> exitStore" where
  "releaseClose p intent statuses status reason now db =
     (let db1 = snd (updateExitIntents (\<lambda>n. xiId n = xiId intent \<and> xiStatus n \<in> set statuses)
            (\<lambda>n. n\<lparr>xiStatus := status, xiBlockReason := Some reason\<rparr>) now db)
      in snd (updatePositions (\<lambda>q. xpId q = xpId p \<and> xpStatus q = ''closing'')
            (\<lambda>q. q\<lparr>xpStatus := ''open'', xpLastSyncedAt := now\<rparr>) db1))"

definition persistClose :: "exitPosition \<Rightarrow> int \<Rightarrow> exitIntent \<Rightarrow> brokerSellOrder \<Rightarrow> int \<Rightarrow> exitStore \<Rightarrow> (unit \<times> exitStore) result" where
  "persistClose p account intent order now db =
     (let existing = List.find (\<lambda>b. xoTradingAccountId b = account \<and> xoBroker b = ''alpaca'' \<and> xoBrokerOrderId b = soId order) (xdOrders db);
          row = \<lparr>xoId = 0, xoOrderIntentId = xiId intent, xoTradingAccountId = account, xoBroker = ''alpaca'',
            xoBrokerOrderId = soId order, xoClientOrderId = soClientOrderId order, xoSymbol = toUpperCase (soSymbol order),
            xoSide = soSide order, xoStatus = soStatus order, xoSecurityId = xpSecurityId p,
            xoTrackedPositionId = Some (xpId p), xoRawBrokerJson = soJson order\<rparr>
      in bindR (saveOrder (map_option xoId existing) row db) (\<lambda>(_, db1).
         Inr ((), snd (updateExitIntents (\<lambda>n. xiId n = xiId intent \<and> xiStatus n = ''submitting'')
            (\<lambda>n. n\<lparr>xiStatus := ''submitted'', xiBlockReason := None\<rparr>) now db1))))"

record closeResult =
  crTrackedPositionId :: int
  crSymbol :: string
  crTradingAccountId :: int
  crOrderIntentId :: int
  crBrokerOrderId :: json
  crClientOrderId :: string

text \<open>The failure of the submission: \<open>k\<close> is the await of the transaction.\<close>

definition closeFailed :: "exitEnv \<Rightarrow> nat \<Rightarrow> exitPosition \<Rightarrow> exitIntent \<Rightarrow> entryError \<Rightarrow> 'a exitAction" where
  "closeFailed env k p intent e =
     (if isExitVerificationBlock e then
        bindA (exitStep env k (\<lambda>db. Inr ((), releaseClose p intent [''pending'', ''submitting''] ''blocked''
          (''EXIT_VERIFICATION:'' @ verificationOutcome e) (xeNow env k) db))) (\<lambda>_. throwA e)
      else
        let classification = getDeliveryClassification e;
            reason = ''BROKER_WRITE_DELIVERY:'' @ writeClassificationText classification @ '':'' @ failureText e
        in if classification \<noteq> DELIVERY_UNCERTAIN then
             bindA (exitStep env k (\<lambda>db. Inr ((), releaseClose p intent [''submitting'']
               (if classification = NOT_SENT_BLOCKED then ''blocked'' else ''failed'') reason (xeNow env k) db))) (\<lambda>_.
             bindA (exitEffect env (k + 1)) (\<lambda>_. throwA e))
           else
             bindA (exitStep env k (\<lambda>db. Inr (updateExitIntents (\<lambda>n. xiId n = xiId intent \<and> xiStatus n = ''submitting'')
               (\<lambda>n. n\<lparr>xiBlockReason := Some reason\<rparr>) (xeNow env k) db))) (\<lambda>_.
             bindA (exitEffect env (k + 1)) (\<lambda>_. throwA e)))"

text \<open>The guarded part: the broker's order, or the identifier of an order that is recorded already.\<close>

definition submitClose :: "exitEnv \<Rightarrow> nat \<Rightarrow> verifiedExitContext \<Rightarrow> exitIntent \<Rightarrow> (int + brokerSellOrder) exitAction" where
  "submitClose env k cx intent =
     bindA (submitVerifiedExit env k cx) (\<lambda>result.
     case result of
       RECOVERED_LOCAL b \<Rightarrow>
         bindA (exitStep env (afterExit env k cx) (\<lambda>db. Inr (updateExitIntents (\<lambda>n. xiId n = xiId intent)
           (\<lambda>n. n\<lparr>xiStatus := ''submitted'', xiBlockReason := None\<rparr>) (xeNow env (afterExit env k cx)) db))) (\<lambda>_. returnA (Inl b))
     | RECOVERED_BROKER order \<Rightarrow> returnA (Inr order)
     | SUBMITTED order \<Rightarrow> returnA (Inr order))"

definition closeDone :: "exitEnv \<Rightarrow> nat \<Rightarrow> exitPosition \<Rightarrow> int \<Rightarrow> exitIntent \<Rightarrow> brokerSellOrder \<Rightarrow> closeResult exitAction" where
  "closeDone env k p account intent order =
     bindA (exitStep env k (persistClose p account intent order (xeNow env k))) (\<lambda>_.
     bindA (\<lambda>s. (Inr (), s\<lparr>xwCoordinator :=
         forceAfterBrokerPositionWrite (xwCoordinator s) account BrokerPositionCloseRequested (xeNow env k)\<rparr>)) (\<lambda>_.
     bindA (exitEffect env (k + 1)) (\<lambda>_.
     returnA \<lparr>crTrackedPositionId = xpId p, crSymbol = toUpperCase (xpSymbol p), crTradingAccountId = account,
       crOrderIntentId = xiId intent, crBrokerOrderId = JStr (soId order), crClientOrderId = soClientOrderId order\<rparr>)))"

definition closePosition :: "exitEnv \<Rightarrow> nat \<Rightarrow> int \<Rightarrow> closePositionMode \<Rightarrow> closeResult exitAction" where
  "closePosition env k i mode =
     bindA (exitStep env k (claimClose i mode (xeNow env k))) (\<lambda>(p, account, intent).
     let cx = closeContext mode p account intent; after = afterExit env (k + 1) cx in
     bindA (catchA (submitClose env (k + 1) cx intent) (closeFailed env (after + 1) p intent)) (\<lambda>submitted.
     case submitted of
       Inl b \<Rightarrow> returnA \<lparr>crTrackedPositionId = xpId p, crSymbol = toUpperCase (xpSymbol p), crTradingAccountId = account,
           crOrderIntentId = xiId intent, crBrokerOrderId = jInt b, crClientOrderId = xiClientOrderId intent\<rparr>
     | Inr order \<Rightarrow> closeDone env (after + 3) p account intent order))"

end
