(* ===== verification/TrailingStop.thy ===== *)
theory TrailingStop
  imports ClosePosition
begin

text \<open>
  \<open>src/services/trailing-stop-exit.service.ts\<close>: the protective trailing-stop order of a position whose target
  was unlocked. Its client order identifier is derived from the position and the time of the unlock, so a repeated
  attempt finds the intent of the first and recovers instead of sending twice.
\<close>

subsection \<open>Texts\<close>

definition PROTECTIVE_SUBMISSION_RECOVERY_BACKOFF_MS :: int where
  "PROTECTIVE_SUBMISSION_RECOVERY_BACKOFF_MS = 30000"

text \<open>\<open>/BROKER_WRITE_DELIVERY:(NOT_SENT_RETRYABLE|NOT_SENT_BLOCKED|BROKER_REJECTED|DELIVERY_UNCERTAIN)/\<close>: the leftmost match.\<close>

definition classificationAt :: "string \<Rightarrow> writeClassification option" where
  "classificationAt s =
     List.find (\<lambda>c. startsWith s (''BROKER_WRITE_DELIVERY:'' @ writeClassificationText c))
       [NOT_SENT_RETRYABLE, NOT_SENT_BLOCKED, BROKER_REJECTED, DELIVERY_UNCERTAIN]"

fun classificationIn :: "string \<Rightarrow> writeClassification option" where
  "classificationIn [] = None"
| "classificationIn (c # s) = (case classificationAt (c # s) of Some k \<Rightarrow> Some k | None \<Rightarrow> classificationIn s)"

definition recordedClassification :: "string option \<Rightarrow> writeClassification option" where
  "recordedClassification blockReason = Option.bind blockReason classificationIn"

definition toISOString :: "int \<Rightarrow> string" where
  "toISOString t =
     (let ms = t mod msPerDay in
      isoDate (civilFromDays (t div msPerDay)) @ ''T'' @ padDigits 2 (ms div msPerHour) @ '':'' @
      padDigits 2 (ms mod msPerHour div msPerMinute) @ '':'' @ padDigits 2 (ms mod msPerMinute div 1000) @ ''.'' @
      padDigits 3 (ms mod 1000) @ ''Z'')"

definition compactDate :: "int \<Rightarrow> string" where
  "compactDate t = take 14 (filter (\<lambda>c. c \<notin> set ''-:.TZ'') (toISOString t))"

definition buildTrailingStopClientOrderId :: "string \<Rightarrow> int \<Rightarrow> int \<Rightarrow> string" where
  "buildTrailingStopClientOrderId symbol i targetUnlockedAt =
     take 128 (''ai-exit-trail-'' @ toUpperCase symbol @ ''-'' @ showInt i @ ''-'' @ compactDate targetUnlockedAt)"

text \<open>\<open>Number.isInteger\<close>\<close>

fun isInteger :: "jsnum \<Rightarrow> bool" where
  "isInteger (Fin x) = (of_int \<lfloor>x\<rfloor> = x)"
| "isInteger _ = False"

definition getWholeShareQty :: "jsnum \<Rightarrow> entryError + string" where
  "getWholeShareQty qty =
     (if \<not> isFinite qty \<or> jsLe qty (Fin 0) then Inl (plainError (''Invalid trailing stop quantity: '' @ numberText qty))
      else if \<not> isInteger qty then
        Inl (plainError (''Broker-native trailing stop exits require a whole-share quantity. Received qty='' @ numberText qty @ ''.''))
      else Inr (numberText qty))"

text \<open>A check that passes a value on.\<close>

definition liftA :: "entryError + 'a \<Rightarrow> 'a exitAction" where
  "liftA v = (case v of Inl e \<Rightarrow> throwA e | Inr x \<Rightarrow> returnA x)"

subsection \<open>The rows of an attempt\<close>

text \<open>\<open>findFirst\<close> by the client's order identifier, the newest first.\<close>

definition newestIntent :: "int \<Rightarrow> string \<Rightarrow> exitStore \<Rightarrow> exitIntent option" where
  "newestIntent account clientOrderId db =
     (let found = filter (\<lambda>n. xiTradingAccountId n = account \<and> xiClientOrderId n = clientOrderId) (xdIntents db)
      in List.find (\<lambda>n. list_all (\<lambda>m. xiCreatedAt m \<le> xiCreatedAt n) found) found)"

definition trailingOrder :: "int \<Rightarrow> string \<Rightarrow> exitStore \<Rightarrow> exitOrderRow option" where
  "trailingOrder account clientOrderId db =
     List.find (\<lambda>b. xoTradingAccountId b = account \<and> xoBroker b = ''alpaca'' \<and> xoClientOrderId b = clientOrderId) (xdOrders db)"

record trailingRow =
  trPosition :: exitPosition
  trSubscription :: "exitSubscription option"
  trExitState :: "exitState option"
  trAssignment :: "exitAssignment option"

definition trailingRowOf :: "int \<Rightarrow> exitStore \<Rightarrow> trailingRow option" where
  "trailingRowOf i db = map_option (\<lambda>p. \<lparr>trPosition = p, trSubscription = subscriptionOf p db,
     trExitState = exitStateOf i db, trAssignment = assignmentOf p db\<rparr>) (positionOf i db)"

text \<open>The assignment of a position that belongs to the account.\<close>

definition attributedAssignment :: "int \<Rightarrow> trailingRow \<Rightarrow> exitAssignment option" where
  "attributedAssignment account row =
     (case trAssignment row of
        None \<Rightarrow> None
      | Some a \<Rightarrow>
        if xaTradingAccountId a \<noteq> account \<or> Some (xaSubscriptionId a) \<noteq> xpSubscriptionId (trPosition row) then None else Some a)"

definition trailingIntent ::
    "int \<Rightarrow> trailingRow \<Rightarrow> exitAssignment \<Rightarrow> string \<Rightarrow> string \<Rightarrow> string \<Rightarrow> (string \<times> json) list \<Rightarrow> exitIntent" where
  "trailingIntent account row a side clientOrderId status request =
     (let p = trPosition row in
      \<lparr>xiId = 0, xiSource = ''exit-evaluator'', xiSymbol = xpSymbol p, xiSide = side, xiOrderType = ''trailing_stop'',
       xiTimeInForce = ''gtc'', xiQty = xpQty p, xiClientOrderId = clientOrderId, xiTradingAccountId = account,
       xiAssignmentId = xaId a, xiTrackedPositionId = Some (xpId p), xiSubscriptionId = xpSubscriptionId p,
       xiSubscriptionKey = map_option xuKey (trSubscription row), xiStatus = status, xiBlockReason = None,
       xiRawRequestJson = JObj request, xiCreatedAt = 0, xiUpdatedAt = 0\<rparr>)"

definition trailingRequest :: "int \<Rightarrow> int \<Rightarrow> exitAssignment \<Rightarrow> json \<Rightarrow> json \<Rightarrow> string \<Rightarrow> (string \<times> json) list" where
  "trailingRequest account i a exitStateId trailPercent clientOrderId =
     [(''source'', JStr ''exit-evaluator''), (''orderKind'', JStr ''target_unlock_trailing_stop''), (''trackedPositionId'', jInt i),
      (''tradingAccountId'', jInt account), (''tradingAccountSubscriptionId'', jInt (xaId a)), (''exitStateId'', exitStateId),
      (''trailPercent'', trailPercent), (''clientOrderId'', JStr clientOrderId)]"

definition belongsElsewhere :: "exitIntent \<Rightarrow> entryError" where
  "belongsElsewhere n = plainError (''Protective OrderIntent '' @ showInt (xiId n) @ '' belongs to a different tracked position.'')"

subsection \<open>The persistence of the broker's order\<close>

definition persistTrailingStopOrder :: "exitEnv \<Rightarrow> nat \<Rightarrow> int \<Rightarrow> int \<Rightarrow> string \<Rightarrow> brokerSellOrder \<Rightarrow> unit exitAction" where
  "persistTrailingStopOrder env k account i clientOrderId order =
     bindA (exitRead env k (trailingRowOf i)) (\<lambda>found.
     case found of
       None \<Rightarrow> throwA (plainError (''Tracked position '' @ showInt i @ '' was not found.''))
     | Some row \<Rightarrow>
       (let p = trPosition row; side = (if xpSide p = ''short'' then ''buy'' else ''sell'') in
        case (if xpTradingAccountId p \<noteq> Some account then None else attributedAssignment account row) of
          None \<Rightarrow> throwA (plainError (''TrackedPosition '' @ showInt (xpId p) @
            '' has missing or inconsistent account attribution; refusing trailing-stop persistence.''))
        | Some a \<Rightarrow>
          bindA (exitRead env (k + 1) (newestIntent account clientOrderId)) (\<lambda>existing.
          bindA (case existing of
              Some n \<Rightarrow> bindA (unlessA (xiTrackedPositionId n = Some (xpId p)) (belongsElsewhere n)) (\<lambda>_. returnA n)
            | None \<Rightarrow> exitStep env (k + 2) (\<lambda>db. Inr (createExitIntent
                (trailingIntent account row a side clientOrderId ''submitted''
                  (trailingRequest account (xpId p) a (jOpt (\<lambda>x. jInt (xsId x)) (trExitState row))
                    (jOpt JNum (Option.bind (trExitState row) xsTrailingStopPct)) clientOrderId)) (xeNow env (k + 2)) db))) (\<lambda>intent.
          bindA (exitRead env (k + 3) (trailingOrder account clientOrderId)) (\<lambda>recorded.
          bindA (exitStep env (k + 4) (saveOrder (map_option xoId recorded)
            \<lparr>xoId = 0, xoOrderIntentId = xiId intent, xoTradingAccountId = account, xoBroker = ''alpaca'',
             xoBrokerOrderId = soId order, xoClientOrderId = clientOrderId, xoSymbol = xpSymbol p, xoSide = side,
             xoStatus = soStatus order, xoSecurityId = xpSecurityId p, xoTrackedPositionId = Some (xpId p),
             xoRawBrokerJson = soJson order\<rparr>)) (\<lambda>_.
          bindA (exitStep env (k + 5) (\<lambda>db. Inr (updateExitIntents (\<lambda>n. xiId n = xiId intent)
            (\<lambda>n. n\<lparr>xiStatus := ''submitted'', xiBlockReason := None\<rparr>) (xeNow env (k + 5)) db))) (\<lambda>_.
          bindA (exitStep env (k + 6) (markTrailingStopOrderSubmitted (xpId p) ''alpaca'' (soId order) clientOrderId
            (soStatus order) (soJson order) (xeNow env (k + 6)))) (\<lambda>_. returnA ()))))))))"

subsection \<open>The claim\<close>

definition claimTrailingStop ::
    "int \<Rightarrow> trailingRow \<Rightarrow> exitAssignment \<Rightarrow> exitState \<Rightarrow> jsnum \<Rightarrow> string \<Rightarrow> int \<Rightarrow> exitStore \<Rightarrow> ((exitIntent \<times> bool) \<times> exitStore) result" where
  "claimTrailingStop account row a x trailingStopPct clientOrderId now db =
     (let p = trPosition row in
      case newestIntent account clientOrderId db of
        Some n \<Rightarrow>
          if xiTrackedPositionId n \<noteq> Some (xpId p) then
            Inl (PlainError ''Error'' (''Protective OrderIntent '' @ showInt (xiId n) @ '' belongs to a different tracked position.''))
          else Inr ((n, False), db)
      | None \<Rightarrow>
        let (count, db1) = updateStates
              (\<lambda>y. xsTrackedPositionId y = xpId p \<and> xsTrailBrokerOrderId y = None \<and> xsTrailClientOrderId y = None)
              (\<lambda>y. y\<lparr>xsStatus := ''trailing_stop_submitting'', xsTrailBroker := Some ''alpaca'',
                 xsTrailClientOrderId := Some clientOrderId, xsTrailOrderStatus := Some ''pending_submit''\<rparr>) db
        in if count \<noteq> 1 then
             Inl (PlainError ''Error'' (''Protective submission for TrackedPosition '' @ showInt (xpId p) @ '' is already claimed.''))
           else let (n, db2) = createExitIntent (trailingIntent account row a ''sell'' clientOrderId ''submitting''
                  ((''signalType'', JStr ''exit'') # trailingRequest account (xpId p) a (jInt (xsId x)) (JNum trailingStopPct) clientOrderId)) now db1
                in Inr ((n, True), db2))"

subsection \<open>The submission\<close>

record trailingResult =
  tsSubmitted :: bool
  tsReason :: "string option"
  tsBrokerOrderId :: "string option"
  tsClientOrderId :: "string option"

definition notSubmitted :: "string \<Rightarrow> string option \<Rightarrow> string option \<Rightarrow> trailingResult" where
  "notSubmitted reason brokerOrderId clientOrderId =
     \<lparr>tsSubmitted = False, tsReason = Some reason, tsBrokerOrderId = brokerOrderId, tsClientOrderId = clientOrderId\<rparr>"

definition trailingContext :: "int \<Rightarrow> exitPosition \<Rightarrow> exitState \<Rightarrow> exitIntent \<Rightarrow> string \<Rightarrow> jsnum \<Rightarrow> string \<Rightarrow> verifiedExitContext" where
  "trailingContext account p x intent qty trailingStopPct clientOrderId =
     \<lparr>vxVerificationMode = None, vxTradingAccountId = account, vxTrackedPositionId = xpId p, vxOrderIntentId = xiId intent,
      vxSecurityId = xpSecurityId p, vxSymbol = xpSymbol p, vxLocalTrackedQty = QNumber (xpQty p), vxIntendedQty = QText qty,
      vxAttributedExitFilledQty = QOther, vxClientOrderId = clientOrderId,
      vxCorrelationId = Some (''trailing-stop:'' @ showInt (xsId x)), vxOrder = TrailingStopExit ''gtc'' (numberText trailingStopPct)\<rparr>"

text \<open>The handler of a failed submission: an order that exists after a rejection, or the classification on the intent.\<close>

definition recordTrailingFailure :: "exitEnv \<Rightarrow> nat \<Rightarrow> exitIntent \<Rightarrow> writeClassification \<Rightarrow> entryError \<Rightarrow> 'a exitAction" where
  "recordTrailingFailure env k intent classification e =
     bindA (exitStep env k (\<lambda>db. Inr (updateExitIntents (\<lambda>n. xiId n = xiId intent)
       (\<lambda>n. n\<lparr>xiStatus := (case classification of NOT_SENT_BLOCKED \<Rightarrow> ''blocked'' | NOT_SENT_RETRYABLE \<Rightarrow> ''failed'' | _ \<Rightarrow> ''submitting''),
          xiBlockReason := Some (''BROKER_WRITE_DELIVERY:'' @ writeClassificationText classification @ '':'' @ failureText e)\<rparr>)
       (xeNow env k) db))) (\<lambda>_.
     bindA (if classification = DELIVERY_UNCERTAIN then exitEffect env (k + 1) else returnA ()) (\<lambda>_. throwA e))"

definition trailingFailed :: "exitEnv \<Rightarrow> nat \<Rightarrow> int \<Rightarrow> int \<Rightarrow> string \<Rightarrow> exitIntent \<Rightarrow> entryError \<Rightarrow> (trailingResult + brokerSellOrder) exitAction" where
  "trailingFailed env k account i clientOrderId intent e =
     (let classification = getDeliveryClassification e in
      if classification = BROKER_REJECTED then
        bindA (attemptA (exitCall env k (xeLookup env k account clientOrderId))) (\<lambda>recovered.
        case recovered of
          Inl f \<Rightarrow> recordTrailingFailure env (k + 8) intent DELIVERY_UNCERTAIN e
        | Inr None \<Rightarrow> recordTrailingFailure env (k + 8) intent classification e
        | Inr (Some order) \<Rightarrow>
            bindA (persistTrailingStopOrder env (k + 1) account i clientOrderId order) (\<lambda>_.
            returnA (Inl (notSubmitted ''already_at_broker'' (Some (soId order)) (Some clientOrderId)))))
      else recordTrailingFailure env (k + 8) intent classification e)"

text \<open>The end of an attempt whose order the broker accepted.\<close>

definition trailingDone :: "exitEnv \<Rightarrow> nat \<Rightarrow> int \<Rightarrow> int \<Rightarrow> string \<Rightarrow> exitIntent \<Rightarrow> brokerSellOrder \<Rightarrow> trailingResult exitAction" where
  "trailingDone env k account i clientOrderId intent created =
     bindA (\<lambda>s. (Inr (), s\<lparr>xwCoordinator := forceAfterBrokerOrderCreated (xwCoordinator s) account ProtectiveOrderCreated (xeNow env k)\<rparr>)) (\<lambda>_.
     bindA (catchA (persistTrailingStopOrder env k account i clientOrderId created)
       (\<lambda>e. bindA (exitStep env (k + 7) (\<lambda>db. Inr (updateExitIntents (\<lambda>n. xiId n = xiId intent)
            (\<lambda>n. n\<lparr>xiStatus := ''submitting'', xiBlockReason :=
               Some ''BROKER_WRITE_DELIVERY:DELIVERY_UNCERTAIN:broker accepted before local persistence completed''\<rparr>)
            (xeNow env (k + 7)) db))) (\<lambda>_.
          bindA (exitEffect env (k + 8)) (\<lambda>_.
          throwA (BrokerWriteDeliveryError DELIVERY_UNCERTAIN None
            ''Protective order was accepted but local persistence did not complete.''))))) (\<lambda>_.
     bindA (exitEffect env (k + 9)) (\<lambda>_.
     returnA \<lparr>tsSubmitted = True, tsReason = None, tsBrokerOrderId = Some (soId created), tsClientOrderId = Some clientOrderId\<rparr>)))"

text \<open>The attempt once the intent is claimed.\<close>

definition sendTrailingStop ::
    "exitEnv \<Rightarrow> nat \<Rightarrow> int \<Rightarrow> exitPosition \<Rightarrow> exitState \<Rightarrow> string \<Rightarrow> jsnum \<Rightarrow> string \<Rightarrow> exitIntent \<Rightarrow> trailingResult exitAction" where
  "sendTrailingStop env k account p x qty trailingStopPct clientOrderId intent =
     (let cx = trailingContext account p x intent qty trailingStopPct clientOrderId; after = afterExit env k cx in
      bindA (catchA (bindA (submitVerifiedExit env k cx) (\<lambda>result.
          case result of
            RECOVERED_LOCAL b \<Rightarrow> returnA (Inl (notSubmitted ''already_persisted'' (Some (showInt b)) (Some clientOrderId)))
          | RECOVERED_BROKER order \<Rightarrow> returnA (Inr order)
          | SUBMITTED order \<Rightarrow> returnA (Inr order)))
        (trailingFailed env after account (xpId p) clientOrderId intent)) (\<lambda>submitted.
      case submitted of
        Inl result \<Rightarrow> returnA result
      | Inr created \<Rightarrow> trailingDone env (after + 10) account (xpId p) clientOrderId intent created))"

definition recoverTrailingStop ::
    "exitEnv \<Rightarrow> nat \<Rightarrow> int \<Rightarrow> int \<Rightarrow> exitPosition \<Rightarrow> exitState \<Rightarrow> string \<Rightarrow> jsnum \<Rightarrow> string \<Rightarrow> exitIntent \<times> bool \<Rightarrow> trailingResult exitAction" where
  "recoverTrailingStop env k account now p x qty trailingStopPct clientOrderId claim =
     (let (intent, created) = claim; recorded = recordedClassification (xiBlockReason intent) in
      if \<not> created \<and> now - xiUpdatedAt intent < PROTECTIVE_SUBMISSION_RECOVERY_BACKOFF_MS then
        returnA (notSubmitted ''recovery_backoff'' None (Some clientOrderId))
      else
        bindA (exitCall env k (xeLookup env k account clientOrderId)) (\<lambda>existing.
        case existing of
          Some order \<Rightarrow>
            bindA (persistTrailingStopOrder env (k + 1) account (xpId p) clientOrderId order) (\<lambda>_.
            returnA (notSubmitted ''already_at_broker'' (Some (soId order)) (Some clientOrderId)))
        | None \<Rightarrow>
            if \<not> created \<and> (recorded = Some DELIVERY_UNCERTAIN \<or> recorded = Some BROKER_REJECTED) then
              bindA (exitStep env (k + 8) (\<lambda>db. Inr (updateExitIntents (\<lambda>n. xiId n = xiId intent)
                (\<lambda>n. n\<lparr>xiBlockReason := Some (''BROKER_WRITE_DELIVERY:'' @ writeClassificationText (the recorded) @
                   '':broker lookup remains inconclusive'')\<rparr>) (xeNow env (k + 8)) db))) (\<lambda>_.
              returnA (notSubmitted ''recovery_inconclusive'' None (Some clientOrderId)))
            else sendTrailingStop env (k + 9) account p x qty trailingStopPct clientOrderId intent))"

text \<open>The attempt on an exit state: its target is unlocked, no order is linked to it, the quantity is whole.\<close>

definition attemptTrailingStop ::
    "exitEnv \<Rightarrow> nat \<Rightarrow> int \<Rightarrow> int \<Rightarrow> trailingRow \<Rightarrow> exitAssignment \<Rightarrow> exitState \<Rightarrow> trailingResult exitAction" where
  "attemptTrailingStop env k account now row a x =
     (let p = trPosition row; cannot = ''Cannot submit trailing stop for '' @ xpSymbol p in
      bindA (unlessA (xsTargetUnlocked x) (plainError (cannot @ ''; target has not been unlocked.''))) (\<lambda>_.
      case xsTargetUnlockedAt x of
        None \<Rightarrow> throwA (plainError (cannot @ ''; targetUnlockedAt is missing.''))
      | Some unlockedAt \<Rightarrow>
        if given (xsTrailBrokerOrderId x) then
          returnA (notSubmitted ''already_submitted'' (xsTrailBrokerOrderId x) (xsTrailClientOrderId x))
        else
          (case xsTrailingStopPct x of
             None \<Rightarrow> throwA (plainError (cannot @ ''; trailingStopPct is missing.''))
           | Some trailingStopPct \<Rightarrow>
             let clientOrderId = buildTrailingStopClientOrderId (xpSymbol p) (xpId p) unlockedAt in
             bindA (liftA (getWholeShareQty (xpQty p))) (\<lambda>qty.
             bindA (exitRead env k (trailingOrder account clientOrderId)) (\<lambda>existing.
             case existing of
               Some b \<Rightarrow>
                 bindA (exitStep env (k + 1) (markTrailingStopOrderSubmitted (xpId p) ''alpaca'' (xoBrokerOrderId b) clientOrderId
                   (xoStatus b) (xoRawBrokerJson b) (xeNow env (k + 1)))) (\<lambda>_.
                 returnA (notSubmitted ''already_persisted'' (Some (xoBrokerOrderId b)) (Some clientOrderId)))
             | None \<Rightarrow>
                 bindA (exitStep env (k + 2) (claimTrailingStop account row a x trailingStopPct clientOrderId (xeNow env (k + 2))))
                   (recoverTrailingStop env (k + 3) account now p x qty trailingStopPct clientOrderId))))))"

definition submitTrailingStopExitOrder :: "exitEnv \<Rightarrow> nat \<Rightarrow> int \<Rightarrow> int \<Rightarrow> int \<Rightarrow> trailingResult exitAction" where
  "submitTrailingStopExitOrder env k account i now =
     bindA (exitRead env k (trailingRowOf i)) (\<lambda>found.
     case found of
       None \<Rightarrow> throwA (plainError (''Tracked position '' @ showInt i @ '' was not found.''))
     | Some row \<Rightarrow>
       (let p = trPosition row in
        bindA (unlessA (xpTradingAccountId p = Some account) (plainError (''TrackedPosition '' @ showInt (xpId p) @
          '' does not belong to TradingAccount '' @ showInt account @ ''; refusing trailing-stop broker access.''))) (\<lambda>_.
        bindA (unlessA (toLowerCase (xpSide p) = ''long'')
          (plainError ''AI Trader does not automatically cover or manage short exposure.'')) (\<lambda>_.
        case attributedAssignment account row of
          None \<Rightarrow> throwA (plainError (''TrackedPosition '' @ showInt (xpId p) @
            '' has missing or inconsistent account assignment attribution.''))
        | Some a \<Rightarrow>
          bindA (case trExitState row of Some x \<Rightarrow> returnA x | None \<Rightarrow> ensurePositionExitState env (k + 1) (xpId p))
            (attemptTrailingStop env (k + 4) account now row a)))))"

end
