(* ===== verification/ExitEvaluator.thy ===== *)
theory ExitEvaluator
  imports TrailingStop RuntimeConfig
begin

text \<open>
  The exit evaluation of an account: \<open>src/services/protective-order-sync.service.ts\<close>, the synchronization of the
  protective orders with the broker, and \<open>evaluateExitsForAccount\<close> of \<open>src/services/exit-evaluator.service.ts\<close>, which
  decides for each position between holding, closing, and its trailing stop. The accounts are enumerated, locked and
  reported by the workflow runner, outside this model.
\<close>

subsection \<open>Protective orders\<close>

record protectiveSync =
  psFound :: nat
  psSynchronized :: nat
  psPartialFills :: nat
  psTerminalOrders :: nat
  psConfirmedMissing :: nat
  psFailed :: nat
  psFailures :: "(int \<times> string \<times> string) list"

text \<open>
  The exit states with a linked order that is not terminal. The filter is a negated list, so a row without a status is not selected.
\<close>

definition protectiveStates :: "int \<Rightarrow> exitStore \<Rightarrow> (exitState \<times> int option) list" where
  "protectiveStates account db =
     map (\<lambda>x. (x, Option.bind (positionOf (xsTrackedPositionId x) db) xpTradingAccountId))
       (sort_key xsTrackedPositionId
         (filter (\<lambda>x. xsTrailBrokerOrderId x \<noteq> None \<and>
            (case xsTrailOrderStatus x of None \<Rightarrow> False | Some t \<Rightarrow> NONTERMINAL_BROKER_ORDER_PRISMA_FILTER t) \<and>
            (case positionOf (xsTrackedPositionId x) db of None \<Rightarrow> False | Some p \<Rightarrow> xpTradingAccountId p = Some account))
          (xdExitStates db)))"

text \<open>\<open>Number(value ?? 0)\<close>\<close>

definition quantityNumber :: "string option \<Rightarrow> jsnum" where
  "quantityNumber q = (case q of None \<Rightarrow> Fin 0 | Some t \<Rightarrow> stringToNumber t)"

definition partiallyFilled :: "brokerSellOrder \<Rightarrow> bool" where
  "partiallyFilled order =
     (let filledQty = quantityNumber (soFilledQty order); requestedQty = quantityNumber (soQty order) in
      isFinite filledQty \<and> jsLt (Fin 0) filledQty \<and> (\<not> isFinite requestedQty \<or> jsLt filledQty requestedQty))"

definition updateOrders :: "(exitOrderRow \<Rightarrow> bool) \<Rightarrow> (exitOrderRow \<Rightarrow> exitOrderRow) \<Rightarrow> exitStore \<Rightarrow> int \<times> exitStore" where
  "updateOrders P f db =
     (int (length (filter P (xdOrders db))), db\<lparr>xdOrders := map (\<lambda>b. if P b then f b else b) (xdOrders db)\<rparr>)"

text \<open>A pair of the tables and of what the workflow counts; both survive a throw.\<close>

type_synonym ('c, 'a) counting = "(exitWorld \<times> 'c, 'a) run"

definition runA :: "'a exitAction \<Rightarrow> ('c, 'a) counting" where
  "runA m = (\<lambda>(s, c). case m s of (r, s') \<Rightarrow> (r, (s', c)))"

definition countA :: "('c \<Rightarrow> 'c) \<Rightarrow> ('c, unit) counting" where
  "countA f = (\<lambda>(s, c). (Inr (), (s, f c)))"

definition syncProtectiveOrder :: "exitEnv \<Rightarrow> nat \<Rightarrow> int \<Rightarrow> exitState \<times> int option \<Rightarrow> (protectiveSync, unit) counting" where
  "syncProtectiveOrder env k account row =
     (let (x, owner) = row; brokerOrderId = the (xsTrailBrokerOrderId x); name = ''PositionExitState '' @ showInt (xsId x) in
      bindA (unlessA (owner = Some account) (plainError (name @
        '' account attribution does not match coordinator account '' @ showInt account @ ''.''))) (\<lambda>_.
      bindA (unlessA (given (xsTrailClientOrderId x)) (plainError (name @ '' has no protective client order identity.''))) (\<lambda>_.
      bindA (runA (exitCall env k (xeOrderById env account brokerOrderId))) (\<lambda>found.
      case found of
        None \<Rightarrow>
          bindA (runA (exitStep env (k + 1) (markPositionExitStateAttentionRequired (xsTrackedPositionId x)
            ''protective_order_confirmed_missing''
            ''The linked protective order was not found at the broker. Replacement was not submitted; operator review or safe recovery is required.''
            (xeNow env (k + 1))))) (\<lambda>_.
          countA (\<lambda>c. c\<lparr>psConfirmedMissing := psConfirmedMissing c + 1\<rparr>))
      | Some order \<Rightarrow>
          bindA (countA (\<lambda>c. if partiallyFilled order then c\<lparr>psPartialFills := psPartialFills c + 1\<rparr> else c)) (\<lambda>_.
          let status = normalizeBrokerOrderStatus (soStatus order) in
          bindA (countA (\<lambda>c. if isTerminalBrokerOrderStatus status then c\<lparr>psTerminalOrders := psTerminalOrders c + 1\<rparr> else c)) (\<lambda>_.
          bindA (runA (exitStep env (k + 2) (\<lambda>db. Inr (syncTrailingStopOrderStatus account (the (xsTrailClientOrderId x))
            (Some brokerOrderId) status (soJson order) (xeNow env (k + 2)) db)))) (\<lambda>_.
          bindA (runA (exitStep env (k + 3) (\<lambda>db. Inr (updateOrders (\<lambda>b. xoTradingAccountId b = account \<and> xoBroker b = ''alpaca'' \<and>
              xoBrokerOrderId b = brokerOrderId \<and> xoTrackedPositionId b = Some (xsTrackedPositionId x))
            (\<lambda>b. b\<lparr>xoStatus := status, xoRawBrokerJson := soJson order\<rparr>) db)))) (\<lambda>_.
          countA (\<lambda>c. c\<lparr>psSynchronized := psSynchronized c + 1\<rparr>)))))))))"

fun syncProtectiveOrders :: "exitEnv \<Rightarrow> nat \<Rightarrow> int \<Rightarrow> (exitState \<times> int option) list \<Rightarrow> (protectiveSync, unit) counting" where
  "syncProtectiveOrders env k account [] = returnA ()"
| "syncProtectiveOrders env k account (row # rows) =
     bindA (catchA (syncProtectiveOrder env k account row)
       (\<lambda>e. countA (\<lambda>c. c\<lparr>psFailed := psFailed c + 1,
          psFailures := psFailures c @ [(xsTrackedPositionId (fst row), the (xsTrailBrokerOrderId (fst row)), failureText e)]\<rparr>)))
       (\<lambda>_. syncProtectiveOrders env (k + 4) account rows)"

definition noSync :: "nat \<Rightarrow> protectiveSync" where
  "noSync n = \<lparr>psFound = n, psSynchronized = 0, psPartialFills = 0, psTerminalOrders = 0, psConfirmedMissing = 0,
     psFailed = 0, psFailures = []\<rparr>"

text \<open>The counts as the result of a run that counts.\<close>

definition resultCounts :: "('c, unit) counting \<Rightarrow> 'c \<Rightarrow> 'c exitAction" where
  "resultCounts m counts s =
     (case m (s, counts) of
        (Inl e, (s', c)) \<Rightarrow> (Inl e, s')
      | (Inr _, (s', c)) \<Rightarrow> (Inr c, s'))"

definition syncProtectiveOrdersForAccount :: "exitEnv \<Rightarrow> nat \<Rightarrow> int \<Rightarrow> protectiveSync exitAction" where
  "syncProtectiveOrdersForAccount env k account =
     bindA (exitRead env k (protectiveStates account)) (\<lambda>rows.
     resultCounts (syncProtectiveOrders env (k + 1) account rows) (noSync (length rows)))"

subsection \<open>The evaluation\<close>

record evaluation =
  evPositionsEvaluated :: nat
  evPositionsSkipped :: nat
  evExitSignalsTriggered :: nat
  evCloseIntentsCreated :: nat
  evProtectiveOrdersSynchronized :: nat
  evBlockedExits :: nat
  evFailedPositions :: nat
  evFailures :: "(int \<times> string) list"

definition emptyCounts :: evaluation where
  "emptyCounts = \<lparr>evPositionsEvaluated = 0, evPositionsSkipped = 0, evExitSignalsTriggered = 0, evCloseIntentsCreated = 0,
     evProtectiveOrdersSynchronized = 0, evBlockedExits = 0, evFailedPositions = 0, evFailures = []\<rparr>"

text \<open>\<open>errorToPayloadJson\<close>; the error of a verification block has a name of its own.\<close>

definition errorToPayloadJson :: "entryError \<Rightarrow> json" where
  "errorToPayloadJson e =
     JObj [(''name'', JStr (if isExitVerificationBlock e then ''VerifiedExitPreSubmissionError'' else errorName e)),
       (''message'', JStr (failureText e))]"

definition isUnlockTrailingProfile :: "exitProfile \<Rightarrow> bool" where
  "isUnlockTrailingProfile profile = (xfExitMode profile = ''unlock_trailing_stop'')"

text \<open>The positions of the account with the exit state, the assignment and the profile of the assignment's subscription.\<close>

record evaluationRow =
  erPosition :: exitPosition
  erExitState :: "exitState option"
  erAssignment :: "(exitAssignment \<times> exitProfile) option"

definition evaluationRows :: "int \<Rightarrow> exitStore \<Rightarrow> evaluationRow list" where
  "evaluationRows account db =
     map (\<lambda>p. \<lparr>erPosition = p, erExitState = exitStateOf (xpId p) db,
            erAssignment = Option.bind (assignmentOf p db) (\<lambda>a.
              map_option (\<lambda>u. (a, xuExitProfile u)) (List.find (\<lambda>u. xuId u = xaSubscriptionId a) (xdSubscriptions db)))\<rparr>)
       (sort_key xpId (filter (\<lambda>p. xpStatus p \<in> set [''open'', ''closing''] \<and> xpTradingAccountId p = Some account) (xdPositions db)))"

definition skipA :: "(evaluation, unit) counting" where
  "skipA = countA (\<lambda>c. c\<lparr>evPositionsSkipped := evPositionsSkipped c + 1\<rparr>)"

definition signalA :: "(evaluation, unit) counting" where
  "signalA = countA (\<lambda>c. c\<lparr>evExitSignalsTriggered := evExitSignalsTriggered c + 1\<rparr>)"

definition closeIntentA :: "(evaluation, unit) counting" where
  "closeIntentA = countA (\<lambda>c. c\<lparr>evCloseIntentsCreated := evCloseIntentsCreated c + 1\<rparr>)"

definition blockedExitA :: "(evaluation, unit) counting" where
  "blockedExitA = countA (\<lambda>c. c\<lparr>evBlockedExits := evBlockedExits c + 1\<rparr>)"

definition stopLossHit :: "exitProfile \<Rightarrow> jsnum \<Rightarrow> bool" where
  "stopLossHit profile pnlPct = (case xfStopLossPct profile of None \<Rightarrow> False | Some l \<Rightarrow> jsLe pnlPct (jsNeg (jsDiv l (Fin 100))))"

definition takeProfitHit :: "exitProfile \<Rightarrow> jsnum \<Rightarrow> bool" where
  "takeProfitHit profile pnlPct = (case xfTargetPct profile of None \<Rightarrow> False | Some t \<Rightarrow> jsLe (jsDiv t (Fin 100)) pnlPct)"

definition coalesce :: "'a option \<Rightarrow> 'a option \<Rightarrow> 'a option" where
  "coalesce a b = (if a = None then b else a)"

text \<open>A profile that unlocks a trailing stop: the target is unlocked once, then the protective order is submitted.\<close>

definition submitProtective :: "exitEnv \<Rightarrow> nat \<Rightarrow> int \<Rightarrow> int \<Rightarrow> (evaluation, unit) counting" where
  "submitProtective env k account i =
     catchA (bindA (runA (submitTrailingStopExitOrder env k account i (xeNow env k))) (\<lambda>_. closeIntentA))
       (\<lambda>e. let after = k + 60 + xeAttentions env account i in
          bindA (runA (exitStep env after (markTrailingStopOrderSubmitFailed i (errorToPayloadJson e) (xeNow env after)))) (\<lambda>_.
          bindA (if getBrokerWriteDeliveryClassification e \<noteq> Some DELIVERY_UNCERTAIN then runA (exitEffect env (after + 1)) else returnA ()) (\<lambda>_.
          throwA e)))"

definition evaluateUnlockTrailing ::
    "exitEnv \<Rightarrow> nat \<Rightarrow> int \<Rightarrow> exitPosition \<Rightarrow> exitState option \<Rightarrow> exitProfile \<Rightarrow> (evaluation, unit) counting" where
  "evaluateUnlockTrailing env k account p state profile =
     bindA (case state of Some x \<Rightarrow> returnA x | None \<Rightarrow> runA (ensurePositionExitState env k (xpId p))) (\<lambda>x.
     case (coalesce (xsTargetPct x) (xfTargetPct profile), coalesce (xsTrailingStopPct x) (xfTrailingStopPct profile)) of
       (Some targetPct, Some trailingStopPct) \<Rightarrow>
         bindA (if \<not> xsTargetUnlocked x \<and> jsLe (jsDiv targetPct (Fin 100)) (xpUnrealizedPnLPct p) then
             bindA (runA (exitStep env (k + 3) (unlockTrailingStopExitState (xpId p) (xpCurrentPrice p) (xpUnrealizedPnLPct p)
               targetPct trailingStopPct (xeNow env (k + 3))))) (\<lambda>x'.
             bindA signalA (\<lambda>_. bindA (runA (exitEffect env (k + 4))) (\<lambda>_. returnA x')))
           else returnA x) (\<lambda>x'.
         if xsTargetUnlocked x' \<and> \<not> given (xsTrailBrokerOrderId x') then submitProtective env (k + 5) account (xpId p) else returnA ())
     | _ \<Rightarrow> skipA)"

text \<open>Any other profile: the position is closed at its stop loss or its target.\<close>

definition evaluateClose :: "exitEnv \<Rightarrow> nat \<Rightarrow> exitPosition \<Rightarrow> exitProfile \<Rightarrow> (evaluation, unit) counting" where
  "evaluateClose env k p profile =
     (if \<not> takeProfitHit profile (xpUnrealizedPnLPct p) \<and> \<not> stopLossHit profile (xpUnrealizedPnLPct p) then returnA ()
      else
        bindA signalA (\<lambda>_.
        bindA (runA (closePosition env k (xpId p) AUTOMATED_STRATEGY)) (\<lambda>_.
        bindA closeIntentA (\<lambda>_.
        runA (exitEffect env (k + 60 + xeAttentions env (the (xpTradingAccountId p)) (xpId p)))))))"

definition evaluatePosition :: "exitEnv \<Rightarrow> nat \<Rightarrow> int \<Rightarrow> evaluationRow \<Rightarrow> (evaluation, unit) counting" where
  "evaluatePosition env k account row =
     (let p = erPosition row; name = ''TrackedPosition '' @ showInt (xpId p) in
      bindA (countA (\<lambda>c. c\<lparr>evPositionsEvaluated := evPositionsEvaluated c + 1\<rparr>)) (\<lambda>_.
      if xpTradingAccountId p \<noteq> Some account then
        throwA (plainError (name @ '' account attribution does not match coordinator account '' @ showInt account @ ''.''))
      else case erAssignment row of
        None \<Rightarrow> throwA (plainError (name @ '' has missing or inconsistent account assignment attribution.''))
      | Some (a, profile) \<Rightarrow>
        if xaTradingAccountId a \<noteq> account \<or> Some (xaSubscriptionId a) \<noteq> xpSubscriptionId p then
          throwA (plainError (name @ '' has missing or inconsistent account assignment attribution.''))
        else if (case erExitState row of None \<Rightarrow> False | Some x \<Rightarrow> given (xsTrailBrokerOrderId x)) then skipA
        else if xpStatus p = ''closing'' then skipA
        else if \<not> xaEnabled a \<or> \<not> xaExitsEnabled a then
          bindA skipA (\<lambda>_. blockedExitA)
        else
          let externalExitOwnership = (case erExitState row of None \<Rightarrow> False | Some x \<Rightarrow> xsExitManagementMode x = ''EXTERNAL_SIGNAL'');
              protectiveStopLoss = (\<not> isUnlockTrailingProfile profile \<and> stopLossHit profile (xpUnrealizedPnLPct p))
          in if externalExitOwnership \<and> \<not> protectiveStopLoss then skipA
             else if isUnlockTrailingProfile profile then evaluateUnlockTrailing env k account p (erExitState row) profile
             else evaluateClose env k p profile))"

text \<open>A failing position is recorded and the next one is evaluated.\<close>

fun evaluatePositions :: "exitEnv \<Rightarrow> nat \<Rightarrow> int \<Rightarrow> evaluationRow list \<Rightarrow> (evaluation, unit) counting" where
  "evaluatePositions env k account [] = returnA ()"
| "evaluatePositions env k account (row # rows) =
     (let i = xpId (erPosition row) in
      bindA (catchA (evaluatePosition env k account row)
        (\<lambda>e. countA (\<lambda>c. c\<lparr>evFailedPositions := evFailedPositions c + 1, evFailures := evFailures c @ [(i, failureText e)]\<rparr>)))
        (\<lambda>_. evaluatePositions env (k + 100 + xeAttentions env account i) account rows))"

text \<open>
  The authority assessment of a paper account is a parameter: its outcome with its reason.
  \<open>observed\<close> says for which positions the observation was recorded before.
\<close>

fun observePositions :: "exitEnv \<Rightarrow> nat \<Rightarrow> (int \<Rightarrow> bool) \<Rightarrow> evaluationRow list \<Rightarrow> (evaluation, unit) counting" where
  "observePositions env k observed [] = returnA ()"
| "observePositions env k observed (row # rows) =
     bindA skipA (\<lambda>_.
     bindA (runA (exitEffect env k)) (\<lambda>_.
     bindA (if observed (xpId (erPosition row)) then returnA () else runA (exitEffect env (k + 1))) (\<lambda>_.
     observePositions env (k + 2) observed rows)))"

text \<open>The work after the synchronization: a paper account is observed, refused or evaluated by its authority.\<close>

definition evaluateAuthorized ::
    "exitEnv \<Rightarrow> nat \<Rightarrow> (int \<Rightarrow> entryError + string \<times> string) \<Rightarrow> (int \<Rightarrow> bool) \<Rightarrow> int \<Rightarrow> string \<Rightarrow> evaluationRow list \<Rightarrow> (evaluation, unit) counting" where
  "evaluateAuthorized env k assess observed account environment rows =
     (let evaluated = evaluatePositions env (k + 2) account rows in
      if environment = ''PAPER'' then
        bindA (runA (exitCall env k (assess account))) (\<lambda>(outcome, reason).
        if outcome = ''INTENTIONAL_OBSERVATION_ONLY'' then observePositions env (k + 2) observed rows
        else if outcome \<noteq> ''AUTHORIZED'' then
          bindA (runA (exitEffect env (k + 1))) (\<lambda>_.
          throwA (plainError (''PAPER exit executor authority is '' @ outcome @ '': '' @ reason)))
        else evaluated)
      else evaluated)"

definition evaluateExitsForAccount ::
    "exitEnv \<Rightarrow> nat \<Rightarrow> (int \<Rightarrow> entryError + string \<times> string) \<Rightarrow> (int \<Rightarrow> bool) \<Rightarrow> int \<Rightarrow> string \<Rightarrow> evaluation exitAction" where
  "evaluateExitsForAccount env k assess observed account environment =
     bindA (exitRead env k (evaluationRows account)) (\<lambda>rows.
     bindA (syncProtectiveOrdersForAccount env (k + 1) account) (\<lambda>sync.
     resultCounts (evaluateAuthorized env (k + 2 + 4 * psFound sync) assess observed account environment rows)
       (emptyCounts\<lparr>evProtectiveOrdersSynchronized := psSynchronized sync, evFailedPositions := psFailed sync,
          evFailures := map (\<lambda>(i, b, e). (i, e)) (psFailures sync)\<rparr>)))"

end
