(* ===== verification/ExitRules.thy ===== *)
theory ExitRules
  imports ClosePosition
begin

text \<open>
  How the actions of the exit path compose: which of them send nothing, what may be the one order
  that an action sends, and which properties of the tables an action keeps.
\<close>

named_theorems silent \<open>actions that send nothing\<close>
named_theorems keeping \<open>actions that keep a property of the tables\<close>

definition silentA :: "'a exitAction \<Rightarrow> bool" where
  "silentA m \<longleftrightarrow> (\<forall>s r s'. m s = (r, s') \<longrightarrow> xwSent s' = xwSent s)"

text \<open>The tables keep \<open>P\<close>; \<open>othersKeep\<close> says that the other transactions do.\<close>

definition othersKeep :: "exitEnv \<Rightarrow> (exitStore \<Rightarrow> bool) \<Rightarrow> bool" where
  "othersKeep env P \<longleftrightarrow> (\<forall>k db. P db \<longrightarrow> P (xeOthers env k db))"

definition keepsR :: "('s \<Rightarrow> bool) \<Rightarrow> ('s, 'a) run \<Rightarrow> bool" where
  "keepsR R m \<longleftrightarrow> (\<forall>s r s'. R s \<longrightarrow> m s = (r, s') \<longrightarrow> R s')"

definition keepsA :: "(exitStore \<Rightarrow> bool) \<Rightarrow> 'a exitAction \<Rightarrow> bool" where
  "keepsA P = keepsR (\<lambda>s. P (xwDb s))"

lemma keepsA_iff: "keepsA P m \<longleftrightarrow> (\<forall>s r s'. P (xwDb s) \<longrightarrow> m s = (r, s') \<longrightarrow> P (xwDb s'))"
  by (simp add: keepsA_def keepsR_def)

text \<open>The action sends nothing, or one order that stands in the relation to the result of the action.\<close>

definition sendsAtMost :: "exitEnv \<Rightarrow> (exitPost \<Rightarrow> entryError + 'a \<Rightarrow> bool) \<Rightarrow> 'a exitAction \<Rightarrow> bool" where
  "sendsAtMost env Q m \<longleftrightarrow> (\<forall>s r s'. m s = (r, s') \<longrightarrow>
     xwSent s' = xwSent s \<or> (\<exists>p. Q p r \<and> xwSent s' = xwSent s @ [(p, xePost env p)]))"

subsection \<open>Silent actions\<close>

lemma silentD: "silentA m \<Longrightarrow> m s = (r, s') \<Longrightarrow> xwSent s' = xwSent s"
  by (simp add: silentA_def)

lemma silent_return [silent]: "silentA (returnA x)" "silentA (throwA e)" "silentA (unlessA ok e)"
  by (auto simp: silentA_def returnA_def throwA_def unlessA_def)

lemma silent_step [silent]: "silentA (exitStep env k f)" "silentA (exitRead env k g)"
  "silentA (exitCall env k v)" "silentA (exitEffect env k)"
  by (auto simp: silentA_def exitStep_def exitRead_def exitCall_def exitEffect_def Let_def split: option.splits fault.splits)

lemma silentI: "(\<And>s r s'. m s = (r, s') \<Longrightarrow> xwSent s' = xwSent s) \<Longrightarrow> silentA m"
  by (simp add: silentA_def)

lemma silent_bind [silent]:
  assumes m: "silentA m" and f: "\<And>x. silentA (f x)"
  shows "silentA (bindA m f)"
proof (rule silentI)
  fix s r s'
  assume "bindA m f s = (r, s')"
  then show "xwSent s' = xwSent s"
    by (cases rule: bindA_cases) (simp_all add: silentD[OF m] silentD[OF f])
qed

lemma silent_catch [silent]:
  assumes m: "silentA m" and h: "\<And>e. silentA (h e)"
  shows "silentA (catchA m h)"
proof (rule silentI)
  fix s r s'
  assume "catchA m h s = (r, s')"
  then show "xwSent s' = xwSent s"
    by (cases rule: catchA_cases) (simp_all add: silentD[OF m] silentD[OF h])
qed

lemma silent_attempt [silent]: "silentA m \<Longrightarrow> silentA (attemptA m)"
  unfolding attemptA_def by (intro silent)

lemma silent_if [silent]: "silentA m \<Longrightarrow> silentA m' \<Longrightarrow> silentA (if b then m else m')"
  by simp

lemma silent_resolve [silent]: "silentA (resolveAttentions env k n)"
  by (induction n arbitrary: k) (auto intro!: silent)

lemma silent_block [silent]: "silentA (blockExit env k cx environment r)"
  unfolding blockExit_def Let_def by (intro silent)

subsection \<open>Actions that send at most one order\<close>

lemma sends_silent: "silentA m \<Longrightarrow> sendsAtMost env Q m"
  by (auto simp: sendsAtMost_def silentA_def)

lemma sendsD: "sendsAtMost env Q m \<Longrightarrow> m s = (r, s') \<Longrightarrow>
    xwSent s' = xwSent s \<or> (\<exists>p. Q p r \<and> xwSent s' = xwSent s @ [(p, xePost env p)])"
  by (simp add: sendsAtMost_def)

lemma sendsI: "(\<And>s r s'. m s = (r, s') \<Longrightarrow>
    xwSent s' = xwSent s \<or> (\<exists>p. Q p r \<and> xwSent s' = xwSent s @ [(p, xePost env p)])) \<Longrightarrow> sendsAtMost env Q m"
  by (simp add: sendsAtMost_def)

lemma sends_bind:
  assumes m: "silentA m" and f: "\<And>x. sendsAtMost env Q (f x)"
  shows "sendsAtMost env Q (bindA m f)"
proof (rule sendsI)
  fix s r s'
  assume "bindA m f s = (r, s')"
  then show "xwSent s' = xwSent s \<or> (\<exists>p. Q p r \<and> xwSent s' = xwSent s @ [(p, xePost env p)])"
  proof (cases rule: bindA_cases)
    case (error e)
    then show ?thesis using silentD[OF m] by blast
  next
    case (continue x s1)
    then show ?thesis using sendsD[OF f continue(2)] silentD[OF m continue(1)] by simp
  qed
qed

text \<open>After a call whose error becomes a value, the rest runs with the answer of the call.\<close>

lemma attempt_call:
  assumes "attemptA (exitCall env k v) s = (r, s')"
  shows "r = Inr v \<or> v = Inl ProcessDied \<and> r = Inl ProcessDied"
  using assms by (auto simp: attemptA_def exitCall_def catchA_def bindA_def returnA_def split: sum.splits if_splits)

lemma sends_attempt: "sendsAtMost env Q (f v) \<Longrightarrow> sendsAtMost env Q (bindA (attemptA (exitCall env k v)) f)"
proof -
  assume rest: "sendsAtMost env Q (f v)"
  have quiet: "silentA (attemptA (exitCall env k v))" by (intro silent)
  show ?thesis
  proof (rule sendsI)
    fix s r s'
    assume "bindA (attemptA (exitCall env k v)) f s = (r, s')"
    then show "xwSent s' = xwSent s \<or> (\<exists>p. Q p r \<and> xwSent s' = xwSent s @ [(p, xePost env p)])"
    proof (cases rule: bindA_cases)
      case (error e)
      then show ?thesis using silentD[OF quiet] by blast
    next
      case (continue x s1)
      have "x = v" using attempt_call[OF continue(1)] by auto
      then have run: "f v s1 = (r, s')" using continue(2) by simp
      show ?thesis using sendsD[OF rest run] silentD[OF quiet continue(1)] by simp
    qed
  qed
qed

lemma sends_call:
  assumes rest: "\<And>x. v = Inr x \<Longrightarrow> sendsAtMost env Q (f x)"
  shows "sendsAtMost env Q (bindA (exitCall env k v) f)"
proof (rule sendsI)
  fix s r s'
  assume "bindA (exitCall env k v) f s = (r, s')"
  then show "xwSent s' = xwSent s \<or> (\<exists>p. Q p r \<and> xwSent s' = xwSent s @ [(p, xePost env p)])"
  proof (cases rule: bindA_cases)
    case (error e)
    then show ?thesis by (auto simp: exitCall_def)
  next
    case (continue x s1)
    then have v: "v = Inr x" "xwSent s1 = xwSent s" by (auto simp: exitCall_def)
    show ?thesis using sendsD[OF rest[OF v(1)] continue(2)] v(2) by simp
  qed
qed

subsection \<open>Actions that keep a property of the tables\<close>

lemma exitKeepsD: "keepsA P m \<Longrightarrow> P (xwDb s) \<Longrightarrow> m s = (r, s') \<Longrightarrow> P (xwDb s')"
  by (simp add: keepsA_iff)

lemma keepsR_I: "(\<And>s r s'. R s \<Longrightarrow> m s = (r, s') \<Longrightarrow> R s') \<Longrightarrow> keepsR R m"
  by (simp add: keepsR_def)

lemma keepsR_D: "keepsR R m \<Longrightarrow> R s \<Longrightarrow> m s = (r, s') \<Longrightarrow> R s'"
  by (simp add: keepsR_def)

lemma keepsR_bind:
  assumes m: "keepsR R m" and f: "\<And>x. keepsR R (f x)"
  shows "keepsR R (bindA m f)"
proof (rule keepsR_I)
  fix s r s'
  assume ok: "R s" and "bindA m f s = (r, s')"
  from this(2) show "R s'"
  proof (cases rule: bindA_cases)
    case (error e)
    show ?thesis by (rule keepsR_D[OF m ok error(1)])
  next
    case (continue x s1)
    show ?thesis by (rule keepsR_D[OF f keepsR_D[OF m ok continue(1)] continue(2)])
  qed
qed

lemma keepsR_catch:
  assumes m: "keepsR R m" and h: "\<And>e. keepsR R (h e)"
  shows "keepsR R (catchA m h)"
proof (rule keepsR_I)
  fix s r s'
  assume ok: "R s" and "catchA m h s = (r, s')"
  from this(2) show "R s'"
  proof (cases rule: catchA_cases)
    case (handled e s1)
    show ?thesis by (rule keepsR_D[OF h keepsR_D[OF m ok handled(1)] handled(3)])
  next
    case passed
    show ?thesis by (rule keepsR_D[OF m ok passed])
  qed
qed

lemma keepsR_return: "keepsR R (returnA x)" "keepsR R (throwA e)" "keepsR R (unlessA ok e)"
  by (auto simp: keepsR_def returnA_def throwA_def unlessA_def)

lemma keeps_bind [keeping]: "keepsA P m \<Longrightarrow> (\<And>x. keepsA P (f x)) \<Longrightarrow> keepsA P (bindA m f)"
  unfolding keepsA_def by (rule keepsR_bind)

lemma keeps_catch [keeping]: "keepsA P m \<Longrightarrow> (\<And>e. keepsA P (h e)) \<Longrightarrow> keepsA P (catchA m h)"
  unfolding keepsA_def by (rule keepsR_catch)

lemma keeps_return [keeping]: "keepsA P (returnA x)" "keepsA P (throwA e)" "keepsA P (unlessA ok e)"
  unfolding keepsA_def by (rule keepsR_return)+

lemma keeps_attempt [keeping]: "keepsA P m \<Longrightarrow> keepsA P (attemptA m)"
  unfolding attemptA_def by (intro keeping)

lemma keeps_if [keeping]: "keepsA P m \<Longrightarrow> keepsA P m' \<Longrightarrow> keepsA P (if b then m else m')"
  by simp

lemma keeps_call: "othersKeep env P \<Longrightarrow> keepsA P (exitCall env k v)"
  by (auto simp: keepsA_iff othersKeep_def exitCall_def)

lemma keeps_effect: "othersKeep env P \<Longrightarrow> keepsA P (exitEffect env k)"
  unfolding exitEffect_def by (rule keeps_call)

lemma keeps_send: "othersKeep env P \<Longrightarrow> keepsA P (exitSend env k p)"
  by (auto simp: keepsA_iff othersKeep_def exitSend_def)

lemma keeps_step:
  assumes "othersKeep env P" and "\<And>db x db'. P db \<Longrightarrow> f db = Inr (x, db') \<Longrightarrow> P db'"
  shows "keepsA P (exitStep env k f)"
proof -
  have "P (snd (case f db of Inl e \<Rightarrow> (Inl (Failure e), db) | Inr (x, db') \<Rightarrow> (Inr x, db')))" if "P db" for db
    using assms(2)[OF that] that by (auto split: sum.splits prod.splits)
  then show ?thesis using assms(1)
    by (auto simp: keepsA_iff exitStep_def othersKeep_def Let_def split: option.splits fault.splits)
qed

lemma keeps_read: "othersKeep env P \<Longrightarrow> keepsA P (exitRead env k g)"
  unfolding exitRead_def by (rule keeps_step) auto

lemma keeps_resolve: "othersKeep env P \<Longrightarrow> keepsA P (resolveAttentions env k n)"
  by (induction n arbitrary: k) (auto intro!: keeping keeps_effect)

subsection \<open>A run without faults and interleaved transactions\<close>

definition quietExit :: "exitEnv \<Rightarrow> bool" where
  "quietExit env \<longleftrightarrow> (\<forall>k db. xeOthers env k db = db) \<and> (\<forall>k. xeFault env k = None) \<and> (\<forall>k. xeEffect env k = Inr ())"

named_theorems quiet \<open>the steps of a quiet run\<close>

lemma quiet_step [quiet]: "quietExit env \<Longrightarrow> exitStep env k f s =
    (case f (xwDb s) of Inl e \<Rightarrow> (Inl (Failure e), s) | Inr (x, db) \<Rightarrow> (Inr x, s\<lparr>xwDb := db\<rparr>))"
  by (auto simp: quietExit_def exitStep_def Let_def split: sum.split prod.split)

lemma bind_quiet_step: "quietExit env \<Longrightarrow> f (xwDb s) = Inr (x, db) \<Longrightarrow> bindA (exitStep env k f) g s = g x (s\<lparr>xwDb := db\<rparr>)"
  by (simp add: bindA_def quiet_step)

lemma quiet_read [quiet]: "quietExit env \<Longrightarrow> exitRead env k f s = (Inr (f (xwDb s)), s)"
  by (simp add: exitRead_def quiet_step)

lemma quiet_call [quiet]: "quietExit env \<Longrightarrow> exitCall env k v s = (v, s)"
  by (simp add: quietExit_def exitCall_def)

lemma quiet_effect [quiet]: "quietExit env \<Longrightarrow> exitEffect env k s = (Inr (), s)"
  by (simp add: exitEffect_def quiet_call) (simp add: quietExit_def)

lemma quiet_send [quiet]: "quietExit env \<Longrightarrow> exitSend env k p s = (xePost env p, s\<lparr>xwSent := xwSent s @ [(p, xePost env p)]\<rparr>)"
  by (simp add: quietExit_def exitSend_def)

lemma run_simps [quiet]:
  "returnA x s = (Inr x, s)" "throwA e s = (Inl e, s)"
  "unlessA ok e s = (if ok then (Inr (), s) else (Inl e, s))"
  by (simp_all add: returnA_def throwA_def unlessA_def)

lemma quiet_attempt [quiet]: "quietExit env \<Longrightarrow> attemptA (exitCall env k v) s = (if v = Inl ProcessDied then (Inl ProcessDied, s) else (Inr v, s))"
  by (cases v) (auto simp: attemptA_def catchA_def bindA_def quiet)

lemma quiet_resolve [quiet]: "quietExit env \<Longrightarrow> resolveAttentions env k n s = (Inr (), s)"
  by (induction n arbitrary: k) (simp_all add: bindA_def quiet)

definition blockedIntents :: "verifiedExitContext \<Rightarrow> exitRefusal \<Rightarrow> int \<Rightarrow> exitStore \<Rightarrow> exitStore" where
  "blockedIntents cx r now db = snd (updateExitIntents (\<lambda>i. xiId i = vxOrderIntentId cx)
     (\<lambda>i. i\<lparr>xiStatus := ''blocked'', xiBlockReason := Some (''EXIT_VERIFICATION:'' @ outcomeText (xrOutcome r))\<rparr>) now db)"

lemma quiet_block [quiet]: "quietExit env \<Longrightarrow> blockExit env k cx environment r s =
    (Inl (Failure (HttpError 409 (xrMessage r) (JObj (blockEvidence env (xeNow env k) cx environment r)))),
     s\<lparr>xwDb := blockedIntents cx r (xeNow env k) (xwDb s)\<rparr>)"
  by (simp add: blockExit_def Let_def bindA_def catchA_def quiet blockedIntents_def split: prod.split)

text \<open>The evidence of a refusal does not hide the outcome, so the error of a block is recognised.\<close>

definition plainEvidence :: "exitRefusal \<Rightarrow> bool" where
  "plainEvidence r \<longleftrightarrow> ''verificationOutcome'' \<notin> fst ` set (xrEvidence r) \<and> ''authorizationResult'' \<notin> fst ` set (xrEvidence r)"

lemma plain_lookup: "plainEvidence (lookupRefusal message classification e)"
  by (simp add: plainEvidence_def lookupRefusal_def)

lemma plain_verify: "verifyExit cx found openOrders = Inl r \<Longrightarrow> plainEvidence r"
  by (auto simp: verifyExit_def verifyQuantities_def heldEvidence_def plainEvidence_def Let_def split: option.splits if_splits)

lemma block_error:
  assumes "plainEvidence r"
  shows "isExitVerificationBlock (Failure (HttpError st m (JObj (blockEvidence env now cx environment r)))) \<and>
    verificationOutcome (Failure (HttpError st m (JObj (blockEvidence env now cx environment r)))) = outcomeText (xrOutcome r)"
proof -
  have none: "map_of (rev (xrEvidence r)) ''verificationOutcome'' = None" "map_of (rev (xrEvidence r)) ''authorizationResult'' = None"
    using assms by (simp_all add: plainEvidence_def map_of_eq_None_iff)
  show ?thesis
    by (simp add: jsonGet_def blockEvidence_def deploymentAuthority_def map_add_def none)
qed

text \<open>A quiet submission changes nothing but the intent that it blocks, and then its error says so.\<close>

definition onlyExitBlocks :: "verifiedExitContext \<Rightarrow> exitWorld \<Rightarrow> (entryError + 'a) \<times> exitWorld \<Rightarrow> bool" where
  "onlyExitBlocks cx s res \<longleftrightarrow> xwDb (snd res) = xwDb s \<or>
     (\<exists>e r now. fst res = Inl e \<and> isExitVerificationBlock e \<and> verificationOutcome e = outcomeText (xrOutcome r) \<and>
        xwDb (snd res) = blockedIntents cx r now (xwDb s) \<and> xwSent (snd res) = xwSent s)"

lemma only_block:
  assumes "quietExit env" and "plainEvidence r"
  shows "onlyExitBlocks cx s (blockExit env k cx environment r s)"
  using block_error[OF assms(2), of 409 "xrMessage r" env "xeNow env k" cx environment]
  unfolding onlyExitBlocks_def quiet_block[OF assms(1)] by auto

lemma only_send: "quietExit env \<Longrightarrow> onlyExitBlocks cx s (sendVerifiedExit env k cx q s)"
  by (auto simp: onlyExitBlocks_def sendVerifiedExit_def catchA_def bindA_def quiet split: sum.split option.split)

lemma only_authorize:
  assumes env: "quietExit env"
  shows "onlyExitBlocks cx s (authorizeAndSend env k cx q s)"
proof -
  have "authorizeAndSend env k cx q s = (case xeAuthorize env (vxTradingAccountId cx) of
      Inl e \<Rightarrow> (Inl e, s) | Inr x \<Rightarrow> sendVerifiedExit env (k + 2 + clearedAttentions env cx) cx q s)"
    by (simp add: authorizeAndSend_def Let_def bindA_def quiet env split: sum.split)
  then show ?thesis using only_send[OF env] by (auto simp: onlyExitBlocks_def split: sum.split)
qed

lemma only_verify:
  assumes env: "quietExit env"
  shows "onlyExitBlocks cx s (verifyAndSend env k cx environment s)"
proof -
  have same: "onlyExitBlocks cx s (Inl e, s)" for e by (simp add: onlyExitBlocks_def)
  have verified: "onlyExitBlocks cx s ((case verifyExit cx found orders of Inl r \<Rightarrow> blockExit env (k + 2) cx environment r
      | Inr q \<Rightarrow> authorizeAndSend env (k + 7) cx q) s)" for found orders
    by (cases "verifyExit cx found orders") (simp_all only: sum.case only_authorize[OF env] only_block[OF env plain_verify])
  show ?thesis unfolding verifyAndSend_def Let_def bindA_def quiet_attempt[OF env]
    by (auto simp: same only_block[OF env plain_lookup] verified simp del: add_2_eq_Suc' split: sum.split)
qed

lemma only_execute:
  assumes env: "quietExit env"
  shows "onlyExitBlocks cx s (executeVerifiedExit env k cx s)"
proof -
  have same: "onlyExitBlocks cx s (r, s)" for r :: "entryError + verifiedExitSubmissionResult" by (simp add: onlyExitBlocks_def)
  have looked: "onlyExitBlocks cx s (bindA (attemptA (exitCall env (k + 2) v)) (\<lambda>lookup. case lookup of
        Inl e \<Rightarrow> blockExit env (k + 5) cx environment (lookupRefusal m c e)
      | Inr (Some order) \<Rightarrow> returnA (RECOVERED_BROKER order)
      | Inr None \<Rightarrow> verifyAndSend env (k + 3) cx environment) s)" for v environment m c
    unfolding bindA_def quiet_attempt[OF env]
    by (auto simp: same only_block[OF env plain_lookup] only_verify[OF env] run_simps split: sum.split option.split)
  show ?thesis
  proof (cases "map_of (xdAccounts (xwDb s)) (vxTradingAccountId cx)")
    case None
    then show ?thesis unfolding executeVerifiedExit_def Let_def bindA_def quiet_step[OF env]
      by (simp add: accountEnvironment_def same)
  next
    case (Some environment)
    have start: "exitStep env k (accountEnvironment (vxTradingAccountId cx)) s = (Inr environment, s)"
      using Some by (simp add: quiet_step[OF env] accountEnvironment_def)
    have first: "bindA (exitStep env k (accountEnvironment (vxTradingAccountId cx))) f s = f environment s" for f :: "string \<Rightarrow> 'c exitAction"
      by (simp add: bindA_def start)
    have second: "bindA (exitRead env (k + 1) (localOrder cx)) f s = f (localOrder cx (xwDb s)) s" for f :: "exitOrderRow option \<Rightarrow> 'c exitAction"
      by (simp add: bindA_def quiet_read[OF env])
    show ?thesis unfolding executeVerifiedExit_def Let_def first second
      by (cases "localOrder cx (xwDb s)") (simp_all only: option.case looked, simp add: same run_simps)
  qed
qed

lemma only_submit:
  assumes env: "quietExit env"
  shows "onlyExitBlocks cx s (submitVerifiedExit env k cx s)"
proof -
  have same: "onlyExitBlocks cx s (Inl e, s)" for e by (simp add: onlyExitBlocks_def)
  show ?thesis
    by (auto simp: submitVerifiedExit_def bindA_def quiet env same only_execute)
qed

subsection \<open>A position, a broker and an exit for the witnesses\<close>

definition exampleStore :: exitStore where
  "exampleStore =
     \<lparr>xdAccounts = [(1, ''PAPER'')], xdSubscriptions = [],
      xdAssignments = [\<lparr>xaId = 2, xaTradingAccountId = 1, xaSubscriptionId = 3, xaEnabled = True, xaExitsEnabled = True\<rparr>],
      xdPositions = [\<lparr>xpId = 7, xpSymbol = ''spy'', xpSide = ''long'', xpQty = Fin 10, xpCurrentPrice = Fin 500,
        xpUnrealizedPnLPct = Fin 0, xpStatus = ''open'', xpSecurityId = 4, xpSubscriptionId = Some 3,
        xpTradingAccountId = Some 1, xpAssignmentId = Some 2, xpLastSyncedAt = 0\<rparr>],
      xdExitStates = [], xdIntents = [], xdOrders = [], xdNextStateId = 1, xdNextIntentId = 1, xdNextOrderId = 1\<rparr>"

definition exampleWorld :: exitWorld where
  "exampleWorld = \<lparr>xwDb = exampleStore, xwSent = [], xwCoordinator = reset\<rparr>"

text \<open>A broker that holds the position and loses the answer to the order.\<close>

definition exampleEnv :: exitEnv where
  "exampleEnv =
     \<lparr>xeOthers = (\<lambda>k db. db), xeFault = (\<lambda>k. None), xeNow = (\<lambda>k. int k), xeLookup = (\<lambda>k a c. Inr None),
      xeOrderById = (\<lambda>a b. Inr None),
      xePosition = (\<lambda>a symbol. Inr (Some \<lparr>bqAssetId = ''asset'', bqSymbol = symbol, bqQty = ''10'', bqQtyAvailable = Some ''10'', bqSide = ''long''\<rparr>)),
      xeOpenOrders = (\<lambda>a. Inr []), xePost = (\<lambda>p. Inl (BrokerWriteDeliveryError DELIVERY_UNCERTAIN None ''timeout'')),
      xeEffect = (\<lambda>k. Inr ()), xeAuthorize = (\<lambda>a. Inr ()), xeLock = (\<lambda>a. LockAcquired), xeAttentions = (\<lambda>a i. 0),
      xeAttentionOpen = (\<lambda>f. False), xeNodeEnv = ''test'', xeLiveWriteDeploymentRole = ''NONE''\<rparr>"

definition exampleContext :: verifiedExitContext where
  "exampleContext =
     \<lparr>vxVerificationMode = None, vxTradingAccountId = 1, vxTrackedPositionId = 7, vxOrderIntentId = 1, vxSecurityId = 4,
      vxSymbol = ''spy'', vxLocalTrackedQty = QText ''10.0'', vxIntendedQty = QText ''10'', vxAttributedExitFilledQty = QOther,
      vxClientOrderId = ''exit-1'', vxCorrelationId = None, vxOrder = MarketExit ''day''\<rparr>"

end
