(* ===== verification/ExitSafety.thy ===== *)
theory ExitSafety
  imports ExitRules
begin

text \<open>
  The verification of an exit: exactly which quantities pass it, what may be sent, and what a refusal leaves.
\<close>

subsection \<open>The verification is exact\<close>

text \<open>The number that a quantity denotes, when its text is an exact decimal.\<close>

definition amount :: "quantity \<Rightarrow> rat option" where
  "amount v = map_option decimalValue (parseExactNonNegativeDecimal v)"

definition positiveAmount :: "quantity \<Rightarrow> rat option" where
  "positiveAmount v = (case amount v of Some x \<Rightarrow> if 0 < x then Some x else None | None \<Rightarrow> None)"

lemma coefficient_positive: "0 < xdCoefficient d \<longleftrightarrow> 0 < decimalValue d"
  by (simp add: decimalValue_def zero_less_divide_iff)

lemma positiveAmount_parse: "positiveAmount v = map_option decimalValue (parseExactPositiveDecimal v)"
  by (simp add: positiveAmount_def amount_def parseExactPositiveDecimal_def coefficient_positive split: option.split)

lemma parse_positive: "parseExactPositiveDecimal v = Some d \<Longrightarrow> 0 < decimalValue d"
  by (auto simp: parseExactPositiveDecimal_def coefficient_positive split: option.splits if_splits)

text \<open>
  What an exit may be sent on: the broker holds a long position of the symbol, all of it is available, no other order
  could sell it, and the quantity is the one to be closed: the tracked one, or what the attributed fills have left of it.
\<close>

definition closable :: "verifiedExitContext \<Rightarrow> brokerPosition option \<Rightarrow> brokerSellOrder list \<Rightarrow> bool" where
  "closable cx found openOrders \<longleftrightarrow> (\<exists>position held local'.
     found = Some position \<and> toUpperCase (bqSymbol position) = toUpperCase (vxSymbol cx) \<and> bqSide position = ''long'' \<and>
     filter (isConflict cx) openOrders = [] \<and>
     positiveAmount (QText (bqQty position)) = Some held \<and> amount (optionalText (bqQtyAvailable position)) = Some held \<and>
     positiveAmount (vxIntendedQty cx) = Some held \<and> positiveAmount (vxLocalTrackedQty cx) = Some local' \<and>
     (if corrective cx then positiveAmount (vxAttributedExitFilledQty cx) = Some (local' - held) else local' = held))"

lemma remainder_parsed:
  assumes "subtractDecimal l r = Some t" and "0 < decimalValue i"
  shows "t \<noteq> ''0'' \<and> (case parseExactPositiveDecimal (QText t) of None \<Rightarrow> False | Some d \<Rightarrow> equalDecimal i d) \<longleftrightarrow>
    decimalValue i = decimalValue l - decimalValue r"
proof -
  obtain d where d: "parseExactNonNegativeDecimal (QText t) = Some d" "decimalValue d = decimalValue l - decimalValue r"
    using assms(1) by (rule subtract_text)
  have zero: "parseExactPositiveDecimal (QText ''0'') = None" by code_simp
  have "parseExactPositiveDecimal (QText t) = (if 0 < decimalValue d then Some d else None)"
    unfolding parseExactPositiveDecimal_def d(1) coefficient_positive by simp
  then show ?thesis using zero assms(2) d(2) by (auto simp: equalDecimal_value split: if_splits)
qed

lemma quantityVerified_value:
  assumes "0 < decimalValue held" and "0 < decimalValue intended"
  shows "quantityVerified cx held intended local' \<longleftrightarrow> decimalValue held = decimalValue intended \<and>
    (if corrective cx then positiveAmount (vxAttributedExitFilledQty cx) = Some (decimalValue local' - decimalValue held)
     else decimalValue local' = decimalValue held)"
proof (cases "corrective cx")
  case True
  show ?thesis
  proof (cases "parseExactPositiveDecimal (vxAttributedExitFilledQty cx)")
    case None
    then show ?thesis using True by (simp add: quantityVerified_def expectedRemainder_def positiveAmount_parse)
  next
    case (Some a)
    then have amount: "positiveAmount (vxAttributedExitFilledQty cx) = Some (decimalValue a)" by (simp add: positiveAmount_parse)
    show ?thesis
    proof (cases "subtractDecimal local' a")
      case None
      then have "decimalValue local' < decimalValue a" by (simp add: subtractDecimal_None)
      then show ?thesis using None Some True amount assms
        by (auto simp: quantityVerified_def expectedRemainder_def)
    next
      case (Some t)
      have remainder: "expectedRemainder cx local' = Some t"
        using True Some \<open>parseExactPositiveDecimal (vxAttributedExitFilledQty cx) = Some a\<close> by (simp add: expectedRemainder_def)
      note parsed = remainder_parsed[OF Some assms(2)]
      have "quantityVerified cx held intended local' \<longleftrightarrow>
          decimalValue intended = decimalValue local' - decimalValue a \<and> decimalValue held = decimalValue intended"
        unfolding parsed[symmetric] by (simp add: quantityVerified_def True remainder equalDecimal_value)
      then show ?thesis using True amount by auto
    qed
  qed
next
  case False
  then show ?thesis by (auto simp: quantityVerified_def equalDecimal_value)
qed

lemma verifyQuantities_accepts:
  assumes "0 < decimalValue held" and "0 < decimalValue intended"
  shows "verifyQuantities cx position openOrders held available intended local' = Inr q \<longleftrightarrow>
    q = intended \<and> filter (isConflict cx) openOrders = [] \<and> decimalValue available = decimalValue held \<and>
    decimalValue held = decimalValue intended \<and>
    (if corrective cx then positiveAmount (vxAttributedExitFilledQty cx) = Some (decimalValue local' - decimalValue held)
     else decimalValue local' = decimalValue held)"
proof -
  have "verifyQuantities cx position openOrders held available intended local' = Inr q \<longleftrightarrow>
      q = intended \<and> filter (isConflict cx) openOrders = [] \<and> quantityVerified cx held intended local' \<and>
      \<not> 0 < compareDecimal available held \<and> equalDecimal held available"
    by (auto simp: verifyQuantities_def Let_def split: if_splits)
  then show ?thesis unfolding quantityVerified_value[OF assms] by (auto simp: compareDecimal_value equalDecimal_value)
qed

lemma verifyExit_accepts:
  "verifyExit cx found openOrders = Inr q \<longleftrightarrow>
   closable cx found openOrders \<and> parseExactPositiveDecimal (vxIntendedQty cx) = Some q"
proof (cases found)
  case None
  then show ?thesis by (simp add: verifyExit_def closable_def)
next
  case (Some position)
  show ?thesis
  proof (cases "toUpperCase (bqSymbol position) = toUpperCase (vxSymbol cx) \<and> bqSide position = ''long''")
    case False
    then show ?thesis using Some by (auto simp: verifyExit_def closable_def Let_def)
  next
    case True
    then have identity: "\<not> (toUpperCase (bqSymbol position) \<noteq> toUpperCase (vxSymbol cx) \<or> bqSide position \<noteq> ''long'')" by blast
    let ?held = "parseExactPositiveDecimal (QText (bqQty position))"
    let ?available = "parseExactNonNegativeDecimal (optionalText (bqQtyAvailable position))"
    let ?intended = "parseExactPositiveDecimal (vxIntendedQty cx)"
    let ?local = "parseExactPositiveDecimal (vxLocalTrackedQty cx)"
    show ?thesis
    proof (cases "?held = None \<or> ?available = None \<or> ?intended = None \<or> ?local = None")
      case True
      then have "verifyExit cx found openOrders \<noteq> Inr q"
        unfolding verifyExit_def Some Let_def if_not_P[OF identity] by (simp split: option.split) (elim disjE, simp_all)
      moreover have "\<not> closable cx found openOrders"
        using True unfolding closable_def Some positiveAmount_parse amount_def by auto
      ultimately show ?thesis by blast
    next
      case False
      then obtain held available intended local' where parsed:
        "?held = Some held" "?available = Some available" "?intended = Some intended" "?local = Some local'" by auto
      note positive = parse_positive[OF parsed(1)] parse_positive[OF parsed(3)]
      have run: "verifyExit cx found openOrders = verifyQuantities cx position openOrders held available intended local'"
        unfolding verifyExit_def Some Let_def if_not_P[OF identity] option.case parsed by simp
      have "closable cx found openOrders \<longleftrightarrow> filter (isConflict cx) openOrders = [] \<and>
          decimalValue available = decimalValue held \<and> decimalValue held = decimalValue intended \<and>
          (if corrective cx then positiveAmount (vxAttributedExitFilledQty cx) = Some (decimalValue local' - decimalValue held)
           else decimalValue local' = decimalValue held)"
        using True parsed unfolding closable_def Some by (auto simp: positiveAmount_parse amount_def)
      then show ?thesis unfolding run verifyQuantities_accepts[OF positive] parsed(3) by (simp only: option.inject) blast
    qed
  qed
qed

text \<open>C8: the verification is exact. An exit passes exactly when the broker holds the symbol long, all of the holding is
  available, no other open order could sell it, and the held, the intended and the tracked quantity are the same number (for
  a corrective exit: the tracked quantity less the attributed fills); it then closes the intended quantity.
\<close>
theorem exit_verification_exact:
  "verifyExit cx found openOrders = Inr q \<longleftrightarrow>
   closable cx found openOrders \<and> parseExactPositiveDecimal (vxIntendedQty cx) = Some q"
  by (rule verifyExit_accepts)

subsection \<open>What a submission sends\<close>

text \<open>
  The order that a submission may send: the client's order is not known to the broker, the verification passed on the
  broker's position and open orders, and the write is authorised.
\<close>

definition verifiedPost :: "exitEnv \<Rightarrow> nat \<Rightarrow> verifiedExitContext \<Rightarrow> exitPost \<Rightarrow> bool" where
  "verifiedPost env k cx p \<longleftrightarrow> (\<exists>found openOrders intended.
     xeLookup env (k + 2) (vxTradingAccountId cx) (vxClientOrderId cx) = Inr None \<and>
     xePosition env (vxTradingAccountId cx) (toUpperCase (vxSymbol cx)) = Inr found \<and>
     xeOpenOrders env (vxTradingAccountId cx) = Inr openOrders \<and> closable cx found openOrders \<and>
     xeAuthorize env (vxTradingAccountId cx) = Inr () \<and>
     parseExactPositiveDecimal (vxIntendedQty cx) = Some intended \<and> p = exitPostOf cx intended)"

text \<open>What the result of a submission says of the answer to the order it sent.\<close>

definition answeredBy :: "exitEnv \<Rightarrow> exitPost \<Rightarrow> entryError + verifiedExitSubmissionResult \<Rightarrow> bool" where
  "answeredBy env p r = (case r of
       Inr (RECOVERED_LOCAL b) \<Rightarrow> False
     | Inr (SUBMITTED order) \<Rightarrow> xePost env p = Inr order
     | Inr (RECOVERED_BROKER order) \<Rightarrow> (\<exists>e. xePost env p = Inl e \<and> getBrokerWriteDeliveryClassification e = Some BROKER_REJECTED)
     | Inl e \<Rightarrow> xePost env p = Inl e \<or> getBrokerWriteDeliveryClassification e = Some DELIVERY_UNCERTAIN \<or> e = ProcessDied)"

lemma sendVerifiedExit_sends:
  "sendsAtMost env (\<lambda>p r. p = exitPostOf cx q \<and> answeredBy env p r) (sendVerifiedExit env k cx q)"
proof (rule sendsI)
  fix s r s'
  assume run: "sendVerifiedExit env k cx q s = (r, s')"
  let ?p = "exitPostOf cx q"
  have "xwSent s' = xwSent s @ [(?p, xePost env ?p)] \<and> answeredBy env ?p r"
  proof (cases "xePost env ?p")
    case (Inr order)
    then show ?thesis using run
      by (auto simp: sendVerifiedExit_def catchA_def bindA_def exitSend_def returnA_def answeredBy_def)
  next
    case (Inl e)
    show ?thesis
    proof (cases "e \<noteq> ProcessDied \<and> getBrokerWriteDeliveryClassification e = Some BROKER_REJECTED")
      case True
      then show ?thesis using run Inl
        by (auto simp: sendVerifiedExit_def catchA_def bindA_def exitSend_def exitCall_def throwA_def returnA_def answeredBy_def
            split: sum.splits option.splits if_splits)
    next
      case False
      then show ?thesis using run Inl
        by (auto simp: sendVerifiedExit_def catchA_def bindA_def exitSend_def throwA_def answeredBy_def split: if_splits)
    qed
  qed
  then show "xwSent s' = xwSent s \<or> (\<exists>p. (p = ?p \<and> answeredBy env p r) \<and> xwSent s' = xwSent s @ [(p, xePost env p)])" by blast
qed

lemma authorizeAndSend_sends:
  assumes "xeAuthorize env (vxTradingAccountId cx) = Inr () \<Longrightarrow> verifiedPost env j cx (exitPostOf cx q)"
  shows "sendsAtMost env (\<lambda>p r. verifiedPost env j cx p \<and> answeredBy env p r) (authorizeAndSend env k cx q)"
proof -
  have "sendsAtMost env (\<lambda>p r. verifiedPost env j cx p \<and> answeredBy env p r) (sendVerifiedExit env i cx q)"
    if "xeAuthorize env (vxTradingAccountId cx) = Inr ()" for i
    using sendVerifiedExit_sends[of env cx q i] assms[OF that] unfolding sendsAtMost_def by blast
  then show ?thesis unfolding authorizeAndSend_def Let_def
    by (intro sends_bind sends_call silent) auto
qed

lemma verifyAndSend_sends:
  assumes lookup: "xeLookup env (k + 2) (vxTradingAccountId cx) (vxClientOrderId cx) = Inr None"
  shows "sendsAtMost env (\<lambda>p r. verifiedPost env k cx p \<and> answeredBy env p r) (verifyAndSend env j cx environment)"
    (is "sendsAtMost env ?Q _")
proof -
  have refused: "sendsAtMost env ?Q (blockExit env i cx environment r)" for i environment r
    by (intro sends_silent silent)
  have verified: "sendsAtMost env ?Q
      (case verifyExit cx found orders of Inl r \<Rightarrow> blockExit env (j + 2) cx environment r | Inr q \<Rightarrow> authorizeAndSend env (j + 7) cx q)"
    if position: "xePosition env (vxTradingAccountId cx) (toUpperCase (vxSymbol cx)) = Inr found"
      and orders: "xeOpenOrders env (vxTradingAccountId cx) = Inr orders" for found orders
  proof (cases "verifyExit cx found orders")
    case (Inl r)
    then show ?thesis by (simp add: refused)
  next
    case (Inr q)
    then have "closable cx found orders" "parseExactPositiveDecimal (vxIntendedQty cx) = Some q"
      by (simp_all only: verifyExit_accepts)
    then have "verifiedPost env k cx (exitPostOf cx q)" if "xeAuthorize env (vxTradingAccountId cx) = Inr ()"
      unfolding verifiedPost_def using that lookup position orders by blast
    then show ?thesis using authorizeAndSend_sends[of env cx k q "j + 7"] Inr by simp
  qed
  have listed: "sendsAtMost env ?Q (bindA (attemptA (exitCall env (j + 1) (xeOpenOrders env (vxTradingAccountId cx)))) (\<lambda>openOrders.
        case openOrders of
          Inl e \<Rightarrow> blockExit env (j + 2) cx environment (f e)
        | Inr orders \<Rightarrow>
          (case verifyExit cx found orders of
             Inl r \<Rightarrow> blockExit env (j + 2) cx environment r
           | Inr intended \<Rightarrow> authorizeAndSend env (j + 7) cx intended)))"
    if "xePosition env (vxTradingAccountId cx) (toUpperCase (vxSymbol cx)) = Inr found" for found f
    by (rule sends_attempt, cases "xeOpenOrders env (vxTradingAccountId cx)") (simp_all only: sum.case refused verified[OF that])
  show ?thesis unfolding verifyAndSend_def Let_def
    by (rule sends_attempt, cases "xePosition env (vxTradingAccountId cx) (toUpperCase (vxSymbol cx))")
      (simp_all only: sum.case refused listed)
qed

lemma executeVerifiedExit_sends:
  "sendsAtMost env (\<lambda>p r. verifiedPost env k cx p \<and> answeredBy env p r) (executeVerifiedExit env k cx)"
  (is "sendsAtMost env ?Q _")
proof -
  have refused: "sendsAtMost env ?Q (blockExit env i cx environment r)" for i environment r
    by (intro sends_silent silent)
  have known: "sendsAtMost env ?Q (returnA r)" for r by (intro sends_silent silent)
  have looked: "sendsAtMost env ?Q (bindA (attemptA (exitCall env (k + 2) (xeLookup env (k + 2) (vxTradingAccountId cx) (vxClientOrderId cx)))) (\<lambda>lookup.
        case lookup of
          Inl e \<Rightarrow> blockExit env (k + 5) cx environment (f e)
        | Inr (Some order) \<Rightarrow> returnA (RECOVERED_BROKER order)
        | Inr None \<Rightarrow> verifyAndSend env (k + 3) cx environment))" for f environment
  proof (rule sends_attempt, cases "xeLookup env (k + 2) (vxTradingAccountId cx) (vxClientOrderId cx)")
    case (Inr found)
    then show "sendsAtMost env ?Q (case xeLookup env (k + 2) (vxTradingAccountId cx) (vxClientOrderId cx) of
        Inl e \<Rightarrow> blockExit env (k + 5) cx environment (f e)
      | Inr (Some order) \<Rightarrow> returnA (RECOVERED_BROKER order)
      | Inr None \<Rightarrow> verifyAndSend env (k + 3) cx environment)"
      by (cases found) (simp_all only: sum.case option.case known verifyAndSend_sends)
  qed (simp only: sum.case refused)
  show ?thesis unfolding executeVerifiedExit_def Let_def
  proof (intro sends_bind silent)
    fix environment existing
    show "sendsAtMost env ?Q (case existing of Some b \<Rightarrow> returnA (RECOVERED_LOCAL (xoId b)) | None \<Rightarrow>
        bindA (attemptA (exitCall env (k + 2) (xeLookup env (k + 2) (vxTradingAccountId cx) (vxClientOrderId cx)))) (\<lambda>lookup.
        case lookup of
          Inl e \<Rightarrow> blockExit env (k + 5) cx environment
            (lookupRefusal (toUpperCase (vxSymbol cx) @ '' deterministic exit recovery could not be verified.'')
              ''CLIENT_ORDER_ID_LOOKUP_FAILED'' e)
        | Inr (Some order) \<Rightarrow> returnA (RECOVERED_BROKER order)
        | Inr None \<Rightarrow> verifyAndSend env (k + 3) cx environment))"
      by (cases existing) (simp_all only: option.case known looked)
  qed
qed

text \<open>C5: an exit is sent only when it is verified. A submission sends nothing, or one order: an order that the
  broker does not know, after a complete verification, for the symbol, the side and exactly the quantity that the broker holds; the
  result says how that order was answered.
\<close>
theorem verified_exit_sent:
  assumes "executeVerifiedExit env k cx s = (r, s')"
  shows "xwSent s' = xwSent s \<or>
    (\<exists>p position held. verifiedPost env k cx p \<and> answeredBy env p r \<and> xwSent s' = xwSent s @ [(p, xePost env p)] \<and>
       xePosition env (vxTradingAccountId cx) (toUpperCase (vxSymbol cx)) = Inr (Some position) \<and> bqSide position = ''long'' \<and>
       xqSide (xtPayload p) = ''sell'' \<and> xqSymbol (xtPayload p) = toUpperCase (bqSymbol position) \<and>
       positiveAmount (QText (bqQty position)) = Some held \<and> positiveAmount (QText (xqQty (xtPayload p))) = Some held)"
proof -
  have canonical: "positiveAmount (QText (xdCanonical q)) = positiveAmount v" if "parseExactPositiveDecimal v = Some q" for q v
  proof -
    have "parseExactNonNegativeDecimal v = Some q" "0 < decimalValue q"
      using that parse_positive[OF that] by (auto simp: parseExactPositiveDecimal_def split: option.splits if_splits)
    then show ?thesis using normal_reparse[of q] parse_normal[of v q] by (simp add: positiveAmount_def amount_def)
  qed
  show ?thesis
  proof (cases "xwSent s' = xwSent s")
    case False
    then obtain p where p: "verifiedPost env k cx p" "answeredBy env p r" "xwSent s' = xwSent s @ [(p, xePost env p)]"
      using sendsD[OF executeVerifiedExit_sends assms] by blast
    then obtain position q where "xePosition env (vxTradingAccountId cx) (toUpperCase (vxSymbol cx)) = Inr (Some position)"
        "bqSide position = ''long''" "toUpperCase (bqSymbol position) = toUpperCase (vxSymbol cx)"
        "positiveAmount (QText (bqQty position)) = positiveAmount (vxIntendedQty cx)" "positiveAmount (vxIntendedQty cx) \<noteq> None"
        "parseExactPositiveDecimal (vxIntendedQty cx) = Some q" "p = exitPostOf cx q"
      unfolding verifiedPost_def closable_def by (metis option.distinct(1))
    then show ?thesis using p canonical[of "vxIntendedQty cx" q]
      by (auto simp: exitPostOf_def exitPayloadOf_def)
  qed simp
qed

lemma example_quiet: "quietExit exampleEnv"
  by (simp add: quietExit_def exampleEnv_def)

lemma example_verified:
  "verifyExit exampleContext (Some \<lparr>bqAssetId = ''asset'', bqSymbol = ''SPY'', bqQty = ''10'', bqQtyAvailable = Some ''10'', bqSide = ''long''\<rparr>) [] =
   Inr \<lparr>xdCoefficient = 10, xdScale = 0, xdCanonical = ''10''\<rparr>"
  by code_simp

lemma example_answers:
  "xeLookup exampleEnv k a c = Inr None" "xeOpenOrders exampleEnv a = Inr []" "xeAuthorize exampleEnv a = Inr ()"
  "xePosition exampleEnv a ''SPY'' =
     Inr (Some \<lparr>bqAssetId = ''asset'', bqSymbol = ''SPY'', bqQty = ''10'', bqQtyAvailable = Some ''10'', bqSide = ''long''\<rparr>)"
  "xePost exampleEnv p = Inl (BrokerWriteDeliveryError DELIVERY_UNCERTAIN None ''timeout'')"
  by (simp_all add: exampleEnv_def)

lemma example_context:
  "vxTradingAccountId exampleContext = 1" "toUpperCase (vxSymbol exampleContext) = ''SPY''"
  by (simp add: exampleContext_def) code_simp

lemma example_sent:
  "executeVerifiedExit exampleEnv 0 exampleContext exampleWorld =
     (Inl (BrokerWriteDeliveryError DELIVERY_UNCERTAIN None ''timeout''), exampleWorld\<lparr>xwSent :=
        [(exitPostOf exampleContext \<lparr>xdCoefficient = 10, xdScale = 0, xdCanonical = ''10''\<rparr>,
          Inl (BrokerWriteDeliveryError DELIVERY_UNCERTAIN None ''timeout''))]\<rparr>)"
proof -
  have tables: "accountEnvironment 1 (xwDb exampleWorld) = Inr (''PAPER'', xwDb exampleWorld)" "localOrder exampleContext (xwDb exampleWorld) = None"
    "xwSent exampleWorld = []"
    by (simp_all add: exampleWorld_def exampleStore_def accountEnvironment_def localOrder_def)
  have sent: "authorizeAndSend exampleEnv k exampleContext q exampleWorld = (Inl (BrokerWriteDeliveryError DELIVERY_UNCERTAIN None ''timeout''),
      exampleWorld\<lparr>xwSent := [(exitPostOf exampleContext q, Inl (BrokerWriteDeliveryError DELIVERY_UNCERTAIN None ''timeout''))]\<rparr>)" for k q
    by (simp add: authorizeAndSend_def sendVerifiedExit_def Let_def bindA_def catchA_def quiet example_quiet example_answers tables)
  have verified: "verifyAndSend exampleEnv k exampleContext environment exampleWorld = (Inl (BrokerWriteDeliveryError DELIVERY_UNCERTAIN None ''timeout''),
      exampleWorld\<lparr>xwSent := [(exitPostOf exampleContext \<lparr>xdCoefficient = 10, xdScale = 0, xdCanonical = ''10''\<rparr>,
        Inl (BrokerWriteDeliveryError DELIVERY_UNCERTAIN None ''timeout''))]\<rparr>)" for k environment
    unfolding verifyAndSend_def Let_def
    by (simp add: bindA_def quiet_attempt[OF example_quiet] example_answers example_context example_verified sent)
  show ?thesis unfolding executeVerifiedExit_def Let_def
    by (simp add: bindA_def quiet example_quiet example_answers example_context tables verified)
qed

theorem verified_exit_sent_witness:
  "\<exists>p held. xwSent (snd (executeVerifiedExit exampleEnv 0 exampleContext exampleWorld)) = [(p, xePost exampleEnv p)] \<and>
     xqSide (xtPayload p) = ''sell'' \<and> positiveAmount (QText (xqQty (xtPayload p))) = Some held \<and>
     positiveAmount (QText ''10'') = Some held"
  using verified_exit_sent[OF example_sent] example_sent
  by (auto simp: example_answers example_context exampleWorld_def)

end
