(* ===== verification/CloseSafety.thy ===== *)
theory CloseSafety
  imports ExitSafety
begin

text \<open>
  The close of a position over any number of runs: at most one sell order stands, and the claim is held for as long as it may.
\<close>

subsection \<open>The claim\<close>

definition notOpen :: "int \<Rightarrow> exitStore \<Rightarrow> bool" where
  "notOpen i db \<longleftrightarrow> (\<forall>p. positionOf i db = Some p \<longrightarrow> xpStatus p \<noteq> ''open'')"

lemma find_map: "(\<And>x. P (g x) = P x) \<Longrightarrow> List.find P (map g xs) = map_option g (List.find P xs)"
  by (induction xs) auto

lemma positionOf_update:
  "(\<And>q. xpId (f q) = xpId q) \<Longrightarrow>
   positionOf i (snd (updatePositions P f db)) = map_option (\<lambda>q. if P q then f q else q) (positionOf i db)"
  by (simp add: positionOf_def updatePositions_def find_map)

lemma positionOf_intents [simp]: "positionOf i (snd (updateExitIntents P f now db)) = positionOf i db"
  by (simp add: positionOf_def updateExitIntents_def)

lemma positionOf_createIntent [simp]: "positionOf i (snd (createExitIntent n now db)) = positionOf i db"
  by (simp add: positionOf_def createExitIntent_def Let_def)

lemma positionOf_saveOrder: "saveOrder existing b db = Inr (x, db') \<Longrightarrow> positionOf i db' = positionOf i db"
  by (auto simp: saveOrder_def positionOf_def split: if_splits option.splits)

lemma positionOf_id: "positionOf i db = Some p \<Longrightarrow> xpId p = i"
  by (auto simp: positionOf_def find_Some_iff)

text \<open>A claim takes an open position and leaves it closing, with a new sell intent.\<close>

lemma claimClose_claims:
  assumes "claimClose i mode now db = Inr ((p, account, intent), db')"
  shows "positionOf i db = Some p \<and> xpStatus p = ''open'' \<and> xpTradingAccountId p = Some account \<and>
    positionOf i db' = Some (p\<lparr>xpStatus := ''closing'', xpLastSyncedAt := now\<rparr>)"
proof -
  obtain a n db1 where found: "positionOf i db = Some p" and account: "xpTradingAccountId p = Some account"
    and openp: "xpStatus p = ''open''"
    and closing: "updatePositions (\<lambda>q. xpId q = xpId p \<and> xpStatus q = ''open'')
      (\<lambda>q. q\<lparr>xpStatus := ''closing'', xpLastSyncedAt := now\<rparr>) db = (n, db1)"
    and created: "createExitIntent (closeIntent mode account a p) now db1 = (intent, db')"
    using assms by (auto simp: claimClose_def Let_def split: option.splits if_splits prod.splits)
  have "positionOf i db' = positionOf i db1" using positionOf_createIntent[of i "closeIntent mode account a p" now db1] created by simp
  also have "\<dots> = Some (p\<lparr>xpStatus := ''closing'', xpLastSyncedAt := now\<rparr>)"
    using positionOf_update[of "\<lambda>q. q\<lparr>xpStatus := ''closing'', xpLastSyncedAt := now\<rparr>" i
        "\<lambda>q. xpId q = xpId p \<and> xpStatus q = ''open''" db] closing found openp by simp
  finally show ?thesis using found account openp by simp
qed

lemma notOpen_no_claim: "notOpen i db \<Longrightarrow> \<exists>e. claimClose i mode now db = Inl e"
proof (cases "claimClose i mode now db")
  case (Inr x)
  obtain p account intent db' where "x = ((p, account, intent), db')" by (metis prod_cases4 prod.collapse)
  then have "positionOf i db = Some p \<and> xpStatus p = ''open''" using claimClose_claims Inr by metis
  then show "notOpen i db \<Longrightarrow> ?thesis" by (simp add: notOpen_def)
qed simp

subsection \<open>What the submission keeps\<close>

lemma submitVerifiedExit_keeps:
  assumes others: "othersKeep env P" and intents: "\<And>Q f now db. P db \<Longrightarrow> P (snd (updateExitIntents Q f now db))"
  shows "keepsA P (submitVerifiedExit env k cx)"
proof -
  note calls = keeping keeps_call[OF others] keeps_effect[OF others] keeps_read[OF others] keeps_send[OF others] keeps_resolve[OF others]
  have written: "keepsA P (exitStep env j (\<lambda>db. Inr (updateExitIntents Q f now db)))" for j Q f now
    by (rule keeps_step[OF others]) (metis intents sum.inject(2) snd_conv)
  have blocked: "keepsA P (blockExit env j cx environment r)" for j environment r
    unfolding blockExit_def Let_def by (intro calls written)
  have sent: "keepsA P (sendVerifiedExit env j cx q)" for j q
    unfolding sendVerifiedExit_def by (intro calls) (auto intro!: calls split: option.split)
  have authorized: "keepsA P (authorizeAndSend env j cx q)" for j q
    unfolding authorizeAndSend_def Let_def by (intro calls sent)
  have verified: "keepsA P (verifyAndSend env j cx environment)" for j environment
    unfolding verifyAndSend_def Let_def by (intro calls) (auto intro!: calls blocked authorized split: sum.split)
  have environment: "keepsA P (exitStep env j (accountEnvironment a))" for j a
    by (rule keeps_step[OF others]) (auto simp: accountEnvironment_def split: option.splits)
  show ?thesis unfolding submitVerifiedExit_def executeVerifiedExit_def Let_def
    by (intro calls environment) (auto intro!: calls blocked verified split: sum.split option.split)
qed

lemma notOpen_intents: "notOpen i db \<Longrightarrow> notOpen i (snd (updateExitIntents Q f now db))"
  by (simp add: notOpen_def)

lemma submitVerifiedExit_sends:
  "sendsAtMost env (\<lambda>p r. verifiedPost env (k + 1) cx p \<and> answeredBy env p r) (submitVerifiedExit env k cx)"
  unfolding submitVerifiedExit_def
  by (intro sends_bind silent) (auto intro: executeVerifiedExit_sends sends_silent silent)

text \<open>The order that a submission of a close sent, when the submission failed with \<open>e\<close>.\<close>

definition failedOn :: "exitEnv \<Rightarrow> exitPost \<Rightarrow> entryError \<Rightarrow> bool" where
  "failedOn env p e \<longleftrightarrow>
     xePost env p = Inl e \<or> getBrokerWriteDeliveryClassification e = Some DELIVERY_UNCERTAIN \<or> e = ProcessDied"

lemma submitClose_sends:
  "sendsAtMost env (\<lambda>p r. verifiedPost env (k + 1) cx p \<and> (case r of Inl e \<Rightarrow> failedOn env p e | Inr x \<Rightarrow> True)) (submitClose env k cx intent)"
proof (rule sendsI)
  fix s r s'
  assume "submitClose env k cx intent s = (r, s')"
  then show "xwSent s' = xwSent s \<or> (\<exists>p. (verifiedPost env (k + 1) cx p \<and> (case r of Inl e \<Rightarrow> failedOn env p e | Inr x \<Rightarrow> True)) \<and>
      xwSent s' = xwSent s @ [(p, xePost env p)])"
    unfolding submitClose_def
  proof (cases rule: bindA_cases)
    case (error e)
    then show ?thesis using sendsD[OF submitVerifiedExit_sends error(1)] by (auto simp: answeredBy_def failedOn_def)
  next
    case (continue x s1)
    have sent: "xwSent s1 = xwSent s \<or> (\<exists>p. verifiedPost env (k + 1) cx p \<and> answeredBy env p (Inr x) \<and> xwSent s1 = xwSent s @ [(p, xePost env p)])"
      using sendsD[OF submitVerifiedExit_sends continue(1)] by auto
    show ?thesis
    proof (cases x)
      case (RECOVERED_LOCAL b)
      have "silentA (bindA (exitStep env j f) (\<lambda>_. returnA y))" for j f and y :: "int + brokerSellOrder" by (intro silent)
      then have "xwSent s' = xwSent s1" using continue(2) RECOVERED_LOCAL by (auto dest: silentD)
      then show ?thesis using sent RECOVERED_LOCAL by (auto simp: answeredBy_def)
    qed (use continue(2) sent in \<open>auto simp: returnA_def\<close>)
  qed
qed

lemma submitClose_keeps:
  assumes others: "othersKeep env P" and intents: "\<And>Q f now db. P db \<Longrightarrow> P (snd (updateExitIntents Q f now db))"
  shows "keepsA P (submitClose env k cx intent)"
proof -
  have written: "keepsA P (exitStep env j (\<lambda>db. Inr (updateExitIntents Q f now db)))" for j Q f now
    by (rule keeps_step[OF others]) (metis intents sum.inject(2) snd_conv)
  show ?thesis unfolding submitClose_def
    by (intro keeping submitVerifiedExit_keeps others intents) (auto intro!: keeping written split: verifiedExitSubmissionResult.split)
qed

subsection \<open>The rest of a close\<close>

lemma silent_closeFailed: "silentA (closeFailed env k p intent e)"
  unfolding closeFailed_def Let_def by (intro silent)

lemma silent_closeDone: "silentA (closeDone env k p account intent order)"
proof -
  have "silentA (\<lambda>s. (Inr (), s\<lparr>xwCoordinator := f s\<rparr>))" for f by (simp add: silentA_def)
  then show ?thesis unfolding closeDone_def by (intro silent)
qed

lemma closeFailed_keeps:
  assumes others: "othersKeep env (notOpen i)" and standing: "\<not> isExitVerificationBlock e" "getDeliveryClassification e = DELIVERY_UNCERTAIN"
  shows "keepsA (notOpen i) (closeFailed env k p intent e)"
proof -
  have written: "keepsA (notOpen i) (exitStep env j (\<lambda>db. Inr (updateExitIntents Q f now db)))" for j Q f now
    by (rule keeps_step[OF others]) (metis notOpen_intents sum.inject(2) snd_conv)
  show ?thesis unfolding closeFailed_def Let_def using standing
    by simp (intro keeping written keeps_effect others)
qed

lemma closeDone_keeps:
  assumes others: "othersKeep env (notOpen i)"
  shows "keepsA (notOpen i) (closeDone env k p account intent order)"
proof -
  have saved: "notOpen i db'" if "notOpen i db" and "persistClose p account intent order now db = Inr (x, db')" for db x db' now
    using that positionOf_saveOrder[of _ _ db] by (auto simp: persistClose_def Let_def bindR_Inr_iff notOpen_def)
  have persisted: "keepsA (notOpen i) (exitStep env j (persistClose p account intent order now))" for j now
    by (rule keeps_step[OF others]) (rule saved)
  have "keepsA (notOpen i) (\<lambda>s. (Inr (), s\<lparr>xwCoordinator := f s\<rparr>))" for f by (simp add: keepsA_iff)
  then show ?thesis unfolding closeDone_def by (intro keeping persisted keeps_effect others)
qed

subsection \<open>At most one standing close\<close>

text \<open>An order stands unless its answer says that the broker has none: the code's own classification.\<close>

definition stands :: "exitPost \<times> (entryError + brokerSellOrder) \<Rightarrow> bool" where
  "stands sent = (case snd sent of Inr order \<Rightarrow> True | Inl e \<Rightarrow> getDeliveryClassification e = DELIVERY_UNCERTAIN)"

text \<open>The broker adapter never throws the error of the verification.\<close>

definition plainAnswers :: "exitEnv \<Rightarrow> bool" where
  "plainAnswers env \<longleftrightarrow> (\<forall>p e. xePost env p = Inl e \<longrightarrow> \<not> isExitVerificationBlock e)"

fun closeRuns :: "int \<Rightarrow> (exitEnv \<times> nat \<times> closePositionMode) list \<Rightarrow> exitWorld \<Rightarrow> exitWorld" where
  "closeRuns i [] s = s"
| "closeRuns i ((env, k, mode) # runs) s = closeRuns i runs (snd (closePosition env k i mode s))"

lemma step_result: "exitStep env k f s = (Inr x, s') \<Longrightarrow> f (xeOthers env k (xwDb s)) = Inr (x, xwDb s')"
  by (auto simp: exitStep_def Let_def split: sum.splits prod.splits option.splits fault.splits)

lemma step_refused: "f (xeOthers env k (xwDb s)) = Inl e \<Longrightarrow>
    \<exists>e'. exitStep env k f s = (Inl e', s\<lparr>xwDb := xeOthers env k (xwDb s)\<rparr>)"
  by (auto simp: exitStep_def Let_def split: option.split fault.split)

lemma uncertain_classification:
  "getBrokerWriteDeliveryClassification e = Some DELIVERY_UNCERTAIN \<Longrightarrow>
   getDeliveryClassification e = DELIVERY_UNCERTAIN \<and> \<not> isExitVerificationBlock e"
  by (cases e) (auto simp: getDeliveryClassification_def)

lemma held_closed:
  assumes others: "othersKeep env (notOpen i)" and shut: "notOpen i (xwDb s)"
  shows "xwSent (snd (closePosition env k i mode s)) = xwSent s \<and> notOpen i (xwDb (snd (closePosition env k i mode s)))"
proof -
  have still: "notOpen i (xeOthers env k (xwDb s))" using others shut by (simp add: othersKeep_def)
  then obtain e where "claimClose i mode (xeNow env k) (xeOthers env k (xwDb s)) = Inl e" using notOpen_no_claim by blast
  then obtain e' where "exitStep env k (claimClose i mode (xeNow env k)) s = (Inl e', s\<lparr>xwDb := xeOthers env k (xwDb s)\<rparr>)"
    using step_refused by blast
  then show ?thesis using still by (simp add: closePosition_def bindA_def)
qed

lemma submitted_close:
  assumes others: "othersKeep env (notOpen i)" and plain: "plainAnswers env" and shut: "notOpen i (xwDb s)"
    and run: "catchA (submitClose env k cx intent) (closeFailed env j p intent) s = (r, s')"
  shows "(xwSent s' = xwSent s \<or> (\<exists>q. xwSent s' = xwSent s @ [(q, xePost env q)] \<and> (stands (q, xePost env q) \<longrightarrow> notOpen i (xwDb s')))) \<and>
    (\<forall>x. r = Inr x \<longrightarrow> notOpen i (xwDb s'))"
  using run
proof (cases rule: catchA_cases)
  case passed
  show ?thesis
    using sendsD[OF submitClose_sends passed] exitKeepsD[OF submitClose_keeps[OF others notOpen_intents] shut passed] by auto
next
  case (handled e s1)
  have shut1: "notOpen i (xwDb s1)" by (rule exitKeepsD[OF submitClose_keeps[OF others notOpen_intents] shut handled(1)])
  have same: "xwSent s' = xwSent s1" by (rule silentD[OF silent_closeFailed handled(3)])
  have failed: "\<nexists>x. r = Inr x"
    using handled(3) by (auto simp: closeFailed_def Let_def bindA_def throwA_def split: prod.splits sum.splits if_splits)
  have sent: "xwSent s1 = xwSent s \<or> (\<exists>q. failedOn env q e \<and> xwSent s1 = xwSent s @ [(q, xePost env q)])"
    using sendsD[OF submitClose_sends handled(1)] by auto
  show ?thesis
  proof (cases "\<not> isExitVerificationBlock e \<and> getDeliveryClassification e = DELIVERY_UNCERTAIN")
    case True
    then have "notOpen i (xwDb s')" using exitKeepsD[OF closeFailed_keeps[OF others] shut1 handled(3)] by blast
    then show ?thesis using sent same failed by auto
  next
    case False
    have "\<not> stands (q, xePost env q)" if "failedOn env q e" for q
    proof -
      have answer: "xePost env q = Inl e"
        using that False uncertain_classification handled(2) by (auto simp: failedOn_def)
      then have "\<not> isExitVerificationBlock e" using plain by (simp add: plainAnswers_def)
      then show ?thesis using False answer by (simp add: stands_def)
    qed
    then show ?thesis using sent same failed by auto
  qed
qed

lemma close_run:
  assumes others: "othersKeep env (notOpen i)" and plain: "plainAnswers env"
    and run: "closePosition env k i mode s = (r, s')"
  shows "xwSent s' = xwSent s \<or>
    (\<exists>q. xwSent s' = xwSent s @ [(q, xePost env q)] \<and> (stands (q, xePost env q) \<longrightarrow> notOpen i (xwDb s')))"
  using run unfolding closePosition_def
proof (cases rule: bindA_cases)
  case (error e)
  have "silentA (exitStep env k (claimClose i mode (xeNow env k)))" by (intro silent)
  then show ?thesis using error by (auto dest: silentD)
next
  case (continue x s1)
  obtain p account intent where x: "x = (p, account, intent)" by (cases x) auto
  have same: "xwSent s1 = xwSent s"
  proof -
    have "silentA (exitStep env k (claimClose i mode (xeNow env k)))" by (intro silent)
    then show ?thesis using continue(1) by (rule silentD)
  qed
  have "claimClose i mode (xeNow env k) (xeOthers env k (xwDb s)) = Inr ((p, account, intent), xwDb s1)"
    using step_result[OF continue(1)] x by simp
  then have shut: "notOpen i (xwDb s1)" using claimClose_claims by (fastforce simp: notOpen_def)
  show ?thesis
    using continue(2) unfolding x Let_def case_prod_conv
  proof (cases rule: bindA_cases)
    case (error e)
    show ?thesis using submitted_close[OF others plain shut error(1)] error same by auto
  next
    case (continue y s2)
    note submitted = submitted_close[OF others plain shut continue(1)]
    have "xwSent s' = xwSent s2 \<and> (notOpen i (xwDb s2) \<longrightarrow> notOpen i (xwDb s'))"
    proof (cases y)
      case (Inl b)
      then show ?thesis using continue(2) by (simp add: returnA_def)
    next
      case (Inr order)
      have done': "closeDone env (afterExit env (k + 1) (closeContext mode p account intent) + 3) p account intent order s2 = (r, s')"
        using continue(2) unfolding Inr sum.case .
      show ?thesis using silentD[OF silent_closeDone done'] exitKeepsD[OF closeDone_keeps[OF others] _ done'] by blast
    qed
    then show ?thesis using submitted same by auto
  qed
qed

lemma close_runs:
  assumes "\<And>env k mode. (env, k, mode) \<in> set runs \<Longrightarrow> othersKeep env (notOpen i) \<and> plainAnswers env"
  shows "\<exists>new. xwSent (closeRuns i runs s) = xwSent s @ new \<and> length (filter stands new) \<le> 1 \<and>
    (notOpen i (xwDb s) \<longrightarrow> new = []) \<and> (filter stands new = [] \<or> notOpen i (xwDb (closeRuns i runs s))) \<and>
    (notOpen i (xwDb s) \<longrightarrow> notOpen i (xwDb (closeRuns i runs s)))"
  using assms
proof (induction runs arbitrary: s)
  case (Cons run runs)
  obtain env k mode where run: "run = (env, k, mode)" by (cases run) auto
  have others: "othersKeep env (notOpen i)" and plain: "plainAnswers env" using Cons.prems run by auto
  obtain r s1 where s1: "closePosition env k i mode s = (r, s1)" by (cases "closePosition env k i mode s") auto
  obtain new where IH: "xwSent (closeRuns i runs s1) = xwSent s1 @ new" "length (filter stands new) \<le> 1"
      "notOpen i (xwDb s1) \<longrightarrow> new = []" "filter stands new = [] \<or> notOpen i (xwDb (closeRuns i runs s1))"
      "notOpen i (xwDb s1) \<longrightarrow> notOpen i (xwDb (closeRuns i runs s1))"
    using Cons.IH[of s1] Cons.prems by auto
  have first: "xwSent s1 = xwSent s \<or> (\<exists>q. xwSent s1 = xwSent s @ [(q, xePost env q)] \<and> (stands (q, xePost env q) \<longrightarrow> notOpen i (xwDb s1)))"
    by (rule close_run[OF others plain s1])
  have shut: "notOpen i (xwDb s) \<longrightarrow> xwSent s1 = xwSent s \<and> notOpen i (xwDb s1)"
    using held_closed[OF others, of s k mode] s1 by auto
  have step: "closeRuns i (run # runs) s = closeRuns i runs s1" by (simp add: run s1)
  show ?case
  proof (cases "xwSent s1 = xwSent s")
    case True
    then show ?thesis unfolding step using IH shut by (intro exI[of _ new]) auto
  next
    case False
    then obtain q where q: "xwSent s1 = xwSent s @ [(q, xePost env q)]" "stands (q, xePost env q) \<longrightarrow> notOpen i (xwDb s1)"
      using first by blast
    show ?thesis unfolding step
      by (rule exI[of _ "(q, xePost env q) # new"]) (use IH q shut in \<open>auto split: if_splits\<close>)
  qed
qed simp

text \<open>C6: at most one close of a position stands. Over any sequence of runs, each with its own faults, answers and
  interleaved transactions, as long as those do not open the position again, at most one sell order that the
  broker may hold is added; while it stands the position is not open, and once the position is not open nothing more is sent.
\<close>
theorem one_standing_close:
  assumes "\<And>env k mode. (env, k, mode) \<in> set runs \<Longrightarrow> othersKeep env (notOpen i) \<and> plainAnswers env"
  shows "\<exists>new. xwSent (closeRuns i runs s) = xwSent s @ new \<and> length (filter stands new) \<le> 1 \<and>
    (notOpen i (xwDb s) \<longrightarrow> new = []) \<and> (filter stands new = [] \<or> notOpen i (xwDb (closeRuns i runs s)))"
  using close_runs[where runs = runs and i = i and s = s] assms by blast

theorem one_standing_close_witness:
  "\<exists>new. xwSent (closeRuns 7 [(exampleEnv, 0, AUTOMATED_STRATEGY), (exampleEnv, 60, MANUAL_EMERGENCY_CLOSE)] exampleWorld) =
     xwSent exampleWorld @ new \<and> length (filter stands new) \<le> 1"
proof -
  have "othersKeep exampleEnv (notOpen 7)" "plainAnswers exampleEnv"
    by (simp_all add: othersKeep_def plainAnswers_def exampleEnv_def)
  then show ?thesis
    using one_standing_close[of "[(exampleEnv, 0, AUTOMATED_STRATEGY), (exampleEnv, 60, MANUAL_EMERGENCY_CLOSE)]" 7 exampleWorld]
    by auto
qed

subsection \<open>What a failed close leaves\<close>

definition intentOf :: "int \<Rightarrow> exitStore \<Rightarrow> exitIntent option" where
  "intentOf j db = List.find (\<lambda>n. xiId n = j) (xdIntents db)"

lemma intentOf_update:
  "(\<And>n. xiId (f n) = xiId n) \<Longrightarrow> intentOf j (snd (updateExitIntents P f now db)) =
     map_option (\<lambda>n. if P n then (f n)\<lparr>xiUpdatedAt := now\<rparr> else n) (intentOf j db)"
  unfolding intentOf_def updateExitIntents_def by (simp add: find_map)

lemma intentOf_positions [simp]: "intentOf j (snd (updatePositions P f db)) = intentOf j db"
  by (simp add: intentOf_def updatePositions_def)

lemma intentOf_saveOrder: "saveOrder existing b db = Inr (x, db') \<Longrightarrow> intentOf j db' = intentOf j db"
  by (auto simp: saveOrder_def intentOf_def split: if_splits option.splits)

lemma find_new: "\<forall>y\<in>set xs. \<not> P y \<Longrightarrow> List.find P (xs @ [x]) = (if P x then Some x else None)"
  by (induction xs) auto

lemma createExitIntent_new:
  assumes "createExitIntent n now db = (n', db')" and "xdNextIntentId db \<notin> xiId ` set (xdIntents db)"
  shows "intentOf (xiId n') db' = Some n' \<and> xiStatus n' = xiStatus n"
proof -
  have "\<forall>y\<in>set (xdIntents db). xiId y \<noteq> xdNextIntentId db" using assms(2) by (metis image_eqI)
  then show ?thesis using assms(1) by (auto simp: createExitIntent_def Let_def intentOf_def find_new)
qed

lemma claimClose_intent:
  assumes "claimClose i mode now db = Inr ((p, account, intent), db')" and "xdNextIntentId db \<notin> xiId ` set (xdIntents db)"
  shows "intentOf (xiId intent) db' = Some intent \<and> xiStatus intent = ''submitting''"
proof -
  obtain a n db1 where
    closing: "updatePositions (\<lambda>q. xpId q = xpId p \<and> xpStatus q = ''open'')
      (\<lambda>q. q\<lparr>xpStatus := ''closing'', xpLastSyncedAt := now\<rparr>) db = (n, db1)"
    and created: "createExitIntent (closeIntent mode account a p) now db1 = (intent, db')"
    using assms(1) by (auto simp: claimClose_def Let_def split: option.splits if_splits prod.splits)
  have db1: "xdIntents db1 = xdIntents db" "xdNextIntentId db1 = xdNextIntentId db"
    using closing by (auto simp: updatePositions_def)
  then have "xdNextIntentId db1 \<notin> xiId ` set (xdIntents db1)" using assms(2) by simp
  then show ?thesis using createExitIntent_new[OF created] by (simp add: closeIntent_def)
qed

text \<open>The statuses of a position and of an intent, when both exist.\<close>

definition closeStatuses :: "int \<Rightarrow> int \<Rightarrow> exitStore \<Rightarrow> (string \<times> string) option" where
  "closeStatuses i j db = (case (positionOf i db, intentOf j db) of (Some p, Some n) \<Rightarrow> Some (xpStatus p, xiStatus n) | _ \<Rightarrow> None)"

lemma release_statuses:
  assumes "closeStatuses i (xiId intent) db = Some (''closing'', t)" and "xpId p = i"
  shows "closeStatuses i (xiId intent) (releaseClose p intent statuses status reason now db) =
    Some (''open'', if t \<in> set statuses then status else t)"
proof -
  obtain q n where found: "positionOf i db = Some q" "intentOf (xiId intent) db = Some n" "xpStatus q = ''closing''" "xiStatus n = t"
    using assms(1) by (auto simp: closeStatuses_def split: option.splits)
  have "xpId q = i" "xiId n = xiId intent" using found positionOf_id by (auto simp: intentOf_def find_Some_iff)
  then show ?thesis using found assms(2)
    by (simp add: releaseClose_def Let_def closeStatuses_def positionOf_update intentOf_update)
qed

text \<open>The outcome of a failed close, by its error.\<close>

definition failedStatuses :: "entryError \<Rightarrow> string \<times> string" where
  "failedStatuses e =
     (if isExitVerificationBlock e then (''open'', ''blocked'')
      else case getDeliveryClassification e of
          NOT_SENT_BLOCKED \<Rightarrow> (''open'', ''blocked'')
        | NOT_SENT_RETRYABLE \<Rightarrow> (''open'', ''failed'')
        | BROKER_REJECTED \<Rightarrow> (''open'', ''failed'')
        | DELIVERY_UNCERTAIN \<Rightarrow> (''closing'', ''submitting''))"

lemma closeFailed_statuses:
  assumes env: "quietExit env" and p: "xpId p = i"
    and before: "closeStatuses i (xiId intent) (xwDb s) = Some (''closing'', t)"
    and t: "t = ''submitting'' \<or> t = ''blocked'' \<and> isExitVerificationBlock e"
  shows "\<exists>s'. closeFailed env k p intent e s = (Inl e, s') \<and>
    closeStatuses i (xiId intent) (xwDb s') = Some (failedStatuses e)"
proof (cases "isExitVerificationBlock e")
  case True
  then show ?thesis using t release_statuses[OF before p]
    by (auto simp: closeFailed_def bindA_def quiet env failedStatuses_def)
next
  case False
  then have t: "t = ''submitting''" using t by blast
  obtain q n where found: "positionOf i (xwDb s) = Some q" "intentOf (xiId intent) (xwDb s) = Some n"
      "xpStatus q = ''closing''" "xiStatus n = ''submitting''"
    using before t by (auto simp: closeStatuses_def split: option.splits)
  have uncertain: "closeStatuses i (xiId intent) (snd (updateExitIntents Q (\<lambda>n. n\<lparr>xiBlockReason := r\<rparr>) now (xwDb s))) =
      Some (''closing'', ''submitting'')" for Q r now
    using found by (simp add: closeStatuses_def intentOf_update)
  show ?thesis
  proof (cases "getDeliveryClassification e = DELIVERY_UNCERTAIN")
    case True
    have run: "closeFailed env k p intent e s = (Inl e, s\<lparr>xwDb := snd (updateExitIntents (\<lambda>n. xiId n = xiId intent \<and> xiStatus n = ''submitting'')
        (\<lambda>n. n\<lparr>xiBlockReason := Some (''BROKER_WRITE_DELIVERY:'' @ writeClassificationText DELIVERY_UNCERTAIN @ '':'' @ failureText e)\<rparr>)
        (xeNow env k) (xwDb s))\<rparr>)"
      unfolding closeFailed_def Let_def if_not_P[OF False] True
      by (simp add: bindA_def quiet_step[OF env] quiet_effect[OF env] run_simps split: prod.split)
    show ?thesis by (rule exI, rule conjI, rule run) (simp add: failedStatuses_def False True uncertain)
  next
    case certain: False
    then show ?thesis using False t release_statuses[OF before p]
      by (cases "getDeliveryClassification e") (auto simp: closeFailed_def bindA_def quiet env failedStatuses_def Let_def)
  qed
qed

lemma submitClose_db:
  assumes env: "quietExit env" and run: "submitClose env k cx intent s = (r, s')"
  shows "xwDb s' = xwDb s \<or> (\<exists>b. r = Inr (Inl b)) \<or>
    (\<exists>e q now. r = Inl e \<and> isExitVerificationBlock e \<and> xwDb s' = blockedIntents cx q now (xwDb s))"
  using run unfolding submitClose_def
proof (cases rule: bindA_cases)
  case (error e)
  then show ?thesis using only_submit[OF env, of cx s k] by (auto simp: onlyExitBlocks_def)
next
  case (continue x s1)
  have "xwDb s1 = xwDb s" using only_submit[OF env, of cx s k] continue(1) by (auto simp: onlyExitBlocks_def)
  then show ?thesis using continue(2)
    by (cases x) (auto simp: bindA_def quiet env split: prod.splits)
qed

lemma blockedIntents_statuses:
  assumes "closeStatuses i (vxOrderIntentId cx) db = Some (a, t)"
  shows "closeStatuses i (vxOrderIntentId cx) (blockedIntents cx r now db) = Some (a, ''blocked'')"
proof -
  obtain q n where found: "positionOf i db = Some q" "intentOf (vxOrderIntentId cx) db = Some n" "xpStatus q = a"
    using assms by (auto simp: closeStatuses_def split: option.splits)
  then have "xiId n = vxOrderIntentId cx" by (auto simp: intentOf_def find_Some_iff)
  then show ?thesis using found by (simp add: blockedIntents_def closeStatuses_def intentOf_update)
qed

lemma persistClose_error:
  "persistClose p account intent order now db = Inl e \<Longrightarrow> failedStatuses (Failure e) = (''closing'', ''submitting'')"
  by (auto simp: persistClose_def Let_def bindR_Inl_iff saveOrder_def prismaError_def failedStatuses_def getDeliveryClassification_def
      split: if_splits option.splits)

text \<open>C23: what a failed close leaves. In a run without database faults and interleaved transactions whose claim
  succeeds, a verification block or a write that is known not to stand opens the position again and ends the
  intent as blocked or failed; after any other error, a refused persistence of the order included, the position stays
  closing and the intent submitting, for recovery.
\<close>
theorem close_failure_outcome:
  assumes env: "quietExit env" and run: "closePosition env k i mode s = (Inl e, s')" and alive: "e \<noteq> ProcessDied"
    and claim: "claimClose i mode (xeNow env k) (xwDb s) = Inr ((p, account, intent), db)"
    and fresh: "xdNextIntentId (xwDb s) \<notin> xiId ` set (xdIntents (xwDb s))"
  shows "closeStatuses i (xiId intent) (xwDb s') = Some (failedStatuses e)"
proof -
  let ?cx = "closeContext mode p account intent"
  let ?after = "afterExit env (k + 1) ?cx"
  let ?s = "s\<lparr>xwDb := db\<rparr>"
  have p: "xpId p = i" using claimClose_claims[OF claim] positionOf_id by blast
  have claimed: "closeStatuses i (xiId intent) (xwDb ?s) = Some (''closing'', ''submitting'')"
    using claimClose_claims[OF claim] claimClose_intent[OF claim fresh] by (simp add: closeStatuses_def)
  have cx: "vxOrderIntentId ?cx = xiId intent" by (simp add: closeContext_def)
  have rest: "bindA (catchA (submitClose env (k + 1) ?cx intent) (closeFailed env (?after + 1) p intent)) (\<lambda>submitted.
     case submitted of
       Inl b \<Rightarrow> returnA \<lparr>crTrackedPositionId = xpId p, crSymbol = toUpperCase (xpSymbol p), crTradingAccountId = account,
           crOrderIntentId = xiId intent, crBrokerOrderId = jInt b, crClientOrderId = xiClientOrderId intent\<rparr>
     | Inr order \<Rightarrow> closeDone env (?after + 3) p account intent order) ?s = (Inl e, s')"
    using run unfolding closePosition_def bind_quiet_step[where f = "claimClose i mode (xeNow env k)", OF env claim] Let_def case_prod_conv .
  obtain r s1 where submitted: "submitClose env (k + 1) ?cx intent ?s = (r, s1)" by (cases "submitClose env (k + 1) ?cx intent ?s") auto
  note db = submitClose_db[OF env submitted]
  show ?thesis
  proof (cases r)
    case (Inl f)
    show ?thesis
    proof (cases "f = ProcessDied")
      case True
      have "catchA (submitClose env (k + 1) ?cx intent) (closeFailed env (?after + 1) p intent) ?s = (Inl f, s1)"
        unfolding catchA_def submitted Inl prod.case sum.case if_P[OF True] ..
      then have "e = ProcessDied" using rest True by (simp only: bindA_def prod.case sum.case prod.inject sum.inject)
      then show ?thesis using alive by simp
    next
      case False
      have "closeStatuses i (xiId intent) (xwDb s1) = Some (''closing'', ''submitting'') \<or>
          isExitVerificationBlock f \<and> closeStatuses i (xiId intent) (xwDb s1) = Some (''closing'', ''blocked'')"
        using db Inl claimed blockedIntents_statuses[of i ?cx db] unfolding cx by auto
      then obtain t where "closeStatuses i (xiId intent) (xwDb s1) = Some (''closing'', t)"
          "t = ''submitting'' \<or> t = ''blocked'' \<and> isExitVerificationBlock f" by blast
      from closeFailed_statuses[OF env p this, of "?after + 1"] obtain s2 where
        s2: "closeFailed env (?after + 1) p intent f s1 = (Inl f :: entryError + (int + brokerSellOrder), s2)" "closeStatuses i (xiId intent) (xwDb s2) = Some (failedStatuses f)"
        by blast
      have "catchA (submitClose env (k + 1) ?cx intent) (closeFailed env (?after + 1) p intent) ?s = (Inl f, s2)"
        unfolding catchA_def submitted Inl prod.case sum.case if_not_P[OF False] by (rule s2(1))
      then have "(Inl f, s2) = (Inl e :: entryError + closeResult, s')" using rest by (simp only: bindA_def prod.case sum.case prod.inject sum.inject)
      then show ?thesis using s2(2) by simp
    qed
  next
    case (Inr x)
    then have done': "(case x of
         Inl b \<Rightarrow> returnA \<lparr>crTrackedPositionId = xpId p, crSymbol = toUpperCase (xpSymbol p), crTradingAccountId = account,
             crOrderIntentId = xiId intent, crBrokerOrderId = jInt b, crClientOrderId = xiClientOrderId intent\<rparr>
       | Inr order \<Rightarrow> closeDone env (?after + 3) p account intent order) s1 = (Inl e, s')"
      using rest submitted unfolding catchA_def bindA_def by (simp only: prod.case sum.case)
    then obtain order where x: "x = Inr order" by (cases x) (auto simp: returnA_def)
    have same: "xwDb s1 = db" using db Inr x by auto
    have "\<exists>f. persistClose p account intent order (xeNow env (?after + 3)) db = Inl f \<and> e = Failure f \<and> s' = s1"
      using done' unfolding x sum.case closeDone_def
      by (auto simp: bindA_def quiet env same split: sum.splits prod.splits)
    then show ?thesis using persistClose_error claimed same by auto
  qed
qed

text \<open>A close whose lock is not acquired: nothing is sent, and its error is not one that releases the claim.\<close>

definition lockError :: entryError where
  "lockError = Failure (HttpError 503 ''Exit submission lock was not acquired safely (NOT_ACQUIRED).'' JNull)"

lemma lockError_uncertain: "\<not> isExitVerificationBlock lockError" "getDeliveryClassification lockError = DELIVERY_UNCERTAIN"
  "lockError \<noteq> ProcessDied"
  by (simp_all add: lockError_def jsonGet_def getDeliveryClassification_def)

lemma locked_out:
  assumes env: "quietExit env" and claim: "claimClose i mode (xeNow env k) (xwDb s) = Inr ((p, account, intent), db)"
    and account: "0 < account" "xeLock env account = LockNotAcquired"
  shows "\<exists>s'. closePosition env k i mode s = (Inl lockError, s') \<and> xwSent s' = xwSent s"
proof -
  let ?cx = "closeContext mode p account intent"
  let ?after = "afterExit env (k + 1) ?cx"
  have cx: "vxTradingAccountId ?cx = account" by (simp add: closeContext_def)
  have submitted: "submitClose env (k + 1) ?cx intent (s\<lparr>xwDb := db\<rparr>) = (Inl lockError, s\<lparr>xwDb := db\<rparr>)"
    by (simp add: submitClose_def submitVerifiedExit_def bindA_def quiet env cx account lockError_def)
  have "\<exists>s'. closeFailed env j p intent lockError w = (Inl lockError :: entryError + (int + brokerSellOrder), s') \<and> xwSent s' = xwSent w" for j w
    by (simp add: closeFailed_def lockError_uncertain Let_def bindA_def quiet env split: prod.split)
  then obtain s' where failed: "closeFailed env (?after + 1) p intent lockError (s\<lparr>xwDb := db\<rparr>) = (Inl lockError :: entryError + (int + brokerSellOrder), s')"
      "xwSent s' = xwSent s" by fastforce
  have "catchA (submitClose env (k + 1) ?cx intent) (closeFailed env (?after + 1) p intent) (s\<lparr>xwDb := db\<rparr>) = (Inl lockError, s')"
    unfolding catchA_def submitted prod.case sum.case if_not_P[OF lockError_uncertain(3)] by (rule failed(1))
  then have "closePosition env k i mode s = (Inl lockError, s')"
    unfolding closePosition_def bind_quiet_step[where f = "claimClose i mode (xeNow env k)", OF env claim] Let_def case_prod_conv
    by (simp only: bindA_def prod.case sum.case)
  then show ?thesis using failed(2) by blast
qed

theorem close_failure_outcome_witness:
  "\<exists>intent s'. closePosition (exampleEnv\<lparr>xeLock := \<lambda>a. LockNotAcquired\<rparr>) 0 7 AUTOMATED_STRATEGY exampleWorld = (Inl lockError, s') \<and>
     xwSent s' = [] \<and> closeStatuses 7 intent (xwDb s') = Some (''closing'', ''submitting'')"
proof -
  let ?env = "exampleEnv\<lparr>xeLock := \<lambda>a. LockNotAcquired\<rparr>"
  have env: "quietExit ?env" by (simp add: quietExit_def exampleEnv_def)
  have "toLowerCase ''long'' = ''long''" by code_simp
  then have "case claimClose 7 AUTOMATED_STRATEGY 0 exampleStore of Inl _ \<Rightarrow> False | Inr _ \<Rightarrow> True"
    by (simp add: claimClose_def exampleStore_def positionOf_def assignmentOf_def pendingClose_def updatePositions_def Let_def
        split: prod.split)
  then obtain p account intent db where "claimClose 7 AUTOMATED_STRATEGY 0 exampleStore = Inr ((p, account, intent), db)"
    by (cases "claimClose 7 AUTOMATED_STRATEGY 0 exampleStore") auto
  then have claim: "claimClose 7 AUTOMATED_STRATEGY (xeNow ?env 0) (xwDb exampleWorld) = Inr ((p, account, intent), db)"
    by (simp add: exampleEnv_def exampleWorld_def)
  then have "positionOf 7 exampleStore = Some p \<and> xpTradingAccountId p = Some account"
    using claimClose_claims by (fastforce simp: exampleWorld_def)
  then have account: "0 < account" "xeLock ?env account = LockNotAcquired"
    by (auto simp: positionOf_def exampleStore_def)
  obtain s' where run: "closePosition ?env 0 7 AUTOMATED_STRATEGY exampleWorld = (Inl lockError, s')" "xwSent s' = []"
    using locked_out[OF env claim account] by (auto simp: exampleWorld_def)
  have "xdNextIntentId (xwDb exampleWorld) \<notin> xiId ` set (xdIntents (xwDb exampleWorld))"
    by (simp add: exampleWorld_def exampleStore_def)
  from close_failure_outcome[OF env run(1) lockError_uncertain(3) claim this] show ?thesis
    using run by (auto simp: failedStatuses_def lockError_uncertain)
qed

end
