(* ===== verification/EvaluatorSafety.thy ===== *)
theory EvaluatorSafety
  imports ExitEvaluator CloseSafety
begin

text \<open>
  The exit evaluation: which positions it closes, that a failing position does not stop the others, and the attention of an
  exit state over its operations.
\<close>

subsection \<open>The exit decision\<close>

text \<open>
  A position that the evaluation may act on: it is attributed to the account, no protective order is linked, no close is
  pending, and its assignment permits exits.
\<close>

definition mayExit :: "int \<Rightarrow> evaluationRow \<Rightarrow> exitProfile \<Rightarrow> bool" where
  "mayExit account row profile \<longleftrightarrow> (\<exists>a. erAssignment row = Some (a, profile) \<and>
     xpTradingAccountId (erPosition row) = Some account \<and> xaTradingAccountId a = account \<and>
     xpSubscriptionId (erPosition row) = Some (xaSubscriptionId a) \<and> xaEnabled a \<and> xaExitsEnabled a) \<and>
   \<not> (\<exists>x. erExitState row = Some x \<and> given (xsTrailBrokerOrderId x)) \<and> xpStatus (erPosition row) \<noteq> ''closing''"

definition ownedExternally :: "evaluationRow \<Rightarrow> bool" where
  "ownedExternally row \<longleftrightarrow> (\<exists>x. erExitState row = Some x \<and> xsExitManagementMode x = ''EXTERNAL_SIGNAL'')"

text \<open>It is closed at its stop loss, whoever owns its exit, and at its target when the strategy owns it.\<close>

definition closesNow :: "int \<Rightarrow> evaluationRow \<Rightarrow> bool" where
  "closesNow account row \<longleftrightarrow> (\<exists>profile. mayExit account row profile \<and> \<not> isUnlockTrailingProfile profile \<and>
     (stopLossHit profile (xpUnrealizedPnLPct (erPosition row)) \<or>
      takeProfitHit profile (xpUnrealizedPnLPct (erPosition row)) \<and> \<not> ownedExternally row))"

definition trailingRowP :: "evaluationRow \<Rightarrow> bool" where
  "trailingRowP row \<longleftrightarrow> (\<exists>a profile. erAssignment row = Some (a, profile) \<and> isUnlockTrailingProfile profile)"

text \<open>The world after an evaluation, and that after a close with its event.\<close>

definition worldAfter :: "(entryError + 'a) \<times> (exitWorld \<times> 'c) \<Rightarrow> exitWorld" where
  "worldAfter res = fst (snd res)"

definition closedWorld :: "exitEnv \<Rightarrow> nat \<Rightarrow> exitPosition \<Rightarrow> exitWorld \<Rightarrow> exitWorld" where
  "closedWorld env k p s = (case closePosition env k (xpId p) AUTOMATED_STRATEGY s of
       (Inl e, s') \<Rightarrow> s'
     | (Inr _, s') \<Rightarrow> snd (exitEffect env (k + 60 + xeAttentions env (the (xpTradingAccountId p)) (xpId p)) s'))"

lemma after_count: "worldAfter (bindA (countA f) g (s, c)) = worldAfter (g () (s, f c))"
  by (simp add: bindA_def countA_def)

lemma after_simps: "worldAfter (countA f (s, c)) = s" "worldAfter (throwA e (s, c)) = s" "worldAfter (returnA x (s, c)) = s"
  by (simp_all add: worldAfter_def countA_def throwA_def returnA_def)

lemma after_close: "worldAfter (evaluateClose env k p profile (s, c)) =
    (if takeProfitHit profile (xpUnrealizedPnLPct p) \<or> stopLossHit profile (xpUnrealizedPnLPct p) then closedWorld env k p s else s)"
proof (cases "takeProfitHit profile (xpUnrealizedPnLPct p) \<or> stopLossHit profile (xpUnrealizedPnLPct p)")
  case True
  obtain r s' where close: "closePosition env k (xpId p) AUTOMATED_STRATEGY s = (r, s')"
    by (cases "closePosition env k (xpId p) AUTOMATED_STRATEGY s") auto
  have "worldAfter (evaluateClose env k p profile (s, c)) = closedWorld env k p s"
    unfolding evaluateClose_def signalA_def closeIntentA_def closedWorld_def using True
    by (auto simp: after_count bindA_def runA_def close worldAfter_def countA_def split: sum.split prod.split)
  then show ?thesis using True by simp
next
  case False
  then show ?thesis by (simp add: evaluateClose_def after_simps)
qed

text \<open>C7: the exit decision is exact. A position without a trailing-stop profile is closed when, and only when, it may exit
  and has hit its stop loss, or its target while the strategy owns the exit: external ownership never suppresses the stop
  loss. Otherwise the evaluation leaves the tables and the orders as they are.
\<close>
theorem exit_decision_exact:
  assumes "\<not> trailingRowP row"
  shows "worldAfter (evaluatePosition env k account row (s, c)) =
    (if closesNow account row then closedWorld env k (erPosition row) s else s)"
proof (cases "erAssignment row")
  case None
  then show ?thesis
    by (simp add: evaluatePosition_def Let_def after_count after_simps closesNow_def mayExit_def)
next
  case (Some ap)
  obtain a profile where ap: "erAssignment row = Some (a, profile)" using Some by (cases ap) auto
  have plain: "\<not> isUnlockTrailingProfile profile" using assms ap by (auto simp: trailingRowP_def)
  have closes: "closesNow account row \<longleftrightarrow> mayExit account row profile \<and>
      (stopLossHit profile (xpUnrealizedPnLPct (erPosition row)) \<or>
       takeProfitHit profile (xpUnrealizedPnLPct (erPosition row)) \<and> \<not> ownedExternally row)"
    using ap plain unfolding closesNow_def mayExit_def by auto
  show ?thesis
    unfolding closes evaluatePosition_def Let_def ap mayExit_def ownedExternally_def
    by (auto simp: after_count after_simps after_close skipA_def blockedExitA_def plain split: option.split)
qed

theorem exit_decision_exact_witness:
  "worldAfter (evaluatePosition exampleEnv 0 1 \<lparr>erPosition = hd (xdPositions exampleStore), erExitState = None, erAssignment = None\<rparr>
     (exampleWorld, emptyCounts)) = exampleWorld"
proof -
  let ?row = "\<lparr>erPosition = hd (xdPositions exampleStore), erExitState = None, erAssignment = None\<rparr>"
  have plain: "\<not> trailingRowP ?row" by (simp add: trailingRowP_def)
  have "\<not> closesNow 1 ?row" by (simp add: closesNow_def mayExit_def)
  then show ?thesis using exit_decision_exact[OF plain, of exampleEnv 0 1 exampleWorld emptyCounts] by simp
qed

subsection \<open>Failures stay with their position\<close>

text \<open>What an evaluation of one position does to the counts: it is counted once, and its failures are recorded by the loop only.\<close>

definition countedOnce :: "evaluation \<Rightarrow> evaluation \<Rightarrow> bool" where
  "countedOnce c c' \<longleftrightarrow> evPositionsEvaluated c' = evPositionsEvaluated c \<and> evFailedPositions c' = evFailedPositions c \<and> evFailures c' = evFailures c"

definition countsA :: "(evaluation, 'a) counting \<Rightarrow> bool" where
  "countsA m \<longleftrightarrow> (\<forall>s c r s' c'. m (s, c) = (r, (s', c')) \<longrightarrow> countedOnce c c')"

named_theorems counting \<open>actions that record neither an evaluation nor a failure\<close>

lemma counts_run [counting]: "countsA (runA m)"
  by (auto simp: countsA_def runA_def countedOnce_def split: prod.splits)

lemma counts_return [counting]: "countsA (returnA x)" "countsA (throwA e)"
  by (auto simp: countsA_def returnA_def throwA_def countedOnce_def)

lemma counts_count: "(\<And>c. countedOnce c (f c)) \<Longrightarrow> countsA (countA f)"
  by (auto simp: countsA_def countA_def)

lemma counts_counters [counting]: "countsA skipA" "countsA signalA" "countsA closeIntentA" "countsA blockedExitA"
  unfolding skipA_def signalA_def closeIntentA_def blockedExitA_def by (rule counts_count, simp add: countedOnce_def)+

lemma countsI: "(\<And>s c r s' c'. m (s, c) = (r, (s', c')) \<Longrightarrow> countedOnce c c') \<Longrightarrow> countsA m"
  by (simp add: countsA_def)

lemma countsD: "countsA m \<Longrightarrow> m (s, c) = (r, (s', c')) \<Longrightarrow> countedOnce c c'"
  by (simp add: countsA_def)

lemma countedOnce_trans: "countedOnce a b \<Longrightarrow> countedOnce b c \<Longrightarrow> countedOnce a c"
  by (simp add: countedOnce_def)

lemma counts_bind [counting]:
  assumes m: "countsA m" and f: "\<And>x. countsA (f x)"
  shows "countsA (bindA m f)"
proof (rule countsI)
  fix s c r s' c'
  assume "bindA m f (s, c) = (r, (s', c'))"
  then show "countedOnce c c'"
  proof (cases rule: bindA_cases)
    case (error e)
    show ?thesis by (rule countsD[OF m error(1)])
  next
    case (continue x s1)
    obtain t d where s1: "s1 = (t, d)" by (cases s1) auto
    show ?thesis
      by (rule countedOnce_trans[OF countsD[OF m continue(1)[unfolded s1]] countsD[OF f continue(2)[unfolded s1]]])
  qed
qed

lemma counts_catch [counting]:
  assumes m: "countsA m" and h: "\<And>e. countsA (h e)"
  shows "countsA (catchA m h)"
proof (rule countsI)
  fix s c r s' c'
  assume "catchA m h (s, c) = (r, (s', c'))"
  then show "countedOnce c c'"
  proof (cases rule: catchA_cases)
    case (handled e s1)
    obtain t d where s1: "s1 = (t, d)" by (cases s1) auto
    show ?thesis
      by (rule countedOnce_trans[OF countsD[OF m handled(1)[unfolded s1]] countsD[OF h handled(3)[unfolded s1]]])
  next
    case passed
    show ?thesis by (rule countsD[OF m passed])
  qed
qed

lemma counts_if [counting]: "countsA m \<Longrightarrow> countsA m' \<Longrightarrow> countsA (if b then m else m')"
  by simp

lemma counts_trailing: "countsA (evaluateUnlockTrailing env k account p state profile)"
  unfolding evaluateUnlockTrailing_def submitProtective_def Let_def
  by (intro counting) (auto intro!: counting split: option.split)

lemma counts_close: "countsA (evaluateClose env k p profile)"
  unfolding evaluateClose_def by (intro counting)

lemma evaluatePosition_counts:
  assumes "evaluatePosition env k account row (s, c) = (r, (s', c'))"
  shows "countedOnce (c\<lparr>evPositionsEvaluated := evPositionsEvaluated c + 1\<rparr>) c'"
proof -
  let ?c = "c\<lparr>evPositionsEvaluated := evPositionsEvaluated c + 1\<rparr>"
  obtain g where g: "countsA (g :: (evaluation, unit) counting)" "evaluatePosition env k account row (s, c) = g (s, ?c)"
  proof -
    have first: "bindA (countA f) h (s, c) = h () (s, f c)" for f h by (simp add: bindA_def countA_def)
    show ?thesis
      by (rule that[rotated], unfold evaluatePosition_def Let_def, rule first)
        (auto intro!: counting counts_trailing counts_close split: option.split prod.split)
  qed
  then show ?thesis using assms countsD by metis
qed

text \<open>The counts decide nothing: the result and the world after an action do not depend on them.\<close>

definition blindA :: "('c, 'a) counting \<Rightarrow> bool" where
  "blindA m \<longleftrightarrow> (\<forall>s c d. fst (m (s, c)) = fst (m (s, d)) \<and> worldAfter (m (s, c)) = worldAfter (m (s, d)))"

named_theorems blind \<open>actions whose result and world do not depend on the counts\<close>

lemma blind_basic [blind]: "blindA (runA m)" "blindA (returnA x)" "blindA (throwA e)" "blindA (countA f)"
  by (auto simp: blindA_def worldAfter_def runA_def returnA_def throwA_def countA_def split: prod.split)

lemma blind_counters [blind]: "blindA skipA" "blindA signalA" "blindA closeIntentA" "blindA blockedExitA"
  unfolding skipA_def signalA_def closeIntentA_def blockedExitA_def by (rule blind)+

lemma blindD:
  assumes "blindA m" and "m (s, c) = (r, (s', c'))"
  obtains d' where "m (s, d) = (r, (s', d'))"
proof -
  have "fst (m (s, d)) = r" "worldAfter (m (s, d)) = s'"
    using assms unfolding blindA_def worldAfter_def by (metis fst_conv snd_conv)+
  then show ?thesis using that by (cases "m (s, d)") (auto simp: worldAfter_def)
qed

lemma blindI:
  assumes "\<And>s c d r s' c'. m (s, c) = (r, (s', c')) \<Longrightarrow> \<exists>d'. m (s, d) = (r, (s', d'))"
  shows "blindA m"
  unfolding blindA_def
proof (intro allI)
  fix s c d
  obtain r s' c' where m: "m (s, c) = (r, (s', c'))" by (cases "m (s, c)") auto
  then show "fst (m (s, c)) = fst (m (s, d)) \<and> worldAfter (m (s, c)) = worldAfter (m (s, d))"
    using assms[OF m, of d] by (auto simp: worldAfter_def)
qed

lemma blind_bind [blind]:
  assumes m: "blindA m" and f: "\<And>x. blindA (f x)"
  shows "blindA (bindA m f)"
proof (rule blindI)
  fix s c d r s' c'
  assume run: "bindA m f (s, c) = (r, (s', c'))"
  obtain r1 s1 c1 where one: "m (s, c) = (r1, (s1, c1))" by (cases "m (s, c)") auto
  obtain d1 where one': "m (s, d) = (r1, (s1, d1))" using blindD[OF m one] .
  show "\<exists>d'. bindA m f (s, d) = (r, (s', d'))"
  proof (cases r1)
    case (Inr x)
    then have "f x (s1, c1) = (r, (s', c'))" using run one by (simp add: bindA_def)
    from blindD[OF f this] obtain d' where "f x (s1, d1) = (r, (s', d'))" .
    then show ?thesis using one' Inr by (simp add: bindA_def)
  qed (use run one one' in \<open>auto simp: bindA_def\<close>)
qed

lemma blind_catch [blind]:
  assumes m: "blindA m" and h: "\<And>e. blindA (h e)"
  shows "blindA (catchA m h)"
proof (rule blindI)
  fix s c d r s' c'
  assume run: "catchA m h (s, c) = (r, (s', c'))"
  obtain r1 s1 c1 where one: "m (s, c) = (r1, (s1, c1))" by (cases "m (s, c)") auto
  obtain d1 where one': "m (s, d) = (r1, (s1, d1))" using blindD[OF m one] .
  show "\<exists>d'. catchA m h (s, d) = (r, (s', d'))"
  proof (cases "\<exists>e. r1 = Inl e \<and> e \<noteq> ProcessDied")
    case True
    then obtain e where e: "r1 = Inl e" "e \<noteq> ProcessDied" by blast
    then have "h e (s1, c1) = (r, (s', c'))" using run one by (auto simp: catchA_def)
    from blindD[OF h this] obtain d' where "h e (s1, d1) = (r, (s', d'))" .
    then show ?thesis using one' e by (auto simp: catchA_def)
  next
    case False
    then show ?thesis using run one one' by (cases r1) (auto simp: catchA_def)
  qed
qed

lemma blind_if [blind]: "blindA m \<Longrightarrow> blindA m' \<Longrightarrow> blindA (if b then m else m')"
  by simp

lemma blind_trailing: "blindA (evaluateUnlockTrailing env k account p state profile)"
  unfolding evaluateUnlockTrailing_def submitProtective_def Let_def
  by (intro blind) (auto intro!: blind split: option.split)

lemma blind_close: "blindA (evaluateClose env k p profile)"
  unfolding evaluateClose_def by (intro blind)

lemma blind_position: "blindA (evaluatePosition env k account row)"
  unfolding evaluatePosition_def Let_def
  by (intro blind) (auto intro!: blind blind_trailing blind_close split: option.split prod.split)

text \<open>
  The evaluations of the positions one after the other, each with its own result, and the world after them.
  Only the death of the process ends them early.
\<close>

fun evaluationTrace :: "exitEnv \<Rightarrow> nat \<Rightarrow> int \<Rightarrow> evaluationRow list \<Rightarrow> exitWorld \<Rightarrow> (int \<times> (entryError + unit)) list \<times> exitWorld" where
  "evaluationTrace env k account [] s = ([], s)"
| "evaluationTrace env k account (row # rows) s =
     (let i = xpId (erPosition row); (r, s', c) = evaluatePosition env k account row (s, emptyCounts) in
      if r = Inl ProcessDied then ([(i, r)], s')
      else (let (trace, world) = evaluationTrace env (k + 100 + xeAttentions env account i) account rows s' in
            ((i, r) # trace, world)))"

text \<open>The positions that threw, each with the message of its error.\<close>

fun failuresOf :: "(int \<times> (entryError + unit)) list \<Rightarrow> (int \<times> string) list" where
  "failuresOf [] = []"
| "failuresOf ((i, Inl e) # trace) = (if e = ProcessDied then failuresOf trace else (i, failureText e) # failuresOf trace)"
| "failuresOf ((i, Inr u) # trace) = failuresOf trace"

text \<open>C27: a failing position does not stop the evaluation, and the failures are counted exactly. The loop evaluates the
  positions one after the other, each exactly once, in the world that the previous ones left; only the death of the process
  ends it early. What it reports as failures are, in their order, exactly the positions whose evaluation threw, each
  with the message of its error, and the number of failed positions is their number; every other position counts no failure.
\<close>
theorem evaluation_isolates_failures:
  assumes "evaluatePositions env k account rows (s, c) = (r, (s', c'))"
    and "evaluationTrace env k account rows s = (trace, world)"
  shows "s' = world \<and>
    r = (if Inl ProcessDied \<in> snd ` set trace then Inl ProcessDied else Inr ()) \<and>
    map fst trace = take (length trace) (map (xpId \<circ> erPosition) rows) \<and>
    (r = Inr () \<longrightarrow> length trace = length rows) \<and>
    evPositionsEvaluated c' = evPositionsEvaluated c + length trace \<and>
    evFailures c' = evFailures c @ failuresOf trace \<and>
    evFailedPositions c' = evFailedPositions c + length (failuresOf trace)"
  using assms
proof (induction rows arbitrary: k s c trace)
  case Nil
  then show ?case by (simp add: returnA_def)
next
  case (Cons row rows)
  let ?i = "xpId (erPosition row)" and ?k = "k + 100 + xeAttentions env account (xpId (erPosition row))"
  let ?guarded = "catchA (evaluatePosition env k account row)
      (\<lambda>e. countA (\<lambda>c. c\<lparr>evFailedPositions := evFailedPositions c + 1, evFailures := evFailures c @ [(?i, failureText e)]\<rparr>))"
  have run: "bindA ?guarded (\<lambda>_. evaluatePositions env ?k account rows) (s, c) = (r, (s', c'))"
    using Cons.prems(1) by (simp only: evaluatePositions.simps Let_def)
  obtain r0 s0 c0 where first: "evaluatePosition env k account row (s, c) = (r0, (s0, c0))"
    by (cases "evaluatePosition env k account row (s, c)") auto
  obtain d0 where alone: "evaluatePosition env k account row (s, emptyCounts) = (r0, (s0, d0))"
    using blindD[OF blind_position first] .
  note counted = evaluatePosition_counts[OF first]
  show ?case
  proof (cases "r0 = Inl ProcessDied")
    case True
    then have "trace = [(?i, Inl ProcessDied)]" "world = s0" "r = Inl ProcessDied" "s' = s0" "c' = c0"
      using run first Cons.prems(2) alone by (auto simp: bindA_def catchA_def)
    then show ?thesis using counted by (simp add: countedOnce_def)
  next
    case False
    obtain rest where rest: "evaluationTrace env ?k account rows s0 = (rest, world)" "trace = (?i, r0) # rest"
      using Cons.prems(2) alone False by (auto simp: Let_def split: prod.splits)
    define d where "d = (case r0 of Inr _ \<Rightarrow> c0
      | Inl e \<Rightarrow> c0\<lparr>evFailedPositions := evFailedPositions c0 + 1, evFailures := evFailures c0 @ [(?i, failureText e)]\<rparr>)"
    have "?guarded (s, c) = (Inr (), (s0, d))"
      using first False by (cases r0) (auto simp: catchA_def countA_def d_def)
    then have "evaluatePositions env ?k account rows (s0, d) = (r, (s', c'))" using run by (simp add: bindA_def)
    from Cons.IH[OF this rest(1)] show ?thesis
      using False counted unfolding rest(2) by (cases r0) (auto simp: d_def countedOnce_def)
  qed
qed

text \<open>Two positions of another account: both fail, the first one does not stop the second.\<close>

theorem evaluation_isolates_failures_witness:
  "\<exists>s' c'. evaluatePositions exampleEnv 0 1 [\<lparr>erPosition = (hd (xdPositions exampleStore))\<lparr>xpId := 1\<rparr>, erExitState = None, erAssignment = None\<rparr>,
      \<lparr>erPosition = (hd (xdPositions exampleStore))\<lparr>xpId := 2\<rparr>, erExitState = None, erAssignment = None\<rparr>]
     (exampleWorld, emptyCounts) = (Inr (), (s', c')) \<and> evPositionsEvaluated c' = 2 \<and> map fst (evFailures c') = [1, 2] \<and>
     evFailedPositions c' = 2"
proof -
  let ?rows = "[\<lparr>erPosition = (hd (xdPositions exampleStore))\<lparr>xpId := 1\<rparr>, erExitState = None, erAssignment = None\<rparr>,
      \<lparr>erPosition = (hd (xdPositions exampleStore))\<lparr>xpId := 2\<rparr>, erExitState = None, erAssignment = None\<rparr>]"
  obtain r s' c' where run: "evaluatePositions exampleEnv 0 1 ?rows (exampleWorld, emptyCounts) = (r, (s', c'))"
    by (cases "evaluatePositions exampleEnv 0 1 ?rows (exampleWorld, emptyCounts)") auto
  have fails: "\<exists>m d. evaluatePosition exampleEnv k 1 row (s, c) = (Inl (plainError m), (s, d))" if "erAssignment row = None" for k row s c
    using that by (auto simp: evaluatePosition_def Let_def bindA_def countA_def throwA_def)
  have "plainError m \<noteq> ProcessDied" for m by (simp add: plainError_def)
  then obtain m n where trace: "evaluationTrace exampleEnv 0 1 ?rows exampleWorld =
      ([(1, Inl (plainError m)), (2, Inl (plainError n))], exampleWorld)"
    using fails[of "?rows ! 0" 0 exampleWorld emptyCounts] fails[of "?rows ! 1" "0 + 100 + xeAttentions exampleEnv 1 1" exampleWorld emptyCounts]
    by (auto simp: Let_def)
  show ?thesis using evaluation_isolates_failures[OF run trace] run by (auto simp: emptyCounts_def plainError_def)
qed

end
