(* ===== verification/TrailingSafety.thy ===== *)
theory TrailingSafety
  imports TrailingStop CloseSafety
begin

text \<open>
  The protective trailing stop after a failed attempt: what the attempt records, and what the later attempts do with it.
\<close>

subsection \<open>The newest intent\<close>

lemma newestIntent_update:
  assumes f: "\<And>n. xiTradingAccountId (f n) = xiTradingAccountId n \<and> xiClientOrderId (f n) = xiClientOrderId n \<and> xiCreatedAt (f n) = xiCreatedAt n"
  shows "newestIntent account c (snd (updateExitIntents P f now db)) =
    map_option (\<lambda>n. if P n then (f n)\<lparr>xiUpdatedAt := now\<rparr> else n) (newestIntent account c db)"
proof -
  let ?g = "\<lambda>n. if P n then (f n)\<lparr>xiUpdatedAt := now\<rparr> else n"
  let ?mine = "\<lambda>n. xiTradingAccountId n = account \<and> xiClientOrderId n = c"
  have mine: "?mine (?g n) = ?mine n" and created: "xiCreatedAt (?g n) = xiCreatedAt n" for n using f[of n] by auto
  have listed: "filter ?mine (map ?g (xdIntents db)) = map ?g (filter ?mine (xdIntents db))"
    unfolding filter_map using mine by (simp add: comp_def)
  have oldest: "list_all (\<lambda>m. xiCreatedAt m \<le> t) (map ?g ns) = list_all (\<lambda>m. xiCreatedAt m \<le> t) ns" for t ns
    by (induction ns) (simp_all only: list.map list.pred_inject created)
  have "List.find (\<lambda>n. list_all (\<lambda>m. xiCreatedAt m \<le> xiCreatedAt n) ms) (map ?g ns) =
      map_option ?g (List.find (\<lambda>n. list_all (\<lambda>m. xiCreatedAt m \<le> xiCreatedAt n) ms) ns)" for ms ns
    by (rule find_map) (simp only: created)
  then show ?thesis
    unfolding newestIntent_def Let_def updateExitIntents_def snd_conv by (simp add: listed oldest)
qed

lemma newestIntent_states [simp]: "newestIntent account c (snd (updateStates P f db)) = newestIntent account c db"
  by (simp add: newestIntent_def updateStates_def)

text \<open>A reason that starts with a recorded classification is read back as that classification.\<close>

lemma startsWith_append: "startsWith (p @ s) (p @ q) = startsWith s q"
  by (induction p) auto

lemma classificationIn_written:
  "classificationIn (''BROKER_WRITE_DELIVERY:'' @ writeClassificationText c @ '':'' @ t) = Some c"
proof -
  have self: "startsWith (a @ b) a" for a b by (induction a) auto
  have at: "classificationAt (''BROKER_WRITE_DELIVERY:'' @ writeClassificationText c @ '':'' @ t) = Some c"
    unfolding classificationAt_def startsWith_append by (cases c) (simp_all add: self)
  then show ?thesis by simp
qed

subsection \<open>A blocked attempt\<close>

text \<open>The intent of the protective order has an uncertain delivery on record.\<close>

definition recordedUncertain :: "int \<Rightarrow> int \<Rightarrow> string \<Rightarrow> exitStore \<Rightarrow> bool" where
  "recordedUncertain account i clientOrderId db \<longleftrightarrow> (\<exists>n. newestIntent account clientOrderId db = Some n \<and>
     xiTrackedPositionId n = Some i \<and> recordedClassification (xiBlockReason n) = Some DELIVERY_UNCERTAIN)"

lemma block_uncertain: "isExitVerificationBlock e \<Longrightarrow> getDeliveryClassification e = DELIVERY_UNCERTAIN \<and> e \<noteq> ProcessDied"
  by (cases e) (auto simp: getDeliveryClassification_def)

text \<open>The intent of a protective order of the example position, unlocked at time 0.\<close>

definition exampleTrailing :: "string option \<Rightarrow> exitIntent" where
  "exampleTrailing reason =
     \<lparr>xiId = 1, xiSource = ''exit-evaluator'', xiSymbol = ''spy'', xiSide = ''sell'', xiOrderType = ''trailing_stop'',
      xiTimeInForce = ''gtc'', xiQty = Fin 10, xiClientOrderId = buildTrailingStopClientOrderId ''spy'' 7 0, xiTradingAccountId = 1,
      xiAssignmentId = 2, xiTrackedPositionId = Some 7, xiSubscriptionId = Some 3, xiSubscriptionKey = None,
      xiStatus = ''submitting'', xiBlockReason = reason, xiRawRequestJson = JNull, xiCreatedAt = 0, xiUpdatedAt = 0\<rparr>"

definition exampleTrailingWorld :: "string option \<Rightarrow> exitWorld" where
  "exampleTrailingWorld reason =
     exampleWorld\<lparr>xwDb := exampleStore\<lparr>xdIntents := [exampleTrailing reason],
       xdExitStates := [(newExitState 7)\<lparr>xsTargetUnlocked := True, xsTargetUnlockedAt := Some 0, xsTrailingStopPct := Some (Fin 5),
         xsHighWaterMark := Some (Fin 500)\<rparr>]\<rparr>\<rparr>"

text \<open>A broker that holds no position.\<close>

definition absentEnv :: exitEnv where
  "absentEnv = exampleEnv\<lparr>xePosition := \<lambda>a c. Inr None\<rparr>"

lemma exampleTrailing_newest:
  "newestIntent 1 (buildTrailingStopClientOrderId ''spy'' 7 0) (xwDb (exampleTrailingWorld reason)) = Some (exampleTrailing reason)"
  by (simp add: newestIntent_def exampleTrailingWorld_def exampleTrailing_def)

text \<open>C24: a blocked trailing stop is recorded as uncertain. When the verification refuses a trailing stop, so that nothing
  was sent, the attempt fails with that error, and it leaves its intent \<open>submitting\<close> with an uncertain delivery on record.
\<close>
theorem blocked_trailing_stop_recorded_uncertain:
  assumes env: "quietExit env" and plain: "plainAnswers env" and intent: "newestIntent account clientOrderId (xwDb s) = Some intent"
    and owned: "xiTrackedPositionId intent = Some (xpId p)"
    and blocked: "submitVerifiedExit env k (trailingContext account p x intent qty pct clientOrderId) s = (Inl e, s1)"
      "isExitVerificationBlock e"
  shows "\<exists>s'. sendTrailingStop env k account p x qty pct clientOrderId intent s = (Inl e, s') \<and>
    xwSent s' = xwSent s \<and> recordedUncertain account (xpId p) clientOrderId (xwDb s') \<and>
    map_option xiStatus (newestIntent account clientOrderId (xwDb s')) = Some ''submitting''"
proof -
  let ?cx = "trailingContext account p x intent qty pct clientOrderId"
  let ?after = "afterExit env k ?cx"
  let ?reason = "''BROKER_WRITE_DELIVERY:'' @ writeClassificationText DELIVERY_UNCERTAIN @ '':'' @ failureText e"
  let ?mark = "\<lambda>n. n\<lparr>xiStatus := ''submitting'', xiBlockReason := Some ?reason\<rparr>"
  let ?db = "snd (updateExitIntents (\<lambda>n. xiId n = xiId intent) ?mark (xeNow env (?after + 8)) (xwDb s1))"
  note uncertain = block_uncertain[OF blocked(2)]
  have id: "vxOrderIntentId ?cx = xiId intent" by (simp add: trailingContext_def)
  have "xwDb s1 = xwDb s \<or> (\<exists>r now. xwDb s1 = blockedIntents ?cx r now (xwDb s))"
    using only_submit[OF env, of ?cx s k] blocked(1) by (auto simp: onlyExitBlocks_def)
  then have "\<exists>n. newestIntent account clientOrderId (xwDb s1) = Some n \<and> xiId n = xiId intent \<and> xiTrackedPositionId n = Some (xpId p)"
    using intent owned by (auto simp: blockedIntents_def id newestIntent_update)
  then obtain n where n: "newestIntent account clientOrderId (xwDb s1) = Some n" "xiId n = xiId intent" "xiTrackedPositionId n = Some (xpId p)"
    by blast
  have newest: "newestIntent account clientOrderId ?db = Some ((?mark n)\<lparr>xiUpdatedAt := xeNow env (?after + 8)\<rparr>)"
    using n(1,2) by (simp add: newestIntent_update)
  have "trailingFailed env ?after account (xpId p) clientOrderId intent e s1 = (Inl e, s1\<lparr>xwDb := ?db\<rparr>)"
    using uncertain unfolding trailingFailed_def Let_def recordTrailingFailure_def
    by (simp add: bindA_def quiet_step[OF env] quiet_effect[OF env] run_simps split: prod.split)
  then have run: "sendTrailingStop env k account p x qty pct clientOrderId intent s = (Inl e, s1\<lparr>xwDb := ?db\<rparr>)"
    using blocked(1) uncertain unfolding sendTrailingStop_def Let_def catchA_def bindA_def by simp
  have "recordedUncertain account (xpId p) clientOrderId ?db"
    unfolding recordedUncertain_def newest using n(3) classificationIn_written[of DELIVERY_UNCERTAIN "failureText e"]
    by (simp add: recordedClassification_def)
  moreover have "xwSent s1 = xwSent s"
  proof (rule ccontr)
    assume "xwSent s1 \<noteq> xwSent s"
    then obtain q where "answeredBy env q (Inl e)" using sendsD[OF submitVerifiedExit_sends blocked(1)] by blast
    then have "xePost env q = Inl e" using uncertain_classification[of e] uncertain blocked(2) by (auto simp: answeredBy_def)
    then show False using plain blocked(2) by (simp add: plainAnswers_def)
  qed
  ultimately show ?thesis using run newest by auto
qed

theorem blocked_trailing_stop_recorded_uncertain_witness:
  "\<exists>e s'. sendTrailingStop absentEnv 9 1 (hd (xdPositions exampleStore)) (newExitState 7) ''10'' (Fin 5)
       (buildTrailingStopClientOrderId ''spy'' 7 0) (exampleTrailing None) (exampleTrailingWorld None) = (Inl e, s') \<and>
     isExitVerificationBlock e \<and> xwSent s' = [] \<and> recordedUncertain 1 7 (buildTrailingStopClientOrderId ''spy'' 7 0) (xwDb s')"
proof -
  let ?c = "buildTrailingStopClientOrderId ''spy'' 7 0"
  let ?p = "hd (xdPositions exampleStore)" and ?s = "exampleTrailingWorld None"
  let ?cx = "trailingContext 1 ?p (newExitState 7) (exampleTrailing None) ''10'' (Fin 5) ?c"
  have env: "quietExit absentEnv" "plainAnswers absentEnv" by (simp_all add: quietExit_def plainAnswers_def absentEnv_def exampleEnv_def)
  have cx: "vxTradingAccountId ?cx = 1" by (simp add: trailingContext_def)
  have tables: "accountEnvironment 1 (xwDb ?s) = Inr (''PAPER'', xwDb ?s)" "localOrder ?cx (xwDb ?s) = None"
    by (simp_all add: exampleTrailingWorld_def exampleStore_def accountEnvironment_def localOrder_def)
  have answers: "xeLookup absentEnv k a c = Inr None" "xePosition absentEnv a c = Inr None" "xeOpenOrders absentEnv a = Inr []" "xeLock absentEnv a = LockAcquired" for k a c
    by (simp_all add: absentEnv_def exampleEnv_def)
  obtain r where refused: "verifyExit ?cx None [] = Inl r" by (auto simp: verifyExit_def Let_def)
  have "\<exists>k. submitVerifiedExit absentEnv 9 ?cx ?s = blockExit absentEnv k ?cx ''PAPER'' r ?s"
    unfolding submitVerifiedExit_def executeVerifiedExit_def verifyAndSend_def Let_def
    by (simp add: bindA_def quiet env(1) cx tables answers refused) blast
  then obtain k where "submitVerifiedExit absentEnv 9 ?cx ?s = blockExit absentEnv k ?cx ''PAPER'' r ?s" by blast
  then have run: "submitVerifiedExit absentEnv 9 ?cx ?s =
      (Inl (Failure (HttpError 409 (xrMessage r) (JObj (blockEvidence absentEnv (xeNow absentEnv k) ?cx ''PAPER'' r)))),
       ?s\<lparr>xwDb := blockedIntents ?cx r (xeNow absentEnv k) (xwDb ?s)\<rparr>)"
    unfolding quiet_block[OF env(1)] .
  have e: "isExitVerificationBlock (Failure (HttpError 409 (xrMessage r) (JObj (blockEvidence absentEnv (xeNow absentEnv k) ?cx ''PAPER'' r))))"
    using block_error[OF plain_verify[OF refused]] by blast
  have p: "xpId ?p = 7" by (simp add: exampleStore_def)
  have owned: "xiTrackedPositionId (exampleTrailing None) = Some (xpId ?p)" by (simp add: exampleTrailing_def p)
  have none: "xwSent ?s = []" by (simp add: exampleTrailingWorld_def exampleWorld_def)
  show ?thesis
    using blocked_trailing_stop_recorded_uncertain[OF env exampleTrailing_newest owned run e] e unfolding p none by blast
qed

subsection \<open>The attempts after it\<close>

text \<open>
  The position and its exit state name the identifier of the protective order, whose newest intent has an uncertain
  delivery on record.
\<close>

definition stuckTrailingStop :: "int \<Rightarrow> int \<Rightarrow> string \<Rightarrow> int \<Rightarrow> exitStore \<Rightarrow> bool" where
  "stuckTrailingStop account i symbol unlockedAt db \<longleftrightarrow>
     (\<forall>p. positionOf i db = Some p \<longrightarrow> xpSymbol p = symbol) \<and>
     (\<forall>x t. exitStateOf i db = Some x \<and> xsTargetUnlockedAt x = Some t \<longrightarrow> t = unlockedAt) \<and>
     recordedUncertain account i (buildTrailingStopClientOrderId symbol i unlockedAt) db"

text \<open>An action that sends nothing and keeps the tables stuck, when they are.\<close>

definition inertA :: "(exitStore \<Rightarrow> bool) \<Rightarrow> 'a exitAction \<Rightarrow> bool" where
  "inertA P m \<longleftrightarrow> (\<forall>s r s'. P (xwDb s) \<longrightarrow> m s = (r, s') \<longrightarrow> xwSent s' = xwSent s \<and> P (xwDb s'))"

lemma inertI:
  assumes quiet: "silentA m" and keeps: "keepsA P m"
  shows "inertA P m"
  unfolding inertA_def
proof (intro allI impI conjI)
  fix s r s'
  assume ok: "P (xwDb s)" and run: "m s = (r, s')"
  show "xwSent s' = xwSent s" by (rule silentD[OF quiet run])
  show "P (xwDb s')" by (rule exitKeepsD[OF keeps ok run])
qed

lemma inertD: "inertA P m \<Longrightarrow> P (xwDb s) \<Longrightarrow> m s = (r, s') \<Longrightarrow> xwSent s' = xwSent s \<and> P (xwDb s')"
  unfolding inertA_def by blast

text \<open>The rest of an inert action may use what the values that the first step can return satisfy.\<close>

lemma inert_bind:
  assumes m: "inertA P m" and result: "\<And>s x s'. P (xwDb s) \<Longrightarrow> m s = (Inr x, s') \<Longrightarrow> R x" and f: "\<And>x. R x \<Longrightarrow> inertA P (f x)"
  shows "inertA P (bindA m f)"
  unfolding inertA_def
proof (intro allI impI)
  fix s r s'
  assume ok: "P (xwDb s)" and "bindA m f s = (r, s')"
  from this(2) show "xwSent s' = xwSent s \<and> P (xwDb s')"
  proof (cases rule: bindA_cases)
    case (error e)
    then show ?thesis using inertD[OF m ok error(1)] by simp
  next
    case (continue x s1)
    note first = inertD[OF m ok continue(1)]
    have "P (xwDb s1)" using first ..
    from inertD[OF f[OF result[OF ok continue(1)]] this continue(2)] show ?thesis using first by simp
  qed
qed

lemma inert_bind_any:
  assumes m: "inertA P m" and f: "\<And>x. inertA P (f x)"
  shows "inertA P (bindA m f)"
proof (rule inert_bind[where R = "\<lambda>_. True" and m = m and P = P and f = f])
  show "inertA P m" by (rule m)
  show "inertA P (f x)" for x by (rule f)
qed (rule TrueI)

fun trailingRuns :: "int \<Rightarrow> int \<Rightarrow> (exitEnv \<times> nat \<times> int) list \<Rightarrow> exitWorld \<Rightarrow> exitWorld" where
  "trailingRuns account i [] s = s"
| "trailingRuns account i ((env, k, now) # runs) s = trailingRuns account i runs (snd (submitTrailingStopExitOrder env k account i now s))"

subsection \<open>What keeps the tables stuck\<close>

lemma read_result: "exitRead env k g s = (Inr x, s') \<Longrightarrow> x = g (xeOthers env k (xwDb s))"
  unfolding exitRead_def by (auto dest!: step_result)

lemma stuck_others: "othersKeep env P \<Longrightarrow> P (xwDb s) \<Longrightarrow> P (xeOthers env k (xwDb s))"
  by (simp add: othersKeep_def)

lemma exitStateOf_update:
  "(\<And>x. xsTrackedPositionId (f x) = xsTrackedPositionId x) \<Longrightarrow>
   exitStateOf i (snd (updateStates P f db)) = map_option (\<lambda>x. if P x then f x else x) (exitStateOf i db)"
  unfolding exitStateOf_def updateStates_def by (simp add: find_map)

lemma stuck_states:
  assumes stuck: "stuckTrailingStop account i symbol t db"
    and f: "\<And>x. xsTrackedPositionId (f x) = xsTrackedPositionId x \<and> xsTargetUnlockedAt (f x) = xsTargetUnlockedAt x"
  shows "stuckTrailingStop account i symbol t (snd (updateStates P f db))"
proof -
  have "positionOf i (snd (updateStates P f db)) = positionOf i db" by (simp add: positionOf_def updateStates_def)
  moreover have "exitStateOf i (snd (updateStates P f db)) = map_option (\<lambda>x. if P x then f x else x) (exitStateOf i db)"
    by (rule exitStateOf_update) (simp add: f)
  ultimately show ?thesis using stuck f unfolding stuckTrailingStop_def recordedUncertain_def by auto
qed

lemma stuck_mark:
  assumes "stuckTrailingStop account i symbol t db"
    and "markTrailingStopOrderSubmitted j broker brokerOrderId c status raw now db = Inr (x, db')"
  shows "stuckTrailingStop account i symbol t db'"
proof -
  have attention: "xsTrackedPositionId (buildTrailingStopOrderStatusAttentionData st m y) = xsTrackedPositionId y \<and>
      xsTargetUnlockedAt (buildTrailingStopOrderStatusAttentionData st m y) = xsTargetUnlockedAt y" for st m y
    by (simp add: buildTrailingStopOrderStatusAttentionData_def buildAttentionClearedData_def buildAttentionRequiredData_def Let_def)
  have "db' = snd (updateStates (\<lambda>y. xsTrackedPositionId y = j) (\<lambda>x. buildTrailingStopOrderStatusAttentionData (normalizeBrokerOrderStatus status) now
        (x\<lparr>xsStatus := mapTrailingStopOrderStatusToExitStateStatus (normalizeBrokerOrderStatus status), xsTrailBroker := Some broker,
           xsTrailBrokerOrderId := Some brokerOrderId, xsTrailClientOrderId := Some c,
           xsTrailOrderStatus := Some (normalizeBrokerOrderStatus status), xsRawBrokerJson := Some raw\<rparr>)) db)"
    using assms(2) unfolding markTrailingStopOrderSubmitted_def updateExitState_def Let_def by (auto split: option.splits)
  then show ?thesis by (simp only:) (rule stuck_states[OF assms(1)], simp add: attention)
qed

lemma stuck_create:
  assumes "stuckTrailingStop account i symbol t db" and "createExitState x db = Inr (y, db')" and "xsTargetUnlockedAt x = None"
  shows "stuckTrailingStop account i symbol t db'"
proof -
  have db': "db' = db\<lparr>xdExitStates := xdExitStates db @ [x\<lparr>xsId := xdNextStateId db\<rparr>], xdNextStateId := xdNextStateId db + 1\<rparr>"
    using assms(2) by (auto simp: createExitState_def Let_def split: if_splits)
  have "List.find P (xs @ [z]) = (case List.find P xs of None \<Rightarrow> if P z then Some z else None | Some w \<Rightarrow> Some w)" for P and xs :: "exitState list" and z
    by (induction xs) auto
  then have "exitStateOf i db' = exitStateOf i db \<or> exitStateOf i db' = Some (x\<lparr>xsId := xdNextStateId db\<rparr>)"
    unfolding exitStateOf_def db' by (simp split: option.split)
  moreover have "positionOf i db' = positionOf i db" "newestIntent a c db' = newestIntent a c db" for a c
    by (simp_all add: db' positionOf_def newestIntent_def)
  ultimately show ?thesis using assms(1,3) unfolding stuckTrailingStop_def recordedUncertain_def by auto
qed

lemma stuck_intents:
  assumes stuck: "stuckTrailingStop account i symbol t db"
    and r: "recordedClassification (Some r) = Some DELIVERY_UNCERTAIN"
  shows "stuckTrailingStop account i symbol t (snd (updateExitIntents P (\<lambda>n. n\<lparr>xiBlockReason := Some r\<rparr>) now db))"
proof -
  have states: "exitStateOf i (snd (updateExitIntents P f now db)) = exitStateOf i db" for f
    by (simp add: exitStateOf_def updateExitIntents_def)
  have "recordedUncertain account i c (snd (updateExitIntents P (\<lambda>n. n\<lparr>xiBlockReason := Some r\<rparr>) now db))"
    if uncertain: "recordedUncertain account i c db" for c
  proof -
    obtain n :: exitIntent where n: "newestIntent account c db = Some n" "xiTrackedPositionId n = Some i"
        "recordedClassification (xiBlockReason n) = Some DELIVERY_UNCERTAIN"
      using uncertain unfolding recordedUncertain_def by blast
    have "newestIntent account c (snd (updateExitIntents P (\<lambda>n. n\<lparr>xiBlockReason := Some r\<rparr>) now db)) =
        Some (if P n then n\<lparr>xiBlockReason := Some r, xiUpdatedAt := now\<rparr> else n)"
      using n(1) by (subst newestIntent_update) simp_all
    then show ?thesis using n r unfolding recordedUncertain_def by simp
  qed
  then show ?thesis using stuck unfolding stuckTrailingStop_def states positionOf_intents by blast
qed

subsection \<open>The attempts are inert\<close>

text \<open>The broker does not know the order.\<close>

definition unknownOrder :: "exitEnv \<Rightarrow> int \<Rightarrow> string \<Rightarrow> bool" where
  "unknownOrder env account clientOrderId \<longleftrightarrow> (\<forall>k order. xeLookup env k account clientOrderId \<noteq> Inr (Some order))"

lemma inconclusive_classification:
  "recordedClassification (Some ''BROKER_WRITE_DELIVERY:DELIVERY_UNCERTAIN:broker lookup remains inconclusive'') = Some DELIVERY_UNCERTAIN"
  using classificationIn_written[of DELIVERY_UNCERTAIN "''broker lookup remains inconclusive''"]
  by (simp add: recordedClassification_def)

lemma recover_inert:
  assumes others: "othersKeep env (stuckTrailingStop account i symbol t)" and unknown: "unknownOrder env account c"
    and claim: "recordedClassification (xiBlockReason n) = Some DELIVERY_UNCERTAIN"
  shows "inertA (stuckTrailingStop account i symbol t) (recoverTrailingStop env k account now p x qty pct c (n, False))"
proof (cases "now - xiUpdatedAt n < PROTECTIVE_SUBMISSION_RECOVERY_BACKOFF_MS")
  case True
  then show ?thesis by (simp add: recoverTrailingStop_def) (intro inertI silent keeping)
next
  case False
  let ?P = "stuckTrailingStop account i symbol t"
  have none: "existing = None" if "exitCall env k (xeLookup env k account c) s = (Inr existing, s')" for existing s s'
    using that unknown unfolding unknownOrder_def exitCall_def by (cases existing) auto
  have written: "keepsA ?P (exitStep env j (\<lambda>db. Inr (updateExitIntents Q (\<lambda>n. n\<lparr>xiBlockReason :=
      Some ''BROKER_WRITE_DELIVERY:DELIVERY_UNCERTAIN:broker lookup remains inconclusive''\<rparr>) m db)))" for j Q m
    by (rule keeps_step[OF others]) (metis stuck_intents inconclusive_classification sum.inject(2) snd_conv)
  show ?thesis
    unfolding recoverTrailingStop_def Let_def case_prod_conv claim
  proof (simp only: False not_False_eq_True simp_thms if_False, rule inert_bind[where R = "\<lambda>existing. existing = None"])
    show "inertA ?P (exitCall env k (xeLookup env k account c))" by (intro inertI silent keeps_call others)
  qed (auto dest: none simp: if_True intro!: inertI silent keeping written)
qed

text \<open>The exit state that an attempt works on was unlocked at the recorded time, when it was unlocked at all.\<close>

definition unlockedThen :: "int \<Rightarrow> exitState \<Rightarrow> bool" where
  "unlockedThen t x \<longleftrightarrow> (\<forall>u. xsTargetUnlockedAt x = Some u \<longrightarrow> u = t)"

lemma stuck_state: "stuckTrailingStop account i symbol t db \<Longrightarrow> exitStateOf i db = Some x \<Longrightarrow> unlockedThen t x"
  unfolding stuckTrailingStop_def unlockedThen_def by blast

lemma new_state: "xsTargetUnlockedAt (withProfile profile (newExitState i)) = None"
  by (simp add: withProfile_def newExitState_def)

lemma ensure_inert:
  assumes others: "othersKeep env (stuckTrailingStop account i symbol t)"
  shows "inertA (stuckTrailingStop account i symbol t) (ensurePositionExitState env k j)"
proof -
  let ?P = "stuckTrailingStop account i symbol t"
  have profiles: "keepsA ?P (exitStep env m (getPositionWithExitProfile j))" for m
    by (rule keeps_step[OF others]) (auto simp: getPositionWithExitProfile_def split: option.splits)
  have created: "keepsA ?P (exitStep env m (createExitState (withProfile profile (newExitState j))))" for m profile
    by (rule keeps_step[OF others]) (rule stuck_create[OF _ _ new_state])
  have "silentA (ensurePositionExitState env k j)"
    unfolding ensurePositionExitState_def by (intro silent) (auto intro!: silent split: option.split)
  moreover have "keepsA ?P (ensurePositionExitState env k j)"
    unfolding ensurePositionExitState_def
    by (intro keeping keeps_read others) (auto intro!: keeping profiles created split: option.split)
  ultimately show ?thesis by (rule inertI)
qed

lemma ensure_state:
  assumes others: "othersKeep env (stuckTrailingStop account i symbol t)" and stuck: "stuckTrailingStop account i symbol t (xwDb s)"
    and run: "ensurePositionExitState env k i s = (Inr x, s')"
  shows "unlockedThen t x"
  using run unfolding ensurePositionExitState_def
proof (cases rule: bindA_cases)
  case (continue existing s1)
  have existing: "existing = exitStateOf i (xeOthers env k (xwDb s))" by (rule read_result[OF continue(1)])
  show ?thesis
  proof (cases existing)
    case (Some y)
    then have "x = y" using continue(2) by (simp add: returnA_def)
    then show ?thesis using stuck_state[OF stuck_others[where k = k, OF others stuck]] existing Some by simp
  next
    case None
    have "bindA (exitStep env (k + 1) (getPositionWithExitProfile i)) (\<lambda>profile.
        exitStep env (k + 2) (createExitState (withProfile profile (newExitState i)))) s1 = (Inr x, s')"
      using continue(2) unfolding None option.case .
    then show ?thesis
    proof (cases rule: bindA_cases)
      case (continue profile s2)
      then have "\<exists>db db'. createExitState (withProfile profile (newExitState i)) db = Inr (x, db')"
        using step_result[OF continue(2)] by blast
      then show ?thesis
        using new_state[of profile i] by (auto simp: createExitState_def Let_def unlockedThen_def split: if_splits)
    qed simp
  qed
qed simp

lemma claim_stuck:
  assumes "stuckTrailingStop account i symbol t db" and "xpId (trPosition row) = i"
    and "claimTrailingStop account row a x pct (buildTrailingStopClientOrderId symbol i t) now db = Inr (claim, db')"
  shows "db' = db \<and> \<not> snd claim \<and> recordedClassification (xiBlockReason (fst claim)) = Some DELIVERY_UNCERTAIN"
proof -
  obtain n :: exitIntent where "newestIntent account (buildTrailingStopClientOrderId symbol i t) db = Some n"
      "xiTrackedPositionId n = Some i" "recordedClassification (xiBlockReason n) = Some DELIVERY_UNCERTAIN"
    using assms(1) unfolding stuckTrailingStop_def recordedUncertain_def by blast
  then show ?thesis using assms(2,3) by (auto simp: claimTrailingStop_def Let_def split: if_splits)
qed

text \<open>What an attempt has read: the position by its symbol, and the exit state.\<close>

definition readRow :: "int \<Rightarrow> string \<Rightarrow> int \<Rightarrow> trailingRow \<Rightarrow> bool" where
  "readRow i symbol t row \<longleftrightarrow> xpId (trPosition row) = i \<and> xpSymbol (trPosition row) = symbol \<and>
     (\<forall>x. trExitState row = Some x \<longrightarrow> unlockedThen t x)"

lemma stuck_row:
  assumes "stuckTrailingStop account i symbol t db" and "trailingRowOf i db = Some row"
  shows "readRow i symbol t row"
proof -
  obtain p where p: "positionOf i db = Some p" and row: "row = \<lparr>trPosition = p, trSubscription = subscriptionOf p db,
      trExitState = exitStateOf i db, trAssignment = assignmentOf p db\<rparr>"
    using assms(2) by (auto simp: trailingRowOf_def)
  have "xpSymbol p = symbol" using assms(1) p unfolding stuckTrailingStop_def by blast
  then show ?thesis using positionOf_id[OF p] stuck_state[OF assms(1)] by (simp add: readRow_def row)
qed

text \<open>The end of an attempt: the order that is recorded already, or the claim and the recovery.\<close>

lemma claimed_inert:
  assumes others: "othersKeep env (stuckTrailingStop account i symbol t)"
    and unknown: "unknownOrder env account (buildTrailingStopClientOrderId symbol i t)"
    and row: "readRow i symbol t row"
  shows "inertA (stuckTrailingStop account i symbol t)
    (bindA (exitStep env k (claimTrailingStop account row a x pct (buildTrailingStopClientOrderId symbol i t) now'))
      (recoverTrailingStop env j account now p x qty pct (buildTrailingStopClientOrderId symbol i t)))"
proof (rule inert_bind[where R = "\<lambda>claim. \<not> snd claim \<and> recordedClassification (xiBlockReason (fst claim)) = Some DELIVERY_UNCERTAIN"])
  let ?P = "stuckTrailingStop account i symbol t"
  have i: "xpId (trPosition row) = i" using row by (simp add: readRow_def)
  have "keepsA ?P (exitStep env k (claimTrailingStop account row a x pct (buildTrailingStopClientOrderId symbol i t) now'))"
    by (rule keeps_step[OF others]) (metis claim_stuck i)
  then show "inertA ?P (exitStep env k (claimTrailingStop account row a x pct (buildTrailingStopClientOrderId symbol i t) now'))"
    by (rule inertI[rotated]) (intro silent)
  show "\<not> snd claim \<and> recordedClassification (xiBlockReason (fst claim)) = Some DELIVERY_UNCERTAIN"
    if stuck: "?P (xwDb s)"
      and run: "exitStep env k (claimTrailingStop account row a x pct (buildTrailingStopClientOrderId symbol i t) now') s = (Inr claim, s')"
    for s claim s'
    using claim_stuck[OF stuck_others[where k = k, OF others stuck] i step_result[OF run]] by simp
  show "inertA ?P (recoverTrailingStop env j account now p x qty pct (buildTrailingStopClientOrderId symbol i t) claim)"
    if "\<not> snd claim \<and> recordedClassification (xiBlockReason (fst claim)) = Some DELIVERY_UNCERTAIN" for claim
    using recover_inert[OF others unknown, of "fst claim"] that by (cases claim) simp
qed

lemma attempt_inert:
  assumes others: "othersKeep env (stuckTrailingStop account i symbol t)"
    and unknown: "unknownOrder env account (buildTrailingStopClientOrderId symbol i t)"
    and row: "readRow i symbol t row" and x: "unlockedThen t x"
  shows "inertA (stuckTrailingStop account i symbol t) (attemptTrailingStop env k account now row a x)"
proof -
  let ?P = "stuckTrailingStop account i symbol t"
  have id: "buildTrailingStopClientOrderId (xpSymbol (trPosition row)) (xpId (trPosition row)) u = buildTrailingStopClientOrderId symbol i t"
    if "xsTargetUnlockedAt x = Some u" for u
    using x row that by (simp add: unlockedThen_def readRow_def)
  have plain: "inertA ?P (returnA y)" "inertA ?P (throwA g)" "inertA ?P (unlessA ok g)" for y g ok by (intro inertI silent keeping)+
  have checked: "inertA ?P (liftA v)" for v by (cases v) (simp_all add: liftA_def, (intro inertI silent keeping)+)
  have marked: "inertA ?P (exitStep env m (markTrailingStopOrderSubmitted j b o' c st raw now'))" for m j b o' c st raw now'
    by (intro inertI silent keeps_step[OF others]) (rule stuck_mark)
  have reads: "inertA ?P (exitRead env m g)" for m and g :: "exitStore \<Rightarrow> exitOrderRow option" by (intro inertI silent keeps_read others)
  show ?thesis
    unfolding attemptTrailingStop_def Let_def
    by (cases "xsTargetUnlockedAt x"; cases "given (xsTrailBrokerOrderId x)"; cases "xsTrailingStopPct x")
      (auto simp: id intro!: inert_bind_any checked reads marked claimed_inert[OF others unknown row] plain split: option.split)
qed

lemma submit_inert:
  assumes others: "othersKeep env (stuckTrailingStop account i symbol t)"
    and unknown: "unknownOrder env account (buildTrailingStopClientOrderId symbol i t)"
  shows "inertA (stuckTrailingStop account i symbol t) (submitTrailingStopExitOrder env k account i now)"
  unfolding submitTrailingStopExitOrder_def
proof (rule inert_bind[where R = "\<lambda>found. \<forall>row. found = Some row \<longrightarrow> readRow i symbol t row"])
  let ?P = "stuckTrailingStop account i symbol t"
  have plain: "inertA ?P (throwA g)" "inertA ?P (returnA y)" "inertA ?P (unlessA ok g)" for g y ok by (intro inertI silent keeping)+
  show "inertA ?P (exitRead env k (trailingRowOf i))" by (intro inertI silent keeps_read others)
  show "\<forall>row. found = Some row \<longrightarrow> readRow i symbol t row"
    if stuck: "?P (xwDb s)" and run: "exitRead env k (trailingRowOf i) s = (Inr found, s')" for s found s'
    using stuck_row[OF stuck_others[where k = k, OF others stuck]] read_result[OF run] by simp
  have tried: "inertA ?P (bindA (case trExitState row of Some x \<Rightarrow> returnA x | None \<Rightarrow> ensurePositionExitState env m (xpId (trPosition row)))
      (attemptTrailingStop env j account now row a))" if row: "readRow i symbol t row" for row a m j
  proof (rule inert_bind[where R = "unlockedThen t"])
    show "inertA ?P (case trExitState row of Some x \<Rightarrow> returnA x | None \<Rightarrow> ensurePositionExitState env m (xpId (trPosition row)))"
      by (cases "trExitState row") (simp_all only: option.case plain ensure_inert[OF others])
    show "unlockedThen t x" if stuck: "?P (xwDb s)"
        and run: "(case trExitState row of Some x \<Rightarrow> returnA x | None \<Rightarrow> ensurePositionExitState env m (xpId (trPosition row))) s = (Inr x, s')" for s x s'
    proof (cases "trExitState row")
      case (Some y)
      then show ?thesis using run row by (simp add: returnA_def readRow_def)
    next
      case None
      then show ?thesis using run row ensure_state[OF others stuck] by (simp add: readRow_def)
    qed
    show "inertA ?P (attemptTrailingStop env j account now row a x)" if "unlockedThen t x" for x
      by (rule attempt_inert[OF others unknown row that])
  qed
  fix found :: "trailingRow option"
  assume found: "\<forall>row. found = Some row \<longrightarrow> readRow i symbol t row"
  show "inertA ?P (case found of
       None \<Rightarrow> throwA (plainError (''Tracked position '' @ showInt i @ '' was not found.''))
     | Some row \<Rightarrow>
       (let p = trPosition row in
        bindA (unlessA (xpTradingAccountId p = Some account) (plainError (''TrackedPosition '' @ showInt (xpId p) @
          '' does not belong to TradingAccount '' @ showInt account @ ''; refusing trailing-stop broker access.''))) (\<lambda>_.
        bindA (unlessA (toLowerCase (xpSide p) = ''long'')
          (plainError ''AI Trader does not automatically cover or manage short exposure.'')) (\<lambda>_.
        case attributedAssignment account row of
          None \<Rightarrow> throwA (plainError (''TrackedPosition '' @ showInt (xpId p) @
            '' has missing or inconsistent account assignment attribution.''))
        | Some a \<Rightarrow>
          bindA (case trExitState row of Some x \<Rightarrow> returnA x | None \<Rightarrow> ensurePositionExitState env (k + 1) (xpId p))
            (attemptTrailingStop env (k + 4) account now row a)))))"
  proof (cases found)
    case None
    then show ?thesis by (simp only: option.case plain)
  next
    case (Some row)
    then have "readRow i symbol t row" using found by blast
    then show ?thesis unfolding Some option.case Let_def
      by (intro inert_bind_any plain) (cases "attributedAssignment account row", simp_all only: option.case plain tried)
  qed
qed

lemma stuck_runs:
  assumes "stuckTrailingStop account i symbol t (xwDb s)"
    and "\<And>env k now. (env, k, now) \<in> set runs \<Longrightarrow> othersKeep env (stuckTrailingStop account i symbol t) \<and>
      unknownOrder env account (buildTrailingStopClientOrderId symbol i t)"
  shows "xwSent (trailingRuns account i runs s) = xwSent s \<and> stuckTrailingStop account i symbol t (xwDb (trailingRuns account i runs s))"
  using assms
proof (induction runs arbitrary: s)
  case (Cons run runs)
  obtain env k now where run: "run = (env, k, now)" by (cases run) auto
  obtain r s1 where s1: "submitTrailingStopExitOrder env k account i now s = (r, s1)"
    by (cases "submitTrailingStopExitOrder env k account i now s") auto
  have first: "xwSent s1 = xwSent s \<and> stuckTrailingStop account i symbol t (xwDb s1)"
    by (rule inertD[OF submit_inert Cons.prems(1) s1]) (use Cons.prems(2) run in auto)
  have "xwSent (trailingRuns account i runs s1) = xwSent s1 \<and> stuckTrailingStop account i symbol t (xwDb (trailingRuns account i runs s1))"
    by (rule Cons.IH) (use first Cons.prems(2) in auto)
  then show ?case using first by (simp add: run s1)
qed simp

text \<open>C25: an uncertain trailing stop is never sent again. Once the newest intent of the protective order has an uncertain
  delivery on record, and as long as the broker does not know the order, no later attempt sends it, whatever the
  faults and the interleaved transactions, and the record stays; so an order that was only blocked, which leaves that record,
  is not tried again.
\<close>
theorem uncertain_trailing_stop_never_sent:
  assumes "stuckTrailingStop account i symbol t (xwDb s)"
    and "\<And>env k now. (env, k, now) \<in> set runs \<Longrightarrow> othersKeep env (stuckTrailingStop account i symbol t) \<and>
      unknownOrder env account (buildTrailingStopClientOrderId symbol i t)"
  shows "xwSent (trailingRuns account i runs s) = xwSent s \<and> stuckTrailingStop account i symbol t (xwDb (trailingRuns account i runs s))"
  using stuck_runs[where runs = runs and s = s and account = account and i = i and symbol = symbol and t = t] assms by blast

theorem uncertain_trailing_stop_never_sent_witness:
  "xwSent (trailingRuns 1 7 [(exampleEnv, 0, 0), (exampleEnv, 0, 3600000)]
     (exampleTrailingWorld (Some ''BROKER_WRITE_DELIVERY:DELIVERY_UNCERTAIN:broker lookup remains inconclusive''))) = []"
proof -
  let ?reason = "Some ''BROKER_WRITE_DELIVERY:DELIVERY_UNCERTAIN:broker lookup remains inconclusive''"
  have "xiTrackedPositionId (exampleTrailing ?reason) = Some 7" "xiBlockReason (exampleTrailing ?reason) = ?reason"
    by (simp_all add: exampleTrailing_def)
  then have "recordedUncertain 1 7 (buildTrailingStopClientOrderId ''spy'' 7 0) (xwDb (exampleTrailingWorld ?reason))"
    unfolding recordedUncertain_def using exampleTrailing_newest inconclusive_classification by metis
  moreover have "\<forall>p. positionOf 7 (xwDb (exampleTrailingWorld ?reason)) = Some p \<longrightarrow> xpSymbol p = ''spy''"
    by (simp add: positionOf_def exampleTrailingWorld_def exampleStore_def)
  moreover have "\<forall>x t. exitStateOf 7 (xwDb (exampleTrailingWorld ?reason)) = Some x \<and> xsTargetUnlockedAt x = Some t \<longrightarrow> t = 0"
    by (simp add: exitStateOf_def exampleTrailingWorld_def newExitState_def)
  ultimately have stuck: "stuckTrailingStop 1 7 ''spy'' 0 (xwDb (exampleTrailingWorld ?reason))"
    unfolding stuckTrailingStop_def by blast
  have runs: "othersKeep env (stuckTrailingStop 1 7 ''spy'' 0) \<and> unknownOrder env 1 (buildTrailingStopClientOrderId ''spy'' 7 0)"
    if "(env, k, now) \<in> set [(exampleEnv, 0, 0), (exampleEnv, 0, 3600000)]" for env and k :: nat and now :: int
    using that by (auto simp: othersKeep_def unknownOrder_def exampleEnv_def)
  have "xwSent (exampleTrailingWorld ?reason) = []" by (simp add: exampleTrailingWorld_def exampleWorld_def)
  moreover have "xwSent (trailingRuns 1 7 [(exampleEnv, 0, 0), (exampleEnv, 0, 3600000)] (exampleTrailingWorld ?reason)) =
      xwSent (exampleTrailingWorld ?reason) \<and>
      stuckTrailingStop 1 7 ''spy'' 0 (xwDb (trailingRuns 1 7 [(exampleEnv, 0, 0), (exampleEnv, 0, 3600000)] (exampleTrailingWorld ?reason)))"
    by (rule uncertain_trailing_stop_never_sent[OF stuck]) (rule runs)
  ultimately show ?thesis by (simp only:)
qed

end
