(* ===== verification/ExitInvariant.thy ===== *)
theory ExitInvariant
  imports EvaluatorSafety TrailingSafety
begin

text \<open>
  The invariant of the exit states: one per position, with consistent attention, trailing-order and target columns, kept by
  every operation of the exit path and by the whole evaluation of an account.
\<close>

subsection \<open>The invariant\<close>

definition attentionOk :: "exitState \<Rightarrow> bool" where
  "attentionOk x =
     (if xsAttentionRequired x
      then xsAttentionCode x \<noteq> None \<and> xsAttentionMessage x \<noteq> None \<and> xsAttentionAt x \<noteq> None \<and> xsAttentionClearedAt x = None
      else xsAttentionCode x = None \<and> xsAttentionMessage x = None \<and> xsAttentionAt x = None)"

text \<open>A linked broker order has a client order, a client order its status; an unlocked target has its time, trail and mark.\<close>

definition orderOk :: "exitState \<Rightarrow> bool" where
  "orderOk x \<longleftrightarrow>
     (xsTrailBrokerOrderId x \<noteq> None \<longrightarrow> xsTrailClientOrderId x \<noteq> None) \<and>
     (xsTrailClientOrderId x \<noteq> None \<longrightarrow> xsTrailBroker x \<noteq> None \<and> xsTrailOrderStatus x \<noteq> None) \<and>
     (xsTargetUnlocked x \<longrightarrow> xsTargetUnlockedAt x \<noteq> None \<and> xsTrailingStopPct x \<noteq> None \<and> xsHighWaterMark x \<noteq> None)"

definition exitStateOk :: "exitState \<Rightarrow> bool" where
  "exitStateOk x \<longleftrightarrow> attentionOk x \<and> orderOk x"

definition statesOk :: "exitStore \<Rightarrow> bool" where
  "statesOk db \<longleftrightarrow> distinct (map xsTrackedPositionId (xdExitStates db)) \<and> (\<forall>x\<in>set (xdExitStates db). exitStateOk x)"

lemma ok_same: "statesOk db \<Longrightarrow> xdExitStates db' = xdExitStates db \<Longrightarrow> statesOk db'"
  by (simp add: statesOk_def)

lemma ok_update:
  assumes "statesOk db" and f: "\<And>x. exitStateOk x \<Longrightarrow> P x \<Longrightarrow> exitStateOk (f x) \<and> xsTrackedPositionId (f x) = xsTrackedPositionId x"
  shows "statesOk (snd (updateStates P f db))"
proof -
  have ok: "\<forall>x\<in>set (xdExitStates db). exitStateOk x" and distinct: "distinct (map xsTrackedPositionId (xdExitStates db))"
    using assms(1) by (simp_all add: statesOk_def)
  have ids: "map xsTrackedPositionId (map (\<lambda>x. if P x then f x else x) (xdExitStates db)) = map xsTrackedPositionId (xdExitStates db)"
    using ok f by simp
  have oks: "\<forall>x\<in>set (map (\<lambda>x. if P x then f x else x) (xdExitStates db)). exitStateOk x"
    using ok f by auto
  have states: "xdExitStates (snd (updateStates P f db)) = map (\<lambda>x. if P x then f x else x) (xdExitStates db)"
    by (simp add: updateStates_def)
  show ?thesis unfolding statesOk_def states ids using distinct oks ..
qed

lemma ok_updateExitState:
  assumes "updateExitState i f db = Inr (x, db')" and "statesOk db"
    and "\<And>x. exitStateOk x \<Longrightarrow> exitStateOk (f x) \<and> xsTrackedPositionId (f x) = xsTrackedPositionId x"
  shows "statesOk db'"
proof -
  have "db' = snd (updateStates (\<lambda>y. xsTrackedPositionId y = i) f db)"
    using assms(1) by (auto simp: updateExitState_def split: option.splits)
  then show ?thesis using ok_update[OF assms(2), of "\<lambda>y. xsTrackedPositionId y = i" f] assms(3) by simp
qed

lemma ok_create:
  assumes "createExitState x db = Inr (y, db')" and "statesOk db" and "exitStateOk x"
  shows "statesOk db'"
proof -
  have new: "exitStateOf (xsTrackedPositionId x) db = None"
    and db': "xdExitStates db' = xdExitStates db @ [x\<lparr>xsId := xdNextStateId db\<rparr>]"
    using assms(1) by (auto simp: createExitState_def Let_def split: if_splits)
  have "xsTrackedPositionId x \<notin> set (map xsTrackedPositionId (xdExitStates db))"
    using new by (auto simp: exitStateOf_def find_None_iff)
  then show ?thesis using assms(2,3) unfolding statesOk_def db' by (auto simp: exitStateOk_def attentionOk_def orderOk_def)
qed

subsection \<open>The operations\<close>

lemma ok_attention [simp]:
  "exitStateOk (buildAttentionRequiredData code message now x) \<longleftrightarrow> orderOk x"
  "exitStateOk (buildAttentionClearedData now x) \<longleftrightarrow> orderOk x"
  by (simp_all add: exitStateOk_def attentionOk_def orderOk_def buildAttentionRequiredData_def buildAttentionClearedData_def)

lemma ok_order_attention [simp]: "exitStateOk (buildTrailingStopOrderStatusAttentionData status now x) \<longleftrightarrow> orderOk x"
  unfolding buildTrailingStopOrderStatusAttentionData_def Let_def by (simp split: if_split)

lemma ok_order: "exitStateOk x \<Longrightarrow> orderOk x"
  by (simp add: exitStateOk_def)

lemma tracked_attention [simp]:
  "xsTrackedPositionId (buildAttentionRequiredData code message now x) = xsTrackedPositionId x"
  "xsTrackedPositionId (buildAttentionClearedData now x) = xsTrackedPositionId x"
  "xsTrackedPositionId (buildTrailingStopOrderStatusAttentionData status now x) = xsTrackedPositionId x"
  by (simp_all add: buildAttentionRequiredData_def buildAttentionClearedData_def buildTrailingStopOrderStatusAttentionData_def Let_def)

lemma ok_new [simp]: "exitStateOk (newExitState i)" "exitStateOk (withProfile profile (newExitState i))"
  by (simp_all add: exitStateOk_def attentionOk_def orderOk_def newExitState_def withProfile_def)

text \<open>The operations that end in an update or a creation.\<close>

lemma ok_operations:
  assumes "statesOk db"
  shows "unlockTrailingStopExitState i price pnl target pct now db = Inr (x, db1) \<Longrightarrow> statesOk db1"
    and "markTrailingStopOrderSubmitted i broker b c status raw now db = Inr (x, db2) \<Longrightarrow> statesOk db2"
    and "markTrailingStopOrderSubmitFailed i raw now db = Inr (x, db3) \<Longrightarrow> statesOk db3"
    and "markPositionExitStateAttentionRequired i code message now db = Inr (x, db4) \<Longrightarrow> statesOk db4"
    and "markPositionExitStateClosed i payload now db = Inr (x, db5) \<Longrightarrow> statesOk db5"
    and "statesOk (snd (syncTrailingStopOrderStatus account c b' status raw now db))"
    and "claimTrailingStop account row a y pct c now db = Inr (claim, db6) \<Longrightarrow> statesOk db6"
proof -
  show "unlockTrailingStopExitState i price pnl target pct now db = Inr (x, db1) \<Longrightarrow> statesOk db1"
    unfolding unlockTrailingStopExitState_def by (erule ok_updateExitState[OF _ assms]) (simp add: exitStateOk_def attentionOk_def orderOk_def)
  show "markTrailingStopOrderSubmitted i broker b c status raw now db = Inr (x, db2) \<Longrightarrow> statesOk db2"
    unfolding markTrailingStopOrderSubmitted_def Let_def by (erule ok_updateExitState[OF _ assms]) (auto dest!: ok_order simp: orderOk_def)
  show "markTrailingStopOrderSubmitFailed i raw now db = Inr (x, db3) \<Longrightarrow> statesOk db3"
    unfolding markTrailingStopOrderSubmitFailed_def by (erule ok_updateExitState[OF _ assms]) (auto dest!: ok_order simp: orderOk_def)
  show "markPositionExitStateAttentionRequired i code message now db = Inr (x, db4) \<Longrightarrow> statesOk db4"
    unfolding markPositionExitStateAttentionRequired_def by (erule ok_updateExitState[OF _ assms]) (auto dest!: ok_order simp: orderOk_def)
  have closed: "exitStateOk (case payload of None \<Rightarrow> buildAttentionClearedData now (z\<lparr>xsStatus := ''closed''\<rparr>)
      | Some j \<Rightarrow> (buildAttentionClearedData now (z\<lparr>xsStatus := ''closed''\<rparr>))\<lparr>xsRawBrokerJson := Some j\<rparr>) \<and>
      xsTrackedPositionId (case payload of None \<Rightarrow> buildAttentionClearedData now (z\<lparr>xsStatus := ''closed''\<rparr>)
      | Some j \<Rightarrow> (buildAttentionClearedData now (z\<lparr>xsStatus := ''closed''\<rparr>))\<lparr>xsRawBrokerJson := Some j\<rparr>) = xsTrackedPositionId z"
    if "exitStateOk z" for z
    using that by (auto simp: exitStateOk_def attentionOk_def orderOk_def buildAttentionClearedData_def split: option.split)
  show "statesOk db5" if run: "markPositionExitStateClosed i payload now db = Inr (x, db5)"
  proof (cases "exitStateOf i db = None")
    case True
    show ?thesis
      by (rule ok_create[OF run[unfolded markPositionExitStateClosed_def Let_def if_P[OF True]] assms]) (simp add: closed)
  next
    case False
    show ?thesis
      by (rule ok_updateExitState[OF run[unfolded markPositionExitStateClosed_def Let_def if_not_P[OF False]] assms]) (simp add: closed)
  qed
  show "statesOk (snd (syncTrailingStopOrderStatus account c b' status raw now db))"
    unfolding syncTrailingStopOrderStatus_def Let_def
    by (rule ok_update[OF assms]) (auto dest!: ok_order simp: orderOk_def split: option.split)
  show "claimTrailingStop account row a y pct c now db = Inr (claim, db6) \<Longrightarrow> statesOk db6"
  proof -
    assume run: "claimTrailingStop account row a y pct c now db = Inr (claim, db6)"
    have "statesOk (snd (updateStates (\<lambda>y. xsTrackedPositionId y = xpId (trPosition row) \<and> xsTrailBrokerOrderId y = None \<and> xsTrailClientOrderId y = None)
        (\<lambda>y. y\<lparr>xsStatus := ''trailing_stop_submitting'', xsTrailBroker := Some ''alpaca'',
           xsTrailClientOrderId := Some c, xsTrailOrderStatus := Some ''pending_submit''\<rparr>) db))"
      by (rule ok_update[OF assms]) (simp add: exitStateOk_def attentionOk_def orderOk_def)
    then show "statesOk db6" using run assms
      by (auto simp: claimTrailingStop_def Let_def createExitIntent_def statesOk_def split: option.splits if_splits prod.splits)
  qed
qed

subsection \<open>Sequences of operations\<close>

text \<open>The operations of the service as steps on the tables; one that throws changes nothing.\<close>

datatype exitStateOp =
    CreateState "exitProfile option" int
  | ResetState "exitProfile option" int
  | UnlockTarget int jsnum jsnum jsnum jsnum int
  | MarkSubmitted int string string string string json int
  | MarkSubmitFailed int json int
  | MarkClosed int "json option" int
  | SyncOrder int string "string option" string json int
  | RequireAttention int string string int

definition stepped :: "exitStore \<Rightarrow> (exitState \<times> exitStore) result \<Rightarrow> exitStore" where
  "stepped db r = (case r of Inl e \<Rightarrow> db | Inr (x, db') \<Rightarrow> db')"

fun applyStateOp :: "exitStateOp \<Rightarrow> exitStore \<Rightarrow> exitStore" where
  "applyStateOp (CreateState profile i) db = stepped db (createExitState (withProfile profile (newExitState i)) db)"
| "applyStateOp (ResetState profile i) db = stepped db (updateExitState i (resetState profile) db)"
| "applyStateOp (UnlockTarget i price pnl target pct now) db = stepped db (unlockTrailingStopExitState i price pnl target pct now db)"
| "applyStateOp (MarkSubmitted i broker b c status raw now) db = stepped db (markTrailingStopOrderSubmitted i broker b c status raw now db)"
| "applyStateOp (MarkSubmitFailed i raw now) db = stepped db (markTrailingStopOrderSubmitFailed i raw now db)"
| "applyStateOp (MarkClosed i payload now) db = stepped db (markPositionExitStateClosed i payload now db)"
| "applyStateOp (SyncOrder account c b status raw now) db = snd (syncTrailingStopOrderStatus account c b status raw now db)"
| "applyStateOp (RequireAttention i code message now) db = stepped db (markPositionExitStateAttentionRequired i code message now db)"

lemma ok_resetState: "exitStateOk (resetState profile x) \<and> xsTrackedPositionId (resetState profile x) = xsTrackedPositionId x"
  by (simp add: resetState_def exitStateOk_def attentionOk_def orderOk_def withProfile_def newExitState_def)

lemma ok_stepped: "statesOk db \<Longrightarrow> (\<And>x db'. r = Inr (x, db') \<Longrightarrow> statesOk db') \<Longrightarrow> statesOk (stepped db r)"
  by (auto simp: stepped_def split: sum.split)

lemma ok_step:
  assumes ok: "statesOk db"
  shows "statesOk (applyStateOp op db)"
proof (cases op)
  case (CreateState profile i)
  show ?thesis unfolding CreateState applyStateOp.simps by (rule ok_stepped[OF ok]) (rule ok_create[OF _ ok ok_new(2)])
next
  case (ResetState profile i)
  show ?thesis unfolding ResetState applyStateOp.simps
    by (rule ok_stepped[OF ok]) (rule ok_updateExitState[where f = "resetState profile", OF _ ok], auto simp: ok_resetState)
next
  case (UnlockTarget i price pnl target pct now)
  show ?thesis unfolding UnlockTarget applyStateOp.simps by (rule ok_stepped[OF ok]) (erule ok_operations(1)[OF ok])
next
  case (MarkSubmitted i broker b c status raw now)
  show ?thesis unfolding MarkSubmitted applyStateOp.simps by (rule ok_stepped[OF ok]) (erule ok_operations(2)[OF ok])
next
  case (MarkSubmitFailed i raw now)
  show ?thesis unfolding MarkSubmitFailed applyStateOp.simps by (rule ok_stepped[OF ok]) (erule ok_operations(3)[OF ok])
next
  case (MarkClosed i payload now)
  show ?thesis unfolding MarkClosed applyStateOp.simps by (rule ok_stepped[OF ok]) (erule ok_operations(5)[OF ok])
next
  case (SyncOrder account c b status raw now)
  show ?thesis unfolding SyncOrder applyStateOp.simps by (rule ok_operations(6)[OF ok])
next
  case (RequireAttention i code message now)
  show ?thesis unfolding RequireAttention applyStateOp.simps by (rule ok_stepped[OF ok]) (erule ok_operations(4)[OF ok])
qed

interpretation exitStates: opMachine applyStateOp "\<lambda>_. True" statesOk
  by unfold_locales (rule ok_step)

subsection \<open>The workflows\<close>

lemma states_writes [simp]:
  "xdExitStates (snd (updateExitIntents P f now db)) = xdExitStates db"
  "xdExitStates (snd (updatePositions Q g db)) = xdExitStates db"
  "xdExitStates (snd (updateOrders R h db)) = xdExitStates db"
  "xdExitStates (snd (createExitIntent n now db)) = xdExitStates db"
  "xdExitStates (releaseClose p m statuses status reason now db) = xdExitStates db"
  by (simp_all add: updateExitIntents_def updatePositions_def updateOrders_def createExitIntent_def releaseClose_def Let_def)

lemma states_saveOrder: "saveOrder existing b db = Inr (x, db') \<Longrightarrow> xdExitStates db' = xdExitStates db"
  by (auto simp: saveOrder_def split: if_splits option.splits)

lemma states_persistClose: "persistClose p account n order now db = Inr (x, db') \<Longrightarrow> xdExitStates db' = xdExitStates db"
  by (auto simp: persistClose_def Let_def bindR_Inr_iff states_saveOrder)

lemma states_claimClose: "claimClose i mode now db = Inr (x, db') \<Longrightarrow> xdExitStates db' = xdExitStates db"
  by (auto simp: claimClose_def Let_def updatePositions_def createExitIntent_def split: option.splits if_splits prod.splits)

lemma ok_pure:
  assumes "othersKeep env statesOk" and "\<And>db. xdExitStates (snd (g db)) = xdExitStates db"
  shows "keepsA statesOk (exitStep env k (\<lambda>db. Inr (g db)))"
proof (rule keeps_step[OF assms(1)])
  fix db x db'
  assume "statesOk db" and "(Inr (g db) :: (_ \<times> exitStore) result) = Inr (x, db')"
  then show "statesOk db'" using assms(2)[of db] ok_same by auto
qed

lemma ok_submit: "othersKeep env statesOk \<Longrightarrow> keepsA statesOk (submitVerifiedExit env k cx)"
  by (rule submitVerifiedExit_keeps) (auto intro: ok_same)

lemma ok_close:
  assumes others: "othersKeep env statesOk"
  shows "keepsA statesOk (closePosition env k i mode)"
proof -
  note calls = keeping keeps_call[OF others] keeps_effect[OF others] keeps_read[OF others]
  have claim: "keepsA statesOk (exitStep env k (claimClose i mode now))" for now
    by (rule keeps_step[OF others]) (auto intro: ok_same dest: states_claimClose)
  have submit: "keepsA statesOk (submitClose env j cx n)" for j cx n
    by (rule submitClose_keeps[OF others]) (auto intro: ok_same)
  have failed: "keepsA statesOk (closeFailed env j p n e)" for j p n e
    unfolding closeFailed_def Let_def by (intro calls ok_pure others) simp_all
  have persist: "keepsA statesOk (exitStep env j (persistClose p a n order now))" for j p a n order now
    by (rule keeps_step[OF others]) (auto intro: ok_same dest: states_persistClose)
  have "keepsA statesOk (\<lambda>s. (Inr (), s\<lparr>xwCoordinator := f s\<rparr>))" for f by (simp add: keepsA_iff)
  then have finished: "keepsA statesOk (closeDone env j p a n order)" for j p a n order
    unfolding closeDone_def by (intro calls persist)
  show ?thesis unfolding closePosition_def Let_def
    by (intro calls claim) (auto intro!: calls submit failed finished split: prod.split sum.split)
qed

lemma ok_ensure:
  assumes others: "othersKeep env statesOk"
  shows "keepsA statesOk (ensurePositionExitState env k i)"
proof -
  have profiles: "keepsA statesOk (exitStep env m (getPositionWithExitProfile i))" for m
    by (rule keeps_step[OF others]) (auto simp: getPositionWithExitProfile_def split: option.splits)
  have created: "keepsA statesOk (exitStep env m (createExitState (withProfile profile (newExitState i))))" for m profile
    by (rule keeps_step[OF others]) (rule ok_create[OF _ _ ok_new(2)])
  show ?thesis unfolding ensurePositionExitState_def
    by (intro keeping keeps_read others) (auto intro!: keeping profiles created split: option.split)
qed

lemma ok_persist:
  assumes others: "othersKeep env statesOk"
  shows "keepsA statesOk (persistTrailingStopOrder env k account i c order)"
proof -
  note calls = keeping keeps_read[OF others] ok_pure[OF others]
  have saved: "keepsA statesOk (exitStep env j (saveOrder existing b))" for j existing b
    by (rule keeps_step[OF others]) (auto intro: ok_same dest: states_saveOrder)
  have marked: "keepsA statesOk (exitStep env j (markTrailingStopOrderSubmitted i' broker b c' status raw now))" for j i' broker b c' status raw now
    by (rule keeps_step[OF others]) (rule ok_operations(2))
  show ?thesis unfolding persistTrailingStopOrder_def Let_def
    by (intro calls) (auto intro!: calls saved marked split: option.split)
qed

lemma ok_trailing:
  assumes others: "othersKeep env statesOk"
  shows "keepsA statesOk (submitTrailingStopExitOrder env k account i now)"
proof -
  note calls = keeping keeps_call[OF others] keeps_effect[OF others] keeps_read[OF others] ok_pure[OF others] ok_persist[OF others]
    ok_submit[OF others] ok_ensure[OF others]
  have recorded: "keepsA statesOk (recordTrailingFailure env j n c e)" for j n c e
    unfolding recordTrailingFailure_def by (intro calls) simp_all
  have failed: "keepsA statesOk (trailingFailed env j a i' c n e)" for j a i' c n e
    unfolding trailingFailed_def Let_def by (intro calls recorded) (auto intro!: calls recorded split: sum.split option.split)
  have "keepsA statesOk (\<lambda>s. (Inr (), s\<lparr>xwCoordinator := f s\<rparr>))" for f by (simp add: keepsA_iff)
  then have finished: "keepsA statesOk (trailingDone env j a i' c n order)" for j a i' c n order
    unfolding trailingDone_def by (intro calls) simp_all
  have sent: "keepsA statesOk (sendTrailingStop env j a p x qty pct c n)" for j a p x qty pct c n
    unfolding sendTrailingStop_def Let_def
    by (intro calls failed) (auto intro!: calls finished split: sum.split verifiedExitSubmissionResult.split)
  have recovered: "keepsA statesOk (recoverTrailingStop env j a m p x qty pct c claim)" for j a m p x qty pct c claim
    unfolding recoverTrailingStop_def Let_def by (cases claim) (auto intro!: calls sent split: option.split)
  have claimed: "keepsA statesOk (exitStep env j (claimTrailingStop a row as x pct c m))" for j a row as x pct c m
    by (rule keeps_step[OF others]) (rule ok_operations(7))
  have marked: "keepsA statesOk (exitStep env j (markTrailingStopOrderSubmitted i' broker b c' status raw m))" for j i' broker b c' status raw m
    by (rule keeps_step[OF others]) (rule ok_operations(2))
  have lifted: "keepsA statesOk (liftA v)" for v by (cases v) (simp_all add: liftA_def keeping)
  have attempted: "keepsA statesOk (attemptTrailingStop env j a m row as x)" for j a m row as x
    unfolding attemptTrailingStop_def Let_def
    by (intro calls) (auto intro!: calls lifted marked claimed recovered split: option.split)
  show ?thesis unfolding submitTrailingStopExitOrder_def Let_def
    by (intro calls) (auto intro!: calls attempted split: option.split)
qed

text \<open>The runs that count: the tables are kept when those of every part are.\<close>

definition keepsC :: "('c, 'a) counting \<Rightarrow> bool" where
  "keepsC = keepsR (\<lambda>(s, c). statesOk (xwDb s))"

named_theorems countKeeping \<open>counting actions that keep the invariant\<close>

lemma keepsC_bind [countKeeping]: "keepsC m \<Longrightarrow> (\<And>x. keepsC (f x)) \<Longrightarrow> keepsC (bindA m f)"
  unfolding keepsC_def by (rule keepsR_bind)

lemma keepsC_catch [countKeeping]: "keepsC m \<Longrightarrow> (\<And>e. keepsC (h e)) \<Longrightarrow> keepsC (catchA m h)"
  unfolding keepsC_def by (rule keepsR_catch)

lemma keepsC_return [countKeeping]: "keepsC (returnA x)" "keepsC (throwA e)" "keepsC (unlessA ok e)"
  unfolding keepsC_def by (rule keepsR_return)+

lemma keepsC_run: "keepsA statesOk m \<Longrightarrow> keepsC (runA m)"
  unfolding keepsC_def keepsR_def runA_def by (auto dest: exitKeepsD split: prod.splits)

lemma keepsC_count [countKeeping]: "keepsC (countA f)" "keepsC skipA" "keepsC signalA" "keepsC closeIntentA" "keepsC blockedExitA"
  by (simp_all add: keepsC_def keepsR_def countA_def skipA_def signalA_def closeIntentA_def blockedExitA_def)

lemma keepsC_if [countKeeping]: "keepsC m \<Longrightarrow> keepsC m' \<Longrightarrow> keepsC (if b then m else m')"
  by simp

lemma keepsC_D: "keepsC m \<Longrightarrow> statesOk (xwDb s) \<Longrightarrow> m (s, c) = (r, (s', c')) \<Longrightarrow> statesOk (xwDb s')"
  unfolding keepsC_def by (drule keepsR_D[of _ _ "(s, c)"]) auto

lemma ok_sync:
  assumes others: "othersKeep env statesOk"
  shows "keepsC (syncProtectiveOrders env k account rows)"
proof -
  have marked: "keepsA statesOk (exitStep env j (markPositionExitStateAttentionRequired i code message now))" for j i code message now
    by (rule keeps_step[OF others]) (rule ok_operations(4))
  have synced: "keepsA statesOk (exitStep env j (\<lambda>db. Inr (syncTrailingStopOrderStatus account c b status raw now db)))" for j c b status raw now
    by (rule keeps_step[OF others]) (metis ok_operations(6) sum.inject(2) snd_conv)
  note calls = countKeeping keepsC_run keeps_call[OF others] ok_pure[OF others] marked synced
  have one: "keepsC (syncProtectiveOrder env j account row)" for j row
    unfolding syncProtectiveOrder_def Let_def by (cases row) (auto intro!: calls split: option.split)
  show ?thesis by (induction rows arbitrary: k) (auto intro!: countKeeping one)
qed

lemma ok_evaluate:
  assumes others: "othersKeep env statesOk"
  shows "keepsC (evaluatePositions env k account rows)"
proof -
  note calls = countKeeping keepsC_run keeps_effect[OF others] ok_ensure[OF others] ok_trailing[OF others] ok_close[OF others]
  have failed: "keepsA statesOk (exitStep env j (markTrailingStopOrderSubmitFailed i raw now))" for j i raw now
    by (rule keeps_step[OF others]) (rule ok_operations(3))
  have unlocked: "keepsA statesOk (exitStep env j (unlockTrailingStopExitState i price pnl target pct now))" for j i price pnl target pct now
    by (rule keeps_step[OF others]) (rule ok_operations(1))
  have protective: "keepsC (submitProtective env j a i)" for j a i
    unfolding submitProtective_def Let_def by (intro calls failed)
  have trailing: "keepsC (evaluateUnlockTrailing env j a p state profile)" for j a p state profile
    unfolding evaluateUnlockTrailing_def
    by (intro calls) (auto intro!: calls unlocked protective split: option.split prod.split)
  have closed: "keepsC (evaluateClose env j p profile)" for j p profile
    unfolding evaluateClose_def by (intro calls)
  have one: "keepsC (evaluatePosition env j account row)" for j row
    unfolding evaluatePosition_def Let_def
    by (intro calls) (auto intro!: calls trailing closed split: option.split prod.split)
  show ?thesis by (induction rows arbitrary: k) (auto simp: Let_def intro!: countKeeping one)
qed

lemma ok_observe: "othersKeep env statesOk \<Longrightarrow> keepsC (observePositions env k observed rows)"
  by (induction rows arbitrary: k) (auto intro!: countKeeping keepsC_run keeps_effect)

lemma ok_result: "keepsC m \<Longrightarrow> keepsA statesOk (resultCounts m counts)"
  unfolding keepsA_iff resultCounts_def by (auto dest: keepsC_D split: prod.splits sum.splits)

lemma ok_syncAccount: "othersKeep env statesOk \<Longrightarrow> keepsA statesOk (syncProtectiveOrdersForAccount env k account)"
  unfolding syncProtectiveOrdersForAccount_def by (intro keeps_bind keeps_read ok_result ok_sync)

lemma ok_authorized:
  assumes others: "othersKeep env statesOk"
  shows "keepsC (evaluateAuthorized env k assess observed account environment rows)"
  unfolding evaluateAuthorized_def Let_def
  by (auto intro!: countKeeping keepsC_run keeps_call[OF others] keeps_effect[OF others] ok_evaluate[OF others] ok_observe[OF others]
      split: prod.split)

lemma ok_account:
  "othersKeep env statesOk \<Longrightarrow> keepsA statesOk (evaluateExitsForAccount env k assess observed account environment)"
  unfolding evaluateExitsForAccount_def by (intro keeps_bind keeps_read ok_syncAccount ok_result ok_authorized)

lemma ok_reset:
  assumes others: "othersKeep env statesOk"
  shows "keepsA statesOk (resetPositionExitStateForOpenPosition env k i)"
proof -
  have profiles: "keepsA statesOk (exitStep env m (getPositionWithExitProfile i))" for m
    by (rule keeps_step[OF others]) (auto simp: getPositionWithExitProfile_def split: option.splits)
  have written: "keepsA statesOk (exitStep env m (\<lambda>db.
       if exitStateOf i db = None then createExitState (withProfile profile (newExitState i)) db
       else updateExitState i (resetState profile) db))" for m profile
    by (rule keeps_step[OF others]) (metis ok_create ok_new(2) ok_updateExitState ok_resetState)
  show ?thesis unfolding resetPositionExitStateForOpenPosition_def by (intro keeps_bind profiles written)
qed

text \<open>C26: the exit states stay well formed. Any sequence of the operations on exit states, and, as long as the other
  transactions keep them so, the evaluation of an account with the synchronization of its protective orders, its closes and
  its trailing stops, every error and every fault, leave one exit state per position, whose attention, order and target
  columns agree; so does the reset.
\<close>
theorem exit_states_wellformed:
  assumes "statesOk (xwDb s)" and "othersKeep env statesOk"
  shows "statesOk (fold applyStateOp ops (xwDb s)) \<and>
    statesOk (xwDb (snd (evaluateExitsForAccount env k assess observed account environment s))) \<and>
    statesOk (xwDb (snd (resetPositionExitStateForOpenPosition env k i s)))"
proof -
  have "list_all (\<lambda>_. True) ops" by (simp add: list_all_iff)
  then show ?thesis
    using exitStates.run_holds[OF assms(1)] exitKeepsD[OF ok_account[OF assms(2)] assms(1) prod.collapse[symmetric]]
      exitKeepsD[OF ok_reset[OF assms(2)] assms(1) prod.collapse[symmetric]] by blast
qed

theorem exit_states_wellformed_witness:
  "statesOk (xwDb (snd (evaluateExitsForAccount exampleEnv 0 (\<lambda>a. Inr (''AUTHORIZED'', [])) (\<lambda>i. False) 1 ''PAPER'' (exampleTrailingWorld None))))"
proof -
  have others: "othersKeep exampleEnv statesOk" by (simp add: othersKeep_def exampleEnv_def)
  have ok: "statesOk (xwDb (exampleTrailingWorld None))"
    by (simp add: statesOk_def exampleTrailingWorld_def exitStateOk_def attentionOk_def orderOk_def newExitState_def)
  show ?thesis using exit_states_wellformed[OF ok others] by blast
qed

end
