(* ===== verification/Spec2Isabelle.thy ===== *)
theory Spec2Isabelle
  imports LifecycleStatus CivilTime RuntimeConfig OrderRiskSafety PollingSafety MarketCalendar EntrySizing SweepSafety
    ExitInvariant
begin

text \<open>
  Verification of the entry path and the exit path of the ai-trader backend (\<open>src/src\<close>,
  TypeScript on Express, Prisma and PostgreSQL). An entry is a BUY order that opens a position. It is
  sized from a reference price, admitted by the risk gate, owns an exposure claim of its account and
  security, crosses the broker boundary at most once, and its claim is released only on
  evidence. An exit is a SELL order that closes a position: a close at its target or its stop loss, or
  a protective trailing stop; it is sent only when the broker confirms the position exactly. Each theory below models one service; the safety theories hold what the services
  guarantee together. File names are relative to \<open>src/src/services\<close> unless they say otherwise.

  \<^bold>\<open>Foundations.\<close> \<open>Prelude\<close> has the string functions of JavaScript on ASCII text and generic
  lemmas. \<open>JsNumber\<close> has the numbers of JavaScript: doubles as rationals with rounding to 53
  bits, infinities and NaN; subnormals are rounded like other numbers and there is one zero.
  \<open>JsonValue\<close> and \<open>JsText\<close> have JSON values, their text, the errors that services throw and
  the composition of fallible steps. \<open>CivilTime\<close> and \<open>DateText\<close> have civil dates, printed and
  parsed dates, and time zones: a zone is a parameter that gives the offset at an instant; its
  locale \<open>dayZone\<close> states the laws that the entry window and the calendar rely on, interpreted
  on the US eastern zone. \<open>Store\<close> has the rows of the tables that are read (\<open>prisma/schema.prisma\<close>).

  \<^bold>\<open>Prices and sizing.\<close> \<open>MarketCalendar\<close> is \<open>market-calendar.ts\<close> (dates, ranges, sessions with
  exceptions, bar eligibility); \<open>TradingSession\<close> adds the facts on sessions of a zone.
  \<open>ReferencePrice\<close> is \<open>trading-reference-price.policy.ts\<close> and \<open>trading-reference-price.service.ts\<close>;
  the calendar and the provider are parameters. \<open>EntrySizing\<close> is
  \<open>account-subscription-runtime-sizing.service.ts\<close>. Shown: which dates are valid and that they are
  the printed days, that a range has all its days, when a price is usable and in which phase,
  that the quantity is the largest whole one that the maximum allows, every error of the sizing.

  \<^bold>\<open>Risk.\<close> \<open>RuntimeConfig\<close> is \<open>config.service.ts\<close>; \<open>EntryLimits\<close>, \<open>EntryUsage\<close> and \<open>EntrySession\<close> are
  \<open>trading-account-entry-risk-limits.service.ts\<close>, \<open>trading-account-entry-risk-usage.service.ts\<close> and
  \<open>entry-session-guard.service.ts\<close>; \<open>RiskGate\<close> and \<open>OrderRisk\<close> are \<open>risk-gate.service.ts\<close>. The broker
  account, the session reader, the clock and the zone are fields of \<open>riskEnv\<close>. \<open>OrderRiskSafety\<close>
  states the specification of an admissible order and proves that the gate decides it, that an
  allowed entry keeps every limit, and that orders that are not entries ignore the limits.

  \<^bold>\<open>Claims.\<close> \<open>LifecycleStatus\<close> has the status lists and the transition table of
  \<open>entry-lifecycle-status.service.ts\<close> and its neighbours; \<open>DeliveryEvidence\<close> is
  \<open>entry-delivery-evidence.service.ts\<close>; \<open>ExposureClaim\<close> is \<open>entry-exposure-claim.service.ts\<close> with
  the tables it writes and their constraints (migrations \<open>20261017120000\<close> and
  \<open>20261017130000\<close>). A transaction is a function of the database that commits a new one or
  throws; an operation that takes the advisory lock of the account and security is atomic, a
  compare-and-set also takes the database that its earlier reads saw. \<open>createIntent\<close> of an
  acquisition is a parameter that writes no claim. \<open>ClaimMaintenance\<close> has the writers outside these
  operations: the lease and the attempt time of a recovery attempt (\<open>entry-dispatch-recovery.service.ts\<close>), the release
  of the claim of an adopted position, the two transactions of the rollout
  (\<open>entry-exposure-readiness.service.ts\<close>) and the authorization event of an operator
  (\<open>entry-exposure-remediation.service.ts\<close>); the reports and previews of the last two services, which choose
  what these transactions are applied to, are not modelled. \<open>ClaimSafety\<close> runs every writer of claims and claim events,
  the recording of outcomes and the verified and terminal releases included, in any order (\<open>claimStep\<close>, an instance of the
  locale \<open>opMachine\<close>) and proves that the tables stay well-formed, histories only grow, released
  claims are final, acquisitions are exclusive and repeatable, and releases have evidence.

  \<^bold>\<open>The broker boundary.\<close> \<open>Actions\<close> has the calls of a workflow on a state, with \<open>throw\<close>,
  \<open>catch\<close> and the death of the process, and the errors of broker writes
  (\<open>src/errors/broker-write-delivery-error.ts\<close>). \<open>BrokerBoundary\<close> is \<open>submitOrderToBroker\<close> of \<open>place-order.service.ts\<close>.
  Its environment gives what other transactions do before each await, which database calls
  fail before or after they take effect, when the process dies, and what the broker, the
  market-policy guard and the observers do. \<open>OpenOrders\<close> is the paginated reading of
  \<open>integrations/alpaca/orders.adapter.ts\<close>. \<open>BoundarySafety\<close> proves what the phase of a run tells of
  the broker, that nothing is sent before every check, and that the marker of a sent order stays recorded.

  \<^bold>\<open>Recovery.\<close> \<open>EntryRecovery\<close> is the core of \<open>entry-dispatch-recovery.service.ts\<close>: recording an
  outcome, the release basis, the assessment, the verified release and the proof of a
  pre-dispatch failure; each read sees the database of its moment, the broker's answers and the
  hash of the fingerprint are parameters. \<open>RecoverySafety\<close> proves what a release rests on, that an
  uncertain delivery is never released by it, and that a sent order is never proved unsent.
  \<open>TerminalRelease\<close> is the release of \<open>entry-exposure-claim.service.ts\<close> after a terminal broker order
  and after a closed position; \<open>TerminalSafety\<close> proves that it leaves no exposure. \<open>HeldClaims\<close> proves that a sent order
  keeps its claim: whatever claim transactions follow, the claim is held until an outcome or a not-sent record follows its
  marker, apart from the release after a terminal order, which rests on the broker's own records. \<open>ReleaseRouting\<close> is
  what \<open>entry-dispatch-recovery.service.ts\<close> does when a release fails. \<open>TerminalSweep\<close> has its sweeps of
  terminal claims and abandoned admissions: the classification of the evidence, the
  attempt under its lease and its recorded result. \<open>SweepSafety\<close> proves on which evidence a sweep acts, that no sweep
  adds evidence that a sent order was never sent, and what a sweep may infer from a block reason.

  \<^bold>\<open>The worker.\<close> \<open>SubscriptionInput\<close> is \<open>resolveSubscriptionOrderInput\<close> of \<open>subscription.service.ts\<close>.
  \<open>OrderWorker\<close> and \<open>WorkerFailure\<close> are the processing of pending intents in \<open>src/src/workers/order.worker.ts\<close>
  (the claim of the intent, the recheck of the gate, the submission and its records; the handler of a
  failure; the batch), \<open>StaleRecovery\<close> is its recovery of stale submitting intents. They are actions
  on the state of the boundary: the database, the phase, the orders sent. Each await has a number, at
  which the environment decides what other transactions have done and whether the call fails before or
  after its effect; an operation of several reads sees the database of each moment. Parameters are the
  schema that validates a stored request, the broker, the codes of library errors and the environment of the
  gate. \<open>WorkerFacts\<close> has the calculus of what actions keep: its locale \<open>workerFact\<close> states which facts of
  the database every operation of the worker keeps, interpreted for the well-formedness of the claims, for their
  history and for an intent that is no longer pending. \<open>WorkerSafety\<close> proves that an intent is sent at most
  once, what the events that the worker records of a failed submission say, and that the recovery never denies an order
  that was sent.

  \<^bold>\<open>Polling.\<close> \<open>AdaptivePolling\<close> is \<open>adaptive-polling.service.ts\<close> with the selection of
  \<open>submitted-order-sync-selection.service.ts\<close>; \<open>PollingSafety\<close> runs its operations in any order.

  \<^bold>\<open>Exits.\<close> \<open>ExitState\<close> has the tables of the exit path, its environment and
  \<open>position-exit-state.service.ts\<close>; the tables are columns of those of the entry path, read and written here
  with other columns, so they have records of their own. \<open>ExactDecimal\<close> and \<open>VerifiedExit\<close> are
  \<open>verified-exit-submission.service.ts\<close>, the only path of an exit order to the broker. \<open>ClosePosition\<close> is
  \<open>close-position.service.ts\<close>, \<open>TrailingStop\<close> is \<open>trailing-stop-exit.service.ts\<close>, \<open>ExitEvaluator\<close> is
  \<open>protective-order-sync.service.ts\<close> and \<open>evaluateExitsForAccount\<close> of \<open>exit-evaluator.service.ts\<close>. Awaits are
  numbered as at the entry boundary: before each one other transactions may run, and a database call may fail
  before or after its effect; the gaps between the numbers leave room for the longest branch. Parameters are the
  broker, the account lock, the live-write authorization and the authority of a paper account; system events and
  operational attention are awaits without modelled effect. \<open>ExitRules\<close> has the calculus of actions that send
  nothing, send at most one order, or keep a fact of the tables. \<open>ExitSafety\<close> proves that the verification
  accepts exactly the exits whose quantities agree, and that only such an exit is sent; \<open>CloseSafety\<close> that at most
  one close of a position stands, and what a failed close leaves; \<open>TrailingSafety\<close> that a trailing stop that was
  blocked before any write is recorded as uncertain and not sent again; \<open>EvaluatorSafety\<close> when a
  position is closed, that a failing position does not stop the others, and that the reported failures are exactly
  the positions that failed; \<open>ExitInvariant\<close> that the exit states
  stay well formed (another instance of \<open>opMachine\<close>).

  \<^bold>\<open>Bounds.\<close> No definition uses fuel beyond the bounds of the code: the pagination of the open orders ends
  after at most \<open>COMPLETE_OPEN_ORDER_MAX_PAGES\<close> requests, and a chain of replaced orders is followed ten times.

  \<^bold>\<open>Not modelled.\<close> The web application, the HTTP surface, authentication, provider adapters, reports
  and scripts hold no decision of the two paths. System events and log lines are side effects
  without readers here; where a failure of their write would end an operation, the write is an await that
  changes no modelled table. Not modelled yet, in the order in which they are planned: the close of a
  remaining exposure (\<open>remaining-exposure-close.service.ts\<close>), the enumeration of the accounts and the workflow
  runner around the workers, the admission of an entry (\<open>submitOrder\<close>), the sync of submitted orders, the
  market-policy guard, and the reconciliation.
\<close>

end
